(* ===== verification/Prelude.thy ===== *)
theory Prelude
  imports Main "HOL-Library.Char_ord" "HOL-Library.List_Lexorder"
begin

text \<open>
  The shared part of the development: the scalar types of the model, the transaction monad in
  which every service method is written (a method runs on the database, and either raises or
  returns a value and the new database), the two notions every component proves of its
  operations (\<open>keeps\<close>, an invariant survives; \<open>frame\<close>, a part of the database is untouched),
  and the list lemmas on tables of rows.
\<close>

section \<open>Scalar types\<close>

text \<open>
  UUIDs are natural numbers (a UUID is a 128-bit number, and the fixed ids of
  \<open>src/core/constants.py\<close> are 0 and 2). Time is UTC microseconds since the epoch, a date is a
  day number. Python's \<open>int\<close> is \<open>int\<close>; the width of a PostgreSQL column is a range check where
  a row is written.
\<close>

type_synonym uuid = nat
type_synonym timestamp = int
type_synonym date = int

definition usecs_per_day :: int where
  "usecs_per_day = 86400000000"

definition date_of :: "timestamp \<Rightarrow> date" where
  "date_of t = t div usecs_per_day"

definition midnight :: "date \<Rightarrow> timestamp" where
  "midnight d = d * usecs_per_day"

definition int4 :: "int \<Rightarrow> bool" where
  "int4 x \<longleftrightarrow> - (2 ^ 31) \<le> x \<and> x < 2 ^ 31"

definition int8 :: "int \<Rightarrow> bool" where
  "int8 x \<longleftrightarrow> - (2 ^ 63) \<le> x \<and> x < 2 ^ 63"

lemma date_of_range:
  "date_of t = d \<longleftrightarrow> midnight d \<le> t \<and> t < midnight (d + 1)"
proof -
  have "(t div 86400000000 = d) = (d * 86400000000 \<le> t \<and> t < (d + 1) * 86400000000)"
    by auto
  then show ?thesis
    by (simp add: date_of_def midnight_def usecs_per_day_def)
qed

section \<open>The transaction monad\<close>

text \<open>
  A computation inside \<open>async with self.uow\<close>: a function of the state that raises (\<open>Inl\<close>) or
  returns a value with the new state (\<open>Inr\<close>).
\<close>

type_synonym ('s, 'e, 'a) tx = "'s \<Rightarrow> 'e + ('a \<times> 's)"

named_theorems tx_iff \<open>when a computation returns\<close>
named_theorems keeps_intro \<open>rules for keeps\<close>
named_theorems frame_intro \<open>rules for frame\<close>
named_theorems moves_intro \<open>rules for moves\<close>

definition tx_ret :: "'a \<Rightarrow> ('s, 'e, 'a) tx" where
  "tx_ret x s = Inr (x, s)"

definition tx_raise :: "'e \<Rightarrow> ('s, 'e, 'a) tx" where
  "tx_raise e s = Inl e"

definition tx_bind :: "('s, 'e, 'a) tx \<Rightarrow> ('a \<Rightarrow> ('s, 'e, 'b) tx) \<Rightarrow> ('s, 'e, 'b) tx" where
  "tx_bind m f s = (case m s of Inl e \<Rightarrow> Inl e | Inr (x, s') \<Rightarrow> f x s')"

definition tx_get :: "('s \<Rightarrow> 'a) \<Rightarrow> ('s, 'e, 'a) tx" where
  "tx_get f s = Inr (f s, s)"

definition tx_modify :: "('s \<Rightarrow> 's) \<Rightarrow> ('s, 'e, unit) tx" where
  "tx_modify f s = Inr ((), f s)"

definition tx_raise_if :: "bool \<Rightarrow> 'e \<Rightarrow> ('s, 'e, unit) tx" where
  "tx_raise_if b e s = (if b then Inl e else Inr ((), s))"

definition tx_require :: "'a option \<Rightarrow> 'e \<Rightarrow> ('s, 'e, 'a) tx" where
  "tx_require v e s = (case v of None \<Rightarrow> Inl e | Some x \<Rightarrow> Inr (x, s))"

definition tx_lift :: "'e + 'a \<Rightarrow> ('s, 'e, 'a) tx" where
  "tx_lift r s = (case r of Inl e \<Rightarrow> Inl e | Inr x \<Rightarrow> Inr (x, s))"

primrec tx_for :: "('x \<Rightarrow> ('s, 'e, unit) tx) \<Rightarrow> 'x list \<Rightarrow> ('s, 'e, unit) tx" where
  "tx_for f [] = tx_ret ()"
| "tx_for f (x # xs) = tx_bind (f x) (\<lambda>_. tx_for f xs)"

definition tx_when :: "bool \<Rightarrow> ('s, 'e, unit) tx \<Rightarrow> ('s, 'e, unit) tx" where
  "tx_when b m = (if b then m else tx_ret ())"

definition tx_map_error :: "('e \<Rightarrow> 'e) \<Rightarrow> ('s, 'e, 'a) tx \<Rightarrow> ('s, 'e, 'a) tx" where
  "tx_map_error f m s = (case m s of Inl e \<Rightarrow> Inl (f e) | Inr r \<Rightarrow> Inr r)"

lemma tx_ret_iff [tx_iff]: "tx_ret x s = Inr (y, s') \<longleftrightarrow> y = x \<and> s' = s"
  by (auto simp: tx_ret_def)

lemma tx_raise_iff [tx_iff]: "tx_raise e s = Inr (y, s') \<longleftrightarrow> False"
  by (auto simp: tx_raise_def)

lemma tx_bind_iff [tx_iff]:
  "tx_bind m f s = Inr (y, s') \<longleftrightarrow> (\<exists>x s1. m s = Inr (x, s1) \<and> f x s1 = Inr (y, s'))"
  by (auto simp: tx_bind_def split: sum.splits)

lemma tx_get_iff [tx_iff]: "tx_get f s = Inr (y, s') \<longleftrightarrow> y = f s \<and> s' = s"
  by (auto simp: tx_get_def)

lemma tx_modify_iff [tx_iff]: "tx_modify f s = Inr (y, s') \<longleftrightarrow> s' = f s"
  by (auto simp: tx_modify_def)

lemma tx_raise_if_iff [tx_iff]: "tx_raise_if b e s = Inr (y, s') \<longleftrightarrow> \<not> b \<and> s' = s"
  by (auto simp: tx_raise_if_def)

lemma tx_require_iff [tx_iff]: "tx_require v e s = Inr (y, s') \<longleftrightarrow> v = Some y \<and> s' = s"
  by (auto simp: tx_require_def split: option.splits)

lemma tx_lift_iff [tx_iff]: "tx_lift r s = Inr (y, s') \<longleftrightarrow> r = Inr y \<and> s' = s"
  by (auto simp: tx_lift_def split: sum.splits)

lemma tx_when_iff [tx_iff]:
  "tx_when b m s = Inr (y, s') \<longleftrightarrow> (if b then m s = Inr (y, s') else s' = s)"
  by (auto simp: tx_when_def tx_ret_def)

lemma tx_map_error_iff [tx_iff]: "tx_map_error f m s = Inr (y, s') \<longleftrightarrow> m s = Inr (y, s')"
  by (auto simp: tx_map_error_def split: sum.splits)

text \<open>The equations that run a computation step by step.\<close>

lemma tx_run_ret: "tx_ret x s = Inr (x, s)"
  by (simp add: tx_ret_def)

lemma tx_run_bind_Inr: "m s = Inr (x, s1) \<Longrightarrow> tx_bind m f s = f x s1"
  by (simp add: tx_bind_def)

lemma tx_run_bind_Inl: "m s = Inl e \<Longrightarrow> tx_bind m f s = Inl e"
  by (simp add: tx_bind_def)

lemmas tx_run_defs = tx_ret_def tx_raise_def tx_bind_def tx_get_def tx_modify_def
  tx_raise_if_def tx_require_def tx_lift_def tx_when_def tx_map_error_def

subsection \<open>Invariants and frames\<close>

definition keeps :: "('s \<Rightarrow> bool) \<Rightarrow> ('s, 'e, 'a) tx \<Rightarrow> bool" where
  "keeps P m \<longleftrightarrow> (\<forall>s x s'. P s \<longrightarrow> m s = Inr (x, s') \<longrightarrow> P s')"

definition frame :: "('s \<Rightarrow> 'f) \<Rightarrow> ('s, 'e, 'a) tx \<Rightarrow> bool" where
  "frame f m \<longleftrightarrow> (\<forall>s x s'. m s = Inr (x, s') \<longrightarrow> f s' = f s)"

lemma keepsI: "(\<And>s x s'. P s \<Longrightarrow> m s = Inr (x, s') \<Longrightarrow> P s') \<Longrightarrow> keeps P m"
  by (auto simp: keeps_def)

lemma keepsD: "keeps P m \<Longrightarrow> P s \<Longrightarrow> m s = Inr (x, s') \<Longrightarrow> P s'"
  by (auto simp: keeps_def)

lemma frameI: "(\<And>s x s'. m s = Inr (x, s') \<Longrightarrow> f s' = f s) \<Longrightarrow> frame f m"
  by (auto simp: frame_def)

lemma frameD: "frame f m \<Longrightarrow> m s = Inr (x, s') \<Longrightarrow> f s' = f s"
  by (auto simp: frame_def)

lemma keeps_ret [keeps_intro]: "keeps P (tx_ret x)"
  by (auto simp: keeps_def tx_iff)

lemma keeps_raise [keeps_intro]: "keeps P (tx_raise e)"
  by (auto simp: keeps_def tx_iff)

lemma keeps_bind [keeps_intro]: "keeps P m \<Longrightarrow> (\<And>x. keeps P (f x)) \<Longrightarrow> keeps P (tx_bind m f)"
  unfolding keeps_def tx_bind_iff by blast

lemma keeps_get [keeps_intro]: "keeps P (tx_get f)"
  by (auto simp: keeps_def tx_iff)

lemma keeps_raise_if [keeps_intro]: "keeps P (tx_raise_if b e)"
  by (auto simp: keeps_def tx_iff)

lemma keeps_require [keeps_intro]: "keeps P (tx_require v e)"
  by (auto simp: keeps_def tx_iff)

lemma keeps_lift [keeps_intro]: "keeps P (tx_lift r)"
  by (auto simp: keeps_def tx_iff)

lemma keeps_when [keeps_intro]: "(b \<Longrightarrow> keeps P m) \<Longrightarrow> keeps P (tx_when b m)"
  by (auto simp: keeps_def tx_iff split: if_splits)

lemma keeps_map_error [keeps_intro]: "keeps P m \<Longrightarrow> keeps P (tx_map_error f m)"
  by (auto simp: keeps_def tx_iff)

lemma keeps_if [keeps_intro]: "(b \<Longrightarrow> keeps P m) \<Longrightarrow> (\<not> b \<Longrightarrow> keeps P n) \<Longrightarrow> keeps P (if b then m else n)"
  by auto

lemma keeps_option [keeps_intro]:
  "(v = None \<Longrightarrow> keeps P m) \<Longrightarrow> (\<And>x. v = Some x \<Longrightarrow> keeps P (n x))
   \<Longrightarrow> keeps P (case v of None \<Rightarrow> m | Some x \<Rightarrow> n x)"
  by (cases v) auto

lemma keeps_prod [keeps_intro]:
  "(\<And>x y. keeps P (m x y)) \<Longrightarrow> keeps P (case p of (x, y) \<Rightarrow> m x y)"
  by (cases p) auto

lemma keeps_list_case [keeps_intro]:
  "(v = [] \<Longrightarrow> keeps P m) \<Longrightarrow> (\<And>x xs. v = x # xs \<Longrightarrow> keeps P (n x xs)) \<Longrightarrow> keeps P (case v of [] \<Rightarrow> m | x # xs \<Rightarrow> n x xs)"
  by (cases v) auto

lemma keeps_for [keeps_intro]: "(\<And>x. x \<in> set xs \<Longrightarrow> keeps P (f x)) \<Longrightarrow> keeps P (tx_for f xs)"
  by (induction xs) (auto intro: keeps_intro)

lemma keeps_modify: "(\<And>s. P s \<Longrightarrow> P (f s)) \<Longrightarrow> keeps P (tx_modify f)"
  by (auto simp: keeps_def tx_iff)

lemma frame_keeps: "frame f m \<Longrightarrow> keeps (\<lambda>s. P (f s)) m"
  by (auto simp: keeps_def frame_def)

lemma frame_ret [frame_intro]: "frame f (tx_ret x)"
  by (auto simp: frame_def tx_iff)

lemma frame_raise [frame_intro]: "frame f (tx_raise e)"
  by (auto simp: frame_def tx_iff)

lemma frame_bind [frame_intro]: "frame f m \<Longrightarrow> (\<And>x. frame f (k x)) \<Longrightarrow> frame f (tx_bind m k)"
  unfolding frame_def tx_bind_iff by metis

lemma frame_get [frame_intro]: "frame f (tx_get g)"
  by (auto simp: frame_def tx_iff)

lemma frame_modify [frame_intro]: "(\<And>s. g (f s) = g s) \<Longrightarrow> frame g (tx_modify f)"
  by (auto simp: frame_def tx_iff)

lemma frame_raise_if [frame_intro]: "frame f (tx_raise_if b e)"
  by (auto simp: frame_def tx_iff)

lemma frame_require [frame_intro]: "frame f (tx_require v e)"
  by (auto simp: frame_def tx_iff)

lemma frame_lift [frame_intro]: "frame f (tx_lift r)"
  by (auto simp: frame_def tx_iff)

lemma frame_when [frame_intro]: "(b \<Longrightarrow> frame f m) \<Longrightarrow> frame f (tx_when b m)"
  by (auto simp: frame_def tx_iff split: if_splits)

lemma frame_map_error [frame_intro]: "frame f m \<Longrightarrow> frame f (tx_map_error h m)"
  by (auto simp: frame_def tx_iff)

lemma frame_if [frame_intro]: "(b \<Longrightarrow> frame f m) \<Longrightarrow> (\<not> b \<Longrightarrow> frame f n) \<Longrightarrow> frame f (if b then m else n)"
  by auto

lemma frame_option [frame_intro]:
  "(v = None \<Longrightarrow> frame f m) \<Longrightarrow> (\<And>x. v = Some x \<Longrightarrow> frame f (n x))
   \<Longrightarrow> frame f (case v of None \<Rightarrow> m | Some x \<Rightarrow> n x)"
  by (cases v) auto

lemma frame_prod [frame_intro]:
  "(\<And>x y. frame f (m x y)) \<Longrightarrow> frame f (case p of (x, y) \<Rightarrow> m x y)"
  by (cases p) auto

lemma frame_for [frame_intro]: "(\<And>x. x \<in> set xs \<Longrightarrow> frame f (g x)) \<Longrightarrow> frame f (tx_for g xs)"
  by (induction xs) (auto intro: frame_intro)

subsection \<open>Transitions\<close>

text \<open>The database before and the one after are related by a preorder.\<close>

definition moves :: "('s \<Rightarrow> 's \<Rightarrow> bool) \<Rightarrow> ('s, 'e, 'a) tx \<Rightarrow> bool" where
  "moves R m \<longleftrightarrow> (\<forall>s x s'. m s = Inr (x, s') \<longrightarrow> R s s')"

lemma movesI: "(\<And>s x s'. m s = Inr (x, s') \<Longrightarrow> R s s') \<Longrightarrow> moves R m"
  by (auto simp: moves_def)

lemma movesD: "moves R m \<Longrightarrow> m s = Inr (x, s') \<Longrightarrow> R s s'"
  by (auto simp: moves_def)

lemma moves_still: "reflp R \<Longrightarrow> (\<And>s x s'. m s = Inr (x, s') \<Longrightarrow> s' = s) \<Longrightarrow> moves R m"
  by (auto simp: moves_def reflp_def)

lemma moves_ret [moves_intro]: "reflp R \<Longrightarrow> moves R (tx_ret x)"
  by (rule moves_still) (auto simp: tx_iff)

lemma moves_raise [moves_intro]: "moves R (tx_raise e)"
  by (auto simp: moves_def tx_iff)

lemma moves_bind [moves_intro]:
  "transp R \<Longrightarrow> moves R m \<Longrightarrow> (\<And>x. moves R (f x)) \<Longrightarrow> moves R (tx_bind m f)"
  unfolding moves_def tx_bind_iff transp_def by blast

lemma moves_get [moves_intro]: "reflp R \<Longrightarrow> moves R (tx_get f)"
  by (rule moves_still) (auto simp: tx_iff)

lemma moves_raise_if [moves_intro]: "reflp R \<Longrightarrow> moves R (tx_raise_if b e)"
  by (rule moves_still) (auto simp: tx_iff)

lemma moves_require [moves_intro]: "reflp R \<Longrightarrow> moves R (tx_require v e)"
  by (rule moves_still) (auto simp: tx_iff)

lemma moves_lift [moves_intro]: "reflp R \<Longrightarrow> moves R (tx_lift r)"
  by (rule moves_still) (auto simp: tx_iff)

lemma moves_when [moves_intro]: "reflp R \<Longrightarrow> (b \<Longrightarrow> moves R m) \<Longrightarrow> moves R (tx_when b m)"
  by (auto simp: moves_def tx_iff reflp_def split: if_splits)

lemma moves_map_error [moves_intro]: "moves R m \<Longrightarrow> moves R (tx_map_error f m)"
  by (auto simp: moves_def tx_iff)

lemma moves_if [moves_intro]: "(b \<Longrightarrow> moves R m) \<Longrightarrow> (\<not> b \<Longrightarrow> moves R n) \<Longrightarrow> moves R (if b then m else n)"
  by auto

lemma moves_option [moves_intro]:
  "(v = None \<Longrightarrow> moves R m) \<Longrightarrow> (\<And>x. v = Some x \<Longrightarrow> moves R (n x))
   \<Longrightarrow> moves R (case v of None \<Rightarrow> m | Some x \<Rightarrow> n x)"
  by (cases v) auto

lemma moves_prod [moves_intro]:
  "(\<And>x y. moves R (m x y)) \<Longrightarrow> moves R (case p of (x, y) \<Rightarrow> m x y)"
  by (cases p) auto

lemma moves_list_case [moves_intro]:
  "(v = [] \<Longrightarrow> moves R m) \<Longrightarrow> (\<And>x xs. v = x # xs \<Longrightarrow> moves R (n x xs)) \<Longrightarrow> moves R (case v of [] \<Rightarrow> m | x # xs \<Rightarrow> n x xs)"
  by (cases v) auto

lemma moves_for [moves_intro]:
  "reflp R \<Longrightarrow> transp R \<Longrightarrow> (\<And>x. x \<in> set xs \<Longrightarrow> moves R (f x)) \<Longrightarrow> moves R (tx_for f xs)"
  by (induction xs) (auto intro: moves_intro)

lemma moves_frame: "frame f m \<Longrightarrow> (\<And>s s'. f s' = f s \<Longrightarrow> R s s') \<Longrightarrow> moves R m"
  by (auto simp: moves_def frame_def)

section \<open>Decimal numbers\<close>

text \<open>\<open>str(n)\<close> of a non-negative number.\<close>

fun decimal :: "nat \<Rightarrow> string" where
  "decimal n = (if n < 10 then [char_of (48 + n)] else decimal (n div 10) @ [char_of (48 + n mod 10)])"

declare decimal.simps [simp del]

section \<open>Sums over rows\<close>

lemma sum_list_map_update:
  fixes w :: "'r \<Rightarrow> int"
  assumes "distinct (map k t)" and "r \<in> set t"
  shows "sum_list (map w (map (\<lambda>x. if k x = k r then f x else x) t))
         = sum_list (map w t) + (w (f r) - w r)"
  using assms
proof (induction t)
  case (Cons a t)
  show ?case
  proof (cases "k a = k r")
    case True
    with Cons.prems have "a = r" by (auto simp: image_iff)
    moreover from Cons.prems True have "\<forall>x\<in>set t. k x \<noteq> k r" by (auto simp: image_iff)
    then have "map (\<lambda>x. if k x = k r then f x else x) t = t"
      by (simp add: map_idI)
    ultimately show ?thesis by (simp add: algebra_simps)
  next
    case False
    with Cons show ?thesis by (auto simp: algebra_simps)
  qed
qed simp

lemma sum_list_filter_map_if:
  "sum_list (map w (filter Q t)) = sum_list (map (\<lambda>x. if Q x then (w x :: int) else 0) t)"
  by (induction t) auto

lemma sum_list_map_add_int:
  "sum_list (map (\<lambda>x. (f x :: int) + g x) t) = sum_list (map f t) + sum_list (map g t)"
  by (induction t) auto

lemma find_Some_in: "find P t = Some r \<Longrightarrow> r \<in> set t \<and> P r"
  by (auto simp: find_Some_iff)

lemma find_None_all: "find P t = None \<longleftrightarrow> (\<forall>r\<in>set t. \<not> P r)"
  by (auto simp: find_None_iff)

lemma find_map_key:
  "(\<And>x. Q (f x) = Q x) \<Longrightarrow> find Q (map f t) = map_option f (find Q t)"
  by (induction t) auto

lemma find_append: "find P (xs @ ys) = (case find P xs of None \<Rightarrow> find P ys | Some x \<Rightarrow> Some x)"
  by (induction xs) auto

lemma find_filter: "(\<And>x. P x \<Longrightarrow> Q x) \<Longrightarrow> find P (filter Q xs) = find P xs"
  by (induction xs) auto

lemma distinct_key_eq:
  "distinct (map k t) \<Longrightarrow> x \<in> set t \<Longrightarrow> y \<in> set t \<Longrightarrow> k x = k y \<Longrightarrow> x = y"
  by (induction t) (auto simp: image_iff)

section \<open>Quantities per key\<close>

definition total_of :: "('k \<times> int) list \<Rightarrow> 'k \<Rightarrow> int" where
  "total_of items k = sum_list (map snd (filter (\<lambda>it. fst it = k) items))"

lemma total_of_simps [simp]:
  "total_of [] k = 0" "total_of (it # items) k = (if fst it = k then snd it else 0) + total_of items k"
  "total_of (items @ items') k = total_of items k + total_of items' k"
  by (simp_all add: total_of_def)

lemma total_of_absent: "k \<notin> fst ` set items \<Longrightarrow> total_of items k = 0"
  by (induction items) auto

lemma total_of_nonneg: "(\<And>it. it \<in> set items \<Longrightarrow> 0 \<le> snd it) \<Longrightarrow> 0 \<le> total_of items k"
  unfolding total_of_def by (intro sum_list_nonneg) auto

lemma total_of_ge:
  assumes "(k, d) \<in> set items" "\<And>it. it \<in> set items \<Longrightarrow> 0 < snd it"
  shows "d \<le> total_of items k"
  using assms
proof (induction items)
  case (Cons it items)
  have "0 \<le> total_of items k"
    using Cons.prems(2) by (intro total_of_nonneg) (auto intro: less_imp_le)
  with Cons show ?case by (cases "it = (k, d)") fastforce+
qed simp

lemma total_of_once: "distinct (map fst items) \<Longrightarrow> (k, d) \<in> set items \<Longrightarrow> total_of items k = d"
proof (induction items)
  case (Cons it items)
  show ?case
  proof (cases "it = (k, d)")
    case True
    then show ?thesis using Cons.prems by (simp add: total_of_absent)
  next
    case False
    then have "(k, d) \<in> set items" using Cons.prems by auto
    then have "fst it \<noteq> k" using Cons.prems(1) by (auto simp: image_iff)
    with Cons False show ?thesis by auto
  qed
qed simp

end
