(* ===== verification/Base.thy ===== *)
theory Base
  imports Prelude
begin

text \<open>
  The base of every table: \<open>BaseModel\<close> (\<open>src/infrastructure/database/base.py\<close>) as an
  extensible record, and the generic queries of \<open>BaseRepository\<close>
  (\<open>src/common/repository.py\<close>) as functions on a table, a list of rows in insertion order.
  They are polymorphic in the columns a model adds, as the Python class is generic in
  \<open>ModelType\<close>. The lemmas say what a lookup returns after an insert, an update or a delete.
\<close>

record base_model =
  row_id :: uuid
  is_active :: bool
  created_at :: timestamp
  updated_at :: timestamp

type_synonym 'r table = "'r base_model_scheme list"

section \<open>Queries\<close>

definition tbl_get :: "uuid \<Rightarrow> bool \<Rightarrow> 'r table \<Rightarrow> 'r base_model_scheme option" where
  "tbl_get i active_only t = find (\<lambda>r. row_id r = i \<and> (active_only \<longrightarrow> is_active r)) t"

definition tbl_filter_by :: "bool \<Rightarrow> ('r base_model_scheme \<Rightarrow> bool) \<Rightarrow> 'r table \<Rightarrow> 'r table" where
  "tbl_filter_by active_only p t = filter (\<lambda>r. p r \<and> (active_only \<longrightarrow> is_active r)) t"

definition tbl_get_multi ::
  "nat \<Rightarrow> nat \<Rightarrow> bool \<Rightarrow> ('r base_model_scheme \<Rightarrow> bool) \<Rightarrow> 'r table \<Rightarrow> 'r table" where
  "tbl_get_multi skip limit active_only p t = take limit (drop skip (tbl_filter_by active_only p t))"

definition tbl_count :: "bool \<Rightarrow> ('r base_model_scheme \<Rightarrow> bool) \<Rightarrow> 'r table \<Rightarrow> nat" where
  "tbl_count active_only p t = length (tbl_filter_by active_only p t)"

definition tbl_has :: "uuid \<Rightarrow> 'r table \<Rightarrow> bool" where
  "tbl_has i t \<longleftrightarrow> (\<exists>r\<in>set t. row_id r = i)"

text \<open>\<open>Result.scalar_one_or_none()\<close>: no row is \<open>None\<close>, one row is that row, more rows raise.\<close>

definition one_or_none :: "'e \<Rightarrow> 'r list \<Rightarrow> 'e + 'r option" where
  "one_or_none multiple rows =
     (case rows of [] \<Rightarrow> Inr None | [r] \<Rightarrow> Inr (Some r) | _ \<Rightarrow> Inl multiple)"

section \<open>Statements\<close>

definition tbl_add :: "'r base_model_scheme \<Rightarrow> 'r table \<Rightarrow> 'r table" where
  "tbl_add r t = t @ [r]"

text \<open>The base columns of a new row: a fresh id, active, created and updated now.\<close>

definition stamp :: "uuid \<Rightarrow> timestamp \<Rightarrow> 'r base_model_scheme \<Rightarrow> 'r base_model_scheme" where
  "stamp i now r = r\<lparr>row_id := i, is_active := True, created_at := now, updated_at := now\<rparr>"

definition tbl_update ::
  "timestamp \<Rightarrow> uuid \<Rightarrow> ('r base_model_scheme \<Rightarrow> 'r base_model_scheme) \<Rightarrow> 'r table \<Rightarrow> 'r table" where
  "tbl_update now i f t = map (\<lambda>r. if row_id r = i then (f r)\<lparr>updated_at := now\<rparr> else r) t"

definition tbl_archive :: "timestamp \<Rightarrow> uuid \<Rightarrow> 'r table \<Rightarrow> 'r table" where
  "tbl_archive now i t = tbl_update now i (\<lambda>r. r\<lparr>is_active := False\<rparr>) t"

definition tbl_restore :: "timestamp \<Rightarrow> uuid \<Rightarrow> 'r table \<Rightarrow> 'r table" where
  "tbl_restore now i t = tbl_update now i (\<lambda>r. r\<lparr>is_active := True\<rparr>) t"

definition tbl_delete :: "uuid \<Rightarrow> 'r table \<Rightarrow> 'r table" where
  "tbl_delete i t = filter (\<lambda>r. row_id r \<noteq> i) t"

section \<open>Lemmas on tables\<close>

lemma stamp_sel [simp]:
  "row_id (stamp i now r) = i" "is_active (stamp i now r)" "created_at (stamp i now r) = now"
  "updated_at (stamp i now r) = now"
  by (simp_all add: stamp_def)

definition keys_distinct :: "'r table \<Rightarrow> bool" where
  "keys_distinct t \<longleftrightarrow> distinct (map row_id t)"

lemma tbl_get_SomeD:
  "tbl_get i a t = Some r \<Longrightarrow> r \<in> set t \<and> row_id r = i \<and> (a \<longrightarrow> is_active r)"
  by (auto simp: tbl_get_def dest: find_Some_in)

lemma tbl_get_has: "tbl_get i a t = Some r \<Longrightarrow> tbl_has i t"
  by (auto simp: tbl_has_def dest: tbl_get_SomeD)

lemma tbl_get_key:
  assumes "keys_distinct t" "r \<in> set t" "a \<longrightarrow> is_active r"
  shows "tbl_get (row_id r) a t = Some r"
proof (cases "tbl_get (row_id r) a t")
  case None
  with assms show ?thesis by (auto simp: tbl_get_def find_None_all)
next
  case (Some r')
  with assms show ?thesis
    by (auto simp: keys_distinct_def dest: tbl_get_SomeD distinct_key_eq)
qed

lemma tbl_has_add [simp]: "tbl_has i (tbl_add r t) \<longleftrightarrow> tbl_has i t \<or> row_id r = i"
  by (auto simp: tbl_has_def tbl_add_def)

lemma set_tbl_add [simp]: "set (tbl_add r t) = insert r (set t)"
  by (auto simp: tbl_add_def)

lemma keys_distinct_add: "keys_distinct (tbl_add r t) \<longleftrightarrow> keys_distinct t \<and> \<not> tbl_has (row_id r) t"
  by (auto simp: keys_distinct_def tbl_add_def tbl_has_def image_iff)

lemma map_row_id_update:
  "(\<And>r. row_id (f r) = row_id r) \<Longrightarrow> map row_id (tbl_update now i f t) = map row_id t"
  by (auto simp: tbl_update_def)

lemma keys_distinct_update:
  "(\<And>r. row_id (f r) = row_id r) \<Longrightarrow> keys_distinct (tbl_update now i f t) = keys_distinct t"
  by (simp add: keys_distinct_def map_row_id_update)

lemma tbl_has_update:
  "(\<And>r. row_id (f r) = row_id r) \<Longrightarrow> tbl_has j (tbl_update now i f t) = tbl_has j t"
  by (induction t) (auto simp: tbl_update_def tbl_has_def)

lemma tbl_get_update:
  assumes "\<And>r. row_id (f r) = row_id r" and "\<And>r. is_active (f r) = is_active r"
  shows "tbl_get j a (tbl_update now i f t) =
    (if j = i then map_option (\<lambda>r. (f r)\<lparr>updated_at := now\<rparr>) (tbl_get i a t) else tbl_get j a t)"
  using assms by (induction t) (auto simp: tbl_get_def tbl_update_def)

lemma tbl_get_add:
  "tbl_get i a (tbl_add r t) =
    (case tbl_get i a t of Some x \<Rightarrow> Some x
     | None \<Rightarrow> if row_id r = i \<and> (a \<longrightarrow> is_active r) then Some r else None)"
  by (auto simp: tbl_get_def tbl_add_def find_append split: option.splits)

lemma tbl_get_delete: "tbl_get j a (tbl_delete i t) = (if j = i then None else tbl_get j a t)"
  by (induction t) (auto simp: tbl_get_def tbl_delete_def)

lemma keys_distinct_delete: "keys_distinct t \<Longrightarrow> keys_distinct (tbl_delete i t)"
  by (induction t) (auto simp: keys_distinct_def tbl_delete_def)

lemma tbl_has_delete [simp]: "tbl_has j (tbl_delete i t) \<longleftrightarrow> tbl_has j t \<and> j \<noteq> i"
  by (auto simp: tbl_has_def tbl_delete_def)

lemma set_tbl_delete [simp]: "set (tbl_delete i t) = {r \<in> set t. row_id r \<noteq> i}"
  by (auto simp: tbl_delete_def)

lemma in_tbl_update:
  "r' \<in> set (tbl_update now i f t) \<longleftrightarrow>
   (\<exists>r\<in>set t. r' = (if row_id r = i then (f r)\<lparr>updated_at := now\<rparr> else r))"
  by (simp only: tbl_update_def set_map image_iff)

lemma one_or_none_Some [simp]: "one_or_none m rows = Inr (Some r) \<longleftrightarrow> rows = [r]"
  by (auto simp: one_or_none_def split: list.splits)

lemma one_or_none_None [simp]: "one_or_none m rows = Inr None \<longleftrightarrow> rows = []"
  by (auto simp: one_or_none_def split: list.splits)

end
