(* ===== verification/Schema.thy ===== *)
theory Schema
  imports Base
begin

text \<open>
  The data model: the enums and the tables (\<open>enums.py\<close> and \<open>models.py\<close> of each module) and
  the database, one list of rows per table with the server's clock and the source of fresh
  ids. A column keeps its name behind a prefix for its table, an enum member its name behind
  a prefix for its enum.
\<close>

section \<open>Enums\<close>

datatype role = R_SYSTEM | R_ADMIN | R_ACCOUNTANT | R_STOREKEEPER | R_CASHIER | R_COURIER
  | R_CLIENT_B2C | R_CLIENT_B2B

datatype auth_provider = AP_LOCAL | AP_GOOGLE | AP_TELEGRAM | AP_APPLE

datatype product_type = PT_WATER | PT_CONTAINER | PT_EQUIPMENT

datatype account_type = AT_REVENUE | AT_CASH | AT_CARD | AT_BANK | AT_DISCOUNT | AT_CLIENT
  | AT_COURIER | AT_EXPENSE | AT_ADMIN

datatype transaction_status = TS_PENDING | TS_COMPLETED | TS_REJECTED

datatype inventory_type = IT_WAREHOUSE | IT_COURIER | IT_CLIENT | IT_VIRTUAL_LOSS | IT_VIRTUAL_VENDOR

datatype transfer_type = TT_COURIER_LOAD | TT_COURIER_RETURN | TT_CLIENT_DELIVERY
  | TT_CLIENT_RETURN | TT_LOSS_WRITE_OFF | TT_INVENTORY_FINDING | TT_INITIAL_BALANCE
  | TT_WAREHOUSE_SALE | TT_WAREHOUSE_TARA_RETURN

datatype transfer_status = TRS_DRAFT | TRS_COMPLETED | TRS_CANCELLED

datatype order_status = OS_NEW | OS_ASSIGNED | OS_IN_TRANSIT | OS_ARRIVED | OS_DELIVERED
  | OS_PICKUP_COMPLETED | OS_CANCELLED

fun order_status_value :: "order_status \<Rightarrow> string" where
  "order_status_value OS_NEW = ''new''"
| "order_status_value OS_ASSIGNED = ''assigned''"
| "order_status_value OS_IN_TRANSIT = ''in_transit''"
| "order_status_value OS_ARRIVED = ''arrived''"
| "order_status_value OS_DELIVERED = ''delivered''"
| "order_status_value OS_PICKUP_COMPLETED = ''pickup_completed''"
| "order_status_value OS_CANCELLED = ''cancelled''"

datatype sale_type = SALE_DELIVERY | SALE_WAREHOUSE_PICKUP

datatype payment_method = PM_CASH | PM_CARD | PM_CONTRACT

datatype contract_status = CS_DRAFT | CS_ACTIVE | CS_SUSPENDED | CS_TERMINATED | CS_EXPIRED

datatype invoice_status = IS_DRAFT | IS_ISSUED | IS_PARTIALLY_PAID | IS_PAID | IS_OVERDUE | IS_CANCELLED

section \<open>Constants\<close>

definition SYSTEM_USER_ID :: uuid where
  "SYSTEM_USER_ID = 0"

definition WALKIN_USER_ID :: uuid where
  "WALKIN_USER_ID = 2"

definition PROTECTED_USER_IDS :: "uuid set" where
  "PROTECTED_USER_IDS = {SYSTEM_USER_ID, WALKIN_USER_ID}"

section \<open>Tables\<close>

record user_row = base_model +
  usr_username :: string
  usr_role :: role

record identity_row = base_model +
  idn_user_id :: uuid
  idn_provider :: auth_provider
  idn_provider_identity_id :: string
  idn_password_hash :: "string option"

record phone_row = base_model +
  phn_user_id :: uuid
  phn_phone :: string
  phn_label :: "string option"

record product_row = base_model +
  prd_returnable_item_id :: "uuid option"
  prd_type :: product_type
  prd_name :: string
  prd_price :: int
  prd_attributes :: "(string \<times> string) list"

record account_row = base_model +
  acc_user_id :: uuid
  acc_type :: account_type
  acc_name :: string
  acc_balance :: int

record transaction_row = base_model +
  txn_from_id :: uuid
  txn_to_id :: uuid
  txn_order_id :: "uuid option"
  txn_verified_by_id :: "uuid option"
  txn_amount :: int
  txn_status :: transaction_status
  txn_reason :: string

record inventory_row = base_model +
  inv_user_id :: uuid
  inv_type :: inventory_type
  inv_name :: string

record transfer_row = base_model +
  trf_from_id :: uuid
  trf_to_id :: uuid
  trf_created_by_id :: uuid
  trf_accepted_by_id :: "uuid option"
  trf_order_id :: "uuid option"
  trf_reason :: "string option"
  trf_route_sheet_id :: "uuid option"
  trf_type :: transfer_type
  trf_status :: transfer_status

record transfer_item_row = base_model +
  tri_transfer_id :: uuid
  tri_product_id :: uuid
  tri_quantity :: int

record balance_row = base_model +
  bal_inventory_id :: uuid
  bal_product_id :: uuid
  bal_quantity :: int

record stock_transaction_row = base_model +
  stx_product_id :: uuid
  stx_transfer_id :: uuid
  stx_from_id :: uuid
  stx_to_id :: uuid
  stx_quantity :: int

record order_row = base_model +
  ord_client_id :: uuid
  ord_client_inventory_id :: uuid
  ord_courier_id :: "uuid option"
  ord_payment_method :: payment_method
  ord_status :: order_status
  ord_total_amount :: int
  ord_capitalization_applied :: bool
  ord_sale_type :: sale_type
  ord_warehouse_id :: "uuid option"
  ord_contract_id :: "uuid option"
  ord_quantities_reserved :: bool
  ord_cancellation_reason :: "string option"
  ord_notes :: "string option"

record order_item_row = base_model +
  oit_order_id :: uuid
  oit_product_id :: uuid
  oit_quantity :: int
  oit_unit_price :: int

definition order_item_total :: "order_item_row \<Rightarrow> int" where
  "order_item_total it = oit_quantity it * oit_unit_price it"

record order_status_log_row = base_model +
  osl_order_id :: uuid
  osl_old_status :: "order_status option"
  osl_new_status :: order_status
  osl_changed_by_id :: "uuid option"
  osl_reason :: "string option"

record contract_row = base_model +
  con_number :: string
  con_client_id :: uuid
  con_status :: contract_status
  con_start_date :: date
  con_end_date :: "date option"
  con_payment_due_days :: int
  con_legal_name :: string
  con_inn :: string
  con_notes :: "string option"
  con_signed_at :: "timestamp option"
  con_signed_by_id :: "uuid option"
  con_suspended_at :: "timestamp option"
  con_suspension_reason :: "string option"
  con_terminated_at :: "timestamp option"
  con_termination_reason :: "string option"

record price_item_row = base_model +
  cpi_contract_id :: uuid
  cpi_product_id :: uuid
  cpi_price :: int
  cpi_quantity :: int
  cpi_quantity_used :: int

record invoice_row = base_model +
  ivc_number :: string
  ivc_contract_id :: uuid
  ivc_status :: invoice_status
  ivc_period_from :: date
  ivc_period_to :: date
  ivc_amount :: int
  ivc_due_date :: "date option"
  ivc_issued_at :: "timestamp option"
  ivc_paid_at :: "timestamp option"

record contract_status_log_row = base_model +
  csl_contract_id :: uuid
  csl_from_status :: "contract_status option"
  csl_to_status :: contract_status
  csl_changed_by_id :: "uuid option"
  csl_reason :: "string option"

record amendment_row = base_model +
  amd_contract_id :: uuid
  amd_number :: string
  amd_description :: string
  amd_effective_date :: date
  amd_created_by_id :: "uuid option"

section \<open>The database\<close>

record db =
  users :: "user_row list"
  identities :: "identity_row list"
  phone_numbers :: "phone_row list"
  products :: "product_row list"
  accounts :: "account_row list"
  transactions :: "transaction_row list"
  inventories :: "inventory_row list"
  stock_transfers :: "transfer_row list"
  stock_transfer_items :: "transfer_item_row list"
  inventory_balances :: "balance_row list"
  stock_transactions :: "stock_transaction_row list"
  orders :: "order_row list"
  order_items :: "order_item_row list"
  order_status_logs :: "order_status_log_row list"
  contracts :: "contract_row list"
  contract_price_items :: "price_item_row list"
  invoices :: "invoice_row list"
  contract_status_logs :: "contract_status_log_row list"
  contract_amendments :: "amendment_row list"
  clock :: timestamp
  next_id :: uuid

definition empty_db :: db where
  "empty_db = \<lparr>users = [], identities = [], phone_numbers = [], products = [], accounts = [],
     transactions = [], inventories = [], stock_transfers = [], stock_transfer_items = [],
     inventory_balances = [], stock_transactions = [], orders = [], order_items = [],
     order_status_logs = [], contracts = [], contract_price_items = [], invoices = [],
     contract_status_logs = [], contract_amendments = [], clock = 0, next_id = 100\<rparr>"

end
