(* ===== verification/Errors.thy ===== *)
theory Errors
  imports Schema
begin

text \<open>
  The exceptions, one constructor per class of the \<open>exceptions.py\<close> files that the modelled
  code raises, with the \<open>details\<close> it carries (the Russian messages are left out), the errors
  the database raises, and the HTTP response the handlers of \<open>src/api/exceptions\<close> make of them.
\<close>

record tara_shortage =
  sh_product_id :: uuid
  sh_product_name :: string
  sh_returnable_item_id :: uuid
  sh_required :: int
  sh_available :: int
  sh_deficit :: int

datatype http_error = NotFoundError string | BadRequestError string | UnauthorizedError string
  | ForbiddenError string | ConflictError string | UnprocessableEntityError string
  | ServiceUnavailableError string

datatype order_error = OrderNotFoundError uuid
  | InvalidOrderStatusError uuid order_status "order_status option" "order_status option"
      "order_status list"
  | OrderAccessDeniedError uuid uuid
  | EmptyCartError
  | ProductsUnavailableError "uuid list"
  | CourierAssignmentError uuid uuid
  | InsufficientTaraError "tara_shortage list"
  | ClientInventoryNotFoundError uuid
  | DeliveryQuantityExceededError uuid int int
  | CannotRemoveLastItemError
  | InvalidPickupOperationError uuid
  | CatalogServiceUnavailableError

datatype contract_error = ContractNotFoundError uuid
  | ContractNotActiveError uuid contract_status
  | ContractExpiredError uuid
  | QuantityLimitExceededError uuid uuid int int int
  | ProductNotInContractError uuid uuid
  | ContractAlreadyActiveError uuid uuid
  | ContractStatusTransitionError uuid contract_status contract_status
  | ContractRequiredError uuid
  | PriceItemHasUsageError uuid uuid int
  | ContractPriceItemNotFoundError uuid uuid
  | ContractAccessDeniedError uuid uuid
  | InvoiceNotFoundError uuid
  | InvalidInvoiceTransitionError uuid invoice_status "invoice_status list"
  | DuplicateInvoicePeriodError uuid date date
  | DuplicateAmendmentNumberError uuid string

datatype inventory_error = VirtualInventoryConfigurationError inventory_type
  | InventoryNotFoundError uuid
  | TransferNotFoundError uuid
  | RouteLoopError uuid
  | InsufficientStockError "(uuid \<times> int) list"
  | InventoryTypeMismatchError uuid inventory_type
  | CourierAlreadyAssignedError uuid uuid
  | ArchivedProductsInTransferError "uuid list"
  | InvSearchTooShortError nat
  | InvSearchTooLongError nat
  | InvSearchUuidNotAllowedError
  | InvDateRangeInvalidError
  | InvDatePresetConflictError
  | QuantityRangeInvalidError
  | QuantityConflictError
  | InvPaginationTooDeepError int int

datatype finance_error = AccountNotFoundError "uuid option"
  | TransactionNotFoundError uuid
  | SelfTransferError uuid
  | DateRangeInvalidError
  | AmountRangeInvalidError
  | AmountConflictError
  | DatePresetConflictError
  | PaginationTooDeepError int int
  | InvalidTransactionStatusError uuid transaction_status
  | SearchTooShortError nat
  | SearchTooLongError nat
  | SearchUuidNotAllowedError

datatype catalog_error = ProductNotFoundError uuid
  | ProductHasStockError uuid
  | ProductHasAssociatedProductsError uuid
  | InvalidReturnableItemError

datatype user_error = UserNotFoundError uuid
  | UserAlreadyExistsError string
  | UserUpdateConflictError uuid
  | UserDeleteConflictError uuid
  | StaffPasswordRequiredError uuid role
  | PhoneAlreadyExistsError string
  | PhoneNotFoundError uuid
  | PhoneLimitExceededError uuid nat
  | SystemUserDeletionForbiddenError uuid

text \<open>The application services for clients and couriers have errors of their own.\<close>

datatype client_error = ClientNotFoundError uuid | ClientAlreadyExistsError string

datatype courier_error = CourierNotFoundError uuid | CourierAlreadyExistsError string

text \<open>
  What PostgreSQL and SQLAlchemy raise: a violated CHECK, FOREIGN KEY or UNIQUE constraint by
  its name or table, a number out of the column's range, an exception of a trigger,
  \<open>MultipleResultsFound\<close> of \<open>scalar_one_or_none\<close> and \<open>NoResultFound\<close> of \<open>scalar_one\<close>.
\<close>

datatype db_error = CheckViolation string | ForeignKeyViolation string | UniqueViolation string
  | NotNullViolation string
  | NumericOutOfRange | RaiseException string | MultipleResultsFound
  | NoResultFound

text \<open>What SQLAlchemy reports as \<open>IntegrityError\<close>.\<close>

fun is_integrity_error :: "db_error \<Rightarrow> bool" where
  "is_integrity_error (CheckViolation c) = True"
| "is_integrity_error (ForeignKeyViolation c) = True"
| "is_integrity_error (UniqueViolation c) = True"
| "is_integrity_error (NotNullViolation c) = True"
| "is_integrity_error e = False"

datatype app_error = HttpErr http_error | OrderErr order_error | ContractErr contract_error
  | InventoryErr inventory_error | FinanceErr finance_error | CatalogErr catalog_error
  | UserErr user_error | ClientErr client_error | CourierErr courier_error
  | DbErr db_error | ValueErr string | NotImplementedErr string | KeyErr string

section \<open>The HTTP status of an error\<close>

fun http_error_status :: "http_error \<Rightarrow> nat" where
  "http_error_status (NotFoundError c) = 404"
| "http_error_status (BadRequestError c) = 400"
| "http_error_status (UnauthorizedError c) = 401"
| "http_error_status (ForbiddenError c) = 403"
| "http_error_status (ConflictError c) = 409"
| "http_error_status (UnprocessableEntityError c) = 422"
| "http_error_status (ServiceUnavailableError c) = 503"

fun http_error_code :: "http_error \<Rightarrow> string" where
  "http_error_code (NotFoundError c) = c"
| "http_error_code (BadRequestError c) = c"
| "http_error_code (UnauthorizedError c) = c"
| "http_error_code (ForbiddenError c) = c"
| "http_error_code (ConflictError c) = c"
| "http_error_code (UnprocessableEntityError c) = c"
| "http_error_code (ServiceUnavailableError c) = c"

fun order_error_base :: "order_error \<Rightarrow> http_error" where
  "order_error_base (OrderNotFoundError i) = NotFoundError ''ORDER_NOT_FOUND''"
| "order_error_base (InvalidOrderStatusError i c e t a) = ConflictError ''INVALID_ORDER_STATUS''"
| "order_error_base (OrderAccessDeniedError u i) = ForbiddenError ''ORDER_ACCESS_DENIED''"
| "order_error_base EmptyCartError = BadRequestError ''EMPTY_CART''"
| "order_error_base (ProductsUnavailableError ps) = ConflictError ''PRODUCTS_UNAVAILABLE''"
| "order_error_base (CourierAssignmentError i c) = ConflictError ''COURIER_ASSIGNMENT_ERROR''"
| "order_error_base (InsufficientTaraError sh) = ConflictError ''INSUFFICIENT_TARA''"
| "order_error_base (ClientInventoryNotFoundError i) = NotFoundError ''CLIENT_INVENTORY_NOT_FOUND''"
| "order_error_base (DeliveryQuantityExceededError p a b) = ConflictError ''DELIVERY_QUANTITY_EXCEEDED''"
| "order_error_base CannotRemoveLastItemError = ConflictError ''CANNOT_REMOVE_LAST_ITEM''"
| "order_error_base (InvalidPickupOperationError i) = ConflictError ''INVALID_PICKUP_OPERATION''"
| "order_error_base CatalogServiceUnavailableError = ServiceUnavailableError ''CATALOG_SERVICE_UNAVAILABLE''"

fun contract_error_base :: "contract_error \<Rightarrow> http_error" where
  "contract_error_base (ContractNotFoundError i) = NotFoundError ''CONTRACT_NOT_FOUND''"
| "contract_error_base (ContractNotActiveError i s) = BadRequestError ''CONTRACT_NOT_ACTIVE''"
| "contract_error_base (ContractExpiredError i) = BadRequestError ''CONTRACT_EXPIRED''"
| "contract_error_base (QuantityLimitExceededError c p l u r) = BadRequestError ''QUANTITY_LIMIT_EXCEEDED''"
| "contract_error_base (ProductNotInContractError c p) = BadRequestError ''PRODUCT_NOT_IN_CONTRACT''"
| "contract_error_base (ContractAlreadyActiveError c e) = ConflictError ''CONTRACT_ALREADY_ACTIVE''"
| "contract_error_base (ContractStatusTransitionError i c t) = ConflictError ''CONTRACT_STATUS_TRANSITION_ERROR''"
| "contract_error_base (ContractRequiredError c) = BadRequestError ''CONTRACT_REQUIRED''"
| "contract_error_base (PriceItemHasUsageError c p u) = ConflictError ''PRICE_ITEM_HAS_USAGE''"
| "contract_error_base (ContractPriceItemNotFoundError c p) = NotFoundError ''CONTRACT_PRICE_ITEM_NOT_FOUND''"
| "contract_error_base (ContractAccessDeniedError u c) = ForbiddenError ''CONTRACT_ACCESS_DENIED''"
| "contract_error_base (InvoiceNotFoundError i) = NotFoundError ''INVOICE_NOT_FOUND''"
| "contract_error_base (InvalidInvoiceTransitionError i c e) = ConflictError ''INVALID_INVOICE_TRANSITION''"
| "contract_error_base (DuplicateInvoicePeriodError c f t) = ConflictError ''DUPLICATE_INVOICE_PERIOD''"
| "contract_error_base (DuplicateAmendmentNumberError c n) = ConflictError ''DUPLICATE_AMENDMENT_NUMBER''"

fun finance_error_base :: "finance_error \<Rightarrow> http_error" where
  "finance_error_base (AccountNotFoundError i) = NotFoundError ''ACCOUNT_NOT_FOUND''"
| "finance_error_base (TransactionNotFoundError i) = NotFoundError ''TRANSACTION_NOT_FOUND''"
| "finance_error_base (SelfTransferError i) = ConflictError ''SELF_TRANSFER_NOT_ALLOWED''"
| "finance_error_base DateRangeInvalidError = BadRequestError ''DATE_RANGE_INVALID''"
| "finance_error_base AmountRangeInvalidError = BadRequestError ''AMOUNT_RANGE_INVALID''"
| "finance_error_base AmountConflictError = BadRequestError ''AMOUNT_CONFLICT''"
| "finance_error_base DatePresetConflictError = BadRequestError ''DATE_PRESET_CONFLICT''"
| "finance_error_base (PaginationTooDeepError p s) = BadRequestError ''PAGINATION_TOO_DEEP''"
| "finance_error_base (InvalidTransactionStatusError i s) = ConflictError ''INVALID_TRANSACTION_STATUS''"
| "finance_error_base (SearchTooShortError n) = BadRequestError ''SEARCH_TOO_SHORT''"
| "finance_error_base (SearchTooLongError n) = BadRequestError ''SEARCH_TOO_LONG''"
| "finance_error_base SearchUuidNotAllowedError = BadRequestError ''SEARCH_UUID_NOT_ALLOWED''"

fun catalog_error_base :: "catalog_error \<Rightarrow> http_error" where
  "catalog_error_base (ProductNotFoundError i) = NotFoundError ''PRODUCT_NOT_FOUND''"
| "catalog_error_base (ProductHasStockError i) = BadRequestError ''PRODUCT_HAS_STOCK''"
| "catalog_error_base (ProductHasAssociatedProductsError i) = BadRequestError ''PRODUCT_HAS_ASSOCIATED_PRODUCTS''"
| "catalog_error_base InvalidReturnableItemError = BadRequestError ''INVALID_RETURNABLE_ITEM''"

fun user_error_base :: "user_error \<Rightarrow> http_error" where
  "user_error_base (UserNotFoundError i) = NotFoundError ''USER_NOT_FOUND''"
| "user_error_base (UserAlreadyExistsError i) = ConflictError ''USER_ALREADY_EXISTS''"
| "user_error_base (UserUpdateConflictError i) = ConflictError ''USER_UPDATE_CONFLICT''"
| "user_error_base (UserDeleteConflictError i) = ConflictError ''USER_DELETE_CONFLICT''"
| "user_error_base (StaffPasswordRequiredError i r) = UnprocessableEntityError ''STAFF_PASSWORD_REQUIRED''"
| "user_error_base (PhoneAlreadyExistsError p) = ConflictError ''PHONE_ALREADY_EXISTS''"
| "user_error_base (PhoneNotFoundError i) = NotFoundError ''PHONE_NOT_FOUND''"
| "user_error_base (PhoneLimitExceededError i n) = UnprocessableEntityError ''PHONE_LIMIT_EXCEEDED''"
| "user_error_base (SystemUserDeletionForbiddenError i) = ForbiddenError ''SYSTEM_USER_DELETION_FORBIDDEN''"

fun client_error_base :: "client_error \<Rightarrow> http_error" where
  "client_error_base (ClientNotFoundError i) = NotFoundError ''CLIENT_NOT_FOUND''"
| "client_error_base (ClientAlreadyExistsError p) = ConflictError ''CLIENT_ALREADY_EXISTS''"

fun courier_error_base :: "courier_error \<Rightarrow> http_error" where
  "courier_error_base (CourierNotFoundError i) = NotFoundError ''COURIER_NOT_FOUND''"
| "courier_error_base (CourierAlreadyExistsError p) = ConflictError ''COURIER_ALREADY_EXISTS''"

text \<open>Among the inventory errors one is a plain \<open>AppException\<close> with status 500.\<close>

fun inventory_error_base :: "inventory_error \<Rightarrow> nat \<times> string" where
  "inventory_error_base (VirtualInventoryConfigurationError v) = (500, ''VIRTUAL_INVENTORY_MISSING'')"
| "inventory_error_base (InventoryNotFoundError i) = (404, ''INVENTORY_NOT_FOUND'')"
| "inventory_error_base (TransferNotFoundError i) = (404, ''TRANSFER_NOT_FOUND'')"
| "inventory_error_base (RouteLoopError i) = (400, ''ROUTE_LOOP_DETECTED'')"
| "inventory_error_base (InsufficientStockError sh) = (409, ''INSUFFICIENT_STOCK'')"
| "inventory_error_base (InventoryTypeMismatchError i a) = (409, ''INVENTORY_TYPE_MISMATCH'')"
| "inventory_error_base (CourierAlreadyAssignedError c t) = (409, ''COURIER_ALREADY_ASSIGNED'')"
| "inventory_error_base (ArchivedProductsInTransferError ps) = (400, ''ARCHIVED_PRODUCTS_IN_TRANSFER'')"
| "inventory_error_base (InvSearchTooShortError n) = (400, ''SEARCH_TOO_SHORT'')"
| "inventory_error_base (InvSearchTooLongError n) = (400, ''SEARCH_TOO_LONG'')"
| "inventory_error_base InvSearchUuidNotAllowedError = (400, ''SEARCH_UUID_NOT_ALLOWED'')"
| "inventory_error_base InvDateRangeInvalidError = (400, ''DATE_RANGE_INVALID'')"
| "inventory_error_base InvDatePresetConflictError = (400, ''DATE_PRESET_CONFLICT'')"
| "inventory_error_base QuantityRangeInvalidError = (400, ''QUANTITY_RANGE_INVALID'')"
| "inventory_error_base QuantityConflictError = (400, ''QUANTITY_CONFLICT'')"
| "inventory_error_base (InvPaginationTooDeepError p n) = (400, ''PAGINATION_TOO_DEEP'')"

definition http_response :: "http_error \<Rightarrow> nat \<times> string" where
  "http_response h = (http_error_status h, http_error_code h)"

text \<open>
  The status and the code of the JSON response: \<open>app_exception_handler\<close> for the application's
  exceptions, \<open>unhandled_exception_handler\<close> for every other.
\<close>

fun error_response :: "app_error \<Rightarrow> nat \<times> string" where
  "error_response (HttpErr h) = http_response h"
| "error_response (OrderErr e) = http_response (order_error_base e)"
| "error_response (ContractErr e) = http_response (contract_error_base e)"
| "error_response (FinanceErr e) = http_response (finance_error_base e)"
| "error_response (CatalogErr e) = http_response (catalog_error_base e)"
| "error_response (UserErr e) = http_response (user_error_base e)"
| "error_response (ClientErr e) = http_response (client_error_base e)"
| "error_response (CourierErr e) = http_response (courier_error_base e)"
| "error_response (InventoryErr e) = inventory_error_base e"
| "error_response (DbErr e) = (500, ''INTERNAL_SERVER_ERROR'')"
| "error_response (ValueErr m) = (500, ''INTERNAL_SERVER_ERROR'')"
| "error_response (NotImplementedErr m) = (500, ''INTERNAL_SERVER_ERROR'')"
| "error_response (KeyErr m) = (500, ''INTERNAL_SERVER_ERROR'')"

section \<open>Computations on the database\<close>

type_synonym 'a dbtx = "(db, app_error, 'a) tx"

text \<open>
  A service method runs its body inside \<open>async with self.uow\<close>
  (\<open>src/infrastructure/database/uow.py\<close>). An exception rolls the session back, so the database
  is the one before; a body that ends has committed. Every method of the services that writes
  commits as its last step before it returns or reads the result back.
\<close>

definition with_uow :: "'a dbtx \<Rightarrow> db \<Rightarrow> (app_error + 'a) \<times> db" where
  "with_uow body s = (case body s of Inl e \<Rightarrow> (Inl e, s) | Inr (x, s') \<Rightarrow> (Inr x, s'))"

lemma with_uow_Inr [simp]: "with_uow body s = (Inr x, s') \<longleftrightarrow> body s = Inr (x, s')"
  by (auto simp: with_uow_def split: sum.splits)

lemma with_uow_Inl [simp]: "with_uow body s = (Inl e, s') \<longleftrightarrow> body s = Inl e \<and> s' = s"
  by (auto simp: with_uow_def split: sum.splits)

lemma with_uow_keeps: "keeps P body \<Longrightarrow> P s \<Longrightarrow> P (snd (with_uow body s))"
  by (auto simp: with_uow_def split: sum.splits dest: keepsD)

text \<open>
  A method that commits and then reads its result back: what the read raises no longer undoes
  the commit.
\<close>

definition commit_then :: "'a dbtx \<Rightarrow> ('a \<Rightarrow> db \<Rightarrow> app_error + 'b) \<Rightarrow> db \<Rightarrow> (app_error + 'b) \<times> db" where
  "commit_then body reload s =
     (case body s of Inl e \<Rightarrow> (Inl e, s) | Inr (x, s') \<Rightarrow> (reload x s', s'))"

lemma commit_then_keeps: "keeps P body \<Longrightarrow> P s \<Longrightarrow> P (snd (commit_then body reload s))"
  by (auto simp: commit_then_def split: sum.splits dest: keepsD)

lemma commit_then_Inr:
  "commit_then body reload s = (Inr y, s') \<longleftrightarrow> (\<exists>x. body s = Inr (x, s') \<and> reload x s' = Inr y)"
  by (auto simp: commit_then_def split: sum.splits)

lemma run_ok: "\<not> isl (fst p) \<Longrightarrow> \<exists>x s'. p = (Inr x, s')"
  by (cases p) (auto simp: isl_def split: sum.splits, metis sum.exhaust_sel)

definition scalar_one_or_none :: "'r list \<Rightarrow> 'r option dbtx" where
  "scalar_one_or_none rows = tx_lift (one_or_none (DbErr MultipleResultsFound) rows)"

lemma scalar_one_or_none_iff [tx_iff]:
  "scalar_one_or_none rows s = Inr (v, s') \<longleftrightarrow>
     s' = s \<and> (case v of None \<Rightarrow> rows = [] | Some r \<Rightarrow> rows = [r])"
  by (cases v) (auto simp: scalar_one_or_none_def tx_iff)

lemma keeps_one_or_none [keeps_intro]: "keeps P (scalar_one_or_none rows)"
  by (auto simp: scalar_one_or_none_def intro: keeps_intro)

lemma frame_one_or_none [frame_intro]: "frame f (scalar_one_or_none rows)"
  by (auto simp: scalar_one_or_none_def intro: frame_intro)

text \<open>\<open>uuid.uuid7()\<close>: a fresh id.\<close>

definition fresh_id :: "uuid dbtx" where
  "fresh_id s = Inr (next_id s, s\<lparr>next_id := Suc (next_id s)\<rparr>)"

lemma fresh_id_iff [tx_iff]:
  "fresh_id s = Inr (i, s') \<longleftrightarrow> i = next_id s \<and> s' = s\<lparr>next_id := Suc (next_id s)\<rparr>"
  by (auto simp: fresh_id_def)

text \<open>
  \<open>INSERT\<close> of one row: the draft gets its base columns, the primary key must be new. The
  functions \<open>get\<close> and \<open>upd\<close> are the selector and the update of the table's field.
\<close>

definition insert_row ::
  "(db \<Rightarrow> 'r table) \<Rightarrow> (('r table \<Rightarrow> 'r table) \<Rightarrow> db \<Rightarrow> db) \<Rightarrow> 'r base_model_scheme
   \<Rightarrow> 'r base_model_scheme dbtx" where
  "insert_row get upd draft =
     tx_bind fresh_id (\<lambda>i.
     tx_bind (tx_get clock) (\<lambda>now.
     tx_bind (tx_get get) (\<lambda>t.
     tx_bind (tx_raise_if (tbl_has i t) (DbErr (UniqueViolation ''pkey''))) (\<lambda>_.
     tx_bind (tx_modify (upd (tbl_add (stamp i now draft)))) (\<lambda>_.
     tx_ret (stamp i now draft))))))"

definition update_row ::
  "(('r table \<Rightarrow> 'r table) \<Rightarrow> db \<Rightarrow> db) \<Rightarrow> uuid \<Rightarrow> ('r base_model_scheme \<Rightarrow> 'r base_model_scheme)
   \<Rightarrow> unit dbtx" where
  "update_row upd i f = tx_bind (tx_get clock) (\<lambda>now. tx_modify (upd (tbl_update now i f)))"

lemma insert_row_iff [tx_iff]:
  "insert_row get upd d s = Inr (r, s') \<longleftrightarrow>
     r = stamp (next_id s) (clock s) d \<and> \<not> tbl_has (next_id s) (get (s\<lparr>next_id := Suc (next_id s)\<rparr>)) \<and>
     s' = upd (tbl_add r) (s\<lparr>next_id := Suc (next_id s)\<rparr>)"
  by (auto simp: insert_row_def tx_iff)

lemma update_row_iff [tx_iff]:
  "update_row upd i f s = Inr (x, s') \<longleftrightarrow> s' = upd (tbl_update (clock s) i f) s"
  by (auto simp: update_row_def tx_iff)

lemma frame_fresh_id [frame_intro]: "(\<And>s i. g (s\<lparr>next_id := i\<rparr>) = g s) \<Longrightarrow> frame g fresh_id"
  by (auto simp: frame_def tx_iff)

lemma frame_insert_row [frame_intro]:
  "(\<And>s i. g (s\<lparr>next_id := i\<rparr>) = g s) \<Longrightarrow> (\<And>s f. g (upd f s) = g s) \<Longrightarrow> frame g (insert_row get upd d)"
  by (auto simp: frame_def tx_iff)

lemma frame_update_row [frame_intro]:
  "(\<And>s f. g (upd f s) = g s) \<Longrightarrow> frame g (update_row upd i f)"
  by (auto simp: frame_def tx_iff)

end
