(* ===== verification/Ledger.thy ===== *)
theory Ledger
  imports Prelude
begin

text \<open>
  Double-entry bookkeeping, the contract both ledgers of the system promise. A journal is a
  list of movements \<open>(from, to, amount)\<close>; \<open>ledger_balance\<close> is the balance a journal explains.
  The locale \<open>double_entry\<close> states the law of a posting operation over a materialised balance
  and derives once, for the financial ledger and for the stock ledger, that the materialised
  balances always agree with the journal.
\<close>

type_synonym 'k movement = "'k \<times> 'k \<times> int"

definition flow :: "'k movement \<Rightarrow> 'k \<Rightarrow> int" where
  "flow m k = (case m of (a, b, q) \<Rightarrow> (if k = b then q else 0) - (if k = a then q else 0))"

definition ledger_balance :: "'k movement list \<Rightarrow> 'k \<Rightarrow> int" where
  "ledger_balance ms k = sum_list (map (\<lambda>m. flow m k) ms)"

lemma ledger_balance_Nil [simp]: "ledger_balance [] k = 0"
  by (simp add: ledger_balance_def)

lemma ledger_balance_Cons [simp]: "ledger_balance (m # ms) k = flow m k + ledger_balance ms k"
  by (simp add: ledger_balance_def)

lemma ledger_balance_append [simp]:
  "ledger_balance (ms @ ns) k = ledger_balance ms k + ledger_balance ns k"
  by (simp add: ledger_balance_def)

lemma flow_self [simp]: "flow (a, a, q) k = 0"
  by (simp add: flow_def)

text \<open>A movement only moves: over any set that holds both ends or neither it adds up to nothing.\<close>

lemma sum_flow_zero:
  assumes "finite K" "a \<in> K \<longleftrightarrow> b \<in> K"
  shows "(\<Sum>k\<in>K. flow (a, b, q) k) = 0"
  using assms by (simp add: flow_def sum_subtractf)

lemma sum_ledger_balance_zero:
  assumes "finite K" and "\<And>a b q. (a, b, q) \<in> set ms \<Longrightarrow> a \<in> K \<longleftrightarrow> b \<in> K"
  shows "(\<Sum>k\<in>K. ledger_balance ms k) = 0"
  using assms(2)
proof (induction ms)
  case (Cons m ms)
  obtain a b q where m: "m = (a, b, q)" by (cases m)
  with Cons.prems have "a \<in> K \<longleftrightarrow> b \<in> K" by auto
  then have "(\<Sum>k\<in>K. flow m k) = 0" by (simp add: m sum_flow_zero assms(1))
  moreover from Cons have "(\<Sum>k\<in>K. ledger_balance ms k) = 0" by auto
  ultimately show ?case by (simp add: sum.distrib)
qed simp

locale double_entry =
  fixes invar :: "'s \<Rightarrow> bool"
    and balance :: "'s \<Rightarrow> 'k \<Rightarrow> int"
    and journal :: "'s \<Rightarrow> 'k movement list"
    and lines :: "'s \<Rightarrow> 'e \<Rightarrow> 'k movement list"
    and post :: "'e \<Rightarrow> ('s, 'err, 'r) tx"
  assumes post_invar: "invar s \<Longrightarrow> post e s = Inr (r, s') \<Longrightarrow> invar s'"
    and post_balance:
      "invar s \<Longrightarrow> post e s = Inr (r, s') \<Longrightarrow> balance s' k = balance s k + ledger_balance (lines s e) k"
    and post_journal:
      "invar s \<Longrightarrow> post e s = Inr (r, s') \<Longrightarrow>
       ledger_balance (journal s') k = ledger_balance (journal s) k + ledger_balance (lines s e) k"
begin

lemma post_explained:
  "keeps (\<lambda>s. invar s \<and> (\<forall>k. balance s k = ledger_balance (journal s) k)) (post e)"
  by (rule keepsI) (auto simp: post_balance post_journal dest: post_invar)

lemma explained_closed:
  assumes "\<And>k. balance s k = ledger_balance (journal s) k" "finite K"
    and "\<And>a b q. (a, b, q) \<in> set (journal s) \<Longrightarrow> a \<in> K \<longleftrightarrow> b \<in> K"
  shows "(\<Sum>k\<in>K. balance s k) = 0"
proof -
  have "(\<Sum>k\<in>K. balance s k) = (\<Sum>k\<in>K. ledger_balance (journal s) k)"
    using assms(1) by simp
  also have "\<dots> = 0" using assms(2,3) by (rule sum_ledger_balance_zero)
  finally show ?thesis .
qed

end

text \<open>
  A posting whose lines do not depend on the state: a batch of postings adds up the lines of
  all its entries.
\<close>

locale journal_posting = double_entry +
  assumes lines_state_free: "lines s e = lines s0 e"
begin

lemma post_many_balance:
  assumes "invar s" "tx_for (\<lambda>e. tx_bind (post e) (\<lambda>_. tx_ret ())) es s = Inr (x, s')"
  shows "balance s' k = balance s k + (\<Sum>e\<leftarrow>es. ledger_balance (lines s e) k) \<and> invar s'"
  using assms
proof (induction es arbitrary: s)
  case (Cons e es)
  then obtain r s1 where s1: "post e s = Inr (r, s1)"
      and rest: "tx_for (\<lambda>e. tx_bind (post e) (\<lambda>_. tx_ret ())) es s1 = Inr (x, s')"
    by (auto simp: tx_iff)
  have "balance s' k = balance s1 k + (\<Sum>e\<leftarrow>es. ledger_balance (lines s1 e) k) \<and> invar s'"
    using Cons.IH [OF post_invar [OF Cons.prems(1) s1] rest] .
  then show ?case
    using post_balance [OF Cons.prems(1) s1, of k] lines_state_free [of s1 _ s] by simp
qed (auto simp: tx_iff)

end

end
