(* ===== verification/Finances.thy ===== *)
theory Finances
  imports Errors Ledger "HOL-Library.Product_Lexorder"
begin

text \<open>
  The financial ledger: the trigger \<open>update_account_balances\<close>
  (\<open>src/infrastructure/database/scripts/trigger_update_account_balances.sql\<close>), the statements
  on the tables \<open>accounts\<close> and \<open>transactions\<close> with their constraints
  (\<open>src/modules/finances/models.py\<close>), and the repositories of
  \<open>src/modules/finances/repositories.py\<close>. Both ways a transaction changes the database, an
  \<open>INSERT\<close> and an \<open>UPDATE\<close>, are interpretations of \<open>double_entry\<close>.
\<close>

section \<open>The trigger on transactions\<close>

datatype tg_op = TG_INSERT transaction_row | TG_UPDATE transaction_row transaction_row
  | TG_DELETE transaction_row

fun ledger_guard :: "tg_op \<Rightarrow> unit dbtx" where
  "ledger_guard (TG_INSERT new) = tx_ret ()"
| "ledger_guard (TG_UPDATE old new) =
     tx_bind (tx_raise_if (txn_amount old \<noteq> txn_amount new)
       (DbErr (RaiseException ''amount is immutable''))) (\<lambda>_.
     tx_raise_if (txn_from_id old \<noteq> txn_from_id new \<or> txn_to_id old \<noteq> txn_to_id new)
       (DbErr (RaiseException ''route is immutable'')))"
| "ledger_guard (TG_DELETE old) = tx_raise (DbErr (RaiseException ''delete is forbidden''))"

fun balance_diffs :: "tg_op \<Rightarrow> int \<times> int" where
  "balance_diffs (TG_INSERT new) =
     (if txn_status new = TS_COMPLETED then (- txn_amount new, txn_amount new) else (0, 0))"
| "balance_diffs (TG_UPDATE old new) =
     (if txn_status old \<noteq> TS_COMPLETED \<and> txn_status new = TS_COMPLETED
      then (- txn_amount new, txn_amount new)
      else if txn_status old = TS_COMPLETED \<and> txn_status new \<noteq> TS_COMPLETED
      then (txn_amount old, - txn_amount old)
      else (0, 0))"
| "balance_diffs (TG_DELETE old) = (0, 0)"

fun tg_row :: "tg_op \<Rightarrow> transaction_row" where
  "tg_row (TG_INSERT new) = new"
| "tg_row (TG_UPDATE old new) = new"
| "tg_row (TG_DELETE old) = old"

text \<open>\<open>UPDATE accounts SET balance = balance + d WHERE id = i\<close> on a \<open>BIGINT\<close> column.\<close>

definition add_balance :: "uuid \<Rightarrow> int \<Rightarrow> account_row list \<Rightarrow> account_row list" where
  "add_balance i d t = map (\<lambda>a. if row_id a = i then a\<lparr>acc_balance := acc_balance a + d\<rparr> else a) t"

definition update_balance :: "uuid \<Rightarrow> int \<Rightarrow> unit dbtx" where
  "update_balance i d =
     tx_bind (tx_get accounts) (\<lambda>t.
     tx_bind (tx_raise_if (\<exists>a\<in>set t. row_id a = i \<and> \<not> int8 (acc_balance a + d))
       (DbErr NumericOutOfRange)) (\<lambda>_.
     tx_modify (accounts_update (add_balance i d))))"

definition update_account_balances :: "tg_op \<Rightarrow> unit dbtx" where
  "update_account_balances op =
     tx_bind (ledger_guard op) (\<lambda>_.
     case balance_diffs op of (diff_from, diff_to) \<Rightarrow>
       if diff_from = 0 \<and> diff_to = 0 then tx_ret ()
       else tx_bind (update_balance (txn_from_id (tg_row op)) diff_from) (\<lambda>_.
            update_balance (txn_to_id (tg_row op)) diff_to))"

section \<open>The statements on accounts and transactions\<close>

definition account_draft :: "uuid \<Rightarrow> account_type \<Rightarrow> string \<Rightarrow> account_row" where
  "account_draft u ty nm = \<lparr>row_id = 0, is_active = True, created_at = 0, updated_at = 0,
     acc_user_id = u, acc_type = ty, acc_name = nm, acc_balance = 0\<rparr>"

definition transaction_draft ::
  "uuid \<Rightarrow> uuid \<Rightarrow> int \<Rightarrow> string \<Rightarrow> uuid option \<Rightarrow> transaction_status \<Rightarrow> uuid option \<Rightarrow> transaction_row" where
  "transaction_draft f t amount reason ord st vb =
     \<lparr>row_id = 0, is_active = True, created_at = 0, updated_at = 0,
      txn_from_id = f, txn_to_id = t, txn_order_id = ord, txn_verified_by_id = vb,
      txn_amount = amount, txn_status = st, txn_reason = reason\<rparr>"

text \<open>The CHECK and FOREIGN KEY constraints and the column type of \<open>transactions\<close>.\<close>

definition transaction_constraints :: "transaction_row \<Rightarrow> unit dbtx" where
  "transaction_constraints t =
     tx_bind (tx_raise_if (\<not> int8 (txn_amount t)) (DbErr NumericOutOfRange)) (\<lambda>_.
     tx_bind (tx_raise_if (txn_amount t \<le> 0)
       (DbErr (CheckViolation ''ck_transaction_amount_pos''))) (\<lambda>_.
     tx_bind (tx_raise_if (txn_from_id t = txn_to_id t)
       (DbErr (CheckViolation ''ck_transaction_no_self_transfer''))) (\<lambda>_.
     tx_bind (tx_get accounts) (\<lambda>as.
     tx_bind (tx_raise_if (\<not> tbl_has (txn_from_id t) as)
       (DbErr (ForeignKeyViolation ''accounts''))) (\<lambda>_.
     tx_bind (tx_raise_if (\<not> tbl_has (txn_to_id t) as)
       (DbErr (ForeignKeyViolation ''accounts''))) (\<lambda>_.
     tx_bind (tx_get orders) (\<lambda>os.
     tx_bind (tx_raise_if (case txn_order_id t of None \<Rightarrow> False | Some i \<Rightarrow> \<not> tbl_has i os)
       (DbErr (ForeignKeyViolation ''orders''))) (\<lambda>_.
     tx_bind (tx_get users) (\<lambda>us.
     tx_raise_if (case txn_verified_by_id t of None \<Rightarrow> False | Some i \<Rightarrow> \<not> tbl_has i us)
       (DbErr (ForeignKeyViolation ''users'')))))))))))"

definition insert_transaction :: "transaction_row \<Rightarrow> transaction_row dbtx" where
  "insert_transaction d =
     tx_bind (transaction_constraints d) (\<lambda>_.
     tx_bind (insert_row transactions transactions_update d) (\<lambda>t.
     tx_bind (update_account_balances (TG_INSERT t)) (\<lambda>_.
     tx_ret t)))"

text \<open>
  \<open>UPDATE\<close> of a transaction, what the flush of a changed ORM object issues: the row with the
  id of \<open>new\<close> becomes \<open>new\<close>. An \<open>UPDATE\<close> that matches no row changes nothing.
\<close>

definition update_transaction :: "transaction_row \<Rightarrow> unit dbtx" where
  "update_transaction new =
     tx_bind (tx_get transactions) (\<lambda>ts.
     case tbl_get (row_id new) False ts of
       None \<Rightarrow> tx_ret ()
     | Some old \<Rightarrow>
         tx_bind (transaction_constraints new) (\<lambda>_.
         tx_bind (update_row transactions_update (row_id new) (\<lambda>_. new)) (\<lambda>_.
         update_account_balances (TG_UPDATE old new))))"

definition delete_transaction :: "uuid \<Rightarrow> unit dbtx" where
  "delete_transaction i =
     tx_bind (tx_get transactions) (\<lambda>ts.
     case tbl_get i False ts of
       None \<Rightarrow> tx_ret ()
     | Some old \<Rightarrow>
         tx_bind (tx_modify (transactions_update (tbl_delete i))) (\<lambda>_.
         update_account_balances (TG_DELETE old)))"

section \<open>AccountRepository\<close>

definition create_account :: "uuid \<Rightarrow> account_type \<Rightarrow> string \<Rightarrow> account_row dbtx" where
  "create_account u ty nm =
     tx_bind (tx_get users) (\<lambda>us.
     tx_bind (tx_raise_if (\<not> tbl_has u us) (DbErr (ForeignKeyViolation ''users''))) (\<lambda>_.
     insert_row accounts accounts_update (account_draft u ty nm)))"

definition create_client_account :: "uuid \<Rightarrow> string \<Rightarrow> account_row dbtx" where
  "create_client_account client_id client_name =
     create_account client_id AT_CLIENT (''Litsevoy schet klienta: '' @ client_name)"

definition create_courier_account :: "uuid \<Rightarrow> string \<Rightarrow> account_row dbtx" where
  "create_courier_account courier_id courier_name =
     create_account courier_id AT_COURIER (''Kassa kuryera: '' @ courier_name)"

definition create_system_accounts :: "uuid \<Rightarrow> unit dbtx" where
  "create_system_accounts system_user_id =
     tx_for (\<lambda>(ty, nm). tx_bind (create_account system_user_id ty nm) (\<lambda>_. tx_ret ()))
       [(AT_REVENUE, ''Sistemnyy schet vyruchki''),
        (AT_CASH, ''Tsentralnaya kassa (Nalichnye)''),
        (AT_CARD, ''Schet ekvayringa (Karty)''),
        (AT_BANK, ''Raschetnyy schet (Bank)'')]"

definition limit_1 :: "'r list \<Rightarrow> 'r option" where
  "limit_1 rows = (case rows of [] \<Rightarrow> None | r # _ \<Rightarrow> Some r)"

definition get_user_account_by_type :: "uuid \<Rightarrow> account_type \<Rightarrow> db \<Rightarrow> account_row option" where
  "get_user_account_by_type u ty s =
     limit_1 (sort_key (\<lambda>a. (created_at a, row_id a))
       (tbl_filter_by True (\<lambda>a. acc_user_id a = u \<and> acc_type a = ty) (accounts s)))"

definition get_system_account :: "account_type \<Rightarrow> db \<Rightarrow> account_row option" where
  "get_system_account ty = get_user_account_by_type SYSTEM_USER_ID ty"

definition get_system_revenue_account :: "db \<Rightarrow> account_row option" where
  "get_system_revenue_account = get_system_account AT_REVENUE"

definition get_system_cash_account :: "db \<Rightarrow> account_row option" where
  "get_system_cash_account = get_system_account AT_CASH"

definition get_system_card_account :: "db \<Rightarrow> account_row option" where
  "get_system_card_account = get_system_account AT_CARD"

definition get_system_bank_account :: "db \<Rightarrow> account_row option" where
  "get_system_bank_account = get_system_account AT_BANK"

definition get_courier_account :: "uuid \<Rightarrow> db \<Rightarrow> account_row option" where
  "get_courier_account courier_id = get_user_account_by_type courier_id AT_COURIER"

definition get_client_account :: "uuid \<Rightarrow> db \<Rightarrow> account_row option" where
  "get_client_account client_id = get_user_account_by_type client_id AT_CLIENT"

fun account_type_rank :: "account_type \<Rightarrow> nat" where
  "account_type_rank AT_REVENUE = 0"
| "account_type_rank AT_CASH = 1"
| "account_type_rank AT_CARD = 2"
| "account_type_rank AT_BANK = 3"
| "account_type_rank AT_DISCOUNT = 4"
| "account_type_rank AT_CLIENT = 5"
| "account_type_rank AT_COURIER = 6"
| "account_type_rank AT_EXPENSE = 7"
| "account_type_rank AT_ADMIN = 8"

definition get_all_system_accounts :: "db \<Rightarrow> account_row list" where
  "get_all_system_accounts s =
     sort_key (\<lambda>a. account_type_rank (acc_type a))
       (tbl_filter_by True (\<lambda>a. acc_user_id a = SYSTEM_USER_ID) (accounts s))"

definition positive_accounts :: "account_type \<Rightarrow> db \<Rightarrow> account_row list" where
  "positive_accounts ty s = tbl_filter_by True (\<lambda>a. acc_type a = ty \<and> acc_balance a > 0) (accounts s)"

definition get_total_client_debt :: "db \<Rightarrow> int" where
  "get_total_client_debt s = sum_list (map acc_balance (positive_accounts AT_CLIENT s))"

definition get_total_courier_cash :: "db \<Rightarrow> int" where
  "get_total_courier_cash s = sum_list (map acc_balance (positive_accounts AT_COURIER s))"

definition get_courier_accounts_with_users :: "db \<Rightarrow> account_row list" where
  "get_courier_accounts_with_users s =
     sort_key (\<lambda>a. - acc_balance a) (tbl_filter_by True (\<lambda>a. acc_type a = AT_COURIER) (accounts s))"

definition get_client_debtors :: "int \<Rightarrow> nat \<Rightarrow> nat \<Rightarrow> db \<Rightarrow> nat \<times> account_row list" where
  "get_client_debtors min_debt skip limit s =
     (let rows = filter (\<lambda>a. min_debt > 0 \<longrightarrow> acc_balance a \<ge> min_debt) (positive_accounts AT_CLIENT s)
      in (length rows, take limit (drop skip (sort_key (\<lambda>a. - acc_balance a) rows))))"

section \<open>TransactionRepository\<close>

definition get_for_update :: "uuid \<Rightarrow> db \<Rightarrow> transaction_row option" where
  "get_for_update i s = tbl_get i False (transactions s)"

definition change_status ::
  "uuid \<Rightarrow> transaction_status \<Rightarrow> uuid option \<Rightarrow> transaction_row option dbtx" where
  "change_status i new_status verified_by_id =
     tx_bind (tx_get (get_for_update i)) (\<lambda>t.
     case t of
       None \<Rightarrow> tx_ret None
     | Some t \<Rightarrow>
         if txn_status t = new_status then tx_ret (Some t)
         else (let t1 = t\<lparr>txn_status := new_status\<rparr>;
                   t2 = (case verified_by_id of None \<Rightarrow> t1 | Some v \<Rightarrow> t1\<lparr>txn_verified_by_id := Some v\<rparr>)
               in tx_bind (update_transaction t2) (\<lambda>_. tx_ret (Some t2))))"

definition get_by_order :: "uuid \<Rightarrow> db \<Rightarrow> transaction_row list" where
  "get_by_order i s = filter (\<lambda>t. txn_order_id t = Some i) (transactions s)"

definition touches :: "uuid \<Rightarrow> transaction_row \<Rightarrow> bool" where
  "touches i t \<longleftrightarrow> txn_from_id t = i \<or> txn_to_id t = i"

definition get_account_history :: "uuid \<Rightarrow> nat \<Rightarrow> nat \<Rightarrow> db \<Rightarrow> transaction_row list" where
  "get_account_history i limit offset s =
     take limit (drop offset (sort_key (\<lambda>t. - created_at t) (filter (touches i) (transactions s))))"

definition get_pending_count :: "db \<Rightarrow> nat" where
  "get_pending_count s = length (tbl_filter_by True (\<lambda>t. txn_status t = TS_PENDING) (transactions s))"

definition get_pending_card_total :: "uuid \<Rightarrow> db \<Rightarrow> int" where
  "get_pending_card_total card_account_id s = sum_list (map txn_amount
     (tbl_filter_by True (\<lambda>t. txn_to_id t = card_account_id \<and> txn_status t = TS_PENDING) (transactions s)))"

definition get_today_transactions_for_account :: "uuid \<Rightarrow> db \<Rightarrow> transaction_row list" where
  "get_today_transactions_for_account i s = sort_key created_at
     (tbl_filter_by True (\<lambda>t. txn_status t = TS_COMPLETED
        \<and> created_at t \<ge> midnight (date_of (clock s)) \<and> touches i t) (transactions s))"

definition get_account_transactions_in_period ::
  "uuid \<Rightarrow> timestamp \<Rightarrow> timestamp \<Rightarrow> nat \<Rightarrow> nat \<Rightarrow> db \<Rightarrow> transaction_row list" where
  "get_account_transactions_in_period i dfrom dto skip limit s =
     take limit (drop skip (sort_key created_at
       (tbl_filter_by True (\<lambda>t. txn_status t = TS_COMPLETED
          \<and> created_at t \<ge> dfrom \<and> created_at t \<le> dto \<and> touches i t) (transactions s))))"

definition get_opening_balance_data :: "uuid \<Rightarrow> timestamp \<Rightarrow> db \<Rightarrow> int \<times> int" where
  "get_opening_balance_data i before s =
     (let before_rows = tbl_filter_by True (\<lambda>t. txn_status t = TS_COMPLETED \<and> created_at t < before)
            (transactions s)
      in (sum_list (map txn_amount (filter (\<lambda>t. txn_to_id t = i) before_rows)),
          sum_list (map txn_amount (filter (\<lambda>t. txn_from_id t = i) before_rows))))"

definition get_recent_for_account :: "uuid \<Rightarrow> nat \<Rightarrow> db \<Rightarrow> transaction_row list" where
  "get_recent_for_account i limit s =
     take limit (sort_key (\<lambda>t. - created_at t) (tbl_filter_by True (touches i) (transactions s)))"

definition account_is :: "(account_row \<Rightarrow> bool) \<Rightarrow> uuid \<Rightarrow> db \<Rightarrow> bool" where
  "account_is p i s = (case tbl_get i False (accounts s) of None \<Rightarrow> False | Some a \<Rightarrow> p a)"

definition get_bank_payments_for_client ::
  "uuid \<Rightarrow> timestamp \<Rightarrow> timestamp \<Rightarrow> db \<Rightarrow> transaction_row list" where
  "get_bank_payments_for_client client_id from_dt to_dt s =
     sort_key created_at (tbl_filter_by True (\<lambda>t.
       account_is (\<lambda>a. acc_user_id a = client_id \<and> acc_type a = AT_CLIENT) (txn_from_id t) s
       \<and> account_is (\<lambda>a. acc_type a = AT_BANK) (txn_to_id t) s
       \<and> txn_status t = TS_COMPLETED \<and> from_dt \<le> created_at t \<and> created_at t < to_dt) (transactions s))"

definition archive_transaction :: "uuid \<Rightarrow> bool dbtx" where
  "archive_transaction i = tx_raise (NotImplementedErr ''Strict Ledger'')"

definition restore_transaction :: "uuid \<Rightarrow> bool dbtx" where
  "restore_transaction i = tx_raise (NotImplementedErr ''Strict Ledger'')"

definition repository_delete_transaction :: "uuid \<Rightarrow> bool dbtx" where
  "repository_delete_transaction i = tx_raise (NotImplementedErr ''Strict Ledger'')"

section \<open>The invariant of the ledger\<close>

definition balance_in :: "account_row list \<Rightarrow> uuid \<Rightarrow> int" where
  "balance_in t k = (case tbl_get k False t of None \<Rightarrow> 0 | Some a \<Rightarrow> acc_balance a)"

definition acct_balance :: "db \<Rightarrow> uuid \<Rightarrow> int" where
  "acct_balance s k = balance_in (accounts s) k"

definition txn_line :: "transaction_row \<Rightarrow> uuid movement" where
  "txn_line t = (txn_from_id t, txn_to_id t, txn_amount t)"

definition completed_lines :: "transaction_row \<Rightarrow> uuid movement list" where
  "completed_lines t = (if txn_status t = TS_COMPLETED then [txn_line t] else [])"

definition fin_journal :: "db \<Rightarrow> uuid movement list" where
  "fin_journal s = concat (map completed_lines (transactions s))"

definition fin_ok :: "db \<Rightarrow> bool" where
  "fin_ok s \<longleftrightarrow> keys_distinct (accounts s) \<and> keys_distinct (transactions s)
     \<and> (\<forall>t\<in>set (transactions s). tbl_has (txn_from_id t) (accounts s)
          \<and> tbl_has (txn_to_id t) (accounts s) \<and> txn_from_id t \<noteq> txn_to_id t \<and> 0 < txn_amount t)"

definition fin_explained :: "db \<Rightarrow> bool" where
  "fin_explained s \<longleftrightarrow> fin_ok s \<and> (\<forall>k. acct_balance s k = ledger_balance (fin_journal s) k)"

definition update_lines :: "db \<Rightarrow> transaction_row \<Rightarrow> uuid movement list" where
  "update_lines s new = (case tbl_get (row_id new) False (transactions s) of
     None \<Rightarrow> []
   | Some old \<Rightarrow>
       if txn_status old \<noteq> TS_COMPLETED \<and> txn_status new = TS_COMPLETED then [txn_line new]
       else if txn_status old = TS_COMPLETED \<and> txn_status new \<noteq> TS_COMPLETED
       then [(txn_to_id old, txn_from_id old, txn_amount old)] else [])"

lemma tbl_has_map: "tbl_has i t \<longleftrightarrow> i \<in> set (map row_id t)"
  by (auto simp: tbl_has_def image_iff)

lemma map_row_id_add_balance [simp]: "map row_id (add_balance i d t) = map row_id t"
  by (simp add: add_balance_def)

lemma tbl_has_add_balance [simp]: "tbl_has j (add_balance i d t) = tbl_has j t"
  by (simp only: tbl_has_map map_row_id_add_balance)

lemma keys_distinct_add_balance [simp]: "keys_distinct (add_balance i d t) = keys_distinct t"
  by (simp only: keys_distinct_def map_row_id_add_balance)

lemma tbl_get_add_balance:
  "tbl_get k a (add_balance i d t) =
     map_option (\<lambda>r. if k = i then r\<lparr>acc_balance := acc_balance r + d\<rparr> else r) (tbl_get k a t)"
  by (induction t) (auto simp: tbl_get_def add_balance_def)

lemma balance_in_add_balance:
  "balance_in (add_balance i d t) k = balance_in t k + (if k = i \<and> tbl_has i t then d else 0)"
  by (auto simp: balance_in_def tbl_get_add_balance tbl_get_has split: option.splits)
     (auto simp: tbl_has_def tbl_get_def find_None_all)

lemma update_balance_iff [tx_iff]:
  "update_balance i d s = Inr (x, s') \<longleftrightarrow>
     (\<forall>a\<in>set (accounts s). row_id a = i \<longrightarrow> int8 (acc_balance a + d))
     \<and> s' = accounts_update (add_balance i d) s"
  by (auto simp: update_balance_def tx_iff)

lemma ledger_guard_iff [tx_iff]:
  "ledger_guard op s = Inr (x, s') \<longleftrightarrow> s' = s \<and> (case op of TG_INSERT t \<Rightarrow> True
     | TG_UPDATE old new \<Rightarrow> txn_line old = txn_line new | TG_DELETE t \<Rightarrow> False)"
  by (cases op) (auto simp: tx_iff txn_line_def)

text \<open>Whatever the trigger does, only balances of accounts change.\<close>

lemma frame_update_balance [frame_intro]:
  "(\<And>s f. g (accounts_update f s) = g s) \<Longrightarrow> frame g (update_balance i d)"
  by (auto simp: frame_def tx_iff)

lemma frame_ledger_guard [frame_intro]: "frame g (ledger_guard op)"
  by (auto simp: frame_def tx_iff)

lemma frame_update_account_balances [frame_intro]:
  "(\<And>s f. g (accounts_update f s) = g s) \<Longrightarrow> frame g (update_account_balances op)"
  unfolding update_account_balances_def by (auto intro!: frame_intro split: prod.splits)

lemma update_account_balances_keys:
  "frame (\<lambda>s. map row_id (accounts s)) (update_account_balances op)"
  by (rule frameI) (auto simp: update_account_balances_def tx_iff split: if_splits prod.splits)

lemma update_account_balances_balance:
  assumes "update_account_balances op s = Inr (x, s')"
    and "tbl_has (txn_from_id (tg_row op)) (accounts s)" "tbl_has (txn_to_id (tg_row op)) (accounts s)"
    and "txn_from_id (tg_row op) \<noteq> txn_to_id (tg_row op)"
  shows "acct_balance s' k = acct_balance s k
     + (if k = txn_from_id (tg_row op) then fst (balance_diffs op) else 0)
     + (if k = txn_to_id (tg_row op) then snd (balance_diffs op) else 0)"
  using assms
  by (auto simp: update_account_balances_def tx_iff acct_balance_def balance_in_add_balance
      split: if_splits prod.splits)

lemma transaction_constraints_iff [tx_iff]:
  "transaction_constraints t s = Inr (x, s') \<longleftrightarrow> s' = s \<and> int8 (txn_amount t) \<and> 0 < txn_amount t
     \<and> txn_from_id t \<noteq> txn_to_id t \<and> tbl_has (txn_from_id t) (accounts s)
     \<and> tbl_has (txn_to_id t) (accounts s)
     \<and> (case txn_order_id t of None \<Rightarrow> True | Some i \<Rightarrow> tbl_has i (orders s))
     \<and> (case txn_verified_by_id t of None \<Rightarrow> True | Some i \<Rightarrow> tbl_has i (users s))"
  by (auto simp: transaction_constraints_def tx_iff split: option.splits)

lemma frame_transaction_constraints [frame_intro]: "frame g (transaction_constraints t)"
  by (auto simp: frame_def tx_iff)

lemma frame_insert_transaction [frame_intro]:
  "(\<And>s f. g (accounts_update f s) = g s) \<Longrightarrow> (\<And>s f. g (transactions_update f s) = g s)
   \<Longrightarrow> (\<And>s i. g (s\<lparr>next_id := i\<rparr>) = g s) \<Longrightarrow> frame g (insert_transaction d)"
  unfolding insert_transaction_def by (auto intro!: frame_intro)

lemma frame_update_transaction [frame_intro]:
  "(\<And>s f. g (accounts_update f s) = g s) \<Longrightarrow> (\<And>s f. g (transactions_update f s) = g s)
   \<Longrightarrow> frame g (update_transaction d)"
  unfolding update_transaction_def by (auto intro!: frame_intro)

section \<open>Both statements post to a double-entry ledger\<close>

lemma fin_ok_iff:
  "fin_ok s \<longleftrightarrow> distinct (map row_id (accounts s)) \<and> keys_distinct (transactions s)
     \<and> (\<forall>t\<in>set (transactions s). txn_from_id t \<in> set (map row_id (accounts s))
          \<and> txn_to_id t \<in> set (map row_id (accounts s)) \<and> txn_from_id t \<noteq> txn_to_id t \<and> 0 < txn_amount t)"
  by (simp only: fin_ok_def keys_distinct_def tbl_has_map)

lemma update_account_balances_frames:
  assumes "update_account_balances op s = Inr (x, s')"
  shows "map row_id (accounts s') = map row_id (accounts s)" "transactions s' = transactions s"
  using frameD [OF update_account_balances_keys assms]
    frameD [OF frame_update_account_balances [of transactions] assms] by simp_all

lemma completed_lines_stamp [simp]: "completed_lines (stamp i now d) = completed_lines d"
  by (simp add: completed_lines_def txn_line_def stamp_def)

lemma completed_lines_updated_at [simp]: "completed_lines (t\<lparr>updated_at := now\<rparr>) = completed_lines t"
  by (simp add: completed_lines_def txn_line_def)

lemma ledger_balance_fin_journal:
  "ledger_balance (fin_journal s) k =
     sum_list (map (\<lambda>t. ledger_balance (completed_lines t) k) (transactions s))"
proof -
  have "ledger_balance (concat (map completed_lines ts)) k =
      sum_list (map (\<lambda>t. ledger_balance (completed_lines t) k) ts)" for ts
    by (induction ts) auto
  then show ?thesis by (simp add: fin_journal_def)
qed

lemma insert_transactionD:
  assumes "insert_transaction d s = Inr (t, s')"
  shows "t = stamp (next_id s) (clock s) d" "transactions s' = tbl_add t (transactions s)"
    "map row_id (accounts s') = map row_id (accounts s)" "\<not> tbl_has (next_id s) (transactions s)"
    "0 < txn_amount d" "txn_from_id d \<noteq> txn_to_id d" "tbl_has (txn_from_id d) (accounts s)"
    "tbl_has (txn_to_id d) (accounts s)"
proof -
  obtain s1 where s1: "update_account_balances (TG_INSERT t) s1 = Inr ((), s')"
      "accounts s1 = accounts s" "transactions s1 = tbl_add t (transactions s)"
    using assms by (auto simp: insert_transaction_def tx_iff)
  show "transactions s' = tbl_add t (transactions s)"
      "map row_id (accounts s') = map row_id (accounts s)"
    using update_account_balances_frames [OF s1(1)] s1 by simp_all
qed (use assms in \<open>auto simp: insert_transaction_def tx_iff\<close>)

lemma insert_transaction_balance:
  assumes "insert_transaction d s = Inr (t, s')"
  shows "acct_balance s' k = acct_balance s k + ledger_balance (completed_lines d) k"
proof -
  obtain s1 where s1: "update_account_balances (TG_INSERT t) s1 = Inr ((), s')"
      "accounts s1 = accounts s" "t = stamp (next_id s) (clock s) d"
    using assms by (auto simp: insert_transaction_def tx_iff)
  have "txn_from_id t = txn_from_id d" "txn_to_id t = txn_to_id d" "txn_amount t = txn_amount d"
      "txn_status t = txn_status d"
    using s1(3) by (simp_all add: stamp_def)
  then show ?thesis
    using update_account_balances_balance [OF s1(1), of k] insert_transactionD [OF assms] s1(2)
    by (auto simp: acct_balance_def completed_lines_def txn_line_def flow_def)
qed

interpretation fin_insert: journal_posting fin_ok acct_balance fin_journal "\<lambda>s. completed_lines"
  insert_transaction
proof
  fix s d t s' k
  assume ok: "fin_ok s" and run: "insert_transaction d s = Inr (t, s')"
  note D = insert_transactionD [OF run]
  have d: "txn_from_id t = txn_from_id d" "txn_to_id t = txn_to_id d" "txn_amount t = txn_amount d"
    using D(1) by (simp_all add: stamp_def)
  show "fin_ok s'"
    unfolding fin_ok_iff D(2,3) set_tbl_add keys_distinct_add
    using ok D d by (auto simp: fin_ok_iff tbl_has_map)
  show "acct_balance s' k = acct_balance s k + ledger_balance (completed_lines d) k"
    by (rule insert_transaction_balance [OF run])
  show "ledger_balance (fin_journal s') k =
      ledger_balance (fin_journal s) k + ledger_balance (completed_lines d) k"
    using D(1,2) by (simp add: ledger_balance_fin_journal tbl_add_def)
qed simp

lemma update_account_balances_guard:
  "update_account_balances (TG_UPDATE old new) s = Inr (x, s') \<Longrightarrow> txn_line old = txn_line new"
  by (auto simp: update_account_balances_def tx_iff simp del: balance_diffs.simps ledger_guard.simps)

lemma update_transactionE:
  assumes "update_transaction new s = Inr (x, s')" "tbl_get (row_id new) False (transactions s) = Some old"
  obtains s1 where "update_account_balances (TG_UPDATE old new) s1 = Inr ((), s')"
    "accounts s1 = accounts s"
    "transactions s1 = tbl_update (clock s) (row_id new) (\<lambda>_. new) (transactions s)"
    "0 < txn_amount new" "txn_from_id new \<noteq> txn_to_id new" "tbl_has (txn_from_id new) (accounts s)"
    "tbl_has (txn_to_id new) (accounts s)" "txn_line old = txn_line new"
proof -
  obtain s1 where s1: "update_account_balances (TG_UPDATE old new) s1 = Inr ((), s')"
      "s1 = transactions_update (tbl_update (clock s) (row_id new) (\<lambda>_. new)) s"
      "transaction_constraints new s = Inr ((), s)"
    using assms by (auto simp: update_transaction_def tx_iff)
  then show ?thesis using that [of s1] update_account_balances_guard [OF s1(1)]
    by (simp add: tx_iff)
qed

lemma update_transactionD:
  assumes "update_transaction new s = Inr (x, s')" "tbl_get (row_id new) False (transactions s) = Some old"
  shows "transactions s' = tbl_update (clock s) (row_id new) (\<lambda>_. new) (transactions s)"
    "map row_id (accounts s') = map row_id (accounts s)" "txn_line old = txn_line new"
    "0 < txn_amount new" "txn_from_id new \<noteq> txn_to_id new" "tbl_has (txn_from_id new) (accounts s)"
    "tbl_has (txn_to_id new) (accounts s)"
  by (rule update_transactionE [OF assms]; auto dest: update_account_balances_frames)+

lemma update_transaction_None:
  "tbl_get (row_id new) False (transactions s) = None \<Longrightarrow> update_transaction new s = Inr ((), s)"
  by (simp add: update_transaction_def tx_run_defs)

lemma update_transaction_balance:
  assumes "update_transaction new s = Inr (x, s')"
  shows "acct_balance s' k = acct_balance s k + ledger_balance (update_lines s new) k"
proof (cases "tbl_get (row_id new) False (transactions s)")
  case None
  then show ?thesis using assms by (simp add: update_transaction_None update_lines_def)
next
  case (Some old)
  with assms show ?thesis
  proof (rule update_transactionE)
    fix s1 assume s1: "update_account_balances (TG_UPDATE old new) s1 = Inr ((), s')"
      "accounts s1 = accounts s" "txn_from_id new \<noteq> txn_to_id new"
      "tbl_has (txn_from_id new) (accounts s)" "tbl_has (txn_to_id new) (accounts s)"
      "txn_line old = txn_line new"
    then show ?thesis using update_account_balances_balance [OF s1(1), of k] Some
      by (auto simp: acct_balance_def update_lines_def txn_line_def flow_def)
  qed
qed

lemma update_transaction_journal:
  assumes "fin_ok s" "update_transaction new s = Inr (x, s')"
  shows "ledger_balance (fin_journal s') k =
    ledger_balance (fin_journal s) k + ledger_balance (update_lines s new) k"
proof (cases "tbl_get (row_id new) False (transactions s)")
  case None
  then show ?thesis using assms by (simp add: update_transaction_None update_lines_def)
next
  case (Some old)
  note D = update_transactionD [OF assms(2) Some]
  let ?w = "\<lambda>t. ledger_balance (completed_lines t) k"
  have old: "old \<in> set (transactions s)" "row_id old = row_id new"
    using tbl_get_SomeD [OF Some] by auto
  have "ledger_balance (fin_journal s') k = ledger_balance (fin_journal s) k + (?w new - ?w old)"
    unfolding ledger_balance_fin_journal D(1) tbl_update_def old(2) [symmetric]
    using sum_list_map_update [OF _ old(1), of row_id ?w "\<lambda>_. new\<lparr>updated_at := clock s\<rparr>"] assms(1)
    by (simp add: fin_ok_def keys_distinct_def)
  also have "?w new - ?w old = ledger_balance (update_lines s new) k"
    using Some D(3) by (auto simp: completed_lines_def update_lines_def txn_line_def flow_def)
  finally show ?thesis .
qed

lemma update_transaction_invar:
  assumes "fin_ok s" "update_transaction new s = Inr (x, s')"
  shows "fin_ok s'"
proof (cases "tbl_get (row_id new) False (transactions s)")
  case None
  then show ?thesis using assms by (simp add: update_transaction_None)
next
  case (Some old)
  note D = update_transactionD [OF assms(2) Some]
  have "keys_distinct (transactions s')"
    using assms(1) unfolding D(1) fin_ok_def keys_distinct_def tbl_update_def
    by (auto simp: comp_def if_distrib [of row_id] cong: if_cong)
  then show ?thesis
    unfolding fin_ok_iff D(2) using assms(1) D by (auto simp: fin_ok_iff in_tbl_update tbl_has_map split: if_splits)
qed

interpretation fin_update: double_entry fin_ok acct_balance fin_journal update_lines update_transaction
  using update_transaction_invar update_transaction_balance update_transaction_journal
  by unfold_locales

lemma keeps_insert_transaction [keeps_intro]: "keeps fin_explained (insert_transaction d)"
  unfolding fin_explained_def [abs_def] by (rule fin_insert.post_explained)

lemma keeps_update_transaction [keeps_intro]: "keeps fin_explained (update_transaction d)"
  unfolding fin_explained_def [abs_def] by (rule fin_update.post_explained)

lemma fin_explained_frame:
  "frame accounts m \<Longrightarrow> frame transactions m \<Longrightarrow> keeps fin_explained m"
  by (auto simp: keeps_def frame_def fin_explained_def fin_ok_def acct_balance_def fin_journal_def)

lemma keeps_create_account [keeps_intro]: "keeps fin_explained (create_account u ty nm)"
proof (rule keepsI)
  fix s a s' assume ok: "fin_explained s" and run: "create_account u ty nm s = Inr (a, s')"
  have s': "accounts s' = tbl_add a (accounts s)" "transactions s' = transactions s"
      "\<not> tbl_has (row_id a) (accounts s)" "acc_balance a = 0"
    using run by (auto simp: create_account_def tx_iff account_draft_def stamp_def)
  have "acct_balance s' k = acct_balance s k" for k
    using s' by (auto simp: acct_balance_def balance_in_def tbl_get_add split: option.splits)
  with ok s' show "fin_explained s'"
    by (auto simp: fin_explained_def fin_ok_def fin_journal_def keys_distinct_add)
qed

lemma sum_balances_eq:
  assumes "keys_distinct t"
  shows "sum_list (map acc_balance t) = (\<Sum>k\<in>set (map row_id t). balance_in t k)"
proof -
  have "map acc_balance t = map (\<lambda>a. balance_in t (row_id a)) t"
    using assms by (auto simp: balance_in_def tbl_get_key)
  then have "sum_list (map acc_balance t) = sum_list (map (balance_in t) (map row_id t))"
    by (simp only: map_map comp_def)
  also have "\<dots> = (\<Sum>k\<in>set (map row_id t). balance_in t k)"
    using assms unfolding keys_distinct_def by (rule sum_list_distinct_conv_sum_set)
  finally show ?thesis .
qed

lemma fin_explained_check:
  assumes "fin_ok s" "\<forall>k\<in>set (map row_id (accounts s)). acct_balance s k = ledger_balance (fin_journal s) k"
  shows "fin_explained s"
proof -
  have "acct_balance s k = ledger_balance (fin_journal s) k" if k: "\<not> tbl_has k (accounts s)" for k
  proof -
    have "flow m k = 0" if "m \<in> set (fin_journal s)" for m
      using that k assms(1)
      by (auto simp: fin_journal_def completed_lines_def txn_line_def flow_def fin_ok_def split: if_splits)
    then have "ledger_balance (fin_journal s) k = 0"
      by (simp add: ledger_balance_def cong: map_cong)
    moreover have "acct_balance s k = 0"
      using k by (auto simp: acct_balance_def balance_in_def dest: tbl_get_has split: option.splits)
    ultimately show ?thesis by simp
  qed
  then show ?thesis using assms unfolding fin_explained_def tbl_has_map by blast
qed

text \<open>A sound ledger is closed: the balances of all accounts add up to nothing.\<close>

lemma fin_explained_closed:
  assumes "fin_explained s"
  shows "sum_list (map acc_balance (accounts s)) = 0"
proof -
  have ok: "fin_ok s" and bal: "\<And>k. acct_balance s k = ledger_balance (fin_journal s) k"
    using assms by (auto simp: fin_explained_def)
  have "(\<Sum>k\<in>set (map row_id (accounts s)). acct_balance s k) = 0"
  proof (rule fin_insert.explained_closed)
    fix a b q assume "(a, b, q) \<in> set (fin_journal s)"
    then show "a \<in> set (map row_id (accounts s)) \<longleftrightarrow> b \<in> set (map row_id (accounts s))"
      using ok by (auto simp: fin_ok_iff fin_journal_def completed_lines_def txn_line_def split: if_splits)
  qed (use bal in auto)
  then show ?thesis
    using ok by (simp add: sum_balances_eq fin_ok_def acct_balance_def)
qed

end
