(* ===== verification/Calendar.thy ===== *)
theory Calendar
  imports Prelude
begin

text \<open>
  The part of Python's \<open>datetime\<close> the services use: year, month and day of a day number in the
  proleptic Gregorian calendar, the first day of a month, the weekday, and the replacement of
  the time of day. A datetime is its UTC instant; a fixed offset (Asia/Tashkent is UTC+5 all
  year) is an addition.
\<close>

definition year_of_era :: "int \<Rightarrow> int" where
  "year_of_era doe = (doe - doe div 1460 + doe div 36524 - doe div 146096) div 365"

definition day_of_year :: "int \<Rightarrow> int" where
  "day_of_year doe = (let y = year_of_era doe in doe - (365 * y + y div 4 - y div 100))"

definition civil_of_date :: "date \<Rightarrow> int \<times> int \<times> int" where
  "civil_of_date d =
     (let z = d + 719468; doe = z mod 146097; doy = day_of_year doe; mp = (5 * doy + 2) div 153;
          m = (if mp < 10 then mp + 3 else mp - 9)
      in (year_of_era doe + 400 * (z div 146097) + (if m \<le> 2 then 1 else 0), m,
          doy - (153 * mp + 2) div 5 + 1))"

definition date_of_civil :: "int \<Rightarrow> int \<Rightarrow> int \<Rightarrow> date" where
  "date_of_civil y m d =
     (let y' = (if m \<le> 2 then y - 1 else y); yoe = y' mod 400; mp = (if m > 2 then m - 3 else m + 9);
          doy = (153 * mp + 2) div 5 + d - 1
      in 146097 * (y' div 400) + (365 * yoe + yoe div 4 - yoe div 100 + doy) - 719468)"

definition day_of_month :: "date \<Rightarrow> int" where
  "day_of_month d = snd (snd (civil_of_date d))"

definition first_of_month :: "date \<Rightarrow> date" where
  "first_of_month d = d - (day_of_month d - 1)"

definition first_of_next_month :: "date \<Rightarrow> date" where
  "first_of_next_month d = (case civil_of_date d of (y, m, _) \<Rightarrow>
     if m = 12 then date_of_civil (y + 1) 1 1 else date_of_civil y (m + 1) 1)"

definition first_of_previous_month :: "date \<Rightarrow> date" where
  "first_of_previous_month d = (case civil_of_date d of (y, m, _) \<Rightarrow>
     if m = 1 then date_of_civil (y - 1) 12 1 else date_of_civil y (m - 1) 1)"

text \<open>\<open>date.weekday()\<close>: Monday is 0; day 0, 1 January 1970, was a Thursday.\<close>

definition weekday :: "date \<Rightarrow> int" where
  "weekday d = (d + 3) mod 7"

definition tashkent_offset :: int where
  "tashkent_offset = 5 * 3600 * 1000000"

definition start_of_day :: "timestamp \<Rightarrow> timestamp" where
  "start_of_day t = midnight (date_of t)"

definition end_of_day :: "timestamp \<Rightarrow> timestamp" where
  "end_of_day t = midnight (date_of t) + 86399 * 1000000"

lemma civil_of_epoch: "civil_of_date 0 = (1970, 1, 1)" "civil_of_date 11016 = (2000, 2, 29)"
  by code_simp+

lemma month_day_range:
  fixes doy :: int
  assumes "mp = (5 * doy + 2) div 153"
  shows "1 \<le> doy - (153 * mp + 2) div 5 + 1" "doy - (153 * mp + 2) div 5 + 1 \<le> 31"
proof -
  have a: "153 * mp \<le> 5 * doy + 2" "5 * doy + 2 < 153 * mp + 153"
    unfolding assms by auto
  have b: "5 * ((153 * mp + 2) div 5) \<le> 153 * mp + 2" "153 * mp + 2 < 5 * ((153 * mp + 2) div 5) + 5"
    by auto
  show "1 \<le> doy - (153 * mp + 2) div 5 + 1" "doy - (153 * mp + 2) div 5 + 1 \<le> 31"
    using a b by linarith+
qed

lemma day_of_month_range: "1 \<le> day_of_month d" "day_of_month d \<le> 31"
  unfolding day_of_month_def civil_of_date_def Let_def snd_conv by (rule month_day_range, simp)+

lemma first_of_month_le: "first_of_month d \<le> d" "d < first_of_month d + 31"
  using day_of_month_range [of d] by (simp_all add: first_of_month_def)

lemma weekday_range: "0 \<le> weekday d" "weekday d < 7"
  by (simp_all add: weekday_def)

lemma start_of_day_le: "start_of_day t \<le> t" "t < start_of_day t + usecs_per_day"
  using date_of_range [of t "date_of t"]
  by (simp_all add: start_of_day_def midnight_def algebra_simps)

end
