(* ===== verification/Search.thy ===== *)
theory Search
  imports Errors
begin

text \<open>
  Free-text search: \<open>normalize_q\<close> (\<open>src/modules/finances/search.py\<close>) and \<open>ilike_pattern\<close>
  (\<open>src/common/search.py\<close>), with PostgreSQL's \<open>ILIKE\<close> as the function \<open>like_match\<close>. Strings are
  sequences of characters of the first 256 code points; lower-casing, which depends on the
  server's locale, is the argument \<open>lower\<close>.
\<close>

definition py_isspace :: "char \<Rightarrow> bool" where
  "py_isspace c \<longleftrightarrow> of_char c \<in> {9, 10, 11, 12, 13, 28, 29, 30, 31, 32, 133, 160 :: nat}"

definition py_strip :: "string \<Rightarrow> string" where
  "py_strip s = rev (dropWhile py_isspace (rev (dropWhile py_isspace s)))"

definition is_hex :: "char \<Rightarrow> bool" where
  "is_hex c \<longleftrightarrow> (let n = of_char c :: nat in (48 \<le> n \<and> n \<le> 57) \<or> (65 \<le> n \<and> n \<le> 70) \<or> (97 \<le> n \<and> n \<le> 102))"

text \<open>
  The two regular expressions. \<open>$\<close> also matches before a newline that ends the string.
\<close>

definition chomp :: "string \<Rightarrow> string" where
  "chomp s = (if s \<noteq> [] \<and> last s = CHR 0x0A then butlast s else s)"

definition LONG_HEX_RE :: "string \<Rightarrow> bool" where
  "LONG_HEX_RE s \<longleftrightarrow> (length (chomp s) \<ge> 9 \<and> list_all is_hex (chomp s))"

definition UUID_RE :: "string \<Rightarrow> bool" where
  "UUID_RE s \<longleftrightarrow> (let u = chomp s in length u = 36
     \<and> list_all (\<lambda>i. if i \<in> {8, 13, 18, 23} then u ! i = CHR ''-'' else is_hex (u ! i)) [0..<36])"

definition MIN_LEN :: nat where "MIN_LEN = 2"

definition MAX_LEN :: nat where "MAX_LEN = 100"

definition py_replace_char :: "char \<Rightarrow> string \<Rightarrow> string \<Rightarrow> string" where
  "py_replace_char c r s = concat (map (\<lambda>x. if x = c then r else [x]) s)"

definition normalize_q :: "string option \<Rightarrow> finance_error + string option" where
  "normalize_q raw = (case raw of
     None \<Rightarrow> Inr None
   | Some raw \<Rightarrow>
       let q = py_strip raw in
       if q = [] then Inr None
       else if length q < MIN_LEN then Inl (SearchTooShortError (length q))
       else if length q > MAX_LEN then Inl (SearchTooLongError (length q))
       else let compact = py_replace_char (CHR ''-'') [] q in
         if UUID_RE q \<or> LONG_HEX_RE compact then Inl SearchUuidNotAllowedError
         else Inr (Some q))"

definition ilike_pattern :: "string \<Rightarrow> string" where
  "ilike_pattern q =
     (let escaped = py_replace_char (CHR ''_'') [CHR 0x5C, CHR ''_'']
            (py_replace_char (CHR 0x25) [CHR 0x5C, CHR 0x25]
              (py_replace_char (CHR 0x5C) [CHR 0x5C, CHR 0x5C] q))
      in CHR 0x25 # escaped @ [CHR 0x25])"

text \<open>\<open>ILIKE\<close>: \<open>%\<close> is any string, \<open>_\<close> any character, a backslash quotes the next character.\<close>

fun like_match :: "(char \<Rightarrow> char) \<Rightarrow> string \<Rightarrow> string \<Rightarrow> bool" where
  "like_match lower [] s = (s = [])"
| "like_match lower (p # ps) s =
     (if p = CHR 0x25 then like_match lower ps s \<or> (case s of [] \<Rightarrow> False | _ # t \<Rightarrow> like_match lower (p # ps) t)
      else if p = CHR ''_'' then (case s of [] \<Rightarrow> False | _ # t \<Rightarrow> like_match lower ps t)
      else if p = CHR 0x5C then
        (case ps of [] \<Rightarrow> False
         | c # ps' \<Rightarrow> (case s of [] \<Rightarrow> False | x # t \<Rightarrow> lower x = lower c \<and> like_match lower ps' t))
      else (case s of [] \<Rightarrow> False | x # t \<Rightarrow> lower x = lower p \<and> like_match lower ps t))"

section \<open>A pattern made by ilike\_pattern matches its text literally\<close>

definition esc :: "char \<Rightarrow> string" where
  "esc c = (if c = CHR 0x5C \<or> c = CHR 0x25 \<or> c = CHR ''_'' then [CHR 0x5C, c] else [c])"

lemma py_replace_char_simps [simp]:
  "py_replace_char c r [] = []"
  "py_replace_char c r (x # s) = (if x = c then r else [x]) @ py_replace_char c r s"
  by (simp_all add: py_replace_char_def)

lemma py_replace_char_append [simp]:
  "py_replace_char c r (s @ t) = py_replace_char c r s @ py_replace_char c r t"
  by (simp add: py_replace_char_def)

lemma ilike_pattern_esc: "ilike_pattern q = CHR 0x25 # concat (map esc q) @ [CHR 0x25]"
proof -
  have "py_replace_char (CHR ''_'') [CHR 0x5C, CHR ''_'']
      (py_replace_char (CHR 0x25) [CHR 0x5C, CHR 0x25]
        (py_replace_char (CHR 0x5C) [CHR 0x5C, CHR 0x5C] q)) = concat (map esc q)"
    by (induction q) (auto simp: esc_def)
  then show ?thesis by (simp add: ilike_pattern_def)
qed

lemma like_match_percent:
  "like_match lower (CHR 0x25 # ps) s \<longleftrightarrow> (\<exists>a b. s = a @ b \<and> like_match lower ps b)"
proof (induction s)
  case Nil
  show ?case by simp
next
  case (Cons x t)
  have "like_match lower (CHR 0x25 # ps) (x # t) \<longleftrightarrow>
      like_match lower ps (x # t) \<or> like_match lower (CHR 0x25 # ps) t"
    by simp
  also have "\<dots> \<longleftrightarrow> like_match lower ps (x # t) \<or> (\<exists>a b. t = a @ b \<and> like_match lower ps b)"
    by (simp only: Cons.IH)
  also have "\<dots> \<longleftrightarrow> (\<exists>a b. x # t = a @ b \<and> like_match lower ps b)"
    by (auto simp: Cons_eq_append_conv)
  finally show ?case .
qed

lemma like_match_esc:
  "like_match lower (esc c @ ps) s \<longleftrightarrow> (\<exists>x t. s = x # t \<and> lower x = lower c \<and> like_match lower ps t)"
  by (cases s) (auto simp: esc_def)

lemma like_match_literal:
  "like_match lower (concat (map esc q) @ ps) s \<longleftrightarrow>
     (\<exists>m t. s = m @ t \<and> map lower m = map lower q \<and> like_match lower ps t)"
proof (induction q arbitrary: s)
  case (Cons c q)
  have "like_match lower (concat (map esc (c # q)) @ ps) s \<longleftrightarrow>
      (\<exists>x t. s = x # t \<and> lower x = lower c \<and>
         (\<exists>m u. t = m @ u \<and> map lower m = map lower q \<and> like_match lower ps u))" (is "_ \<longleftrightarrow> ?L")
    by (simp only: list.map concat.simps append_assoc like_match_esc Cons.IH)
  also have "?L \<longleftrightarrow> (\<exists>m t. s = m @ t \<and> map lower m = map lower (c # q) \<and> like_match lower ps t)"
    (is "_ \<longleftrightarrow> ?R")
  proof
    assume ?L
    then obtain x m u where "s = (x # m) @ u" "map lower (x # m) = map lower (c # q)"
        "like_match lower ps u" by auto
    then show ?R by blast
  next
    assume ?R
    then obtain m t where "s = m @ t" "map lower m = map lower (c # q)" "like_match lower ps t"
      by blast
    then show ?L by (cases m) auto
  qed
  finally show ?case .
qed simp

text \<open>
  Search is literal: \<open>ILIKE\<close> with the pattern of \<open>ilike_pattern q\<close> holds of exactly the texts that
  contain \<open>q\<close> up to case; no character of \<open>q\<close> acts as a wildcard or as an escape.
\<close>

theorem ilike_pattern_literal:
  "like_match lower (ilike_pattern q) s \<longleftrightarrow> (\<exists>a m b. s = a @ m @ b \<and> map lower m = map lower q)"
proof -
  have all: "like_match lower [CHR 0x25] b" for b
    by (induction b) auto
  have "like_match lower (ilike_pattern q) s \<longleftrightarrow>
      (\<exists>a b. s = a @ b \<and> (\<exists>m t. b = m @ t \<and> map lower m = map lower q \<and> True))"
    by (simp only: ilike_pattern_esc like_match_percent [of lower "concat (map esc q) @ [CHR 0x25]"]
        like_match_literal all)
  then show ?thesis by blast
qed

end
