(* ===== verification/Samples.thy ===== *)
theory Samples
  imports Schema
begin

text \<open>
  A small database on which the properties are evaluated: the system and walk-in users, an
  administrator, a retail client, a company with an active contract, a courier; water with its
  returnable bottle; the accounts and inventories of each; some stock; orders in several statuses and
  an invoice. Every balance has the journal that explains it.
\<close>

abbreviation now0 :: timestamp where
  "now0 \<equiv> 1728000000000000"

definition sample_users :: "user_row list" where
  "sample_users =
     [user_row.make 0 True 0 0 ''System'' R_SYSTEM,
      user_row.make 2 True 0 0 ''Walk-in'' R_CLIENT_B2C,
      user_row.make 3 True 0 0 ''Admin'' R_ADMIN,
      user_row.make 4 True 0 0 ''Anvar'' R_CLIENT_B2C,
      user_row.make 5 True 0 0 ''Company'' R_CLIENT_B2B,
      user_row.make 6 True 0 0 ''Courier'' R_COURIER]"

definition sample_products :: "product_row list" where
  "sample_products =
     [product_row.make 21 True 0 0 None PT_CONTAINER ''Bottle'' 50000 [],
      product_row.make 20 True 0 0 (Some 21) PT_WATER ''Water'' 15000 []]"

definition sample_accounts :: "account_row list" where
  "sample_accounts =
     [account_row.make 30 True 0 0 0 AT_REVENUE ''Revenue'' (- 500),
      account_row.make 31 True 0 0 0 AT_CASH ''Cash'' 200,
      account_row.make 32 True 0 0 0 AT_CARD ''Card'' 0,
      account_row.make 33 True 0 0 0 AT_BANK ''Bank'' 0,
      account_row.make 34 True 0 0 4 AT_CLIENT ''Anvar'' 300,
      account_row.make 35 True 0 0 5 AT_CLIENT ''Company'' 0,
      account_row.make 36 True 0 0 6 AT_COURIER ''Courier'' 0,
      account_row.make 37 True 0 0 2 AT_CLIENT ''Walk-in'' 0]"

definition sample_transactions :: "transaction_row list" where
  "sample_transactions =
     [transaction_row.make 70 True 1000 1000 30 34 None (Some 3) 500 TS_COMPLETED ''Order'',
      transaction_row.make 71 True 2000 2000 34 31 None (Some 3) 200 TS_COMPLETED ''Payment'',
      transaction_row.make 72 True 3000 3000 34 32 None None 100 TS_PENDING ''Card'']"

definition sample_inventories :: "inventory_row list" where
  "sample_inventories =
     [inventory_row.make 40 True 0 0 0 IT_VIRTUAL_VENDOR ''Vendor'',
      inventory_row.make 41 True 0 0 0 IT_VIRTUAL_LOSS ''Loss'',
      inventory_row.make 42 True 0 0 3 IT_WAREHOUSE ''Warehouse'',
      inventory_row.make 43 True 0 0 6 IT_COURIER ''Truck'',
      inventory_row.make 44 True 0 0 4 IT_CLIENT ''Home'',
      inventory_row.make 45 True 0 0 5 IT_CLIENT ''Office'',
      inventory_row.make 46 True 0 0 2 IT_CLIENT ''Pickup'']"

definition sample_stock_transfers :: "transfer_row list" where
  "sample_stock_transfers =
     [transfer_row.make 80 True 0 0 40 42 3 None None None None TT_INITIAL_BALANCE TRS_COMPLETED,
      transfer_row.make 81 True 0 0 42 43 3 None None None None TT_COURIER_LOAD TRS_COMPLETED]"

definition sample_stock_transactions :: "stock_transaction_row list" where
  "sample_stock_transactions =
     [stock_transaction_row.make 82 True 0 0 20 80 40 42 100,
      stock_transaction_row.make 83 True 0 0 21 80 40 42 100,
      stock_transaction_row.make 84 True 0 0 20 81 42 43 10,
      stock_transaction_row.make 85 True 0 0 21 81 42 43 10]"

definition sample_balances :: "balance_row list" where
  "sample_balances =
     [balance_row.make 86 True 0 0 40 20 (- 100), balance_row.make 87 True 0 0 42 20 90,
      balance_row.make 88 True 0 0 40 21 (- 100), balance_row.make 89 True 0 0 42 21 90,
      balance_row.make 90 True 0 0 43 20 10, balance_row.make 91 True 0 0 43 21 10]"

definition sample_contracts :: "contract_row list" where
  "sample_contracts =
     [contract_row.make 50 True 0 0 ''C-1'' 5 CS_ACTIVE 19000 None 30 ''Company LLC'' ''123456789'' None
        (Some 0) (Some 3) None None None None]"

definition sample_price_items :: "price_item_row list" where
  "sample_price_items = [price_item_row.make 51 True 0 0 50 20 12000 40 5]"

definition sample_orders :: "order_row list" where
  "sample_orders =
     [order_row.make 60 True 0 0 5 45 None PM_CONTRACT OS_NEW 36000 False SALE_DELIVERY None (Some 50) True None None,
      order_row.make 61 True 1720000000000000 0 5 45 (Some 6) PM_CONTRACT OS_DELIVERED 24000 False SALE_DELIVERY
        None (Some 50) True None None,
      order_row.make 62 True 0 0 4 44 (Some 6) PM_CASH OS_ARRIVED 30000 False SALE_DELIVERY None None False None None,
      order_row.make 63 True 0 0 4 44 None PM_CARD OS_NEW 15000 False SALE_DELIVERY None None False None None,
      order_row.make 64 True 0 0 4 44 None PM_CASH OS_NEW 15000 False SALE_WAREHOUSE_PICKUP (Some 42) None False
        None None]"

definition sample_order_items :: "order_item_row list" where
  "sample_order_items =
     [order_item_row.make 600 True 0 0 60 20 3 12000, order_item_row.make 610 True 0 0 61 20 2 12000,
      order_item_row.make 620 True 0 0 62 20 2 15000, order_item_row.make 630 True 0 0 63 20 1 15000,
      order_item_row.make 640 True 0 0 64 20 1 15000]"

definition sample_invoices :: "invoice_row list" where
  "sample_invoices =
     [invoice_row.make 65 True 0 0 ''C-1/2024-06-001'' 50 IS_ISSUED 19875 19904 24000 (Some 19934) (Some 0) None]"

definition sample_db :: db where
  "sample_db = empty_db\<lparr>users := sample_users, products := sample_products,
     accounts := sample_accounts, transactions := sample_transactions,
     inventories := sample_inventories, stock_transfers := sample_stock_transfers,
     stock_transactions := sample_stock_transactions, inventory_balances := sample_balances,
     contracts := sample_contracts, contract_price_items := sample_price_items,
     orders := sample_orders, order_items := sample_order_items, invoices := sample_invoices, clock := now0\<rparr>"

lemmas sample_rows = user_row.defs product_row.defs account_row.defs transaction_row.defs
  inventory_row.defs transfer_row.defs stock_transaction_row.defs balance_row.defs
  contract_row.defs price_item_row.defs order_row.defs order_item_row.defs invoice_row.defs

lemmas sample_defs = sample_db_def empty_db_def sample_users_def sample_products_def
  sample_accounts_def sample_transactions_def sample_inventories_def sample_stock_transfers_def
  sample_stock_transactions_def sample_balances_def sample_contracts_def sample_price_items_def
  sample_orders_def sample_order_items_def sample_invoices_def

end
