(* ===== verification/Billing.thy ===== *)
theory Billing
  imports Finances Calendar Search Samples "HOL-Library.Multiset"
begin

text \<open>
  \<open>BillingService\<close> (\<open>src/modules/finances/services.py\<close>): manual postings, verification and
  rejection of pending transactions, the cash desk, account statements, and the reports, with
  the filters of the listings (\<open>_apply_account_filters\<close>, \<open>_apply_transaction_filters\<close> of
  \<open>src/modules/finances/repositories.py\<close>).
\<close>

section \<open>Pagination and filters\<close>

definition MAX_PAGE_DEPTH :: int where
  "MAX_PAGE_DEPTH = 10000"

definition check_pagination :: "int \<Rightarrow> int \<Rightarrow> finance_error + unit" where
  "check_pagination page page_size =
     (if page * page_size > MAX_PAGE_DEPTH then Inl (PaginationTooDeepError page page_size) else Inr ())"

definition total_pages :: "int \<Rightarrow> int \<Rightarrow> int" where
  "total_pages cnt page_size = (if page_size \<le> 0 then 0 else (cnt + page_size - 1) div page_size)"

record account_filter =
  af_q :: "string option"
  af_type_in :: "account_type list option"
  af_user_id :: "uuid option"
  af_user_role_in :: "role list option"
  af_balance_from :: "int option"
  af_balance_to :: "int option"
  af_is_in_credit :: "bool option"
  af_zero_balance :: "bool option"
  af_has_debt :: "bool option"
  af_created_from :: "timestamp option"
  af_created_to :: "timestamp option"

datatype direction = INCOMING | OUTGOING | INTERNAL

datatype date_preset = TODAY | YESTERDAY | THIS_WEEK | LAST_WEEK | THIS_MONTH | LAST_MONTH

record transaction_filter =
  tf_q :: "string option"
  tf_status_in :: "transaction_status list option"
  tf_direction :: "direction option"
  tf_account_id :: "uuid option"
  tf_from_account_id :: "uuid option"
  tf_to_account_id :: "uuid option"
  tf_from_account_type_in :: "account_type list option"
  tf_to_account_type_in :: "account_type list option"
  tf_order_id :: "uuid option"
  tf_order_status_in :: "order_status list option"
  tf_order_payment_method_in :: "payment_method list option"
  tf_order_sale_type_in :: "sale_type list option"
  tf_has_order :: "bool option"
  tf_contract_id :: "uuid option"
  tf_contract_number :: "string option"
  tf_client_id :: "uuid option"
  tf_courier_id :: "uuid option"
  tf_user_role_in :: "role list option"
  tf_verified_by_id :: "uuid option"
  tf_verified :: "bool option"
  tf_reason_search :: "string option"
  tf_amount_eq :: "int option"
  tf_amount_from :: "int option"
  tf_amount_to :: "int option"
  tf_date_preset :: "date_preset option"
  tf_date_from :: "timestamp option"
  tf_date_to :: "timestamp option"
  tf_ascending :: bool

text \<open>A condition that is added only when its parameter is given (a non-empty list, a value).\<close>

definition opt_in :: "'a \<Rightarrow> 'a list option \<Rightarrow> bool" where
  "opt_in x l = (case l of None \<Rightarrow> True | Some xs \<Rightarrow> xs = [] \<or> x \<in> set xs)"

definition opt_when :: "'a option \<Rightarrow> ('a \<Rightarrow> bool) \<Rightarrow> bool" where
  "opt_when v p = (case v of None \<Rightarrow> True | Some x \<Rightarrow> p x)"

definition validate_transaction_filter :: "transaction_filter \<Rightarrow> finance_error + unit" where
  "validate_transaction_filter f =
     (if tf_amount_eq f \<noteq> None \<and> (tf_amount_from f \<noteq> None \<or> tf_amount_to f \<noteq> None)
      then Inl AmountConflictError
      else if \<not> opt_when (tf_amount_from f) (\<lambda>a. opt_when (tf_amount_to f) (\<lambda>b. a \<le> b))
      then Inl AmountRangeInvalidError
      else if tf_date_preset f \<noteq> None \<and> (tf_date_from f \<noteq> None \<or> tf_date_to f \<noteq> None)
      then Inl DatePresetConflictError
      else if \<not> opt_when (tf_date_from f) (\<lambda>a. opt_when (tf_date_to f) (\<lambda>b. a \<le> b))
      then Inl DateRangeInvalidError
      else Inr ())"

fun preset_days :: "date_preset \<Rightarrow> date \<Rightarrow> date \<times> date" where
  "preset_days TODAY d = (d, d + 1)"
| "preset_days YESTERDAY d = (d - 1, d)"
| "preset_days THIS_WEEK d = (d - weekday d, d - weekday d + 7)"
| "preset_days LAST_WEEK d = (d - weekday d - 7, d - weekday d)"
| "preset_days THIS_MONTH d = (first_of_month d, first_of_next_month d)"
| "preset_days LAST_MONTH d = (first_of_previous_month d, first_of_month d)"

definition resolve_date_preset :: "timestamp \<Rightarrow> transaction_filter \<Rightarrow> transaction_filter" where
  "resolve_date_preset now f = (case tf_date_preset f of
     None \<Rightarrow> f
   | Some p \<Rightarrow>
       (case preset_days p (date_of (now + tashkent_offset)) of (start_local, end_local) \<Rightarrow>
          f\<lparr>tf_date_preset := None,
            tf_date_from := Some (midnight start_local - tashkent_offset),
            tf_date_to := Some (midnight end_local - tashkent_offset)\<rparr>))"

definition user_of :: "uuid \<Rightarrow> db \<Rightarrow> user_row option" where
  "user_of i s = tbl_get i False (users s)"

definition apply_account_filters ::
  "(char \<Rightarrow> char) \<Rightarrow> db \<Rightarrow> account_filter \<Rightarrow> string option \<Rightarrow> account_row \<Rightarrow> bool" where
  "apply_account_filters lower s f q a = (case user_of (acc_user_id a) s of
     None \<Rightarrow> False
   | Some u \<Rightarrow> is_active a
       \<and> opt_in (acc_type a) (af_type_in f)
       \<and> opt_when (af_user_id f) (\<lambda>i. acc_user_id a = i)
       \<and> opt_in (usr_role u) (af_user_role_in f)
       \<and> opt_when (af_balance_from f) (\<lambda>b. acc_balance a \<ge> b)
       \<and> opt_when (af_balance_to f) (\<lambda>b. acc_balance a \<le> b)
       \<and> opt_when (af_is_in_credit f) (\<lambda>c. if c then acc_balance a < 0 else acc_balance a \<ge> 0)
       \<and> opt_when (af_zero_balance f) (\<lambda>z. z \<longrightarrow> acc_balance a = 0)
       \<and> opt_when (af_has_debt f) (\<lambda>d. d \<longrightarrow> acc_type a = AT_CLIENT \<and> acc_balance a > 0)
       \<and> opt_when (af_created_from f) (\<lambda>d. created_at a \<ge> d)
       \<and> opt_when (af_created_to f) (\<lambda>d. created_at a \<le> d)
       \<and> opt_when q (\<lambda>q. like_match lower (ilike_pattern q) (acc_name a)
            \<or> like_match lower (ilike_pattern q) (usr_username u)))"

definition filtered_accounts ::
  "(char \<Rightarrow> char) \<Rightarrow> account_filter \<Rightarrow> db \<Rightarrow> finance_error + account_row list" where
  "filtered_accounts lower f s = (case normalize_q (af_q f) of
     Inl e \<Rightarrow> Inl e
   | Inr q \<Rightarrow> Inr (filter (apply_account_filters lower s f q) (accounts s)))"

text \<open>
  The WHERE clause of the listing of transactions over the joined rows. The outer joins to the
  order and its contract give no row when there is none, and a condition on a missing row is
  not true.
\<close>

definition direction_filter :: "transaction_filter \<Rightarrow> transaction_row \<Rightarrow> bool" where
  "direction_filter f t = opt_when (tf_account_id f) (\<lambda>i. case tf_direction f of
     Some INCOMING \<Rightarrow> txn_to_id t = i
   | Some OUTGOING \<Rightarrow> txn_from_id t = i
   | Some INTERNAL \<Rightarrow> txn_from_id t = i \<and> txn_to_id t = i
   | None \<Rightarrow> txn_from_id t = i \<or> txn_to_id t = i)"

definition opt_row :: "'a list option \<Rightarrow> 'r option \<Rightarrow> ('r \<Rightarrow> 'a) \<Rightarrow> bool" where
  "opt_row l r col = (case l of None \<Rightarrow> True | Some xs \<Rightarrow> xs = [] \<or>
     (case r of None \<Rightarrow> False | Some r \<Rightarrow> col r \<in> set xs))"

definition order_filter :: "(char \<Rightarrow> char) \<Rightarrow> db \<Rightarrow> transaction_filter \<Rightarrow> transaction_row \<Rightarrow> bool" where
  "order_filter lower s f t =
     (let ord = Option.bind (txn_order_id t) (\<lambda>i. tbl_get i False (orders s));
          con = Option.bind (Option.bind ord ord_contract_id) (\<lambda>i. tbl_get i False (contracts s))
      in opt_when (tf_order_id f) (\<lambda>i. txn_order_id t = Some i)
       \<and> opt_when (tf_has_order f) (\<lambda>b. b = (txn_order_id t \<noteq> None))
       \<and> opt_row (tf_order_status_in f) ord ord_status
       \<and> opt_row (tf_order_payment_method_in f) ord ord_payment_method
       \<and> opt_row (tf_order_sale_type_in f) ord ord_sale_type
       \<and> opt_when (tf_contract_id f) (\<lambda>i. Option.bind ord ord_contract_id = Some i)
       \<and> opt_when (tf_contract_number f) (\<lambda>n. n \<noteq> [] \<longrightarrow> (case con of None \<Rightarrow> False
            | Some c \<Rightarrow> like_match lower (ilike_pattern n) (con_number c))))"

definition apply_transaction_filters ::
  "(char \<Rightarrow> char) \<Rightarrow> db \<Rightarrow> transaction_filter \<Rightarrow> string option \<Rightarrow> transaction_row \<Rightarrow> bool" where
  "apply_transaction_filters lower s f q t =
     (case (tbl_get (txn_from_id t) False (accounts s), tbl_get (txn_to_id t) False (accounts s)) of
       (Some fa, Some ta) \<Rightarrow>
         (case (user_of (acc_user_id fa) s, user_of (acc_user_id ta) s) of
           (Some fu, Some tu) \<Rightarrow>
             is_active t
             \<and> opt_in (txn_status t) (tf_status_in f)
             \<and> direction_filter f t
             \<and> opt_when (tf_from_account_id f) (\<lambda>i. txn_from_id t = i)
             \<and> opt_when (tf_to_account_id f) (\<lambda>i. txn_to_id t = i)
             \<and> opt_in (acc_type fa) (tf_from_account_type_in f)
             \<and> opt_in (acc_type ta) (tf_to_account_type_in f)
             \<and> order_filter lower s f t
             \<and> opt_when (tf_client_id f) (\<lambda>i. acc_user_id fa = i \<or> acc_user_id ta = i)
             \<and> opt_when (tf_courier_id f) (\<lambda>i. acc_user_id fa = i \<or> acc_user_id ta = i)
             \<and> (opt_in (usr_role fu) (tf_user_role_in f) \<or> opt_in (usr_role tu) (tf_user_role_in f))
             \<and> opt_when (tf_verified_by_id f) (\<lambda>i. txn_verified_by_id t = Some i)
             \<and> opt_when (tf_verified f) (\<lambda>b. b = (txn_verified_by_id t \<noteq> None))
             \<and> opt_when (tf_reason_search f) (\<lambda>r. r \<noteq> [] \<longrightarrow>
                  like_match lower (ilike_pattern (py_strip r)) (txn_reason t))
             \<and> opt_when (tf_amount_eq f) (\<lambda>a. txn_amount t = a)
             \<and> opt_when (tf_amount_from f) (\<lambda>a. txn_amount t \<ge> a)
             \<and> opt_when (tf_amount_to f) (\<lambda>a. txn_amount t \<le> a)
             \<and> opt_when (tf_date_from f) (\<lambda>d. created_at t \<ge> d)
             \<and> opt_when (tf_date_to f) (\<lambda>d. created_at t \<le> d)
             \<and> opt_when q (\<lambda>q. list_ex (like_match lower (ilike_pattern q))
                  [txn_reason t, acc_name fa, acc_name ta, usr_username fu, usr_username tu])
         | _ \<Rightarrow> False)
     | _ \<Rightarrow> False)"

definition filtered_transactions ::
  "(char \<Rightarrow> char) \<Rightarrow> transaction_filter \<Rightarrow> db \<Rightarrow> finance_error + transaction_row list" where
  "filtered_transactions lower f s = (case normalize_q (tf_q f) of
     Inl e \<Rightarrow> Inl e
   | Inr q \<Rightarrow> Inr (filter (apply_transaction_filters lower s f q) (transactions s)))"

section \<open>Responses\<close>

record account_short =
  acs_id :: uuid
  acs_name :: string
  acs_type :: account_type

definition account_short_of :: "account_row \<Rightarrow> account_short" where
  "account_short_of a = \<lparr>acs_id = row_id a, acs_name = acc_name a, acs_type = acc_type a\<rparr>"

definition account_short_by :: "db \<Rightarrow> uuid \<Rightarrow> account_short option" where
  "account_short_by s i = map_option account_short_of (tbl_get i False (accounts s))"

record transaction_response =
  trs_transaction :: transaction_row
  trs_from_account :: "account_short option"
  trs_to_account :: "account_short option"

definition transaction_response_of :: "db \<Rightarrow> transaction_row \<Rightarrow> transaction_response" where
  "transaction_response_of s t = \<lparr>trs_transaction = t,
     trs_from_account = account_short_by s (txn_from_id t),
     trs_to_account = account_short_by s (txn_to_id t)\<rparr>"

definition load_transaction_response :: "uuid \<Rightarrow> db \<Rightarrow> app_error + transaction_response" where
  "load_transaction_response i s = (case tbl_get i False (transactions s) of
     None \<Rightarrow> Inl (FinanceErr (TransactionNotFoundError i))
   | Some t \<Rightarrow> Inr (transaction_response_of s t))"

section \<open>Postings\<close>

definition create_transaction_body ::
  "uuid \<Rightarrow> uuid \<Rightarrow> int \<Rightarrow> string \<Rightarrow> uuid option \<Rightarrow> uuid \<Rightarrow> transaction_row dbtx" where
  "create_transaction_body from_id to_id amount reason order_id created_by_id =
     tx_bind (tx_raise_if (from_id = to_id) (FinanceErr (SelfTransferError from_id))) (\<lambda>_.
     tx_bind (tx_get accounts) (\<lambda>as.
     tx_bind (tx_require (tbl_get from_id True as) (FinanceErr (AccountNotFoundError (Some from_id)))) (\<lambda>_.
     tx_bind (tx_require (tbl_get to_id True as) (FinanceErr (AccountNotFoundError (Some to_id)))) (\<lambda>_.
     insert_transaction
       (transaction_draft from_id to_id amount reason order_id TS_COMPLETED (Some created_by_id))))))"

definition create_transaction where
  "create_transaction from_id to_id amount reason order_id created_by_id =
     commit_then (create_transaction_body from_id to_id amount reason order_id created_by_id)
       (\<lambda>t. load_transaction_response (row_id t))"

definition pending_transaction :: "uuid \<Rightarrow> transaction_row dbtx" where
  "pending_transaction transaction_id =
     tx_bind (tx_get (get_for_update transaction_id)) (\<lambda>t.
     tx_bind (tx_require t (FinanceErr (TransactionNotFoundError transaction_id))) (\<lambda>t.
     tx_bind (tx_raise_if (txn_status t \<noteq> TS_PENDING)
       (FinanceErr (InvalidTransactionStatusError transaction_id (txn_status t)))) (\<lambda>_.
     tx_ret t)))"

definition verify_transaction_body :: "uuid \<Rightarrow> uuid \<Rightarrow> unit dbtx" where
  "verify_transaction_body transaction_id verified_by_id =
     tx_bind (pending_transaction transaction_id) (\<lambda>t.
     update_transaction (t\<lparr>txn_status := TS_COMPLETED, txn_verified_by_id := Some verified_by_id\<rparr>))"

definition verify_transaction where
  "verify_transaction transaction_id verified_by_id =
     commit_then (verify_transaction_body transaction_id verified_by_id)
       (\<lambda>_. load_transaction_response transaction_id)"

definition reject_transaction_body :: "uuid \<Rightarrow> uuid \<Rightarrow> string option \<Rightarrow> unit dbtx" where
  "reject_transaction_body transaction_id verified_by_id reason =
     tx_bind (pending_transaction transaction_id) (\<lambda>t.
     update_transaction (t\<lparr>txn_status := TS_REJECTED, txn_verified_by_id := Some verified_by_id,
       txn_reason := (case reason of
           Some r \<Rightarrow> if r = [] then txn_reason t else txn_reason t @ '' | Otkloneno: '' @ r
         | None \<Rightarrow> txn_reason t)\<rparr>))"

definition reject_transaction where
  "reject_transaction transaction_id verified_by_id reason =
     commit_then (reject_transaction_body transaction_id verified_by_id reason)
       (\<lambda>_. load_transaction_response transaction_id)"

definition payment_target :: "string \<Rightarrow> db \<Rightarrow> account_row option \<times> transaction_status" where
  "payment_target method s =
     (if method = ''cash'' then (get_system_cash_account s, TS_COMPLETED)
      else if method = ''card'' then (get_system_card_account s, TS_PENDING)
      else (get_system_bank_account s, TS_COMPLETED))"

definition accept_payment_body ::
  "uuid \<Rightarrow> int \<Rightarrow> string \<Rightarrow> string \<Rightarrow> uuid \<Rightarrow> uuid option \<Rightarrow> transaction_row dbtx" where
  "accept_payment_body client_id amount method reason accepted_by_id order_id =
     tx_bind (tx_get (get_client_account client_id)) (\<lambda>ca.
     tx_bind (tx_require ca (FinanceErr (AccountNotFoundError None))) (\<lambda>client_account.
     tx_bind (tx_get (payment_target method)) (\<lambda>(target, status).
     tx_bind (tx_require target (FinanceErr (AccountNotFoundError None))) (\<lambda>target.
     insert_transaction (transaction_draft (row_id client_account) (row_id target) amount reason
       order_id status (if status = TS_COMPLETED then Some accepted_by_id else None))))))"

definition accept_payment where
  "accept_payment client_id amount method reason accepted_by_id order_id =
     commit_then (accept_payment_body client_id amount method reason accepted_by_id order_id)
       (\<lambda>t. load_transaction_response (row_id t))"

section \<open>Account statement\<close>

record statement_entry =
  ste_id :: uuid
  ste_incoming :: bool
  ste_counterparty :: "account_short option"
  ste_amount :: int
  ste_running_balance :: int
  ste_transaction :: transaction_row

record account_statement =
  stm_account :: account_short
  stm_date_from :: date
  stm_date_to :: date
  stm_opening_balance :: int
  stm_closing_balance :: int
  stm_total_incoming :: int
  stm_total_outgoing :: int
  stm_entries :: "statement_entry list"

definition statement_entry_of :: "db \<Rightarrow> uuid \<Rightarrow> int \<Rightarrow> transaction_row \<Rightarrow> statement_entry" where
  "statement_entry_of s account_id running t =
     \<lparr>ste_id = row_id t, ste_incoming = (txn_to_id t = account_id),
      ste_counterparty = account_short_by s
        (if txn_to_id t = account_id then txn_from_id t else txn_to_id t),
      ste_amount = txn_amount t, ste_running_balance = running, ste_transaction = t\<rparr>"

text \<open>The loop over the transactions: running balance, incoming and outgoing totals, entries.\<close>

fun statement_loop ::
  "db \<Rightarrow> uuid \<Rightarrow> int \<Rightarrow> int \<Rightarrow> int \<Rightarrow> transaction_row list \<Rightarrow> int \<times> int \<times> int \<times> statement_entry list" where
  "statement_loop s i running inc out [] = (running, inc, out, [])"
| "statement_loop s i running inc out (t # ts) =
     (if txn_to_id t = i
      then (let running' = running + txn_amount t in
        case statement_loop s i running' (inc + txn_amount t) out ts of
          (r, a, b, es) \<Rightarrow> (r, a, b, statement_entry_of s i running' t # es))
      else (let running' = running - txn_amount t in
        case statement_loop s i running' inc (out + txn_amount t) ts of
          (r, a, b, es) \<Rightarrow> (r, a, b, statement_entry_of s i running' t # es)))"

definition get_account_statement ::
  "uuid \<Rightarrow> timestamp option \<Rightarrow> timestamp option \<Rightarrow> nat \<Rightarrow> nat \<Rightarrow> db \<Rightarrow> app_error + account_statement" where
  "get_account_statement account_id date_from date_to skip limit s =
     (case tbl_get account_id True (accounts s) of
       None \<Rightarrow> Inl (FinanceErr (AccountNotFoundError (Some account_id)))
     | Some account \<Rightarrow>
         let now = clock s;
             dfrom = (case date_from of None \<Rightarrow> midnight (first_of_month (date_of now)) | Some d \<Rightarrow> d);
             dto = (case date_to of None \<Rightarrow> now | Some d \<Rightarrow> d);
             dt_from = start_of_day dfrom;
             dt_to = end_of_day dto;
             (incoming_before, outgoing_before) = get_opening_balance_data account_id dt_from s;
             opening_balance = incoming_before - outgoing_before;
             (running, inc, out, entries) = statement_loop s account_id opening_balance 0 0
               (get_account_transactions_in_period account_id dt_from dt_to skip limit s)
         in Inr \<lparr>stm_account = account_short_of account, stm_date_from = date_of dt_from,
              stm_date_to = date_of dt_to, stm_opening_balance = opening_balance,
              stm_closing_balance = running, stm_total_incoming = inc, stm_total_outgoing = out,
              stm_entries = entries\<rparr>)"

section \<open>Reports\<close>

record system_account_summary =
  sas_id :: uuid
  sas_balance :: int
  sas_name :: string

record finance_dashboard =
  fdb_system_accounts :: "account_type \<rightharpoonup> system_account_summary"
  fdb_total_revenue :: int
  fdb_total_cash_in_hand :: int
  fdb_total_card_pending :: int
  fdb_total_client_debt :: int
  fdb_total_courier_cash :: int
  fdb_total_b2b_settled_debt :: int
  fdb_pending_count :: nat

text \<open>The pairs of an active contract and an account of its client (the SQL joins).\<close>

definition b2b_rows :: "db \<Rightarrow> (contract_row \<times> account_row) list" where
  "b2b_rows s = concat (map (\<lambda>c.
     map (\<lambda>a. (c, a)) (filter (\<lambda>a. acc_user_id a = con_client_id c \<and> acc_type a = AT_CLIENT) (accounts s)))
     (filter (\<lambda>c. con_status c = CS_ACTIVE \<and> is_active c) (contracts s)))"

definition get_b2b_totals :: "db \<Rightarrow> int" where
  "get_b2b_totals s = sum_list (map (\<lambda>(c, a). acc_balance a) (b2b_rows s))"

definition dashboard_step ::
  "account_row \<Rightarrow> (account_type \<rightharpoonup> system_account_summary) \<times> int \<times> int \<times> uuid option
   \<Rightarrow> (account_type \<rightharpoonup> system_account_summary) \<times> int \<times> int \<times> uuid option" where
  "dashboard_step acc st = (case st of (m, revenue, cash, card_id) \<Rightarrow>
     (m(acc_type acc \<mapsto> \<lparr>sas_id = row_id acc, sas_balance = acc_balance acc, sas_name = acc_name acc\<rparr>),
      (if acc_type acc = AT_REVENUE then acc_balance acc else revenue),
      (if acc_type acc = AT_CASH then acc_balance acc else cash),
      (if acc_type acc = AT_CARD then Some (row_id acc) else card_id)))"

definition get_dashboard :: "db \<Rightarrow> finance_dashboard" where
  "get_dashboard s =
     (case fold dashboard_step (get_all_system_accounts s) (Map.empty, 0, 0, None) of
       (m, revenue, cash, card_id) \<Rightarrow>
         \<lparr>fdb_system_accounts = m, fdb_total_revenue = - revenue, fdb_total_cash_in_hand = cash,
          fdb_total_card_pending =
            (case card_id of None \<Rightarrow> 0 | Some i \<Rightarrow> get_pending_card_total i s),
          fdb_total_client_debt = get_total_client_debt s,
          fdb_total_courier_cash = get_total_courier_cash s,
          fdb_total_b2b_settled_debt = get_b2b_totals s,
          fdb_pending_count = get_pending_count s\<rparr>)"

record b2b_contract_debt =
  bcd_client_id :: uuid
  bcd_client_name :: string
  bcd_contract_id :: uuid
  bcd_contract_number :: string
  bcd_account_balance :: int
  bcd_overdue :: bool

definition b2b_debt_of :: "db \<Rightarrow> contract_row \<times> account_row \<Rightarrow> b2b_contract_debt list" where
  "b2b_debt_of s row = (case row of (c, a) \<Rightarrow> (case user_of (con_client_id c) s of
     None \<Rightarrow> []
   | Some u \<Rightarrow> [\<lparr>bcd_client_id = row_id u, bcd_client_name = usr_username u,
        bcd_contract_id = row_id c, bcd_contract_number = con_number c,
        bcd_account_balance = acc_balance a,
        bcd_overdue = (acc_balance a > 0 \<and> con_payment_due_days c = 0)\<rparr>]))"

definition get_b2b_contract_debts :: "db \<Rightarrow> b2b_contract_debt list \<times> int" where
  "get_b2b_contract_debts s =
     (let items = sort_key (\<lambda>d. - bcd_account_balance d) (concat (map (b2b_debt_of s) (b2b_rows s)))
      in (items, sum_list (map bcd_account_balance items)))"

record 'a page =
  pg_items :: "'a list"
  pg_page :: int
  pg_size :: int
  pg_total_count :: int
  pg_total_pages :: int

definition page_of :: "int \<Rightarrow> int \<Rightarrow> 'a list \<Rightarrow> 'a page" where
  "page_of page page_size rows =
     \<lparr>pg_items = take (nat page_size) (drop (nat ((page - 1) * page_size)) rows),
      pg_page = page, pg_size = page_size, pg_total_count = int (length rows),
      pg_total_pages = total_pages (int (length rows)) page_size\<rparr>"

definition get_accounts ::
  "(char \<Rightarrow> char) \<Rightarrow> account_filter \<Rightarrow> int \<Rightarrow> int \<Rightarrow> db
   \<Rightarrow> finance_error + (account_row page \<times> int \<times> (account_type \<Rightarrow> nat))" where
  "get_accounts lower f page page_size s = (case check_pagination page page_size of
     Inl e \<Rightarrow> Inl e
   | Inr _ \<Rightarrow> (case filtered_accounts lower f s of
       Inl e \<Rightarrow> Inl e
     | Inr rows \<Rightarrow> Inr (page_of page page_size (sort_key (\<lambda>a. - created_at a) rows),
         sum_list (map acc_balance rows),
         (\<lambda>ty. length (filter (\<lambda>a. acc_type a = ty) rows)))))"

definition transaction_order :: "bool \<Rightarrow> transaction_row \<Rightarrow> int \<times> int" where
  "transaction_order ascending t =
     ((if ascending then created_at t else - created_at t), - int (row_id t))"

text \<open>
  The aggregates select the columns of \<open>transactions\<close> from the subquery of the filtered rows. The columns belong to the table and
  not to the subquery, so the query crosses the table with the rows.
\<close>

definition get_transactions_summary :: "transaction_row list \<Rightarrow> db \<Rightarrow> int \<times> (transaction_status \<Rightarrow> nat)" where
  "get_transactions_summary rows s =
     (let crossed = List.product rows (transactions s)
      in (sum_list (map (\<lambda>(_, t). txn_amount t) crossed),
          (\<lambda>st. length (filter (\<lambda>(_, t). txn_status t = st) crossed))))"

definition get_transactions ::
  "(char \<Rightarrow> char) \<Rightarrow> transaction_filter \<Rightarrow> int \<Rightarrow> int \<Rightarrow> db
   \<Rightarrow> finance_error + (transaction_response page \<times> int \<times> (transaction_status \<Rightarrow> nat))" where
  "get_transactions lower f page page_size s = (case validate_transaction_filter f of
     Inl e \<Rightarrow> Inl e
   | Inr _ \<Rightarrow> (let f = resolve_date_preset (clock s) f in
       case check_pagination page page_size of
         Inl e \<Rightarrow> Inl e
       | Inr _ \<Rightarrow> (case filtered_transactions lower f s of
           Inl e \<Rightarrow> Inl e
         | Inr rows \<Rightarrow> Inr (page_of page page_size
               (map (transaction_response_of s) (sort_key (transaction_order (tf_ascending f)) rows)),
             get_transactions_summary rows s))))"

record courier_finance_summary =
  cfs_courier_id :: uuid
  cfs_account_id :: uuid
  cfs_cash_balance :: int
  cfs_today_collected :: int
  cfs_today_deposited :: int
  cfs_pending_deposit :: int

definition courier_summary :: "db \<Rightarrow> account_row \<Rightarrow> courier_finance_summary" where
  "courier_summary s acc =
     (let today = get_today_transactions_for_account (row_id acc) s
      in \<lparr>cfs_courier_id = acc_user_id acc, cfs_account_id = row_id acc,
          cfs_cash_balance = acc_balance acc,
          cfs_today_collected = sum_list (map txn_amount (filter (\<lambda>t. txn_to_id t = row_id acc) today)),
          cfs_today_deposited = sum_list (map txn_amount (filter (\<lambda>t. txn_from_id t = row_id acc) today)),
          cfs_pending_deposit = acc_balance acc\<rparr>)"

fun couriers_loop :: "db \<Rightarrow> int \<Rightarrow> int \<Rightarrow> account_row list \<Rightarrow> courier_finance_summary list \<times> int \<times> int" where
  "couriers_loop s cash deposit [] = ([], cash, deposit)"
| "couriers_loop s cash deposit (acc # accs) =
     (let c = courier_summary s acc;
          (cs, x, y) = (if acc_balance acc > 0
            then couriers_loop s (cash + acc_balance acc) (deposit + cfs_pending_deposit c) accs
            else couriers_loop s cash deposit accs)
      in (c # cs, x, y))"

definition get_couriers_summary :: "db \<Rightarrow> courier_finance_summary list \<times> int \<times> int" where
  "get_couriers_summary s = couriers_loop s 0 0 (get_courier_accounts_with_users s)"

definition get_last_payment_date :: "uuid \<Rightarrow> db \<Rightarrow> timestamp option" where
  "get_last_payment_date account_id s = limit_1 (sort_key uminus (map created_at
     (tbl_filter_by True (\<lambda>t. txn_from_id t = account_id \<and> txn_status t = TS_COMPLETED) (transactions s))))"

record client_debt =
  cld_client_id :: uuid
  cld_user :: "user_row option"
  cld_phone :: "string option"
  cld_account_id :: uuid
  cld_balance :: int
  cld_last_payment_date :: "timestamp option"

definition user_phone :: "uuid \<Rightarrow> db \<Rightarrow> string option" where
  "user_phone u s = map_option idn_provider_identity_id (find (\<lambda>i. idn_user_id i = u) (identities s))"

definition get_client_debts :: "int option \<Rightarrow> nat \<Rightarrow> nat \<Rightarrow> db \<Rightarrow> int \<times> nat \<times> client_debt list" where
  "get_client_debts min_debt skip limit s =
     (case get_client_debtors (case min_debt of None \<Rightarrow> 0 | Some d \<Rightarrow> d) skip limit s of
       (debtors_count, rows) \<Rightarrow> (get_total_client_debt s, debtors_count,
         map (\<lambda>a. \<lparr>cld_client_id = acc_user_id a, cld_user = user_of (acc_user_id a) s,
           cld_phone = user_phone (acc_user_id a) s, cld_account_id = row_id a,
           cld_balance = acc_balance a, cld_last_payment_date = get_last_payment_date (row_id a) s\<rparr>) rows))"

definition get_account_detail ::
  "uuid \<Rightarrow> db \<Rightarrow> app_error + (account_row \<times> string option \<times> transaction_response list)" where
  "get_account_detail account_id s = (case tbl_get account_id True (accounts s) of
     None \<Rightarrow> Inl (FinanceErr (AccountNotFoundError (Some account_id)))
   | Some a \<Rightarrow> Inr (a, map_option usr_username (user_of (acc_user_id a) s),
       map (transaction_response_of s) (get_recent_for_account account_id 10 s)))"

section \<open>The postings keep the ledger sound\<close>

lemma keeps_create_transaction [keeps_intro]:
  "keeps fin_explained (create_transaction_body f t amount reason ord u)"
  unfolding create_transaction_body_def by (intro keeps_intro)

lemma keeps_pending_transaction [keeps_intro]: "keeps P (pending_transaction i)"
  unfolding pending_transaction_def by (intro keeps_intro)

lemma keeps_verify_transaction [keeps_intro]: "keeps fin_explained (verify_transaction_body i u)"
  unfolding verify_transaction_body_def by (intro keeps_intro)

lemma keeps_reject_transaction [keeps_intro]: "keeps fin_explained (reject_transaction_body i u r)"
  unfolding reject_transaction_body_def by (intro keeps_intro)

lemma keeps_accept_payment [keeps_intro]:
  "keeps fin_explained (accept_payment_body c amount method reason u ord)"
  unfolding accept_payment_body_def by (intro keeps_intro)

lemma transaction_draft_sel [simp]:
  "txn_from_id (transaction_draft f t a r ord st vb) = f"
  "txn_to_id (transaction_draft f t a r ord st vb) = t"
  "txn_amount (transaction_draft f t a r ord st vb) = a"
  "txn_status (transaction_draft f t a r ord st vb) = st"
  "txn_order_id (transaction_draft f t a r ord st vb) = ord"
  "txn_verified_by_id (transaction_draft f t a r ord st vb) = vb"
  "txn_reason (transaction_draft f t a r ord st vb) = r"
  by (simp_all add: transaction_draft_def)

lemma stamp_transaction_sel [simp]:
  "txn_from_id (stamp i now d) = txn_from_id d" "txn_to_id (stamp i now d) = txn_to_id d"
  "txn_amount (stamp i now d) = txn_amount d" "txn_status (stamp i now d) = txn_status d"
  "txn_order_id (stamp i now d) = txn_order_id d"
  "txn_verified_by_id (stamp i now d) = txn_verified_by_id d" "txn_reason (stamp i now d) = txn_reason d"
  by (simp_all add: stamp_def)

lemma load_new_transaction:
  assumes "insert_transaction d s = Inr (t, s')"
  shows "load_transaction_response (row_id t) s' = Inr (transaction_response_of s' t)"
proof -
  have "tbl_get (row_id t) False (transactions s) = None"
    using insert_transactionD(1,4) [OF assms]
    by (auto simp: tbl_get_def tbl_has_def find_None_all)
  then show ?thesis
    using insert_transactionD(2) [OF assms]
    by (simp add: load_transaction_response_def tbl_get_add)
qed

lemma pending_transaction_iff [tx_iff]:
  "pending_transaction i s = Inr (t, s') \<longleftrightarrow>
     s' = s \<and> tbl_get i False (transactions s) = Some t \<and> txn_status t = TS_PENDING"
  by (auto simp: pending_transaction_def get_for_update_def tx_iff)

section \<open>The statement of an account\<close>

lemma sum_list_sort_key: "sum_list (map f (sort_key k xs)) = (sum_list (map f xs) :: int)"
  by (metis mset_map mset_sort sum_mset_sum_list)

lemma sum_list_map_subtract:
  "sum_list (map (\<lambda>x. (f x :: int) - g x) xs) = sum_list (map f xs) - sum_list (map g xs)"
  by (induction xs) auto

text \<open>What a transaction adds to the balance of account \<open>i\<close>.\<close>

definition effect :: "uuid \<Rightarrow> transaction_row \<Rightarrow> int" where
  "effect i t = (if txn_to_id t = i then txn_amount t else - txn_amount t)"

lemma statement_loop_totals:
  "statement_loop s i running inc out ts = (r, a, b, es) \<Longrightarrow>
     r = running + sum_list (map (effect i) ts)
     \<and> a - b = inc - out + sum_list (map (effect i) ts)
     \<and> length es = length ts"
proof (induction ts arbitrary: running inc out r a b es)
  case (Cons t ts)
  then show ?case
    by (auto simp: Let_def effect_def split: prod.splits if_splits) fastforce+
qed auto

lemma statement_loop_running:
  "statement_loop s i running inc out ts = (r, a, b, es) \<Longrightarrow> n < length ts \<Longrightarrow>
     ste_running_balance (es ! n) = running + sum_list (map (effect i) (take (Suc n) ts))"
proof (induction ts arbitrary: running inc out r a b es n)
  case (Cons t ts)
  then show ?case
    by (cases n) (auto simp: Let_def effect_def statement_entry_of_def split: prod.splits if_splits)
qed auto

lemma effect_flow: "touches i t \<Longrightarrow> txn_from_id t \<noteq> txn_to_id t \<Longrightarrow> effect i t = flow (txn_line t) i"
  by (auto simp: touches_def effect_def flow_def txn_line_def)

lemma flow_untouched: "\<not> touches i t \<Longrightarrow> flow (txn_line t) i = 0"
  by (auto simp: touches_def flow_def txn_line_def)

lemma opening_balance_flow:
  "(case get_opening_balance_data i b s of (x, y) \<Rightarrow> x - y) =
     sum_list (map (\<lambda>t. flow (txn_line t) i)
       (tbl_filter_by True (\<lambda>t. txn_status t = TS_COMPLETED \<and> created_at t < b) (transactions s)))"
  by (simp add: get_opening_balance_data_def Let_def sum_list_filter_map_if
      sum_list_map_subtract [symmetric] flow_def txn_line_def)
     (rule arg_cong [of _ _ sum_list], auto)

lemma period_effect_flow:
  assumes "\<And>t. t \<in> set ts \<Longrightarrow> txn_from_id t \<noteq> txn_to_id t"
  shows "sum_list (map (effect i) (filter (\<lambda>t. p t \<and> touches i t) ts)) =
    sum_list (map (\<lambda>t. if p t then flow (txn_line t) i else 0) ts)"
proof -
  have "(if p t \<and> touches i t then effect i t else 0) = (if p t then flow (txn_line t) i else 0)"
    if "t \<in> set ts" for t
    using assms [OF that] by (simp add: effect_flow flow_untouched)
  then show ?thesis
    unfolding sum_list_filter_map_if by (simp cong: map_cong)
qed

lemma ledger_balance_completed:
  "ledger_balance (fin_journal s) i =
     sum_list (map (\<lambda>t. if txn_status t = TS_COMPLETED then flow (txn_line t) i else 0) (transactions s))"
proof -
  have "(\<lambda>t. ledger_balance (completed_lines t) i) =
      (\<lambda>t. if txn_status t = TS_COMPLETED then flow (txn_line t) i else 0)"
    by (auto simp: completed_lines_def)
  then show ?thesis by (simp only: ledger_balance_fin_journal)
qed

lemma get_account_statementD:
  assumes "get_account_statement i date_from date_to skip limit s = Inr st"
  obtains dt_from where
    "stm_opening_balance st = (case get_opening_balance_data i dt_from s of (x, y) \<Rightarrow> x - y)"
    "stm_closing_balance st = stm_opening_balance st + sum_list (map (effect i)
       (get_account_transactions_in_period i dt_from
          (end_of_day (case date_to of None \<Rightarrow> clock s | Some d \<Rightarrow> d)) skip limit s))"
    "stm_closing_balance st = stm_opening_balance st + stm_total_incoming st - stm_total_outgoing st"
proof -
  define dt_from where "dt_from = start_of_day
    (case date_from of None \<Rightarrow> midnight (first_of_month (date_of (clock s))) | Some d \<Rightarrow> d)"
  define dt_to where "dt_to = end_of_day (case date_to of None \<Rightarrow> clock s | Some d \<Rightarrow> d)"
  obtain x y where xy: "get_opening_balance_data i dt_from s = (x, y)" by fastforce
  obtain r a b es where loop: "statement_loop s i (x - y) 0 0
      (get_account_transactions_in_period i dt_from dt_to skip limit s) = (r, a, b, es)"
    by (metis prod_cases4)
  have "stm_opening_balance st = x - y" "stm_closing_balance st = r"
      "stm_total_incoming st = a" "stm_total_outgoing st = b"
    using assms xy loop unfolding get_account_statement_def Let_def dt_from_def [symmetric] dt_to_def [symmetric]
    by (auto split: option.splits)
  then show ?thesis
    using that [of dt_from] statement_loop_totals [OF loop] xy by (simp add: dt_to_def)
qed

lemma statement_closing_ledger:
  assumes "fin_explained s"
    and active: "\<forall>t\<in>set (transactions s). is_active t \<and>
      created_at t \<le> end_of_day (case date_to of None \<Rightarrow> clock s | Some d \<Rightarrow> d)"
    and limit: "length (transactions s) \<le> limit"
    and st: "get_account_statement i date_from date_to 0 limit s = Inr st"
  shows "stm_closing_balance st = acct_balance s i"
  using st
proof (rule get_account_statementD)
  fix dt_from
  define dt_to where "dt_to = end_of_day (case date_to of None \<Rightarrow> clock s | Some d \<Rightarrow> d)"
  let ?ts = "transactions s" and ?fl = "\<lambda>t. flow (txn_line t) i"
  let ?p = "\<lambda>t. is_active t \<and> txn_status t = TS_COMPLETED \<and> dt_from \<le> created_at t \<and> created_at t \<le> dt_to"
  assume op: "stm_opening_balance st = (case get_opening_balance_data i dt_from s of (x, y) \<Rightarrow> x - y)"
    and cl: "stm_closing_balance st = stm_opening_balance st + sum_list (map (effect i)
       (get_account_transactions_in_period i dt_from
          (end_of_day (case date_to of None \<Rightarrow> clock s | Some d \<Rightarrow> d)) 0 limit s))"
  have "sum_list (map (effect i) (get_account_transactions_in_period i dt_from dt_to 0 limit s)) =
      sum_list (map (effect i) (filter (\<lambda>t. ?p t \<and> touches i t) ?ts))"
    using le_trans [OF length_filter_le limit]
    by (simp add: get_account_transactions_in_period_def tbl_filter_by_def sum_list_sort_key conj_ac)
  also have "\<dots> = sum_list (map (\<lambda>t. if ?p t then ?fl t else 0) ?ts)"
    using assms(1) by (intro period_effect_flow) (auto simp: fin_explained_def fin_ok_def)
  also have "\<dots> + stm_opening_balance st = sum_list (map (\<lambda>t. if txn_status t = TS_COMPLETED then ?fl t else 0) ?ts)"
    unfolding op opening_balance_flow tbl_filter_by_def sum_list_filter_map_if sum_list_map_add_int [symmetric]
    using active by (intro arg_cong [of _ _ sum_list] map_cong) (auto simp: dt_to_def)
  finally show ?thesis
    using assms(1) cl by (simp add: dt_to_def fin_explained_def ledger_balance_completed)
qed

lemma couriers_loop_total:
  "couriers_loop s cash deposit accs = (cs, x, y) \<Longrightarrow>
     x = cash + sum_list (map acc_balance (filter (\<lambda>a. acc_balance a > 0) accs))
     \<and> y = deposit + sum_list (map acc_balance (filter (\<lambda>a. acc_balance a > 0) accs))
     \<and> map cfs_account_id cs = map row_id accs"
  by (induction accs arbitrary: cash deposit cs x y)
     (auto simp: Let_def courier_summary_def split: prod.splits if_splits, force+)

section \<open>Pages\<close>

lemma concat_pages:
  assumes "0 < n"
  shows "concat (map (\<lambda>p. take n (drop (p * n) xs)) [0..<k]) = take (k * n) xs"
proof (induction k)
  case (Suc k)
  then show ?case by (simp add: add.commute [of n] take_add)
qed simp

lemma total_pages_covers:
  assumes "0 < n"
  shows "length xs \<le> nat (total_pages (int (length xs)) (int n)) * n"
proof -
  let ?q = "(int (length xs) + int n - 1) div int n"
  have "int (length xs) + int n - 1 < int n * ?q + int n"
    using assms by (metis mult_div_mod_eq add_strict_left_mono of_nat_0_less_iff pos_mod_bound)
  then have "int (length xs) \<le> int n * ?q" by simp
  moreover have "0 \<le> ?q" using assms by (simp add: pos_imp_zdiv_nonneg_iff)
  ultimately have "int (length xs) \<le> int (nat ?q * n)" by (simp add: mult.commute)
  then show ?thesis using assms by (simp only: of_nat_le_iff) (simp add: total_pages_def)
qed

section \<open>Properties\<close>

lemma sample_fin_explained: "fin_explained sample_db"
  by (rule fin_explained_check; code_simp)

text \<open>
  C10. A manual posting moves exactly its amount: when \<open>create_transaction\<close> returns, the two
  accounts are different, the amount is positive, one completed transaction verified by its
  author has been appended, and every balance has changed by what the posting says.
\<close>

theorem create_transaction_posts:
  assumes "create_transaction from_id to_id amount reason order_id author s = (Inr resp, s')"
  shows "from_id \<noteq> to_id \<and> 0 < amount
    \<and> transactions s' = transactions s @ [trs_transaction resp]
    \<and> txn_line (trs_transaction resp) = (from_id, to_id, amount)
    \<and> txn_status (trs_transaction resp) = TS_COMPLETED
    \<and> txn_verified_by_id (trs_transaction resp) = Some author
    \<and> (\<forall>k. acct_balance s' k = acct_balance s k + flow (from_id, to_id, amount) k)"
proof -
  let ?d = "transaction_draft from_id to_id amount reason order_id TS_COMPLETED (Some author)"
  obtain t where body: "create_transaction_body from_id to_id amount reason order_id author s = Inr (t, s')"
      and load: "load_transaction_response (row_id t) s' = Inr resp"
    using assms by (auto simp: create_transaction_def commit_then_Inr)
  then have run: "insert_transaction ?d s = Inr (t, s')"
    by (auto simp: create_transaction_body_def tx_iff)
  have "trs_transaction resp = t"
    using load load_new_transaction [OF run] by (auto simp: transaction_response_of_def)
  moreover have "ledger_balance (completed_lines ?d) k = flow (from_id, to_id, amount) k" for k
    by (simp add: completed_lines_def txn_line_def)
  ultimately show ?thesis
    using insert_transactionD [OF run] insert_transaction_balance [OF run]
    by (auto simp: tbl_add_def txn_line_def)
qed

theorem create_transaction_posts_witness:
  "\<exists>resp s'. create_transaction 34 31 50 ''Payment'' None 3 sample_db = (Inr resp, s')
     \<and> acct_balance s' 34 = 250 \<and> acct_balance s' 31 = 250 \<and> length (transactions s') = 4"
proof -
  have "\<not> isl (fst (create_transaction 34 31 50 ''Payment'' None 3 sample_db))" by code_simp
  then obtain resp s' where run: "create_transaction 34 31 50 ''Payment'' None 3 sample_db = (Inr resp, s')"
    using run_ok by blast
  have "acct_balance sample_db 34 = 300" "acct_balance sample_db 31 = 200"
      "length (transactions sample_db) = 3"
    by code_simp+
  with run create_transaction_posts [OF run] show ?thesis by (simp add: flow_def)
qed

lemma verify_transaction_runs:
  assumes "verify_transaction i u s = (Inr resp, s')"
  obtains t where "tbl_get i False (transactions s) = Some t" "txn_status t = TS_PENDING"
    "update_transaction (t\<lparr>txn_status := TS_COMPLETED, txn_verified_by_id := Some u\<rparr>) s = Inr ((), s')"
  using assms by (auto simp: verify_transaction_def commit_then_Inr verify_transaction_body_def tx_iff)

lemma reject_transaction_runs:
  assumes "reject_transaction i u reason s = (Inr resp, s')"
  obtains t r where "tbl_get i False (transactions s) = Some t" "txn_status t = TS_PENDING"
    "update_transaction (t\<lparr>txn_status := TS_REJECTED, txn_verified_by_id := Some u, txn_reason := r\<rparr>) s
       = Inr ((), s')"
  using assms by (auto simp: reject_transaction_def commit_then_Inr reject_transaction_body_def tx_iff)

lemma update_transaction_get:
  assumes "update_transaction new s = Inr ((), s')" "tbl_get (row_id new) False (transactions s) = Some old"
  shows "tbl_get (row_id new) False (transactions s') = Some (new\<lparr>updated_at := clock s\<rparr>)"
proof -
  have "tbl_get i False (tbl_update now i (\<lambda>_. new) ts) = map_option (\<lambda>_. new\<lparr>updated_at := now\<rparr>) (tbl_get i False ts)"
    if "row_id new = i" for i now ts
    using that by (induction ts) (auto simp: tbl_get_def tbl_update_def)
  then show ?thesis using assms update_transactionD(1) [OF assms] by simp
qed

lemma settle_again:
  assumes "tbl_get i False (transactions s) = Some t" "txn_status t \<noteq> TS_PENDING"
  shows "verify_transaction i u s = (Inl (FinanceErr (InvalidTransactionStatusError i (txn_status t))), s)"
    "reject_transaction i u r s = (Inl (FinanceErr (InvalidTransactionStatusError i (txn_status t))), s)"
  using assms
  by (simp_all add: verify_transaction_def reject_transaction_def commit_then_def verify_transaction_body_def
      reject_transaction_body_def pending_transaction_def get_for_update_def tx_run_defs)

text \<open>
  C11. Verification settles a pending transaction exactly once: \<open>verify_transaction\<close> returns only
  for a pending transaction, it then moves the transaction's amount and nothing else, and after
  it neither verification nor rejection of the same transaction is accepted, and the database
  stays as it is.
\<close>

theorem verify_transaction_once:
  assumes "verify_transaction i u s = (Inr resp, s')"
  shows "\<exists>t. tbl_get i False (transactions s) = Some t \<and> txn_status t = TS_PENDING
    \<and> (\<forall>k. acct_balance s' k = acct_balance s k + flow (txn_line t) k)
    \<and> verify_transaction i v s' = (Inl (FinanceErr (InvalidTransactionStatusError i TS_COMPLETED)), s')
    \<and> reject_transaction i v r s' = (Inl (FinanceErr (InvalidTransactionStatusError i TS_COMPLETED)), s')"
  using assms
proof (rule verify_transaction_runs)
  fix t assume t: "tbl_get i False (transactions s) = Some t" "txn_status t = TS_PENDING"
    and run: "update_transaction (t\<lparr>txn_status := TS_COMPLETED, txn_verified_by_id := Some u\<rparr>) s = Inr ((), s')"
  have i: "row_id t = i" using tbl_get_SomeD [OF t(1)] by simp
  have "acct_balance s' k = acct_balance s k + flow (txn_line t) k" for k
    using update_transaction_balance [OF run, of k] t i by (simp add: update_lines_def txn_line_def)
  moreover have "tbl_get i False (transactions s') =
      Some (t\<lparr>txn_status := TS_COMPLETED, txn_verified_by_id := Some u, updated_at := clock s\<rparr>)"
    using update_transaction_get [OF run] t i by simp
  ultimately show ?thesis using t settle_again [of i s'] by simp
qed

theorem verify_transaction_once_witness:
  "\<exists>resp s'. verify_transaction 72 3 sample_db = (Inr resp, s') \<and> acct_balance s' 34 = 200
     \<and> acct_balance s' 32 = 100
     \<and> verify_transaction 72 3 s' = (Inl (FinanceErr (InvalidTransactionStatusError 72 TS_COMPLETED)), s')"
proof -
  have "\<not> isl (fst (verify_transaction 72 3 sample_db))" by code_simp
  then obtain resp s' where run: "verify_transaction 72 3 sample_db = (Inr resp, s')"
    using run_ok by blast
  have "\<forall>t. tbl_get 72 False (transactions sample_db) = Some t \<longrightarrow> txn_line t = (34, 32, 100)"
    by (simp add: sample_defs sample_rows tbl_get_def txn_line_def)
  moreover have "acct_balance sample_db 34 = 300" "acct_balance sample_db 32 = 0"
    by code_simp+
  ultimately show ?thesis
    using run verify_transaction_once [OF run, of 3 None] by (auto simp: flow_def)
qed

text \<open>
  Rejection moves no money: when \<open>reject_transaction\<close> returns, every balance is as before,
  the transaction is rejected and can be neither verified nor rejected again.
\<close>

theorem reject_transaction_moves_nothing:
  assumes "reject_transaction i u reason s = (Inr resp, s')"
  shows "acct_balance s' = acct_balance s
    \<and> (\<exists>t. tbl_get i False (transactions s') = Some t \<and> txn_status t = TS_REJECTED
        \<and> txn_verified_by_id t = Some u)
    \<and> verify_transaction i v s' = (Inl (FinanceErr (InvalidTransactionStatusError i TS_REJECTED)), s')"
  using assms
proof (rule reject_transaction_runs)
  fix t r assume t: "tbl_get i False (transactions s) = Some t" "txn_status t = TS_PENDING"
    and run: "update_transaction (t\<lparr>txn_status := TS_REJECTED, txn_verified_by_id := Some u, txn_reason := r\<rparr>) s
       = Inr ((), s')"
  have i: "row_id t = i" using tbl_get_SomeD [OF t(1)] by simp
  have "acct_balance s' k = acct_balance s k" for k
    using update_transaction_balance [OF run, of k] t i by (simp add: update_lines_def)
  moreover have "tbl_get i False (transactions s') = Some (t\<lparr>txn_status := TS_REJECTED,
      txn_verified_by_id := Some u, txn_reason := r, updated_at := clock s\<rparr>)"
    using update_transaction_get [OF run] t i by simp
  ultimately show ?thesis using settle_again(1) [of i s'] by auto
qed

theorem reject_transaction_moves_nothing_witness:
  "\<exists>resp s'. reject_transaction 72 3 (Some ''late'') sample_db = (Inr resp, s')
     \<and> acct_balance s' 34 = 300"
proof -
  have "\<not> isl (fst (reject_transaction 72 3 (Some ''late'') sample_db))" by code_simp
  then obtain resp s' where run: "reject_transaction 72 3 (Some ''late'') sample_db = (Inr resp, s')"
    using run_ok by blast
  have "acct_balance sample_db 34 = 300" by code_simp
  then show ?thesis using run reject_transaction_moves_nothing [OF run, of 3] by simp
qed

text \<open>
  C25. The ledger is append-only: for a stored transaction, \<open>DELETE\<close> is refused by the trigger, and
  so is every \<open>UPDATE\<close> that changes its amount, its source or its target.
\<close>

theorem ledger_append_only:
  assumes "tbl_get i False (transactions s) = Some old"
  shows "delete_transaction i s = Inl (DbErr (RaiseException ''delete is forbidden''))
    \<and> (row_id new = i \<and> txn_line new \<noteq> txn_line old \<longrightarrow> (\<exists>e. update_transaction new s = Inl e))"
proof
  show "delete_transaction i s = Inl (DbErr (RaiseException ''delete is forbidden''))"
    using assms by (simp add: delete_transaction_def update_account_balances_def tx_run_defs)
  show "row_id new = i \<and> txn_line new \<noteq> txn_line old \<longrightarrow> (\<exists>e. update_transaction new s = Inl e)"
    using assms update_transactionD(3) [of new s _ _ old]
    by (metis old.unit.exhaust sum.exhaust_sel surj_pair)
qed

theorem ledger_append_only_witness:
  "delete_transaction 71 sample_db = Inl (DbErr (RaiseException ''delete is forbidden''))
   \<and> (\<exists>e. update_transaction (transaction_row.make 71 True 2000 2000 34 31 None None 900 TS_COMPLETED [])
        sample_db = Inl e)"
proof -
  have "tbl_get 71 False (transactions sample_db) =
      Some (transaction_row.make 71 True 2000 2000 34 31 None (Some 3) 200 TS_COMPLETED ''Payment'')"
    by (simp add: sample_defs sample_rows tbl_get_def)
  from ledger_append_only [OF this,
      of "transaction_row.make 71 True 2000 2000 34 31 None None 900 TS_COMPLETED []"]
  show ?thesis by (simp add: transaction_row.defs txn_line_def)
qed

text \<open>
  The summary of a listing multiplies: whatever the filter left, its sum is that of the whole table, once per row.
\<close>

lemma transactions_summary_crossed:
  "fst (get_transactions_summary rows s) = int (length rows) * sum_list (map txn_amount (transactions s))"
proof -
  have "sum_list (map (\<lambda>(_, t). txn_amount t) (List.product rows ts)) = int (length rows) * sum_list (map txn_amount ts)" for ts
    by (induction rows) (simp_all add: comp_def algebra_simps)
  then show ?thesis by (simp add: get_transactions_summary_def Let_def)
qed

text \<open>The account that serves an owner for a type: the oldest of the active ones.\<close>

definition serves :: "uuid \<Rightarrow> account_type \<Rightarrow> db \<Rightarrow> account_row \<Rightarrow> bool" where
  "serves u ty s a \<longleftrightarrow> a \<in> set (accounts s) \<and> is_active a \<and> acc_user_id a = u \<and> acc_type a = ty
     \<and> (\<forall>b\<in>set (accounts s). is_active b \<and> acc_user_id b = u \<and> acc_type b = ty
          \<longrightarrow> created_at a < created_at b \<or> created_at a = created_at b \<and> row_id a \<le> row_id b)"

lemma serves_account: "get_user_account_by_type u ty s = Some a \<Longrightarrow> serves u ty s a"
proof -
  let ?rows = "tbl_filter_by True (\<lambda>a. acc_user_id a = u \<and> acc_type a = ty) (accounts s)"
  let ?key = "\<lambda>a :: account_row. (created_at a, row_id a)"
  assume "get_user_account_by_type u ty s = Some a"
  then obtain rest where sorted: "sort_key ?key ?rows = a # rest"
    by (auto simp: get_user_account_by_type_def limit_1_def split: list.splits)
  have "set (a # rest) = set ?rows" by (metis set_sort sorted)
  moreover have "sorted (map ?key (a # rest))" by (metis sorted sorted_sort_key)
  ultimately show ?thesis by (fastforce simp: serves_def tbl_filter_by_def)
qed

text \<open>
  C24. The cash desk posts exactly the amount from the client's account, the oldest active one of type \<open>CLIENT\<close>, to an
  account of the system user: the oldest active one of type \<open>CASH\<close> for cash, of type \<open>CARD\<close> for a card, and of type \<open>BANK\<close> for every
  other method. A cash or bank payment is completed at once, under the name of who accepted it, and moves the amount; a card payment is
  only registered as pending, and no balance changes before it is verified.
\<close>

theorem accept_payment_posts:
  assumes "accept_payment client amount method reason u ord s = (Inr resp, s')"
  shows "\<exists>ca ta. serves client AT_CLIENT s ca
    \<and> serves SYSTEM_USER_ID (if method = ''cash'' then AT_CASH else if method = ''card'' then AT_CARD else AT_BANK) s ta
    \<and> transactions s' = transactions s @ [trs_transaction resp]
    \<and> txn_line (trs_transaction resp) = (row_id ca, row_id ta, amount)
    \<and> txn_order_id (trs_transaction resp) = ord
    \<and> (if method = ''card''
       then txn_status (trs_transaction resp) = TS_PENDING \<and> txn_verified_by_id (trs_transaction resp) = None
         \<and> acct_balance s' = acct_balance s
       else txn_status (trs_transaction resp) = TS_COMPLETED \<and> txn_verified_by_id (trs_transaction resp) = Some u
         \<and> (\<forall>k. acct_balance s' k = acct_balance s k + flow (row_id ca, row_id ta, amount) k))"
proof -
  obtain t where body: "accept_payment_body client amount method reason u ord s = Inr (t, s')"
      and load: "load_transaction_response (row_id t) s' = Inr resp"
    using assms by (auto simp: accept_payment_def commit_then_Inr)
  obtain target st0 where "payment_target method s = (target, st0)" by fastforce
  with body obtain ca ta st where ca: "get_client_account client s = Some ca" "payment_target method s = (Some ta, st)"
      and run: "insert_transaction (transaction_draft (row_id ca) (row_id ta) amount reason ord st
        (if st = TS_COMPLETED then Some u else None)) s = Inr (t, s')" (is "insert_transaction ?d s = _")
    by (auto simp: accept_payment_body_def tx_iff)
  have st: "st = (if method = ''card'' then TS_PENDING else TS_COMPLETED)"
    using ca(2) by (auto simp: payment_target_def split: if_splits)
  have "trs_transaction resp = t"
    using load load_new_transaction [OF run] by (auto simp: transaction_response_of_def)
  moreover have "ledger_balance (completed_lines ?d) k =
      (if method = ''card'' then 0 else flow (row_id ca, row_id ta, amount) k)" for k
    using st by (simp add: completed_lines_def txn_line_def)
  moreover have "serves client AT_CLIENT s ca" using ca(1) by (simp add: get_client_account_def serves_account)
  moreover have "serves SYSTEM_USER_ID (if method = ''cash'' then AT_CASH else if method = ''card'' then AT_CARD else AT_BANK) s ta"
    using ca(2) by (auto simp: payment_target_def get_system_cash_account_def get_system_card_account_def
      get_system_bank_account_def get_system_account_def split: if_splits intro: serves_account)
  ultimately show ?thesis
    using insert_transactionD [OF run] insert_transaction_balance [OF run] st
    by (intro exI [of _ ca] exI [of _ ta]) (auto simp: tbl_add_def txn_line_def transaction_draft_def stamp_def)
qed

theorem accept_payment_posts_witness:
  "\<exists>resp s'. accept_payment 4 100 ''cash'' ''Payment'' 3 None sample_db = (Inr resp, s')
     \<and> (\<exists>i j. acct_balance s' i = acct_balance sample_db i + flow (i, j, 100) i)"
proof -
  have "\<not> isl (fst (accept_payment 4 100 ''cash'' ''Payment'' 3 None sample_db))" by code_simp
  then obtain resp s' where run: "accept_payment 4 100 ''cash'' ''Payment'' 3 None sample_db = (Inr resp, s')"
    using run_ok by blast
  then show ?thesis using accept_payment_posts [OF run] by (auto split: if_splits)
qed

text \<open>
  C22. A statement that covers the whole history closes at the account's balance: when the ledger
  is sound, no transaction is hidden or later than the end of the period, and one page holds
  the period, then the closing balance of \<open>get_account_statement\<close> is the balance the trigger
  keeps, and it is the opening balance plus the incoming minus the outgoing total.
\<close>

theorem statement_reconciles:
  assumes "fin_explained s"
    and "\<forall>t\<in>set (transactions s). is_active t \<and>
      created_at t \<le> end_of_day (case date_to of None \<Rightarrow> clock s | Some d \<Rightarrow> d)"
    and "length (transactions s) \<le> limit"
    and "get_account_statement i date_from date_to 0 limit s = Inr st"
  shows "stm_closing_balance st = acct_balance s i
    \<and> stm_closing_balance st = stm_opening_balance st + stm_total_incoming st - stm_total_outgoing st"
  using statement_closing_ledger [OF assms] get_account_statementD [OF assms(4)] by blast

theorem statement_reconciles_witness:
  "\<exists>st. get_account_statement 34 (Some 0) None 0 50 sample_db = Inr st \<and> stm_closing_balance st = 300"
proof -
  have "\<not> isl (get_account_statement 34 (Some 0) None 0 50 sample_db)" by code_simp
  then obtain st where st: "get_account_statement 34 (Some 0) None 0 50 sample_db = Inr st"
    by (metis isl_def sum.exhaust)
  have "\<forall>t\<in>set (transactions sample_db). is_active t \<and>
      created_at t \<le> end_of_day (case None of None \<Rightarrow> clock sample_db | Some d \<Rightarrow> d)"
      "length (transactions sample_db) \<le> 50" "acct_balance sample_db 34 = 300"
    by code_simp+
  with statement_reconciles [OF sample_fin_explained this(1,2) st] st show ?thesis by simp
qed

text \<open>
  A later page of a statement starts again at the opening balance of the period: on the sample,
  the page that skips the first transaction closes at -200 while the account holds 300.
\<close>

lemma statement_second_page:
  "(case get_account_statement 34 (Some 0) None 1 50 sample_db of
      Inl e \<Rightarrow> False | Inr st \<Rightarrow> stm_closing_balance st = - 200) \<and> acct_balance sample_db 34 = 300"
  by code_simp

text \<open>
  The couriers' summary agrees with the dashboard: the total cash its loop accumulates is the
  total the aggregate query returns, and it lists every active courier account once.
\<close>

theorem couriers_summary_total:
  "(case get_couriers_summary s of (cs, cash, deposit) \<Rightarrow>
      cash = get_total_courier_cash s \<and> deposit = get_total_courier_cash s
      \<and> cash = fdb_total_courier_cash (get_dashboard s)
      \<and> mset (map cfs_account_id cs) =
          mset (map row_id (filter (\<lambda>a. is_active a \<and> acc_type a = AT_COURIER) (accounts s))))"
proof -
  obtain cs cash deposit where loop: "get_couriers_summary s = (cs, cash, deposit)"
    by (metis prod_cases3)
  let ?accs = "filter (\<lambda>a. acc_type a = AT_COURIER \<and> is_active a) (accounts s)"
  have "sum_list (map acc_balance (filter (\<lambda>a. acc_balance a > 0) (sort_key (\<lambda>a. - acc_balance a) ?accs))) =
      get_total_courier_cash s"
    unfolding get_total_courier_cash_def positive_accounts_def tbl_filter_by_def
    by (simp add: filter_sort sum_list_sort_key conj_ac)
  moreover have "fdb_total_courier_cash (get_dashboard s) = get_total_courier_cash s"
    by (simp add: get_dashboard_def split: prod.splits)
  moreover have "mset (map row_id (sort_key (\<lambda>a. - acc_balance a) ?accs)) = mset (map row_id ?accs)"
    by simp
  ultimately show ?thesis
    using couriers_loop_total [OF loop [unfolded get_couriers_summary_def get_courier_accounts_with_users_def tbl_filter_by_def]]
    by (simp add: loop conj_ac del: mset_map)
qed

text \<open>
  Paging loses and repeats nothing: the pages 1 to \<open>total_pages\<close> of a listing, one after the
  other, are the whole list, and a page holds at most its size.
\<close>

theorem pages_partition:
  assumes "0 < n"
  shows "concat (map (\<lambda>p. pg_items (page_of (int p) (int n) rows))
      [1..<Suc (nat (pg_total_pages (page_of 1 (int n) rows)))]) = rows
    \<and> (\<forall>p. length (pg_items (page_of (int p) (int n) rows)) \<le> n)"
proof
  let ?k = "nat (total_pages (int (length rows)) (int n))"
  have page: "pg_items (page_of (int (Suc p)) (int n) rows) = take n (drop (p * n) rows)" for p
    by (simp add: page_of_def nat_mult_distrib algebra_simps flip: of_nat_mult)
  have "map (\<lambda>p. pg_items (page_of (int p) (int n) rows)) [1..<Suc ?k] =
      map (\<lambda>p. take n (drop (p * n) rows)) [0..<?k]"
    by (simp only: One_nat_def map_Suc_upt [symmetric] map_map comp_def page)
  then show "concat (map (\<lambda>p. pg_items (page_of (int p) (int n) rows))
      [1..<Suc (nat (pg_total_pages (page_of 1 (int n) rows)))]) = rows"
    using concat_pages [OF assms, of rows ?k] total_pages_covers [OF assms, of rows]
    by (simp add: page_of_def del: upt_Suc)
qed (simp add: page_of_def)

theorem pages_partition_witness:
  "concat (map (\<lambda>p. pg_items (page_of (int p) (int 2) [10, 20, 30 :: nat]))
      [1..<Suc (nat (pg_total_pages (page_of 1 (int 2) [10, 20, 30 :: nat])))]) = [10, 20, 30]"
  using pages_partition [of 2 "[10, 20, 30 :: nat]"] by simp

end
