(* ===== verification/Catalog.thy ===== *)
theory Catalog
  imports Errors
begin

text \<open>
  The catalog of products: \<open>CatalogService\<close> (\<open>src/modules/catalog/services.py\<close>), its repository
  and the constraints of the table \<open>products\<close>.
\<close>

definition product_draft ::
  "uuid option \<Rightarrow> product_type \<Rightarrow> string \<Rightarrow> int \<Rightarrow> (string \<times> string) list \<Rightarrow> product_row" where
  "product_draft ret ty nm price attrs =
     \<lparr>row_id = 0, is_active = True, created_at = 0, updated_at = 0, prd_returnable_item_id = ret,
      prd_type = ty, prd_name = nm, prd_price = price, prd_attributes = attrs\<rparr>"

definition product_constraints :: "product_row \<Rightarrow> unit dbtx" where
  "product_constraints p =
     tx_bind (tx_raise_if (\<not> int8 (prd_price p)) (DbErr NumericOutOfRange)) (\<lambda>_.
     tx_bind (tx_raise_if (prd_price p < 0) (DbErr (CheckViolation ''ck_product_price_pos''))) (\<lambda>_.
     tx_bind (tx_get products) (\<lambda>ps.
     tx_raise_if (case prd_returnable_item_id p of None \<Rightarrow> False | Some i \<Rightarrow> \<not> tbl_has i ps)
       (DbErr (ForeignKeyViolation ''products'')))))"

definition insert_product :: "product_row \<Rightarrow> product_row dbtx" where
  "insert_product d =
     tx_bind (product_constraints d) (\<lambda>_. insert_row products products_update d)"

section \<open>ProductRepository\<close>

definition get_multi_by_ids :: "uuid list \<Rightarrow> db \<Rightarrow> product_row list" where
  "get_multi_by_ids product_ids s =
     (if product_ids = [] then []
      else filter (\<lambda>p. row_id p \<in> set product_ids \<and> is_active p) (products s))"

definition get_catalog_by_type :: "product_type \<Rightarrow> nat \<Rightarrow> nat \<Rightarrow> db \<Rightarrow> product_row list" where
  "get_catalog_by_type ty skip limit s =
     take limit (drop skip (sort_key (\<lambda>p. - created_at p) (filter (\<lambda>p. prd_type p = ty) (products s))))"

definition has_stock :: "uuid \<Rightarrow> db \<Rightarrow> bool" where
  "has_stock product_id s \<longleftrightarrow>
     sum_list (map bal_quantity (filter (\<lambda>b. bal_product_id b = product_id) (inventory_balances s))) > 0"

definition has_associated_products :: "uuid \<Rightarrow> db \<Rightarrow> bool" where
  "has_associated_products product_id s \<longleftrightarrow>
     length (filter (\<lambda>p. prd_returnable_item_id p = Some product_id) (products s)) > 0"

definition get_by_attribute :: "string \<Rightarrow> string \<Rightarrow> nat \<Rightarrow> nat \<Rightarrow> db \<Rightarrow> product_row list" where
  "get_by_attribute label value skip limit s =
     take limit (drop skip (filter (\<lambda>p. (label, value) \<in> set (prd_attributes p) \<and> is_active p) (products s)))"

section \<open>CatalogService\<close>

definition get_catalog :: "nat \<Rightarrow> nat \<Rightarrow> product_type option \<Rightarrow> db \<Rightarrow> product_row list" where
  "get_catalog skip limit product_type s = (case product_type of
     Some ty \<Rightarrow> get_catalog_by_type ty skip limit s
   | None \<Rightarrow> take limit (drop skip (products s)))"

definition get_by_ids :: "uuid list \<Rightarrow> db \<Rightarrow> product_row list" where
  "get_by_ids product_ids s = (if product_ids = [] then [] else get_multi_by_ids product_ids s)"

definition search_by_attribute :: "string \<Rightarrow> string \<Rightarrow> nat \<Rightarrow> nat \<Rightarrow> db \<Rightarrow> product_row list" where
  "search_by_attribute label value skip limit s = get_by_attribute label value skip limit s"

definition add_product_body :: "product_row \<Rightarrow> product_row dbtx" where
  "add_product_body dto =
     tx_bind (tx_raise_if (prd_returnable_item_id dto \<noteq> None \<and> prd_type dto \<noteq> PT_WATER)
       (CatalogErr InvalidReturnableItemError)) (\<lambda>_.
     tx_bind (tx_raise_if (prd_type dto = PT_WATER \<and> prd_returnable_item_id dto = None)
       (CatalogErr InvalidReturnableItemError)) (\<lambda>_.
     tx_bind (case prd_returnable_item_id dto of
         None \<Rightarrow> tx_ret ()
       | Some i \<Rightarrow>
           tx_bind (tx_get products) (\<lambda>ps.
           tx_bind (tx_require (tbl_get i True ps) (CatalogErr (ProductNotFoundError i))) (\<lambda>bottle.
           tx_raise_if (prd_type bottle \<noteq> PT_CONTAINER) (CatalogErr InvalidReturnableItemError)))) (\<lambda>_.
     insert_product dto)))"

definition add_product :: "product_row \<Rightarrow> db \<Rightarrow> (app_error + product_row) \<times> db" where
  "add_product dto = with_uow (add_product_body dto)"

record product_update =
  pu_name :: "string option"
  pu_type :: "product_type option"
  pu_price :: "int option"
  pu_attributes :: "(string \<times> string) list option"
  pu_returnable_item_id :: "uuid option option"

definition apply_product_update :: "product_update \<Rightarrow> product_row \<Rightarrow> product_row" where
  "apply_product_update u p = p
     \<lparr>prd_name := (case pu_name u of None \<Rightarrow> prd_name p | Some x \<Rightarrow> x),
      prd_type := (case pu_type u of None \<Rightarrow> prd_type p | Some x \<Rightarrow> x),
      prd_price := (case pu_price u of None \<Rightarrow> prd_price p | Some x \<Rightarrow> x),
      prd_attributes := (case pu_attributes u of None \<Rightarrow> prd_attributes p | Some x \<Rightarrow> x),
      prd_returnable_item_id := (case pu_returnable_item_id u of None \<Rightarrow> prd_returnable_item_id p | Some x \<Rightarrow> x)\<rparr>"

definition update_is_empty :: "product_update \<Rightarrow> bool" where
  "update_is_empty u \<longleftrightarrow> pu_name u = None \<and> pu_type u = None \<and> pu_price u = None
     \<and> pu_attributes u = None \<and> pu_returnable_item_id u = None"

text \<open>\<open>BaseService.update\<close> on the catalog, with \<open>BaseRepository.update\<close>.\<close>

definition update_product_body :: "uuid \<Rightarrow> product_update \<Rightarrow> product_row option dbtx" where
  "update_product_body product_id u =
     tx_bind (tx_get products) (\<lambda>ps.
     if update_is_empty u then tx_ret (tbl_get product_id True ps)
     else
       tx_bind (tx_require (tbl_get product_id False ps) (HttpErr (NotFoundError ''NOT_FOUND''))) (\<lambda>p.
       tx_bind (product_constraints (apply_product_update u p)) (\<lambda>_.
       tx_bind (update_row products_update product_id (apply_product_update u)) (\<lambda>_.
       tx_bind (tx_get products) (\<lambda>ps'. tx_ret (tbl_get product_id False ps'))))))"

definition update_product where
  "update_product product_id u = with_uow (update_product_body product_id u)"

definition archive_product_body :: "uuid \<Rightarrow> unit dbtx" where
  "archive_product_body product_id =
     tx_bind (tx_get products) (\<lambda>ps.
     tx_bind (tx_require (tbl_get product_id False ps) (CatalogErr (ProductNotFoundError product_id))) (\<lambda>_.
     update_row products_update product_id (\<lambda>p. p\<lparr>is_active := False\<rparr>)))"

definition archive_product where
  "archive_product product_id = with_uow (archive_product_body product_id)"

definition restore_product_body :: "uuid \<Rightarrow> unit dbtx" where
  "restore_product_body product_id =
     tx_bind (tx_get products) (\<lambda>ps.
     tx_bind (tx_require (tbl_get product_id False ps) (CatalogErr (ProductNotFoundError product_id))) (\<lambda>p.
     tx_bind (tx_raise_if (case prd_returnable_item_id p of
         None \<Rightarrow> False
       | Some i \<Rightarrow> (case tbl_get i True ps of None \<Rightarrow> True | Some c \<Rightarrow> \<not> is_active c))
       (CatalogErr InvalidReturnableItemError)) (\<lambda>_.
     update_row products_update product_id (\<lambda>p. p\<lparr>is_active := True\<rparr>))))"

definition restore_product where
  "restore_product product_id = with_uow (restore_product_body product_id)"

text \<open>
  \<open>DELETE\<close> of a product: the foreign keys of the other tables on \<open>products\<close> are all
  \<open>ON DELETE RESTRICT\<close>.
\<close>

definition product_referenced :: "uuid \<Rightarrow> db \<Rightarrow> bool" where
  "product_referenced i s \<longleftrightarrow>
     list_ex (\<lambda>p. prd_returnable_item_id p = Some i) (products s)
     \<or> list_ex (\<lambda>r. tri_product_id r = i) (stock_transfer_items s)
     \<or> list_ex (\<lambda>r. bal_product_id r = i) (inventory_balances s)
     \<or> list_ex (\<lambda>r. stx_product_id r = i) (stock_transactions s)
     \<or> list_ex (\<lambda>r. oit_product_id r = i) (order_items s)
     \<or> list_ex (\<lambda>r. cpi_product_id r = i) (contract_price_items s)"

definition hard_delete_body :: "uuid \<Rightarrow> bool dbtx" where
  "hard_delete_body product_id =
     tx_bind (tx_get products) (\<lambda>ps.
     tx_bind (tx_require (tbl_get product_id False ps) (CatalogErr (ProductNotFoundError product_id))) (\<lambda>_.
     tx_bind (tx_get (has_stock product_id)) (\<lambda>stock.
     tx_bind (tx_raise_if stock (CatalogErr (ProductHasStockError product_id))) (\<lambda>_.
     tx_bind (tx_get (has_associated_products product_id)) (\<lambda>assoc.
     tx_bind (tx_raise_if assoc (CatalogErr (ProductHasAssociatedProductsError product_id))) (\<lambda>_.
     tx_bind (tx_get (product_referenced product_id)) (\<lambda>ref.
     tx_bind (tx_raise_if ref (DbErr (ForeignKeyViolation ''products''))) (\<lambda>_.
     tx_bind (tx_modify (products_update (tbl_delete product_id))) (\<lambda>_.
     tx_ret True)))))))))"

definition hard_delete where
  "hard_delete product_id = with_uow (hard_delete_body product_id)"

section \<open>Only the catalog changes\<close>

lemma frame_product_constraints [frame_intro]: "frame g (product_constraints p)"
  unfolding product_constraints_def by (intro frame_intro)

lemma frame_catalog [frame_intro]:
  assumes "\<And>s f. g (products_update f s) = g s" "\<And>s i. g (s\<lparr>next_id := i\<rparr>) = g s"
  shows "frame g (add_product_body dto)" "frame g (update_product_body i u)"
    "frame g (archive_product_body i)" "frame g (restore_product_body i)" "frame g (hard_delete_body i)"
  unfolding add_product_body_def insert_product_def update_product_body_def archive_product_body_def
    restore_product_body_def hard_delete_body_def
  using assms by (intro frame_intro; simp)+

lemma get_by_ids_in:
  "p \<in> set (get_by_ids ids s) \<longleftrightarrow> p \<in> set (products s) \<and> row_id p \<in> set ids \<and> is_active p"
  by (auto simp: get_by_ids_def get_multi_by_ids_def)

section \<open>The catalog's rules\<close>

definition catalog_ok :: "db \<Rightarrow> bool" where
  "catalog_ok s \<longleftrightarrow> keys_distinct (products s)
     \<and> (\<forall>p\<in>set (products s). 0 \<le> prd_price p \<and>
          (case prd_returnable_item_id p of None \<Rightarrow> True | Some i \<Rightarrow> tbl_has i (products s)))"

end
