(* ===== verification/Stock.thy ===== *)
theory Stock
  imports Errors Ledger Catalog Samples
begin

text \<open>
  The stock ledger: the trigger \<open>update_inventory_balances\<close>
  (\<open>src/infrastructure/database/scripts/update_inventory_balances.sql\<close>), the statements on
  \<open>inventories\<close>, \<open>stock_transfers\<close>, \<open>stock_transfer_items\<close> and \<open>stock_transactions\<close> with their
  constraints (\<open>src/modules/inventory/models.py\<close>), and the repositories of
  \<open>src/modules/inventory/repositories.py\<close>. A key of the ledger is an inventory with a product;
  \<open>insert_stock_transaction\<close> is an interpretation of \<open>journal_posting\<close>.
\<close>

type_synonym item = "uuid \<times> int"

type_synonym stock_key = "uuid \<times> uuid"

section \<open>Statements on inventories and transfers\<close>

definition is_virtual :: "inventory_type \<Rightarrow> bool" where
  "is_virtual ty \<longleftrightarrow> ty = IT_VIRTUAL_VENDOR \<or> ty = IT_VIRTUAL_LOSS"

definition inventory_draft :: "uuid \<Rightarrow> inventory_type \<Rightarrow> string \<Rightarrow> inventory_row" where
  "inventory_draft u ty nm = \<lparr>row_id = 0, is_active = True, created_at = 0, updated_at = 0,
     inv_user_id = u, inv_type = ty, inv_name = nm\<rparr>"

text \<open>The partial unique index \<open>uq_active_courier_inventory\<close>, against the rows other than \<open>i\<close>.\<close>

definition courier_index_conflict :: "uuid option \<Rightarrow> inventory_row \<Rightarrow> inventory_row list \<Rightarrow> bool" where
  "courier_index_conflict i v rows \<longleftrightarrow> inv_type v = IT_COURIER \<and> is_active v
     \<and> list_ex (\<lambda>r. Some (row_id r) \<noteq> i \<and> inv_type r = IT_COURIER \<and> is_active r
          \<and> inv_user_id r = inv_user_id v) rows"

definition inventory_constraints :: "uuid option \<Rightarrow> inventory_row \<Rightarrow> unit dbtx" where
  "inventory_constraints i v =
     tx_bind (tx_get users) (\<lambda>us.
     tx_bind (tx_raise_if (\<not> tbl_has (inv_user_id v) us) (DbErr (ForeignKeyViolation ''users''))) (\<lambda>_.
     tx_bind (tx_get inventories) (\<lambda>rows.
     tx_raise_if (courier_index_conflict i v rows)
       (DbErr (UniqueViolation ''uq_active_courier_inventory'')))))"

definition insert_inventory :: "inventory_row \<Rightarrow> inventory_row dbtx" where
  "insert_inventory d =
     tx_bind (inventory_constraints None d) (\<lambda>_. insert_row inventories inventories_update d)"

definition transfer_draft ::
  "uuid \<Rightarrow> uuid \<Rightarrow> transfer_type \<Rightarrow> uuid \<Rightarrow> uuid option \<Rightarrow> uuid option \<Rightarrow> string option \<Rightarrow> uuid option
   \<Rightarrow> transfer_row" where
  "transfer_draft f t ty creator accepted ord reason sheet =
     \<lparr>row_id = 0, is_active = True, created_at = 0, updated_at = 0, trf_from_id = f, trf_to_id = t,
      trf_created_by_id = creator, trf_accepted_by_id = accepted, trf_order_id = ord,
      trf_reason = reason, trf_route_sheet_id = sheet, trf_type = ty, trf_status = TRS_COMPLETED\<rparr>"

definition insert_transfer :: "transfer_row \<Rightarrow> transfer_row dbtx" where
  "insert_transfer d =
     tx_bind (tx_raise_if (trf_from_id d = trf_to_id d)
       (DbErr (CheckViolation ''ck_stock_transfer_no_circular''))) (\<lambda>_.
     tx_bind (tx_get inventories) (\<lambda>vs.
     tx_bind (tx_raise_if (\<not> tbl_has (trf_from_id d) vs \<or> \<not> tbl_has (trf_to_id d) vs)
       (DbErr (ForeignKeyViolation ''inventories''))) (\<lambda>_.
     tx_bind (tx_get users) (\<lambda>us.
     tx_bind (tx_raise_if (\<not> tbl_has (trf_created_by_id d) us
         \<or> (case trf_accepted_by_id d of None \<Rightarrow> False | Some u \<Rightarrow> \<not> tbl_has u us))
       (DbErr (ForeignKeyViolation ''users''))) (\<lambda>_.
     tx_bind (tx_get orders) (\<lambda>os.
     tx_bind (tx_raise_if (case trf_order_id d of None \<Rightarrow> False | Some i \<Rightarrow> \<not> tbl_has i os)
       (DbErr (ForeignKeyViolation ''orders''))) (\<lambda>_.
     insert_row stock_transfers stock_transfers_update d)))))))"

definition transfer_item_draft :: "uuid \<Rightarrow> item \<Rightarrow> transfer_item_row" where
  "transfer_item_draft transfer_id it = \<lparr>row_id = 0, is_active = True, created_at = 0, updated_at = 0,
     tri_transfer_id = transfer_id, tri_product_id = fst it, tri_quantity = snd it\<rparr>"

definition insert_transfer_item :: "transfer_item_row \<Rightarrow> transfer_item_row dbtx" where
  "insert_transfer_item d =
     tx_bind (tx_raise_if (\<not> int4 (tri_quantity d)) (DbErr NumericOutOfRange)) (\<lambda>_.
     tx_bind (tx_raise_if (tri_quantity d \<le> 0)
       (DbErr (CheckViolation ''ck_stock_transfer_item_quantity_pos''))) (\<lambda>_.
     tx_bind (tx_get stock_transfers) (\<lambda>ts.
     tx_bind (tx_raise_if (\<not> tbl_has (tri_transfer_id d) ts)
       (DbErr (ForeignKeyViolation ''stock_transfers''))) (\<lambda>_.
     tx_bind (tx_get products) (\<lambda>ps.
     tx_bind (tx_raise_if (\<not> tbl_has (tri_product_id d) ps)
       (DbErr (ForeignKeyViolation ''products''))) (\<lambda>_.
     insert_row stock_transfer_items stock_transfer_items_update d))))))"

section \<open>The trigger on stock transactions\<close>

definition bal_key :: "balance_row \<Rightarrow> stock_key" where
  "bal_key b = (bal_inventory_id b, bal_product_id b)"

definition balance_draft :: "stock_key \<Rightarrow> int \<Rightarrow> balance_row" where
  "balance_draft k q = \<lparr>row_id = 0, is_active = True, created_at = 0, updated_at = 0,
     bal_inventory_id = fst k, bal_product_id = snd k, bal_quantity = q\<rparr>"

definition add_stock :: "timestamp \<Rightarrow> stock_key \<Rightarrow> int \<Rightarrow> balance_row list \<Rightarrow> balance_row list" where
  "add_stock now k q t = map (\<lambda>b. if bal_key b = k
     then b\<lparr>bal_quantity := bal_quantity b + q, updated_at := now\<rparr> else b) t"

text \<open>\<open>INSERT ... ON CONFLICT (inventory_id, product_id) DO UPDATE\<close>.\<close>

definition upsert_balance :: "stock_key \<Rightarrow> int \<Rightarrow> unit dbtx" where
  "upsert_balance k q =
     tx_bind (tx_get inventory_balances) (\<lambda>t.
     case find (\<lambda>b. bal_key b = k) t of
       None \<Rightarrow>
         tx_bind (tx_raise_if (\<not> int4 q) (DbErr NumericOutOfRange)) (\<lambda>_.
         tx_bind (insert_row inventory_balances inventory_balances_update (balance_draft k q)) (\<lambda>_.
         tx_ret ()))
     | Some b \<Rightarrow>
         tx_bind (tx_raise_if (\<not> int4 (bal_quantity b + q)) (DbErr NumericOutOfRange)) (\<lambda>_.
         tx_bind (tx_get clock) (\<lambda>now.
         tx_modify (inventory_balances_update (add_stock now k q)))))"

definition negative_stock :: "stock_transaction_row \<Rightarrow> db \<Rightarrow> bool" where
  "negative_stock t s \<longleftrightarrow>
     (\<exists>b\<in>set (inventory_balances s). \<exists>v\<in>set (inventories s). row_id v = bal_inventory_id b
        \<and> bal_product_id b = stx_product_id t
        \<and> (bal_inventory_id b = stx_from_id t \<or> bal_inventory_id b = stx_to_id t)
        \<and> \<not> is_virtual (inv_type v) \<and> bal_quantity b < 0)"

definition update_inventory_balances :: "stock_transaction_row \<Rightarrow> unit dbtx" where
  "update_inventory_balances t =
     (let f = upsert_balance (stx_from_id t, stx_product_id t) (- stx_quantity t);
          g = upsert_balance (stx_to_id t, stx_product_id t) (stx_quantity t)
      in tx_bind (tx_raise_if (stx_from_id t = stx_to_id t)
           (DbErr (RaiseException ''ON CONFLICT affects a row twice''))) (\<lambda>_.
         tx_bind (if stx_from_id t \<le> stx_to_id t then tx_bind f (\<lambda>_. g) else tx_bind g (\<lambda>_. f)) (\<lambda>_.
         tx_bind (tx_get (negative_stock t)) (\<lambda>neg.
         tx_raise_if neg (DbErr (CheckViolation ''negative balance''))))))"

definition stock_transaction_draft :: "uuid \<Rightarrow> uuid \<Rightarrow> uuid \<Rightarrow> item \<Rightarrow> stock_transaction_row" where
  "stock_transaction_draft transfer_id f t it =
     \<lparr>row_id = 0, is_active = True, created_at = 0, updated_at = 0, stx_product_id = fst it,
      stx_transfer_id = transfer_id, stx_from_id = f, stx_to_id = t, stx_quantity = snd it\<rparr>"

text \<open>
  \<open>fk_stock_transaction_strict_route\<close> ties a stock transaction to a transfer with the same route.
\<close>

definition strict_route :: "stock_transaction_row \<Rightarrow> transfer_row list \<Rightarrow> bool" where
  "strict_route d ts \<longleftrightarrow> (\<exists>t\<in>set ts. row_id t = stx_transfer_id d
     \<and> trf_from_id t = stx_from_id d \<and> trf_to_id t = stx_to_id d)"

definition insert_stock_transaction :: "stock_transaction_row \<Rightarrow> stock_transaction_row dbtx" where
  "insert_stock_transaction d =
     tx_bind (tx_raise_if (\<not> int4 (stx_quantity d)) (DbErr NumericOutOfRange)) (\<lambda>_.
     tx_bind (tx_raise_if (stx_quantity d \<le> 0)
       (DbErr (CheckViolation ''ck_stock_transaction_quantity_positive''))) (\<lambda>_.
     tx_bind (tx_get products) (\<lambda>ps.
     tx_bind (tx_raise_if (\<not> tbl_has (stx_product_id d) ps)
       (DbErr (ForeignKeyViolation ''products''))) (\<lambda>_.
     tx_bind (tx_get inventories) (\<lambda>vs.
     tx_bind (tx_raise_if (\<not> tbl_has (stx_from_id d) vs \<or> \<not> tbl_has (stx_to_id d) vs)
       (DbErr (ForeignKeyViolation ''inventories''))) (\<lambda>_.
     tx_bind (tx_get stock_transfers) (\<lambda>ts.
     tx_bind (tx_raise_if (\<not> strict_route d ts)
       (DbErr (ForeignKeyViolation ''fk_stock_transaction_strict_route''))) (\<lambda>_.
     tx_bind (insert_row stock_transactions stock_transactions_update d) (\<lambda>t.
     tx_bind (update_inventory_balances t) (\<lambda>_.
     tx_ret t))))))))))"

text \<open>\<open>UPDATE\<close> and \<open>DELETE\<close> of a stock transaction always raise in the trigger.\<close>

definition update_stock_transaction :: "stock_transaction_row \<Rightarrow> unit dbtx" where
  "update_stock_transaction new =
     tx_bind (tx_get stock_transactions) (\<lambda>ts.
     tx_raise_if (tbl_has (row_id new) ts) (DbErr (RaiseException ''history is immutable'')))"

definition delete_stock_transaction :: "uuid \<Rightarrow> unit dbtx" where
  "delete_stock_transaction i =
     tx_bind (tx_get stock_transactions) (\<lambda>ts.
     tx_raise_if (tbl_has i ts) (DbErr (RaiseException ''delete is forbidden'')))"

text \<open>A transfer with all its rows: the header, then its lines, then its ledger entries.\<close>

definition post_items :: "transfer_row \<Rightarrow> item list \<Rightarrow> unit dbtx" where
  "post_items t items =
     tx_for (\<lambda>it. tx_bind (insert_transfer_item (transfer_item_draft (row_id t) it)) (\<lambda>_. tx_ret ())) items"

definition post_stock :: "transfer_row \<Rightarrow> item list \<Rightarrow> unit dbtx" where
  "post_stock t items =
     tx_for (\<lambda>d. tx_bind (insert_stock_transaction d) (\<lambda>_. tx_ret ()))
       (map (stock_transaction_draft (row_id t) (trf_from_id t) (trf_to_id t)) items)"

section \<open>Repositories\<close>

definition get_system_inventory :: "inventory_type \<Rightarrow> inventory_row dbtx" where
  "get_system_inventory ty =
     tx_bind (tx_get (\<lambda>s. filter (\<lambda>v. inv_user_id v = SYSTEM_USER_ID \<and> inv_type v = ty) (inventories s))) (\<lambda>rows.
     tx_bind (scalar_one_or_none rows) (\<lambda>v.
     tx_require v (InventoryErr (VirtualInventoryConfigurationError ty))))"

definition get_vendor_inventory :: "inventory_row dbtx" where
  "get_vendor_inventory = get_system_inventory IT_VIRTUAL_VENDOR"

definition get_loss_inventory :: "inventory_row dbtx" where
  "get_loss_inventory = get_system_inventory IT_VIRTUAL_LOSS"

definition courier_inventories :: "uuid \<Rightarrow> db \<Rightarrow> inventory_row list" where
  "courier_inventories courier_id s =
     filter (\<lambda>v. inv_user_id v = courier_id \<and> inv_type v = IT_COURIER \<and> is_active v) (inventories s)"

definition get_courier_inventory :: "uuid \<Rightarrow> inventory_row option dbtx" where
  "get_courier_inventory courier_id =
     tx_bind (tx_get (courier_inventories courier_id)) scalar_one_or_none"

definition get_couriers_inventory :: "nat \<Rightarrow> nat \<Rightarrow> db \<Rightarrow> inventory_row list" where
  "get_couriers_inventory offset limit s =
     take limit (drop offset (filter (\<lambda>v. is_active v \<and> inv_type v = IT_COURIER) (inventories s)))"

definition get_client_inventory :: "uuid \<Rightarrow> db \<Rightarrow> inventory_row option" where
  "get_client_inventory user_id s =
     find (\<lambda>v. inv_user_id v = user_id \<and> inv_type v = IT_CLIENT \<and> is_active v) (inventories s)"

definition create_courier_inventory :: "uuid \<Rightarrow> string \<Rightarrow> inventory_row dbtx" where
  "create_courier_inventory user_id nm = insert_inventory (inventory_draft user_id IT_COURIER nm)"

definition create_client_inventory :: "uuid \<Rightarrow> string \<Rightarrow> inventory_row dbtx" where
  "create_client_inventory user_id nm = insert_inventory (inventory_draft user_id IT_CLIENT nm)"

definition get_inventory_with_balances ::
  "uuid \<Rightarrow> inventory_type option \<Rightarrow> db \<Rightarrow> inventory_row option" where
  "get_inventory_with_balances i ty s =
     find (\<lambda>v. row_id v = i \<and> is_active v \<and> (case ty of None \<Rightarrow> True | Some t \<Rightarrow> inv_type v = t)) (inventories s)"

definition get_inventory_with_balances_by_user ::
  "uuid \<Rightarrow> inventory_type \<Rightarrow> db \<Rightarrow> inventory_row option" where
  "get_inventory_with_balances_by_user u ty s =
     find (\<lambda>v. inv_user_id v = u \<and> inv_type v = ty \<and> is_active v) (inventories s)"

definition get_all_warehouses_with_balances :: "uuid option \<Rightarrow> db \<Rightarrow> inventory_row list" where
  "get_all_warehouses_with_balances owner s =
     filter (\<lambda>v. inv_type v = IT_WAREHOUSE \<and> is_active v
       \<and> (case owner of None \<Rightarrow> True | Some u \<Rightarrow> inv_user_id v = u)) (inventories s)"

text \<open>The dictionary \<open>{b.product_id: b.quantity for b in inventory.balances}\<close>, read with \<open>.get(p, 0)\<close>.\<close>

definition stock_of :: "balance_row list \<Rightarrow> stock_key \<Rightarrow> int" where
  "stock_of t k = (case find (\<lambda>b. bal_key b = k) t of None \<Rightarrow> 0 | Some b \<Rightarrow> bal_quantity b)"

definition stock_balance :: "db \<Rightarrow> stock_key \<Rightarrow> int" where
  "stock_balance s k = stock_of (inventory_balances s) k"

text \<open>The balance summed from the ledger itself (\<open>StockTransactionRepository.get_balance\<close>).\<close>

definition get_balance :: "uuid \<Rightarrow> uuid \<Rightarrow> timestamp option \<Rightarrow> db \<Rightarrow> int" where
  "get_balance inventory_id product_id as_of s =
     sum_list (map (\<lambda>t. if stx_to_id t = inventory_id then stx_quantity t
         else if stx_from_id t = inventory_id then - stx_quantity t else 0)
       (filter (\<lambda>t. stx_product_id t = product_id
          \<and> (stx_to_id t = inventory_id \<or> stx_from_id t = inventory_id)
          \<and> (case as_of of None \<Rightarrow> True | Some d \<Rightarrow> created_at t \<le> d)) (stock_transactions s)))"

definition get_balances_for_products :: "uuid \<Rightarrow> uuid list \<Rightarrow> db \<Rightarrow> uuid \<rightharpoonup> int" where
  "get_balances_for_products inventory_id product_ids s =
     (\<lambda>p. if p \<in> set product_ids then Some (get_balance inventory_id p None s) else None)"

definition get_balances :: "uuid \<Rightarrow> db \<Rightarrow> (product_row \<times> int) list" where
  "get_balances inventory_id s =
     filter (\<lambda>(p, q). q \<noteq> 0) (map (\<lambda>p. (p, get_balance inventory_id (row_id p) None s)) (products s))"

definition get_by_transfer :: "uuid \<Rightarrow> db \<Rightarrow> stock_transaction_row list" where
  "get_by_transfer i s = filter (\<lambda>t. stx_transfer_id t = i) (stock_transactions s)"

definition get_transfer :: "uuid \<Rightarrow> db \<Rightarrow> transfer_row option" where
  "get_transfer i s = tbl_get i False (stock_transfers s)"

definition get_inventory_statement ::
  "uuid \<Rightarrow> nat \<Rightarrow> nat \<Rightarrow> timestamp option \<Rightarrow> timestamp option \<Rightarrow> db \<Rightarrow> stock_transaction_row list" where
  "get_inventory_statement i skip limit start_date end_date s =
     take limit (drop skip (sort_key (\<lambda>t. - created_at t) (filter (\<lambda>t.
       (stx_to_id t = i \<or> stx_from_id t = i)
       \<and> (case start_date of None \<Rightarrow> True | Some d \<Rightarrow> created_at t \<ge> d)
       \<and> (case end_date of None \<Rightarrow> True | Some d \<Rightarrow> created_at t \<le> d)) (stock_transactions s))))"

definition get_turnover_by_period ::
  "transfer_type \<Rightarrow> timestamp \<Rightarrow> timestamp \<Rightarrow> uuid \<Rightarrow> db \<Rightarrow> int" where
  "get_turnover_by_period ty start_date end_date product_id s =
     sum_list (map stx_quantity (filter (\<lambda>t. stx_product_id t = product_id
       \<and> (case get_transfer (stx_transfer_id t) s of None \<Rightarrow> False | Some f \<Rightarrow> trf_type f = ty)
       \<and> start_date \<le> created_at t \<and> created_at t \<le> end_date) (stock_transactions s)))"

section \<open>The invariant of the stock ledger\<close>

definition stx_line :: "stock_transaction_row \<Rightarrow> stock_key movement" where
  "stx_line t = ((stx_from_id t, stx_product_id t), (stx_to_id t, stx_product_id t), stx_quantity t)"

definition stock_journal :: "db \<Rightarrow> stock_key movement list" where
  "stock_journal s = map stx_line (stock_transactions s)"

definition balances_ok :: "inventory_row list \<Rightarrow> balance_row list \<Rightarrow> bool" where
  "balances_ok vs t \<longleftrightarrow> distinct (map bal_key t)
     \<and> (\<forall>b\<in>set t. tbl_has (bal_inventory_id b) vs
          \<and> (\<forall>v\<in>set vs. row_id v = bal_inventory_id b \<longrightarrow> \<not> is_virtual (inv_type v) \<longrightarrow> 0 \<le> bal_quantity b))"

definition stock_ok :: "db \<Rightarrow> bool" where
  "stock_ok s \<longleftrightarrow> balances_ok (inventories s) (inventory_balances s)
     \<and> (\<forall>t\<in>set (stock_transactions s). stx_from_id t \<noteq> stx_to_id t \<and> 0 < stx_quantity t
          \<and> tbl_has (stx_from_id t) (inventories s) \<and> tbl_has (stx_to_id t) (inventories s))"

definition stock_explained :: "db \<Rightarrow> bool" where
  "stock_explained s \<longleftrightarrow> stock_ok s \<and> (\<forall>k. stock_balance s k = ledger_balance (stock_journal s) k)"

lemma bal_key_add_stock [simp]: "map bal_key (add_stock now k q t) = map bal_key t"
  by (auto simp: add_stock_def bal_key_def)

lemma stock_of_add_stock:
  "stock_of (add_stock now k q t) j = stock_of t j + (if j = k \<and> k \<in> set (map bal_key t) then q else 0)"
proof -
  have "find (\<lambda>b. bal_key b = j) (add_stock now k q t) = map_option (\<lambda>b. if bal_key b = k
      then b\<lparr>bal_quantity := bal_quantity b + q, updated_at := now\<rparr> else b) (find (\<lambda>b. bal_key b = j) t)"
    unfolding add_stock_def by (rule find_map_key) (auto simp: bal_key_def)
  then show ?thesis
    by (auto simp: stock_of_def find_None_all dest!: find_Some_in split: option.splits)
qed

lemma stock_of_append_new:
  assumes "k \<notin> set (map bal_key t)" "bal_key b = k"
  shows "stock_of (t @ [b]) j = stock_of t j + (if j = k then bal_quantity b else 0)"
proof (cases "j = k")
  case True
  have "find (\<lambda>b. bal_key b = k) t = None"
    using assms(1) by (auto simp: find_None_iff)
  with True assms(2) show ?thesis by (simp add: stock_of_def find_append)
next
  case False
  with assms(2) show ?thesis by (simp add: stock_of_def find_append split: option.splits)
qed

text \<open>What an upsert does to the balances: one key gets the quantity, all others keep theirs.\<close>

lemma upsert_balanceD:
  assumes "upsert_balance k q s = Inr (x, s')"
  shows "stock_balance s' j = stock_balance s j + (if j = k then q else 0)"
    "distinct (map bal_key (inventory_balances s)) \<Longrightarrow> distinct (map bal_key (inventory_balances s'))"
    "set (map bal_key (inventory_balances s')) = insert k (set (map bal_key (inventory_balances s)))"
proof -
  let ?t = "inventory_balances s"
  have "stock_balance s' j = stock_balance s j + (if j = k then q else 0)
    \<and> (distinct (map bal_key ?t) \<longrightarrow> distinct (map bal_key (inventory_balances s')))
    \<and> set (map bal_key (inventory_balances s')) = insert k (set (map bal_key ?t))"
  proof (cases "find (\<lambda>b. bal_key b = k) ?t")
    case None
    then have new: "k \<notin> set (map bal_key ?t)" by (auto simp: find_None_all)
    have t': "inventory_balances s' = ?t @ [stamp (next_id s) (clock s) (balance_draft k q)]"
      using assms None by (auto simp: upsert_balance_def tx_iff tbl_add_def)
    have "bal_key (stamp (next_id s) (clock s) (balance_draft k q)) = k"
        "bal_quantity (stamp (next_id s) (clock s) (balance_draft k q)) = q"
      by (simp_all add: bal_key_def balance_draft_def stamp_def)
    then show ?thesis using new by (auto simp: stock_balance_def t' stock_of_append_new)
  next
    case (Some b)
    then have old: "k \<in> set (map bal_key ?t)" by (auto dest!: find_Some_in)
    have t': "inventory_balances s' = add_stock (clock s) k q ?t"
      using assms Some by (auto simp: upsert_balance_def tx_iff)
    show ?thesis using old
      by (simp only: stock_balance_def t' stock_of_add_stock bal_key_add_stock) auto
  qed
  then show "stock_balance s' j = stock_balance s j + (if j = k then q else 0)"
    "distinct (map bal_key (inventory_balances s)) \<Longrightarrow> distinct (map bal_key (inventory_balances s'))"
    "set (map bal_key (inventory_balances s')) = insert k (set (map bal_key (inventory_balances s)))"
    by auto
qed

lemma frame_upsert_balance [frame_intro]:
  "(\<And>s f. g (inventory_balances_update f s) = g s) \<Longrightarrow> (\<And>s i. g (s\<lparr>next_id := i\<rparr>) = g s)
   \<Longrightarrow> frame g (upsert_balance k q)"
  unfolding upsert_balance_def by (auto intro!: frame_intro)

lemma frame_update_inventory_balances [frame_intro]:
  "(\<And>s f. g (inventory_balances_update f s) = g s) \<Longrightarrow> (\<And>s i. g (s\<lparr>next_id := i\<rparr>) = g s)
   \<Longrightarrow> frame g (update_inventory_balances t)"
  unfolding update_inventory_balances_def Let_def by (auto intro!: frame_intro)

lemma frame_insert_stock_transaction [frame_intro]:
  "(\<And>s f. g (inventory_balances_update f s) = g s) \<Longrightarrow> (\<And>s i. g (s\<lparr>next_id := i\<rparr>) = g s)
   \<Longrightarrow> (\<And>s f. g (stock_transactions_update f s) = g s) \<Longrightarrow> frame g (insert_stock_transaction d)"
  unfolding insert_stock_transaction_def by (auto intro!: frame_intro)

lemma frame_insert_transfer [frame_intro]:
  "(\<And>s f. g (stock_transfers_update f s) = g s) \<Longrightarrow> (\<And>s i. g (s\<lparr>next_id := i\<rparr>) = g s)
   \<Longrightarrow> frame g (insert_transfer d)"
  unfolding insert_transfer_def by (auto intro!: frame_intro)

lemma frame_insert_transfer_item [frame_intro]:
  "(\<And>s f. g (stock_transfer_items_update f s) = g s) \<Longrightarrow> (\<And>s i. g (s\<lparr>next_id := i\<rparr>) = g s)
   \<Longrightarrow> frame g (insert_transfer_item d)"
  unfolding insert_transfer_item_def by (auto intro!: frame_intro)

section \<open>A stock transaction is a posting\<close>

lemma update_inventory_balancesD:
  assumes "update_inventory_balances t s = Inr (x, s')"
  shows "stock_balance s' j = stock_balance s j + flow (stx_line t) j"
    "distinct (map bal_key (inventory_balances s)) \<Longrightarrow> distinct (map bal_key (inventory_balances s'))"
    "set (map bal_key (inventory_balances s')) = set (map bal_key (inventory_balances s))
       \<union> {(stx_from_id t, stx_product_id t), (stx_to_id t, stx_product_id t)}"
    "stx_from_id t \<noteq> stx_to_id t" "\<not> negative_stock t s'"
proof -
  let ?f = "(stx_from_id t, stx_product_id t)" and ?g = "(stx_to_id t, stx_product_id t)"
  have neq: "stx_from_id t \<noteq> stx_to_id t" and neg: "\<not> negative_stock t s'"
    using assms by (auto simp: update_inventory_balances_def Let_def tx_iff split: if_splits)
  obtain s1 where two:
      "(upsert_balance ?f (- stx_quantity t) s = Inr ((), s1) \<and> upsert_balance ?g (stx_quantity t) s1 = Inr ((), s'))
       \<or> (upsert_balance ?g (stx_quantity t) s = Inr ((), s1) \<and> upsert_balance ?f (- stx_quantity t) s1 = Inr ((), s'))"
    using assms by (auto simp: update_inventory_balances_def Let_def tx_iff split: if_splits)
  show "stock_balance s' j = stock_balance s j + flow (stx_line t) j"
    using two neq by (auto simp: upsert_balanceD(1) flow_def stx_line_def)
  show "distinct (map bal_key (inventory_balances s)) \<Longrightarrow> distinct (map bal_key (inventory_balances s'))"
    using two by (auto dest!: upsert_balanceD(2))
  show "set (map bal_key (inventory_balances s')) = set (map bal_key (inventory_balances s)) \<union> {?f, ?g}"
    using two
  proof (elim disjE conjE)
    assume a: "upsert_balance ?f (- stx_quantity t) s = Inr ((), s1)" "upsert_balance ?g (stx_quantity t) s1 = Inr ((), s')"
    show ?thesis by (simp only: upsert_balanceD(3) [OF a(2)] upsert_balanceD(3) [OF a(1)]) auto
  next
    assume a: "upsert_balance ?g (stx_quantity t) s = Inr ((), s1)" "upsert_balance ?f (- stx_quantity t) s1 = Inr ((), s')"
    show ?thesis by (simp only: upsert_balanceD(3) [OF a(2)] upsert_balanceD(3) [OF a(1)]) auto
  qed
qed (use assms in \<open>auto simp: update_inventory_balances_def Let_def tx_iff split: if_splits\<close>)

lemma insert_stock_transactionD:
  assumes "insert_stock_transaction d s = Inr (t, s')"
  shows "t = stamp (next_id s) (clock s) d" "stock_transactions s' = tbl_add t (stock_transactions s)"
    "inventories s' = inventories s" "0 < stx_quantity d" "tbl_has (stx_from_id d) (inventories s)"
    "tbl_has (stx_to_id d) (inventories s)"
    "\<exists>s1. update_inventory_balances t s1 = Inr ((), s') \<and> inventory_balances s1 = inventory_balances s
       \<and> inventories s1 = inventories s"
proof -
  obtain s1 where s1: "update_inventory_balances t s1 = Inr ((), s')" "inventory_balances s1 = inventory_balances s"
      "inventories s1 = inventories s" "stock_transactions s1 = tbl_add t (stock_transactions s)"
    using assms by (auto simp: insert_stock_transaction_def tx_iff)
  show "stock_transactions s' = tbl_add t (stock_transactions s)" "inventories s' = inventories s"
    using frameD [OF frame_update_inventory_balances [of stock_transactions] s1(1)]
      frameD [OF frame_update_inventory_balances [of inventories] s1(1)] s1 by simp_all
  show "\<exists>s1. update_inventory_balances t s1 = Inr ((), s') \<and> inventory_balances s1 = inventory_balances s
       \<and> inventories s1 = inventories s"
    using s1 by blast
qed (use assms in \<open>auto simp: insert_stock_transaction_def tx_iff\<close>)

lemma stock_of_in:
  "distinct (map bal_key t) \<Longrightarrow> b \<in> set t \<Longrightarrow> stock_of t (bal_key b) = bal_quantity b"
proof -
  assume d: "distinct (map bal_key t)" and b: "b \<in> set t"
  then obtain b' where "find (\<lambda>x. bal_key x = bal_key b) t = Some b'"
    by (cases "find (\<lambda>x. bal_key x = bal_key b) t") (auto simp: find_None_all)
  with d b show ?thesis
    using distinct_key_eq [of bal_key t b' b] by (auto simp: stock_of_def dest!: find_Some_in)
qed

lemma balances_ok_insert:
  assumes ok: "balances_ok vs t" and d: "distinct (map bal_key t')"
    and keys: "set (map bal_key t') = set (map bal_key t) \<union> {(i, p), (j, p)}"
    and has: "tbl_has i vs" "tbl_has j vs"
    and same: "\<And>k. k \<notin> {(i, p), (j, p)} \<Longrightarrow> stock_of t' k = stock_of t k"
    and guard: "\<And>b v. b \<in> set t' \<Longrightarrow> v \<in> set vs \<Longrightarrow> row_id v = bal_inventory_id b \<Longrightarrow>
       bal_key b \<in> {(i, p), (j, p)} \<Longrightarrow> \<not> is_virtual (inv_type v) \<Longrightarrow> 0 \<le> bal_quantity b"
  shows "balances_ok vs t'"
  unfolding balances_ok_def
proof (intro conjI ballI impI)
  fix b assume b: "b \<in> set t'"
  have old: "\<exists>a\<in>set t. bal_key a = bal_key b \<and> bal_quantity a = bal_quantity b"
    if "bal_key b \<notin> {(i, p), (j, p)}"
  proof -
    have "bal_key b \<in> set (map bal_key t)" using keys b that by auto
    then obtain a where a: "a \<in> set t" "bal_key a = bal_key b" by (metis (no_types) image_iff set_map)
    then show ?thesis
      using stock_of_in [OF d b] stock_of_in [OF _ a(1)] same [OF that] ok
      by (auto simp: balances_ok_def)
  qed
  show "tbl_has (bal_inventory_id b) vs"
  proof (cases "bal_key b \<in> {(i, p), (j, p)}")
    case False
    with old ok show ?thesis by (auto simp: balances_ok_def bal_key_def)
  qed (use has in \<open>auto simp: bal_key_def\<close>)
  fix v assume v: "v \<in> set vs" "row_id v = bal_inventory_id b" "\<not> is_virtual (inv_type v)"
  show "0 \<le> bal_quantity b"
  proof (cases "bal_key b \<in> {(i, p), (j, p)}")
    case False
    with old ok v show ?thesis by (auto simp: balances_ok_def bal_key_def)
  qed (use guard b v in blast)
qed (rule d)

lemma insert_stock_transaction_invar:
  assumes "stock_ok s" "insert_stock_transaction d s = Inr (t, s')"
  shows "stock_ok s'"
proof -
  note D = insert_stock_transactionD [OF assms(2)]
  obtain s1 where s1: "update_inventory_balances t s1 = Inr ((), s')"
      "inventory_balances s1 = inventory_balances s" "inventories s1 = inventories s"
    using D(7) by blast
  note U = update_inventory_balancesD [OF s1(1)]
  have t: "stx_from_id t = stx_from_id d" "stx_to_id t = stx_to_id d" "stx_quantity t = stx_quantity d"
      "stx_product_id t = stx_product_id d"
    using D(1) by (simp_all add: stamp_def)
  have "balances_ok (inventories s) (inventory_balances s')"
  proof (rule balances_ok_insert)
    show "balances_ok (inventories s) (inventory_balances s)" using assms(1) by (simp add: stock_ok_def)
    show "distinct (map bal_key (inventory_balances s'))"
      using U(2) s1(2) assms(1) by (simp add: stock_ok_def balances_ok_def)
    show "set (map bal_key (inventory_balances s')) = set (map bal_key (inventory_balances s))
        \<union> {(stx_from_id d, stx_product_id d), (stx_to_id d, stx_product_id d)}"
      using U(3) s1(2) t by simp
    fix k assume "k \<notin> {(stx_from_id d, stx_product_id d), (stx_to_id d, stx_product_id d)}"
    then show "stock_of (inventory_balances s') k = stock_of (inventory_balances s) k"
      using U(1) [of k] s1(2) t by (auto simp: stock_balance_def stx_line_def flow_def split: if_splits)
  next
    fix b v assume "b \<in> set (inventory_balances s')" "v \<in> set (inventories s)" "row_id v = bal_inventory_id b"
      "bal_key b \<in> {(stx_from_id d, stx_product_id d), (stx_to_id d, stx_product_id d)}" "\<not> is_virtual (inv_type v)"
    then show "0 \<le> bal_quantity b"
      using U(5) D(3) t by (force simp: negative_stock_def bal_key_def)
  qed (use D in auto)
  then show ?thesis
    using assms(1) D t U(4) by (auto simp: stock_ok_def)
qed

interpretation stock: journal_posting stock_ok stock_balance stock_journal "\<lambda>s d. [stx_line d]"
  insert_stock_transaction
proof
  fix s d t s' k
  assume ok: "stock_ok s" and run: "insert_stock_transaction d s = Inr (t, s')"
  note D = insert_stock_transactionD [OF run]
  have t: "stx_line t = stx_line d" using D(1) by (simp add: stamp_def stx_line_def)
  show "stock_ok s'" by (rule insert_stock_transaction_invar [OF ok run])
  obtain s1 where "update_inventory_balances t s1 = Inr ((), s')" "inventory_balances s1 = inventory_balances s"
    using D(7) by blast
  then show "stock_balance s' k = stock_balance s k + ledger_balance [stx_line d] k"
    using update_inventory_balancesD(1) [of t s1 "()" s' k] t by (simp add: stock_balance_def)
  show "ledger_balance (stock_journal s') k = ledger_balance (stock_journal s) k + ledger_balance [stx_line d] k"
    using D(2) t by (simp add: stock_journal_def tbl_add_def)
qed simp

lemma keeps_insert_stock_transaction [keeps_intro]: "keeps stock_explained (insert_stock_transaction d)"
  unfolding stock_explained_def [abs_def] by (rule stock.post_explained)

lemma stock_explained_frame:
  assumes "frame inventories m" "frame inventory_balances m" "frame stock_transactions m"
  shows "keeps stock_explained m"
  using assms
  by (auto simp: keeps_def frame_def stock_explained_def stock_ok_def stock_balance_def stock_journal_def)

lemma keeps_stock_statements [keeps_intro]:
  "keeps stock_explained (insert_transfer d)" "keeps stock_explained (insert_transfer_item e)"
  by (intro stock_explained_frame frame_intro; simp)+

lemma keeps_post_items [keeps_intro]: "keeps stock_explained (post_items t items)"
  unfolding post_items_def by (intro keeps_intro)

lemma keeps_post_stock [keeps_intro]: "keeps stock_explained (post_stock t items)"
  unfolding post_stock_def by (intro keeps_intro)

section \<open>What a sound stock ledger says\<close>

lemma stock_of_absent: "k \<notin> set (map bal_key t) \<Longrightarrow> stock_of t k = 0"
proof -
  assume "k \<notin> set (map bal_key t)"
  then have "find (\<lambda>b. bal_key b = k) t = None" by (auto simp: find_None_iff)
  then show ?thesis by (simp add: stock_of_def)
qed

lemma ledger_balance_absent:
  "(\<And>a b q. (a, b, q) \<in> set ms \<Longrightarrow> a \<noteq> k \<and> b \<noteq> k) \<Longrightarrow> ledger_balance ms k = 0"
  by (induction ms) (auto simp: flow_def split: prod.splits)

lemma stock_explained_check:
  assumes "stock_ok s"
    and "\<forall>k\<in>set (map bal_key (inventory_balances s)) \<union> (\<Union>(a, b, q)\<in>set (stock_journal s). {a, b}).
      stock_balance s k = ledger_balance (stock_journal s) k"
  shows "stock_explained s"
proof -
  have "stock_balance s k = ledger_balance (stock_journal s) k" for k
  proof (cases "k \<in> set (map bal_key (inventory_balances s)) \<union> (\<Union>(a, b, q)\<in>set (stock_journal s). {a, b})")
    case False
    then have "stock_balance s k = 0" by (simp add: stock_balance_def stock_of_absent)
    moreover have "ledger_balance (stock_journal s) k = 0"
      using False by (intro ledger_balance_absent) force
    ultimately show ?thesis by simp
  qed (use assms(2) in blast)
  with assms(1) show ?thesis by (simp add: stock_explained_def)
qed

lemma sample_stock_explained: "stock_explained sample_db"
  by (rule stock_explained_check; code_simp)

lemma key_sum_stock_of:
  assumes "distinct (map bal_key t)"
  shows "sum_list (map bal_quantity (filter (\<lambda>b. C (bal_key b)) t)) = (\<Sum>k\<in>{k \<in> set (map bal_key t). C k}. stock_of t k)"
proof -
  let ?r = "filter (\<lambda>b. C (bal_key b)) t"
  have "map bal_quantity ?r = map (\<lambda>b. stock_of t (bal_key b)) ?r"
    using assms by (auto simp: stock_of_in)
  then have "sum_list (map bal_quantity ?r) = sum_list (map (stock_of t) (map bal_key ?r))"
    by (simp only: map_map comp_def)
  also have "\<dots> = (\<Sum>k\<in>set (map bal_key ?r). stock_of t k)"
  proof (rule sum_list_distinct_conv_sum_set)
    show "distinct (map bal_key ?r)" using assms by (rule distinct_map_filter)
  qed
  also have "set (map bal_key ?r) = {k \<in> set (map bal_key t). C k}" by auto
  finally show ?thesis .
qed

lemma sum_ledger_balance:
  "(\<Sum>k\<in>K. ledger_balance ms k) = sum_list (map (\<lambda>m. \<Sum>k\<in>K. flow m k) ms)"
  by (induction ms) (simp_all add: sum.distrib)

text \<open>
  The balances of any kind of place and product are what the history moved into the kind less what it moved out.
\<close>

lemma kind_total:
  assumes "stock_explained s"
  shows "sum_list (map bal_quantity (filter (\<lambda>b. C (bal_key b)) (inventory_balances s)))
    = sum_list (map (\<lambda>t. (if C (stx_to_id t, stx_product_id t) then stx_quantity t else 0)
        - (if C (stx_from_id t, stx_product_id t) then stx_quantity t else 0)) (stock_transactions s))"
proof -
  let ?t = "inventory_balances s"
  define J where "J = (\<Union>(a, b, q)\<in>set (stock_journal s). {a, b})"
  define K where "K = {k \<in> set (map bal_key ?t) \<union> J. C k}"
  have fin: "finite K" by (auto simp: K_def J_def)
  have "(\<Sum>k\<in>{k \<in> set (map bal_key ?t). C k}. stock_of ?t k) = (\<Sum>k\<in>K. stock_of ?t k)"
  proof (rule sum.mono_neutral_left [OF fin])
    show "\<forall>k\<in>K - {k \<in> set (map bal_key ?t). C k}. stock_of ?t k = 0"
      by (auto simp: K_def intro!: stock_of_absent)
  qed (auto simp: K_def)
  also have "\<dots> = (\<Sum>k\<in>K. ledger_balance (stock_journal s) k)"
    using assms by (intro sum.cong refl) (simp add: stock_explained_def stock_balance_def split_paired_all)
  also have "\<dots> = sum_list (map (\<lambda>m. \<Sum>k\<in>K. flow m k) (stock_journal s))" by (rule sum_ledger_balance)
  also have "\<dots> = sum_list (map (\<lambda>t. (if C (stx_to_id t, stx_product_id t) then stx_quantity t else 0)
      - (if C (stx_from_id t, stx_product_id t) then stx_quantity t else 0)) (stock_transactions s))"
    unfolding stock_journal_def map_map comp_def
  proof (rule arg_cong [where f = sum_list], rule map_cong [OF refl])
    fix t assume "t \<in> set (stock_transactions s)"
    then have "stx_line t \<in> set (stock_journal s)" by (simp add: stock_journal_def)
    then have "(stx_from_id t, stx_product_id t) \<in> J" "(stx_to_id t, stx_product_id t) \<in> J"
      by (force simp: J_def stx_line_def)+
    then show "(\<Sum>k\<in>K. flow (stx_line t) k) = (if C (stx_to_id t, stx_product_id t) then stx_quantity t else 0)
        - (if C (stx_from_id t, stx_product_id t) then stx_quantity t else 0)"
      using fin by (simp add: stx_line_def flow_def sum_subtractf K_def)
  qed
  finally show ?thesis
    using assms by (simp add: key_sum_stock_of stock_explained_def stock_ok_def balances_ok_def)
qed

text \<open>For every product the balances over all inventories add up to nothing.\<close>

lemma product_total_zero:
  assumes "stock_explained s"
  shows "sum_list (map bal_quantity (filter (\<lambda>b. bal_product_id b = p) (inventory_balances s))) = 0"
  using kind_total [OF assms, of "\<lambda>k. snd k = p"] by (simp add: bal_key_def)

lemma get_balance_ledger:
  assumes "\<forall>t\<in>set (stock_transactions s). stx_from_id t \<noteq> stx_to_id t"
  shows "get_balance i p None s = ledger_balance (stock_journal s) (i, p)"
proof -
  have "(if stx_product_id t = p \<and> (stx_to_id t = i \<or> stx_from_id t = i)
      then (if stx_to_id t = i then stx_quantity t else if stx_from_id t = i then - stx_quantity t else 0) else 0)
      = flow (stx_line t) (i, p)" if "t \<in> set (stock_transactions s)" for t
    using assms that by (auto simp: flow_def stx_line_def)
  then show ?thesis
    unfolding get_balance_def sum_list_filter_map_if
    by (simp add: ledger_balance_def stock_journal_def comp_def cong: map_cong)
qed

section \<open>Properties\<close>

text \<open>
  C18. The trigger refines the history, from any state whatever: a posting that is accepted appends one row to the history and
  changes the balance that the trigger keeps, for every inventory and product, by exactly what it changes in the sum that \<open>get_balance\<close>
  makes of the history: the receiver has the quantity more, the sender has it less, nothing else moves. It is accepted only with a positive quantity
  between two different inventories, and only if it leaves neither of them negative, unless that one is virtual.
\<close>

theorem stock_trigger_refines_history:
  assumes "insert_stock_transaction d s = Inr (t, s')"
  shows "stock_transactions s' = stock_transactions s @ [t]
    \<and> stock_balance s' (i, p) - stock_balance s (i, p) = get_balance i p None s' - get_balance i p None s
    \<and> stock_balance s' (i, p) = stock_balance s (i, p)
        + (if p \<noteq> stx_product_id d then 0 else if i = stx_to_id d then stx_quantity d
           else if i = stx_from_id d then - stx_quantity d else 0)
    \<and> 0 < stx_quantity d \<and> stx_from_id d \<noteq> stx_to_id d
    \<and> (\<forall>v\<in>set (inventories s'). row_id v \<in> {stx_from_id d, stx_to_id d} \<and> \<not> is_virtual (inv_type v)
        \<longrightarrow> 0 \<le> stock_balance s' (row_id v, stx_product_id d))"
proof -
  note D = insert_stock_transactionD [OF assms]
  obtain s1 where s1: "update_inventory_balances t s1 = Inr ((), s')" "inventory_balances s1 = inventory_balances s"
    using D(7) by blast
  note U = update_inventory_balancesD [OF s1(1)]
  have t: "stx_from_id t = stx_from_id d" "stx_to_id t = stx_to_id d" "stx_quantity t = stx_quantity d"
      "stx_product_id t = stx_product_id d"
    using D(1) by (simp_all add: stamp_def)
  have "stock_balance s' (i, p) = stock_balance s (i, p) + flow (stx_line t) (i, p)"
    using U(1) [of "(i, p)"] s1(2) by (simp add: stock_balance_def)
  moreover have "flow (stx_line t) (i, p) = (if p \<noteq> stx_product_id d then 0 else if i = stx_to_id d then stx_quantity d
      else if i = stx_from_id d then - stx_quantity d else 0)"
    using U(4) t by (auto simp: flow_def stx_line_def)
  moreover have "get_balance i p None s' = get_balance i p None s + flow (stx_line t) (i, p)"
    using D(2) U(4) by (auto simp: get_balance_def tbl_add_def flow_def stx_line_def)
  moreover have "0 \<le> stock_balance s' (row_id v, stx_product_id d)"
    if v: "v \<in> set (inventories s')" "row_id v \<in> {stx_from_id d, stx_to_id d}" "\<not> is_virtual (inv_type v)" for v
  proof (cases "find (\<lambda>b. bal_key b = (row_id v, stx_product_id d)) (inventory_balances s')")
    case (Some b)
    then have "b \<in> set (inventory_balances s')" "bal_inventory_id b = row_id v" "bal_product_id b = stx_product_id d"
      by (auto simp: bal_key_def dest!: find_Some_in)
    with U(5) v t have "\<not> bal_quantity b < 0" by (auto simp: negative_stock_def)
    with Some show ?thesis by (simp add: stock_balance_def stock_of_def)
  qed (simp add: stock_balance_def stock_of_def)
  ultimately show ?thesis using D(2,4) U(4) t by (simp add: tbl_add_def)
qed

theorem stock_trigger_refines_history_witness:
  "\<exists>t s'. insert_stock_transaction (stock_transaction_draft 81 42 43 (20, 5)) sample_db = Inr (t, s')
     \<and> stock_balance s' (42, 20) = 85 \<and> get_balance 42 20 None s' = 85"
proof -
  let ?d = "stock_transaction_draft 81 42 43 (20, 5)"
  have "\<not> isl (insert_stock_transaction ?d sample_db)" by code_simp
  then obtain t s' where run: "insert_stock_transaction ?d sample_db = Inr (t, s')" by (auto simp: isl_def) (metis sum.exhaust surj_pair)
  have "stock_balance sample_db (42, 20) = 90" "get_balance 42 20 None sample_db = 90" by code_simp+
  moreover have "stock_balance s' (42, 20) = stock_balance sample_db (42, 20) - 5"
    "stock_balance s' (42, 20) - stock_balance sample_db (42, 20) = get_balance 42 20 None s' - get_balance 42 20 None sample_db"
    using stock_trigger_refines_history [OF run, of 42 20] by (simp_all add: stock_transaction_draft_def)
  ultimately show ?thesis using run by auto
qed

text \<open>
  The guard of \<open>hard_delete\<close> never fires: \<open>has_stock\<close> sums the balances of a product over all
  inventories, the virtual ones with it, and in a sound ledger that sum is always nothing, however
  many units the warehouses hold. A product with a history is refused by a foreign key instead.
\<close>

theorem has_stock_never:
  assumes "stock_explained s"
  shows "\<not> has_stock p s \<and> fst (hard_delete p s) \<noteq> Inl (CatalogErr (ProductHasStockError p))"
proof
  show none: "\<not> has_stock p s" using product_total_zero [OF assms, of p] by (simp add: has_stock_def)
  show "fst (hard_delete p s) \<noteq> Inl (CatalogErr (ProductHasStockError p))"
    using none by (auto simp: hard_delete_def with_uow_def hard_delete_body_def tx_run_defs split: option.splits)
qed

theorem has_stock_never_witness:
  "\<not> has_stock 20 sample_db \<and> stock_balance sample_db (42, 20) = 90"
proof -
  have "stock_balance sample_db (42, 20) = 90" by code_simp
  then show ?thesis using has_stock_never [OF sample_stock_explained, of 20] by simp
qed

end
