(* ===== verification/Lifecycle.thy ===== *)
theory Lifecycle
  imports Base
begin

text \<open>
  Status columns. Orders, contracts and invoices each have a status that moves along a fixed set of
  steps and stops in a terminal one. \<open>lifecycle\<close> is the contract of such a set of steps,
  \<open>ranked_lifecycle\<close> that of one that never comes back, \<open>status_table\<close> that of a table whose rows
  carry such a status; each is interpreted on the model's tables. A table that only grows by new
  rows at its end and changes each row along a preorder is \<open>grows\<close>.
\<close>

section \<open>Tables that grow\<close>

definition grows :: "('a \<Rightarrow> 'a \<Rightarrow> bool) \<Rightarrow> 'a list \<Rightarrow> 'a list \<Rightarrow> bool" where
  "grows le t t' \<longleftrightarrow> (\<exists>ys zs. t' = ys @ zs \<and> list_all2 le t ys)"

lemma grows_refl: "reflp le \<Longrightarrow> grows le t t"
  unfolding grows_def by (rule exI [of _ t], rule exI [of _ "[]"]) (simp add: list.rel_refl reflp_def)

lemma grows_trans:
  assumes "transp le" "grows le t u" "grows le u v"
  shows "grows le t v"
proof -
  obtain a b where 1: "u = a @ b" "list_all2 le t a" using assms(2) by (auto simp: grows_def)
  obtain c d where 2: "v = c @ d" "list_all2 le u c" using assms(3) by (auto simp: grows_def)
  from 1 2 obtain e f where 3: "c = e @ f" "list_all2 le a e"
    by (auto simp: list_all2_append1)
  have "list_all2 le t e"
    using list_all2_trans [of le le le, OF _ 1(2) 3(2)] assms(1) by (auto dest: transpD)
  with 2 3 show ?thesis by (auto simp: grows_def)
qed

lemma grows_append: "reflp le \<Longrightarrow> grows le t (t @ zs)"
  unfolding grows_def by (metis list.rel_refl reflp_def)

lemma grows_add: "reflp le \<Longrightarrow> grows le t (tbl_add r t)"
  unfolding tbl_add_def by (rule grows_append)

lemma grows_map: "(\<And>r. r \<in> set t \<Longrightarrow> le r (f r)) \<Longrightarrow> grows le t (map f t)"
  unfolding grows_def
  by (rule exI [of _ "map f t"], rule exI [of _ "[]"]) (auto simp: list_all2_conv_all_nth)

lemma grows_update:
  assumes "reflp le" "\<And>r. r \<in> set t \<Longrightarrow> row_id r = i \<Longrightarrow> le r ((f r)\<lparr>updated_at := now\<rparr>)"
  shows "grows le t (tbl_update now i f t)"
  unfolding tbl_update_def using assms by (intro grows_map) (auto simp: reflp_def)

lemma grows_get:
  assumes "grows le t t'" "\<And>r r'. le r r' \<Longrightarrow> row_id r' = row_id r" "tbl_get i False t = Some r"
  shows "\<exists>r'. tbl_get i False t' = Some r' \<and> le r r'"
proof -
  obtain ys zs where t': "t' = ys @ zs" and all: "list_all2 le t ys"
    using assms(1) by (auto simp: grows_def)
  have "\<exists>r'. tbl_get i False ys = Some r' \<and> le r r'"
    using all assms(3)
  proof (induction rule: list_all2_induct)
    case (Cons x xs y ys)
    then show ?case using assms(2) by (auto simp: tbl_get_def split: if_splits)
  qed (simp add: tbl_get_def)
  then show ?thesis by (auto simp: t' tbl_get_def find_append)
qed

lemma grows_mono: "grows le t t' \<Longrightarrow> (\<And>r r'. le r r' \<Longrightarrow> le' r r') \<Longrightarrow> grows le' t t'"
  unfolding grows_def by (auto intro: list_all2_mono)

lemma grows_length: "grows le t t' \<Longrightarrow> length t \<le> length t'"
  by (auto simp: grows_def dest: list_all2_lengthD)

section \<open>Steps between statuses\<close>

locale lifecycle =
  fixes step :: "'a \<Rightarrow> 'a \<Rightarrow> bool" and terminal :: "'a set"
  assumes terminal_stuck: "x \<in> terminal \<Longrightarrow> \<not> step x y"
begin

lemma terminal_final: "step\<^sup>*\<^sup>* x y \<Longrightarrow> x \<in> terminal \<Longrightarrow> y = x"
  by (induction rule: rtranclp_induct) (auto dest: terminal_stuck)

end

locale ranked_lifecycle = lifecycle step terminal
  for step :: "'a \<Rightarrow> 'a \<Rightarrow> bool" and terminal :: "'a set" +
  fixes rank :: "'a \<Rightarrow> nat"
  assumes forward: "step x y \<Longrightarrow> rank x < rank y"
begin

lemma rank_mono: "step\<^sup>*\<^sup>* x y \<Longrightarrow> rank x \<le> rank y"
  by (induction rule: rtranclp_induct) (auto dest: forward)

lemma no_return: "step\<^sup>*\<^sup>* x y \<Longrightarrow> step\<^sup>*\<^sup>* y x \<Longrightarrow> x = y"
proof -
  assume "step\<^sup>*\<^sup>* x y" and back1: "step\<^sup>*\<^sup>* y x"
  then show "x = y"
  proof (cases rule: rtranclp.cases)
    case (rtrancl_into_rtrancl b)
    then have "rank x < rank y" using rank_mono forward by fastforce
    with rank_mono [OF back1] show ?thesis by simp
  qed simp
qed

lemma path_bound: "(step ^^ n) x y \<Longrightarrow> n + rank x \<le> rank y"
proof (induction n arbitrary: y)
  case (Suc n)
  then obtain z where "(step ^^ n) x z" "step z y" by auto
  with Suc.IH forward show ?case by fastforce
qed auto

end

section \<open>Tables with a status column\<close>

locale status_table = lifecycle step terminal
  for step :: "'a \<Rightarrow> 'a \<Rightarrow> bool" and terminal :: "'a set" +
  fixes le :: "'r base_model_scheme \<Rightarrow> 'r base_model_scheme \<Rightarrow> bool" and status :: "'r base_model_scheme \<Rightarrow> 'a"
  assumes le_id: "le r r' \<Longrightarrow> row_id r' = row_id r"
    and le_status: "le r r' \<Longrightarrow> step\<^sup>*\<^sup>* (status r) (status r')"
    and le_refl: "le r r"
    and le_trans: "le r r' \<Longrightarrow> le r' r'' \<Longrightarrow> le r r''"
begin

lemma preorder: "reflp le" "transp le"
  by (auto simp: reflp_def transp_def intro: le_refl le_trans)

lemma table_preorder: "reflp (grows le)" "transp (grows le)"
  using preorder by (auto simp: reflp_def transp_def intro: grows_refl grows_trans)

lemma status_of_row:
  assumes "grows le t t'" "tbl_get i False t = Some r"
  shows "\<exists>r'. tbl_get i False t' = Some r' \<and> step\<^sup>*\<^sup>* (status r) (status r')"
  using grows_get [OF assms(1) le_id assms(2)] le_status by blast

lemma closed_row:
  assumes "grows le t t'" "tbl_get i False t = Some r" "status r \<in> terminal"
  shows "\<exists>r'. tbl_get i False t' = Some r' \<and> status r' = status r"
  using status_of_row [OF assms(1,2)] terminal_final assms(3) by blast

lemma keys_kept: "grows le t t' \<Longrightarrow> tbl_has i t \<Longrightarrow> tbl_has i t'"
proof -
  assume "grows le t t'" "tbl_has i t"
  then obtain r ys zs where "r \<in> set t" "row_id r = i" "t' = ys @ zs" "list_all2 le t ys"
    by (auto simp: grows_def tbl_has_def)
  then obtain r' where "r' \<in> set ys" "le r r'"
    by (metis list_all2_conv_all_nth in_set_conv_nth)
  with \<open>row_id r = i\<close> \<open>t' = ys @ zs\<close> show "tbl_has i t'"
    by (auto simp: tbl_has_def dest: le_id)
qed

end

end
