(* ===== verification/OrderTables.thy ===== *)
theory OrderTables
  imports Errors Stock Lifecycle
begin

text \<open>
  The tables of the orders module: the statements on \<open>orders\<close>, \<open>order_items\<close> and
  \<open>order_status_logs\<close> with their constraints (\<open>src/modules/orders/models.py\<close>) and the
  repositories of \<open>src/modules/orders/repositories.py\<close>.
\<close>

section \<open>Statements\<close>

definition order_draft ::
  "uuid \<Rightarrow> uuid \<Rightarrow> payment_method \<Rightarrow> order_status \<Rightarrow> int \<Rightarrow> bool \<Rightarrow> sale_type \<Rightarrow> uuid option \<Rightarrow> uuid option
   \<Rightarrow> bool \<Rightarrow> string option \<Rightarrow> order_row" where
  "order_draft client inventory pay st amount cap sale warehouse contract reserved nts =
     \<lparr>row_id = 0, is_active = True, created_at = 0, updated_at = 0, ord_client_id = client,
      ord_client_inventory_id = inventory, ord_courier_id = None, ord_payment_method = pay,
      ord_status = st, ord_total_amount = amount, ord_capitalization_applied = cap,
      ord_sale_type = sale, ord_warehouse_id = warehouse, ord_contract_id = contract,
      ord_quantities_reserved = reserved, ord_cancellation_reason = None, ord_notes = nts\<rparr>"

definition fk_ok :: "uuid option \<Rightarrow> 'r table \<Rightarrow> bool" where
  "fk_ok i t = (case i of None \<Rightarrow> True | Some i \<Rightarrow> tbl_has i t)"

definition order_constraints :: "order_row \<Rightarrow> unit dbtx" where
  "order_constraints ord =
     tx_bind (tx_raise_if (\<not> int8 (ord_total_amount ord)) (DbErr NumericOutOfRange)) (\<lambda>_.
     tx_bind (tx_get users) (\<lambda>us.
     tx_bind (tx_raise_if (\<not> tbl_has (ord_client_id ord) us \<or> \<not> fk_ok (ord_courier_id ord) us)
       (DbErr (ForeignKeyViolation ''users''))) (\<lambda>_.
     tx_bind (tx_get inventories) (\<lambda>vs.
     tx_bind (tx_raise_if (\<not> tbl_has (ord_client_inventory_id ord) vs \<or> \<not> fk_ok (ord_warehouse_id ord) vs)
       (DbErr (ForeignKeyViolation ''inventories''))) (\<lambda>_.
     tx_bind (tx_get contracts) (\<lambda>cs.
     tx_raise_if (\<not> fk_ok (ord_contract_id ord) cs) (DbErr (ForeignKeyViolation ''contracts''))))))))"

definition insert_order :: "order_row \<Rightarrow> order_row dbtx" where
  "insert_order d = tx_bind (order_constraints d) (\<lambda>_. insert_row orders orders_update d)"

text \<open>\<open>OrderRepository.update\<close>, inherited: an unknown id is a \<open>NotFoundError\<close>.\<close>

definition update_order :: "uuid \<Rightarrow> (order_row \<Rightarrow> order_row) \<Rightarrow> unit dbtx" where
  "update_order i f =
     tx_bind (tx_get orders) (\<lambda>t.
     tx_bind (tx_require (tbl_get i False t) (HttpErr (NotFoundError ''NOT_FOUND''))) (\<lambda>old.
     tx_bind (order_constraints (f old)) (\<lambda>_.
     update_row orders_update i f)))"

definition order_item_draft :: "uuid \<Rightarrow> item \<Rightarrow> int \<Rightarrow> order_item_row" where
  "order_item_draft order_id it price =
     \<lparr>row_id = 0, is_active = True, created_at = 0, updated_at = 0, oit_order_id = order_id,
      oit_product_id = fst it, oit_quantity = snd it, oit_unit_price = price\<rparr>"

definition check_item_quantity :: "int \<Rightarrow> unit dbtx" where
  "check_item_quantity q =
     tx_bind (tx_raise_if (\<not> int4 q) (DbErr NumericOutOfRange)) (\<lambda>_.
     tx_raise_if (q \<le> 0) (DbErr (CheckViolation ''ck_order_item_quantity_pos'')))"

definition insert_order_item :: "order_item_row \<Rightarrow> order_item_row dbtx" where
  "insert_order_item d =
     tx_bind (check_item_quantity (oit_quantity d)) (\<lambda>_.
     tx_bind (tx_raise_if (\<not> int8 (oit_unit_price d)) (DbErr NumericOutOfRange)) (\<lambda>_.
     tx_bind (tx_raise_if (oit_unit_price d < 0) (DbErr (CheckViolation ''ck_order_item_price_pos''))) (\<lambda>_.
     tx_bind (tx_get orders) (\<lambda>os.
     tx_bind (tx_raise_if (\<not> tbl_has (oit_order_id d) os) (DbErr (ForeignKeyViolation ''orders''))) (\<lambda>_.
     tx_bind (tx_get products) (\<lambda>ps.
     tx_bind (tx_raise_if (\<not> tbl_has (oit_product_id d) ps) (DbErr (ForeignKeyViolation ''products''))) (\<lambda>_.
     insert_row order_items order_items_update d)))))))"

section \<open>OrderItemRepository\<close>

definition get_by_order_and_product :: "uuid \<Rightarrow> uuid \<Rightarrow> order_item_row option dbtx" where
  "get_by_order_and_product order_id product_id =
     tx_bind (tx_get (\<lambda>s. filter (\<lambda>it. oit_order_id it = order_id \<and> oit_product_id it = product_id)
       (order_items s))) scalar_one_or_none"

definition items_of :: "uuid \<Rightarrow> db \<Rightarrow> order_item_row list" where
  "items_of order_id s = filter (\<lambda>it. oit_order_id it = order_id) (order_items s)"

definition delete_by_order_and_product :: "uuid \<Rightarrow> uuid \<Rightarrow> unit dbtx" where
  "delete_by_order_and_product order_id product_id =
     tx_modify (order_items_update (filter (\<lambda>it. \<not> (oit_order_id it = order_id \<and> oit_product_id it = product_id))))"

definition update_quantity :: "uuid \<Rightarrow> int \<Rightarrow> unit dbtx" where
  "update_quantity order_item_id new_quantity =
     tx_bind (tx_get order_items) (\<lambda>t.
     tx_bind (tx_when (tbl_has order_item_id t) (check_item_quantity new_quantity)) (\<lambda>_.
     update_row order_items_update order_item_id (\<lambda>it. it\<lparr>oit_quantity := new_quantity\<rparr>)))"

definition get_by_orders :: "uuid list \<Rightarrow> db \<Rightarrow> order_item_row list" where
  "get_by_orders order_ids s =
     (if order_ids = [] then [] else filter (\<lambda>it. oit_order_id it \<in> set order_ids) (order_items s))"

definition add_order_items :: "order_item_row list \<Rightarrow> unit dbtx" where
  "add_order_items ds = tx_for (\<lambda>d. tx_bind (insert_order_item d) (\<lambda>_. tx_ret ())) ds"

section \<open>OrderRepository\<close>

definition get_client_orders :: "uuid \<Rightarrow> nat \<Rightarrow> nat \<Rightarrow> order_status option \<Rightarrow> db \<Rightarrow> order_row list" where
  "get_client_orders client_id skip limit status s =
     take limit (drop skip (sort_key (\<lambda>r. - created_at r) (filter (\<lambda>r. ord_client_id r = client_id
       \<and> (case status of None \<Rightarrow> True | Some st \<Rightarrow> ord_status r = st)) (orders s))))"

definition count_client_orders :: "uuid \<Rightarrow> order_status option \<Rightarrow> db \<Rightarrow> nat" where
  "count_client_orders client_id status s =
     length (filter (\<lambda>r. ord_client_id r = client_id
       \<and> (case status of None \<Rightarrow> True | Some st \<Rightarrow> ord_status r = st)) (orders s))"

definition get_active_courier_orders :: "uuid \<Rightarrow> db \<Rightarrow> order_row list" where
  "get_active_courier_orders courier_id s =
     sort_key created_at (filter (\<lambda>r. ord_courier_id r = Some courier_id
       \<and> ord_status r \<in> {OS_ASSIGNED, OS_IN_TRANSIT, OS_ARRIVED}) (orders s))"

definition get_with_details :: "uuid \<Rightarrow> db \<Rightarrow> order_row option" where
  "get_with_details order_id s = tbl_get order_id False (orders s)"

record order_search =
  osq_statuses :: "order_status list"
  osq_payment_methods :: "payment_method list"
  osq_courier_id :: "uuid option"
  osq_client_id :: "uuid option"
  osq_client_inventory_id :: "uuid option"
  osq_sale_type :: "sale_type option"
  osq_date_from :: "timestamp option"
  osq_date_to :: "timestamp option"
  osq_min_amount :: "int option"
  osq_max_amount :: "int option"
  osq_contract_id :: "uuid option"

definition order_search_all :: order_search where
  "order_search_all = \<lparr>osq_statuses = [], osq_payment_methods = [], osq_courier_id = None,
     osq_client_id = None, osq_client_inventory_id = None, osq_sale_type = None, osq_date_from = None,
     osq_date_to = None, osq_min_amount = None, osq_max_amount = None, osq_contract_id = None\<rparr>"

definition order_matches :: "order_search \<Rightarrow> order_row \<Rightarrow> bool" where
  "order_matches q r \<longleftrightarrow> is_active r
     \<and> (osq_statuses q = [] \<or> ord_status r \<in> set (osq_statuses q))
     \<and> (osq_payment_methods q = [] \<or> ord_payment_method r \<in> set (osq_payment_methods q))
     \<and> (case osq_courier_id q of None \<Rightarrow> True | Some u \<Rightarrow> ord_courier_id r = Some u)
     \<and> (case osq_client_id q of None \<Rightarrow> True | Some u \<Rightarrow> ord_client_id r = u)
     \<and> (case osq_client_inventory_id q of None \<Rightarrow> True | Some i \<Rightarrow> ord_client_inventory_id r = i)
     \<and> (case osq_sale_type q of None \<Rightarrow> True | Some t \<Rightarrow> ord_sale_type r = t)
     \<and> (case osq_contract_id q of None \<Rightarrow> True | Some c \<Rightarrow> ord_contract_id r = Some c)
     \<and> (case osq_date_from q of None \<Rightarrow> True | Some d \<Rightarrow> d \<le> created_at r)
     \<and> (case osq_date_to q of None \<Rightarrow> True | Some d \<Rightarrow> created_at r \<le> d)
     \<and> (case osq_min_amount q of None \<Rightarrow> True | Some m \<Rightarrow> m \<le> ord_total_amount r)
     \<and> (case osq_max_amount q of None \<Rightarrow> True | Some m \<Rightarrow> ord_total_amount r \<le> m)"

definition repo_search_orders :: "nat \<Rightarrow> nat \<Rightarrow> order_search \<Rightarrow> db \<Rightarrow> order_row list \<times> nat" where
  "repo_search_orders skip limit q s =
     (let rows = filter (order_matches q) (orders s)
      in (take limit (drop skip (sort_key (\<lambda>r. - created_at r) rows)), length rows))"

definition get_delivered_by_contract :: "uuid \<Rightarrow> date \<Rightarrow> date \<Rightarrow> db \<Rightarrow> order_row list" where
  "get_delivered_by_contract contract_id date_from date_to s =
     sort_key created_at (filter (\<lambda>r. ord_contract_id r = Some contract_id
       \<and> ord_status r \<in> {OS_DELIVERED, OS_PICKUP_COMPLETED}
       \<and> midnight date_from \<le> created_at r \<and> created_at r < midnight (date_to + 1) \<and> is_active r) (orders s))"

text \<open>\<open>OrderRepository.update_status\<close>: \<open>UPDATE ... RETURNING\<close>, \<open>None\<close> when no row matches.\<close>

definition repo_update_status :: "uuid \<Rightarrow> order_status \<Rightarrow> order_row option dbtx" where
  "repo_update_status order_id new_status =
     tx_bind (update_row orders_update order_id (\<lambda>r. r\<lparr>ord_status := new_status\<rparr>)) (\<lambda>_.
     tx_get (\<lambda>s. tbl_get order_id False (orders s)))"

definition cancellable_by_contract :: "uuid \<Rightarrow> db \<Rightarrow> order_row list" where
  "cancellable_by_contract contract_id s =
     filter (\<lambda>r. ord_contract_id r = Some contract_id \<and> ord_status r \<in> {OS_NEW, OS_ASSIGNED} \<and> is_active r)
       (orders s)"

definition bulk_cancel_by_contract :: "uuid \<Rightarrow> (uuid \<times> order_status \<times> bool) list dbtx" where
  "bulk_cancel_by_contract contract_id =
     tx_bind (tx_get (cancellable_by_contract contract_id)) (\<lambda>rows.
     if rows = [] then tx_ret []
     else
       tx_bind (tx_get clock) (\<lambda>now.
       tx_bind (tx_modify (orders_update (map (\<lambda>r. if row_id r \<in> set (map row_id rows)
         then r\<lparr>ord_status := OS_CANCELLED, updated_at := now\<rparr> else r)))) (\<lambda>_.
       tx_ret (map (\<lambda>r. (row_id r, ord_status r, ord_quantities_reserved r)) rows))))"

definition count_inflight_by_contract :: "uuid \<Rightarrow> db \<Rightarrow> nat" where
  "count_inflight_by_contract contract_id s =
     length (filter (\<lambda>r. ord_contract_id r = Some contract_id \<and> ord_status r \<in> {OS_IN_TRANSIT, OS_ARRIVED}
       \<and> is_active r) (orders s))"

definition get_stale_orders :: "timestamp \<Rightarrow> order_status \<Rightarrow> nat \<Rightarrow> bool \<Rightarrow> db \<Rightarrow> order_row list" where
  "get_stale_orders older_than status limit by_updated s =
     take limit (filter (\<lambda>r. ord_status r = status
       \<and> (if by_updated then updated_at r else created_at r) < older_than \<and> is_active r) (orders s))"

section \<open>OrderStatusLogRepository\<close>

definition log_transition ::
  "uuid \<Rightarrow> order_status option \<Rightarrow> order_status \<Rightarrow> uuid option \<Rightarrow> string option \<Rightarrow> unit dbtx" where
  "log_transition order_id old_status new_status changed_by_id reason =
     tx_bind (tx_get orders) (\<lambda>os.
     tx_bind (tx_raise_if (\<not> tbl_has order_id os) (DbErr (ForeignKeyViolation ''orders''))) (\<lambda>_.
     tx_bind (tx_get users) (\<lambda>us.
     tx_bind (tx_raise_if (\<not> fk_ok changed_by_id us) (DbErr (ForeignKeyViolation ''users''))) (\<lambda>_.
     tx_bind (insert_row order_status_logs order_status_logs_update
       \<lparr>row_id = 0, is_active = True, created_at = 0, updated_at = 0, osl_order_id = order_id,
        osl_old_status = old_status, osl_new_status = new_status, osl_changed_by_id = changed_by_id,
        osl_reason = reason\<rparr>) (\<lambda>_. tx_ret ())))))"

section \<open>Lemmas on the statements\<close>

lemma order_constraints_iff [tx_iff]:
  "order_constraints r s = Inr (x, s') \<longleftrightarrow> s' = s \<and> int8 (ord_total_amount r)
     \<and> tbl_has (ord_client_id r) (users s) \<and> fk_ok (ord_courier_id r) (users s)
     \<and> tbl_has (ord_client_inventory_id r) (inventories s) \<and> fk_ok (ord_warehouse_id r) (inventories s)
     \<and> fk_ok (ord_contract_id r) (contracts s)"
  by (auto simp: order_constraints_def tx_iff)

lemma insert_order_iff [tx_iff]:
  "insert_order d s = Inr (r, s') \<longleftrightarrow> order_constraints d s = Inr ((), s)
     \<and> r = stamp (next_id s) (clock s) d \<and> \<not> tbl_has (next_id s) (orders s)
     \<and> s' = s\<lparr>next_id := Suc (next_id s), orders := tbl_add r (orders s)\<rparr>"
  by (auto simp: insert_order_def tx_iff)

lemma update_order_iff [tx_iff]:
  "update_order i f s = Inr (x, s') \<longleftrightarrow> (\<exists>old. tbl_get i False (orders s) = Some old
     \<and> order_constraints (f old) s = Inr ((), s)) \<and> s' = orders_update (tbl_update (clock s) i f) s"
  by (auto simp: update_order_def tx_iff)

lemma check_item_quantity_iff [tx_iff]:
  "check_item_quantity q s = Inr (x, s') \<longleftrightarrow> s' = s \<and> int4 q \<and> 0 < q"
  by (auto simp: check_item_quantity_def tx_iff)

lemma insert_order_item_iff [tx_iff]:
  "insert_order_item d s = Inr (r, s') \<longleftrightarrow> int4 (oit_quantity d) \<and> 0 < oit_quantity d
     \<and> int8 (oit_unit_price d) \<and> 0 \<le> oit_unit_price d \<and> tbl_has (oit_order_id d) (orders s)
     \<and> tbl_has (oit_product_id d) (products s) \<and> r = stamp (next_id s) (clock s) d
     \<and> \<not> tbl_has (next_id s) (order_items s)
     \<and> s' = s\<lparr>next_id := Suc (next_id s), order_items := tbl_add r (order_items s)\<rparr>"
  by (auto simp: insert_order_item_def tx_iff)

lemma get_by_order_and_product_iff [tx_iff]:
  "get_by_order_and_product i p s = Inr (v, s') \<longleftrightarrow> s' = s \<and>
     (let rows = filter (\<lambda>it. oit_order_id it = i \<and> oit_product_id it = p) (order_items s)
      in case v of None \<Rightarrow> rows = [] | Some it \<Rightarrow> rows = [it])"
  by (auto simp: get_by_order_and_product_def tx_iff Let_def)

lemma update_quantity_iff [tx_iff]:
  "update_quantity i q s = Inr (x, s') \<longleftrightarrow> (tbl_has i (order_items s) \<longrightarrow> int4 q \<and> 0 < q)
     \<and> s' = order_items_update (tbl_update (clock s) i (\<lambda>it. it\<lparr>oit_quantity := q\<rparr>)) s"
  by (auto simp: update_quantity_def tx_iff)

lemma repo_update_status_iff [tx_iff]:
  "repo_update_status i st s = Inr (v, s') \<longleftrightarrow>
     s' = orders_update (tbl_update (clock s) i (\<lambda>r. r\<lparr>ord_status := st\<rparr>)) s
     \<and> v = tbl_get i False (orders s')"
  by (auto simp: repo_update_status_def tx_iff)

lemma frame_order_reads [frame_intro]:
  "frame g (order_constraints r)" "frame g (check_item_quantity q)" "frame g (get_by_order_and_product i p)"
  by (auto simp: frame_def tx_iff)

lemma frame_insert_order [frame_intro]:
  "(\<And>s f. g (orders_update f s) = g s) \<Longrightarrow> (\<And>s i. g (s\<lparr>next_id := i\<rparr>) = g s) \<Longrightarrow> frame g (insert_order d)"
  unfolding insert_order_def by (auto intro!: frame_intro)

lemma frame_update_order [frame_intro]:
  "(\<And>s f. g (orders_update f s) = g s) \<Longrightarrow> frame g (update_order i f)"
  unfolding update_order_def by (auto intro!: frame_intro)

lemma frame_repo_update_status [frame_intro]:
  "(\<And>s f. g (orders_update f s) = g s) \<Longrightarrow> frame g (repo_update_status i st)"
  unfolding repo_update_status_def by (auto intro!: frame_intro)

lemma frame_bulk_cancel [frame_intro]:
  "(\<And>s f. g (orders_update f s) = g s) \<Longrightarrow> frame g (bulk_cancel_by_contract c)"
  unfolding bulk_cancel_by_contract_def by (auto intro!: frame_intro)

lemma frame_insert_order_item [frame_intro]:
  "(\<And>s f. g (order_items_update f s) = g s) \<Longrightarrow> (\<And>s i. g (s\<lparr>next_id := i\<rparr>) = g s) \<Longrightarrow> frame g (insert_order_item d)"
  unfolding insert_order_item_def by (auto intro!: frame_intro)

lemma frame_add_order_items [frame_intro]:
  "(\<And>s f. g (order_items_update f s) = g s) \<Longrightarrow> (\<And>s i. g (s\<lparr>next_id := i\<rparr>) = g s) \<Longrightarrow> frame g (add_order_items ds)"
  unfolding add_order_items_def by (auto intro!: frame_intro)

lemma frame_item_updates [frame_intro]:
  "(\<And>s f. g (order_items_update f s) = g s) \<Longrightarrow> frame g (update_quantity i q)"
  "(\<And>s f. g (order_items_update f s) = g s) \<Longrightarrow> frame g (delete_by_order_and_product i p)"
  unfolding update_quantity_def delete_by_order_and_product_def by (auto intro!: frame_intro)

lemma frame_log_transition [frame_intro]:
  "(\<And>s f. g (order_status_logs_update f s) = g s) \<Longrightarrow> (\<And>s i. g (s\<lparr>next_id := i\<rparr>) = g s)
   \<Longrightarrow> frame g (log_transition i a b u r)"
  unfolding log_transition_def by (auto intro!: frame_intro)

lemma stamp_order_sel [simp]:
  "ord_client_id (stamp i now d) = ord_client_id d" "ord_status (stamp i now d) = ord_status d"
  "ord_sale_type (stamp i now d) = ord_sale_type d" "ord_total_amount (stamp i now d) = ord_total_amount d"
  "ord_contract_id (stamp i now d) = ord_contract_id d" "ord_payment_method (stamp i now d) = ord_payment_method d"
  "ord_quantities_reserved (stamp i now d) = ord_quantities_reserved d"
  "ord_client_inventory_id (stamp i now d) = ord_client_inventory_id d"
  "ord_warehouse_id (stamp i now d) = ord_warehouse_id d"
  by (simp_all add: stamp_def)

lemma stamp_item_sel [simp]:
  "oit_order_id (stamp i now d) = oit_order_id d" "oit_product_id (stamp i now d) = oit_product_id d"
  "oit_quantity (stamp i now d) = oit_quantity d" "oit_unit_price (stamp i now d) = oit_unit_price d"
  by (simp_all add: stamp_def)

lemma order_draft_sel [simp]:
  "ord_client_id (order_draft c v p st a cap sale w con res n) = c"
  "ord_client_inventory_id (order_draft c v p st a cap sale w con res n) = v"
  "ord_payment_method (order_draft c v p st a cap sale w con res n) = p"
  "ord_status (order_draft c v p st a cap sale w con res n) = st"
  "ord_total_amount (order_draft c v p st a cap sale w con res n) = a"
  "ord_sale_type (order_draft c v p st a cap sale w con res n) = sale"
  "ord_warehouse_id (order_draft c v p st a cap sale w con res n) = w"
  "ord_contract_id (order_draft c v p st a cap sale w con res n) = con"
  "ord_quantities_reserved (order_draft c v p st a cap sale w con res n) = res"
  by (simp_all add: order_draft_def)

lemma order_item_draft_sel [simp]:
  "oit_order_id (order_item_draft i it p) = i" "oit_product_id (order_item_draft i it p) = fst it"
  "oit_quantity (order_item_draft i it p) = snd it" "oit_unit_price (order_item_draft i it p) = p"
  by (simp_all add: order_item_draft_def)

section \<open>The life of an order\<close>

text \<open>The transition tables of \<open>BaseOrderService\<close>; a status that is no key of a table has no entry.\<close>

fun DELIVERY_ALLOWED_TRANSITIONS :: "order_status \<Rightarrow> order_status list" where
  "DELIVERY_ALLOWED_TRANSITIONS OS_NEW = [OS_CANCELLED]"
| "DELIVERY_ALLOWED_TRANSITIONS OS_ASSIGNED = [OS_IN_TRANSIT, OS_CANCELLED]"
| "DELIVERY_ALLOWED_TRANSITIONS OS_IN_TRANSIT = [OS_ARRIVED, OS_CANCELLED]"
| "DELIVERY_ALLOWED_TRANSITIONS OS_ARRIVED = [OS_DELIVERED, OS_CANCELLED]"
| "DELIVERY_ALLOWED_TRANSITIONS _ = []"

fun PICKUP_ALLOWED_TRANSITIONS :: "order_status \<Rightarrow> order_status list" where
  "PICKUP_ALLOWED_TRANSITIONS OS_NEW = [OS_CANCELLED]"
| "PICKUP_ALLOWED_TRANSITIONS _ = []"

definition get_allowed_statuses :: "sale_type \<Rightarrow> order_status \<Rightarrow> order_status list" where
  "get_allowed_statuses sale current =
     sort_key order_status_value
       (if sale = SALE_WAREHOUSE_PICKUP then PICKUP_ALLOWED_TRANSITIONS current
        else DELIVERY_ALLOWED_TRANSITIONS current)"

definition ensure_status_transition_allowed :: "order_row \<Rightarrow> order_status \<Rightarrow> unit dbtx" where
  "ensure_status_transition_allowed ord new_status =
     (if ord_status ord = new_status then tx_ret ()
      else
        tx_bind (tx_raise_if (ord_sale_type ord = SALE_WAREHOUSE_PICKUP \<and> new_status = OS_PICKUP_COMPLETED)
          (OrderErr (InvalidPickupOperationError (row_id ord)))) (\<lambda>_.
        tx_bind (tx_raise_if (ord_sale_type ord = SALE_WAREHOUSE_PICKUP
            \<and> new_status \<in> {OS_ASSIGNED, OS_IN_TRANSIT, OS_ARRIVED, OS_DELIVERED})
          (OrderErr (InvalidPickupOperationError (row_id ord)))) (\<lambda>_.
        let allowed = get_allowed_statuses (ord_sale_type ord) (ord_status ord) in
        tx_raise_if (new_status \<notin> set allowed)
          (OrderErr (InvalidOrderStatusError (row_id ord) (ord_status ord) None (Some new_status) allowed)))))"

text \<open>
  Every step a service makes: one of the tables, the assignment of a courier, the completion of
  a pickup. The phase of an order is its sale type with its status.
\<close>

fun order_step :: "sale_type \<times> order_status \<Rightarrow> sale_type \<times> order_status \<Rightarrow> bool" where
  "order_step (ty, a) (ty', b) \<longleftrightarrow> ty' = ty \<and> (b \<in> set (get_allowed_statuses ty a)
     \<or> a = OS_NEW \<and> b = (case ty of SALE_DELIVERY \<Rightarrow> OS_ASSIGNED | SALE_WAREHOUSE_PICKUP \<Rightarrow> OS_PICKUP_COMPLETED))"

definition order_phase :: "order_row \<Rightarrow> sale_type \<times> order_status" where
  "order_phase r = (ord_sale_type r, ord_status r)"

definition closed_phases :: "(sale_type \<times> order_status) set" where
  "closed_phases = UNIV \<times> {OS_DELIVERED, OS_PICKUP_COMPLETED, OS_CANCELLED}"

fun order_rank :: "sale_type \<times> order_status \<Rightarrow> nat" where
  "order_rank (ty, OS_NEW) = 0"
| "order_rank (ty, OS_ASSIGNED) = 1"
| "order_rank (ty, OS_IN_TRANSIT) = 2"
| "order_rank (ty, OS_ARRIVED) = 3"
| "order_rank (ty, OS_DELIVERED) = 4"
| "order_rank (ty, OS_PICKUP_COMPLETED) = 4"
| "order_rank (ty, OS_CANCELLED) = 5"

definition phase_ok :: "sale_type \<times> order_status \<Rightarrow> bool" where
  "phase_ok p \<longleftrightarrow> (case p of
     (SALE_DELIVERY, st) \<Rightarrow> st \<noteq> OS_PICKUP_COMPLETED
   | (SALE_WAREHOUSE_PICKUP, st) \<Rightarrow> st \<in> {OS_NEW, OS_PICKUP_COMPLETED, OS_CANCELLED})"

definition order_le :: "order_row \<Rightarrow> order_row \<Rightarrow> bool" where
  "order_le r r' \<longleftrightarrow> row_id r' = row_id r \<and> created_at r' = created_at r
     \<and> ord_client_id r' = ord_client_id r \<and> ord_client_inventory_id r' = ord_client_inventory_id r
     \<and> ord_payment_method r' = ord_payment_method r \<and> ord_warehouse_id r' = ord_warehouse_id r
     \<and> ord_contract_id r' = ord_contract_id r \<and> order_step\<^sup>*\<^sup>* (order_phase r) (order_phase r')"

lemma set_allowed_statuses:
  "set (get_allowed_statuses ty a) =
     (if ty = SALE_WAREHOUSE_PICKUP then set (PICKUP_ALLOWED_TRANSITIONS a) else set (DELIVERY_ALLOWED_TRANSITIONS a))"
  by (simp add: get_allowed_statuses_def)

lemma order_step_forward: "order_step p q \<Longrightarrow> order_rank p < order_rank q \<and> phase_ok q"
proof -
  obtain ty a ty' b where p: "p = (ty, a)" "q = (ty', b)" by (metis surj_pair)
  show "order_step p q \<Longrightarrow> ?thesis"
    by (cases ty; cases a) (auto simp: p set_allowed_statuses phase_ok_def)
qed

lemma order_closed_stuck: "p \<in> closed_phases \<Longrightarrow> \<not> order_step p q"
  by (cases p; cases q) (auto simp: closed_phases_def set_allowed_statuses)

interpretation order_life: ranked_lifecycle order_step closed_phases order_rank
  by unfold_locales (auto simp: order_closed_stuck order_step_forward)

interpretation order_status: status_table order_step closed_phases order_le order_phase
  by unfold_locales (auto simp: order_le_def intro: rtranclp_trans)

definition orders_ok :: "db \<Rightarrow> bool" where
  "orders_ok s \<longleftrightarrow> keys_distinct (orders s) \<and> (\<forall>r\<in>set (orders s). phase_ok (order_phase r))"

text \<open>
  What every operation does to the orders: none disappears, each keeps its parties, its sale type,
  its payment method and its contract, and its status moves along \<open>order_step\<close>.
\<close>

definition orders_evolve :: "db \<Rightarrow> db \<Rightarrow> bool" where
  "orders_evolve s s' \<longleftrightarrow> (orders_ok s \<longrightarrow> orders_ok s' \<and> grows order_le (orders s) (orders s'))"

lemma orders_evolve_refl [moves_intro]: "reflp orders_evolve"
  using order_status.table_preorder(1) by (auto simp: reflp_def orders_evolve_def)

lemma orders_evolve_trans [moves_intro]: "transp orders_evolve"
  using order_status.table_preorder(2) unfolding transp_def orders_evolve_def by meson

lemma phase_ok_steps: "order_step\<^sup>*\<^sup>* p q \<Longrightarrow> phase_ok p \<Longrightarrow> phase_ok q"
  by (induction rule: rtranclp_induct) (auto dest: order_step_forward)

lemma orders_evolve_frame: "frame orders m \<Longrightarrow> moves orders_evolve m"
  using order_status.table_preorder(1)
  by (auto intro!: moves_frame simp: orders_evolve_def orders_ok_def reflp_def)

text \<open>An \<open>UPDATE\<close> that moves the rows it matches along \<open>order_le\<close>.\<close>

lemma orders_evolve_map:
  assumes "orders s' = map f (orders s)"
    and "\<And>r. orders_ok s \<Longrightarrow> r \<in> set (orders s) \<Longrightarrow> order_le r (f r)"
  shows "orders_evolve s s'"
proof -
  have "orders_ok s'" if ok: "orders_ok s"
  proof -
    have keys: "map row_id (orders s') = map row_id (orders s)"
      using assms ok by (auto simp: order_le_def)
    have "keys_distinct (orders s')" using ok by (simp only: keys keys_distinct_def orders_ok_def)
    moreover have "phase_ok (order_phase (f r))" if "r \<in> set (orders s)" for r
      using assms(2) [OF ok that] ok that by (auto simp: order_le_def orders_ok_def intro: phase_ok_steps)
    ultimately show ?thesis using assms(1) by (auto simp: orders_ok_def)
  qed
  moreover have "orders_ok s \<Longrightarrow> grows order_le (orders s) (orders s')"
    using assms by (auto intro: grows_map)
  ultimately show ?thesis by (simp add: orders_evolve_def)
qed

lemma orders_evolve_update:
  assumes "orders s' = tbl_update now i f (orders s)"
    and "\<And>r. orders_ok s \<Longrightarrow> r \<in> set (orders s) \<Longrightarrow> row_id r = i \<Longrightarrow> order_le r ((f r)\<lparr>updated_at := now\<rparr>)"
  shows "orders_evolve s s'"
  using assms order_status.le_refl
  by (intro orders_evolve_map [where f = "\<lambda>r. if row_id r = i then (f r)\<lparr>updated_at := now\<rparr> else r"])
     (auto simp: tbl_update_def)

lemma orders_evolve_insert:
  assumes "orders s' = tbl_add r (orders s)" "\<not> tbl_has (row_id r) (orders s)" "phase_ok (order_phase r)"
  shows "orders_evolve s s'"
  using assms grows_add [OF order_status.preorder(1)]
  by (auto simp: orders_evolve_def orders_ok_def keys_distinct_add)

text \<open>Updates that leave the status and the frozen columns alone.\<close>

definition order_cosmetic :: "(order_row \<Rightarrow> order_row) \<Rightarrow> bool" where
  "order_cosmetic f \<longleftrightarrow> (\<forall>r now. order_le r ((f r)\<lparr>updated_at := now\<rparr>))"

lemma moves_update_order [moves_intro]: "order_cosmetic f \<Longrightarrow> moves orders_evolve (update_order i f)"
  by (rule movesI, rule orders_evolve_update) (auto simp: tx_iff order_cosmetic_def)

lemma order_cosmetic_rules [moves_intro]:
  "order_cosmetic (\<lambda>r. r\<lparr>ord_total_amount := a\<rparr>)"
  "order_cosmetic (\<lambda>r. r\<lparr>ord_total_amount := a, ord_quantities_reserved := b\<rparr>)"
  "order_cosmetic (\<lambda>r. r\<lparr>ord_quantities_reserved := b\<rparr>)"
  "order_cosmetic (\<lambda>r. r\<lparr>ord_cancellation_reason := c\<rparr>)"
  by (auto simp: order_cosmetic_def order_le_def order_phase_def)

lemma moves_insert_order [moves_intro]:
  "phase_ok (order_phase d) \<Longrightarrow> moves orders_evolve (insert_order d)"
proof (rule movesI)
  fix s r s' assume "phase_ok (order_phase d)" "insert_order d s = Inr (r, s')"
  then show "orders_evolve s s'"
    by (intro orders_evolve_insert [of s' r]) (auto simp: tx_iff order_phase_def)
qed

lemma cancel_open:
  assumes "phase_ok (order_phase r)" "ord_status r \<in> {OS_NEW, OS_ASSIGNED, OS_CANCELLED}"
  shows "order_le r (r\<lparr>ord_status := OS_CANCELLED, updated_at := now\<rparr>)"
proof (cases "ord_status r = OS_CANCELLED")
  case False
  with assms have "order_step (order_phase r) (order_phase (r\<lparr>ord_status := OS_CANCELLED, updated_at := now\<rparr>))"
    by (cases "ord_sale_type r") (auto simp: order_phase_def set_allowed_statuses phase_ok_def)
  then show ?thesis by (auto simp: order_le_def)
qed (simp add: order_le_def order_phase_def)

lemma moves_bulk_cancel [moves_intro]: "moves orders_evolve (bulk_cancel_by_contract c)"
proof (rule movesI)
  fix s x s' assume run: "bulk_cancel_by_contract c s = Inr (x, s')"
  let ?ids = "set (map row_id (cancellable_by_contract c s))"
  show "orders_evolve s s'"
  proof (cases "cancellable_by_contract c s = []")
    case True
    then have "s' = s" using run by (auto simp: bulk_cancel_by_contract_def tx_iff)
    then show ?thesis using orders_evolve_refl by (simp add: reflp_def)
  next
    case False
    show ?thesis
    proof (rule orders_evolve_map)
      show "orders s' = map (\<lambda>r. if row_id r \<in> ?ids
          then r\<lparr>ord_status := OS_CANCELLED, updated_at := clock s\<rparr> else r) (orders s)"
        using run False by (auto simp: bulk_cancel_by_contract_def tx_iff)
    next
      fix r assume ok: "orders_ok s" and r: "r \<in> set (orders s)"
      have "ord_status r \<in> {OS_NEW, OS_ASSIGNED}" if "row_id r \<in> ?ids"
        using that ok r by (auto simp: cancellable_by_contract_def orders_ok_def keys_distinct_def
            dest: distinct_key_eq)
      then show "order_le r (if row_id r \<in> ?ids then r\<lparr>ord_status := OS_CANCELLED, updated_at := clock s\<rparr> else r)"
        using ok r cancel_open [of r "clock s"] order_status.le_refl by (auto simp: orders_ok_def)
    qed
  qed
qed

end
