(* ===== verification/Quotas.thy ===== *)
theory Quotas
  imports OrderTables
begin

text \<open>
  The price list of a contract and its quotas: the statements on \<open>contract_price_items\<close>
  (\<open>src/modules/contracts/models.py\<close>), \<open>ContractPriceItemRepository\<close>
  (\<open>src/modules/contracts/repositories.py\<close>) and the two methods of \<open>BaseOrderService\<close> that book
  and return quantities. The CHECK \<open>quantity_used <= quantity OR quantity = 0\<close> of the model was
  dropped by the migration \<open>d4e5f6a7b8c9\<close>; it is not part of the database here, so that what is
  proved of the quotas rests on the services alone. \<open>quota_pool\<close> is the contract between the
  orders and the price list; the price list interprets it.
\<close>

section \<open>Statements\<close>

definition price_item_draft :: "uuid \<Rightarrow> uuid \<Rightarrow> int \<Rightarrow> int \<Rightarrow> price_item_row" where
  "price_item_draft contract_id product_id price quantity =
     \<lparr>row_id = 0, is_active = True, created_at = 0, updated_at = 0, cpi_contract_id = contract_id,
      cpi_product_id = product_id, cpi_price = price, cpi_quantity = quantity, cpi_quantity_used = 0\<rparr>"

definition price_item_constraints :: "uuid option \<Rightarrow> price_item_row \<Rightarrow> unit dbtx" where
  "price_item_constraints i p =
     tx_bind (tx_raise_if (\<not> int8 (cpi_price p) \<or> \<not> int4 (cpi_quantity p) \<or> \<not> int4 (cpi_quantity_used p))
       (DbErr NumericOutOfRange)) (\<lambda>_.
     tx_bind (tx_raise_if (cpi_price p < 0) (DbErr (CheckViolation ''ck_contract_price_item_price_non_neg''))) (\<lambda>_.
     tx_bind (tx_raise_if (cpi_quantity p < 0)
       (DbErr (CheckViolation ''ck_contract_price_item_quantity_non_neg''))) (\<lambda>_.
     tx_bind (tx_raise_if (cpi_quantity_used p < 0)
       (DbErr (CheckViolation ''ck_contract_price_item_quantity_used_non_neg''))) (\<lambda>_.
     tx_bind (tx_get contract_price_items) (\<lambda>t.
     tx_bind (tx_raise_if (list_ex (\<lambda>r. Some (row_id r) \<noteq> i \<and> cpi_contract_id r = cpi_contract_id p
         \<and> cpi_product_id r = cpi_product_id p) t)
       (DbErr (UniqueViolation ''uq_contract_price_item_product''))) (\<lambda>_.
     tx_bind (tx_get contracts) (\<lambda>cs.
     tx_bind (tx_raise_if (\<not> tbl_has (cpi_contract_id p) cs) (DbErr (ForeignKeyViolation ''contracts''))) (\<lambda>_.
     tx_bind (tx_get products) (\<lambda>ps.
     tx_raise_if (\<not> tbl_has (cpi_product_id p) ps) (DbErr (ForeignKeyViolation ''products'')))))))))))"

definition insert_price_item :: "price_item_row \<Rightarrow> price_item_row dbtx" where
  "insert_price_item d =
     tx_bind (price_item_constraints None d) (\<lambda>_.
     insert_row contract_price_items contract_price_items_update d)"

definition update_price_item :: "uuid \<Rightarrow> (price_item_row \<Rightarrow> price_item_row) \<Rightarrow> unit dbtx" where
  "update_price_item i f =
     tx_bind (tx_get contract_price_items) (\<lambda>t.
     tx_bind (tx_require (tbl_get i False t) (HttpErr (NotFoundError ''NOT_FOUND''))) (\<lambda>old.
     tx_bind (price_item_constraints (Some i) (f old)) (\<lambda>_.
     update_row contract_price_items_update i f)))"

definition delete_price_item :: "uuid \<Rightarrow> unit dbtx" where
  "delete_price_item i = tx_modify (contract_price_items_update (tbl_delete i))"

section \<open>ContractPriceItemRepository\<close>

definition get_by_contract_and_product :: "uuid \<Rightarrow> uuid \<Rightarrow> price_item_row option dbtx" where
  "get_by_contract_and_product contract_id product_id =
     tx_bind (tx_get (\<lambda>s. filter (\<lambda>p. cpi_contract_id p = contract_id \<and> cpi_product_id p = product_id
       \<and> is_active p) (contract_price_items s))) scalar_one_or_none"

definition get_for_products_locked :: "uuid \<Rightarrow> uuid list \<Rightarrow> db \<Rightarrow> price_item_row list" where
  "get_for_products_locked contract_id product_ids s =
     (if product_ids = [] then []
      else sort_key cpi_product_id (filter (\<lambda>p. cpi_contract_id p = contract_id
        \<and> cpi_product_id p \<in> set product_ids \<and> is_active p) (contract_price_items s)))"

definition increment_quantity_used :: "uuid \<Rightarrow> int \<Rightarrow> unit dbtx" where
  "increment_quantity_used item_id delta =
     tx_bind (tx_raise_if (delta \<le> 0) (ValueErr ''increment delta must be > 0'')) (\<lambda>_.
     tx_bind (tx_raise_if (\<not> int4 delta) (DbErr NumericOutOfRange)) (\<lambda>_.
     tx_bind (tx_get contract_price_items) (\<lambda>t.
     tx_bind (tx_require (tbl_get item_id False t) (ValueErr ''price item not found'')) (\<lambda>old.
     tx_bind (tx_raise_if (\<not> int4 (cpi_quantity_used old + delta)) (DbErr NumericOutOfRange)) (\<lambda>_.
     update_row contract_price_items_update item_id
       (\<lambda>p. p\<lparr>cpi_quantity_used := cpi_quantity_used p + delta\<rparr>))))))"

definition increment_quantities_used :: "(uuid \<times> int) list \<Rightarrow> unit dbtx" where
  "increment_quantities_used items = tx_for (\<lambda>(i, delta). increment_quantity_used i delta) items"

definition decrement_quantity_used :: "uuid \<Rightarrow> uuid \<Rightarrow> int \<Rightarrow> unit dbtx" where
  "decrement_quantity_used contract_id product_id delta =
     tx_bind (tx_raise_if (delta \<le> 0) (ValueErr ''decrement delta must be > 0'')) (\<lambda>_.
     tx_bind (tx_raise_if (\<not> int4 delta) (DbErr NumericOutOfRange)) (\<lambda>_.
     let hit = (\<lambda>p. cpi_contract_id p = contract_id \<and> cpi_product_id p = product_id \<and> is_active p) in
     tx_bind (tx_get contract_price_items) (\<lambda>t.
     tx_bind (tx_raise_if (\<not> list_ex hit t) (ValueErr ''price item not found'')) (\<lambda>_.
     tx_bind (tx_get clock) (\<lambda>now.
     tx_modify (contract_price_items_update (map (\<lambda>p. if hit p
       then p\<lparr>cpi_quantity_used := max (cpi_quantity_used p - delta) 0, updated_at := now\<rparr> else p)))))))) "

definition decrement_quantities_used :: "uuid \<Rightarrow> (uuid \<times> int) list \<Rightarrow> unit dbtx" where
  "decrement_quantities_used contract_id items =
     tx_for (\<lambda>(p, delta). decrement_quantity_used contract_id p delta) items"

text \<open>\<open>ContractRepository.get_price_map_for_products\<close>.\<close>

definition get_price_map_for_products :: "uuid \<Rightarrow> uuid list \<Rightarrow> db \<Rightarrow> (uuid \<times> int) list" where
  "get_price_map_for_products contract_id product_ids s =
     (if product_ids = [] then []
      else map (\<lambda>p. (cpi_product_id p, cpi_price p)) (filter (\<lambda>p. cpi_contract_id p = contract_id
        \<and> cpi_product_id p \<in> set product_ids \<and> is_active p) (contract_price_items s)))"

section \<open>Booking and returning quantities\<close>

text \<open>The dictionary \<open>{pi.product_id: pi for pi in locked_items}\<close>.\<close>

definition price_item_map :: "price_item_row list \<Rightarrow> uuid \<Rightarrow> price_item_row option" where
  "price_item_map locked p = find (\<lambda>pi. cpi_product_id pi = p) (rev locked)"

definition quota_exceeded :: "price_item_row \<Rightarrow> int \<Rightarrow> bool" where
  "quota_exceeded pi q \<longleftrightarrow> cpi_quantity pi \<noteq> 0 \<and> q > cpi_quantity pi - cpi_quantity_used pi"

fun quota_increments :: "uuid \<Rightarrow> price_item_row list \<Rightarrow> item list \<Rightarrow> app_error + (uuid \<times> int) list" where
  "quota_increments contract_id locked [] = Inr []"
| "quota_increments contract_id locked ((p, q) # items) =
     (case price_item_map locked p of
        None \<Rightarrow> Inl (ValueErr ''KeyError'')
      | Some pi \<Rightarrow>
          if quota_exceeded pi q
          then Inl (ContractErr (QuantityLimitExceededError contract_id p (cpi_quantity pi) (cpi_quantity_used pi) q))
          else (case quota_increments contract_id locked items of
                  Inl e \<Rightarrow> Inl e | Inr incs \<Rightarrow> Inr ((row_id pi, q) # incs)))"

definition check_and_reserve_quantities :: "uuid \<Rightarrow> item list \<Rightarrow> price_item_row list \<Rightarrow> unit dbtx" where
  "check_and_reserve_quantities contract_id items locked =
     tx_bind (tx_lift (quota_increments contract_id locked items)) increment_quantities_used"

definition release_order_quantities :: "order_row \<Rightarrow> unit dbtx" where
  "release_order_quantities ord =
     tx_bind (tx_get (items_of (row_id ord))) (\<lambda>items.
     tx_bind (tx_when (items \<noteq> []) (decrement_quantities_used (the (ord_contract_id ord))
       (map (\<lambda>it. (oit_product_id it, oit_quantity it)) items))) (\<lambda>_.
     update_order (row_id ord) (\<lambda>r. r\<lparr>ord_quantities_reserved := False\<rparr>)))"

section \<open>The contract between orders and a quota\<close>

text \<open>
  \<open>used\<close> counts what is booked of a product under a contract, \<open>limit\<close> is the quota, 0 when there
  is none. A booking that returns adds exactly its quantities; a return takes them off, never
  below zero.
\<close>

locale quota_pool =
  fixes invar :: "'s \<Rightarrow> bool" and used limit :: "'s \<Rightarrow> 'c \<Rightarrow> 'p \<Rightarrow> int"
    and reserve release :: "'c \<Rightarrow> ('p \<times> int) list \<Rightarrow> ('s, 'e, unit) tx"
  assumes within: "invar s \<Longrightarrow> 0 \<le> used s c p \<and> (limit s c p \<noteq> 0 \<longrightarrow> used s c p \<le> limit s c p)"
    and reserve_law: "invar s \<Longrightarrow> distinct (map fst items) \<Longrightarrow> reserve c items s = Inr (x, s') \<Longrightarrow>
      invar s' \<and> limit s' = limit s
      \<and> (\<forall>c' p. used s' c' p = used s c' p + (if c' = c then total_of items p else 0))"
    and release_law: "invar s \<Longrightarrow> release c items s = Inr (x, s') \<Longrightarrow>
      invar s' \<and> limit s' = limit s
      \<and> (\<forall>c' p. used s' c' p = (if c' = c then max 0 (used s c' p - total_of items p) else used s c' p))"
begin

lemma reserve_fits:
  assumes "invar s" "distinct (map fst items)" "reserve c items s = Inr (x, s')" "limit s c p \<noteq> 0"
  shows "used s c p + total_of items p \<le> limit s c p"
  using reserve_law [OF assms(1,2,3)] within [of s' c p] assms(4) by auto

lemma reserve_release:
  assumes "invar s" "distinct (map fst items)" "reserve c items s = Inr (x, s1)"
    and "invar s2" "used s2 = used s1" "release c items s2 = Inr (y, s3)"
  shows "used s3 = used s"
proof (intro ext)
  fix c' p
  have "used s1 c' p = used s c' p + (if c' = c then total_of items p else 0)"
    using reserve_law [OF assms(1-3)] by blast
  then show "used s3 c' p = used s c' p"
    using release_law [OF assms(4,6)] assms(5) within [OF assms(1), of c' p] by auto
qed

lemma release_all_or_less:
  assumes "invar s" "release c items s = Inr (x, s')" "\<And>it. it \<in> set items \<Longrightarrow> 0 \<le> snd it"
  shows "used s' c' p \<le> used s c' p"
  using release_law [OF assms(1,2)] within [OF assms(1), of c' p] total_of_nonneg [of items p, OF assms(3)] by auto

end

section \<open>The price list is a quota\<close>

definition price_item_of :: "uuid \<Rightarrow> uuid \<Rightarrow> db \<Rightarrow> price_item_row option" where
  "price_item_of c p s = find (\<lambda>pi. cpi_contract_id pi = c \<and> cpi_product_id pi = p \<and> is_active pi)
     (contract_price_items s)"

definition quota_used :: "db \<Rightarrow> uuid \<Rightarrow> uuid \<Rightarrow> int" where
  "quota_used s c p = (case price_item_of c p s of None \<Rightarrow> 0 | Some pi \<Rightarrow> cpi_quantity_used pi)"

definition quota_limit :: "db \<Rightarrow> uuid \<Rightarrow> uuid \<Rightarrow> int" where
  "quota_limit s c p = (case price_item_of c p s of None \<Rightarrow> 0 | Some pi \<Rightarrow> cpi_quantity pi)"

definition quota_ok :: "price_item_row \<Rightarrow> bool" where
  "quota_ok pi \<longleftrightarrow> 0 \<le> cpi_quantity_used pi \<and> (cpi_quantity pi \<noteq> 0 \<longrightarrow> cpi_quantity_used pi \<le> cpi_quantity pi)"

definition item_key :: "price_item_row \<Rightarrow> uuid \<times> uuid" where
  "item_key pi = (cpi_contract_id pi, cpi_product_id pi)"

definition quotas_ok :: "db \<Rightarrow> bool" where
  "quotas_ok s \<longleftrightarrow> keys_distinct (contract_price_items s) \<and> distinct (map item_key (contract_price_items s))
     \<and> (\<forall>pi\<in>set (contract_price_items s). quota_ok pi)"

definition same_item :: "price_item_row \<Rightarrow> price_item_row \<Rightarrow> bool" where
  "same_item pi pi' \<longleftrightarrow> row_id pi' = row_id pi \<and> is_active pi' = is_active pi \<and> item_key pi' = item_key pi
     \<and> cpi_price pi' = cpi_price pi \<and> cpi_quantity pi' = cpi_quantity pi"

lemma price_item_of_unique:
  assumes "quotas_ok s" "pi \<in> set (contract_price_items s)" "is_active pi"
  shows "price_item_of (cpi_contract_id pi) (cpi_product_id pi) s = Some pi"
proof (cases "price_item_of (cpi_contract_id pi) (cpi_product_id pi) s")
  case None
  with assms(2,3) show ?thesis by (auto simp: price_item_of_def find_None_all)
next
  case (Some pi')
  then have "pi' \<in> set (contract_price_items s)" "item_key pi' = item_key pi"
    by (auto simp: price_item_of_def item_key_def dest: find_Some_in)
  with assms Some show ?thesis by (auto simp: quotas_ok_def dest: distinct_key_eq)
qed

lemma price_item_of_SomeD:
  "price_item_of c p s = Some pi \<Longrightarrow> pi \<in> set (contract_price_items s) \<and> cpi_contract_id pi = c
     \<and> cpi_product_id pi = p \<and> is_active pi"
  by (auto simp: price_item_of_def dest: find_Some_in)

text \<open>An update of the quantities used that keeps the price list otherwise.\<close>

lemma price_items_map:
  assumes "contract_price_items s' = map f (contract_price_items s)" "\<And>pi. same_item pi (f pi)"
  shows "price_item_of c p s' = map_option f (price_item_of c p s)"
    "quota_limit s' = quota_limit s"
    "quotas_ok s \<Longrightarrow> (\<And>pi. pi \<in> set (contract_price_items s) \<Longrightarrow> quota_ok (f pi)) \<Longrightarrow> quotas_ok s'"
proof -
  show of: "price_item_of c p s' = map_option f (price_item_of c p s)" for c p
    unfolding price_item_of_def assms(1)
    by (rule find_map_key) (use assms(2) in \<open>auto simp: same_item_def item_key_def\<close>)
  show "quota_limit s' = quota_limit s"
    by (intro ext) (use assms(2) in \<open>auto simp: quota_limit_def of same_item_def split: option.splits\<close>)
  have "map row_id (contract_price_items s') = map row_id (contract_price_items s)"
    "map item_key (contract_price_items s') = map item_key (contract_price_items s)"
    using assms by (auto simp: same_item_def)
  then show "quotas_ok s \<Longrightarrow> (\<And>pi. pi \<in> set (contract_price_items s) \<Longrightarrow> quota_ok (f pi)) \<Longrightarrow> quotas_ok s'"
    unfolding quotas_ok_def keys_distinct_def using assms(1) by (simp only: set_map) auto
qed

lemma same_item_trans: "same_item a b \<Longrightarrow> same_item b c \<Longrightarrow> same_item a c"
  by (auto simp: same_item_def)

lemma increment_quantity_used_iff [tx_iff]:
  "increment_quantity_used i d s = Inr (x, s') \<longleftrightarrow> 0 < d \<and> int4 d
     \<and> (\<exists>old. tbl_get i False (contract_price_items s) = Some old \<and> int4 (cpi_quantity_used old + d))
     \<and> s' = contract_price_items_update (tbl_update (clock s) i
         (\<lambda>p. p\<lparr>cpi_quantity_used := cpi_quantity_used p + d\<rparr>)) s"
  by (auto simp: increment_quantity_used_def tx_iff)

lemma increments_rows:
  assumes "increment_quantities_used incs s = Inr (x, s')"
  shows "\<exists>f. contract_price_items s' = map f (contract_price_items s)
    \<and> (\<forall>pi. same_item pi (f pi) \<and> cpi_quantity_used (f pi) = cpi_quantity_used pi + total_of incs (row_id pi))
    \<and> (\<forall>it\<in>set incs. 0 < snd it)"
  using assms
proof (induction incs arbitrary: s)
  case Nil
  then show ?case
    by (intro exI [of _ "\<lambda>pi. pi"]) (auto simp: increment_quantities_used_def tx_iff same_item_def)
next
  case (Cons inc incs)
  obtain i d where inc: "inc = (i, d)" by force
  obtain s1 where 1: "increment_quantity_used i d s = Inr ((), s1)"
      and 2: "increment_quantities_used incs s1 = Inr (x, s')"
    using Cons.prems by (auto simp: increment_quantities_used_def inc tx_iff)
  from Cons.IH [OF 2] obtain f where f: "contract_price_items s' = map f (contract_price_items s1)"
      "\<And>pi. same_item pi (f pi)" "\<And>pi. cpi_quantity_used (f pi) = cpi_quantity_used pi + total_of incs (row_id pi)"
      "\<forall>it\<in>set incs. 0 < snd it"
    by blast
  let ?g = "\<lambda>p. if row_id p = i
    then p\<lparr>cpi_quantity_used := cpi_quantity_used p + d, updated_at := clock s\<rparr> else p"
  have g: "contract_price_items s1 = map ?g (contract_price_items s)" "0 < d"
    using 1 by (auto simp: tx_iff tbl_update_def)
  have same: "same_item pi (?g pi)" for pi by (simp add: same_item_def item_key_def)
  show ?case
  proof (intro exI [of _ "f \<circ> ?g"] conjI allI)
    fix pi
    show "same_item pi ((f \<circ> ?g) pi)"
      using same_item_trans [OF same f(2)] by simp
    show "cpi_quantity_used ((f \<circ> ?g) pi) = cpi_quantity_used pi + total_of (inc # incs) (row_id pi)"
      by (simp add: f(3) inc)
  qed (use f(1,4) g inc in auto)
qed

lemma decrement_quantity_used_iff [tx_iff]:
  "decrement_quantity_used c p d s = Inr (x, s') \<longleftrightarrow> 0 < d \<and> int4 d
     \<and> list_ex (\<lambda>pi. cpi_contract_id pi = c \<and> cpi_product_id pi = p \<and> is_active pi) (contract_price_items s)
     \<and> s' = contract_price_items_update (map (\<lambda>pi. if cpi_contract_id pi = c \<and> cpi_product_id pi = p \<and> is_active pi
         then pi\<lparr>cpi_quantity_used := max (cpi_quantity_used pi - d) 0, updated_at := clock s\<rparr> else pi)) s"
  by (auto simp: decrement_quantity_used_def tx_iff Let_def)

lemma decrements_rows:
  assumes "decrement_quantities_used c decs s = Inr (x, s')"
  shows "\<exists>f. contract_price_items s' = map f (contract_price_items s)
    \<and> (\<forall>pi. same_item pi (f pi) \<and> (0 \<le> cpi_quantity_used pi \<longrightarrow> cpi_quantity_used (f pi) =
        (if cpi_contract_id pi = c \<and> is_active pi then max 0 (cpi_quantity_used pi - total_of decs (cpi_product_id pi))
         else cpi_quantity_used pi)))
    \<and> (\<forall>it\<in>set decs. 0 < snd it)"
  using assms
proof (induction decs arbitrary: s)
  case Nil
  then show ?case
    by (intro exI [of _ "\<lambda>pi. pi"]) (auto simp: decrement_quantities_used_def tx_iff same_item_def)
next
  case (Cons dec decs)
  obtain p d where dec: "dec = (p, d)" by force
  obtain s1 where 1: "decrement_quantity_used c p d s = Inr ((), s1)"
      and 2: "decrement_quantities_used c decs s1 = Inr (x, s')"
    using Cons.prems by (auto simp: decrement_quantities_used_def dec tx_iff)
  from Cons.IH [OF 2] obtain f where f: "contract_price_items s' = map f (contract_price_items s1)"
      "\<And>pi. same_item pi (f pi)"
      "\<And>pi. 0 \<le> cpi_quantity_used pi \<Longrightarrow> cpi_quantity_used (f pi) =
        (if cpi_contract_id pi = c \<and> is_active pi then max 0 (cpi_quantity_used pi - total_of decs (cpi_product_id pi))
         else cpi_quantity_used pi)"
      "\<forall>it\<in>set decs. 0 < snd it"
    by blast
  let ?g = "\<lambda>pi. if cpi_contract_id pi = c \<and> cpi_product_id pi = p \<and> is_active pi
    then pi\<lparr>cpi_quantity_used := max (cpi_quantity_used pi - d) 0, updated_at := clock s\<rparr> else pi"
  have g: "contract_price_items s1 = map ?g (contract_price_items s)" "0 < d"
    using 1 by (auto simp: tx_iff)
  have same: "same_item pi (?g pi)" for pi by (simp add: same_item_def item_key_def)
  have nonneg: "0 \<le> total_of decs q" for q
    using f(4) by (intro total_of_nonneg) (auto intro: less_imp_le)
  show ?case
  proof (intro exI [of _ "f \<circ> ?g"] conjI allI impI)
    fix pi
    show "same_item pi ((f \<circ> ?g) pi)"
      using same_item_trans [OF same f(2)] by simp
    assume "0 \<le> cpi_quantity_used pi"
    then show "cpi_quantity_used ((f \<circ> ?g) pi) =
        (if cpi_contract_id pi = c \<and> is_active pi
         then max 0 (cpi_quantity_used pi - total_of (dec # decs) (cpi_product_id pi)) else cpi_quantity_used pi)"
      using nonneg [of p] g(2) by (auto simp: f(3) dec max_def)
  qed (use f(1,4) g dec in auto)
qed

lemma price_item_map_locked:
  assumes "quotas_ok s" "price_item_map (get_for_products_locked c ps s) p = Some pi"
  shows "price_item_of c p s = Some pi"
proof -
  have "pi \<in> set (get_for_products_locked c ps s)" "cpi_product_id pi = p"
    using assms(2) by (auto simp: price_item_map_def dest: find_Some_in)
  then show ?thesis
    using price_item_of_unique [OF assms(1), of pi]
    by (auto simp: get_for_products_locked_def split: if_splits)
qed

lemma quota_incrementsD:
  assumes "quotas_ok s" "quota_increments c (get_for_products_locked c ps s) items = Inr incs"
    and "pi \<in> set (contract_price_items s)"
  shows "total_of incs (row_id pi) = (if cpi_contract_id pi = c \<and> is_active pi then total_of items (cpi_product_id pi) else 0)"
    "cpi_contract_id pi = c \<Longrightarrow> is_active pi \<Longrightarrow> (cpi_product_id pi, q) \<in> set items \<Longrightarrow> \<not> quota_exceeded pi q"
proof -
  have "total_of incs (row_id pi) = (if cpi_contract_id pi = c \<and> is_active pi then total_of items (cpi_product_id pi) else 0)
    \<and> (cpi_contract_id pi = c \<longrightarrow> is_active pi \<longrightarrow> (cpi_product_id pi, q) \<in> set items \<longrightarrow> \<not> quota_exceeded pi q)"
    using assms(2)
  proof (induction items arbitrary: incs)
    case (Cons it items)
    obtain p r where it: "it = (p, r)" by force
    obtain pi0 incs' where pi0: "price_item_map (get_for_products_locked c ps s) p = Some pi0"
        "\<not> quota_exceeded pi0 r" "quota_increments c (get_for_products_locked c ps s) items = Inr incs'"
        "incs = (row_id pi0, r) # incs'"
      using Cons.prems by (auto simp: it split: option.splits if_splits sum.splits)
    note of = price_item_map_locked [OF assms(1) pi0(1)]
    have "row_id pi0 = row_id pi \<longleftrightarrow> pi0 = pi"
      using price_item_of_SomeD [OF of] assms(1,3) by (auto simp: quotas_ok_def keys_distinct_def dest: distinct_key_eq)
    moreover have "pi0 = pi \<longleftrightarrow> cpi_contract_id pi = c \<and> is_active pi \<and> cpi_product_id pi = p"
    proof
      assume "cpi_contract_id pi = c \<and> is_active pi \<and> cpi_product_id pi = p"
      then have "price_item_of c p s = Some pi" using price_item_of_unique [OF assms(1,3)] by auto
      with of show "pi0 = pi" by simp
    qed (use price_item_of_SomeD [OF of] in auto)
    ultimately show ?case using Cons.IH [OF pi0(3)] pi0(2,4) it by auto
  qed simp
  then show "total_of incs (row_id pi) = (if cpi_contract_id pi = c \<and> is_active pi then total_of items (cpi_product_id pi) else 0)"
    "cpi_contract_id pi = c \<Longrightarrow> is_active pi \<Longrightarrow> (cpi_product_id pi, q) \<in> set items \<Longrightarrow> \<not> quota_exceeded pi q"
    by auto
qed

lemma quota_increments_found:
  "quota_increments c locked items = Inr incs \<Longrightarrow> p \<in> fst ` set items \<Longrightarrow> \<exists>pi. price_item_map locked p = Some pi"
proof (induction items arbitrary: incs)
  case (Cons it items)
  obtain pa q where it: "it = (pa, q)" by force
  obtain pi incs' where "price_item_map locked pa = Some pi" "quota_increments c locked items = Inr incs'"
    using Cons.prems(1) by (auto simp: it split: option.splits if_splits sum.splits)
  with Cons.IH Cons.prems(2) it show ?case by (cases "p = pa") auto
qed simp

definition reserve_quantities :: "uuid \<Rightarrow> item list \<Rightarrow> unit dbtx" where
  "reserve_quantities c items =
     tx_bind (tx_get (get_for_products_locked c (map fst items))) (check_and_reserve_quantities c items)"

lemma quota_reserve_law:
  assumes ok: "quotas_ok s" and "distinct (map fst items)" and "reserve_quantities c items s = Inr (x, s')"
  shows "quotas_ok s' \<and> quota_limit s' = quota_limit s
    \<and> (\<forall>c' p. quota_used s' c' p = quota_used s c' p + (if c' = c then total_of items p else 0))"
proof -
  let ?locked = "get_for_products_locked c (map fst items) s"
  obtain incs where incs: "quota_increments c ?locked items = Inr incs" "increment_quantities_used incs s = Inr (x, s')"
    using assms(3) by (auto simp: reserve_quantities_def check_and_reserve_quantities_def tx_iff)
  obtain f where f: "contract_price_items s' = map f (contract_price_items s)" "\<And>pi. same_item pi (f pi)"
      "\<And>pi. cpi_quantity_used (f pi) = cpi_quantity_used pi + total_of incs (row_id pi)" "\<forall>it\<in>set incs. 0 < snd it"
    using increments_rows [OF incs(2)] by blast
  note map_facts = price_items_map [OF f(1,2)]
  note inc = quota_incrementsD [OF ok incs(1)]
  have used: "cpi_quantity_used (f pi) = cpi_quantity_used pi
      + (if cpi_contract_id pi = c \<and> is_active pi then total_of items (cpi_product_id pi) else 0)"
    if "pi \<in> set (contract_price_items s)" for pi
    using that by (simp add: f(3) inc(1))
  have "quota_ok (f pi)" if pi: "pi \<in> set (contract_price_items s)" for pi
  proof (cases "cpi_contract_id pi = c \<and> is_active pi \<and> cpi_product_id pi \<in> fst ` set items")
    case True
    then obtain q where q: "(cpi_product_id pi, q) \<in> set items" by force
    have "0 \<le> total_of incs (row_id pi)" using f(4) by (intro total_of_nonneg) (auto intro: less_imp_le)
    then show ?thesis
      using inc(2) [OF pi _ _ q] True total_of_once [OF assms(2) q] ok pi used [OF pi] f(2) [of pi]
      by (auto simp: quota_ok_def quotas_ok_def quota_exceeded_def same_item_def inc(1) [OF pi])
  next
    case False
    then have "cpi_quantity_used (f pi) = cpi_quantity_used pi"
      using used [OF pi] total_of_absent by (auto split: if_splits)
    with ok pi f(2) [of pi] show ?thesis by (auto simp: quota_ok_def quotas_ok_def same_item_def)
  qed
  then have "quotas_ok s'" using map_facts(3) [OF ok] by blast
  moreover have "quota_used s' c' p = quota_used s c' p + (if c' = c then total_of items p else 0)" for c' p
  proof (cases "price_item_of c' p s")
    case None
    have "total_of items p = 0" if "c' = c"
    proof (rule total_of_absent)
      show "p \<notin> fst ` set items"
      proof
        assume "p \<in> fst ` set items"
        then obtain pi where "price_item_map ?locked p = Some pi"
          using quota_increments_found [OF incs(1)] by blast
        from price_item_map_locked [OF ok this] None that show False by simp
      qed
    qed
    with None show ?thesis by (simp add: quota_used_def map_facts(1))
  next
    case (Some pi)
    with price_item_of_SomeD [OF Some] used [of pi] show ?thesis
      by (auto simp: quota_used_def map_facts(1))
  qed
  ultimately show ?thesis using map_facts(2) by blast
qed

lemma quota_release_law:
  assumes ok: "quotas_ok s" and "decrement_quantities_used c items s = Inr (x, s')"
  shows "quotas_ok s' \<and> quota_limit s' = quota_limit s
    \<and> (\<forall>c' p. quota_used s' c' p = (if c' = c then max 0 (quota_used s c' p - total_of items p) else quota_used s c' p))"
proof -
  obtain f where f: "contract_price_items s' = map f (contract_price_items s)" "\<And>pi. same_item pi (f pi)"
      "\<And>pi. 0 \<le> cpi_quantity_used pi \<Longrightarrow> cpi_quantity_used (f pi) =
        (if cpi_contract_id pi = c \<and> is_active pi then max 0 (cpi_quantity_used pi - total_of items (cpi_product_id pi))
         else cpi_quantity_used pi)" "\<forall>it\<in>set items. 0 < snd it"
    using decrements_rows [OF assms(2)] by blast
  note map_facts = price_items_map [OF f(1,2)]
  have nonneg: "0 \<le> total_of items p" for p
    using f(4) by (intro total_of_nonneg) (auto intro: less_imp_le)
  have "quota_ok (f pi)" if "pi \<in> set (contract_price_items s)" for pi
    using that ok f(2) [of pi] nonneg [of "cpi_product_id pi"]
    by (auto simp: quota_ok_def quotas_ok_def same_item_def f(3))
  then have "quotas_ok s'" using map_facts(3) [OF ok] by blast
  moreover have "quota_used s' c' p =
      (if c' = c then max 0 (quota_used s c' p - total_of items p) else quota_used s c' p)" for c' p
  proof (cases "price_item_of c' p s")
    case None
    with nonneg [of p] show ?thesis by (cases "c' = c") (simp_all add: quota_used_def map_facts(1))
  next
    case (Some pi)
    then have "0 \<le> cpi_quantity_used pi"
      using price_item_of_SomeD [OF Some] ok by (auto simp: quotas_ok_def quota_ok_def)
    with Some price_item_of_SomeD [OF Some] show ?thesis
      by (auto simp: quota_used_def map_facts(1) f(3))
  qed
  ultimately show ?thesis using map_facts(2) by blast
qed

interpretation quota: quota_pool quotas_ok quota_used quota_limit reserve_quantities decrement_quantities_used
proof
  fix s c p assume "quotas_ok s"
  then show "0 \<le> quota_used s c p \<and> (quota_limit s c p \<noteq> 0 \<longrightarrow> quota_used s c p \<le> quota_limit s c p)"
    by (auto simp: quota_used_def quota_limit_def quotas_ok_def quota_ok_def split: option.splits
        dest!: price_item_of_SomeD)
qed (use quota_reserve_law quota_release_law in blast)+

section \<open>Frames and invariants\<close>

lemma price_item_constraints_iff [tx_iff]:
  "price_item_constraints i p s = Inr (x, s') \<longleftrightarrow> s' = s \<and> int8 (cpi_price p) \<and> int4 (cpi_quantity p)
     \<and> int4 (cpi_quantity_used p) \<and> 0 \<le> cpi_price p \<and> 0 \<le> cpi_quantity p \<and> 0 \<le> cpi_quantity_used p
     \<and> (\<forall>r\<in>set (contract_price_items s). Some (row_id r) \<noteq> i \<longrightarrow> item_key r \<noteq> item_key p)
     \<and> tbl_has (cpi_contract_id p) (contracts s) \<and> tbl_has (cpi_product_id p) (products s)"
  by (auto simp: price_item_constraints_def tx_iff list_ex_iff item_key_def)

lemma frame_price_items [frame_intro]:
  "frame g (price_item_constraints i p)" "frame g (get_by_contract_and_product c q)"
  by (auto simp: frame_def tx_iff get_by_contract_and_product_def)

lemma frame_price_item_updates [frame_intro]:
  assumes "\<And>s f. g (contract_price_items_update f s) = g s"
  shows "frame g (update_price_item i f)" "frame g (delete_price_item i)"
    "frame g (increment_quantity_used i d)" "frame g (decrement_quantity_used c p d)"
  using assms unfolding update_price_item_def delete_price_item_def
  by (auto intro!: frame_intro) (auto simp: frame_def tx_iff)

lemma frame_quantities [frame_intro]:
  assumes "\<And>s f. g (contract_price_items_update f s) = g s"
  shows "frame g (increment_quantities_used incs)" "frame g (decrement_quantities_used c decs)"
    "frame g (check_and_reserve_quantities c items locked)"
  using assms unfolding increment_quantities_used_def decrement_quantities_used_def check_and_reserve_quantities_def
  by (auto intro!: frame_intro)

lemma frame_insert_price_item [frame_intro]:
  "(\<And>s f. g (contract_price_items_update f s) = g s) \<Longrightarrow> (\<And>s i. g (s\<lparr>next_id := i\<rparr>) = g s)
   \<Longrightarrow> frame g (insert_price_item d)"
  unfolding insert_price_item_def by (auto intro!: frame_intro)

lemma frame_release_order_quantities [frame_intro]:
  "(\<And>s f. g (contract_price_items_update f s) = g s) \<Longrightarrow> (\<And>s f. g (orders_update f s) = g s)
   \<Longrightarrow> frame g (release_order_quantities r)"
  unfolding release_order_quantities_def by (auto intro!: frame_intro)

lemma quotas_ok_frame: "frame contract_price_items m \<Longrightarrow> keeps quotas_ok m"
  unfolding keeps_def frame_def quotas_ok_def by simp

lemma keeps_decrement_quantities_used [keeps_intro]: "keeps quotas_ok (decrement_quantities_used c decs)"
  by (rule keepsI) (use quota.release_law in blast)

text \<open>The order tables and the price list are different tables.\<close>

lemma keeps_quotas_order_tables [keeps_intro]:
  "keeps quotas_ok (insert_order d)" "keeps quotas_ok (update_order i f)" "keeps quotas_ok (repo_update_status i st)"
  "keeps quotas_ok (bulk_cancel_by_contract c)" "keeps quotas_ok (add_order_items ds)"
  "keeps quotas_ok (insert_order_item it)" "keeps quotas_ok (update_quantity i q)"
  "keeps quotas_ok (delete_by_order_and_product i p)" "keeps quotas_ok (log_transition i a b u r)"
  by (rule quotas_ok_frame; intro frame_intro; simp)+

lemma moves_orders_tables [moves_intro]:
  "moves orders_evolve (add_order_items ds)" "moves orders_evolve (insert_order_item it)"
  "moves orders_evolve (update_quantity i q)" "moves orders_evolve (delete_by_order_and_product i p)"
  "moves orders_evolve (log_transition i a b u r)" "moves orders_evolve (get_by_order_and_product i p)"
  "moves orders_evolve (increment_quantities_used incs)" "moves orders_evolve (decrement_quantities_used c decs)"
  "moves orders_evolve (check_and_reserve_quantities c items locked)" "moves orders_evolve (scalar_one_or_none rows)"
  by (rule orders_evolve_frame; intro frame_intro; simp)+

lemma keeps_release_order_quantities [keeps_intro]: "keeps quotas_ok (release_order_quantities r)"
  unfolding release_order_quantities_def by (intro keeps_intro)

lemma moves_release_order_quantities [moves_intro]: "moves orders_evolve (release_order_quantities r)"
  unfolding release_order_quantities_def by (intro moves_intro)

lemma keeps_insert_price_item [keeps_intro]:
  "cpi_quantity_used d = 0 \<Longrightarrow> keeps quotas_ok (insert_price_item d)"
  by (rule keepsI) (auto simp: insert_price_item_def tx_iff quotas_ok_def keys_distinct_def tbl_add_def tbl_has_def
      stamp_def quota_ok_def item_key_def image_iff)

lemma keeps_delete_price_item [keeps_intro]: "keeps quotas_ok (delete_price_item i)"
  by (rule keepsI) (auto simp: delete_price_item_def tx_iff quotas_ok_def keys_distinct_delete tbl_delete_def
      keys_distinct_def intro: distinct_map_filter)

lemma reserve_within_keeps:
  assumes "quotas_ok s" "distinct (map fst items)"
    and "check_and_reserve_quantities c items (get_for_products_locked c (map fst items) s) s = Inr (x, s')"
  shows "reserve_quantities c items s = Inr (x, s')" "quotas_ok s'"
proof -
  show res: "reserve_quantities c items s = Inr (x, s')"
    using assms(3) by (simp add: reserve_quantities_def tx_bind_def tx_get_def)
  show "quotas_ok s'" using quota.reserve_law [OF assms(1,2) res] by blast
qed

end
