(* ===== verification/Permissions.thy ===== *)
theory Permissions
  imports Schema
begin

text \<open>
  \<open>src/core/security/permissions.py\<close>: the scopes and the scopes of each role.
\<close>

abbreviation (input) "USERS_READ \<equiv> ''users:read''"
abbreviation (input) "USERS_WRITE \<equiv> ''users:write''"
abbreviation (input) "PROFILE_READ \<equiv> ''profile:read''"
abbreviation (input) "PROFILE_WRITE \<equiv> ''profile:write''"
abbreviation (input) "CATALOG_READ \<equiv> ''catalog:read''"
abbreviation (input) "CATALOG_WRITE \<equiv> ''catalog:write''"
abbreviation (input) "ORDERS_READ \<equiv> ''orders:read''"
abbreviation (input) "ORDERS_CREATE \<equiv> ''orders:create''"
abbreviation (input) "ORDERS_EDIT \<equiv> ''orders:edit''"
abbreviation (input) "ORDERS_DELIVER \<equiv> ''orders:deliver''"
abbreviation (input) "ORDERS_CANCEL \<equiv> ''orders:cancel''"
abbreviation (input) "TRANSPORTS_READ \<equiv> ''transports:read''"
abbreviation (input) "INVENTORY_READ \<equiv> ''inventory:read''"
abbreviation (input) "INVENTORY_WRITE \<equiv> ''inventory:write''"
abbreviation (input) "LOGISTICS_SUPPLY \<equiv> ''logistics:supply''"
abbreviation (input) "LOGISTICS_TRANSFER \<equiv> ''logistics:transfer''"
abbreviation (input) "LOGISTICS_ADJUSTMENT \<equiv> ''logistics:adjustment''"
abbreviation (input) "ROUTES_READ \<equiv> ''routes:read''"
abbreviation (input) "FINANCES_READ \<equiv> ''finances:read''"
abbreviation (input) "FINANCES_WRITE \<equiv> ''finances:write''"
abbreviation (input) "PAYMENTS_CREATE \<equiv> ''payments:create''"
abbreviation (input) "BILLS_READ \<equiv> ''bills:read''"
abbreviation (input) "CONTRACTS_READ \<equiv> ''contracts:read''"
abbreviation (input) "CONTRACTS_WRITE \<equiv> ''contracts:write''"
abbreviation (input) "CONTRACTS_MANAGE \<equiv> ''contracts:manage''"
abbreviation (input) "SETTINGS_READ \<equiv> ''settings:read''"
abbreviation (input) "SETTINGS_WRITE \<equiv> ''settings:write''"
abbreviation (input) "SYSTEM_EXEC \<equiv> ''system:exec''"

definition BASE_SCOPES :: "string list" where
  "BASE_SCOPES = [PROFILE_READ, PROFILE_WRITE, CATALOG_READ]"

fun ROLE_SCOPES :: "role \<Rightarrow> string list" where
  "ROLE_SCOPES R_SYSTEM = [SYSTEM_EXEC]"
| "ROLE_SCOPES R_ADMIN = BASE_SCOPES @
     [USERS_READ, USERS_WRITE, CATALOG_WRITE, ORDERS_READ, ORDERS_CREATE, ORDERS_EDIT, ORDERS_CANCEL,
      INVENTORY_READ, INVENTORY_WRITE, TRANSPORTS_READ, LOGISTICS_SUPPLY, LOGISTICS_TRANSFER,
      LOGISTICS_ADJUSTMENT, ROUTES_READ, FINANCES_READ, FINANCES_WRITE, PAYMENTS_CREATE,
      CONTRACTS_READ, CONTRACTS_WRITE, CONTRACTS_MANAGE, SETTINGS_READ, SETTINGS_WRITE]"
| "ROLE_SCOPES R_ACCOUNTANT = BASE_SCOPES @
     [USERS_READ, FINANCES_READ, FINANCES_WRITE, BILLS_READ, CONTRACTS_READ, INVENTORY_READ]"
| "ROLE_SCOPES R_STOREKEEPER = BASE_SCOPES @
     [USERS_READ, TRANSPORTS_READ, INVENTORY_READ, INVENTORY_WRITE, LOGISTICS_SUPPLY, LOGISTICS_TRANSFER]"
| "ROLE_SCOPES R_CASHIER = BASE_SCOPES @
     [USERS_READ, ORDERS_READ, ORDERS_CREATE, INVENTORY_READ, FINANCES_READ, FINANCES_WRITE, PAYMENTS_CREATE]"
| "ROLE_SCOPES R_COURIER = BASE_SCOPES @
     [ORDERS_READ, ORDERS_DELIVER, ROUTES_READ, PAYMENTS_CREATE, INVENTORY_READ]"
| "ROLE_SCOPES R_CLIENT_B2C = BASE_SCOPES @ [ORDERS_READ, ORDERS_CREATE, ORDERS_CANCEL]"
| "ROLE_SCOPES R_CLIENT_B2B = BASE_SCOPES @
     [ORDERS_READ, ORDERS_CREATE, ORDERS_CANCEL, BILLS_READ, CONTRACTS_READ]"

end
