(* ===== verification/Inventory.thy ===== *)
theory Inventory
  imports Stock Permissions Search
begin

text \<open>
  The services of \<open>src/modules/inventory/services.py\<close>: transports and warehouses, the single-step
  stock transfer \<open>create_transfer\<close>, and the capitalisation of returnable bottles.
\<close>

section \<open>Routes\<close>

fun VALID_ROUTES :: "transfer_type \<Rightarrow> inventory_type list \<times> inventory_type list" where
  "VALID_ROUTES TT_COURIER_LOAD = ([IT_WAREHOUSE], [IT_COURIER])"
| "VALID_ROUTES TT_COURIER_RETURN = ([IT_COURIER], [IT_WAREHOUSE])"
| "VALID_ROUTES TT_CLIENT_DELIVERY = ([IT_COURIER], [IT_CLIENT])"
| "VALID_ROUTES TT_CLIENT_RETURN = ([IT_CLIENT], [IT_COURIER])"
| "VALID_ROUTES TT_LOSS_WRITE_OFF = ([IT_WAREHOUSE, IT_COURIER, IT_CLIENT], [IT_VIRTUAL_LOSS])"
| "VALID_ROUTES TT_INVENTORY_FINDING = ([IT_VIRTUAL_VENDOR], [IT_WAREHOUSE, IT_COURIER])"
| "VALID_ROUTES TT_INITIAL_BALANCE = ([IT_VIRTUAL_VENDOR], [IT_CLIENT, IT_WAREHOUSE, IT_COURIER])"
| "VALID_ROUTES TT_WAREHOUSE_SALE = ([IT_WAREHOUSE], [IT_CLIENT])"
| "VALID_ROUTES TT_WAREHOUSE_TARA_RETURN = ([IT_CLIENT], [IT_WAREHOUSE])"

definition ADJUSTMENT_TRANSFER_TYPES :: "transfer_type list" where
  "ADJUSTMENT_TRANSFER_TYPES = [TT_INVENTORY_FINDING, TT_INITIAL_BALANCE, TT_LOSS_WRITE_OFF]"

section \<open>Transports and warehouses\<close>

definition update_inventory ::
  "uuid \<Rightarrow> uuid option option \<Rightarrow> string option option \<Rightarrow> inventory_row dbtx" where
  "update_inventory i user_id nm =
     tx_bind (tx_get inventories) (\<lambda>vs.
     tx_bind (tx_require (tbl_get i False vs) (HttpErr (NotFoundError ''NOT_FOUND''))) (\<lambda>v.
     tx_bind (tx_raise_if (user_id = Some None \<or> nm = Some None) (DbErr (NotNullViolation ''inventories''))) (\<lambda>_.
     let f = (\<lambda>v. v\<lparr>inv_user_id := (case user_id of Some (Some u) \<Rightarrow> u | _ \<Rightarrow> inv_user_id v),
                     inv_name := (case nm of Some (Some n) \<Rightarrow> n | _ \<Rightarrow> inv_name v)\<rparr>)
     in tx_bind (inventory_constraints (Some i) (f v)) (\<lambda>_.
        tx_bind (update_row inventories_update i f) (\<lambda>_.
        tx_bind (tx_get inventories) (\<lambda>vs.
        tx_require (tbl_get i False vs) (HttpErr (NotFoundError ''NOT_FOUND''))))))))"

definition create_transport_body :: "uuid \<Rightarrow> string \<Rightarrow> inventory_row dbtx" where
  "create_transport_body user_id nm = insert_inventory (inventory_draft user_id IT_COURIER nm)"

definition create_transport where
  "create_transport user_id nm = with_uow (create_transport_body user_id nm)"

definition get_transports :: "nat \<Rightarrow> nat \<Rightarrow> uuid option \<Rightarrow> db \<Rightarrow> inventory_row list \<times> nat" where
  "get_transports skip limit user_id s =
     (let rows = filter (\<lambda>v. inv_type v = IT_COURIER \<and> is_active v
        \<and> (case user_id of None \<Rightarrow> True | Some u \<Rightarrow> inv_user_id v = u)) (inventories s)
      in (take limit (drop skip rows), length rows))"

definition update_transport_body ::
  "uuid \<Rightarrow> uuid option option \<Rightarrow> string option option \<Rightarrow> inventory_row option dbtx" where
  "update_transport_body transport_id user_id nm =
     (if user_id = None \<and> nm = None
      then tx_get (\<lambda>s. tbl_get transport_id True (inventories s))
      else
        tx_bind (case user_id of
            Some (Some u) \<Rightarrow>
              tx_bind (get_courier_inventory u) (\<lambda>existing.
              case existing of
                None \<Rightarrow> tx_ret ()
              | Some v \<Rightarrow> tx_raise_if (row_id v \<noteq> transport_id)
                  (InventoryErr (CourierAlreadyAssignedError u (row_id v))))
          | _ \<Rightarrow> tx_ret ()) (\<lambda>_.
        tx_bind (update_inventory transport_id user_id nm) (\<lambda>v. tx_ret (Some v))))"

definition update_transport where
  "update_transport transport_id user_id nm = with_uow (update_transport_body transport_id user_id nm)"

text \<open>
  \<open>DELETE\<close> of an inventory: refused while a transfer, a stock transaction or an order refers to it;
  its balances go with it.
\<close>

definition inventory_referenced :: "uuid \<Rightarrow> db \<Rightarrow> bool" where
  "inventory_referenced i s \<longleftrightarrow>
     list_ex (\<lambda>t. trf_from_id t = i \<or> trf_to_id t = i) (stock_transfers s)
     \<or> list_ex (\<lambda>t. stx_from_id t = i \<or> stx_to_id t = i) (stock_transactions s)
     \<or> list_ex (\<lambda>ord. ord_client_inventory_id ord = i \<or> ord_warehouse_id ord = Some i) (orders s)"

definition delete_inventory :: "uuid \<Rightarrow> bool dbtx" where
  "delete_inventory i =
     tx_bind (tx_get (\<lambda>s. tbl_has i (inventories s))) (\<lambda>found.
     if \<not> found then tx_ret False
     else
       tx_bind (tx_get (inventory_referenced i)) (\<lambda>ref.
       tx_bind (tx_raise_if ref (DbErr (ForeignKeyViolation ''inventories''))) (\<lambda>_.
       tx_bind (tx_modify (inventory_balances_update (filter (\<lambda>b. bal_inventory_id b \<noteq> i)))) (\<lambda>_.
       tx_bind (tx_modify (inventories_update (tbl_delete i))) (\<lambda>_.
       tx_ret True)))))"

definition delete_transport_body :: "uuid \<Rightarrow> bool dbtx" where
  "delete_transport_body transport_id =
     tx_bind (tx_get (\<lambda>s. tbl_get transport_id True (inventories s))) (\<lambda>t.
     case t of
       None \<Rightarrow> tx_ret False
     | Some t \<Rightarrow>
         tx_bind (tx_raise_if (is_virtual (inv_type t))
           (HttpErr (BadRequestError ''SYSTEM_INVENTORY_DELETE_FORBIDDEN''))) (\<lambda>_.
         delete_inventory transport_id))"

definition delete_transport where
  "delete_transport transport_id = with_uow (delete_transport_body transport_id)"

definition create_warehouse_body :: "uuid \<Rightarrow> string \<Rightarrow> inventory_row dbtx" where
  "create_warehouse_body user_id nm =
     tx_bind (tx_get (\<lambda>s. filter (\<lambda>v. inv_name v = nm \<and> inv_type v = IT_WAREHOUSE \<and> is_active v)
       (inventories s))) (\<lambda>rows.
     tx_bind (scalar_one_or_none rows) (\<lambda>existing.
     tx_bind (tx_raise_if (existing \<noteq> None) (HttpErr (ConflictError ''INVENTORY_NAME_DUPLICATE''))) (\<lambda>_.
     insert_inventory (inventory_draft user_id IT_WAREHOUSE nm))))"

definition create_warehouse where
  "create_warehouse user_id nm = commit_then (create_warehouse_body user_id nm)
     (\<lambda>v s. case tbl_get (row_id v) False (inventories s) of
        None \<Rightarrow> Inl (InventoryErr (InventoryNotFoundError (row_id v))) | Some r \<Rightarrow> Inr r)"

definition get_warehouses :: "nat \<Rightarrow> nat \<Rightarrow> db \<Rightarrow> inventory_row list \<times> nat" where
  "get_warehouses skip limit s =
     (let rows = filter (\<lambda>v. inv_type v = IT_WAREHOUSE \<and> is_active v) (inventories s)
      in (take limit (drop skip rows), length rows))"

definition search_inventories ::
  "(char \<Rightarrow> char) \<Rightarrow> string \<Rightarrow> inventory_type option \<Rightarrow> nat \<Rightarrow> db \<Rightarrow> inventory_row list" where
  "search_inventories lower q ty limit s =
     take limit (filter (\<lambda>v. like_match lower (ilike_pattern q) (inv_name v) \<and> is_active v
       \<and> (case ty of None \<Rightarrow> True | Some t \<Rightarrow> inv_type v = t)) (inventories s))"

definition update_warehouse_body ::
  "(char \<Rightarrow> char) \<Rightarrow> uuid \<Rightarrow> uuid option option \<Rightarrow> string option option \<Rightarrow> inventory_row option dbtx" where
  "update_warehouse_body lower warehouse_id user_id nm =
     tx_bind (tx_get (\<lambda>s. tbl_get warehouse_id True (inventories s))) (\<lambda>w.
     case w of
       None \<Rightarrow> tx_ret None
     | Some w \<Rightarrow>
         if inv_type w \<noteq> IT_WAREHOUSE then tx_ret None
         else if user_id = None \<and> nm = None then tx_ret (Some w)
         else
           tx_bind (case nm of
               Some (Some n) \<Rightarrow>
                 if n \<noteq> [] \<and> n \<noteq> inv_name w
                 then tx_bind (tx_get (search_inventories lower n (Some IT_WAREHOUSE) 1)) (\<lambda>existing.
                   tx_raise_if (existing \<noteq> [] \<and> inv_name (hd existing) = n)
                     (HttpErr (ConflictError ''INVENTORY_NAME_DUPLICATE'')))
                 else tx_ret ()
             | _ \<Rightarrow> tx_ret ()) (\<lambda>_.
           tx_bind (update_inventory warehouse_id user_id nm) (\<lambda>v. tx_ret (Some v))))"

definition update_warehouse where
  "update_warehouse lower warehouse_id user_id nm =
     with_uow (update_warehouse_body lower warehouse_id user_id nm)"

definition archive_warehouse_body :: "uuid \<Rightarrow> bool dbtx" where
  "archive_warehouse_body warehouse_id =
     tx_bind (tx_get (\<lambda>s. tbl_get warehouse_id True (inventories s))) (\<lambda>w.
     case w of
       None \<Rightarrow> tx_ret False
     | Some w \<Rightarrow>
         if inv_type w \<noteq> IT_WAREHOUSE then tx_ret False
         else tx_bind (tx_raise_if (is_virtual (inv_type w))
                (HttpErr (BadRequestError ''SYSTEM_INVENTORY_DELETE_FORBIDDEN''))) (\<lambda>_.
              tx_bind (update_row inventories_update warehouse_id (\<lambda>v. v\<lparr>is_active := False\<rparr>)) (\<lambda>_.
              tx_ret True)))"

definition archive_warehouse where
  "archive_warehouse warehouse_id = with_uow (archive_warehouse_body warehouse_id)"

section \<open>create\_transfer\<close>

record transfer_request =
  trq_type :: transfer_type
  trq_from_id :: "uuid option"
  trq_to_id :: "uuid option"
  trq_items :: "item list"
  trq_reason :: "string option"
  trq_route_sheet_id :: "uuid option"

definition check_transfer_scope :: "transfer_type \<Rightarrow> string list option \<Rightarrow> unit dbtx" where
  "check_transfer_scope ty caller_scopes =
     tx_raise_if (ty \<in> set ADJUSTMENT_TRANSFER_TYPES
         \<and> (case caller_scopes of None \<Rightarrow> True | Some sc \<Rightarrow> LOGISTICS_ADJUSTMENT \<notin> set sc))
       (HttpErr (ForbiddenError ''INSUFFICIENT_PERMISSIONS''))"

definition check_active_products :: "item list \<Rightarrow> unit dbtx" where
  "check_active_products items =
     (let product_ids = map fst items in
      tx_bind (tx_get (get_by_ids product_ids)) (\<lambda>active.
      let archived = filter (\<lambda>p. p \<notin> set (map row_id active)) product_ids in
      tx_raise_if (archived \<noteq> []) (InventoryErr (ArchivedProductsInTransferError archived))))"

definition resolve_endpoints :: "transfer_request \<Rightarrow> (uuid \<times> uuid) dbtx" where
  "resolve_endpoints rq =
     tx_bind (if trq_type rq = TT_INVENTORY_FINDING \<or> trq_type rq = TT_INITIAL_BALANCE
       then tx_bind (get_system_inventory IT_VIRTUAL_VENDOR) (\<lambda>v. tx_ret (Some (row_id v)))
       else tx_ret (trq_from_id rq)) (\<lambda>from_id.
     tx_bind (if trq_type rq = TT_LOSS_WRITE_OFF
       then tx_bind (get_system_inventory IT_VIRTUAL_LOSS) (\<lambda>v. tx_ret (Some (row_id v)))
       else tx_ret (trq_to_id rq)) (\<lambda>to_id.
     tx_bind (tx_require from_id (HttpErr (BadRequestError ''MISSING_FROM_ID''))) (\<lambda>f.
     tx_bind (tx_require to_id (HttpErr (BadRequestError ''MISSING_TO_ID''))) (\<lambda>t.
     tx_bind (tx_raise_if (f = t) (InventoryErr (RouteLoopError f))) (\<lambda>_.
     tx_ret (f, t))))))"

definition check_route :: "transfer_type \<Rightarrow> uuid \<Rightarrow> uuid \<Rightarrow> inventory_row dbtx" where
  "check_route ty f t =
     tx_bind (tx_get inventories) (\<lambda>vs.
     tx_bind (tx_require (tbl_get f True vs) (InventoryErr (InventoryNotFoundError f))) (\<lambda>fv.
     tx_bind (tx_require (tbl_get t True vs) (InventoryErr (InventoryNotFoundError t))) (\<lambda>tv.
     case VALID_ROUTES ty of (allowed_from, allowed_to) \<Rightarrow>
     tx_bind (tx_raise_if (inv_type fv \<notin> set allowed_from)
       (InventoryErr (InventoryTypeMismatchError f (inv_type fv)))) (\<lambda>_.
     tx_bind (tx_raise_if (inv_type tv \<notin> set allowed_to)
       (InventoryErr (InventoryTypeMismatchError t (inv_type tv)))) (\<lambda>_.
     tx_ret fv)))))"

text \<open>The dictionary of requested quantities, in the order its keys are first met.\<close>

fun dict_inc :: "uuid \<Rightarrow> int \<Rightarrow> item list \<Rightarrow> item list" where
  "dict_inc p q [] = [(p, q)]"
| "dict_inc p q ((k, v) # d) = (if k = p then (k, v + q) # d else (k, v) # dict_inc p q d)"

definition requested_quantities :: "item list \<Rightarrow> item list" where
  "requested_quantities items = fold (\<lambda>(p, q) d. dict_inc p q d) items []"

definition stock_shortages :: "uuid \<Rightarrow> item list \<Rightarrow> db \<Rightarrow> item list" where
  "stock_shortages from_id items s =
     map (\<lambda>(p, q). (p, q - stock_balance s (from_id, p)))
       (filter (\<lambda>(p, q). stock_balance s (from_id, p) < q) (requested_quantities items))"

definition check_stock :: "inventory_row \<Rightarrow> item list \<Rightarrow> unit dbtx" where
  "check_stock fv items =
     tx_when (inv_type fv \<noteq> IT_VIRTUAL_VENDOR)
       (tx_bind (tx_get (get_inventory_with_balances (row_id fv) None)) (\<lambda>locked.
        tx_bind (tx_require locked (InventoryErr (InventoryNotFoundError (row_id fv)))) (\<lambda>_.
        tx_bind (tx_get (stock_shortages (row_id fv) items)) (\<lambda>shortages.
        tx_raise_if (shortages \<noteq> []) (InventoryErr (InsufficientStockError shortages))))))"

text \<open>An \<open>IntegrityError\<close> of the batch insert becomes \<open>InsufficientStockError\<close>.\<close>

fun integrity_to_shortage :: "app_error \<Rightarrow> app_error" where
  "integrity_to_shortage (DbErr e) =
     (if is_integrity_error e then InventoryErr (InsufficientStockError []) else DbErr e)"
| "integrity_to_shortage e = e"

definition create_transfer_body ::
  "uuid \<Rightarrow> transfer_request \<Rightarrow> string list option \<Rightarrow> transfer_row dbtx" where
  "create_transfer_body created_by_id rq caller_scopes =
     tx_bind (check_transfer_scope (trq_type rq) caller_scopes) (\<lambda>_.
     tx_bind (check_active_products (trq_items rq)) (\<lambda>_.
     tx_bind (resolve_endpoints rq) (\<lambda>(f, t).
     tx_bind (check_route (trq_type rq) f t) (\<lambda>fv.
     tx_bind (check_stock fv (trq_items rq)) (\<lambda>_.
     tx_bind (insert_transfer (transfer_draft f t (trq_type rq) created_by_id (Some created_by_id) None
       (trq_reason rq) (trq_route_sheet_id rq))) (\<lambda>transfer.
     tx_bind (post_items transfer (trq_items rq)) (\<lambda>_.
     tx_bind (tx_map_error integrity_to_shortage (post_stock transfer (trq_items rq))) (\<lambda>_.
     tx_ret transfer))))))))"

definition create_transfer where
  "create_transfer created_by_id rq caller_scopes =
     commit_then (create_transfer_body created_by_id rq caller_scopes)
       (\<lambda>t s. case get_transfer (row_id t) s of
          None \<Rightarrow> Inl (InventoryErr (TransferNotFoundError (row_id t))) | Some r \<Rightarrow> Inr r)"

section \<open>CapitalizeTaraService\<close>

definition post_lines :: "transfer_row \<Rightarrow> item list \<Rightarrow> unit dbtx" where
  "post_lines t items =
     tx_for (\<lambda>it.
       tx_bind (insert_transfer_item (transfer_item_draft (row_id t) it)) (\<lambda>_.
       tx_bind (insert_stock_transaction
         (stock_transaction_draft (row_id t) (trf_from_id t) (trf_to_id t) it)) (\<lambda>_.
       tx_ret ()))) items"

text \<open>The common part of the three methods: from the vendor to the client's inventory.\<close>

definition capitalize_to :: "uuid \<Rightarrow> item list \<Rightarrow> uuid \<Rightarrow> uuid dbtx" where
  "capitalize_to inventory_id items created_by_id =
     tx_bind get_vendor_inventory (\<lambda>vendor.
     tx_bind (insert_transfer (transfer_draft (row_id vendor) inventory_id TT_INITIAL_BALANCE
       created_by_id (Some created_by_id) None None None)) (\<lambda>transfer.
     tx_bind (post_lines transfer items) (\<lambda>_.
     tx_ret (row_id transfer))))"

definition capitalize_tara_body :: "uuid \<Rightarrow> item list \<Rightarrow> uuid \<Rightarrow> (uuid \<times> item list) dbtx" where
  "capitalize_tara_body client_inventory_id items created_by_id =
     tx_bind (tx_get (get_inventory_with_balances client_inventory_id (Some IT_CLIENT))) (\<lambda>v.
     tx_bind (tx_require v (InventoryErr (InventoryNotFoundError client_inventory_id))) (\<lambda>v.
     tx_bind (capitalize_to (row_id v) items created_by_id) (\<lambda>i.
     tx_ret (i, items))))"

definition capitalize_tara where
  "capitalize_tara client_inventory_id items created_by_id =
     with_uow (capitalize_tara_body client_inventory_id items created_by_id)"

definition capitalize_tara_for_client_body :: "uuid \<Rightarrow> item list \<Rightarrow> uuid \<Rightarrow> (uuid \<times> item list) dbtx" where
  "capitalize_tara_for_client_body client_id items created_by_id =
     tx_bind (tx_get (get_client_inventory client_id)) (\<lambda>v.
     tx_bind (tx_require v (InventoryErr (InventoryNotFoundError client_id))) (\<lambda>v.
     tx_bind (capitalize_to (row_id v) items created_by_id) (\<lambda>i.
     tx_ret (i, items))))"

definition capitalize_tara_for_client where
  "capitalize_tara_for_client client_id items created_by_id =
     with_uow (capitalize_tara_for_client_body client_id items created_by_id)"

text \<open>The products of the cart that need a returnable item, each with the first line of the cart for it.\<close>

definition exchange_items :: "product_row list \<Rightarrow> item list \<Rightarrow> (uuid \<times> int) list" where
  "exchange_items prods items = concat (map (\<lambda>p. case prd_returnable_item_id p of
     None \<Rightarrow> []
   | Some tare \<Rightarrow> (case find (\<lambda>(i, q). i = row_id p) items of None \<Rightarrow> [] | Some (i, q) \<Rightarrow> [(tare, q)])) prods)"

definition tara_deficits :: "uuid \<Rightarrow> (uuid \<times> int) list \<Rightarrow> db \<Rightarrow> item list" where
  "tara_deficits inventory_id ex s =
     filter (\<lambda>(tare, d). d > 0) (map (\<lambda>(tare, q). (tare, q - stock_balance s (inventory_id, tare))) ex)"

definition capitalize_deficit_body ::
  "uuid \<Rightarrow> item list \<Rightarrow> uuid \<Rightarrow> (uuid option \<times> item list) dbtx" where
  "capitalize_deficit_body client_inventory_id items client_id =
     tx_bind (tx_get (get_by_ids (map fst items))) (\<lambda>prods.
     let ex = exchange_items prods items in
     if ex = [] then tx_ret (None, [])
     else
       tx_bind (tx_get (get_inventory_with_balances client_inventory_id (Some IT_CLIENT))) (\<lambda>v.
       tx_bind (tx_require v (InventoryErr (InventoryNotFoundError client_inventory_id))) (\<lambda>v.
       tx_bind (tx_raise_if (inv_user_id v \<noteq> client_id)
         (InventoryErr (InventoryNotFoundError client_inventory_id))) (\<lambda>_.
       tx_bind (tx_get (tara_deficits (row_id v) ex)) (\<lambda>cap.
       if cap = [] then tx_ret (None, [])
       else tx_bind (capitalize_to (row_id v) cap client_id) (\<lambda>i. tx_ret (Some i, cap)))))))"

definition capitalize_deficit where
  "capitalize_deficit client_inventory_id items client_id =
     with_uow (capitalize_deficit_body client_inventory_id items client_id)"

section \<open>Every service keeps the stock ledger sound\<close>

definition inv_types :: "inventory_row list \<Rightarrow> (uuid \<times> inventory_type) list" where
  "inv_types vs = map (\<lambda>v. (row_id v, inv_type v)) vs"

lemma tbl_has_inv_types: "tbl_has i vs \<longleftrightarrow> i \<in> fst ` set (inv_types vs)"
  by (force simp: tbl_has_def inv_types_def)

lemma nonneg_inv_types:
  "(\<forall>v\<in>set vs. row_id v = i \<longrightarrow> \<not> is_virtual (inv_type v) \<longrightarrow> P) \<longleftrightarrow>
   (\<forall>(j, ty)\<in>set (inv_types vs). j = i \<longrightarrow> \<not> is_virtual ty \<longrightarrow> P)"
  by (auto simp: inv_types_def)

lemma stock_explained_frame_types:
  assumes "frame (\<lambda>s. inv_types (inventories s)) m" "frame inventory_balances m" "frame stock_transactions m"
  shows "keeps stock_explained m"
  using assms unfolding keeps_def frame_def stock_explained_def stock_ok_def balances_ok_def stock_balance_def
    stock_journal_def tbl_has_inv_types nonneg_inv_types by simp

lemma frame_inventory_constraints [frame_intro]: "frame g (inventory_constraints i v)"
  unfolding inventory_constraints_def by (intro frame_intro)

lemma frame_get_system_inventory [frame_intro]: "frame g (get_system_inventory ty)"
  unfolding get_system_inventory_def by (intro frame_intro)

lemma frame_get_courier_inventory [frame_intro]: "frame g (get_courier_inventory u)"
  unfolding get_courier_inventory_def by (intro frame_intro)

lemma keeps_insert_inventory [keeps_intro]: "keeps stock_explained (insert_inventory d)"
proof (rule keepsI)
  fix s v s' assume ok: "stock_explained s" and run: "insert_inventory d s = Inr (v, s')"
  have s': "inventories s' = tbl_add v (inventories s)" "inventory_balances s' = inventory_balances s"
      "stock_transactions s' = stock_transactions s" "\<not> tbl_has (row_id v) (inventories s)"
    using run frameD [OF frame_inventory_constraints] by (auto simp: insert_inventory_def tx_iff inventory_constraints_def)
  with ok show "stock_explained s'"
    by (auto simp: stock_explained_def stock_ok_def balances_ok_def stock_balance_def stock_journal_def)
qed

lemma inv_types_update:
  "(\<And>v. row_id (f v) = row_id v) \<Longrightarrow> (\<And>v. inv_type (f v) = inv_type v) \<Longrightarrow>
   inv_types (tbl_update now i f vs) = inv_types vs"
  by (auto simp: inv_types_def tbl_update_def)

lemma frame_types_update_row [frame_intro]:
  "(\<And>v. row_id (f v) = row_id v) \<Longrightarrow> (\<And>v. inv_type (f v) = inv_type v) \<Longrightarrow>
   frame (\<lambda>s. inv_types (inventories s)) (update_row inventories_update i f)"
  by (auto simp: frame_def tx_iff inv_types_update)

lemma keeps_update_inventory_row [keeps_intro]:
  "(\<And>v. row_id (f v) = row_id v) \<Longrightarrow> (\<And>v. inv_type (f v) = inv_type v) \<Longrightarrow>
   keeps stock_explained (update_row inventories_update i f)"
  by (intro stock_explained_frame_types frame_types_update_row frame_update_row) auto

lemma keeps_inventory_constraints [keeps_intro]: "keeps P (inventory_constraints i v)"
  unfolding inventory_constraints_def by (intro keeps_intro)

lemma keeps_update_inventory [keeps_intro]: "keeps stock_explained (update_inventory i u nm)"
  unfolding update_inventory_def Let_def by (intro keeps_intro) auto

lemma keeps_delete_inventory [keeps_intro]: "keeps stock_explained (delete_inventory i)"
proof (rule keepsI)
  fix s b s' assume ok: "stock_explained s" and run: "delete_inventory i s = Inr (b, s')"
  show "stock_explained s'"
  proof (cases "tbl_has i (inventories s)")
    case True
    let ?t = "inventory_balances s" and ?t' = "filter (\<lambda>b. bal_inventory_id b \<noteq> i) (inventory_balances s)"
    have free: "\<forall>t\<in>set (stock_transactions s). stx_from_id t \<noteq> i \<and> stx_to_id t \<noteq> i"
      using run True by (auto simp: delete_inventory_def tx_iff inventory_referenced_def list_ex_iff)
    have s': "inventories s' = tbl_delete i (inventories s)" "inventory_balances s' = ?t'"
        "stock_transactions s' = stock_transactions s"
      using run True by (auto simp: delete_inventory_def tx_iff)
    have bal: "stock_of ?t' k = stock_of ?t k" for k
    proof (cases "fst k = i")
      case True
      have "ledger_balance (stock_journal s) k = 0"
        using free True by (intro ledger_balance_absent) (auto simp: stock_journal_def stx_line_def)
      then have "stock_of ?t k = 0" using ok by (cases k) (simp add: stock_explained_def stock_balance_def)
      moreover have "stock_of ?t' k = 0" using True by (intro stock_of_absent) (auto simp: bal_key_def)
      ultimately show ?thesis by simp
    next
      case False
      then have "find (\<lambda>b. bal_key b = k) ?t' = find (\<lambda>b. bal_key b = k) ?t"
        by (intro find_filter) (auto simp: bal_key_def)
      then show ?thesis by (simp add: stock_of_def)
    qed
    have "balances_ok (tbl_delete i (inventories s)) ?t'"
      using ok by (auto simp: stock_explained_def stock_ok_def balances_ok_def intro: distinct_map_filter)
    then show ?thesis
      using ok free bal s' by (auto simp: stock_explained_def stock_ok_def stock_balance_def stock_journal_def)
  qed (use run ok in \<open>auto simp: delete_inventory_def tx_iff\<close>)
qed

lemma keeps_get_system_inventory [keeps_intro]: "keeps P (get_system_inventory ty)"
  unfolding get_system_inventory_def by (intro keeps_intro)

lemma keeps_get_courier_inventory [keeps_intro]: "keeps P (get_courier_inventory u)"
  unfolding get_courier_inventory_def by (intro keeps_intro)

lemma keeps_get_vendor_inventory [keeps_intro]: "keeps P get_vendor_inventory"
  unfolding get_vendor_inventory_def by (intro keeps_intro)

lemma keeps_post_lines [keeps_intro]: "keeps stock_explained (post_lines t items)"
  unfolding post_lines_def by (intro keeps_intro)

lemma keeps_capitalize_to [keeps_intro]: "keeps stock_explained (capitalize_to i items u)"
  unfolding capitalize_to_def by (intro keeps_intro)

lemma keeps_inventory_checks [keeps_intro]:
  "keeps P (check_transfer_scope ty sc)" "keeps P (check_active_products items)"
  "keeps P (resolve_endpoints rq)" "keeps P (check_route ty f t)" "keeps P (check_stock fv items)"
  unfolding check_transfer_scope_def check_active_products_def resolve_endpoints_def check_route_def
    check_stock_def Let_def by (intro keeps_intro)+

lemma keeps_inventory_services [keeps_intro]:
  "keeps stock_explained (create_transport_body u nm)"
  "keeps stock_explained (update_transport_body i uo nmo)"
  "keeps stock_explained (delete_transport_body i)"
  "keeps stock_explained (create_warehouse_body u nm)"
  "keeps stock_explained (update_warehouse_body lower i uo nmo)"
  "keeps stock_explained (archive_warehouse_body i)"
  "keeps stock_explained (create_transfer_body u rq sc)"
  "keeps stock_explained (capitalize_tara_body i items u)"
  "keeps stock_explained (capitalize_tara_for_client_body i items u)"
  "keeps stock_explained (capitalize_deficit_body i items u)"
  unfolding create_transport_body_def update_transport_body_def delete_transport_body_def
    create_warehouse_body_def update_warehouse_body_def archive_warehouse_body_def create_transfer_body_def
    capitalize_tara_body_def capitalize_tara_for_client_body_def capitalize_deficit_body_def Let_def
  by (auto intro!: keeps_intro split: option.splits)

section \<open>What a transfer does to the balances\<close>

lemma item_flows:
  fixes items :: "item list"
  assumes "f \<noteq> t"
  shows "(\<Sum>it\<leftarrow>items. flow ((f, fst it), (t, fst it), snd it) (i, p)) =
    (if i = t then total_of items p else 0) - (if i = f then total_of items p else 0)"
  using assms by (induction items) (auto simp: flow_def)

lemma post_stock_balance:
  assumes "stock_ok s" "post_stock t items s = Inr (x, s')" "trf_from_id t \<noteq> trf_to_id t"
  shows "stock_balance s' (i, p) = stock_balance s (i, p)
    + (if i = trf_to_id t then total_of items p else 0) - (if i = trf_from_id t then total_of items p else 0)"
proof -
  have "stock_balance s' (i, p) = stock_balance s (i, p) + (\<Sum>e\<leftarrow>map (stock_transaction_draft (row_id t)
      (trf_from_id t) (trf_to_id t)) items. ledger_balance [stx_line e] (i, p))"
    using stock.post_many_balance [OF assms(1) assms(2) [unfolded post_stock_def], of "(i, p)"] by blast
  also have "(\<Sum>e\<leftarrow>map (stock_transaction_draft (row_id t) (trf_from_id t) (trf_to_id t)) items.
      ledger_balance [stx_line e] (i, p)) =
      (\<Sum>it\<leftarrow>items. flow ((trf_from_id t, fst it), (trf_to_id t, fst it), snd it) (i, p))"
    by (simp add: stx_line_def stock_transaction_draft_def comp_def)
  finally show ?thesis using item_flows [OF assms(3)] by simp
qed

lemma map_of_dict_inc:
  "map_of (dict_inc p q d) = (map_of d)(p \<mapsto> q + (case map_of d p of None \<Rightarrow> 0 | Some v \<Rightarrow> v))"
  by (induction p q d rule: dict_inc.induct) (auto split: option.splits)

lemma map_of_requested:
  "map_of (requested_quantities items) p =
     (if p \<in> fst ` set items then Some (total_of items p) else None)"
proof -
  have "map_of (fold (\<lambda>(p, q) d. dict_inc p q d) items d) p =
      (if p \<in> fst ` set items then Some ((case map_of d p of None \<Rightarrow> 0 | Some v \<Rightarrow> v) + total_of items p)
       else map_of d p)" for d
    by (induction items arbitrary: d) (auto simp: map_of_dict_inc total_of_absent split: option.splits)
  from this [of "[]"] show ?thesis by (simp add: requested_quantities_def)
qed

lemma no_shortages_enough:
  assumes "stock_shortages f items s = []" "p \<in> fst ` set items"
  shows "total_of items p \<le> stock_balance s (f, p)"
proof -
  have "(p, total_of items p) \<in> set (requested_quantities items)"
    using map_of_requested [of items p] assms(2) by (simp add: map_of_SomeD)
  then show ?thesis using assms(1) by (auto simp: stock_shortages_def filter_empty_conv)
qed

lemma insert_transferD:
  assumes "insert_transfer d s = Inr (t, s')"
  shows "t = stamp (next_id s) (clock s) d" "trf_from_id d \<noteq> trf_to_id d"
    "stock_transfers s' = tbl_add t (stock_transfers s)" "\<not> tbl_has (row_id t) (stock_transfers s)"
  using assms by (auto simp: insert_transfer_def tx_iff)

lemma stamp_transfer_sel [simp]:
  "trf_from_id (stamp i now d) = trf_from_id d" "trf_to_id (stamp i now d) = trf_to_id d"
  "trf_type (stamp i now d) = trf_type d" "trf_status (stamp i now d) = trf_status d"
  by (simp_all add: stamp_def)

lemma transfer_draft_sel [simp]:
  "trf_from_id (transfer_draft f t ty u a ord r sh) = f" "trf_to_id (transfer_draft f t ty u a ord r sh) = t"
  "trf_type (transfer_draft f t ty u a ord r sh) = ty"
  "trf_status (transfer_draft f t ty u a ord r sh) = TRS_COMPLETED"
  by (simp_all add: transfer_draft_def)

text \<open>The part of the database a header and its lines leave alone.\<close>

lemma transfer_header_frame:
  assumes "insert_transfer d s = Inr (t, s1)" "post_items t items s1 = Inr (x, s2)"
  shows "stock_balance s2 = stock_balance s" "stock_ok s2 = stock_ok s"
proof -
  have "frame inventory_balances (post_items t items)" "frame inventories (post_items t items)"
      "frame stock_transactions (post_items t items)"
    unfolding post_items_def by (auto intro!: frame_intro)
  then have "inventory_balances s2 = inventory_balances s1" "inventories s2 = inventories s1"
      "stock_transactions s2 = stock_transactions s1"
    using assms(2) by (auto dest: frameD)
  moreover have "inventory_balances s1 = inventory_balances s" "inventories s1 = inventories s"
      "stock_transactions s1 = stock_transactions s"
    using assms(1) by (auto simp: insert_transfer_def tx_iff)
  ultimately show "stock_balance s2 = stock_balance s" "stock_ok s2 = stock_ok s"
    by (auto simp: stock_balance_def stock_ok_def)
qed

lemma check_route_iff [tx_iff]:
  "check_route ty f t s = Inr (fv, s') \<longleftrightarrow> s' = s \<and> tbl_get f True (inventories s) = Some fv
     \<and> inv_type fv \<in> set (fst (VALID_ROUTES ty))
     \<and> (\<exists>tv. tbl_get t True (inventories s) = Some tv \<and> inv_type tv \<in> set (snd (VALID_ROUTES ty)))"
  by (cases "VALID_ROUTES ty") (auto simp: check_route_def tx_iff)

lemma check_stock_iff [tx_iff]:
  "check_stock fv items s = Inr (x, s') \<longleftrightarrow> s' = s \<and> (inv_type fv = IT_VIRTUAL_VENDOR
     \<or> get_inventory_with_balances (row_id fv) None s \<noteq> None \<and> stock_shortages (row_id fv) items s = [])"
  by (auto simp: check_stock_def tx_iff)

lemma create_transfer_runs:
  assumes "create_transfer_body u rq sc s = Inr (tr, s')"
  obtains f t fv tv s1 s2 where
    "check_transfer_scope (trq_type rq) sc s = Inr ((), s)"
    "tbl_get f True (inventories s) = Some fv" "tbl_get t True (inventories s) = Some tv"
    "inv_type fv \<in> set (fst (VALID_ROUTES (trq_type rq)))" "inv_type tv \<in> set (snd (VALID_ROUTES (trq_type rq)))"
    "inv_type fv \<noteq> IT_VIRTUAL_VENDOR \<longrightarrow> stock_shortages f (trq_items rq) s = []"
    "insert_transfer (transfer_draft f t (trq_type rq) u (Some u) None (trq_reason rq) (trq_route_sheet_id rq)) s
       = Inr (tr, s1)"
    "post_items tr (trq_items rq) s1 = Inr ((), s2)" "post_stock tr (trq_items rq) s2 = Inr ((), s')"
proof -
  obtain f t where "resolve_endpoints rq s = Inr ((f, t), s)" and
    run: "check_transfer_scope (trq_type rq) sc s = Inr ((), s)"
      "tx_bind (check_route (trq_type rq) f t) (\<lambda>fv. tx_bind (check_stock fv (trq_items rq)) (\<lambda>_.
       tx_bind (insert_transfer (transfer_draft f t (trq_type rq) u (Some u) None (trq_reason rq)
         (trq_route_sheet_id rq))) (\<lambda>tr. tx_bind (post_items tr (trq_items rq)) (\<lambda>_.
       tx_bind (tx_map_error integrity_to_shortage (post_stock tr (trq_items rq))) (\<lambda>_. tx_ret tr))))) s
       = Inr (tr, s')"
    using assms
    by (auto simp: create_transfer_body_def tx_iff check_transfer_scope_def check_active_products_def Let_def
        resolve_endpoints_def get_system_inventory_def split: if_splits)
  then obtain fv tv s1 s2 where
      r: "tbl_get f True (inventories s) = Some fv" "tbl_get t True (inventories s) = Some tv"
        "inv_type fv \<in> set (fst (VALID_ROUTES (trq_type rq)))" "inv_type tv \<in> set (snd (VALID_ROUTES (trq_type rq)))"
        "inv_type fv \<noteq> IT_VIRTUAL_VENDOR \<longrightarrow> stock_shortages (row_id fv) (trq_items rq) s = []"
        "insert_transfer (transfer_draft f t (trq_type rq) u (Some u) None (trq_reason rq) (trq_route_sheet_id rq)) s
           = Inr (tr, s1)"
        "post_items tr (trq_items rq) s1 = Inr ((), s2)" "post_stock tr (trq_items rq) s2 = Inr ((), s')"
    by (auto simp: tx_iff)
  show ?thesis
    by (rule that [OF run(1) r(1-4) _ r(6-8)]) (use r(5) tbl_get_SomeD [OF r(1)] in auto)
qed

section \<open>Properties\<close>

text \<open>
  C8. A completed transfer is legal and moves exactly its items: both ends are active and of a type
  the route table allows for its type, an adjustment was made with the scope
  \<open>logistics:adjustment\<close>, and for every product the sender's balance falls and the receiver's
  rises by the total over the lines, while no other balance changes.
\<close>

theorem create_transfer_moves:
  assumes "stock_ok s" and "create_transfer u rq scopes s = (Inr tr, s')"
  shows "\<exists>fv tv. tbl_get (trf_from_id tr) True (inventories s) = Some fv
    \<and> tbl_get (trf_to_id tr) True (inventories s) = Some tv
    \<and> inv_type fv \<in> set (fst (VALID_ROUTES (trq_type rq))) \<and> inv_type tv \<in> set (snd (VALID_ROUTES (trq_type rq)))
    \<and> (trq_type rq \<in> set ADJUSTMENT_TRANSFER_TYPES \<longrightarrow>
         (\<exists>sc. scopes = Some sc \<and> LOGISTICS_ADJUSTMENT \<in> set sc))
    \<and> (\<forall>i p. stock_balance s' (i, p) = stock_balance s (i, p)
         + (if i = trf_to_id tr then total_of (trq_items rq) p else 0)
         - (if i = trf_from_id tr then total_of (trq_items rq) p else 0))"
proof -
  obtain tr0 where body: "create_transfer_body u rq scopes s = Inr (tr0, s')"
      and load: "get_transfer (row_id tr0) s' = Some tr"
    using assms(2) by (auto simp: create_transfer_def commit_then_Inr split: option.splits)
  from body show ?thesis
  proof (rule create_transfer_runs)
    fix f t fv tv s1 s2
    assume sc: "check_transfer_scope (trq_type rq) scopes s = Inr ((), s)"
      and v: "tbl_get f True (inventories s) = Some fv" "tbl_get t True (inventories s) = Some tv"
        "inv_type fv \<in> set (fst (VALID_ROUTES (trq_type rq)))" "inv_type tv \<in> set (snd (VALID_ROUTES (trq_type rq)))"
      and ins: "insert_transfer (transfer_draft f t (trq_type rq) u (Some u) None (trq_reason rq)
          (trq_route_sheet_id rq)) s = Inr (tr0, s1)"
      and post: "post_items tr0 (trq_items rq) s1 = Inr ((), s2)" "post_stock tr0 (trq_items rq) s2 = Inr ((), s')"
    note D = insert_transferD [OF ins]
    have ends: "trf_from_id tr0 = f" "trf_to_id tr0 = t" "f \<noteq> t" using D by simp_all
    have "frame stock_transfers (post_items tr0 (trq_items rq))" "frame stock_transfers (post_stock tr0 (trq_items rq))"
      unfolding post_items_def post_stock_def by (auto intro!: frame_intro)
    then have "stock_transfers s' = tbl_add tr0 (stock_transfers s)"
      using post D(3) by (auto dest!: frameD)
    moreover have "tbl_get (row_id tr0) False (stock_transfers s) = None"
      using D(4) by (auto simp: tbl_get_def tbl_has_def find_None_all)
    ultimately have "tr = tr0" using load by (simp add: get_transfer_def tbl_get_add)
    moreover have "stock_balance s' (i, p) = stock_balance s (i, p)
         + (if i = t then total_of (trq_items rq) p else 0)
         - (if i = f then total_of (trq_items rq) p else 0)" for i p
      using post_stock_balance [OF _ post(2), of i p] transfer_header_frame [OF ins post(1)] assms(1) ends by simp
    ultimately show ?thesis
      using v ends sc by (auto simp: check_transfer_scope_def tx_iff split: option.splits)
  qed
qed

theorem create_transfer_moves_witness:
  "\<exists>tr s'. create_transfer 3 \<lparr>trq_type = TT_COURIER_LOAD, trq_from_id = Some 42, trq_to_id = Some 43,
      trq_items = [(20, 5), (20, 2)], trq_reason = None, trq_route_sheet_id = None\<rparr> None sample_db = (Inr tr, s')
     \<and> (\<exists>i. stock_balance s' (i, 20) = stock_balance sample_db (i, 20) + 7)"
proof -
  let ?rq = "\<lparr>trq_type = TT_COURIER_LOAD, trq_from_id = Some 42, trq_to_id = Some 43,
      trq_items = [(20, 5), (20, 2)], trq_reason = None, trq_route_sheet_id = None\<rparr>"
  have "\<not> isl (fst (create_transfer 3 ?rq None sample_db))" by code_simp
  then obtain tr s' where run: "create_transfer 3 ?rq None sample_db = (Inr tr, s')"
    using run_ok by blast
  have ok: "stock_ok sample_db" using sample_stock_explained by (simp add: stock_explained_def)
  have ends: "case create_transfer 3 ?rq None sample_db of (r, s') \<Rightarrow>
      (case r of Inl e \<Rightarrow> False | Inr tr \<Rightarrow> trf_from_id tr = 42 \<and> trf_to_id tr = 43)"
    by code_simp
  have "stock_balance s' (43, 20) = stock_balance sample_db (43, 20) + 7"
    using create_transfer_moves [OF ok run] ends run by auto
  with run show ?thesis by blast
qed

text \<open>
  C9. A transfer never overdraws: when \<open>create_transfer\<close> returns and the sender is not the virtual
  vendor, the sender held at least the total of every product, over repeated lines of the same
  product too.
\<close>

theorem create_transfer_covered:
  assumes "create_transfer_body u rq scopes s = Inr (tr, s')"
    and "tbl_get (trf_from_id tr) True (inventories s) = Some fv" "inv_type fv \<noteq> IT_VIRTUAL_VENDOR"
    and "p \<in> fst ` set (trq_items rq)"
  shows "total_of (trq_items rq) p \<le> stock_balance s (trf_from_id tr, p)"
  using assms(1)
proof (rule create_transfer_runs)
  fix f t fv' s1
  assume fv': "tbl_get f True (inventories s) = Some fv'"
    "inv_type fv' \<noteq> IT_VIRTUAL_VENDOR \<longrightarrow> stock_shortages f (trq_items rq) s = []"
    and "insert_transfer (transfer_draft f t (trq_type rq) u (Some u) None (trq_reason rq)
      (trq_route_sheet_id rq)) s = Inr (tr, s1)"
  then have "trf_from_id tr = f" using insert_transferD(1) by fastforce
  with fv' assms(2,3) show ?thesis using no_shortages_enough [OF _ assms(4), of f s] by simp
qed

theorem create_transfer_covered_witness:
  "\<exists>tr s'. create_transfer_body 3 \<lparr>trq_type = TT_COURIER_LOAD, trq_from_id = Some 42, trq_to_id = Some 43,
      trq_items = [(20, 5)], trq_reason = None, trq_route_sheet_id = None\<rparr> None sample_db = Inr (tr, s')
     \<and> 5 \<le> stock_balance sample_db (trf_from_id tr, 20)"
proof -
  let ?rq = "\<lparr>trq_type = TT_COURIER_LOAD, trq_from_id = Some 42, trq_to_id = Some 43,
      trq_items = [(20, 5)], trq_reason = None, trq_route_sheet_id = None\<rparr>"
  have ends: "case create_transfer_body 3 ?rq None sample_db of
      Inl e \<Rightarrow> False | Inr (tr, s') \<Rightarrow> trf_from_id tr = 42" by code_simp
  then obtain tr s' where run: "create_transfer_body 3 ?rq None sample_db = Inr (tr, s')" "trf_from_id tr = 42"
    by (cases "create_transfer_body 3 ?rq None sample_db") auto
  have v: "tbl_get 42 True (inventories sample_db) = Some (inventory_row.make 42 True 0 0 3 IT_WAREHOUSE ''Warehouse'')"
    by (simp add: sample_defs sample_rows tbl_get_def)
  show ?thesis
    using create_transfer_covered [OF run(1), of _ 20] run v by (auto simp: inventory_row.defs)
qed









lemma repeated_line_uncovered:
  "case capitalize_deficit 44 [(20, 1), (20, 5)] 4 sample_db of
     (Inl _, _) \<Rightarrow> False | (Inr _, s') \<Rightarrow> stock_balance s' (44, 21) = 1"
  by code_simp

end
