(* ===== verification/ContractTables.thy ===== *)
theory ContractTables
  imports Quotas Inventory Finances
begin

text \<open>
  The tables of the contracts module: the statements on \<open>contracts\<close>, \<open>invoices\<close>,
  \<open>contract_status_logs\<close> and \<open>contract_amendments\<close> with their constraints
  (\<open>src/modules/contracts/models.py\<close>), the repositories of
  \<open>src/modules/contracts/repositories.py\<close>, and the life of a contract and of an invoice.
\<close>

section \<open>Statements\<close>

definition is_live :: "contract_row \<Rightarrow> bool" where
  "is_live c \<longleftrightarrow> con_status c = CS_ACTIVE \<and> is_active c"

text \<open>The constraints of a row, against the rows other than \<open>i\<close>.\<close>

definition contract_constraints :: "uuid option \<Rightarrow> contract_row \<Rightarrow> unit dbtx" where
  "contract_constraints i c =
     tx_bind (tx_raise_if (\<not> int4 (con_payment_due_days c)) (DbErr NumericOutOfRange)) (\<lambda>_.
     tx_bind (tx_raise_if (con_payment_due_days c \<le> 0)
       (DbErr (CheckViolation ''ck_contract_payment_due_days_pos''))) (\<lambda>_.
     tx_bind (tx_raise_if (case con_end_date c of None \<Rightarrow> False | Some d \<Rightarrow> d \<le> con_start_date c)
       (DbErr (CheckViolation ''ck_contract_dates_order''))) (\<lambda>_.
     tx_bind (tx_get contracts) (\<lambda>t.
     tx_bind (tx_raise_if (list_ex (\<lambda>r. Some (row_id r) \<noteq> i \<and> con_number r = con_number c) t)
       (DbErr (UniqueViolation ''contracts_number_key''))) (\<lambda>_.
     tx_bind (tx_raise_if (is_live c
         \<and> list_ex (\<lambda>r. Some (row_id r) \<noteq> i \<and> is_live r \<and> con_client_id r = con_client_id c) t)
       (DbErr (UniqueViolation ''uq_one_active_contract_per_client''))) (\<lambda>_.
     tx_bind (tx_get users) (\<lambda>us.
     tx_raise_if (\<not> tbl_has (con_client_id c) us \<or> \<not> fk_ok (con_signed_by_id c) us)
       (DbErr (ForeignKeyViolation ''users'')))))))))"

definition insert_contract :: "contract_row \<Rightarrow> contract_row dbtx" where
  "insert_contract d = tx_bind (contract_constraints None d) (\<lambda>_. insert_row contracts contracts_update d)"

definition update_contract_row :: "uuid \<Rightarrow> (contract_row \<Rightarrow> contract_row) \<Rightarrow> contract_row dbtx" where
  "update_contract_row i f =
     tx_bind (tx_get contracts) (\<lambda>t.
     tx_bind (tx_require (tbl_get i False t) (HttpErr (NotFoundError ''NOT_FOUND''))) (\<lambda>old.
     tx_bind (contract_constraints (Some i) (f old)) (\<lambda>_.
     tx_bind (update_row contracts_update i f) (\<lambda>_.
     tx_bind (tx_get contracts) (\<lambda>t.
     tx_require (tbl_get i False t) (HttpErr (NotFoundError ''NOT_FOUND'')))))))"

definition invoice_constraints :: "uuid option \<Rightarrow> invoice_row \<Rightarrow> unit dbtx" where
  "invoice_constraints i v =
     tx_bind (tx_raise_if (\<not> int8 (ivc_amount v)) (DbErr NumericOutOfRange)) (\<lambda>_.
     tx_bind (tx_raise_if (ivc_period_to v \<le> ivc_period_from v)
       (DbErr (CheckViolation ''ck_invoice_period_order''))) (\<lambda>_.
     tx_bind (tx_raise_if (ivc_amount v < 0) (DbErr (CheckViolation ''ck_invoice_amount_non_neg''))) (\<lambda>_.
     tx_bind (tx_get invoices) (\<lambda>t.
     tx_bind (tx_raise_if (list_ex (\<lambda>r. Some (row_id r) \<noteq> i \<and> ivc_contract_id r = ivc_contract_id v
         \<and> ivc_number r = ivc_number v) t)
       (DbErr (UniqueViolation ''uq_invoice_contract_number''))) (\<lambda>_.
     tx_bind (tx_get contracts) (\<lambda>cs.
     tx_raise_if (\<not> tbl_has (ivc_contract_id v) cs) (DbErr (ForeignKeyViolation ''contracts''))))))))"

definition insert_invoice :: "invoice_row \<Rightarrow> invoice_row dbtx" where
  "insert_invoice d = tx_bind (invoice_constraints None d) (\<lambda>_. insert_row invoices invoices_update d)"

definition update_invoice :: "uuid \<Rightarrow> (invoice_row \<Rightarrow> invoice_row) \<Rightarrow> invoice_row dbtx" where
  "update_invoice i f =
     tx_bind (tx_get invoices) (\<lambda>t.
     tx_bind (tx_require (tbl_get i False t) (HttpErr (NotFoundError ''NOT_FOUND''))) (\<lambda>old.
     tx_bind (invoice_constraints (Some i) (f old)) (\<lambda>_.
     tx_bind (update_row invoices_update i f) (\<lambda>_.
     tx_bind (tx_get invoices) (\<lambda>t.
     tx_require (tbl_get i False t) (HttpErr (NotFoundError ''NOT_FOUND'')))))))"

definition add_contract_status_log ::
  "uuid \<Rightarrow> contract_status option \<Rightarrow> contract_status \<Rightarrow> uuid option \<Rightarrow> string option \<Rightarrow> unit dbtx" where
  "add_contract_status_log contract_id from_status to_status changed_by_id reason =
     tx_bind (tx_get contracts) (\<lambda>cs.
     tx_bind (tx_raise_if (\<not> tbl_has contract_id cs) (DbErr (ForeignKeyViolation ''contracts''))) (\<lambda>_.
     tx_bind (tx_get users) (\<lambda>us.
     tx_bind (tx_raise_if (\<not> fk_ok changed_by_id us) (DbErr (ForeignKeyViolation ''users''))) (\<lambda>_.
     tx_bind (insert_row contract_status_logs contract_status_logs_update
       \<lparr>row_id = 0, is_active = True, created_at = 0, updated_at = 0, csl_contract_id = contract_id,
        csl_from_status = from_status, csl_to_status = to_status, csl_changed_by_id = changed_by_id,
        csl_reason = reason\<rparr>) (\<lambda>_. tx_ret ())))))"

definition insert_amendment :: "amendment_row \<Rightarrow> amendment_row dbtx" where
  "insert_amendment d =
     tx_bind (tx_get contract_amendments) (\<lambda>t.
     tx_bind (tx_raise_if (list_ex (\<lambda>r. amd_contract_id r = amd_contract_id d \<and> amd_number r = amd_number d) t)
       (DbErr (UniqueViolation ''uq_contract_amendment_number''))) (\<lambda>_.
     tx_bind (tx_get contracts) (\<lambda>cs.
     tx_bind (tx_raise_if (\<not> tbl_has (amd_contract_id d) cs) (DbErr (ForeignKeyViolation ''contracts''))) (\<lambda>_.
     tx_bind (tx_get users) (\<lambda>us.
     tx_bind (tx_raise_if (\<not> fk_ok (amd_created_by_id d) us) (DbErr (ForeignKeyViolation ''users''))) (\<lambda>_.
     insert_row contract_amendments contract_amendments_update d))))))"

section \<open>Repositories\<close>

definition get_contract :: "uuid \<Rightarrow> db \<Rightarrow> contract_row option" where
  "get_contract contract_id s = tbl_get contract_id True (contracts s)"

definition require_contract :: "uuid \<Rightarrow> contract_row dbtx" where
  "require_contract contract_id =
     tx_bind (tx_get (get_contract contract_id)) (\<lambda>c.
     tx_require c (ContractErr (ContractNotFoundError contract_id)))"

definition get_active_for_client :: "uuid \<Rightarrow> contract_row option dbtx" where
  "get_active_for_client client_id =
     tx_bind (tx_get (\<lambda>s. filter (\<lambda>c. con_client_id c = client_id \<and> is_live c) (contracts s))) scalar_one_or_none"

definition price_items_of :: "uuid \<Rightarrow> db \<Rightarrow> price_item_row list" where
  "price_items_of contract_id s = filter (\<lambda>p. cpi_contract_id p = contract_id) (contract_price_items s)"

definition get_with_price_items :: "uuid \<Rightarrow> db \<Rightarrow> (contract_row \<times> price_item_row list) option" where
  "get_with_price_items contract_id s =
     map_option (\<lambda>c. (c, price_items_of contract_id s)) (get_contract contract_id s)"

definition get_with_client :: "uuid \<Rightarrow> db \<Rightarrow> (contract_row \<times> user_row option) option" where
  "get_with_client contract_id s =
     map_option (\<lambda>c. (c, tbl_get (con_client_id c) False (users s))) (get_contract contract_id s)"

definition get_multi_with_client ::
  "contract_status option \<Rightarrow> uuid option \<Rightarrow> nat \<Rightarrow> nat \<Rightarrow> db \<Rightarrow> nat \<times> contract_row list" where
  "get_multi_with_client status client_id skip limit s =
     (let rows = filter (\<lambda>c. is_active c \<and> (case status of None \<Rightarrow> True | Some st \<Rightarrow> con_status c = st)
        \<and> (case client_id of None \<Rightarrow> True | Some u \<Rightarrow> con_client_id c = u)) (contracts s)
      in (length rows, take limit (drop skip (sort_key (\<lambda>c. - created_at c) rows))))"

definition get_expirable :: "db \<Rightarrow> contract_row list" where
  "get_expirable s =
     filter (\<lambda>c. is_live c \<and> (case con_end_date c of None \<Rightarrow> False | Some d \<Rightarrow> d < date_of (clock s))) (contracts s)"

definition invoices_by_contract :: "uuid \<Rightarrow> db \<Rightarrow> invoice_row list" where
  "invoices_by_contract contract_id s =
     sort_key (\<lambda>v. - created_at v) (filter (\<lambda>v. ivc_contract_id v = contract_id \<and> is_active v) (invoices s))"

definition same_period :: "uuid \<Rightarrow> date \<Rightarrow> date \<Rightarrow> invoice_row \<Rightarrow> bool" where
  "same_period contract_id period_from period_to v \<longleftrightarrow> ivc_contract_id v = contract_id
     \<and> ivc_period_from v = period_from \<and> ivc_period_to v = period_to \<and> ivc_status v \<noteq> IS_CANCELLED \<and> is_active v"

definition get_for_period :: "uuid \<Rightarrow> date \<Rightarrow> date \<Rightarrow> invoice_row option dbtx" where
  "get_for_period contract_id period_from period_to =
     tx_bind (tx_get (\<lambda>s. filter (same_period contract_id period_from period_to) (invoices s))) scalar_one_or_none"

definition overdue_at :: "date \<Rightarrow> invoice_row \<Rightarrow> bool" where
  "overdue_at today v \<longleftrightarrow> ivc_status v = IS_ISSUED \<and> is_active v
     \<and> (case ivc_due_date v of None \<Rightarrow> False | Some d \<Rightarrow> d < today)"

definition get_overdue_candidates :: "db \<Rightarrow> invoice_row list" where
  "get_overdue_candidates s = filter (overdue_at (date_of (clock s))) (invoices s)"

definition logs_by_contract :: "uuid \<Rightarrow> db \<Rightarrow> contract_status_log_row list" where
  "logs_by_contract contract_id s =
     sort_key created_at (filter (\<lambda>l. csl_contract_id l = contract_id) (contract_status_logs s))"

definition amendments_by_contract :: "uuid \<Rightarrow> db \<Rightarrow> amendment_row list" where
  "amendments_by_contract contract_id s =
     sort_key amd_effective_date (filter (\<lambda>a. amd_contract_id a = contract_id) (contract_amendments s))"

definition amendment_by_number :: "uuid \<Rightarrow> string \<Rightarrow> amendment_row option dbtx" where
  "amendment_by_number contract_id num =
     tx_bind (tx_get (\<lambda>s. filter (\<lambda>a. amd_contract_id a = contract_id \<and> amd_number a = num)
       (contract_amendments s))) scalar_one_or_none"

section \<open>The life of a contract and of an invoice\<close>

fun contract_step :: "contract_status \<Rightarrow> contract_status \<Rightarrow> bool" where
  "contract_step CS_DRAFT st \<longleftrightarrow> st = CS_ACTIVE"
| "contract_step CS_ACTIVE st \<longleftrightarrow> st \<in> {CS_SUSPENDED, CS_TERMINATED, CS_EXPIRED}"
| "contract_step CS_SUSPENDED st \<longleftrightarrow> st \<in> {CS_ACTIVE, CS_TERMINATED}"
| "contract_step _ st \<longleftrightarrow> False"

fun invoice_step :: "invoice_status \<Rightarrow> invoice_status \<Rightarrow> bool" where
  "invoice_step IS_DRAFT st \<longleftrightarrow> st \<in> {IS_ISSUED, IS_CANCELLED}"
| "invoice_step IS_ISSUED st \<longleftrightarrow> st \<in> {IS_PAID, IS_OVERDUE, IS_CANCELLED}"
| "invoice_step IS_OVERDUE st \<longleftrightarrow> st = IS_PAID"
| "invoice_step _ st \<longleftrightarrow> False"

fun invoice_rank :: "invoice_status \<Rightarrow> nat" where
  "invoice_rank IS_DRAFT = 0"
| "invoice_rank IS_ISSUED = 1"
| "invoice_rank IS_PARTIALLY_PAID = 2"
| "invoice_rank IS_OVERDUE = 2"
| "invoice_rank IS_PAID = 3"
| "invoice_rank IS_CANCELLED = 3"

definition contract_le :: "contract_row \<Rightarrow> contract_row \<Rightarrow> bool" where
  "contract_le c c' \<longleftrightarrow> row_id c' = row_id c \<and> is_active c' = is_active c \<and> con_number c' = con_number c
     \<and> con_client_id c' = con_client_id c \<and> con_start_date c' = con_start_date c
     \<and> con_legal_name c' = con_legal_name c \<and> con_inn c' = con_inn c
     \<and> contract_step\<^sup>*\<^sup>* (con_status c) (con_status c')"

definition invoice_le :: "invoice_row \<Rightarrow> invoice_row \<Rightarrow> bool" where
  "invoice_le v v' \<longleftrightarrow> row_id v' = row_id v \<and> is_active v' = is_active v \<and> ivc_number v' = ivc_number v
     \<and> ivc_contract_id v' = ivc_contract_id v \<and> ivc_period_from v' = ivc_period_from v
     \<and> ivc_period_to v' = ivc_period_to v \<and> ivc_amount v' = ivc_amount v \<and> ivc_due_date v' = ivc_due_date v
     \<and> invoice_step\<^sup>*\<^sup>* (ivc_status v) (ivc_status v')"

interpretation contract_life: lifecycle contract_step "{CS_TERMINATED, CS_EXPIRED}"
  by unfold_locales auto

interpretation invoice_life: ranked_lifecycle invoice_step "{IS_PAID, IS_CANCELLED}" invoice_rank
proof unfold_locales
  show "invoice_step x y \<Longrightarrow> invoice_rank x < invoice_rank y" for x y by (cases x) auto
qed auto

interpretation contract_status: status_table contract_step "{CS_TERMINATED, CS_EXPIRED}" contract_le con_status
  by unfold_locales (auto simp: contract_le_def intro: rtranclp_trans)

interpretation invoice_status: status_table invoice_step "{IS_PAID, IS_CANCELLED}" invoice_le ivc_status
  by unfold_locales (auto simp: invoice_le_def intro: rtranclp_trans)

definition one_live_per_client :: "contract_row list \<Rightarrow> bool" where
  "one_live_per_client t \<longleftrightarrow> (\<forall>c\<in>set t. \<forall>c'\<in>set t. is_live c \<longrightarrow> is_live c'
     \<longrightarrow> con_client_id c = con_client_id c' \<longrightarrow> row_id c = row_id c')"

definition contracts_ok :: "db \<Rightarrow> bool" where
  "contracts_ok s \<longleftrightarrow> keys_distinct (contracts s) \<and> one_live_per_client (contracts s)"

definition invoices_ok :: "db \<Rightarrow> bool" where
  "invoices_ok s \<longleftrightarrow> keys_distinct (invoices s)"

definition contracts_evolve :: "db \<Rightarrow> db \<Rightarrow> bool" where
  "contracts_evolve s s' \<longleftrightarrow> (contracts_ok s \<longrightarrow> contracts_ok s' \<and> grows contract_le (contracts s) (contracts s'))"

definition invoices_evolve :: "db \<Rightarrow> db \<Rightarrow> bool" where
  "invoices_evolve s s' \<longleftrightarrow> (invoices_ok s \<longrightarrow> invoices_ok s' \<and> grows invoice_le (invoices s) (invoices s'))"

section \<open>Lemmas on the statements\<close>

lemma contract_constraints_iff [tx_iff]:
  "contract_constraints i c s = Inr (x, s') \<longleftrightarrow> s' = s \<and> int4 (con_payment_due_days c) \<and> 0 < con_payment_due_days c
     \<and> (\<forall>d. con_end_date c = Some d \<longrightarrow> con_start_date c < d)
     \<and> (\<forall>r\<in>set (contracts s). Some (row_id r) \<noteq> i \<longrightarrow> con_number r \<noteq> con_number c)
     \<and> (is_live c \<longrightarrow> (\<forall>r\<in>set (contracts s). Some (row_id r) \<noteq> i \<longrightarrow> is_live r \<longrightarrow> con_client_id r \<noteq> con_client_id c))
     \<and> tbl_has (con_client_id c) (users s) \<and> fk_ok (con_signed_by_id c) (users s)"
  by (auto simp: contract_constraints_def tx_iff list_ex_iff split: option.splits)

lemma update_contract_row_iff [tx_iff]:
  "update_contract_row i f s = Inr (c, s') \<longleftrightarrow> (\<exists>old. tbl_get i False (contracts s) = Some old
     \<and> contract_constraints (Some i) (f old) s = Inr ((), s))
     \<and> s' = contracts_update (tbl_update (clock s) i f) s \<and> tbl_get i False (contracts s') = Some c"
  by (auto simp: update_contract_row_def tx_iff)

lemma invoice_constraints_iff [tx_iff]:
  "invoice_constraints i v s = Inr (x, s') \<longleftrightarrow> s' = s \<and> int8 (ivc_amount v) \<and> ivc_period_from v < ivc_period_to v
     \<and> 0 \<le> ivc_amount v
     \<and> (\<forall>r\<in>set (invoices s). Some (row_id r) \<noteq> i \<longrightarrow> ivc_contract_id r = ivc_contract_id v \<longrightarrow> ivc_number r \<noteq> ivc_number v)
     \<and> tbl_has (ivc_contract_id v) (contracts s)"
  by (auto simp: invoice_constraints_def tx_iff list_ex_iff)

lemma update_invoice_iff [tx_iff]:
  "update_invoice i f s = Inr (v, s') \<longleftrightarrow> (\<exists>old. tbl_get i False (invoices s) = Some old
     \<and> invoice_constraints (Some i) (f old) s = Inr ((), s))
     \<and> s' = invoices_update (tbl_update (clock s) i f) s \<and> tbl_get i False (invoices s') = Some v"
  by (auto simp: update_invoice_def tx_iff)

lemma require_contract_iff [tx_iff]:
  "require_contract i s = Inr (c, s') \<longleftrightarrow> s' = s \<and> get_contract i s = Some c"
  by (auto simp: require_contract_def tx_iff)

lemma get_active_for_client_iff [tx_iff]:
  "get_active_for_client u s = Inr (v, s') \<longleftrightarrow> s' = s \<and>
     (let rows = filter (\<lambda>c. con_client_id c = u \<and> is_live c) (contracts s)
      in case v of None \<Rightarrow> rows = [] | Some c \<Rightarrow> rows = [c])"
  by (auto simp: get_active_for_client_def tx_iff Let_def)

lemma get_for_period_iff [tx_iff]:
  "get_for_period c a b s = Inr (v, s') \<longleftrightarrow> s' = s \<and>
     (case v of None \<Rightarrow> filter (same_period c a b) (invoices s) = []
      | Some i \<Rightarrow> filter (same_period c a b) (invoices s) = [i])"
  by (auto simp: get_for_period_def tx_iff)

lemma amendment_by_number_iff [tx_iff]:
  "amendment_by_number c n s = Inr (v, s') \<longleftrightarrow> s' = s \<and>
     (let rows = filter (\<lambda>a. amd_contract_id a = c \<and> amd_number a = n) (contract_amendments s)
      in case v of None \<Rightarrow> rows = [] | Some a \<Rightarrow> rows = [a])"
  by (auto simp: amendment_by_number_def tx_iff Let_def)

lemma frame_contract_reads [frame_intro]:
  "frame g (contract_constraints oi c)" "frame g (invoice_constraints oi v)" "frame g (require_contract i)"
  "frame g (get_active_for_client u)" "frame g (get_for_period i a b)" "frame g (amendment_by_number i n)"
  by (auto simp: frame_def tx_iff)

lemma keeps_contract_reads [keeps_intro]:
  "keeps P (contract_constraints oi c)" "keeps P (invoice_constraints oi v)" "keeps P (require_contract i)"
  "keeps P (get_active_for_client u)" "keeps P (get_for_period i a b)" "keeps P (amendment_by_number i n)"
  "keeps P (get_by_contract_and_product i q)"
  by (auto simp: keeps_def tx_iff get_by_contract_and_product_def)

lemma moves_contract_reads [moves_intro]:
  assumes "reflp R"
  shows "moves R (contract_constraints oi c)" "moves R (invoice_constraints oi v)" "moves R (require_contract i)"
    "moves R (get_active_for_client u)" "moves R (get_for_period i a b)" "moves R (amendment_by_number i n)"
    "moves R (get_by_contract_and_product i q)" "moves R (get_by_order_and_product i q)"
    "moves R (scalar_one_or_none rows)"
  using assms by (auto simp: moves_def reflp_def tx_iff get_by_contract_and_product_def)

lemma frame_contract_writes [frame_intro]:
  assumes "\<And>s f. g (contracts_update f s) = g s"
  shows "frame g (update_contract_row i f)" "(\<And>s i. g (s\<lparr>next_id := i\<rparr>) = g s) \<Longrightarrow> frame g (insert_contract d)"
  using assms unfolding update_contract_row_def insert_contract_def by (auto intro!: frame_intro)

lemma frame_invoice_writes [frame_intro]:
  assumes "\<And>s f. g (invoices_update f s) = g s"
  shows "frame g (update_invoice i f)" "(\<And>s i. g (s\<lparr>next_id := i\<rparr>) = g s) \<Longrightarrow> frame g (insert_invoice d)"
  using assms unfolding update_invoice_def insert_invoice_def by (auto intro!: frame_intro)

lemma frame_contract_log [frame_intro]:
  "(\<And>s f. g (contract_status_logs_update f s) = g s) \<Longrightarrow> (\<And>s i. g (s\<lparr>next_id := i\<rparr>) = g s)
   \<Longrightarrow> frame g (add_contract_status_log c a b u r)"
  unfolding add_contract_status_log_def by (auto intro!: frame_intro)

lemma frame_insert_amendment [frame_intro]:
  "(\<And>s f. g (contract_amendments_update f s) = g s) \<Longrightarrow> (\<And>s i. g (s\<lparr>next_id := i\<rparr>) = g s)
   \<Longrightarrow> frame g (insert_amendment d)"
  unfolding insert_amendment_def by (auto intro!: frame_intro)

section \<open>How contracts and invoices evolve\<close>

lemma contracts_evolve_preorder [moves_intro]: "reflp contracts_evolve" "transp contracts_evolve"
  using contract_status.table_preorder unfolding reflp_def transp_def contracts_evolve_def by meson+

lemma invoices_evolve_preorder [moves_intro]: "reflp invoices_evolve" "transp invoices_evolve"
  using invoice_status.table_preorder unfolding reflp_def transp_def invoices_evolve_def by meson+

lemma contracts_evolve_frame: "frame contracts m \<Longrightarrow> moves contracts_evolve m"
  using contract_status.table_preorder(1)
  by (auto intro!: moves_frame simp: contracts_evolve_def contracts_ok_def reflp_def)

lemma invoices_evolve_frame: "frame invoices m \<Longrightarrow> moves invoices_evolve m"
  using invoice_status.table_preorder(1)
  by (auto intro!: moves_frame simp: invoices_evolve_def invoices_ok_def reflp_def)

lemma contracts_evolve_update:
  assumes run: "update_contract_row i f s = Inr (x, s')"
    and le: "\<And>c now. contracts_ok s \<Longrightarrow> tbl_get i False (contracts s) = Some c \<Longrightarrow> contract_le c ((f c)\<lparr>updated_at := now\<rparr>)"
    and id: "\<And>c. row_id (f c) = row_id c"
  shows "contracts_evolve s s'"
  unfolding contracts_evolve_def
proof (intro impI conjI)
  assume ok: "contracts_ok s"
  let ?t = "contracts s"
  obtain old where old: "tbl_get i False ?t = Some old" "contract_constraints (Some i) (f old) s = Inr ((), s)"
      and s': "contracts s' = tbl_update (clock s) i f ?t"
    using run by (auto simp: tx_iff)
  have only: "c = old" if "c \<in> set ?t" "row_id c = i" for c
    using that ok tbl_get_SomeD [OF old(1)] by (auto simp: contracts_ok_def keys_distinct_def dest: distinct_key_eq)
  show "grows contract_le ?t (contracts s')"
    unfolding s' by (rule grows_update [OF contract_status.preorder(1)]) (use only le [OF ok old(1)] in auto)
  have "keys_distinct (contracts s')" using ok id by (simp add: s' keys_distinct_update contracts_ok_def)
  moreover have "one_live_per_client (contracts s')"
  proof -
    have live: "is_live ((f old)\<lparr>updated_at := n\<rparr>) = is_live (f old)"
        "con_client_id ((f old)\<lparr>updated_at := n\<rparr>) = con_client_id (f old)" for n
      by (simp_all add: is_live_def)
    have new: "is_live (f old) \<Longrightarrow> r \<in> set ?t \<Longrightarrow> row_id r \<noteq> i \<Longrightarrow> is_live r \<Longrightarrow> con_client_id r \<noteq> con_client_id (f old)" for r
      using old(2) by (auto simp: tx_iff)
    show ?thesis
      unfolding one_live_per_client_def s'
    proof (intro ballI impI)
      fix c c' assume "c \<in> set (tbl_update (clock s) i f ?t)" "c' \<in> set (tbl_update (clock s) i f ?t)"
        and l: "is_live c" "is_live c'" "con_client_id c = con_client_id c'"
      then obtain r r' where r: "r \<in> set ?t" "c = (if row_id r = i then (f r)\<lparr>updated_at := clock s\<rparr> else r)"
          "r' \<in> set ?t" "c' = (if row_id r' = i then (f r')\<lparr>updated_at := clock s\<rparr> else r')"
        by (auto simp: in_tbl_update)
      have same: "is_live a \<Longrightarrow> is_live b \<Longrightarrow> con_client_id a = con_client_id b \<Longrightarrow> row_id a = row_id b"
        if "a \<in> set ?t" "b \<in> set ?t" for a b
        using ok that unfolding one_live_per_client_def contracts_ok_def by blast
      show "row_id c = row_id c'"
      proof (cases "row_id r = i"; cases "row_id r' = i")
        assume "row_id r = i" "row_id r' \<noteq> i"
        with l r only [of r] new [of r'] show ?thesis by (simp add: live)
      next
        assume "row_id r \<noteq> i" "row_id r' = i"
        with l r only [of r'] new [of r] show ?thesis by (simp add: live)
      next
        assume "row_id r = i" "row_id r' = i"
        with r id show ?thesis by simp
      next
        assume "row_id r \<noteq> i" "row_id r' \<noteq> i"
        with r have "c = r" "c' = r'" by simp_all
        with same [OF r(1,3)] l show ?thesis by blast
      qed
    qed
  qed
  ultimately show "contracts_ok s'" by (simp add: contracts_ok_def)
qed

lemma contracts_evolve_insert:
  assumes "insert_contract d s = Inr (c, s')" "is_active d"
  shows "contracts_evolve s s'"
proof -
  have c: "c = stamp (next_id s) (clock s) d" "contracts s' = tbl_add c (contracts s)"
      "\<not> tbl_has (row_id c) (contracts s)" "contract_constraints None d s = Inr ((), s)"
    using assms(1) by (auto simp: insert_contract_def tx_iff)
  have "is_live c = is_live d" "con_client_id c = con_client_id d"
    using assms(2) by (simp_all add: c(1) stamp_def is_live_def)
  then have new: "is_live c \<Longrightarrow> r \<in> set (contracts s) \<Longrightarrow> is_live r \<Longrightarrow> con_client_id r \<noteq> con_client_id c" for r
    using c(4) by (simp add: tx_iff)
  have "one_live_per_client (tbl_add c (contracts s))" if "one_live_per_client (contracts s)"
    using that new unfolding one_live_per_client_def set_tbl_add by (metis insertE)
  then show ?thesis
    using c(2,3) grows_add [OF contract_status.preorder(1)]
    by (auto simp: contracts_evolve_def contracts_ok_def keys_distinct_add)
qed

lemma invoices_evolve_update:
  assumes run: "update_invoice i f s = Inr (x, s')"
    and le: "\<And>v now. invoices_ok s \<Longrightarrow> tbl_get i False (invoices s) = Some v \<Longrightarrow> invoice_le v ((f v)\<lparr>updated_at := now\<rparr>)"
    and id: "\<And>v. row_id (f v) = row_id v"
  shows "invoices_evolve s s'"
  unfolding invoices_evolve_def
proof (intro impI conjI)
  assume ok: "invoices_ok s"
  obtain old where old: "tbl_get i False (invoices s) = Some old"
      and s': "invoices s' = tbl_update (clock s) i f (invoices s)"
    using run by (auto simp: tx_iff)
  have only: "v = old" if "v \<in> set (invoices s)" "row_id v = i" for v
    using that ok tbl_get_SomeD [OF old] by (auto simp: invoices_ok_def keys_distinct_def dest: distinct_key_eq)
  show "grows invoice_le (invoices s) (invoices s')"
    unfolding s' by (rule grows_update [OF invoice_status.preorder(1)]) (use only le [OF ok old] in auto)
  show "invoices_ok s'" using ok id by (simp add: s' keys_distinct_update invoices_ok_def)
qed

lemma invoices_evolve_insert: "moves invoices_evolve (insert_invoice d)"
proof (rule movesI)
  fix s v s' assume "insert_invoice d s = Inr (v, s')"
  then have "invoices s' = tbl_add v (invoices s)" "\<not> tbl_has (row_id v) (invoices s)"
    by (auto simp: insert_invoice_def tx_iff)
  then show "invoices_evolve s s'"
    using grows_add [OF invoice_status.preorder(1)]
    by (auto simp: invoices_evolve_def invoices_ok_def keys_distinct_add)
qed

section \<open>The three life cycles together\<close>

definition db_evolve :: "db \<Rightarrow> db \<Rightarrow> bool" where
  "db_evolve s s' \<longleftrightarrow> orders_evolve s s' \<and> contracts_evolve s s' \<and> invoices_evolve s s'"

lemma db_evolve_preorder [moves_intro]: "reflp db_evolve" "transp db_evolve"
  using orders_evolve_refl orders_evolve_trans contracts_evolve_preorder invoices_evolve_preorder
  unfolding reflp_def transp_def db_evolve_def by meson+

lemma moves_db:
  "moves orders_evolve m \<Longrightarrow> moves contracts_evolve m \<Longrightarrow> moves invoices_evolve m \<Longrightarrow> moves db_evolve m"
  by (auto simp: moves_def db_evolve_def)

lemmas moves_db_orders = moves_db [OF _ contracts_evolve_frame invoices_evolve_frame]
lemmas moves_db_contracts = moves_db [OF orders_evolve_frame _ invoices_evolve_frame]
lemmas moves_db_invoices = moves_db [OF orders_evolve_frame contracts_evolve_frame]
lemmas moves_db_other = moves_db [OF orders_evolve_frame contracts_evolve_frame invoices_evolve_frame]

lemma db_evolve_order_tables [moves_intro]:
  "order_cosmetic g \<Longrightarrow> moves db_evolve (update_order i g)"
  "phase_ok (order_phase d) \<Longrightarrow> moves db_evolve (insert_order d)"
  "moves db_evolve (bulk_cancel_by_contract c)" "moves db_evolve (release_order_quantities r)"
  by (rule moves_db_orders; (intro moves_intro frame_intro)?; simp)+

lemma db_evolve_other_tables [moves_intro]:
  "moves db_evolve (add_order_items ds)" "moves db_evolve (insert_order_item it)"
  "moves db_evolve (update_quantity i q)" "moves db_evolve (delete_by_order_and_product i p)"
  "moves db_evolve (log_transition i a b u re)"
  "moves db_evolve (increment_quantities_used incs)" "moves db_evolve (decrement_quantities_used c decs)"
  "moves db_evolve (check_and_reserve_quantities c items locked)"
  "moves db_evolve (insert_price_item pi)" "moves db_evolve (update_price_item i g)"
  "moves db_evolve (delete_price_item i)" "moves db_evolve (insert_amendment am)"
  "moves db_evolve (add_contract_status_log c ca cb u re)"
  "moves db_evolve (insert_transfer tr)" "moves db_evolve (insert_transfer_item ti)"
  "moves db_evolve (insert_stock_transaction st)" "moves db_evolve (insert_transaction tx)"
  by (rule moves_db_other; intro frame_intro; simp)+

lemma db_evolve_contract_tables [moves_intro]:
  "is_active d \<Longrightarrow> moves db_evolve (insert_contract d)" "moves db_evolve (insert_invoice v)"
proof -
  show "is_active d \<Longrightarrow> moves db_evolve (insert_contract d)"
    by (rule moves_db_contracts) (auto intro!: frame_intro movesI intro: contracts_evolve_insert)
  show "moves db_evolve (insert_invoice v)"
    by (rule moves_db_invoices) (auto intro!: frame_intro invoices_evolve_insert)
qed

section \<open>Each table's invariant and the statements on the other tables\<close>

lemma frame_post [frame_intro]:
  assumes "\<And>s i. g (s\<lparr>next_id := i\<rparr>) = g s"
  shows "(\<And>s f. g (stock_transfer_items_update f s) = g s) \<Longrightarrow> frame g (post_items tr items)"
    "(\<And>s f. g (inventory_balances_update f s) = g s) \<Longrightarrow> (\<And>s f. g (stock_transactions_update f s) = g s)
     \<Longrightarrow> frame g (post_stock tr items)"
  using assms unfolding post_items_def post_stock_def by (auto intro!: frame_intro)

lemma keeps_fin_tables [keeps_intro]:
  "keeps fin_explained (insert_order ord)" "keeps fin_explained (update_order i fo)"
  "keeps fin_explained (repo_update_status i st)" "keeps fin_explained (bulk_cancel_by_contract i)"
  "keeps fin_explained (insert_order_item oit)" "keeps fin_explained (add_order_items oits)"
  "keeps fin_explained (update_quantity i q)" "keeps fin_explained (delete_by_order_and_product i j)"
  "keeps fin_explained (log_transition i ost nst u re)"
  "keeps fin_explained (increment_quantities_used incs)"
  "keeps fin_explained (decrement_quantities_used i decs)"
  "keeps fin_explained (check_and_reserve_quantities i items locked)"
  "keeps fin_explained (release_order_quantities ord)" "keeps fin_explained (insert_price_item pi)"
  "keeps fin_explained (update_price_item i fp)" "keeps fin_explained (delete_price_item i)"
  "keeps fin_explained (insert_contract con)" "keeps fin_explained (update_contract_row i fc)"
  "keeps fin_explained (insert_invoice ivc)" "keeps fin_explained (update_invoice i fi)"
  "keeps fin_explained (insert_amendment am)"
  "keeps fin_explained (add_contract_status_log i ocs ncs u re)"
  "keeps fin_explained (insert_transfer tr)" "keeps fin_explained (insert_transfer_item ti)"
  "keeps fin_explained (insert_stock_transaction stx)" "keeps fin_explained (post_items tr items)"
  "keeps fin_explained (post_stock tr items)"
  by (rule fin_explained_frame; intro frame_intro; simp)+

lemma keeps_stock_tables [keeps_intro]:
  "keeps stock_explained (insert_order ord)" "keeps stock_explained (update_order i fo)"
  "keeps stock_explained (repo_update_status i st)" "keeps stock_explained (bulk_cancel_by_contract i)"
  "keeps stock_explained (insert_order_item oit)" "keeps stock_explained (add_order_items oits)"
  "keeps stock_explained (update_quantity i q)"
  "keeps stock_explained (delete_by_order_and_product i j)"
  "keeps stock_explained (log_transition i ost nst u re)"
  "keeps stock_explained (increment_quantities_used incs)"
  "keeps stock_explained (decrement_quantities_used i decs)"
  "keeps stock_explained (check_and_reserve_quantities i items locked)"
  "keeps stock_explained (release_order_quantities ord)" "keeps stock_explained (insert_price_item pi)"
  "keeps stock_explained (update_price_item i fp)" "keeps stock_explained (delete_price_item i)"
  "keeps stock_explained (insert_contract con)" "keeps stock_explained (update_contract_row i fc)"
  "keeps stock_explained (insert_invoice ivc)" "keeps stock_explained (update_invoice i fi)"
  "keeps stock_explained (insert_amendment am)"
  "keeps stock_explained (add_contract_status_log i ocs ncs u re)"
  "keeps stock_explained (insert_transaction tx)"
  by (rule stock_explained_frame; intro frame_intro; simp)+

lemma keeps_quota_tables [keeps_intro]:
  "keeps quotas_ok (insert_contract con)" "keeps quotas_ok (update_contract_row i fc)"
  "keeps quotas_ok (insert_invoice ivc)" "keeps quotas_ok (update_invoice i fi)"
  "keeps quotas_ok (insert_amendment am)" "keeps quotas_ok (add_contract_status_log i ocs ncs u re)"
  "keeps quotas_ok (insert_transfer tr)" "keeps quotas_ok (insert_transfer_item ti)"
  "keeps quotas_ok (insert_stock_transaction stx)" "keeps quotas_ok (post_items tr items)"
  "keeps quotas_ok (post_stock tr items)" "keeps quotas_ok (insert_transaction tx)"
  by (rule quotas_ok_frame; intro frame_intro; simp)+

lemma db_evolve_post [moves_intro]:
  "moves db_evolve (post_items tr items)" "moves db_evolve (post_stock tr items)"
  by (rule moves_db_other; intro frame_intro; simp)+

end
