(* ===== verification/Contracts.thy ===== *)
theory Contracts
  imports ContractTables Calendar Samples
begin

text \<open>
  \<open>ContractService\<close> (\<open>src/modules/contracts/services.py\<close>): the life of a contract, its price
  list, its invoices, amendments and the two jobs. What is only logged is left out.
\<close>

section \<open>The life of a contract\<close>

record contract_create =
  cc_number :: string
  cc_start_date :: date
  cc_end_date :: "date option"
  cc_payment_due_days :: int
  cc_legal_name :: string
  cc_inn :: string
  cc_notes :: "string option"

definition contract_draft :: "uuid \<Rightarrow> contract_create \<Rightarrow> contract_row" where
  "contract_draft client_id dto =
     \<lparr>row_id = 0, is_active = True, created_at = 0, updated_at = 0, con_number = cc_number dto,
      con_client_id = client_id, con_status = CS_DRAFT, con_start_date = cc_start_date dto,
      con_end_date = cc_end_date dto, con_payment_due_days = cc_payment_due_days dto,
      con_legal_name = cc_legal_name dto, con_inn = cc_inn dto, con_notes = cc_notes dto,
      con_signed_at = None, con_signed_by_id = None, con_suspended_at = None,
      con_suspension_reason = None, con_terminated_at = None, con_termination_reason = None\<rparr>"

definition create_contract_body :: "uuid \<Rightarrow> contract_create \<Rightarrow> contract_row dbtx" where
  "create_contract_body client_id dto =
     tx_bind (get_active_for_client client_id) (\<lambda>existing.
     case existing of
       Some c \<Rightarrow> tx_raise (ContractErr (ContractAlreadyActiveError client_id (row_id c)))
     | None \<Rightarrow> insert_contract (contract_draft client_id dto))"

definition create_contract where
  "create_contract client_id dto = with_uow (create_contract_body client_id dto)"

text \<open>\<open>existing and existing.id != contract_id\<close>, in \<open>activate_contract\<close> and \<open>reinstate_contract\<close>.\<close>

definition no_other_active :: "contract_row \<Rightarrow> unit dbtx" where
  "no_other_active c =
     tx_bind (get_active_for_client (con_client_id c)) (\<lambda>existing.
     case existing of
       None \<Rightarrow> tx_ret ()
     | Some e \<Rightarrow> tx_raise_if (row_id e \<noteq> row_id c)
         (ContractErr (ContractAlreadyActiveError (con_client_id c) (row_id e))))"

definition activate_contract_body :: "uuid \<Rightarrow> uuid \<Rightarrow> contract_row dbtx" where
  "activate_contract_body contract_id signed_by_id =
     tx_bind (require_contract contract_id) (\<lambda>c.
     tx_bind (tx_raise_if (con_status c \<noteq> CS_DRAFT)
       (ContractErr (ContractStatusTransitionError contract_id (con_status c) CS_ACTIVE))) (\<lambda>_.
     tx_bind (no_other_active c) (\<lambda>_.
     tx_bind (tx_get clock) (\<lambda>now.
     tx_bind (update_contract_row contract_id (\<lambda>r. r\<lparr>con_status := CS_ACTIVE, con_signed_at := Some now,
       con_signed_by_id := Some signed_by_id\<rparr>)) (\<lambda>updated.
     tx_bind (add_contract_status_log contract_id (Some (con_status c)) CS_ACTIVE (Some signed_by_id) None) (\<lambda>_.
     tx_ret updated))))))"

definition activate_contract where
  "activate_contract contract_id signed_by_id = with_uow (activate_contract_body contract_id signed_by_id)"

text \<open>
  \<open>_cancel_inflight_orders\<close> in three parts: the orders are cancelled, what they had reserved goes back
  to the price list, and each cancellation gets its reason and its log entry.
\<close>

definition clear_reserved :: "uuid list \<Rightarrow> unit dbtx" where
  "clear_reserved ids = tx_for (\<lambda>i. update_order i (\<lambda>r. r\<lparr>ord_quantities_reserved := False\<rparr>)) ids"

definition release_cancelled :: "uuid \<Rightarrow> (uuid \<times> order_status \<times> bool) list \<Rightarrow> unit dbtx" where
  "release_cancelled contract_id cancelled =
     (let reserved_ids = map fst (filter (\<lambda>(i, st, had_reserved). had_reserved) cancelled) in
      if reserved_ids = [] then tx_ret ()
      else
        tx_bind (tx_get (get_by_orders reserved_ids)) (\<lambda>items.
        let product_totals = requested_quantities (map (\<lambda>it. (oit_product_id it, oit_quantity it)) items) in
        tx_bind (tx_when (product_totals \<noteq> []) (decrement_quantities_used contract_id product_totals)) (\<lambda>_.
        clear_reserved reserved_ids)))"

definition note_cancelled :: "string \<Rightarrow> (uuid \<times> order_status \<times> bool) list \<Rightarrow> unit dbtx" where
  "note_cancelled reason cancelled =
     tx_for (\<lambda>(i, old_status, _).
       tx_bind (update_order i (\<lambda>r. r\<lparr>ord_cancellation_reason := Some reason\<rparr>)) (\<lambda>_.
       log_transition i (Some old_status) OS_CANCELLED None (Some reason))) cancelled"

definition cancel_inflight_orders :: "uuid \<Rightarrow> string \<Rightarrow> unit dbtx" where
  "cancel_inflight_orders contract_id reason =
     tx_bind (bulk_cancel_by_contract contract_id) (\<lambda>cancelled.
     tx_bind (release_cancelled contract_id cancelled) (\<lambda>_.
     note_cancelled reason cancelled))"

lemmas cancel_inflight_defs = cancel_inflight_orders_def release_cancelled_def note_cancelled_def
  clear_reserved_def Let_def

definition suspend_contract_body :: "uuid \<Rightarrow> string \<Rightarrow> uuid option \<Rightarrow> contract_row dbtx" where
  "suspend_contract_body contract_id reason changed_by_id =
     tx_bind (require_contract contract_id) (\<lambda>c.
     tx_bind (tx_raise_if (con_status c \<noteq> CS_ACTIVE)
       (ContractErr (ContractStatusTransitionError contract_id (con_status c) CS_SUSPENDED))) (\<lambda>_.
     tx_bind (tx_get clock) (\<lambda>now.
     tx_bind (update_contract_row contract_id (\<lambda>r. r\<lparr>con_status := CS_SUSPENDED, con_suspended_at := Some now,
       con_suspension_reason := Some reason\<rparr>)) (\<lambda>updated.
     tx_bind (cancel_inflight_orders contract_id ''Priostanovka dogovora'') (\<lambda>_.
     tx_bind (add_contract_status_log contract_id (Some (con_status c)) CS_SUSPENDED changed_by_id (Some reason)) (\<lambda>_.
     tx_ret updated))))))"

definition suspend_contract where
  "suspend_contract contract_id reason changed_by_id =
     with_uow (suspend_contract_body contract_id reason changed_by_id)"

definition reinstate_contract_body :: "uuid \<Rightarrow> uuid option \<Rightarrow> contract_row dbtx" where
  "reinstate_contract_body contract_id changed_by_id =
     tx_bind (require_contract contract_id) (\<lambda>c.
     tx_bind (tx_raise_if (con_status c \<noteq> CS_SUSPENDED)
       (ContractErr (ContractStatusTransitionError contract_id (con_status c) CS_ACTIVE))) (\<lambda>_.
     tx_bind (no_other_active c) (\<lambda>_.
     tx_bind (update_contract_row contract_id (\<lambda>r. r\<lparr>con_status := CS_ACTIVE, con_suspended_at := None,
       con_suspension_reason := None\<rparr>)) (\<lambda>updated.
     tx_bind (add_contract_status_log contract_id (Some (con_status c)) CS_ACTIVE changed_by_id None) (\<lambda>_.
     tx_ret updated)))))"

definition reinstate_contract where
  "reinstate_contract contract_id changed_by_id = with_uow (reinstate_contract_body contract_id changed_by_id)"

definition terminate_contract_body :: "uuid \<Rightarrow> string \<Rightarrow> uuid option \<Rightarrow> contract_row dbtx" where
  "terminate_contract_body contract_id reason changed_by_id =
     tx_bind (require_contract contract_id) (\<lambda>c.
     tx_bind (tx_raise_if (con_status c \<notin> {CS_ACTIVE, CS_SUSPENDED})
       (ContractErr (ContractStatusTransitionError contract_id (con_status c) CS_TERMINATED))) (\<lambda>_.
     tx_bind (tx_get clock) (\<lambda>now.
     tx_bind (update_contract_row contract_id (\<lambda>r. r\<lparr>con_status := CS_TERMINATED, con_terminated_at := Some now,
       con_termination_reason := Some reason\<rparr>)) (\<lambda>updated.
     tx_bind (cancel_inflight_orders contract_id ''Rastorzhenie dogovora'') (\<lambda>_.
     tx_bind (add_contract_status_log contract_id (Some (con_status c)) CS_TERMINATED changed_by_id (Some reason)) (\<lambda>_.
     tx_ret updated))))))"

definition terminate_contract where
  "terminate_contract contract_id reason changed_by_id =
     with_uow (terminate_contract_body contract_id reason changed_by_id)"

text \<open>A field of \<open>ContractUpdate\<close> is unset (\<open>None\<close>) or set, to \<open>null\<close> too.\<close>

record contract_update =
  cu_payment_due_days :: "int option option"
  cu_end_date :: "date option option"
  cu_notes :: "string option option"

definition apply_contract_update :: "contract_update \<Rightarrow> contract_row \<Rightarrow> contract_row" where
  "apply_contract_update u c = c
     \<lparr>con_payment_due_days := (case cu_payment_due_days u of Some (Some n) \<Rightarrow> n | _ \<Rightarrow> con_payment_due_days c),
      con_end_date := (case cu_end_date u of None \<Rightarrow> con_end_date c | Some d \<Rightarrow> d),
      con_notes := (case cu_notes u of None \<Rightarrow> con_notes c | Some n \<Rightarrow> n)\<rparr>"

definition update_contract_body :: "uuid \<Rightarrow> contract_update \<Rightarrow> contract_row dbtx" where
  "update_contract_body contract_id u =
     tx_bind (require_contract contract_id) (\<lambda>c.
     if cu_payment_due_days u = None \<and> cu_end_date u = None \<and> cu_notes u = None then tx_ret c
     else
       tx_bind (tx_raise_if (cu_payment_due_days u = Some None) (DbErr (NotNullViolation ''contracts''))) (\<lambda>_.
       update_contract_row contract_id (apply_contract_update u)))"

definition update_contract where
  "update_contract contract_id u = with_uow (update_contract_body contract_id u)"

section \<open>The price list\<close>

definition set_price_item_body :: "uuid \<Rightarrow> uuid \<Rightarrow> int \<Rightarrow> int \<Rightarrow> unit dbtx" where
  "set_price_item_body contract_id product_id price quantity =
     tx_bind (get_by_contract_and_product contract_id product_id) (\<lambda>existing.
     case existing of
       Some pi \<Rightarrow>
         tx_bind (tx_raise_if (quantity > 0 \<and> quantity < cpi_quantity_used pi)
           (ContractErr (PriceItemHasUsageError contract_id product_id (cpi_quantity_used pi)))) (\<lambda>_.
         update_price_item (row_id pi) (\<lambda>p. p\<lparr>cpi_price := price, cpi_quantity := quantity\<rparr>))
     | None \<Rightarrow>
         tx_bind (insert_price_item (price_item_draft contract_id product_id price quantity)) (\<lambda>_. tx_ret ()))"

definition set_price_item where
  "set_price_item contract_id product_id price quantity =
     with_uow (set_price_item_body contract_id product_id price quantity)"

definition remove_price_item_body :: "uuid \<Rightarrow> uuid \<Rightarrow> unit dbtx" where
  "remove_price_item_body contract_id product_id =
     tx_bind (get_by_contract_and_product contract_id product_id) (\<lambda>pi.
     tx_bind (tx_require pi (ContractErr (ContractPriceItemNotFoundError contract_id product_id))) (\<lambda>pi.
     tx_bind (tx_raise_if (cpi_quantity_used pi > 0)
       (ContractErr (PriceItemHasUsageError contract_id product_id (cpi_quantity_used pi)))) (\<lambda>_.
     delete_price_item (row_id pi))))"

definition remove_price_item where
  "remove_price_item contract_id product_id = with_uow (remove_price_item_body contract_id product_id)"

section \<open>Queries\<close>

definition get_active_contract where
  "get_active_contract client_id = with_uow (get_active_for_client client_id)"

definition get_contract_with_prices where
  "get_contract_with_prices contract_id = with_uow
     (tx_bind (tx_get (get_with_price_items contract_id)) (\<lambda>c.
      tx_require c (ContractErr (ContractNotFoundError contract_id))))"

definition list_contracts :: "contract_status option \<Rightarrow> uuid option \<Rightarrow> nat \<Rightarrow> nat \<Rightarrow> db \<Rightarrow> contract_row list" where
  "list_contracts status client_id skip limit s = snd (get_multi_with_client status client_id skip limit s)"

definition list_contract_orders where
  "list_contract_orders contract_id skip limit = with_uow
     (tx_bind (require_contract contract_id) (\<lambda>_.
      tx_get (repo_search_orders skip limit (order_search_all\<lparr>osq_contract_id := Some contract_id\<rparr>))))"

definition list_status_history where
  "list_status_history contract_id = with_uow
     (tx_bind (require_contract contract_id) (\<lambda>_. tx_get (logs_by_contract contract_id)))"

section \<open>Invoices\<close>

text \<open>\<open>{n:0wd}\<close>: padded with zeros to \<open>w\<close> characters.\<close>

definition padded :: "nat \<Rightarrow> nat \<Rightarrow> string" where
  "padded w n = replicate (w - length (decimal n)) (CHR ''0'') @ decimal n"

definition invoice_number :: "string \<Rightarrow> date \<Rightarrow> nat \<Rightarrow> string" where
  "invoice_number contract_number period_from sequence =
     (case civil_of_date period_from of (y, m, _) \<Rightarrow>
        contract_number @ ''/'' @ decimal (nat y) @ ''-'' @ padded 2 (nat m) @ ''-'' @ padded 3 sequence)"

definition invoice_draft :: "uuid \<Rightarrow> string \<Rightarrow> date \<Rightarrow> date \<Rightarrow> int \<Rightarrow> date \<Rightarrow> invoice_row" where
  "invoice_draft contract_id num period_from period_to amount due =
     \<lparr>row_id = 0, is_active = True, created_at = 0, updated_at = 0, ivc_number = num,
      ivc_contract_id = contract_id, ivc_status = IS_DRAFT, ivc_period_from = period_from,
      ivc_period_to = period_to, ivc_amount = amount, ivc_due_date = Some due, ivc_issued_at = None,
      ivc_paid_at = None\<rparr>"

definition generate_invoice_body :: "uuid \<Rightarrow> date \<Rightarrow> date \<Rightarrow> invoice_row dbtx" where
  "generate_invoice_body contract_id period_from period_to =
     tx_bind (require_contract contract_id) (\<lambda>c.
     tx_bind (get_for_period contract_id period_from period_to) (\<lambda>duplicate.
     tx_bind (tx_raise_if (duplicate \<noteq> None)
       (ContractErr (DuplicateInvoicePeriodError contract_id period_from period_to))) (\<lambda>_.
     tx_bind (tx_get (get_delivered_by_contract contract_id period_from period_to)) (\<lambda>delivered.
     tx_bind (tx_get (invoices_by_contract contract_id)) (\<lambda>existing.
     insert_invoice (invoice_draft contract_id
       (invoice_number (con_number c) period_from (length existing + 1)) period_from period_to
       (sum_list (map ord_total_amount delivered)) (period_to + con_payment_due_days c)))))))"

definition generate_invoice where
  "generate_invoice contract_id period_from period_to =
     with_uow (generate_invoice_body contract_id period_from period_to)"

definition list_invoices where
  "list_invoices contract_id = with_uow
     (tx_bind (require_contract contract_id) (\<lambda>_. tx_get (invoices_by_contract contract_id)))"

definition require_invoice :: "uuid \<Rightarrow> uuid \<Rightarrow> invoice_row dbtx" where
  "require_invoice contract_id invoice_id =
     tx_bind (tx_get (\<lambda>s. tbl_get invoice_id True (invoices s))) (\<lambda>v.
     tx_bind (tx_require v (ContractErr (InvoiceNotFoundError invoice_id))) (\<lambda>v.
     tx_bind (tx_raise_if (ivc_contract_id v \<noteq> contract_id) (ContractErr (InvoiceNotFoundError invoice_id))) (\<lambda>_.
     tx_ret v)))"

definition get_invoice where
  "get_invoice contract_id invoice_id = with_uow (require_invoice contract_id invoice_id)"

text \<open>\<open>list(allowed)\<close> of a Python set has no fixed order; the model lists it as the source writes it.\<close>

definition check_invoice_status :: "invoice_row \<Rightarrow> invoice_status list \<Rightarrow> unit dbtx" where
  "check_invoice_status v allowed =
     tx_raise_if (ivc_status v \<notin> set allowed)
       (ContractErr (InvalidInvoiceTransitionError (row_id v) (ivc_status v) allowed))"

definition issue_invoice_body :: "uuid \<Rightarrow> uuid \<Rightarrow> invoice_row dbtx" where
  "issue_invoice_body contract_id invoice_id =
     tx_bind (require_invoice contract_id invoice_id) (\<lambda>v.
     tx_bind (check_invoice_status v [IS_DRAFT]) (\<lambda>_.
     tx_bind (tx_get clock) (\<lambda>now.
     update_invoice invoice_id (\<lambda>r. r\<lparr>ivc_status := IS_ISSUED, ivc_issued_at := Some now\<rparr>))))"

definition issue_invoice where
  "issue_invoice contract_id invoice_id = with_uow (issue_invoice_body contract_id invoice_id)"

definition mark_invoice_paid_body :: "uuid \<Rightarrow> uuid \<Rightarrow> invoice_row dbtx" where
  "mark_invoice_paid_body contract_id invoice_id =
     tx_bind (require_invoice contract_id invoice_id) (\<lambda>v.
     tx_bind (check_invoice_status v [IS_ISSUED, IS_OVERDUE]) (\<lambda>_.
     tx_bind (tx_get clock) (\<lambda>now.
     update_invoice invoice_id (\<lambda>r. r\<lparr>ivc_status := IS_PAID, ivc_paid_at := Some now\<rparr>))))"

definition mark_invoice_paid where
  "mark_invoice_paid contract_id invoice_id = with_uow (mark_invoice_paid_body contract_id invoice_id)"

definition cancel_invoice_body :: "uuid \<Rightarrow> uuid \<Rightarrow> invoice_row dbtx" where
  "cancel_invoice_body contract_id invoice_id =
     tx_bind (require_invoice contract_id invoice_id) (\<lambda>v.
     tx_bind (check_invoice_status v [IS_DRAFT, IS_ISSUED]) (\<lambda>_.
     update_invoice invoice_id (\<lambda>r. r\<lparr>ivc_status := IS_CANCELLED\<rparr>)))"

definition cancel_invoice where
  "cancel_invoice contract_id invoice_id = with_uow (cancel_invoice_body contract_id invoice_id)"

record reconciliation =
  rec_contract_id :: uuid
  rec_contract_number :: string
  rec_client_name :: string
  rec_orders :: "(uuid \<times> timestamp \<times> int) list"
  rec_total_billed :: int
  rec_payments :: "(uuid \<times> timestamp \<times> int \<times> string) list"
  rec_total_paid :: int
  rec_balance :: int

definition get_reconciliation_body :: "uuid \<Rightarrow> date \<Rightarrow> date \<Rightarrow> reconciliation dbtx" where
  "get_reconciliation_body contract_id date_from date_to =
     tx_bind (tx_get (get_with_client contract_id)) (\<lambda>c.
     tx_bind (tx_require c (ContractErr (ContractNotFoundError contract_id))) (\<lambda>(c, client).
     tx_bind (tx_get (get_delivered_by_contract contract_id date_from date_to)) (\<lambda>delivered.
     tx_bind (tx_get (get_bank_payments_for_client (con_client_id c) (midnight date_from) (midnight (date_to + 1))))
       (\<lambda>payments.
     let billed = sum_list (map ord_total_amount delivered); paid = sum_list (map txn_amount payments) in
     tx_ret \<lparr>rec_contract_id = row_id c, rec_contract_number = con_number c,
       rec_client_name = (case client of None \<Rightarrow> '''' | Some u \<Rightarrow> usr_username u),
       rec_orders = map (\<lambda>r. (row_id r, created_at r, ord_total_amount r)) delivered, rec_total_billed = billed,
       rec_payments = map (\<lambda>t. (row_id t, created_at t, txn_amount t, txn_reason t)) payments,
       rec_total_paid = paid, rec_balance = billed - paid\<rparr>))))"

definition get_reconciliation where
  "get_reconciliation contract_id date_from date_to =
     with_uow (get_reconciliation_body contract_id date_from date_to)"

section \<open>Amendments\<close>

definition create_amendment_body ::
  "uuid \<Rightarrow> string \<Rightarrow> string \<Rightarrow> date \<Rightarrow> uuid option \<Rightarrow> amendment_row dbtx" where
  "create_amendment_body contract_id num description effective_date created_by_id =
     tx_bind (require_contract contract_id) (\<lambda>_.
     tx_bind (amendment_by_number contract_id num) (\<lambda>existing.
     tx_bind (tx_raise_if (existing \<noteq> None) (ContractErr (DuplicateAmendmentNumberError contract_id num))) (\<lambda>_.
     insert_amendment \<lparr>row_id = 0, is_active = True, created_at = 0, updated_at = 0,
       amd_contract_id = contract_id, amd_number = num, amd_description = description,
       amd_effective_date = effective_date, amd_created_by_id = created_by_id\<rparr>)))"

definition create_amendment where
  "create_amendment contract_id num description effective_date created_by_id =
     with_uow (create_amendment_body contract_id num description effective_date created_by_id)"

definition list_amendments where
  "list_amendments contract_id = with_uow
     (tx_bind (require_contract contract_id) (\<lambda>_. tx_get (amendments_by_contract contract_id)))"

section \<open>Jobs\<close>

definition mark_overdue :: "invoice_row list \<Rightarrow> unit dbtx" where
  "mark_overdue candidates =
     tx_for (\<lambda>v. tx_bind (update_invoice (row_id v) (\<lambda>r. r\<lparr>ivc_status := IS_OVERDUE\<rparr>)) (\<lambda>_. tx_ret ())) candidates"

definition run_overdue_job_body :: "nat dbtx" where
  "run_overdue_job_body =
     tx_bind (tx_get get_overdue_candidates) (\<lambda>candidates.
     tx_bind (mark_overdue candidates) (\<lambda>_.
     tx_ret (length candidates)))"

definition run_overdue_job where
  "run_overdue_job = with_uow run_overdue_job_body"

definition expire_contract :: "contract_row \<Rightarrow> unit dbtx" where
  "expire_contract c =
     tx_bind (cancel_inflight_orders (row_id c) ''Istek srok deystviya dogovora'') (\<lambda>_.
     tx_bind (update_contract_row (row_id c) (\<lambda>r. r\<lparr>con_status := CS_EXPIRED\<rparr>)) (\<lambda>_.
     add_contract_status_log (row_id c) (Some CS_ACTIVE) CS_EXPIRED None (Some ''Istek srok deystviya dogovora'')))"

definition run_expire_job_body :: "nat dbtx" where
  "run_expire_job_body =
     tx_bind (tx_get get_expirable) (\<lambda>candidates.
     tx_bind (tx_for expire_contract candidates) (\<lambda>_.
     tx_ret (length candidates)))"

definition run_expire_job where
  "run_expire_job = with_uow run_expire_job_body"

section \<open>The invariants are kept\<close>

lemma require_invoice_iff [tx_iff]:
  "require_invoice c i s = Inr (v, s') \<longleftrightarrow> s' = s \<and> tbl_get i True (invoices s) = Some v \<and> ivc_contract_id v = c"
  by (auto simp: require_invoice_def tx_iff)

lemma check_invoice_status_iff [tx_iff]:
  "check_invoice_status v sts s = Inr (x, s') \<longleftrightarrow> s' = s \<and> ivc_status v \<in> set sts"
  by (auto simp: check_invoice_status_def tx_iff)

lemma no_other_active_iff [tx_iff]:
  "no_other_active c s = Inr (x, s') \<longleftrightarrow> s' = s \<and>
     (let rows = filter (\<lambda>e. con_client_id e = con_client_id c \<and> is_live e) (contracts s)
      in rows = [] \<or> (\<exists>e. rows = [e] \<and> row_id e = row_id c))"
  unfolding no_other_active_def tx_bind_iff get_active_for_client_iff Let_def
  by (auto simp: tx_iff split: option.splits)

lemma contract_checks_keep [keeps_intro]:
  "keeps P (require_invoice i j)" "keeps P (check_invoice_status v sts)" "keeps P (no_other_active c)"
  by (auto simp: keeps_def tx_iff)

lemma frame_contract_checks [frame_intro]:
  "frame g (require_invoice i j)" "frame g (check_invoice_status v sts)" "frame g (no_other_active c)"
  by (auto simp: frame_def tx_iff)

lemma moves_contract_checks [moves_intro]:
  assumes "reflp R"
  shows "moves R (require_invoice i j)" "moves R (check_invoice_status v sts)" "moves R (no_other_active c)"
  using assms by (auto simp: moves_def reflp_def tx_iff)

lemmas contract_bodies = create_contract_body_def activate_contract_body_def suspend_contract_body_def
  reinstate_contract_body_def terminate_contract_body_def update_contract_body_def set_price_item_body_def
  remove_price_item_body_def generate_invoice_body_def issue_invoice_body_def mark_invoice_paid_body_def
  cancel_invoice_body_def create_amendment_body_def run_overdue_job_body_def mark_overdue_def
  run_expire_job_body_def expire_contract_def

lemma keeps_cancel_inflight_orders [keeps_intro]:
  "keeps fin_explained (cancel_inflight_orders c re)" "keeps stock_explained (cancel_inflight_orders c re)"
  "keeps quotas_ok (cancel_inflight_orders c re)"
  unfolding cancel_inflight_defs by (intro keeps_intro)+

lemma contract_services_keep_ledgers [keeps_intro]:
  "keeps fin_explained (create_contract_body u cc)" "keeps stock_explained (create_contract_body u cc)"
  "keeps fin_explained (activate_contract_body c u)" "keeps stock_explained (activate_contract_body c u)"
  "keeps fin_explained (suspend_contract_body c re uo)" "keeps stock_explained (suspend_contract_body c re uo)"
  "keeps fin_explained (reinstate_contract_body c uo)" "keeps stock_explained (reinstate_contract_body c uo)"
  "keeps fin_explained (terminate_contract_body c re uo)" "keeps stock_explained (terminate_contract_body c re uo)"
  "keeps fin_explained (update_contract_body c cu)" "keeps stock_explained (update_contract_body c cu)"
  "keeps fin_explained (set_price_item_body c p a b)" "keeps stock_explained (set_price_item_body c p a b)"
  "keeps fin_explained (remove_price_item_body c p)" "keeps stock_explained (remove_price_item_body c p)"
  "keeps fin_explained (generate_invoice_body c a b)" "keeps stock_explained (generate_invoice_body c a b)"
  "keeps fin_explained (issue_invoice_body c i)" "keeps stock_explained (issue_invoice_body c i)"
  "keeps fin_explained (mark_invoice_paid_body c i)" "keeps stock_explained (mark_invoice_paid_body c i)"
  "keeps fin_explained (cancel_invoice_body c i)" "keeps stock_explained (cancel_invoice_body c i)"
  "keeps fin_explained (create_amendment_body c n re a uo)" "keeps stock_explained (create_amendment_body c n re a uo)"
  "keeps fin_explained run_overdue_job_body" "keeps stock_explained run_overdue_job_body"
  "keeps fin_explained run_expire_job_body" "keeps stock_explained run_expire_job_body"
  unfolding contract_bodies by (intro keeps_intro)+

lemma keeps_set_price_item [keeps_intro]: "keeps quotas_ok (set_price_item_body c p price q)"
proof (rule keepsI)
  fix s x s' assume ok: "quotas_ok s" and run: "set_price_item_body c p price q s = Inr (x, s')"
  let ?rows = "filter (\<lambda>r. cpi_contract_id r = c \<and> cpi_product_id r = p \<and> is_active r) (contract_price_items s)"
  consider (new) r where "?rows = []" "insert_price_item (price_item_draft c p price q) s = Inr (r, s')"
    | (old) pi where "?rows = [pi]" "\<not> (q > 0 \<and> q < cpi_quantity_used pi)"
        "update_price_item (row_id pi) (\<lambda>p. p\<lparr>cpi_price := price, cpi_quantity := q\<rparr>) s = Inr (x, s')"
    using run by (auto simp: set_price_item_body_def get_by_contract_and_product_def tx_iff split: option.splits)
  then show "quotas_ok s'"
  proof cases
    case new
    have "keeps quotas_ok (insert_price_item (price_item_draft c p price q))"
      by (rule keeps_insert_price_item) (simp add: price_item_draft_def)
    from keepsD [OF this ok new(2)] show ?thesis .
  next
    case old
    have "pi \<in> set ?rows" using old(1) by simp
    then have pi: "pi \<in> set (contract_price_items s)" by simp
    let ?f = "\<lambda>r. if row_id r = row_id pi
      then r\<lparr>cpi_price := price, cpi_quantity := q, updated_at := clock s\<rparr> else r"
    have s': "contract_price_items s' = map ?f (contract_price_items s)" and "0 \<le> q"
      using old(3) by (auto simp: update_price_item_def tx_iff tbl_update_def)
    have keys: "map row_id (map ?f t) = map row_id t" "map item_key (map ?f t) = map item_key t" for t
      by (auto simp: item_key_def)
    have "quota_ok (?f r)" if r: "r \<in> set (contract_price_items s)" for r
    proof (cases "row_id r = row_id pi")
      case True
      with r pi ok have "r = pi" by (auto simp: quotas_ok_def keys_distinct_def dest: distinct_key_eq)
      with old(2) ok pi \<open>0 \<le> q\<close> show ?thesis by (auto simp: quota_ok_def quotas_ok_def)
    qed (use r ok in \<open>auto simp: quotas_ok_def\<close>)
    then show ?thesis
      using ok by (simp only: quotas_ok_def keys_distinct_def s' keys set_map) blast
  qed
qed

lemma contract_services_keep_quotas [keeps_intro]:
  "keeps quotas_ok (create_contract_body u cc)" "keeps quotas_ok (activate_contract_body c u)"
  "keeps quotas_ok (suspend_contract_body c re uo)" "keeps quotas_ok (reinstate_contract_body c uo)"
  "keeps quotas_ok (terminate_contract_body c re uo)" "keeps quotas_ok (update_contract_body c cu)"
  "keeps quotas_ok (remove_price_item_body c p)" "keeps quotas_ok (generate_invoice_body c a b)"
  "keeps quotas_ok (issue_invoice_body c i)" "keeps quotas_ok (mark_invoice_paid_body c i)"
  "keeps quotas_ok (cancel_invoice_body c i)" "keeps quotas_ok (create_amendment_body c n re a uo)"
  "keeps quotas_ok run_overdue_job_body" "keeps quotas_ok run_expire_job_body"
  unfolding contract_bodies by (intro keeps_intro)+

section \<open>Statuses move along their life cycles\<close>

text \<open>An update of a contract that sets its status to \<open>st\<close> and no frozen column.\<close>

definition sets_contract_status :: "contract_status \<Rightarrow> (contract_row \<Rightarrow> contract_row) \<Rightarrow> bool" where
  "sets_contract_status st f \<longleftrightarrow> (\<forall>c. row_id (f c) = row_id c \<and> is_active (f c) = is_active c
     \<and> con_number (f c) = con_number c \<and> con_client_id (f c) = con_client_id c
     \<and> con_start_date (f c) = con_start_date c \<and> con_legal_name (f c) = con_legal_name c
     \<and> con_inn (f c) = con_inn c \<and> con_status (f c) = st)"

lemma contract_moved:
  assumes "update_contract_row i f s = Inr (x, s')" "sets_contract_status st f"
    and "\<And>c. contracts_ok s \<Longrightarrow> tbl_get i False (contracts s) = Some c \<Longrightarrow> contract_step\<^sup>*\<^sup>* (con_status c) st"
  shows "db_evolve s s'"
proof -
  have "contracts_evolve s s'"
    by (rule contracts_evolve_update [OF assms(1)])
      (use assms(2,3) in \<open>auto simp: sets_contract_status_def contract_le_def\<close>)
  moreover have "moves orders_evolve (update_contract_row i f)" "moves invoices_evolve (update_contract_row i f)"
    by (auto intro!: orders_evolve_frame invoices_evolve_frame frame_intro)
  ultimately show ?thesis using assms(1) by (auto simp: db_evolve_def dest: movesD)
qed

lemma get_contract_any: "contracts_ok s \<Longrightarrow> get_contract i s = Some c \<Longrightarrow> tbl_get i False (contracts s) = Some c"
  using tbl_get_key [of "contracts s" c False]
  by (auto simp: get_contract_def contracts_ok_def dest: tbl_get_SomeD)

lemma contract_transition:
  assumes "update_contract_row i f s = Inr (x, s')" "sets_contract_status st f"
    and "get_contract i s = Some c" "contract_step (con_status c) st"
  shows "db_evolve s s'"
  by (rule contract_moved [OF assms(1,2)]) (use get_contract_any assms(3,4) in fastforce)

lemma moves_cancel_inflight_orders [moves_intro]: "moves db_evolve (cancel_inflight_orders c re)"
  unfolding cancel_inflight_defs by (intro moves_intro)

lemma moves_contract_log: "moves db_evolve (add_contract_status_log c a b u re)"
  by (intro moves_intro)

lemma db_evolve_trans: "db_evolve s s1 \<Longrightarrow> db_evolve s1 s' \<Longrightarrow> db_evolve s s'"
  using db_evolve_preorder(2) by (rule transpD)

lemma db_evolve_log:
  "db_evolve s s1 \<Longrightarrow> add_contract_status_log c a b u re s1 = Inr (x, s') \<Longrightarrow> db_evolve s s'"
  by (erule db_evolve_trans) (rule movesD [OF moves_contract_log])

lemma db_evolve_cancel_log:
  "db_evolve s s1 \<Longrightarrow> cancel_inflight_orders c r s1 = Inr (y, s2)
   \<Longrightarrow> add_contract_status_log c a b u re s2 = Inr (x, s') \<Longrightarrow> db_evolve s s'"
  by (rule db_evolve_log, erule db_evolve_trans) (rule movesD [OF moves_cancel_inflight_orders])

lemma contract_lifecycle_moves [moves_intro]:
  "moves db_evolve (activate_contract_body c u)" "moves db_evolve (suspend_contract_body c re uo)"
  "moves db_evolve (reinstate_contract_body c uo)" "moves db_evolve (terminate_contract_body c re uo)"
proof -
  show "moves db_evolve (activate_contract_body c u)"
  proof (rule movesI)
    fix s x s' assume "activate_contract_body c u s = Inr (x, s')"
    then obtain con s1 where "get_contract c s = Some con" "con_status con = CS_DRAFT"
      and up: "update_contract_row c (\<lambda>r. r\<lparr>con_status := CS_ACTIVE, con_signed_at := Some (clock s),
        con_signed_by_id := Some u\<rparr>) s = Inr (x, s1)"
      and rest: "add_contract_status_log c (Some CS_DRAFT) CS_ACTIVE (Some u) None s1 = Inr ((), s')"
      by (auto simp: activate_contract_body_def tx_bind_iff tx_raise_if_iff tx_get_iff tx_ret_iff
          require_contract_iff no_other_active_iff)
    then have "db_evolve s s1"
      by (intro contract_transition [OF up]) (auto simp: sets_contract_status_def)
    from db_evolve_log [OF this rest] show "db_evolve s s'" .
  qed
  show "moves db_evolve (suspend_contract_body c re uo)"
  proof (rule movesI)
    fix s x s' assume "suspend_contract_body c re uo s = Inr (x, s')"
    then obtain con s1 s2 y where "get_contract c s = Some con" "con_status con = CS_ACTIVE"
      and up: "update_contract_row c (\<lambda>r. r\<lparr>con_status := CS_SUSPENDED, con_suspended_at := Some (clock s),
        con_suspension_reason := Some re\<rparr>) s = Inr (x, s1)"
      and rest: "cancel_inflight_orders c ''Priostanovka dogovora'' s1 = Inr (y, s2)"
        "add_contract_status_log c (Some CS_ACTIVE) CS_SUSPENDED uo (Some re) s2 = Inr ((), s')"
      by (auto simp: suspend_contract_body_def tx_bind_iff tx_raise_if_iff tx_get_iff tx_ret_iff require_contract_iff)
    then have "db_evolve s s1"
      by (intro contract_transition [OF up]) (auto simp: sets_contract_status_def)
    from db_evolve_cancel_log [OF this rest] show "db_evolve s s'" .
  qed
  show "moves db_evolve (reinstate_contract_body c uo)"
  proof (rule movesI)
    fix s x s' assume "reinstate_contract_body c uo s = Inr (x, s')"
    then obtain con s1 where "get_contract c s = Some con" "con_status con = CS_SUSPENDED"
      and up: "update_contract_row c (\<lambda>r. r\<lparr>con_status := CS_ACTIVE, con_suspended_at := None,
        con_suspension_reason := None\<rparr>) s = Inr (x, s1)"
      and rest: "add_contract_status_log c (Some CS_SUSPENDED) CS_ACTIVE uo None s1 = Inr ((), s')"
      by (auto simp: reinstate_contract_body_def tx_bind_iff tx_raise_if_iff tx_get_iff tx_ret_iff
          require_contract_iff no_other_active_iff)
    then have "db_evolve s s1"
      by (intro contract_transition [OF up]) (auto simp: sets_contract_status_def)
    from db_evolve_log [OF this rest] show "db_evolve s s'" .
  qed
  show "moves db_evolve (terminate_contract_body c re uo)"
  proof (rule movesI)
    fix s x s' assume "terminate_contract_body c re uo s = Inr (x, s')"
    then obtain con s1 s2 y where con: "get_contract c s = Some con" "con_status con \<in> {CS_ACTIVE, CS_SUSPENDED}"
      and up: "update_contract_row c (\<lambda>r. r\<lparr>con_status := CS_TERMINATED, con_terminated_at := Some (clock s),
        con_termination_reason := Some re\<rparr>) s = Inr (x, s1)"
      and rest: "cancel_inflight_orders c ''Rastorzhenie dogovora'' s1 = Inr (y, s2)"
        "add_contract_status_log c (Some (con_status con)) CS_TERMINATED uo (Some re) s2 = Inr ((), s')"
      by (auto simp: terminate_contract_body_def tx_bind_iff tx_raise_if_iff tx_get_iff tx_ret_iff require_contract_iff)
    then have "db_evolve s s1"
      by (intro contract_transition [OF up]) (auto simp: sets_contract_status_def)
    from db_evolve_cancel_log [OF this rest] show "db_evolve s s'" .
  qed
qed

lemma moves_update_contract [moves_intro]: "moves db_evolve (update_contract_body c u)"
proof (rule movesI)
  fix s x s' assume run: "update_contract_body c u s = Inr (x, s')"
  show "db_evolve s s'"
  proof (cases "s' = s")
    case False
    then have up: "update_contract_row c (apply_contract_update u) s = Inr (x, s')"
      using run by (auto simp: update_contract_body_def tx_bind_iff tx_raise_if_iff tx_ret_iff require_contract_iff
          split: if_splits)
    have "contracts_evolve s s'"
      by (rule contracts_evolve_update [OF up]) (auto simp: apply_contract_update_def contract_le_def)
    moreover have "moves orders_evolve (update_contract_row c g)" "moves invoices_evolve (update_contract_row c g)" for g
      by (auto intro!: orders_evolve_frame invoices_evolve_frame frame_intro)
    ultimately show ?thesis using up by (auto simp: db_evolve_def dest: movesD)
  qed (use db_evolve_preorder(1) in \<open>simp add: reflp_def\<close>)
qed

text \<open>An update of an invoice that sets its status to \<open>st\<close> and no frozen column.\<close>

definition sets_invoice_status :: "invoice_status \<Rightarrow> (invoice_row \<Rightarrow> invoice_row) \<Rightarrow> bool" where
  "sets_invoice_status st f \<longleftrightarrow> (\<forall>v. row_id (f v) = row_id v \<and> is_active (f v) = is_active v
     \<and> ivc_number (f v) = ivc_number v \<and> ivc_contract_id (f v) = ivc_contract_id v
     \<and> ivc_period_from (f v) = ivc_period_from v \<and> ivc_period_to (f v) = ivc_period_to v
     \<and> ivc_amount (f v) = ivc_amount v \<and> ivc_due_date (f v) = ivc_due_date v \<and> ivc_status (f v) = st)"

lemma invoice_transition:
  assumes up: "update_invoice i f s = Inr (x, s')" and f: "sets_invoice_status st f"
    and v: "tbl_get i True (invoices s) = Some v" and step: "invoice_step (ivc_status v) st"
  shows "db_evolve s s'"
proof -
  have "r = v" if "invoices_ok s" "tbl_get i False (invoices s) = Some r" for r
    using that tbl_get_SomeD [OF v] tbl_get_SomeD [OF that(2)]
    by (auto simp: invoices_ok_def keys_distinct_def dest: distinct_key_eq)
  then have "invoices_evolve s s'"
    using f step by (intro invoices_evolve_update [OF up]) (auto simp: sets_invoice_status_def invoice_le_def)
  moreover have "moves orders_evolve (update_invoice i f)" "moves contracts_evolve (update_invoice i f)"
    by (auto intro!: orders_evolve_frame contracts_evolve_frame frame_intro)
  ultimately show ?thesis using up by (auto simp: db_evolve_def dest: movesD)
qed

lemma moves_invoice_step:
  assumes f: "sets_invoice_status st f" and steps: "\<And>a. a \<in> set sts \<Longrightarrow> invoice_step a st"
  shows "moves db_evolve (tx_bind (require_invoice c i) (\<lambda>v.
    tx_bind (check_invoice_status v sts) (\<lambda>_. update_invoice i f)))"
proof (rule movesI)
  fix s x s' assume "tx_bind (require_invoice c i) (\<lambda>v.
    tx_bind (check_invoice_status v sts) (\<lambda>_. update_invoice i f)) s = Inr (x, s')"
  then obtain v where v: "tbl_get i True (invoices s) = Some v" "ivc_status v \<in> set sts"
      and up: "update_invoice i f s = Inr (x, s')"
    by (auto simp: tx_bind_iff require_invoice_iff check_invoice_status_iff)
  show "db_evolve s s'" by (rule invoice_transition [OF up f v(1) steps [OF v(2)]])
qed

lemma tx_get_late:
  "tx_bind (require_invoice c i) (\<lambda>v. tx_bind (check_invoice_status v sts) (\<lambda>_. tx_bind (tx_get g) m)) s =
   tx_bind (require_invoice c i) (\<lambda>v. tx_bind (check_invoice_status v sts) (\<lambda>_. m (g s))) s"
  by (auto simp: require_invoice_def check_invoice_status_def tx_run_defs split: option.splits sum.splits)

lemma invoice_lifecycle_moves [moves_intro]:
  "moves db_evolve (issue_invoice_body c i)" "moves db_evolve (mark_invoice_paid_body c i)"
  "moves db_evolve (cancel_invoice_body c i)"
proof -
  show "moves db_evolve (issue_invoice_body c i)"
    unfolding issue_invoice_body_def
    by (rule movesI, unfold tx_get_late, rule movesD [OF moves_invoice_step [where st = IS_ISSUED]])
      (auto simp: sets_invoice_status_def)
  show "moves db_evolve (mark_invoice_paid_body c i)"
    unfolding mark_invoice_paid_body_def
    by (rule movesI, unfold tx_get_late, rule movesD [OF moves_invoice_step [where st = IS_PAID]])
      (auto simp: sets_invoice_status_def)
  show "moves db_evolve (cancel_invoice_body c i)"
    unfolding cancel_invoice_body_def
    by (rule moves_invoice_step [where st = IS_CANCELLED]) (auto simp: sets_invoice_status_def)
qed

lemma mark_overdue_rows:
  assumes "mark_overdue vs s = Inr (x, s')"
  shows "s' = invoices_update (map (\<lambda>r. if row_id r \<in> row_id ` set vs
    then r\<lparr>ivc_status := IS_OVERDUE, updated_at := clock s\<rparr> else r)) s"
  using assms
proof (induction vs arbitrary: s)
  case Nil
  then show ?case by (simp add: mark_overdue_def tx_iff)
next
  case (Cons v vs)
  obtain r s1 where up: "update_invoice (row_id v) (\<lambda>r. r\<lparr>ivc_status := IS_OVERDUE\<rparr>) s = Inr (r, s1)"
      and rest: "mark_overdue vs s1 = Inr (x, s')"
    using Cons.prems by (auto simp: mark_overdue_def tx_bind_iff tx_ret_iff)
  have s1: "s1 = invoices_update (tbl_update (clock s) (row_id v) (\<lambda>r. r\<lparr>ivc_status := IS_OVERDUE\<rparr>)) s"
    using up by (simp add: update_invoice_iff)
  show ?case
    unfolding Cons.IH [OF rest] s1 by (auto simp: tbl_update_def intro!: db.fold_congs(17))
qed

lemma moves_overdue_job [moves_intro]: "moves db_evolve run_overdue_job_body"
proof (rule movesI)
  fix s x s' assume "run_overdue_job_body s = Inr (x, s')"
  then have "mark_overdue (get_overdue_candidates s) s = Inr ((), s')"
    by (auto simp: run_overdue_job_body_def tx_bind_iff tx_get_iff tx_ret_iff)
  note s' = mark_overdue_rows [OF this]
  let ?ids = "row_id ` set (get_overdue_candidates s)"
  have "invoices_evolve s s'"
    unfolding invoices_evolve_def
  proof (intro impI conjI)
    assume ok: "invoices_ok s"
    then have "ivc_status r = IS_ISSUED" if "r \<in> set (invoices s)" "row_id r \<in> ?ids" for r
      using that by (auto simp: get_overdue_candidates_def overdue_at_def invoices_ok_def keys_distinct_def
          dest: distinct_key_eq)
    then show "grows invoice_le (invoices s) (invoices s')"
      using invoice_status.le_refl by (auto simp: s' invoice_le_def intro!: grows_map r_into_rtranclp)
    have keys: "map row_id (invoices s') = map row_id (invoices s)" by (simp add: s')
    show "invoices_ok s'" using ok by (simp only: keys invoices_ok_def keys_distinct_def)
  qed
  then show "db_evolve s s'"
    using orders_evolve_refl contracts_evolve_preorder(1)
    by (auto simp: db_evolve_def s' reflp_def orders_evolve_def contracts_evolve_def orders_ok_def contracts_ok_def)
qed

lemma frame_cancel_inflight_orders [frame_intro]:
  assumes "\<And>s f. g (orders_update f s) = g s" "\<And>s f. g (contract_price_items_update f s) = g s"
    "\<And>s f. g (order_status_logs_update f s) = g s" "\<And>s i. g (s\<lparr>next_id := i\<rparr>) = g s"
  shows "frame g (cancel_inflight_orders c re)"
  using assms unfolding cancel_inflight_defs by (intro frame_intro) auto

lemma expire_contract_contracts:
  assumes "expire_contract c s = Inr (x, s')"
  shows "contracts s' = tbl_update (clock s) (row_id c) (\<lambda>r. r\<lparr>con_status := CS_EXPIRED\<rparr>) (contracts s)"
    "clock s' = clock s"
proof -
  obtain s1 s2 y z where run: "cancel_inflight_orders (row_id c) ''Istek srok deystviya dogovora'' s = Inr (y, s1)"
      "update_contract_row (row_id c) (\<lambda>r. r\<lparr>con_status := CS_EXPIRED\<rparr>) s1 = Inr (z, s2)"
      "add_contract_status_log (row_id c) (Some CS_ACTIVE) CS_EXPIRED None (Some ''Istek srok deystviya dogovora'') s2
        = Inr (x, s')"
    using assms by (auto simp: expire_contract_def tx_bind_iff)
  have "contracts s1 = contracts s" "clock s1 = clock s"
    by (rule frameD [OF frame_cancel_inflight_orders run(1)]; simp)+
  moreover have "contracts s' = contracts s2" "clock s' = clock s2"
    by (rule frameD [OF frame_contract_log run(3)]; simp)+
  ultimately show "contracts s' = tbl_update (clock s) (row_id c) (\<lambda>r. r\<lparr>con_status := CS_EXPIRED\<rparr>) (contracts s)"
    "clock s' = clock s"
    using run(2) by (auto simp: update_contract_row_iff)
qed

lemma expire_contract_evolve:
  assumes "expire_contract c s = Inr (x, s')"
    and "\<And>r. r \<in> set (contracts s) \<Longrightarrow> row_id r = row_id c \<Longrightarrow> con_status r \<in> {CS_ACTIVE, CS_EXPIRED}"
  shows "db_evolve s s'"
proof -
  obtain s1 s2 y z where run: "cancel_inflight_orders (row_id c) ''Istek srok deystviya dogovora'' s = Inr (y, s1)"
      "update_contract_row (row_id c) (\<lambda>r. r\<lparr>con_status := CS_EXPIRED\<rparr>) s1 = Inr (z, s2)"
      "add_contract_status_log (row_id c) (Some CS_ACTIVE) CS_EXPIRED None (Some ''Istek srok deystviya dogovora'') s2
        = Inr (x, s')"
    using assms(1) by (auto simp: expire_contract_def tx_bind_iff)
  have "contracts s1 = contracts s"
    by (rule frameD [OF frame_cancel_inflight_orders run(1)]) simp_all
  then have "db_evolve s1 s2"
    using assms(2)
    by (intro contract_moved [OF run(2), of CS_EXPIRED])
      (force simp: sets_contract_status_def dest!: tbl_get_SomeD)+
  with movesD [OF moves_cancel_inflight_orders run(1)] have "db_evolve s s2" by (rule db_evolve_trans)
  from db_evolve_log [OF this run(3)] show ?thesis .
qed

lemma expire_contracts_evolve:
  assumes "tx_for expire_contract cs s = Inr (x, s')"
    and "\<And>c r. c \<in> set cs \<Longrightarrow> r \<in> set (contracts s) \<Longrightarrow> row_id r = row_id c \<Longrightarrow> con_status r \<in> {CS_ACTIVE, CS_EXPIRED}"
  shows "db_evolve s s'"
  using assms
proof (induction cs arbitrary: s)
  case Nil
  then show ?case using db_evolve_preorder(1) by (simp add: tx_ret_iff reflp_def)
next
  case (Cons c cs)
  obtain y s1 where 1: "expire_contract c s = Inr (y, s1)" and 2: "tx_for expire_contract cs s1 = Inr (x, s')"
    using Cons.prems(1) by (auto simp: tx_bind_iff)
  have "db_evolve s s1" using Cons.prems(2) by (intro expire_contract_evolve [OF 1]) auto
  moreover have "db_evolve s1 s'"
  proof (rule Cons.IH [OF 2])
    fix d r assume "d \<in> set cs" "r \<in> set (contracts s1)" "row_id r = row_id d"
    then show "con_status r \<in> {CS_ACTIVE, CS_EXPIRED}"
      using Cons.prems(2) by (auto simp: expire_contract_contracts(1) [OF 1] in_tbl_update split: if_splits)
  qed
  ultimately show ?case by (rule db_evolve_trans)
qed

lemma moves_expire_job [moves_intro]: "moves db_evolve run_expire_job_body"
proof (rule movesI)
  fix s x s' assume "run_expire_job_body s = Inr (x, s')"
  then have run: "tx_for expire_contract (get_expirable s) s = Inr ((), s')"
    by (auto simp: run_expire_job_body_def tx_bind_iff tx_get_iff tx_ret_iff)
  show "db_evolve s s'"
  proof (cases "contracts_ok s")
    case True
    then show ?thesis
      by (intro expire_contracts_evolve [OF run])
        (auto simp: get_expirable_def is_live_def contracts_ok_def keys_distinct_def dest: distinct_key_eq)
  next
    case False
    have "moves orders_evolve (cancel_inflight_orders c re)" "moves invoices_evolve (cancel_inflight_orders c re)" for c re
      using moves_cancel_inflight_orders [of c re] by (auto simp: moves_def db_evolve_def)
    moreover have "moves orders_evolve (update_contract_row i f)" "moves invoices_evolve (update_contract_row i f)"
        "moves orders_evolve (add_contract_status_log i a b u re)" "moves invoices_evolve (add_contract_status_log i a b u re)"
      for i f a b u re
      by (auto intro!: orders_evolve_frame invoices_evolve_frame frame_intro)
    ultimately have "moves orders_evolve (tx_for expire_contract cs)" "moves invoices_evolve (tx_for expire_contract cs)" for cs
      unfolding expire_contract_def by (auto intro!: moves_intro)
    with False run show ?thesis by (auto simp: db_evolve_def contracts_evolve_def dest: movesD)
  qed
qed

lemma contract_other_moves [moves_intro]:
  "moves db_evolve (create_contract_body u cc)" "moves db_evolve (set_price_item_body c p a b)"
  "moves db_evolve (remove_price_item_body c p)" "moves db_evolve (generate_invoice_body c d e)"
  "moves db_evolve (create_amendment_body c n re d uo)"
  unfolding create_contract_body_def set_price_item_body_def remove_price_item_body_def generate_invoice_body_def
    create_amendment_body_def
  by (intro moves_intro; simp add: contract_draft_def)+

section \<open>Closing a contract\<close>

lemma total_of_dict_inc: "total_of (dict_inc p q d) k = total_of d k + (if k = p then q else 0)"
  by (induction p q d rule: dict_inc.induct) auto

lemma total_of_requested: "total_of (requested_quantities items) k = total_of items k"
proof -
  have "total_of (fold (\<lambda>(p, q) d. dict_inc p q d) items d) k = total_of d k + total_of items k" for d
    by (induction items arbitrary: d) (auto simp: total_of_dict_inc)
  then show ?thesis by (simp add: requested_quantities_def)
qed

text \<open>The orders with the columns that decide what a contract may cancel.\<close>

definition order_view :: "db \<Rightarrow> (uuid \<times> uuid option \<times> bool \<times> order_status) list" where
  "order_view s = map (\<lambda>r. (row_id r, ord_contract_id r, is_active r, ord_status r)) (orders s)"

definition reserved_by :: "uuid \<Rightarrow> db \<Rightarrow> item list" where
  "reserved_by c s = map (\<lambda>it. (oit_product_id it, oit_quantity it))
     (get_by_orders (map row_id (filter ord_quantities_reserved (cancellable_by_contract c s))) s)"

lemma order_view_update:
  assumes "\<And>r. row_id (f r) = row_id r" "\<And>r. ord_contract_id (f r) = ord_contract_id r"
    "\<And>r. is_active (f r) = is_active r" "\<And>r. ord_status (f r) = ord_status r"
  shows "frame order_view (update_order i f)"
  using assms by (auto simp: frame_def update_order_iff order_view_def tbl_update_def)

lemma order_view_frame: "frame orders m \<Longrightarrow> frame order_view m"
  by (auto simp: frame_def order_view_def)

lemma bulk_cancel_effect:
  assumes "bulk_cancel_by_contract c s = Inr (rows, s')"
  shows "rows = map (\<lambda>r. (row_id r, ord_status r, ord_quantities_reserved r)) (cancellable_by_contract c s)"
    "s' = orders_update (map (\<lambda>r. if row_id r \<in> row_id ` set (cancellable_by_contract c s)
       then r\<lparr>ord_status := OS_CANCELLED, updated_at := clock s\<rparr> else r)) s"
  using assms by (auto simp: bulk_cancel_by_contract_def tx_iff split: if_splits)

lemma cancel_note_frames:
  "frame order_view (note_cancelled re cancelled)" "frame contract_price_items (note_cancelled re cancelled)"
  "frame order_view (clear_reserved ids)" "frame contract_price_items (clear_reserved ids)"
proof -
  have "frame orders (log_transition i a b u r)" for i a b u r by (intro frame_intro) simp_all
  then show "frame order_view (note_cancelled re cancelled)" "frame order_view (clear_reserved ids)"
    unfolding note_cancelled_def clear_reserved_def
    by (intro frame_for frame_prod frame_bind order_view_update order_view_frame; simp)+
  show "frame contract_price_items (note_cancelled re cancelled)" "frame contract_price_items (clear_reserved ids)"
    unfolding note_cancelled_def clear_reserved_def by (auto intro!: frame_intro)
qed

lemma release_cancelled_effect:
  assumes ok: "quotas_ok s" and run: "release_cancelled c rows s = Inr (x, s')"
  defines "ids \<equiv> map fst (filter (\<lambda>(i, st, had_reserved). had_reserved) rows)"
  defines "items \<equiv> map (\<lambda>it. (oit_product_id it, oit_quantity it)) (get_by_orders ids s)"
  shows "order_view s' = order_view s" "quota_used s' c p = max 0 (quota_used s c p - total_of items p)"
proof -
  have "order_view s' = order_view s \<and> quota_used s' c p = max 0 (quota_used s c p - total_of items p)"
  proof (cases "ids = []")
    case True
    then have "s' = s" "items = []"
      using run by (auto simp: release_cancelled_def ids_def items_def get_by_orders_def Let_def tx_ret_iff)
    then show ?thesis using quota.within [OF ok, of c p] by simp
  next
    case False
    then obtain s1 where dec: "if requested_quantities items \<noteq> []
        then decrement_quantities_used c (requested_quantities items) s = Inr ((), s1) else s1 = s"
        and clear: "clear_reserved ids s1 = Inr (x, s')"
      using run unfolding items_def
      by (auto simp: release_cancelled_def ids_def [symmetric] Let_def tx_bind_iff tx_get_iff tx_when_iff)
    have "order_view s1 = order_view s \<and> quota_used s1 c p = max 0 (quota_used s c p - total_of (requested_quantities items) p)"
    proof (cases "requested_quantities items = []")
      case False
      with dec have d: "decrement_quantities_used c (requested_quantities items) s = Inr ((), s1)" by simp
      have "orders s1 = orders s" by (rule frameD [OF frame_quantities(2) d]) simp
      with quota.release_law [OF ok d] show ?thesis by (simp add: order_view_def)
    qed (use dec quota.within [OF ok, of c p] in simp)
    with frameD [OF cancel_note_frames(3) clear] frameD [OF cancel_note_frames(4) clear] show ?thesis
      by (simp add: total_of_requested quota_used_def price_item_of_def)
  qed
  then show "order_view s' = order_view s" "quota_used s' c p = max 0 (quota_used s c p - total_of items p)" by auto
qed

lemma cancel_inflight_effect:
  assumes ok: "quotas_ok s" and run: "cancel_inflight_orders c re s = Inr (x, s')"
  shows "order_view s' = map (\<lambda>r. (row_id r, ord_contract_id r, is_active r,
      if row_id r \<in> row_id ` set (cancellable_by_contract c s) then OS_CANCELLED else ord_status r)) (orders s)"
    "quota_used s' c p = max 0 (quota_used s c p - total_of (reserved_by c s) p)"
proof -
  obtain rows s1 s2 y where 1: "bulk_cancel_by_contract c s = Inr (rows, s1)"
      and 2: "release_cancelled c rows s1 = Inr (y, s2)" and 3: "note_cancelled re rows s2 = Inr (x, s')"
    using run by (auto simp: cancel_inflight_orders_def tx_bind_iff)
  note rows = bulk_cancel_effect(1) [OF 1] and s1 = bulk_cancel_effect(2) [OF 1]
  have "quotas_ok s1" using ok by (simp add: s1 quotas_ok_def)
  note rel = release_cancelled_effect [OF this 2]
  have "map fst (filter (\<lambda>(i, st, had_reserved). had_reserved) rows) =
      map row_id (filter ord_quantities_reserved (cancellable_by_contract c s))"
    by (simp add: rows filter_map comp_def)
  then have "quota_used s2 c p = max 0 (quota_used s c p - total_of (reserved_by c s) p)"
    using rel(2) [of p] by (simp add: reserved_by_def s1 get_by_orders_def quota_used_def price_item_of_def)
  moreover have "order_view s2 = map (\<lambda>r. (row_id r, ord_contract_id r, is_active r,
      if row_id r \<in> row_id ` set (cancellable_by_contract c s) then OS_CANCELLED else ord_status r)) (orders s)"
    unfolding rel(1) by (auto simp: order_view_def s1)
  ultimately show "order_view s' = map (\<lambda>r. (row_id r, ord_contract_id r, is_active r,
      if row_id r \<in> row_id ` set (cancellable_by_contract c s) then OS_CANCELLED else ord_status r)) (orders s)"
    "quota_used s' c p = max 0 (quota_used s c p - total_of (reserved_by c s) p)"
    using frameD [OF cancel_note_frames(1) 3] frameD [OF cancel_note_frames(2) 3]
    by (simp_all add: quota_used_def price_item_of_def)
qed

end
