(* ===== verification/ContractLaws.thy ===== *)
theory ContractLaws
  imports Contracts
begin

text \<open>
  The properties of \<open>ContractService\<close>: what closing a contract does to its orders and quotas,
  invoices and their numbers, the two jobs, and the guards.
\<close>

section \<open>Closing a contract\<close>

lemma update_contract_frames:
  assumes "update_contract_row i f s = Inr (x, s')"
  shows "orders s' = orders s" "order_items s' = order_items s" "contract_price_items s' = contract_price_items s"
  using assms by (auto simp: update_contract_row_iff)

lemma contract_log_frames:
  assumes "add_contract_status_log c a b u re s = Inr (x, s')"
  shows "orders s' = orders s" "contract_price_items s' = contract_price_items s"
  by (rule frameD [OF frame_contract_log assms]; simp)+

lemma closing_runs:
  assumes "suspend_contract c re u s = (Inr con, s') \<or> terminate_contract c re u s = (Inr con, s')"
  obtains f s1 s2 r y old new where "update_contract_row c f s = Inr (con, s1)"
    "cancel_inflight_orders c r s1 = Inr (y, s2)" "add_contract_status_log c old new u (Some re) s2 = Inr ((), s')"
  using assms unfolding suspend_contract_def terminate_contract_def with_uow_Inr
proof
  assume "suspend_contract_body c re u s = Inr (con, s')"
  then show thesis
    by (auto simp: suspend_contract_body_def tx_bind_iff tx_raise_if_iff tx_get_iff tx_ret_iff require_contract_iff
        intro: that)
next
  assume "terminate_contract_body c re u s = Inr (con, s')"
  then show thesis
    by (auto simp: terminate_contract_body_def tx_bind_iff tx_raise_if_iff tx_get_iff tx_ret_iff require_contract_iff
        intro: that)
qed

lemma cancellable_ids:
  assumes "keys_distinct (orders s)" "r \<in> set (orders s)"
  shows "row_id r \<in> row_id ` set (cancellable_by_contract c s) \<longleftrightarrow>
    ord_contract_id r = Some c \<and> ord_status r \<in> {OS_NEW, OS_ASSIGNED} \<and> is_active r"
proof
  assume "row_id r \<in> row_id ` set (cancellable_by_contract c s)"
  then obtain q where "q \<in> set (cancellable_by_contract c s)" "row_id q = row_id r" by auto
  with assms show "ord_contract_id r = Some c \<and> ord_status r \<in> {OS_NEW, OS_ASSIGNED} \<and> is_active r"
    using distinct_key_eq [of row_id "orders s" q r] by (auto simp: cancellable_by_contract_def keys_distinct_def)
qed (use assms(2) in \<open>auto simp: cancellable_by_contract_def\<close>)

text \<open>
  C15. Suspending or terminating a contract stops exactly the work that has not left: every active
  order of the contract in status NEW or ASSIGNED is cancelled, every other order of the system
  keeps its status (what is IN\_TRANSIT or ARRIVED is delivered as usual), and the price list gets
  back, product by product, what the cancelled orders had reserved.
\<close>

theorem closing_contract_cancels:
  assumes "quotas_ok s" and "keys_distinct (orders s)"
    and "suspend_contract c re u s = (Inr con, s') \<or> terminate_contract c re u s = (Inr con, s')"
  shows "order_view s' = map (\<lambda>r. (row_id r, ord_contract_id r, is_active r,
      if ord_contract_id r = Some c \<and> is_active r \<and> ord_status r \<in> {OS_NEW, OS_ASSIGNED}
      then OS_CANCELLED else ord_status r)) (orders s)
    \<and> (\<forall>p. quota_used s' c p = max 0 (quota_used s c p - total_of (reserved_by c s) p))"
  using assms(3)
proof (rule closing_runs)
  fix f s1 s2 r y old new
  assume 1: "update_contract_row c f s = Inr (con, s1)" and 2: "cancel_inflight_orders c r s1 = Inr (y, s2)"
    and 3: "add_contract_status_log c old new u (Some re) s2 = Inr ((), s')"
  note f1 = update_contract_frames [OF 1] and f3 = contract_log_frames [OF 3]
  have same: "quotas_ok s1" "quota_used s1 = quota_used s" "reserved_by c s1 = reserved_by c s"
      "cancellable_by_contract c s1 = cancellable_by_contract c s"
    using assms(1) f1
    by (auto simp: quotas_ok_def quota_used_def price_item_of_def reserved_by_def cancellable_by_contract_def
        get_by_orders_def fun_eq_iff)
  note eff = cancel_inflight_effect [OF same(1) 2]
  have "order_view s' = map (\<lambda>r. (row_id r, ord_contract_id r, is_active r,
      if row_id r \<in> row_id ` set (cancellable_by_contract c s) then OS_CANCELLED else ord_status r)) (orders s)"
    using eff(1) f1(1) f3(1) same(4) by (simp add: order_view_def)
  also have "\<dots> = map (\<lambda>r. (row_id r, ord_contract_id r, is_active r,
      if ord_contract_id r = Some c \<and> is_active r \<and> ord_status r \<in> {OS_NEW, OS_ASSIGNED}
      then OS_CANCELLED else ord_status r)) (orders s)"
    by (rule map_cong [OF refl]) (use cancellable_ids [OF assms(2)] in auto)
  finally show ?thesis
    using eff(2) f3(2) same(2,3) by (simp add: quota_used_def price_item_of_def)
qed

theorem closing_contract_cancels_witness:
  "\<exists>con s'. terminate_contract 50 ''Debt'' (Some 3) sample_db = (Inr con, s')
     \<and> quota_used s' 50 20 = max 0 (quota_used sample_db 50 20 - total_of (reserved_by 50 sample_db) 20)"
proof -
  have "\<not> isl (fst (terminate_contract 50 ''Debt'' (Some 3) sample_db))" by code_simp
  then obtain con s' where run: "terminate_contract 50 ''Debt'' (Some 3) sample_db = (Inr con, s')"
    using run_ok by blast
  have "quotas_ok sample_db" "keys_distinct (orders sample_db)" by code_simp+
  from closing_contract_cancels [OF this disjI2 [OF run]] run show ?thesis by blast
qed

section \<open>Invoices\<close>

text \<open>
  C17. A generated invoice bills the period: it is a DRAFT of the contract for that period, its amount is the
  sum of the totals of the delivered and picked-up orders created in it, it is due
  \<open>payment_due_days\<close> after the period ends, and it is then the only invoice of the contract for the
  period that is not cancelled.
\<close>

theorem generate_invoice_bills:
  assumes "generate_invoice c from_d to_d s = (Inr v, s')"
  shows "\<exists>con. get_contract c s = Some con \<and> ivc_status v = IS_DRAFT \<and> ivc_contract_id v = c
    \<and> ivc_amount v = sum_list (map ord_total_amount (get_delivered_by_contract c from_d to_d s))
    \<and> ivc_due_date v = Some (to_d + con_payment_due_days con) \<and> from_d < to_d
    \<and> filter (same_period c from_d to_d) (invoices s) = []
    \<and> filter (same_period c from_d to_d) (invoices s') = [v]"
proof -
  obtain con where con: "get_contract c s = Some con"
    and dup: "filter (same_period c from_d to_d) (invoices s) = []"
    and ins: "insert_invoice (invoice_draft c
       (invoice_number (con_number con) from_d (length (invoices_by_contract c s) + 1)) from_d to_d
       (sum_list (map ord_total_amount (get_delivered_by_contract c from_d to_d s)))
       (to_d + con_payment_due_days con)) s = Inr (v, s')"
    using assms by (auto simp: generate_invoice_def generate_invoice_body_def tx_bind_iff tx_raise_if_iff tx_get_iff
        require_contract_iff get_for_period_iff split: option.splits)
  then have "invoices s' = tbl_add v (invoices s)" "same_period c from_d to_d v" "from_d < to_d"
    by (auto simp: insert_invoice_def tx_iff stamp_def invoice_draft_def same_period_def)
  with con dup ins show ?thesis
    by (auto simp: insert_invoice_def tx_iff stamp_def invoice_draft_def tbl_add_def)
qed

theorem generate_invoice_bills_witness:
  "\<exists>v s'. generate_invoice 50 19905 19934 sample_db = (Inr v, s') \<and> ivc_status v = IS_DRAFT \<and> ivc_amount v = 24000"
proof -
  have "\<not> isl (fst (generate_invoice 50 19905 19934 sample_db))" by code_simp
  then obtain v s' where run: "generate_invoice 50 19905 19934 sample_db = (Inr v, s')"
    using run_ok by blast
  have "sum_list (map ord_total_amount (get_delivered_by_contract 50 19905 19934 sample_db)) = 24000" by code_simp
  with generate_invoice_bills [OF run] run show ?thesis by auto
qed

text \<open>Reading a decimal number back.\<close>

definition undecimal :: "string \<Rightarrow> nat" where
  "undecimal cs = foldl (\<lambda>a ch. 10 * a + (of_char ch - 48)) 0 cs"

lemma undecimal_snoc: "undecimal (cs @ [ch]) = 10 * undecimal cs + (of_char ch - 48)"
  by (simp add: undecimal_def)

lemma undecimal_decimal: "undecimal (decimal n) = n"
proof (induction n rule: decimal.induct)
  case (1 n)
  show ?case
  proof (cases "n < 10")
    case True
    then have "of_char (char_of (48 + n) :: char) = (48 + n :: nat)" by simp
    with True show ?thesis by (simp add: undecimal_def decimal.simps [of n])
  next
    case False
    have "of_char (char_of (48 + n mod 10) :: char) = (48 + n mod 10 :: nat)" by simp
    with False 1 show ?thesis by (simp add: decimal.simps [of n] undecimal_snoc)
  qed
qed

lemma undecimal_zeros: "undecimal (replicate k (CHR ''0'') @ cs) = undecimal cs"
  by (induction k) (simp_all add: undecimal_def)

text \<open>
  The padded sequence number of an invoice reads back to the number it was printed from, is at
  least as wide as asked, and so two invoices of a contract for the same month that carry different
  sequence numbers carry different invoice numbers.
\<close>

theorem invoice_number_roundtrip:
  "undecimal (padded w n) = n \<and> w \<le> length (padded w n)
   \<and> (invoice_number num d i = invoice_number num d j) = (i = j)"
proof -
  have read: "undecimal (padded w n) = n" for w n
    by (simp add: padded_def undecimal_zeros undecimal_decimal)
  have "(invoice_number num d i = invoice_number num d j) = (padded 3 i = padded 3 j)"
    by (simp add: invoice_number_def split: prod.splits)
  moreover have "(padded 3 i = padded 3 j) = (i = j)" using read by metis
  ultimately show ?thesis using read by (simp add: padded_def)
qed

text \<open>
  The invoices of one contract are out of reach through another: whatever the invoice's status,
  reading, issuing, paying or cancelling it under a contract it does not belong to is answered
  \<open>INVOICE_NOT_FOUND\<close> (404), and the database is left as it was.
\<close>

theorem invoice_of_other_contract_hidden:
  assumes "tbl_get i True (invoices s) = Some v" and "ivc_contract_id v \<noteq> c"
  shows "get_invoice c i s = (Inl (ContractErr (InvoiceNotFoundError i)), s)
    \<and> issue_invoice c i s = (Inl (ContractErr (InvoiceNotFoundError i)), s)
    \<and> mark_invoice_paid c i s = (Inl (ContractErr (InvoiceNotFoundError i)), s)
    \<and> cancel_invoice c i s = (Inl (ContractErr (InvoiceNotFoundError i)), s)
    \<and> error_response (ContractErr (InvoiceNotFoundError i)) = (404, ''INVOICE_NOT_FOUND'')"
proof -
  have "require_invoice c i s = Inl (ContractErr (InvoiceNotFoundError i))"
    using assms by (simp add: require_invoice_def tx_run_defs)
  then show ?thesis
    by (simp add: get_invoice_def issue_invoice_def mark_invoice_paid_def cancel_invoice_def issue_invoice_body_def
        mark_invoice_paid_body_def cancel_invoice_body_def tx_bind_def http_response_def)
qed

theorem invoice_of_other_contract_hidden_witness:
  "get_invoice 49 65 sample_db = (Inl (ContractErr (InvoiceNotFoundError 65)), sample_db)"
proof -
  have "tbl_get 65 True (invoices sample_db) = Some (hd sample_invoices)" "ivc_contract_id (hd sample_invoices) \<noteq> 49"
    by (simp_all add: sample_defs sample_rows tbl_get_def)
  from invoice_of_other_contract_hidden [OF this] show ?thesis by blast
qed

section \<open>Jobs\<close>

text \<open>
  C26. The overdue job marks exactly the invoices that are due, and is idempotent: an invoice that is ISSUED, not
  deleted and whose due date lies before today becomes OVERDUE and has its time of update set, with nothing else of it changed; every other
  invoice, whatever its status, and every other table stays as it was. The job reports the number of the
  invoices it marked, leaves none that is due, and running it again finds none and changes nothing.
\<close>

theorem run_overdue_job_idempotent:
  assumes "keys_distinct (invoices s)" and "run_overdue_job s = (Inr n, s')"
    and "due = (\<lambda>v. ivc_status v = IS_ISSUED \<and> is_active v \<and> (\<exists>d. ivc_due_date v = Some d \<and> d < date_of (clock s)))"
  shows "s' = s\<lparr>invoices := map (\<lambda>v. if due v then v\<lparr>ivc_status := IS_OVERDUE, updated_at := clock s\<rparr> else v) (invoices s)\<rparr>
    \<and> n = length (filter due (invoices s)) \<and> filter due (invoices s') = []
    \<and> run_overdue_job s' = (Inr 0, s')"
proof -
  have due: "due = overdue_at (date_of (clock s))"
    by (auto simp: assms(3) overdue_at_def fun_eq_iff split: option.splits)
  have run: "mark_overdue (get_overdue_candidates s) s = Inr ((), s')" and n: "n = length (get_overdue_candidates s)"
    using assms(2) by (auto simp: run_overdue_job_def run_overdue_job_body_def tx_bind_iff tx_get_iff tx_ret_iff)
  note s' = mark_overdue_rows [OF run]
  have "row_id v \<in> row_id ` set (get_overdue_candidates s) \<longleftrightarrow> due v" if "v \<in> set (invoices s)" for v
    using that assms(1) distinct_key_eq [of row_id] by (fastforce simp: get_overdue_candidates_def due keys_distinct_def)
  then have rows: "invoices s' = map (\<lambda>v. if due v then v\<lparr>ivc_status := IS_OVERDUE, updated_at := clock s\<rparr> else v) (invoices s)"
    by (simp add: s')
  then have none: "filter due (invoices s') = []"
    by (auto simp: filter_empty_conv assms(3))
  then have "get_overdue_candidates s' = []" by (simp add: get_overdue_candidates_def due s')
  then have "run_overdue_job s' = (Inr 0, s')"
    by (simp add: run_overdue_job_def with_uow_def run_overdue_job_body_def mark_overdue_def tx_run_defs)
  moreover have "s' = s\<lparr>invoices := invoices s'\<rparr>" by (simp add: s')
  ultimately show ?thesis using rows none n by (simp add: get_overdue_candidates_def due)
qed

theorem run_overdue_job_idempotent_witness:
  "\<exists>s'. run_overdue_job sample_db = (Inr 1, s') \<and> run_overdue_job s' = (Inr 0, s')"
proof -
  have "fst (run_overdue_job sample_db) = Inr 1" by code_simp
  then obtain s' where run: "run_overdue_job sample_db = (Inr 1, s')" by (metis prod.collapse)
  have "keys_distinct (invoices sample_db)" by code_simp
  from run_overdue_job_idempotent [OF this run refl] run show ?thesis by blast
qed

lemma expire_contracts_rows:
  assumes "tx_for expire_contract cs s = Inr (x, s')"
  shows "contracts s' = map (\<lambda>r. if row_id r \<in> row_id ` set cs
      then r\<lparr>con_status := CS_EXPIRED, updated_at := clock s\<rparr> else r) (contracts s) \<and> clock s' = clock s"
  using assms
proof (induction cs arbitrary: s)
  case (Cons c cs)
  obtain y s1 where 1: "expire_contract c s = Inr (y, s1)" and 2: "tx_for expire_contract cs s1 = Inr (x, s')"
    using Cons.prems by (auto simp: tx_bind_iff)
  from Cons.IH [OF 2] show ?case
    by (auto simp: expire_contract_contracts [OF 1] tbl_update_def)
qed (simp add: tx_ret_iff)

text \<open>
  The expiry job is complete and idempotent: after it no contract is ACTIVE past its end date,
  and running it again finds none and changes nothing.
\<close>

theorem run_expire_job_idempotent:
  assumes "run_expire_job s = (Inr n, s')"
  shows "n = length (get_expirable s) \<and> get_expirable s' = [] \<and> run_expire_job s' = (Inr 0, s')"
proof -
  have run: "tx_for expire_contract (get_expirable s) s = Inr ((), s')" and n: "n = length (get_expirable s)"
    using assms by (auto simp: run_expire_job_def run_expire_job_body_def tx_bind_iff tx_get_iff tx_ret_iff)
  have rows: "contracts s' = map (\<lambda>r. if row_id r \<in> row_id ` set (get_expirable s)
      then r\<lparr>con_status := CS_EXPIRED, updated_at := clock s\<rparr> else r) (contracts s)" and clk: "clock s' = clock s"
    using expire_contracts_rows [OF run] by auto
  have none: "get_expirable s' = []"
  proof (rule ccontr)
    assume "get_expirable s' \<noteq> []"
    then obtain c where c: "c \<in> set (get_expirable s')" by (cases "get_expirable s'") auto
    then obtain r where r: "r \<in> set (contracts s)" "c = (if row_id r \<in> row_id ` set (get_expirable s)
        then r\<lparr>con_status := CS_EXPIRED, updated_at := clock s\<rparr> else r)"
      by (auto simp: get_expirable_def [of s'] rows)
    moreover have "is_live c" using c by (simp add: get_expirable_def)
    ultimately have "c = r" "row_id r \<notin> row_id ` set (get_expirable s)" by (auto simp: is_live_def split: if_splits)
    moreover have "c \<in> set (get_expirable s)"
      using c r(1) \<open>c = r\<close> unfolding get_expirable_def clk by simp
    ultimately show False by simp
  qed
  then have "run_expire_job s' = (Inr 0, s')"
    by (simp add: run_expire_job_def with_uow_def run_expire_job_body_def tx_run_defs)
  with none n show ?thesis by simp
qed

theorem run_expire_job_idempotent_witness:
  "\<exists>s'. run_expire_job (sample_db\<lparr>contracts := map (\<lambda>c. c\<lparr>con_end_date := Some 19999\<rparr>) sample_contracts\<rparr>) = (Inr 1, s')
     \<and> get_expirable s' = []"
proof -
  let ?s = "sample_db\<lparr>contracts := map (\<lambda>c. c\<lparr>con_end_date := Some 19999\<rparr>) sample_contracts\<rparr>"
  have "fst (run_expire_job ?s) = Inr 1" by code_simp
  then obtain s' where run: "run_expire_job ?s = (Inr 1, s')" by (metis prod.collapse)
  from run_expire_job_idempotent [OF run] run show ?thesis by blast
qed

end
