(* ===== verification/Users.thy ===== *)
theory Users
  imports Errors
begin

text \<open>
  The lookups of \<open>UserRepository\<close> (\<open>src/modules/users/repositories.py\<close>) and of \<open>UserService\<close>
  that the order service calls.
\<close>

definition get_active_by_role_and_id :: "uuid \<Rightarrow> role list \<Rightarrow> db \<Rightarrow> user_row option" where
  "get_active_by_role_and_id i roles s =
     find (\<lambda>u. row_id u = i \<and> usr_role u \<in> set roles \<and> is_active u) (users s)"

definition get_courier :: "uuid \<Rightarrow> db \<Rightarrow> user_row option" where
  "get_courier i = get_active_by_role_and_id i [R_COURIER]"

definition get_client_by_id :: "uuid \<Rightarrow> db \<Rightarrow> user_row option" where
  "get_client_by_id i s =
     find (\<lambda>u. row_id u = i \<and> usr_role u \<in> {R_CLIENT_B2B, R_CLIENT_B2C} \<and> is_active u) (users s)"

definition get_client :: "uuid \<Rightarrow> user_row dbtx" where
  "get_client client_id =
     tx_bind (tx_get (get_client_by_id client_id)) (\<lambda>u.
     tx_require u (UserErr (UserNotFoundError client_id)))"

lemma get_client_iff [tx_iff]:
  "get_client i s = Inr (u, s') \<longleftrightarrow> s' = s \<and> get_client_by_id i s = Some u"
  by (auto simp: get_client_def tx_iff)

lemma keeps_get_client [keeps_intro]: "keeps P (get_client i)"
  by (auto simp: keeps_def tx_iff)

lemma frame_get_client [frame_intro]: "frame g (get_client i)"
  by (auto simp: frame_def tx_iff)

end
