(* ===== verification/Fulfilment.thy ===== *)
theory Fulfilment
  imports ContractTables Users Samples
begin

text \<open>
  What happens when goods are handed over: the private methods of \<open>BaseOrderService\<close>
  (\<open>src/modules/orders/services.py\<close>) that write the stock transfers and the financial
  transactions of a delivery by a courier and of a pickup at a warehouse. An order is passed with
  its lines as the loaded object has them, a changed quantity or total included.
\<close>

section \<open>Stock transfers\<close>

definition create_stock_transfer ::
  "uuid \<Rightarrow> uuid \<Rightarrow> transfer_type \<Rightarrow> item list \<Rightarrow> uuid \<Rightarrow> uuid option \<Rightarrow> uuid option \<Rightarrow> string option
   \<Rightarrow> transfer_row dbtx" where
  "create_stock_transfer from_id to_id ty items created_by_id accepted_by_id order_id reason =
     tx_bind (insert_transfer (transfer_draft from_id to_id ty created_by_id
       (Some (case accepted_by_id of None \<Rightarrow> created_by_id | Some u \<Rightarrow> u)) order_id reason None)) (\<lambda>transfer.
     let effective_items = filter (\<lambda>it. snd it > 0) items in
     tx_bind (post_items transfer effective_items) (\<lambda>_.
     tx_bind (post_stock transfer effective_items) (\<lambda>_.
     tx_ret transfer)))"

definition returnable_of :: "db \<Rightarrow> uuid \<Rightarrow> uuid option" where
  "returnable_of s p = (case tbl_get p False (products s) of None \<Rightarrow> None | Some r \<Rightarrow> prd_returnable_item_id r)"

definition build_returnable_items :: "order_item_row list \<Rightarrow> db \<Rightarrow> item list" where
  "build_returnable_items items s =
     requested_quantities (concat (map (\<lambda>it. case returnable_of s (oit_product_id it) of
       None \<Rightarrow> []
     | Some tare \<Rightarrow> if oit_quantity it > 0 then [(tare, oit_quantity it)] else []) items))"

text \<open>\<open>d[p] = v\<close>.\<close>

fun dict_set :: "uuid \<Rightarrow> int \<Rightarrow> item list \<Rightarrow> item list" where
  "dict_set p v [] = [(p, v)]"
| "dict_set p v ((k, w) # d) = (if k = p then (k, v) # d else (k, w) # dict_set p v d)"

definition item_shortages :: "uuid \<Rightarrow> order_item_row list \<Rightarrow> db \<Rightarrow> item list" where
  "item_shortages inventory_id items s =
     fold (\<lambda>it d. let available = stock_balance s (inventory_id, oit_product_id it) in
       if available < oit_quantity it then dict_set (oit_product_id it) (oit_quantity it - available) d else d)
       items []"

definition shipped_items :: "order_item_row list \<Rightarrow> item list" where
  "shipped_items items =
     map (\<lambda>it. (oit_product_id it, oit_quantity it)) (filter (\<lambda>it. oit_quantity it > 0) items)"

section \<open>Financial settlement\<close>

definition post_transactions :: "transaction_row list \<Rightarrow> unit dbtx" where
  "post_transactions ds = tx_for (\<lambda>d. tx_bind (insert_transaction d) (\<lambda>_. tx_ret ())) ds"

definition require_account :: "(db \<Rightarrow> account_row option) \<Rightarrow> string \<Rightarrow> account_row dbtx" where
  "require_account q code =
     tx_bind (tx_get q) (\<lambda>a. tx_require a (HttpErr (NotFoundError code)))"

text \<open>
  The payment that follows the debt: cash goes to the courier, a card payment waits for its
  verification, an order under a contract is paid later.
\<close>

definition delivery_payment :: "order_row \<Rightarrow> account_row \<Rightarrow> transaction_row list dbtx" where
  "delivery_payment ord client = (case ord_payment_method ord of
     PM_CASH \<Rightarrow>
       (case ord_courier_id ord of
          None \<Rightarrow> tx_ret []
        | Some courier_id \<Rightarrow>
            tx_bind (require_account (get_courier_account courier_id) ''COURIER_ACCOUNT_NOT_FOUND'') (\<lambda>courier.
            tx_ret [transaction_draft (row_id client) (row_id courier) (ord_total_amount ord)
              ''Oplata nalichnymi kuryeru'' (Some (row_id ord)) TS_COMPLETED None]))
   | PM_CARD \<Rightarrow>
       tx_bind (require_account get_system_card_account ''CARD_ACCOUNT_NOT_FOUND'') (\<lambda>card_account.
       tx_ret [transaction_draft (row_id client) (row_id card_account) (ord_total_amount ord)
         ''Perevod na kartu'' (Some (row_id ord)) TS_PENDING None])
   | PM_CONTRACT \<Rightarrow> tx_ret [])"

definition process_financial_settlement :: "order_row \<Rightarrow> unit dbtx" where
  "process_financial_settlement ord =
     tx_bind (require_account (get_client_account (ord_client_id ord)) ''CLIENT_ACCOUNT_NOT_FOUND'') (\<lambda>client.
     tx_bind (require_account get_system_revenue_account ''REVENUE_ACCOUNT_NOT_FOUND'') (\<lambda>revenue.
     tx_bind (delivery_payment ord client) (\<lambda>payment.
     post_transactions (transaction_draft (row_id revenue) (row_id client) (ord_total_amount ord)
       ''Zadolzhennost za zakaz'' (Some (row_id ord)) TS_COMPLETED None # payment))))"

definition pickup_payment :: "order_row \<Rightarrow> account_row \<Rightarrow> transaction_row list dbtx" where
  "pickup_payment ord client = (case ord_payment_method ord of
     PM_CASH \<Rightarrow>
       tx_bind (require_account get_system_cash_account ''CASH_ACCOUNT_NOT_FOUND'') (\<lambda>cash.
       tx_ret [transaction_draft (row_id client) (row_id cash) (ord_total_amount ord)
         ''Oplata nalichnymi na sklade (samovyvoz)'' (Some (row_id ord)) TS_COMPLETED None])
   | PM_CARD \<Rightarrow>
       tx_bind (require_account get_system_card_account ''CARD_ACCOUNT_NOT_FOUND'') (\<lambda>card_account.
       tx_ret [transaction_draft (row_id client) (row_id card_account) (ord_total_amount ord)
         ''Perevod na kartu (samovyvoz)'' (Some (row_id ord)) TS_PENDING None])
   | PM_CONTRACT \<Rightarrow> tx_ret [])"

definition process_pickup_settlement :: "order_row \<Rightarrow> unit dbtx" where
  "process_pickup_settlement ord =
     tx_bind (require_account (get_client_account (ord_client_id ord)) ''CLIENT_ACCOUNT_NOT_FOUND'') (\<lambda>client.
     tx_bind (require_account get_system_revenue_account ''REVENUE_ACCOUNT_NOT_FOUND'') (\<lambda>revenue.
     tx_bind (pickup_payment ord client) (\<lambda>payment.
     post_transactions (transaction_draft (row_id revenue) (row_id client) (ord_total_amount ord)
       ''Zadolzhennost za zakaz (samovyvoz)'' (Some (row_id ord)) TS_COMPLETED None # payment))))"

section \<open>Delivery by a courier\<close>

text \<open>
  The loop over the lines with what was really delivered: the lines as they are now, their sum, and
  the quantities that were not delivered.
\<close>

fun apply_actual_items :: "item list \<Rightarrow> order_item_row list \<Rightarrow> (order_item_row list \<times> int \<times> item list) dbtx" where
  "apply_actual_items actual [] = tx_ret ([], 0, [])"
| "apply_actual_items actual (it # items) =
     (case map_of (rev actual) (oit_product_id it) of
        None \<Rightarrow>
          tx_bind (apply_actual_items actual items) (\<lambda>(items', amount, deltas).
          tx_ret (it # items', oit_unit_price it * oit_quantity it + amount, deltas))
      | Some q \<Rightarrow>
          tx_bind (tx_raise_if (q < 0)
            (OrderErr (DeliveryQuantityExceededError (oit_product_id it) (oit_quantity it) q))) (\<lambda>_.
          tx_bind (tx_raise_if (q > oit_quantity it)
            (OrderErr (DeliveryQuantityExceededError (oit_product_id it) (oit_quantity it) q))) (\<lambda>_.
          tx_bind (update_quantity (row_id it) q) (\<lambda>_.
          tx_bind (apply_actual_items actual items) (\<lambda>(items', amount, deltas).
          tx_ret (it\<lparr>oit_quantity := q\<rparr> # items', oit_unit_price it * q + amount,
            if oit_quantity it - q > 0 then (oit_product_id it, oit_quantity it - q) # deltas else deltas))))))"

definition correct_delivery :: "order_row \<Rightarrow> item list \<Rightarrow> (order_item_row list \<times> int) dbtx" where
  "correct_delivery ord actual =
     tx_bind (tx_get (items_of (row_id ord))) (\<lambda>items.
     if actual = [] then tx_ret (items, ord_total_amount ord)
     else
       tx_bind (apply_actual_items actual items) (\<lambda>(items', new_total, quota_deltas).
       tx_bind (case ord_contract_id ord of
           Some c \<Rightarrow> tx_when (quota_deltas \<noteq> [] \<and> ord_payment_method ord = PM_CONTRACT)
             (decrement_quantities_used c quota_deltas)
         | None \<Rightarrow> tx_ret ()) (\<lambda>_.
       tx_bind (update_order (row_id ord) (\<lambda>r. r\<lparr>ord_total_amount := new_total\<rparr>)) (\<lambda>_.
       tx_ret (items', new_total)))))"

definition courier_stock :: "uuid \<Rightarrow> inventory_row dbtx" where
  "courier_stock courier_id =
     tx_bind (get_courier_inventory courier_id) (\<lambda>v.
     tx_bind (tx_require v (HttpErr (BadRequestError ''COURIER_INVENTORY_NOT_FOUND''))) (\<lambda>v.
     tx_bind (tx_get (get_inventory_with_balances (row_id v) None)) (\<lambda>v.
     tx_require v (HttpErr (BadRequestError ''COURIER_INVENTORY_NOT_FOUND'')))))"

definition ship_delivery :: "order_row \<Rightarrow> uuid \<Rightarrow> uuid \<Rightarrow> order_item_row list \<Rightarrow> unit dbtx" where
  "ship_delivery ord courier_id inventory_id items =
     tx_bind (tx_get (item_shortages inventory_id items)) (\<lambda>shortages.
     tx_bind (tx_raise_if (shortages \<noteq> []) (InventoryErr (InsufficientStockError shortages))) (\<lambda>_.
     tx_bind (tx_get (build_returnable_items items)) (\<lambda>returnable.
     tx_bind (create_stock_transfer inventory_id (ord_client_inventory_id ord) TT_CLIENT_DELIVERY
       (shipped_items items @ returnable) courier_id (Some (ord_client_id ord)) (Some (row_id ord)) None) (\<lambda>_.
     if returnable = [] then tx_ret ()
     else
       tx_bind (create_stock_transfer (ord_client_inventory_id ord) inventory_id TT_CLIENT_RETURN
         returnable courier_id (Some courier_id) (Some (row_id ord)) None) (\<lambda>_. tx_ret ())))))"

definition handle_order_fulfillment :: "order_row \<Rightarrow> item list \<Rightarrow> unit dbtx" where
  "handle_order_fulfillment ord actual =
     tx_bind (tx_require (ord_courier_id ord) (HttpErr (BadRequestError ''COURIER_NOT_ASSIGNED''))) (\<lambda>courier_id.
     tx_bind (correct_delivery ord actual) (\<lambda>(items, amount).
     tx_bind (courier_stock courier_id) (\<lambda>v.
     tx_bind (ship_delivery ord courier_id (row_id v) items) (\<lambda>_.
     process_financial_settlement (ord\<lparr>ord_total_amount := amount\<rparr>)))))"

section \<open>Pickup at a warehouse\<close>

text \<open>
  A walk-in customer hands back only the containers of the water bought, unless they buy that
  container as well; a named client hands back all of them, and the warehouse is first credited
  with the containers it gives away.
\<close>

definition returned_containers :: "bool \<Rightarrow> order_item_row list \<Rightarrow> item list \<Rightarrow> item list" where
  "returned_containers is_walkin items returnable =
     (if is_walkin then filter (\<lambda>(p, q). p \<notin> set (map oit_product_id items)) returnable else returnable)"

definition ship_pickup :: "order_row \<Rightarrow> uuid \<Rightarrow> uuid \<Rightarrow> order_item_row list \<Rightarrow> unit dbtx" where
  "ship_pickup ord completed_by_id warehouse_id items =
     (let is_walkin = (ord_client_id ord = WALKIN_USER_ID) in
      tx_bind (tx_get (item_shortages warehouse_id items)) (\<lambda>shortages.
      tx_bind (tx_raise_if (shortages \<noteq> []) (InventoryErr (InsufficientStockError shortages))) (\<lambda>_.
      tx_bind (tx_get (build_returnable_items items)) (\<lambda>returnable.
      let returned = returned_containers is_walkin items returnable in
      tx_bind (tx_when (returnable \<noteq> [] \<and> \<not> is_walkin)
        (tx_bind get_vendor_inventory (\<lambda>vendor.
         tx_bind (create_stock_transfer (row_id vendor) warehouse_id TT_INITIAL_BALANCE returnable completed_by_id
           (Some completed_by_id) (Some (row_id ord)) (Some ''Container issued with warehouse pickup'')) (\<lambda>_.
         tx_ret ())))) (\<lambda>_.
      tx_bind (create_stock_transfer warehouse_id (ord_client_inventory_id ord) TT_WAREHOUSE_SALE
        (shipped_items items @ (if is_walkin then returned else returnable)) completed_by_id
        (Some (ord_client_id ord)) (Some (row_id ord)) None) (\<lambda>_.
      tx_when (returned \<noteq> [])
        (tx_bind (create_stock_transfer (ord_client_inventory_id ord) warehouse_id TT_WAREHOUSE_TARA_RETURN
           returned completed_by_id (Some completed_by_id) (Some (row_id ord)) None) (\<lambda>_.
         tx_ret ()))))))))"

definition handle_warehouse_pickup :: "order_row \<Rightarrow> uuid \<Rightarrow> unit dbtx" where
  "handle_warehouse_pickup ord completed_by_id =
     tx_bind (tx_require (ord_warehouse_id ord) (HttpErr (BadRequestError ''WAREHOUSE_ID_MISSING''))) (\<lambda>warehouse_id.
     tx_bind (tx_get (get_inventory_with_balances warehouse_id (Some IT_WAREHOUSE))) (\<lambda>w.
     tx_bind (tx_require w (InventoryErr (InventoryNotFoundError warehouse_id))) (\<lambda>w.
     tx_bind (tx_get (items_of (row_id ord))) (\<lambda>items.
     tx_bind (ship_pickup ord completed_by_id (row_id w) items) (\<lambda>_.
     process_pickup_settlement ord)))))"

section \<open>Invariants\<close>

lemma require_account_iff [tx_iff]:
  "require_account q code s = Inr (a, s') \<longleftrightarrow> s' = s \<and> q s = Some a"
  by (auto simp: require_account_def tx_iff)

lemma courier_stock_iff [tx_iff]:
  "courier_stock u s = Inr (v, s') \<longleftrightarrow> s' = s \<and> (\<exists>w. courier_inventories u s = [w]
     \<and> get_inventory_with_balances (row_id w) None s = Some v)"
  unfolding courier_stock_def get_courier_inventory_def tx_bind_iff tx_get_iff scalar_one_or_none_iff tx_require_iff
  by (auto split: option.splits)

lemma payment_reads:
  "delivery_payment ord client s = Inr (ds, s') \<Longrightarrow> s' = s"
  "pickup_payment ord client s = Inr (ds, s') \<Longrightarrow> s' = s"
  by (auto simp: delivery_payment_def pickup_payment_def tx_iff split: payment_method.splits option.splits)

lemma keeps_hand_over_reads [keeps_intro]:
  "keeps P (require_account q code)" "keeps P (courier_stock u)"
  "keeps P (delivery_payment ord client)" "keeps P (pickup_payment ord client)"
  by (auto simp: keeps_def tx_iff dest: payment_reads)

lemma moves_hand_over_reads [moves_intro]:
  assumes "reflp R"
  shows "moves R (require_account q code)" "moves R (courier_stock u)"
    "moves R (delivery_payment ord client)" "moves R (pickup_payment ord client)" "moves R get_vendor_inventory"
    "moves R (get_courier_inventory u)"
  using assms by (auto simp: moves_def reflp_def tx_iff get_vendor_inventory_def get_system_inventory_def
      get_courier_inventory_def dest: payment_reads)

lemma frame_hand_over_reads [frame_intro]:
  "frame g (require_account q code)" "frame g (courier_stock u)"
  "frame g (delivery_payment ord client)" "frame g (pickup_payment ord client)" "frame g get_vendor_inventory"
  by (auto simp: frame_def tx_iff get_vendor_inventory_def get_system_inventory_def dest: payment_reads)

lemma frame_post_transactions [frame_intro]:
  "(\<And>s f. g (accounts_update f s) = g s) \<Longrightarrow> (\<And>s f. g (transactions_update f s) = g s)
   \<Longrightarrow> (\<And>s i. g (s\<lparr>next_id := i\<rparr>) = g s) \<Longrightarrow> frame g (post_transactions ds)"
  unfolding post_transactions_def by (auto intro!: frame_intro)

lemma frame_settlement [frame_intro]:
  assumes "\<And>s f. g (accounts_update f s) = g s" "\<And>s f. g (transactions_update f s) = g s"
    "\<And>s i. g (s\<lparr>next_id := i\<rparr>) = g s"
  shows "frame g (process_financial_settlement ord)" "frame g (process_pickup_settlement ord)"
  unfolding process_financial_settlement_def process_pickup_settlement_def
  by (intro frame_intro; rule assms)+

lemma frame_create_stock_transfer [frame_intro]:
  assumes "\<And>s f. g (stock_transfers_update f s) = g s" "\<And>s f. g (stock_transfer_items_update f s) = g s"
    "\<And>s f. g (stock_transactions_update f s) = g s" "\<And>s f. g (inventory_balances_update f s) = g s"
    "\<And>s i. g (s\<lparr>next_id := i\<rparr>) = g s"
  shows "frame g (create_stock_transfer f t ty items u a ord r)"
  unfolding create_stock_transfer_def Let_def by (intro frame_intro; rule assms)

lemma frame_ship [frame_intro]:
  assumes "\<And>s f. g (stock_transfers_update f s) = g s" "\<And>s f. g (stock_transfer_items_update f s) = g s"
    "\<And>s f. g (stock_transactions_update f s) = g s" "\<And>s f. g (inventory_balances_update f s) = g s"
    "\<And>s i. g (s\<lparr>next_id := i\<rparr>) = g s"
  shows "frame g (ship_delivery ord u v items)" "frame g (ship_pickup ord u v items)"
  unfolding ship_delivery_def ship_pickup_def Let_def by (intro frame_intro; rule assms)+

lemma keeps_create_stock_transfer [keeps_intro]:
  "keeps fin_explained (create_stock_transfer f t ty items u a ord r)"
  "keeps stock_explained (create_stock_transfer f t ty items u a ord r)"
  "keeps quotas_ok (create_stock_transfer f t ty items u a ord r)"
  unfolding create_stock_transfer_def Let_def by (intro keeps_intro)+

lemma moves_create_stock_transfer [moves_intro]:
  "moves db_evolve (create_stock_transfer f t ty items u a ord r)"
  unfolding create_stock_transfer_def Let_def by (intro moves_intro)

lemma keeps_ship [keeps_intro]:
  "keeps fin_explained (ship_delivery ord u v items)" "keeps fin_explained (ship_pickup ord u v items)"
  "keeps stock_explained (ship_delivery ord u v items)" "keeps stock_explained (ship_pickup ord u v items)"
  "keeps quotas_ok (ship_delivery ord u v items)" "keeps quotas_ok (ship_pickup ord u v items)"
  unfolding ship_delivery_def ship_pickup_def Let_def by (intro keeps_intro)+

lemma moves_ship [moves_intro]:
  "moves db_evolve (ship_delivery ord u v items)" "moves db_evolve (ship_pickup ord u v items)"
  unfolding ship_delivery_def ship_pickup_def Let_def by (intro moves_intro)+

lemma keeps_settlement [keeps_intro]:
  "keeps fin_explained (process_financial_settlement ord)" "keeps fin_explained (process_pickup_settlement ord)"
  "keeps stock_explained (process_financial_settlement ord)" "keeps stock_explained (process_pickup_settlement ord)"
  "keeps quotas_ok (process_financial_settlement ord)" "keeps quotas_ok (process_pickup_settlement ord)"
  unfolding process_financial_settlement_def process_pickup_settlement_def post_transactions_def
  by (intro keeps_intro)+

lemma moves_settlement [moves_intro]:
  "moves db_evolve (process_financial_settlement ord)" "moves db_evolve (process_pickup_settlement ord)"
  unfolding process_financial_settlement_def process_pickup_settlement_def post_transactions_def
  by (intro moves_intro)+

lemma keeps_apply_actual_items [keeps_intro]:
  assumes "\<And>i q. keeps P (update_quantity i q)"
  shows "keeps P (apply_actual_items actual items)"
  by (induction items) (auto intro!: keeps_intro assms split: option.split)

lemma frame_apply_actual_items [frame_intro]:
  assumes "\<And>s f. g (order_items_update f s) = g s"
  shows "frame g (apply_actual_items actual items)"
  by (induction items) (auto intro!: frame_intro assms split: option.split)

lemma moves_apply_actual_items [moves_intro]: "moves db_evolve (apply_actual_items actual items)"
  by (rule moves_db_other; intro frame_intro; simp)

lemma keeps_correct_delivery [keeps_intro]:
  "keeps fin_explained (correct_delivery ord actual)" "keeps stock_explained (correct_delivery ord actual)"
  "keeps quotas_ok (correct_delivery ord actual)"
  unfolding correct_delivery_def by (intro keeps_intro)+

lemma moves_correct_delivery [moves_intro]: "moves db_evolve (correct_delivery ord actual)"
  unfolding correct_delivery_def by (intro moves_intro)

lemma keeps_hand_over [keeps_intro]:
  "keeps fin_explained (handle_order_fulfillment ord actual)" "keeps fin_explained (handle_warehouse_pickup ord u)"
  "keeps stock_explained (handle_order_fulfillment ord actual)" "keeps stock_explained (handle_warehouse_pickup ord u)"
  "keeps quotas_ok (handle_order_fulfillment ord actual)" "keeps quotas_ok (handle_warehouse_pickup ord u)"
  unfolding handle_order_fulfillment_def handle_warehouse_pickup_def by (intro keeps_intro)+

lemma moves_hand_over [moves_intro]:
  "moves db_evolve (handle_order_fulfillment ord actual)" "moves db_evolve (handle_warehouse_pickup ord u)"
  unfolding handle_order_fulfillment_def handle_warehouse_pickup_def by (intro moves_intro)+

section \<open>What a hand-over does to the balances\<close>

lemma total_of_positive:
  "(\<And>it. it \<in> set items \<Longrightarrow> 0 \<le> snd it) \<Longrightarrow> total_of (filter (\<lambda>it. snd it > 0) items) p = total_of items p"
  by (induction items) force+

lemma create_stock_transfer_balance:
  assumes ok: "stock_ok s" and run: "create_stock_transfer f t ty items u a ord r s = Inr (tr, s')"
    and nonneg: "\<And>it. it \<in> set items \<Longrightarrow> 0 \<le> snd it"
  shows "stock_ok s'" "f \<noteq> t"
    "stock_balance s' (i, p) = stock_balance s (i, p) + (if i = t then total_of items p else 0)
      - (if i = f then total_of items p else 0)"
proof -
  let ?items = "filter (\<lambda>it. snd it > 0) items"
  let ?d = "transfer_draft f t ty u (Some (case a of None \<Rightarrow> u | Some x \<Rightarrow> x)) ord r None"
  obtain s1 s2 where 1: "insert_transfer ?d s = Inr (tr, s1)" and 2: "post_items tr ?items s1 = Inr ((), s2)"
      and 3: "post_stock tr ?items s2 = Inr ((), s')"
    using run by (auto simp: create_stock_transfer_def Let_def tx_bind_iff tx_ret_iff)
  note D = insert_transferD [OF 1] and H = transfer_header_frame [OF 1 2]
  have ends: "trf_from_id tr = f" "trf_to_id tr = t" using D(1) by simp_all
  have ok2: "stock_ok s2" using ok H by simp
  show "f \<noteq> t" using D(2) by simp
  then show "stock_balance s' (i, p) = stock_balance s (i, p) + (if i = t then total_of items p else 0)
      - (if i = f then total_of items p else 0)"
    using post_stock_balance [OF ok2 3, of i p] ends H total_of_positive [OF nonneg, where items = items] by simp
  show "stock_ok s'" using stock.post_many_balance [OF ok2 3 [unfolded post_stock_def]] by blast
qed

lemma requested_nonneg:
  assumes "list_all (\<lambda>it. 0 \<le> snd it) xs"
  shows "list_all (\<lambda>it. 0 \<le> snd it) (requested_quantities xs)"
proof -
  have dict: "list_all (\<lambda>it. 0 \<le> snd it) d \<Longrightarrow> 0 \<le> q \<Longrightarrow> list_all (\<lambda>it. 0 \<le> snd it) (dict_inc k q d)" for k q d
    by (induction k q d rule: dict_inc.induct) auto
  have "list_all (\<lambda>it. 0 \<le> snd it) xs \<Longrightarrow> list_all (\<lambda>it. 0 \<le> snd it) d \<Longrightarrow>
      list_all (\<lambda>it. 0 \<le> snd it) (fold (\<lambda>(p, q) d. dict_inc p q d) xs d)" for xs d
  proof (induction xs arbitrary: d)
    case (Cons it xs)
    then show ?case using dict [of d "snd it" "fst it"] by (simp add: case_prod_beta)
  qed simp
  with assms show ?thesis by (simp add: requested_quantities_def)
qed

lemma returnable_nonneg: "it \<in> set (build_returnable_items items s) \<Longrightarrow> 0 \<le> snd it"
proof -
  have "list_all (\<lambda>it. 0 \<le> snd it) (concat (map (\<lambda>it. case returnable_of s (oit_product_id it) of
       None \<Rightarrow> []
     | Some tare \<Rightarrow> if oit_quantity it > 0 then [(tare, oit_quantity it)] else []) items))"
    by (induction items) (auto split: option.splits)
  from requested_nonneg [OF this] show "it \<in> set (build_returnable_items items s) \<Longrightarrow> 0 \<le> snd it"
    by (simp add: build_returnable_items_def list_all_iff)
qed

lemma shipped_nonneg: "it \<in> set (shipped_items items) \<Longrightarrow> 0 \<le> snd it"
  by (auto simp: shipped_items_def)

lemma ship_delivery_balance:
  assumes ok: "stock_ok s" and run: "ship_delivery ord u v items s = Inr (x, s')"
  shows "stock_ok s'" "v \<noteq> ord_client_inventory_id ord"
    "stock_balance s' (i, p) = stock_balance s (i, p)
      + (if i = ord_client_inventory_id ord then total_of (shipped_items items) p else 0)
      - (if i = v then total_of (shipped_items items) p else 0)"
proof -
  let ?r = "build_returnable_items items s" and ?c = "ord_client_inventory_id ord"
  obtain tr s1 where 1: "create_stock_transfer v ?c TT_CLIENT_DELIVERY (shipped_items items @ ?r) u
      (Some (ord_client_id ord)) (Some (row_id ord)) None s = Inr (tr, s1)"
    and 2: "?r = [] \<and> s' = s1 \<or> (\<exists>tr'. create_stock_transfer ?c v TT_CLIENT_RETURN ?r u (Some u)
      (Some (row_id ord)) None s1 = Inr (tr', s'))"
    using run by (auto simp: ship_delivery_def tx_bind_iff tx_raise_if_iff tx_get_iff tx_ret_iff split: if_splits)
  note B = create_stock_transfer_balance [OF ok 1]
  have nn: "0 \<le> snd it" if "it \<in> set (shipped_items items @ ?r)" for it
    using that returnable_nonneg [of it items s] shipped_nonneg [of it items] by (simp only: set_append Un_iff) blast
  show neq: "v \<noteq> ?c" using B(2) nn by blast
  from 2 have "stock_ok s' \<and> stock_balance s' (i, p) = stock_balance s (i, p)
      + (if i = ?c then total_of (shipped_items items) p else 0) - (if i = v then total_of (shipped_items items) p else 0)"
  proof
    assume "?r = [] \<and> s' = s1"
    with B(1,3) nn show ?thesis by auto
  next
    assume "\<exists>tr'. create_stock_transfer ?c v TT_CLIENT_RETURN ?r u (Some u) (Some (row_id ord)) None s1 = Inr (tr', s')"
    then obtain tr' where 3: "create_stock_transfer ?c v TT_CLIENT_RETURN ?r u (Some u) (Some (row_id ord)) None s1
        = Inr (tr', s')" ..
    have ok1: "stock_ok s1" using B(1) nn by blast
    have R: "stock_ok s'" "stock_balance s' (i, p) = stock_balance s1 (i, p) + (if i = v then total_of ?r p else 0)
        - (if i = ?c then total_of ?r p else 0)"
      using create_stock_transfer_balance(1,3) [OF ok1 3] returnable_nonneg by blast+
    moreover have "stock_balance s1 (i, p) = stock_balance s (i, p)
        + (if i = ?c then total_of (shipped_items items @ ?r) p else 0)
        - (if i = v then total_of (shipped_items items @ ?r) p else 0)"
      using B(3) nn by blast
    ultimately show ?thesis using neq by simp
  qed
  then show "stock_ok s'" "stock_balance s' (i, p) = stock_balance s (i, p)
      + (if i = ?c then total_of (shipped_items items) p else 0) - (if i = v then total_of (shipped_items items) p else 0)"
    by auto
qed

lemma no_item_shortages:
  assumes "item_shortages v items s = []" "it \<in> set items"
  shows "oit_quantity it \<le> stock_balance s (v, oit_product_id it)"
proof -
  let ?f = "\<lambda>it d. let available = stock_balance s (v, oit_product_id it) in
       if available < oit_quantity it then dict_set (oit_product_id it) (oit_quantity it - available) d else d"
  have set_ne: "dict_set k w d \<noteq> []" for k w d by (induction k w d rule: dict_set.induct) auto
  have ne: "d \<noteq> [] \<Longrightarrow> fold ?f its d \<noteq> []" for its d
    by (induction its arbitrary: d) (auto simp: Let_def set_ne)
  have "fold ?f its d = [] \<Longrightarrow> x \<in> set its \<Longrightarrow> oit_quantity x \<le> stock_balance s (v, oit_product_id x)" for its d x
  proof (induction its arbitrary: d)
    case (Cons y its)
    show ?case
    proof (cases "stock_balance s (v, oit_product_id y) < oit_quantity y")
      case True
      then have "fold ?f its (dict_set (oit_product_id y) (oit_quantity y - stock_balance s (v, oit_product_id y)) d) = []"
        using Cons.prems(1) by (simp add: Let_def)
      with ne [OF set_ne] show ?thesis by blast
    next
      case False
      with Cons show ?thesis by (auto simp: Let_def)
    qed
  qed simp
  with assms show ?thesis by (simp add: item_shortages_def)
qed

end
