(* ===== verification/Orders.thy ===== *)
theory Orders
  imports Fulfilment Contracts
begin

text \<open>
  \<open>BaseOrderService\<close> (\<open>src/modules/orders/services.py\<close>): creating, changing, assigning, moving,
  cancelling and expiring orders, sales at a warehouse, and the queries. The catalog and the users
  are read in units of work of their own before the order's; without concurrent requests they see
  the same database.
\<close>

section \<open>Returnable containers\<close>

definition cart_line :: "item list \<Rightarrow> uuid \<Rightarrow> int option" where
  "cart_line items p = map_option snd (find (\<lambda>it. fst it = p) items)"

text \<open>\<open>{item.product_id: item.quantity for item in items}.get(p, 0)\<close>: the last line wins.\<close>

definition ordering_now :: "item list \<Rightarrow> uuid \<Rightarrow> int" where
  "ordering_now items p = (case map_of (rev items) p of None \<Rightarrow> 0 | Some q \<Rightarrow> q)"

definition exchange_products :: "product_row list \<Rightarrow> item list \<Rightarrow> (product_row \<times> uuid \<times> int) list" where
  "exchange_products prods items = concat (map (\<lambda>p. case (prd_returnable_item_id p, cart_line items (row_id p)) of
     (Some tare, Some q) \<Rightarrow> [(p, tare, q)] | _ \<Rightarrow> []) prods)"

definition tara_shortages ::
  "uuid \<Rightarrow> (product_row \<times> uuid \<times> int) list \<Rightarrow> (uuid \<Rightarrow> int) \<Rightarrow> db \<Rightarrow> tara_shortage list" where
  "tara_shortages inventory_id ex also_ordered s =
     concat (map (\<lambda>(p, tare, q). let available = stock_balance s (inventory_id, tare) + also_ordered tare in
       if available < q
       then [\<lparr>sh_product_id = row_id p, sh_product_name = prd_name p, sh_returnable_item_id = tare,
              sh_required = q, sh_available = available, sh_deficit = q - available\<rparr>]
       else []) ex)"

text \<open>
  Whether the client has the containers to give back; the missing ones are either an error or
  booked in from the vendor. The result says whether they were.
\<close>

definition settle_tara :: "uuid \<Rightarrow> product_row list \<Rightarrow> item list \<Rightarrow> bool \<Rightarrow> uuid \<Rightarrow> bool dbtx" where
  "settle_tara inventory_id prods items capitalize_missing_tara actor =
     (let ex = exchange_products prods items in
      if ex = [] then tx_ret False
      else
        tx_bind (tx_get (get_inventory_with_balances inventory_id None)) (\<lambda>v.
        tx_bind (tx_require v (OrderErr (ClientInventoryNotFoundError inventory_id))) (\<lambda>v.
        tx_bind (tx_get (tara_shortages (row_id v) ex (ordering_now items))) (\<lambda>shortages.
        if shortages = [] then tx_ret False
        else
          tx_bind (tx_raise_if (\<not> capitalize_missing_tara) (OrderErr (InsufficientTaraError shortages))) (\<lambda>_.
          tx_bind get_vendor_inventory (\<lambda>vendor.
          tx_bind (create_stock_transfer (row_id vendor) (row_id v) TT_INITIAL_BALANCE
            (map (\<lambda>sh. (sh_returnable_item_id sh, sh_deficit sh)) shortages) actor (Some actor) None None) (\<lambda>_.
          tx_ret True)))))))"

section \<open>create\_order\<close>

record order_create =
  oc_items :: "item list"
  oc_payment_method :: payment_method
  oc_client_inventory_id :: uuid
  oc_capitalize_missing_tara :: bool
  oc_notes :: "string option"

definition get_and_validate_contract_locked :: "uuid \<Rightarrow> role \<Rightarrow> contract_row dbtx" where
  "get_and_validate_contract_locked client_id client_role =
     tx_bind (tx_raise_if (client_role \<noteq> R_CLIENT_B2B)
       (HttpErr (BadRequestError ''CONTRACT_PAYMENT_NOT_ALLOWED''))) (\<lambda>_.
     tx_bind (get_active_for_client client_id) (\<lambda>c.
     tx_bind (tx_require c (ContractErr (ContractRequiredError client_id))) (\<lambda>c.
     tx_bind (tx_raise_if (con_status c \<noteq> CS_ACTIVE) (ContractErr (ContractNotActiveError (row_id c) (con_status c)))) (\<lambda>_.
     tx_bind (tx_get (\<lambda>s. date_of (clock s))) (\<lambda>today.
     tx_bind (tx_raise_if (case con_end_date c of None \<Rightarrow> False | Some d \<Rightarrow> d < today)
       (ContractErr (ContractExpiredError (row_id c)))) (\<lambda>_.
     tx_ret c))))))"

text \<open>The contract of the order with the locked lines of its price list; every product must be on it.\<close>

definition contract_terms :: "uuid \<Rightarrow> role \<Rightarrow> uuid list \<Rightarrow> (contract_row \<times> price_item_row list) dbtx" where
  "contract_terms client_id client_role product_ids =
     tx_bind (get_and_validate_contract_locked client_id client_role) (\<lambda>c.
     tx_bind (tx_get (get_for_products_locked (row_id c) product_ids)) (\<lambda>locked.
     tx_bind (case find (\<lambda>p. price_item_map locked p = None) product_ids of
         None \<Rightarrow> tx_ret ()
       | Some p \<Rightarrow> tx_raise (ContractErr (ProductNotInContractError (row_id c) p))) (\<lambda>_.
     tx_ret (c, locked))))"

text \<open>\<open>price_map\<close>: the catalog's prices, overridden by the contract's.\<close>

definition order_price :: "product_row list \<Rightarrow> price_item_row list \<Rightarrow> uuid \<Rightarrow> int" where
  "order_price prods locked p = (case price_item_map locked p of
     Some pi \<Rightarrow> cpi_price pi
   | None \<Rightarrow> (case find (\<lambda>r. row_id r = p) prods of Some r \<Rightarrow> prd_price r | None \<Rightarrow> 0))"

definition order_total :: "(uuid \<Rightarrow> int) \<Rightarrow> item list \<Rightarrow> int" where
  "order_total price items = sum_list (map (\<lambda>it. price (fst it) * snd it) items)"

definition order_lines :: "uuid \<Rightarrow> (uuid \<Rightarrow> int) \<Rightarrow> item list \<Rightarrow> order_item_row list" where
  "order_lines order_id price items = map (\<lambda>it. order_item_draft order_id it (price (fst it))) items"

definition check_available :: "product_row list \<Rightarrow> uuid list \<Rightarrow> unit dbtx" where
  "check_available prods product_ids =
     (let missing = filter (\<lambda>p. p \<notin> set (map row_id prods)) product_ids in
      tx_raise_if (missing \<noteq> []) (OrderErr (ProductsUnavailableError missing)))"

definition create_order_body :: "uuid \<Rightarrow> order_create \<Rightarrow> uuid dbtx" where
  "create_order_body client_id dto =
     (let items = oc_items dto; product_ids = map fst items in
      tx_bind (tx_raise_if (items = []) (OrderErr EmptyCartError)) (\<lambda>_.
      tx_bind (tx_raise_if (\<not> distinct product_ids) (HttpErr (BadRequestError ''DUPLICATE_PRODUCTS_IN_CART''))) (\<lambda>_.
      tx_bind (tx_get (get_by_ids product_ids)) (\<lambda>prods.
      tx_bind (check_available prods product_ids) (\<lambda>_.
      tx_bind (get_client client_id) (\<lambda>client.
      tx_bind (if oc_payment_method dto = PM_CONTRACT
        then tx_bind (contract_terms client_id (usr_role client) product_ids) (\<lambda>t. tx_ret (Some t))
        else tx_ret None) (\<lambda>terms.
      let price = order_price prods (case terms of None \<Rightarrow> [] | Some (c, locked) \<Rightarrow> locked) in
      tx_bind (case terms of None \<Rightarrow> tx_ret ()
        | Some (c, locked) \<Rightarrow> check_and_reserve_quantities (row_id c) items locked) (\<lambda>_.
      tx_bind (settle_tara (oc_client_inventory_id dto) prods items (oc_capitalize_missing_tara dto) client_id)
        (\<lambda>capitalization_applied.
      tx_bind (insert_order (order_draft client_id (oc_client_inventory_id dto) (oc_payment_method dto) OS_NEW
        (order_total price items) capitalization_applied SALE_DELIVERY None
        (map_option (\<lambda>(c, locked). row_id c) terms) (terms \<noteq> None) (oc_notes dto))) (\<lambda>ord.
      tx_bind (add_order_items (order_lines (row_id ord) price items)) (\<lambda>_.
      tx_bind (log_transition (row_id ord) None OS_NEW (Some client_id) None) (\<lambda>_.
      tx_ret (row_id ord)))))))))))))"

definition load_order :: "uuid \<Rightarrow> db \<Rightarrow> app_error + order_row" where
  "load_order i s = (case get_with_details i s of
     None \<Rightarrow> Inl (OrderErr (OrderNotFoundError i)) | Some ord \<Rightarrow> Inr ord)"

definition create_order where
  "create_order client_id dto = commit_then (create_order_body client_id dto) load_order"

section \<open>Sales at a warehouse\<close>

record warehouse_sale =
  ws_warehouse_id :: uuid
  ws_items :: "item list"
  ws_capitalize_missing_tara :: bool

definition require_order :: "uuid \<Rightarrow> order_row dbtx" where
  "require_order i = tx_bind (tx_get (load_order i)) tx_lift"

definition create_warehouse_sale_body :: "warehouse_sale \<Rightarrow> uuid option \<Rightarrow> uuid \<Rightarrow> uuid dbtx" where
  "create_warehouse_sale_body dto client_id created_by_id =
     (let effective_client_id = (case client_id of None \<Rightarrow> WALKIN_USER_ID | Some u \<Rightarrow> u);
          is_walkin = (effective_client_id = WALKIN_USER_ID);
          items = ws_items dto; product_ids = map fst items in
      tx_bind (tx_raise_if (items = []) (OrderErr EmptyCartError)) (\<lambda>_.
      tx_bind (tx_get (get_by_ids product_ids)) (\<lambda>prods.
      tx_bind (check_available prods product_ids) (\<lambda>_.
      let price = order_price prods [] in
      tx_bind (tx_get (get_inventory_with_balances (ws_warehouse_id dto) (Some IT_WAREHOUSE))) (\<lambda>w.
      tx_bind (tx_require w (InventoryErr (InventoryNotFoundError (ws_warehouse_id dto)))) (\<lambda>_.
      tx_bind (tx_get (get_client_inventory effective_client_id)) (\<lambda>v.
      tx_bind (tx_require v (OrderErr (ClientInventoryNotFoundError effective_client_id))) (\<lambda>v.
      tx_bind (if is_walkin then tx_ret False
        else settle_tara (row_id v) prods items (ws_capitalize_missing_tara dto \<or> is_walkin) created_by_id)
        (\<lambda>capitalization_applied.
      tx_bind (insert_order (order_draft effective_client_id (row_id v) PM_CASH OS_PICKUP_COMPLETED
        (order_total price items) capitalization_applied SALE_WAREHOUSE_PICKUP (Some (ws_warehouse_id dto))
        None False None)) (\<lambda>ord.
      tx_bind (add_order_items (order_lines (row_id ord) price items)) (\<lambda>_.
      tx_bind (require_order (row_id ord)) (\<lambda>ord.
      tx_bind (handle_warehouse_pickup ord created_by_id) (\<lambda>_.
      tx_bind (log_transition (row_id ord) None OS_PICKUP_COMPLETED (Some created_by_id) None) (\<lambda>_.
      tx_ret (row_id ord)))))))))))))))"

definition create_warehouse_sale where
  "create_warehouse_sale dto client_id created_by_id =
     commit_then (create_warehouse_sale_body dto client_id created_by_id) load_order"

definition complete_pickup_body :: "uuid \<Rightarrow> uuid \<Rightarrow> uuid dbtx" where
  "complete_pickup_body order_id completed_by_id =
     tx_bind (require_order order_id) (\<lambda>ord.
     tx_bind (tx_raise_if (ord_sale_type ord \<noteq> SALE_WAREHOUSE_PICKUP)
       (OrderErr (InvalidPickupOperationError order_id))) (\<lambda>_.
     tx_bind (tx_raise_if (ord_status ord \<noteq> OS_NEW) (OrderErr (InvalidPickupOperationError order_id))) (\<lambda>_.
     tx_bind (repo_update_status order_id OS_PICKUP_COMPLETED) (\<lambda>_.
     tx_bind (log_transition order_id (Some OS_NEW) OS_PICKUP_COMPLETED (Some completed_by_id) None) (\<lambda>_.
     tx_bind (handle_warehouse_pickup ord completed_by_id) (\<lambda>_.
     tx_ret order_id))))))"

definition complete_pickup where
  "complete_pickup order_id completed_by_id = commit_then (complete_pickup_body order_id completed_by_id) load_order"

section \<open>Reading and changing an order\<close>

definition get_order_with_details where
  "get_order_with_details order_id requesting_user_id = with_uow
     (tx_bind (require_order order_id) (\<lambda>ord.
      tx_bind (tx_raise_if (case requesting_user_id of None \<Rightarrow> False
          | Some u \<Rightarrow> u \<noteq> ord_client_id ord \<and> Some u \<noteq> ord_courier_id ord)
        (OrderErr (OrderAccessDeniedError (the requesting_user_id) order_id))) (\<lambda>_.
      tx_ret ord)))"

text \<open>The order of a client who may still change it.\<close>

definition require_editable :: "uuid \<Rightarrow> uuid option \<Rightarrow> order_row dbtx" where
  "require_editable order_id requesting_user_id =
     tx_bind (require_order order_id) (\<lambda>ord.
     tx_bind (tx_raise_if (case requesting_user_id of None \<Rightarrow> False | Some u \<Rightarrow> ord_client_id ord \<noteq> u)
       (OrderErr (OrderAccessDeniedError (the requesting_user_id) order_id))) (\<lambda>_.
     tx_bind (tx_raise_if (ord_status ord \<noteq> OS_NEW)
       (OrderErr (InvalidOrderStatusError order_id (ord_status ord) (Some OS_NEW) None []))) (\<lambda>_.
     tx_ret ord)))"

definition contract_of_order :: "order_row \<Rightarrow> uuid option" where
  "contract_of_order ord = (if ord_payment_method ord = PM_CONTRACT then ord_contract_id ord else None)"

text \<open>The contract's price of one more product, its quantity booked.\<close>

definition book_contract_line :: "order_row \<Rightarrow> uuid \<Rightarrow> uuid \<Rightarrow> int \<Rightarrow> int dbtx" where
  "book_contract_line ord contract_id product_id quantity =
     tx_bind (tx_get (get_contract contract_id)) (\<lambda>c.
     tx_bind (tx_require c (ContractErr (ContractRequiredError (ord_client_id ord)))) (\<lambda>c.
     tx_bind (tx_raise_if (con_status c \<noteq> CS_ACTIVE) (ContractErr (ContractNotActiveError (row_id c) (con_status c)))) (\<lambda>_.
     tx_bind (tx_get (get_for_products_locked (row_id c) [product_id])) (\<lambda>locked.
     case locked of
       [] \<Rightarrow> tx_raise (ContractErr (ProductNotInContractError (row_id c) product_id))
     | pi # _ \<Rightarrow>
         tx_bind (tx_raise_if (quota_exceeded pi quantity)
           (ContractErr (QuantityLimitExceededError (row_id c) product_id (cpi_quantity pi) (cpi_quantity_used pi) quantity))) (\<lambda>_.
         tx_bind (increment_quantities_used [(row_id pi, quantity)]) (\<lambda>_.
         tx_ret (cpi_price pi)))))))"

definition add_product_to_order_body :: "uuid \<Rightarrow> uuid \<Rightarrow> int \<Rightarrow> uuid option \<Rightarrow> uuid dbtx" where
  "add_product_to_order_body order_id product_id quantity requesting_user_id =
     tx_bind (tx_raise_if (quantity \<le> 0) (HttpErr (BadRequestError ''INVALID_QUANTITY''))) (\<lambda>_.
     tx_bind (tx_get (get_by_ids [product_id])) (\<lambda>prods.
     tx_bind (tx_raise_if (prods = []) (OrderErr (ProductsUnavailableError [product_id]))) (\<lambda>_.
     tx_bind (require_editable order_id requesting_user_id) (\<lambda>ord.
     tx_bind (get_by_order_and_product order_id product_id) (\<lambda>existing_item.
     tx_bind (case contract_of_order ord of
         None \<Rightarrow> tx_ret (prd_price (hd prods))
       | Some c \<Rightarrow> book_contract_line ord c product_id quantity) (\<lambda>current_price.
     tx_bind (case existing_item of
         Some it \<Rightarrow> update_quantity (row_id it) (oit_quantity it + quantity)
       | None \<Rightarrow> tx_bind (insert_order_item (order_item_draft order_id (product_id, quantity) current_price)) (\<lambda>_.
           tx_ret ())) (\<lambda>_.
     let new_total = ord_total_amount ord + current_price * quantity in
     tx_bind (update_order order_id (if contract_of_order ord = None
         then (\<lambda>r. r\<lparr>ord_total_amount := new_total\<rparr>)
         else (\<lambda>r. r\<lparr>ord_total_amount := new_total, ord_quantities_reserved := True\<rparr>))) (\<lambda>_.
     tx_ret order_id))))))))"

definition add_product_to_order where
  "add_product_to_order order_id product_id quantity requesting_user_id =
     commit_then (add_product_to_order_body order_id product_id quantity requesting_user_id) load_order"

definition remove_product_from_order_body :: "uuid \<Rightarrow> uuid \<Rightarrow> uuid option \<Rightarrow> uuid dbtx" where
  "remove_product_from_order_body order_id product_id requesting_user_id =
     tx_bind (require_editable order_id requesting_user_id) (\<lambda>ord.
     tx_bind (get_by_order_and_product order_id product_id) (\<lambda>existing_item.
     case existing_item of
       None \<Rightarrow> tx_ret order_id
     | Some it \<Rightarrow>
         tx_bind (tx_get (items_of order_id)) (\<lambda>items.
         tx_bind (tx_raise_if (length items \<le> 1) (OrderErr CannotRemoveLastItemError)) (\<lambda>_.
         tx_bind (delete_by_order_and_product order_id product_id) (\<lambda>_.
         tx_bind (case contract_of_order ord of
             Some c \<Rightarrow> tx_when (ord_quantities_reserved ord)
               (decrement_quantities_used c [(product_id, oit_quantity it)])
           | None \<Rightarrow> tx_ret ()) (\<lambda>_.
         tx_bind (update_order order_id
           (\<lambda>r. r\<lparr>ord_total_amount := max 0 (ord_total_amount ord - oit_unit_price it * oit_quantity it)\<rparr>)) (\<lambda>_.
         tx_ret order_id)))))))"

definition remove_product_from_order where
  "remove_product_from_order order_id product_id requesting_user_id =
     commit_then (remove_product_from_order_body order_id product_id requesting_user_id) load_order"

definition assign_courier_body :: "uuid \<Rightarrow> uuid \<Rightarrow> uuid dbtx" where
  "assign_courier_body order_id courier_id =
     tx_bind (require_order order_id) (\<lambda>ord.
     tx_bind (tx_raise_if (ord_sale_type ord = SALE_WAREHOUSE_PICKUP)
       (OrderErr (InvalidPickupOperationError order_id))) (\<lambda>_.
     tx_bind (tx_raise_if (ord_status ord \<notin> {OS_NEW, OS_ASSIGNED})
       (OrderErr (CourierAssignmentError order_id courier_id))) (\<lambda>_.
     tx_bind (tx_get (get_courier courier_id)) (\<lambda>courier.
     tx_bind (tx_raise_if (courier = None) (OrderErr (CourierAssignmentError order_id courier_id))) (\<lambda>_.
     tx_bind (get_courier_inventory courier_id) (\<lambda>v.
     tx_bind (tx_raise_if (v = None) (OrderErr (CourierAssignmentError order_id courier_id))) (\<lambda>_.
     tx_bind (update_order order_id (\<lambda>r. r\<lparr>ord_courier_id := Some courier_id, ord_status := OS_ASSIGNED\<rparr>)) (\<lambda>_.
     tx_bind (log_transition order_id (Some (ord_status ord)) OS_ASSIGNED None None) (\<lambda>_.
     tx_ret order_id)))))))))"

definition assign_courier where
  "assign_courier order_id courier_id = commit_then (assign_courier_body order_id courier_id) load_order"

section \<open>update\_status\<close>

definition releases_quota :: "order_row \<Rightarrow> order_status \<Rightarrow> bool" where
  "releases_quota ord new_status \<longleftrightarrow> new_status = OS_CANCELLED \<and> ord_status ord \<noteq> OS_CANCELLED
     \<and> ord_payment_method ord = PM_CONTRACT \<and> ord_contract_id ord \<noteq> None \<and> ord_quantities_reserved ord
     \<and> ord_status ord \<notin> {OS_DELIVERED, OS_PICKUP_COMPLETED}"

definition update_status_body ::
  "uuid \<Rightarrow> order_status \<Rightarrow> item list \<Rightarrow> uuid option \<Rightarrow> string option \<Rightarrow> uuid dbtx" where
  "update_status_body order_id new_status actual_items requesting_user_id cancellation_reason =
     tx_bind (require_order order_id) (\<lambda>ord.
     tx_bind (tx_raise_if (case requesting_user_id of None \<Rightarrow> False
         | Some u \<Rightarrow> Some u \<noteq> ord_courier_id ord \<and> u \<noteq> ord_client_id ord)
       (OrderErr (OrderAccessDeniedError (the requesting_user_id) order_id))) (\<lambda>_.
     tx_bind (ensure_status_transition_allowed ord new_status) (\<lambda>_.
     tx_bind (repo_update_status order_id new_status) (\<lambda>updated.
     tx_bind (tx_require updated (OrderErr (OrderNotFoundError order_id))) (\<lambda>updated.
     tx_bind (tx_when (ord_status ord \<noteq> OS_DELIVERED \<and> new_status = OS_DELIVERED)
       (handle_order_fulfillment updated actual_items)) (\<lambda>_.
     tx_bind (tx_when (releases_quota ord new_status) (release_order_quantities ord)) (\<lambda>_.
     tx_bind (tx_when (new_status = OS_CANCELLED \<and> cancellation_reason \<noteq> None \<and> cancellation_reason \<noteq> Some [])
       (update_order (row_id ord) (\<lambda>r. r\<lparr>ord_cancellation_reason := cancellation_reason\<rparr>))) (\<lambda>_.
     tx_bind (log_transition order_id (Some (ord_status ord)) new_status requesting_user_id cancellation_reason) (\<lambda>_.
     tx_ret order_id)))))))))"

definition update_status where
  "update_status order_id new_status actual_items requesting_user_id cancellation_reason =
     commit_then (update_status_body order_id new_status actual_items requesting_user_id cancellation_reason) load_order"

text \<open>\<open>cancel_order\<close> checks in one unit of work and moves the order in another.\<close>

definition check_client_may_cancel :: "uuid \<Rightarrow> uuid \<Rightarrow> db \<Rightarrow> app_error + unit" where
  "check_client_may_cancel order_id requesting_user_id s = (case tbl_get order_id True (orders s) of
     None \<Rightarrow> Inl (OrderErr (OrderNotFoundError order_id))
   | Some ord \<Rightarrow>
       if ord_client_id ord \<noteq> requesting_user_id
       then Inl (OrderErr (OrderAccessDeniedError requesting_user_id order_id))
       else if ord_status ord \<noteq> OS_NEW
       then Inl (OrderErr (InvalidOrderStatusError order_id (ord_status ord) (Some OS_NEW) None []))
       else Inr ())"

definition cancel_order where
  "cancel_order order_id requesting_user_id reason s = (case check_client_may_cancel order_id requesting_user_id s of
     Inl e \<Rightarrow> (Inl e, s)
   | Inr _ \<Rightarrow> update_status order_id OS_CANCELLED [] (Some requesting_user_id) reason s)"

section \<open>Queries\<close>

definition check_tara_availability :: "item list \<Rightarrow> uuid \<Rightarrow> uuid option \<Rightarrow> (bool \<times> tara_shortage list) dbtx" where
  "check_tara_availability items client_inventory_id client_id =
     tx_bind (tx_get (get_by_ids (map fst items))) (\<lambda>prods.
     let ex = exchange_products prods items in
     if ex = [] then tx_ret (True, [])
     else
       tx_bind (tx_get (get_inventory_with_balances client_inventory_id None)) (\<lambda>v.
       tx_bind (tx_require v (OrderErr (ClientInventoryNotFoundError client_inventory_id))) (\<lambda>v.
       tx_bind (tx_raise_if (case client_id of None \<Rightarrow> False | Some u \<Rightarrow> inv_user_id v \<noteq> u)
         (HttpErr (ForbiddenError ''INVENTORY_ACCESS_DENIED''))) (\<lambda>_.
       tx_bind (tx_get (tara_shortages (row_id v) ex (\<lambda>_. 0))) (\<lambda>shortages.
       tx_ret (shortages = [], shortages))))))"

definition get_client_history :: "uuid \<Rightarrow> nat \<Rightarrow> nat \<Rightarrow> order_status option \<Rightarrow> db \<Rightarrow> order_row list \<times> nat" where
  "get_client_history client_id skip limit status s =
     (get_client_orders client_id skip limit status s, count_client_orders client_id status s)"

definition get_courier_tasks :: "uuid \<Rightarrow> db \<Rightarrow> order_row list" where
  "get_courier_tasks courier_id s = get_active_courier_orders courier_id s"

definition search_orders :: "nat \<Rightarrow> nat \<Rightarrow> order_search \<Rightarrow> db \<Rightarrow> app_error + (order_row list \<times> nat)" where
  "search_orders skip limit q s =
     (if (case (osq_date_from q, osq_date_to q) of (Some a, Some b) \<Rightarrow> a > b | _ \<Rightarrow> False)
      then Inl (HttpErr (BadRequestError ''INVALID_DATE_RANGE''))
      else Inr (repo_search_orders skip limit (q\<lparr>osq_contract_id := None\<rparr>) s))"

section \<open>expire\_stale\_orders\<close>

definition expire_order :: "order_status \<Rightarrow> string \<Rightarrow> uuid option \<Rightarrow> order_row \<Rightarrow> unit dbtx" where
  "expire_order status reason admin_id ord =
     tx_bind (repo_update_status (row_id ord) OS_CANCELLED) (\<lambda>_.
     tx_bind (tx_when (ord_payment_method ord = PM_CONTRACT \<and> ord_contract_id ord \<noteq> None \<and> ord_quantities_reserved ord)
       (release_order_quantities ord)) (\<lambda>_.
     tx_bind (update_order (row_id ord) (\<lambda>r. r\<lparr>ord_cancellation_reason := Some reason\<rparr>)) (\<lambda>_.
     log_transition (row_id ord) (Some status) OS_CANCELLED admin_id (Some reason))))"

definition hours_ago :: "int \<Rightarrow> timestamp \<Rightarrow> timestamp" where
  "hours_ago h now = now - h * 3600 * 1000000"

definition expire_batch :: "order_status \<Rightarrow> int \<Rightarrow> string \<Rightarrow> uuid option \<Rightarrow> nat dbtx" where
  "expire_batch status max_age_hours reason admin_id =
     tx_bind (tx_get (\<lambda>s. get_stale_orders (hours_ago max_age_hours (clock s)) status 500 (status \<noteq> OS_NEW) s)) (\<lambda>stale.
     tx_bind (tx_for (expire_order status reason admin_id) stale) (\<lambda>_.
     tx_ret (length stale)))"

definition expire_stale_orders_body :: "int \<Rightarrow> int \<Rightarrow> uuid option \<Rightarrow> nat dbtx" where
  "expire_stale_orders_body max_age_hours assigned_max_age_hours admin_id =
     tx_bind (expire_batch OS_NEW max_age_hours
       (''Avto-otmena: zakaz ne obrabotan za '' @ decimal (nat max_age_hours) @ ''ch'') admin_id) (\<lambda>a.
     tx_bind (expire_batch OS_ASSIGNED assigned_max_age_hours
       (''Avto-otmena: zakaz ne dostavlen za '' @ decimal (nat assigned_max_age_hours) @ ''ch'') admin_id) (\<lambda>b.
     tx_ret (a + b)))"

definition expire_stale_orders where
  "expire_stale_orders max_age_hours assigned_max_age_hours admin_id =
     with_uow (expire_stale_orders_body max_age_hours assigned_max_age_hours admin_id)"

end
