(* ===== verification/OrderRules.thy ===== *)
theory OrderRules
  imports Orders
begin

text \<open>
  What the order service keeps: the two ledgers (\<open>fin_explained\<close>, \<open>stock_explained\<close>), the quotas
  (\<open>quotas_ok\<close>), and the life cycles of orders, contracts and invoices (\<open>db_evolve\<close>), body by body.
  The steps whose legality depends on the order that was read are taken from the run.
\<close>

section \<open>Reads\<close>

lemma require_order_iff [tx_iff]:
  "require_order i s = Inr (ord, s') \<longleftrightarrow> s' = s \<and> tbl_get i False (orders s) = Some ord"
  by (auto simp: require_order_def load_order_def get_with_details_def tx_iff split: option.splits)

lemma require_editable_iff [tx_iff]:
  "require_editable i u s = Inr (ord, s') \<longleftrightarrow> s' = s \<and> tbl_get i False (orders s) = Some ord
     \<and> ord_status ord = OS_NEW \<and> (case u of None \<Rightarrow> True | Some u \<Rightarrow> ord_client_id ord = u)"
  by (auto simp: require_editable_def tx_iff split: option.splits)

lemma get_and_validate_iff [tx_iff]:
  "get_and_validate_contract_locked u ro s = Inr (c, s') \<longleftrightarrow> s' = s \<and> ro = R_CLIENT_B2B
     \<and> filter (\<lambda>c. con_client_id c = u \<and> is_live c) (contracts s) = [c] \<and> con_status c = CS_ACTIVE
     \<and> (\<forall>d. con_end_date c = Some d \<longrightarrow> date_of (clock s) \<le> d)"
  unfolding get_and_validate_contract_locked_def tx_bind_iff tx_raise_if_iff get_active_for_client_iff tx_require_iff
    tx_get_iff tx_ret_iff Let_def
  by (auto split: option.splits)

lemma contract_terms_iff [tx_iff]:
  "contract_terms u ro ps s = Inr ((c, locked), s') \<longleftrightarrow> s' = s
     \<and> get_and_validate_contract_locked u ro s = Inr (c, s)
     \<and> locked = get_for_products_locked (row_id c) ps s \<and> (\<forall>p\<in>set ps. price_item_map locked p \<noteq> None)"
  unfolding contract_terms_def tx_bind_iff tx_get_iff tx_ret_iff
  by (auto simp: tx_iff find_None_all split: option.splits dest: find_Some_in)

lemma check_available_iff [tx_iff]:
  "check_available prods ps s = Inr (x, s') \<longleftrightarrow> s' = s \<and> set ps \<subseteq> row_id ` set prods"
  by (auto simp: check_available_def tx_iff filter_empty_conv image_iff)

lemma ensure_status_transition_allowed_iff [tx_iff]:
  "ensure_status_transition_allowed ord st s = Inr (x, s') \<longleftrightarrow> s' = s
     \<and> (ord_status ord = st \<or> st \<in> set (get_allowed_statuses (ord_sale_type ord) (ord_status ord)))"
  by (cases "ord_status ord"; cases "ord_sale_type ord")
     (auto simp: ensure_status_transition_allowed_def tx_iff set_allowed_statuses)

lemma order_reads:
  "contract_terms u ro ps s = Inr (y, s') \<Longrightarrow> s' = s" "get_client u s = Inr (z, s') \<Longrightarrow> s' = s"
  "get_courier_inventory u s = Inr (v, s') \<Longrightarrow> s' = s" "get_by_order_and_product i p s = Inr (w, s') \<Longrightarrow> s' = s"
  by (cases y; auto simp: tx_iff)
     (auto simp: get_client_def get_courier_inventory_def get_by_order_and_product_def tx_iff)

lemma keeps_order_reads [keeps_intro]:
  "keeps P (require_order i)" "keeps P (require_editable i ou)" "keeps P (get_and_validate_contract_locked u ro)"
  "keeps P (contract_terms u ro ps)" "keeps P (check_available prods ps)" "keeps P (get_client u)"
  "keeps P (ensure_status_transition_allowed ord st)" "keeps P (get_courier_inventory u)"
  "keeps P (get_by_order_and_product i q)"
  by (rule keepsI; auto simp: tx_iff dest: order_reads)+

lemma frame_order_service_reads [frame_intro]:
  "frame g (require_order i)" "frame g (require_editable i ou)" "frame g (get_and_validate_contract_locked u ro)"
  "frame g (contract_terms u ro ps)" "frame g (check_available prods ps)" "frame g (get_client u)"
  "frame g (ensure_status_transition_allowed ord st)" "frame g (get_courier_inventory u)"
  "frame g (get_by_order_and_product i q)"
  by (rule frameI; auto simp: tx_iff dest: order_reads)+

lemma moves_order_reads [moves_intro]:
  assumes "reflp R"
  shows "moves R (require_order i)" "moves R (require_editable i ou)" "moves R (contract_terms u ro ps)"
    "moves R (check_available prods ps)" "moves R (get_client u)" "moves R (ensure_status_transition_allowed ord st)"
  by (rule moves_still [OF assms]; auto simp: tx_iff dest: order_reads)+

section \<open>The ledgers\<close>

lemma keeps_settle_tara [keeps_intro]:
  "keeps fin_explained (settle_tara i prods items b u)" "keeps stock_explained (settle_tara i prods items b u)"
  "keeps quotas_ok (settle_tara i prods items b u)"
  unfolding settle_tara_def Let_def by (intro keeps_intro)+

lemma moves_settle_tara [moves_intro]: "moves db_evolve (settle_tara i prods items b u)"
  unfolding settle_tara_def Let_def by (intro moves_intro)

lemma frame_settle_tara [frame_intro]:
  assumes "\<And>s f. g (stock_transfers_update f s) = g s" "\<And>s f. g (stock_transfer_items_update f s) = g s"
    "\<And>s f. g (stock_transactions_update f s) = g s" "\<And>s f. g (inventory_balances_update f s) = g s"
    "\<And>s i. g (s\<lparr>next_id := i\<rparr>) = g s"
  shows "frame g (settle_tara i prods items b u)"
  unfolding settle_tara_def Let_def by (intro frame_intro; rule assms)

lemma keeps_ledgers_orders [keeps_intro]:
  "keeps fin_explained (create_order_body u dto)" "keeps stock_explained (create_order_body u dto)"
  "keeps fin_explained (create_warehouse_sale_body w ou u)" "keeps stock_explained (create_warehouse_sale_body w ou u)"
  "keeps fin_explained (complete_pickup_body i u)" "keeps stock_explained (complete_pickup_body i u)"
  "keeps fin_explained (assign_courier_body i u)" "keeps stock_explained (assign_courier_body i u)"
  "keeps fin_explained (remove_product_from_order_body i p ou)" "keeps stock_explained (remove_product_from_order_body i p ou)"
  unfolding create_order_body_def create_warehouse_sale_body_def complete_pickup_body_def assign_courier_body_def
    remove_product_from_order_body_def Let_def
  by (intro keeps_intro)+

lemma keeps_ledgers_lines [keeps_intro]:
  "keeps fin_explained (book_contract_line ord c p q)" "keeps stock_explained (book_contract_line ord c p q)"
  "keeps fin_explained (add_product_to_order_body i p q ou)" "keeps stock_explained (add_product_to_order_body i p q ou)"
  unfolding add_product_to_order_body_def book_contract_line_def Let_def
  by (intro keeps_intro)+

lemma keeps_update_status [keeps_intro]:
  "keeps fin_explained (update_status_body i st act ou re)" "keeps stock_explained (update_status_body i st act ou re)"
  "keeps quotas_ok (update_status_body i st act ou re)"
  unfolding update_status_body_def by (intro keeps_intro)+

lemma keeps_expire [keeps_intro]:
  "keeps fin_explained (expire_stale_orders_body a b ou)" "keeps stock_explained (expire_stale_orders_body a b ou)"
  "keeps quotas_ok (expire_stale_orders_body a b ou)"
  unfolding expire_stale_orders_body_def expire_batch_def expire_order_def by (intro keeps_intro)+

section \<open>The quotas\<close>

lemma keeps_quotas_orders [keeps_intro]:
  "keeps quotas_ok (create_warehouse_sale_body w ou u)" "keeps quotas_ok (complete_pickup_body i u)"
  "keeps quotas_ok (assign_courier_body i u)" "keeps quotas_ok (remove_product_from_order_body i p ou)"
  unfolding create_warehouse_sale_body_def complete_pickup_body_def assign_courier_body_def
    remove_product_from_order_body_def Let_def
  by (intro keeps_intro)+

text \<open>The run of \<open>create_order\<close>, statement by statement.\<close>

lemma create_orderE:
  assumes "create_order_body u dto s = Inr (i, s')"
  obtains prods client terms s1 s2 s3 s4 cap ord x y z where
    "prods = get_by_ids (map fst (oc_items dto)) s" "oc_items dto \<noteq> []" "distinct (map fst (oc_items dto))"
    "set (map fst (oc_items dto)) \<subseteq> row_id ` set prods" "get_client u s = Inr (client, s)"
    "case terms of
       None \<Rightarrow> oc_payment_method dto \<noteq> PM_CONTRACT \<and> s1 = s
     | Some (c, locked) \<Rightarrow> oc_payment_method dto = PM_CONTRACT
         \<and> contract_terms u (usr_role client) (map fst (oc_items dto)) s = Inr ((c, locked), s)
         \<and> check_and_reserve_quantities (row_id c) (oc_items dto) locked s = Inr (x, s1)"
    "settle_tara (oc_client_inventory_id dto) prods (oc_items dto) (oc_capitalize_missing_tara dto) u s1 = Inr (cap, s2)"
    "insert_order (order_draft u (oc_client_inventory_id dto) (oc_payment_method dto) OS_NEW
        (order_total (order_price prods (case terms of None \<Rightarrow> [] | Some (c, locked) \<Rightarrow> locked)) (oc_items dto))
        cap SALE_DELIVERY None (map_option (\<lambda>(c, locked). row_id c) terms) (terms \<noteq> None) (oc_notes dto)) s2 = Inr (ord, s3)"
    "add_order_items (order_lines (row_id ord)
        (order_price prods (case terms of None \<Rightarrow> [] | Some (c, locked) \<Rightarrow> locked)) (oc_items dto)) s3 = Inr (y, s4)"
    "log_transition (row_id ord) None OS_NEW (Some u) None s4 = Inr (z, s')" "i = row_id ord"
proof -
  have agreed: "case terms of
       None \<Rightarrow> oc_payment_method dto \<noteq> PM_CONTRACT \<and> s1 = s
     | Some (c, locked) \<Rightarrow> oc_payment_method dto = PM_CONTRACT
         \<and> contract_terms u (usr_role client) (map fst (oc_items dto)) s = Inr ((c, locked), s)
         \<and> check_and_reserve_quantities (row_id c) (oc_items dto) locked s = Inr (x, s1)"
    if "(if oc_payment_method dto = PM_CONTRACT
         then tx_bind (contract_terms u (usr_role client) (map fst (oc_items dto))) (\<lambda>t. tx_ret (Some t))
         else tx_ret None) s = Inr (terms, t)"
      "(case terms of None \<Rightarrow> tx_ret ()
        | Some (c, locked) \<Rightarrow> check_and_reserve_quantities (row_id c) (oc_items dto) locked) t = Inr (x, s1)"
    for client terms t x s1
    using that by (auto simp: tx_bind_iff tx_ret_iff dest: order_reads(1) split: if_splits)
  show ?thesis
    using assms unfolding create_order_body_def Let_def tx_bind_iff tx_raise_if_iff tx_get_iff check_available_iff tx_ret_iff
      not_not
    apply (elim exE conjE)
    apply (hypsubst)
    apply (frule order_reads(2))
    apply (hypsubst)
    apply (drule agreed, assumption)
    apply (rule that [OF refl]; assumption)
    done
qed

lemma create_order_reserves:
  assumes ok: "quotas_ok s" and "distinct (map fst items)"
    and "contract_terms u ro (map fst items) s = Inr ((c, locked), s)"
    and "check_and_reserve_quantities (row_id c) items locked s = Inr (x, s1)"
  shows "reserve_quantities (row_id c) items s = Inr (x, s1)" "quotas_ok s1"
  using assms reserve_within_keeps [OF ok assms(2), of "row_id c" x s1] by (auto simp: contract_terms_iff)

lemma keeps_quotas_create_order [keeps_intro]: "keeps quotas_ok (create_order_body u dto)"
proof (rule keepsI)
  fix s i s' assume ok: "quotas_ok s" and run: "create_order_body u dto s = Inr (i, s')"
  show "quotas_ok s'"
  proof (rule create_orderE [OF run], goal_cases)
    case (1 prods client terms s1 s2 s3 s4 cap ord x y z)
    have ok1: "quotas_ok s1"
    proof (cases terms)
      case (Some t)
      obtain c locked where t: "t = (c, locked)" by force
      show ?thesis
        by (rule create_order_reserves(2) [OF ok 1(3)]) (use 1(6) Some t in auto)
    qed (use 1(6) ok in simp)
    note step = keepsD [OF keeps_settle_tara(3) ok1 1(7)]
    note step = keepsD [OF keeps_quotas_order_tables(1) step 1(8)]
    note step = keepsD [OF keeps_quotas_order_tables(5) step 1(9)]
    show ?thesis by (rule keepsD [OF keeps_quotas_order_tables(9) step 1(10)])
  qed
qed

lemma book_contract_lineD:
  assumes "book_contract_line ord c p q s = Inr (price, s')"
    and ok: "quotas_ok s"
  shows "reserve_quantities c [(p, q)] s = Inr ((), s')" "\<exists>pi. price_item_of c p s = Some pi \<and> price = cpi_price pi"
    "\<exists>con. get_contract c s = Some con \<and> con_status con = CS_ACTIVE"
proof -
  let ?locked = "get_for_products_locked c [p] s"
  obtain con where con: "get_contract c s = Some con" "con_status con = CS_ACTIVE" and id: "row_id con = c"
      and run: "(case get_for_products_locked (row_id con) [p] s of
        [] \<Rightarrow> tx_raise (ContractErr (ProductNotInContractError (row_id con) p))
      | pi # _ \<Rightarrow>
          tx_bind (tx_raise_if (quota_exceeded pi q)
            (ContractErr (QuantityLimitExceededError (row_id con) p (cpi_quantity pi) (cpi_quantity_used pi) q))) (\<lambda>_.
          tx_bind (increment_quantities_used [(row_id pi, q)]) (\<lambda>_. tx_ret (cpi_price pi)))) s = Inr (price, s')"
    using assms(1) unfolding book_contract_line_def tx_bind_iff tx_get_iff tx_require_iff tx_raise_if_iff
    by (auto simp: get_contract_def dest: tbl_get_SomeD)
  obtain pi rest where locked: "?locked = pi # rest" and fits: "\<not> quota_exceeded pi q"
      and inc: "increment_quantities_used [(row_id pi, q)] s = Inr ((), s')" and price: "price = cpi_price pi"
    using run unfolding id by (cases ?locked) (auto simp: tx_iff)
  have pi: "pi \<in> set ?locked" by (simp add: locked)
  then have of: "price_item_of c p s = Some pi"
    using price_item_of_unique [OF ok, of pi] by (auto simp: get_for_products_locked_def)
  have "price_item_map ?locked p \<noteq> None"
    using pi by (auto simp: price_item_map_def find_None_iff get_for_products_locked_def)
  then obtain pi' where "price_item_map ?locked p = Some pi'" by blast
  with price_item_map_locked [OF ok this] of have map: "price_item_map ?locked p = Some pi" by simp
  show "reserve_quantities c [(p, q)] s = Inr ((), s')"
    using map fits inc by (simp add: reserve_quantities_def check_and_reserve_quantities_def tx_bind_def tx_get_def tx_lift_def)
  show "\<exists>pi. price_item_of c p s = Some pi \<and> price = cpi_price pi" using of price by blast
  show "\<exists>con. get_contract c s = Some con \<and> con_status con = CS_ACTIVE" using con by blast
qed

lemma keeps_quotas_book_line [keeps_intro]: "keeps quotas_ok (book_contract_line ord c p q)"
proof (rule keepsI)
  fix s x s' assume ok: "quotas_ok s" and run: "book_contract_line ord c p q s = Inr (x, s')"
  show "quotas_ok s'" using quota.reserve_law [OF ok _ book_contract_lineD(1) [OF run ok]] by simp
qed

lemma keeps_quotas_add_product [keeps_intro]: "keeps quotas_ok (add_product_to_order_body i p q ou)"
  unfolding add_product_to_order_body_def Let_def by (intro keeps_intro)

section \<open>The life cycles\<close>

lemma moves_db_orders_bodies [moves_intro]:
  "moves db_evolve (create_order_body u dto)" "moves db_evolve (create_warehouse_sale_body w ou u)"
  "moves db_evolve (remove_product_from_order_body i p ou)" "moves db_evolve (add_product_to_order_body i p q ou)"
  unfolding create_order_body_def create_warehouse_sale_body_def remove_product_from_order_body_def
    add_product_to_order_body_def book_contract_line_def Let_def
  by (intro moves_intro; simp add: order_phase_def order_draft_def phase_ok_def order_cosmetic_rules)+

text \<open>A change of status is legal when the order that was read may take it.\<close>

lemma status_write_evolves:
  assumes s': "s' = orders_update (tbl_update (clock s) i f) s" and ord: "tbl_get i False (orders s) = Some ord"
    and le: "phase_ok (order_phase ord) \<Longrightarrow> order_le ord ((f ord)\<lparr>updated_at := clock s\<rparr>)"
  shows "db_evolve s s'"
proof -
  have "orders_evolve s s'"
  proof (rule orders_evolve_update)
    fix r assume "orders_ok s" "r \<in> set (orders s)" "row_id r = i"
    then have "r = ord" "phase_ok (order_phase ord)"
      using tbl_get_SomeD [OF ord] by (auto simp: orders_ok_def keys_distinct_def dest: distinct_key_eq)
    with le show "order_le r ((f r)\<lparr>updated_at := clock s\<rparr>)" by simp
  qed (simp add: s')
  moreover have "contracts_evolve s s'" "invoices_evolve s s'"
    using contracts_evolve_preorder(1) invoices_evolve_preorder(1)
    by (auto simp: s' contracts_evolve_def invoices_evolve_def contracts_ok_def invoices_ok_def reflp_def)
  ultimately show ?thesis by (simp add: db_evolve_def)
qed

lemma allowed_order_le:
  assumes "ord_status ord = st \<or> order_step (order_phase ord) (ord_sale_type ord, st)"
  shows "order_le ord (ord\<lparr>ord_status := st, updated_at := now\<rparr>)"
    "order_le ord (ord\<lparr>ord_courier_id := c, ord_status := st, updated_at := now\<rparr>)"
  using assms by (auto simp: order_le_def order_phase_def)

lemma db_evolve_then:
  assumes "db_evolve s s1" "moves db_evolve (tx_bind m f)" "tx_bind m f s1 = Inr (x, s')"
  shows "db_evolve s s'"
  using movesD [OF assms(2,3)] assms(1) db_evolve_preorder(2) by (auto dest: transpD)

lemma moves_complete_pickup [moves_intro]: "moves db_evolve (complete_pickup_body i u)"
proof (rule movesI)
  fix s x s' assume run: "complete_pickup_body i u s = Inr (x, s')"
  obtain ord s1 where ord: "tbl_get i False (orders s) = Some ord" "ord_sale_type ord = SALE_WAREHOUSE_PICKUP"
      "ord_status ord = OS_NEW" and s1: "s1 = orders_update (tbl_update (clock s) i (\<lambda>r. r\<lparr>ord_status := OS_PICKUP_COMPLETED\<rparr>)) s"
      and rest: "tx_bind (log_transition i (Some OS_NEW) OS_PICKUP_COMPLETED (Some u) None) (\<lambda>_.
        tx_bind (handle_warehouse_pickup ord u) (\<lambda>_. tx_ret i)) s1 = Inr (x, s')"
    using run unfolding complete_pickup_body_def
    unfolding tx_bind_iff [of "require_order i"] tx_bind_iff [of "tx_raise_if b e" for b e]
      tx_bind_iff [of "repo_update_status j st" for j st] require_order_iff tx_raise_if_iff repo_update_status_iff
    by blast
  show "db_evolve s s'"
  proof (rule db_evolve_then [OF _ _ rest])
    show "db_evolve s s1"
      by (rule status_write_evolves [OF s1 ord(1)], rule allowed_order_le) (use ord in \<open>simp add: order_phase_def\<close>)
  qed (intro moves_intro)
qed

lemma moves_assign_courier [moves_intro]: "moves db_evolve (assign_courier_body i u)"
proof (rule movesI)
  fix s x s' assume run: "assign_courier_body i u s = Inr (x, s')"
  obtain ord s1 where ord: "tbl_get i False (orders s) = Some ord" "ord_sale_type ord \<noteq> SALE_WAREHOUSE_PICKUP"
      "ord_status ord \<in> {OS_NEW, OS_ASSIGNED}"
      and s1: "s1 = orders_update (tbl_update (clock s) i (\<lambda>r. r\<lparr>ord_courier_id := Some u, ord_status := OS_ASSIGNED\<rparr>)) s"
      and rest: "tx_bind (log_transition i (Some (ord_status ord)) OS_ASSIGNED None None) (\<lambda>_. tx_ret i) s1 = Inr (x, s')"
    using run unfolding assign_courier_body_def
    unfolding tx_bind_iff [of "require_order i"] tx_bind_iff [of "tx_raise_if b e" for b e] tx_bind_iff [of "tx_get q" for q]
      tx_bind_iff [of "get_courier_inventory j" for j]
      tx_bind_iff [of "update_order j f" for j f] require_order_iff tx_raise_if_iff update_order_iff tx_get_iff
    using order_reads(3) by blast
  show "db_evolve s s'"
  proof (rule db_evolve_then [OF _ _ rest])
    show "db_evolve s s1"
      by (rule status_write_evolves [OF s1 ord(1)], rule allowed_order_le)
         (use ord in \<open>cases "ord_sale_type ord"; auto simp: order_phase_def\<close>)
  qed (intro moves_intro)
qed

text \<open>The run of \<open>update_status\<close>, statement by statement.\<close>

lemma update_statusE:
  assumes "update_status_body i st act ou re s = Inr (j, s')"
  obtains ord s1 upd s2 s3 s4 x y z w where
    "tbl_get i False (orders s) = Some ord"
    "case ou of None \<Rightarrow> True | Some u \<Rightarrow> Some u = ord_courier_id ord \<or> u = ord_client_id ord"
    "ord_status ord = st \<or> st \<in> set (get_allowed_statuses (ord_sale_type ord) (ord_status ord))"
    "s1 = orders_update (tbl_update (clock s) i (\<lambda>r. r\<lparr>ord_status := st\<rparr>)) s"
    "tbl_get i False (orders s1) = Some upd"
    "tx_when (ord_status ord \<noteq> OS_DELIVERED \<and> st = OS_DELIVERED) (handle_order_fulfillment upd act) s1 = Inr (x, s2)"
    "tx_when (releases_quota ord st) (release_order_quantities ord) s2 = Inr (y, s3)"
    "tx_when (st = OS_CANCELLED \<and> re \<noteq> None \<and> re \<noteq> Some [])
       (update_order (row_id ord) (\<lambda>r. r\<lparr>ord_cancellation_reason := re\<rparr>)) s3 = Inr (z, s4)"
    "log_transition i (Some (ord_status ord)) st ou re s4 = Inr (w, s')" "j = i"
proof -
  have access: "case ou of None \<Rightarrow> True | Some u \<Rightarrow> Some u = ord_courier_id ord \<or> u = ord_client_id ord"
    if "\<not> (case ou of None \<Rightarrow> False | Some u \<Rightarrow> Some u \<noteq> ord_courier_id ord \<and> u \<noteq> ord_client_id ord)" for ord :: order_row
    using that by (cases ou) auto
  show ?thesis
    using assms unfolding update_status_body_def tx_bind_iff require_order_iff tx_raise_if_iff
      ensure_status_transition_allowed_iff repo_update_status_iff tx_require_iff tx_ret_iff
    apply (elim exE conjE)
    apply hypsubst
    apply (rule that)
             apply assumption
            apply (erule access)
           apply (assumption | rule refl | erule sym)+
    done
qed

lemma moves_update_status [moves_intro]: "moves db_evolve (update_status_body i st act ou re)"
proof (rule movesI)
  fix s x s' assume "update_status_body i st act ou re s = Inr (x, s')"
  then show "db_evolve s s'"
  proof (rule update_statusE, goal_cases)
    case (1 ord s1 upd s2 s3 s4 x y z w)
    note trans = transpD [OF db_evolve_preorder(2)]
    note whenD = movesD [OF moves_when [OF db_evolve_preorder(1)]]
    have "db_evolve s s1"
      by (rule status_write_evolves [OF 1(4,1)], rule allowed_order_le)
         (use 1(3) in \<open>auto simp: order_phase_def\<close>)
    moreover have "db_evolve s1 s2" by (rule whenD [OF moves_hand_over(1) 1(6)])
    moreover have "db_evolve s2 s3" by (rule whenD [OF db_evolve_order_tables(4) 1(7)])
    moreover have "db_evolve s3 s4"
      by (rule whenD [OF db_evolve_order_tables(1) [OF order_cosmetic_rules(4)] 1(8)])
    moreover have "db_evolve s4 s'" by (rule movesD [OF db_evolve_other_tables(5) 1(9)])
    ultimately show ?thesis using trans by blast
  qed
qed

section \<open>The loop of expire\_stale\_orders\<close>

text \<open>
  The loop works on rows it read before. What stays true of the orders it has still to cancel is
  that they are open or cancelled.
\<close>

definition cancellable_only :: "uuid set \<Rightarrow> db \<Rightarrow> bool" where
  "cancellable_only ids s \<longleftrightarrow>
     (\<forall>r\<in>set (orders s). row_id r \<in> ids \<longrightarrow> ord_status r \<in> {OS_NEW, OS_ASSIGNED, OS_CANCELLED})"

definition cancels_within :: "uuid set \<Rightarrow> db \<Rightarrow> db \<Rightarrow> bool" where
  "cancels_within ids s s' \<longleftrightarrow> (cancellable_only ids s \<longrightarrow> cancellable_only ids s' \<and> orders_evolve s s')"

lemma cancels_within_preorder [moves_intro]: "reflp (cancels_within ids)" "transp (cancels_within ids)"
  using orders_evolve_refl orders_evolve_trans unfolding reflp_def transp_def cancels_within_def by meson+

lemma moves_cancels_within:
  "keeps (cancellable_only ids) m \<Longrightarrow> moves orders_evolve m \<Longrightarrow> moves (cancels_within ids) m"
  unfolding keeps_def moves_def cancels_within_def by blast

lemma cancellable_only_update:
  assumes "cancellable_only ids s" "orders s' = tbl_update now i f (orders s)"
    and "\<And>r. row_id (f r) = row_id r" "\<And>r. ord_status (f r) \<in> {ord_status r, OS_CANCELLED}"
  shows "cancellable_only ids s'"
  unfolding cancellable_only_def
proof (intro ballI impI)
  fix r assume "r \<in> set (orders s')" "row_id r \<in> ids"
  then obtain r0 where r0: "r0 \<in> set (orders s)" "r = (if row_id r0 = i then (f r0)\<lparr>updated_at := now\<rparr> else r0)"
    by (auto simp: assms(2) in_tbl_update)
  with \<open>row_id r \<in> ids\<close> assms(3) have "row_id r0 \<in> ids" by (auto split: if_splits)
  then have open_row: "ord_status r0 \<in> {OS_NEW, OS_ASSIGNED, OS_CANCELLED}"
    using assms(1) r0(1) by (simp add: cancellable_only_def)
  have "ord_status r \<in> {ord_status r0, OS_CANCELLED}" using r0(2) assms(4) [of r0] by simp
  then show "ord_status r \<in> {OS_NEW, OS_ASSIGNED, OS_CANCELLED}" using open_row by (elim insertE) auto
qed

lemma moves_cancel_one:
  assumes "i \<in> ids"
  shows "moves (cancels_within ids) (repo_update_status i OS_CANCELLED)"
proof (rule movesI)
  fix s v s' assume "repo_update_status i OS_CANCELLED s = Inr (v, s')"
  then have s': "orders s' = tbl_update (clock s) i (\<lambda>r. r\<lparr>ord_status := OS_CANCELLED\<rparr>) (orders s)"
    by (auto simp: tx_iff)
  have "orders_evolve s s'" if "cancellable_only ids s"
  proof (rule orders_evolve_update [OF s'])
    fix r assume "orders_ok s" "r \<in> set (orders s)" "row_id r = i"
    then show "order_le r (r\<lparr>ord_status := OS_CANCELLED, updated_at := clock s\<rparr>)"
      using that assms by (intro cancel_open) (auto simp: orders_ok_def cancellable_only_def)
  qed
  moreover have "cancellable_only ids s \<Longrightarrow> cancellable_only ids s'"
    by (erule cancellable_only_update [OF _ s']) simp_all
  ultimately show "cancels_within ids s s'" by (simp add: cancels_within_def)
qed

lemma moves_cancel_notes:
  "moves (cancels_within ids) (release_order_quantities ord)"
  "moves (cancels_within ids) (update_order i (\<lambda>r. r\<lparr>ord_cancellation_reason := c\<rparr>))"
  "moves (cancels_within ids) (log_transition i a b u re)"
proof -
  have orders: "frame orders m \<Longrightarrow> keeps (cancellable_only ids) m" for m :: "'a dbtx"
    by (auto simp: keeps_def frame_def cancellable_only_def)
  have upd: "keeps (cancellable_only ids) (update_order i f)" if "\<And>r. row_id (f r) = row_id r" "\<And>r. ord_status (f r) = ord_status r" for i f
    by (rule keepsI, erule cancellable_only_update [where i = i and f = f]) (auto simp: that update_order_iff)
  have "keeps (cancellable_only ids) (release_order_quantities ord)"
    unfolding release_order_quantities_def by (intro keeps_intro orders frame_intro upd) simp_all
  then show "moves (cancels_within ids) (release_order_quantities ord)"
    by (rule moves_cancels_within) (intro moves_intro)
  show "moves (cancels_within ids) (update_order i (\<lambda>r. r\<lparr>ord_cancellation_reason := c\<rparr>))"
    by (rule moves_cancels_within; (rule upd)?; (intro moves_intro)?) simp_all
  show "moves (cancels_within ids) (log_transition i a b u re)"
    by (rule moves_cancels_within; (rule orders; intro frame_intro)?; (intro moves_intro)?) simp_all
qed

lemma moves_expire_order: "row_id ord \<in> ids \<Longrightarrow> moves (cancels_within ids) (expire_order st re u ord)"
  unfolding expire_order_def by (intro moves_intro moves_cancel_one moves_cancel_notes)

lemma moves_orders_expire_batch: 
  assumes "st \<in> {OS_NEW, OS_ASSIGNED}"
  shows "moves orders_evolve (expire_batch st h re u)"
proof (rule movesI)
  fix s n s' assume run: "expire_batch st h re u s = Inr (n, s')"
  let ?stale = "get_stale_orders (hours_ago h (clock s)) st 500 (st \<noteq> OS_NEW) s"
  let ?ids = "row_id ` set ?stale"
  obtain x where loop: "tx_for (expire_order st re u) ?stale s = Inr (x, s')"
    using run by (auto simp: expire_batch_def tx_iff)
  have "moves (cancels_within ?ids) (tx_for (expire_order st re u) ?stale)"
    by (intro moves_intro moves_expire_order) auto
  then have within: "cancels_within ?ids s s'" using loop by (rule movesD)
  show "orders_evolve s s'"
  proof (cases "orders_ok s")
    case True
    have stale: "r \<in> set (orders s) \<and> ord_status r = st" if "r \<in> set ?stale" for r
      using that by (auto simp: get_stale_orders_def dest!: in_set_takeD)
    have "cancellable_only ?ids s"
      unfolding cancellable_only_def
    proof (intro ballI impI)
      fix r assume r: "r \<in> set (orders s)" "row_id r \<in> ?ids"
      then obtain r' where "r' \<in> set ?stale" "row_id r = row_id r'" by blast
      with stale r(1) True have "ord_status r = st" by (auto simp: orders_ok_def keys_distinct_def dest: distinct_key_eq)
      with assms show "ord_status r \<in> {OS_NEW, OS_ASSIGNED, OS_CANCELLED}" by auto
    qed
    with within show ?thesis by (simp add: cancels_within_def)
  qed (simp add: orders_evolve_def)
qed

lemma moves_expire_stale_orders [moves_intro]: "moves db_evolve (expire_stale_orders_body a b u)"
proof (rule moves_db_orders)
  show "moves orders_evolve (expire_stale_orders_body a b u)"
    unfolding expire_stale_orders_body_def by (intro moves_intro moves_orders_expire_batch) simp_all
  show "frame contracts (expire_stale_orders_body a b u)" "frame invoices (expire_stale_orders_body a b u)"
    unfolding expire_stale_orders_body_def expire_batch_def expire_order_def by (intro frame_intro; simp)+
qed

end
