(* ===== verification/OrderLaws.thy ===== *)
theory OrderLaws
  imports OrderRules
begin

text \<open>
  What the order service promises: the snapshot an order takes of its prices, the quotas it books and
  gives back, the goods and the money a hand-over moves, who may touch an order, and what the
  nightly job cancels.
\<close>

section \<open>Placing an order\<close>

definition line_view :: "order_item_row \<Rightarrow> uuid \<times> uuid \<times> int \<times> int" where
  "line_view it = (oit_order_id it, oit_product_id it, oit_quantity it, oit_unit_price it)"

lemma line_view_stamp [simp]: "line_view (stamp i now d) = line_view d"
  by (simp add: line_view_def stamp_def)

lemma add_order_items_rows:
  assumes "add_order_items ds s = Inr (x, s')"
  shows "\<exists>lines. order_items s' = order_items s @ lines \<and> map line_view lines = map line_view ds
    \<and> (\<forall>d\<in>set ds. 0 < oit_quantity d)"
  using assms
proof (induction ds arbitrary: s)
  case (Cons d ds)
  let ?s1 = "s\<lparr>next_id := Suc (next_id s), order_items := tbl_add (stamp (next_id s) (clock s) d) (order_items s)\<rparr>"
  have 1: "0 < oit_quantity d" "order_items ?s1 = order_items s @ [stamp (next_id s) (clock s) d]"
      and 2: "add_order_items ds ?s1 = Inr (x, s')"
    using Cons.prems by (auto simp: add_order_items_def tx_iff tbl_add_def)
  obtain lines where "order_items s' = order_items ?s1 @ lines" "map line_view lines = map line_view ds"
      "\<forall>d\<in>set ds. 0 < oit_quantity d"
    using Cons.IH [OF 2] by blast
  with 1 show ?case
    by (intro exI [of _ "stamp (next_id s) (clock s) d # lines"]) auto
qed (auto simp: add_order_items_def tx_iff)

lemma order_total_lines:
  "map line_view lines = map line_view (order_lines i price items)
   \<Longrightarrow> order_total price items = sum_list (map order_item_total lines)"
proof (induction items arbitrary: lines)
  case (Cons it items)
  then obtain l ls where ls: "lines = l # ls" "line_view l = line_view (order_item_draft i it (price (fst it)))"
      "map line_view ls = map line_view (order_lines i price items)"
    by (auto simp: order_lines_def map_eq_Cons_conv)
  have "order_item_total l = price (fst it) * snd it"
    using ls(2) by (simp add: order_item_total_def line_view_def order_item_draft_def)
  with Cons.IH [OF ls(3)] ls(1) show ?case by (simp add: order_total_def)
qed (simp add: order_lines_def order_total_def)

text \<open>The price an order takes over: the contract's for an order under a contract, the catalog's otherwise.\<close>

definition agreed_price :: "payment_method \<Rightarrow> uuid option \<Rightarrow> db \<Rightarrow> uuid \<Rightarrow> int option" where
  "agreed_price pay contract s p =
     (if pay = PM_CONTRACT then Option.bind contract (\<lambda>c. map_option cpi_price (price_item_of c p s))
      else map_option prd_price (find (\<lambda>r. row_id r = p \<and> is_active r) (products s)))"

lemma order_price_agreed:
  assumes "quotas_ok s" "set ps \<subseteq> row_id ` set (get_by_ids ps s)" "p \<in> set ps"
    and terms: "case terms of
       None \<Rightarrow> pay \<noteq> PM_CONTRACT
     | Some (c, locked) \<Rightarrow> pay = PM_CONTRACT \<and> contract_terms u ro ps s = Inr ((c, locked), s)"
  shows "agreed_price pay (map_option (\<lambda>(c, locked). row_id c) terms) s p
    = Some (order_price (get_by_ids ps s) (case terms of None \<Rightarrow> [] | Some (c, locked) \<Rightarrow> locked) p)"
proof (cases terms)
  case None
  have "find (\<lambda>r. row_id r = p) (filter (\<lambda>r. row_id r \<in> set ps \<and> is_active r) rows)
      = find (\<lambda>r. row_id r = p \<and> is_active r) rows" for rows :: "product_row list"
    using assms(3) by (induction rows) auto
  then have "find (\<lambda>r. row_id r = p) (get_by_ids ps s) = find (\<lambda>r. row_id r = p \<and> is_active r) (products s)"
    using assms(3) by (auto simp: get_by_ids_def get_multi_by_ids_def)
  moreover have "find (\<lambda>r. row_id r = p) (get_by_ids ps s) \<noteq> None"
    using assms(2,3) by (auto simp: find_None_iff)
  ultimately show ?thesis using None terms by (auto simp: agreed_price_def order_price_def price_item_map_def)
next
  case (Some t)
  obtain c locked where t: "t = (c, locked)" by force
  have locked: "locked = get_for_products_locked (row_id c) ps s" "price_item_map locked p \<noteq> None"
    using terms Some t assms(3) by (auto simp: contract_terms_iff)
  then obtain pi where pi: "price_item_map locked p = Some pi" by blast
  with price_item_map_locked [OF assms(1), of "row_id c" ps p pi] locked(1)
  have "price_item_of (row_id c) p s = Some pi" by simp
  then show ?thesis using Some t terms pi by (simp add: agreed_price_def order_price_def)
qed

text \<open>The net effect of a run of \<open>create_order\<close> on the order tables and the price list.\<close>

lemma create_order_stepsE:
  assumes "create_order u dto s = (Inr ord, s')"
  obtains prods client terms s1 x lines where
    "prods = get_by_ids (map fst (oc_items dto)) s" "distinct (map fst (oc_items dto))"
    "set (map fst (oc_items dto)) \<subseteq> row_id ` set prods"
    "case terms of
       None \<Rightarrow> oc_payment_method dto \<noteq> PM_CONTRACT \<and> s1 = s
     | Some (c, locked) \<Rightarrow> oc_payment_method dto = PM_CONTRACT
         \<and> contract_terms u (usr_role client) (map fst (oc_items dto)) s = Inr ((c, locked), s)
         \<and> check_and_reserve_quantities (row_id c) (oc_items dto) locked s = Inr (x, s1)"
    "orders s' = orders s @ [ord]" "\<not> tbl_has (row_id ord) (orders s)" "order_items s' = order_items s @ lines"
    "contract_price_items s' = contract_price_items s1" "clock s' = clock s"
    "ord_client_id ord = u" "ord_status ord = OS_NEW" "ord_sale_type ord = SALE_DELIVERY"
    "ord_payment_method ord = oc_payment_method dto" "ord_contract_id ord = map_option (\<lambda>(c, locked). row_id c) terms"
    "ord_quantities_reserved ord = (terms \<noteq> None)"
    "ord_total_amount ord = order_total (order_price prods (case terms of None \<Rightarrow> [] | Some (c, locked) \<Rightarrow> locked)) (oc_items dto)"
    "map line_view lines = map line_view (order_lines (row_id ord)
       (order_price prods (case terms of None \<Rightarrow> [] | Some (c, locked) \<Rightarrow> locked)) (oc_items dto))"
    "\<forall>it\<in>set (oc_items dto). 0 < snd it" "get_client u s = Inr (client, s)"
proof -
  let ?items = "oc_items dto"
  obtain i where body: "create_order_body u dto s = Inr (i, s')" and load: "load_order i s' = Inr ord"
    using assms(1) by (auto simp: create_order_def commit_then_Inr)
  show ?thesis
  proof (rule create_orderE [OF body], goal_cases)
    case (1 prods client terms s1 s2 s3 s4 cap new x y z)
    let ?price = "order_price prods (case terms of None \<Rightarrow> [] | Some (c, locked) \<Rightarrow> locked)"
    have "orders s1 = orders s \<and> order_items s1 = order_items s \<and> clock s1 = clock s"
    proof (cases terms)
      case (Some t)
      obtain c locked where "t = (c, locked)" by force
      then have res: "check_and_reserve_quantities (row_id c) ?items locked s = Inr (x, s1)"
        using 1(6) Some by simp
      show ?thesis by (intro conjI; rule frameD [OF frame_quantities(3) res]; simp)
    qed (use 1(6) in simp)
    moreover have "orders s2 = orders s1" "order_items s2 = order_items s1" "clock s2 = clock s1"
        "contract_price_items s2 = contract_price_items s1"
      by (rule frameD [OF frame_settle_tara 1(7)]; simp)+
    moreover have "order_items s3 = order_items s2" "orders s3 = orders s2 @ [new]" "\<not> tbl_has (row_id new) (orders s2)"
        "clock s3 = clock s2" "contract_price_items s3 = contract_price_items s2"
      using 1(8) by (auto simp: tx_iff tbl_add_def)
    moreover have "orders s4 = orders s3" "clock s4 = clock s3" "contract_price_items s4 = contract_price_items s3"
      by (rule frameD [OF frame_add_order_items 1(9)]; simp)+
    moreover have "orders s' = orders s4" "order_items s' = order_items s4" "clock s' = clock s4"
        "contract_price_items s' = contract_price_items s4"
      by (rule frameD [OF frame_log_transition 1(10)]; simp)+
    ultimately have os: "orders s' = orders s @ [new]" "\<not> tbl_has (row_id new) (orders s)"
        "order_items s3 = order_items s" "order_items s' = order_items s4"
        "contract_price_items s' = contract_price_items s1" "clock s' = clock s"
      by simp_all
    have ord: "new = ord"
      using load os(1,2) by (auto simp: load_order_def get_with_details_def tbl_get_def 1(11) tbl_has_def
          find_append split: option.splits dest: find_Some_in)
    obtain lines where lines: "order_items s4 = order_items s3 @ lines"
        "map line_view lines = map line_view (order_lines (row_id new) ?price ?items)"
        "\<forall>d\<in>set (order_lines (row_id new) ?price ?items). 0 < oit_quantity d"
      using add_order_items_rows [OF 1(9)] by blast
    show ?thesis
      by (rule that [OF 1(1,3,4,6)])
         (use os lines 1(5,8) in \<open>auto simp: ord tx_iff order_draft_def order_lines_def order_item_draft_def\<close>)
  qed
qed

text \<open>
  C16. An order freezes its prices: when \<open>create_order\<close> returns, exactly one order has been added, NEW, for
  delivery to the client who asked; its lines are the cart line by line, each with the price agreed
  at that moment (the contract's for an order paid by contract, the catalog's otherwise), and its total
  is the sum over its lines.
\<close>

theorem create_order_snapshot:
  assumes "create_order u dto s = (Inr ord, s')" and "quotas_ok s"
  shows "orders s' = orders s @ [ord] \<and> ord_client_id ord = u \<and> ord_status ord = OS_NEW
    \<and> ord_sale_type ord = SALE_DELIVERY \<and> ord_payment_method ord = oc_payment_method dto
    \<and> (\<exists>lines. order_items s' = order_items s @ lines
        \<and> ord_total_amount ord = sum_list (map order_item_total lines)
        \<and> map (\<lambda>it. (oit_order_id it, oit_product_id it, oit_quantity it)) lines
          = map (\<lambda>(p, q). (row_id ord, p, q)) (oc_items dto)
        \<and> (\<forall>it\<in>set lines. 0 < oit_quantity it \<and> agreed_price (oc_payment_method dto) (ord_contract_id ord) s
             (oit_product_id it) = Some (oit_unit_price it)))"
proof (rule create_order_stepsE [OF assms(1)], goal_cases)
  case (1 prods client terms s1 x lines)
  let ?price = "order_price prods (case terms of None \<Rightarrow> [] | Some (c, locked) \<Rightarrow> locked)"
  have view: "map (\<lambda>it. (oit_order_id it, oit_product_id it, oit_quantity it)) lines
      = map (\<lambda>(p, q). (row_id ord, p, q)) (oc_items dto)"
    using arg_cong [OF 1(17), of "map (\<lambda>(a, b, c, d). (a, b, c))"]
    by (simp add: comp_def line_view_def order_lines_def order_item_draft_def case_prod_beta)
  have price: "0 < oit_quantity it \<and> agreed_price (oc_payment_method dto) (ord_contract_id ord) s (oit_product_id it)
      = Some (oit_unit_price it)" if it: "it \<in> set lines" for it
  proof -
    have "line_view it \<in> line_view ` set (order_lines (row_id ord) ?price (oc_items dto))"
      using it arg_cong [OF 1(17), of set] by auto
    then obtain p q where pq: "(p, q) \<in> set (oc_items dto)" "line_view it = (row_id ord, p, q, ?price p)" "0 < q"
      using 1(18) by (auto simp: order_lines_def line_view_def order_item_draft_def)
    have "agreed_price (oc_payment_method dto) (map_option (\<lambda>(c, locked). row_id c) terms) s p = Some (?price p)"
      unfolding 1(1)
      by (rule order_price_agreed [where u = u and ro = "usr_role client"])
         (use assms(2) 1(1,3,4) pq(1) in \<open>force split: option.splits\<close>)+
    with pq(2,3) 1(14) show ?thesis by (simp add: line_view_def)
  qed
  show ?thesis
    using 1 view price order_total_lines [OF 1(17)] by auto
qed

abbreviation contract_cart :: order_create where
  "contract_cart \<equiv> \<lparr>oc_items = [(20, 3)], oc_payment_method = PM_CONTRACT, oc_client_inventory_id = 45,
     oc_capitalize_missing_tara = True, oc_notes = None\<rparr>"

theorem create_order_snapshot_witness:
  "\<exists>ord s'. create_order 5 contract_cart sample_db = (Inr ord, s') \<and> quotas_ok sample_db
     \<and> orders s' = orders sample_db @ [ord]"
proof -
  have "\<not> isl (fst (create_order 5 contract_cart sample_db))" by code_simp
  then obtain ord s' where run: "create_order 5 contract_cart sample_db = (Inr ord, s')" using run_ok by blast
  have "quotas_ok sample_db" by code_simp
  with create_order_snapshot [OF run] run show ?thesis by blast
qed

section \<open>The quotas of a contract\<close>

text \<open>
  C12. Booking is exact and within the limit: when \<open>create_order\<close> returns, an order paid by contract has a
  contract, it is the client's own, ACTIVE and not past its end date, and the quantity used of each product of its
  price list has grown by exactly the cart's total, never past a limit that is set; every other
  quantity used of every contract is as before, and so is every limit.
\<close>

theorem create_order_books_quota:
  assumes "create_order u dto s = (Inr ord, s')" and "quotas_ok s"
  shows "(ord_contract_id ord \<noteq> None \<longleftrightarrow> oc_payment_method dto = PM_CONTRACT)
    \<and> (\<forall>c. ord_contract_id ord = Some c \<longrightarrow> (\<exists>con\<in>set (contracts s). row_id con = c \<and> con_client_id con = u
         \<and> con_status con = CS_ACTIVE \<and> (\<forall>d. con_end_date con = Some d \<longrightarrow> date_of (clock s) \<le> d)))
    \<and> (\<forall>c p. quota_used s' c p = quota_used s c p + (if ord_contract_id ord = Some c then total_of (oc_items dto) p else 0))
    \<and> (\<forall>c p. quota_limit s' c p = quota_limit s c p \<and> (quota_limit s c p \<noteq> 0 \<longrightarrow> quota_used s' c p \<le> quota_limit s c p))"
proof (rule create_order_stepsE [OF assms(1)], goal_cases)
  case (1 prods client terms s1 x lines)
  have same: "quota_used s' = quota_used s1" "quota_limit s' = quota_limit s1" "quotas_ok s' = quotas_ok s1"
    using 1(8) by (simp_all add: quota_used_def quota_limit_def quotas_ok_def price_item_of_def fun_eq_iff)
  show ?thesis
  proof (cases terms)
    case None
    then show ?thesis
      using 1(4,14) assms(2) quota.within [of s] by (auto simp: same)
  next
    case (Some t)
    obtain c locked where t: "t = (c, locked)" by force
    have agreed: "contract_terms u (usr_role client) (map fst (oc_items dto)) s = Inr ((c, locked), s)"
        "check_and_reserve_quantities (row_id c) (oc_items dto) locked s = Inr (x, s1)" "oc_payment_method dto = PM_CONTRACT"
      using 1(4) Some t by simp_all
    note res = create_order_reserves [OF assms(2) 1(2) agreed(1,2)]
    have "c \<in> set (filter (\<lambda>c. con_client_id c = u \<and> is_live c) (contracts s))" "con_status c = CS_ACTIVE"
        "\<forall>d. con_end_date c = Some d \<longrightarrow> date_of (clock s) \<le> d"
      using agreed(1) by (simp_all add: contract_terms_iff get_and_validate_iff)
    then show ?thesis
      using quota.reserve_law [OF assms(2) 1(2) res(1)] quota.within [OF res(2)] Some t 1(14) agreed(3)
      by (auto simp: same)
  qed
qed

theorem create_order_books_quota_witness:
  "\<exists>ord s'. create_order 5 contract_cart sample_db = (Inr ord, s') \<and> quotas_ok sample_db
     \<and> ord_contract_id ord \<noteq> None"
proof -
  have "\<not> isl (fst (create_order 5 contract_cart sample_db))" by code_simp
  then obtain ord s' where run: "create_order 5 contract_cart sample_db = (Inr ord, s')" using run_ok by blast
  have "quotas_ok sample_db" by code_simp
  with create_order_books_quota [OF run] run show ?thesis by auto
qed

lemma quota_same:
  assumes "contract_price_items s' = contract_price_items s"
  shows "quota_used s' = quota_used s" "quota_limit s' = quota_limit s" "quotas_ok s' = quotas_ok s"
  using assms by (simp_all add: quota_used_def quota_limit_def quotas_ok_def price_item_of_def fun_eq_iff)

definition booked_items :: "uuid \<Rightarrow> db \<Rightarrow> item list" where
  "booked_items i s = map (\<lambda>it. (oit_product_id it, oit_quantity it)) (items_of i s)"

lemma release_order_quantitiesD:
  assumes "quotas_ok s" "release_order_quantities ord s = Inr (x, s')" "ord_contract_id ord = Some c"
  shows "quotas_ok s'" "quota_used s' c' p = (if c' = c then max 0 (quota_used s c' p - total_of (booked_items (row_id ord) s) p)
      else quota_used s c' p)"
    and "decrement_quantities_used c (booked_items (row_id ord) s) s = Inr ((), s1) \<Longrightarrow> quota_used s' = quota_used s1"
proof -
  obtain s1 y where dec: "decrement_quantities_used c (booked_items (row_id ord) s) s = Inr (y, s1)"
      and upd: "update_order (row_id ord) (\<lambda>r. r\<lparr>ord_quantities_reserved := False\<rparr>) s1 = Inr (x, s')"
    using assms(2,3) by (auto simp: release_order_quantities_def booked_items_def decrement_quantities_used_def
        tx_bind_iff tx_get_iff tx_when_iff tx_for.simps tx_ret_iff split: if_splits)
  have same: "contract_price_items s' = contract_price_items s1"
    by (rule frameD [OF frame_update_order upd]) simp
  note law = quota.release_law [OF assms(1) dec]
  show "quotas_ok s'" using law by (simp add: quota_same [OF same])
  show "quota_used s' c' p = (if c' = c then max 0 (quota_used s c' p - total_of (booked_items (row_id ord) s) p)
      else quota_used s c' p)"
    using law by (simp add: quota_same [OF same])
  show "decrement_quantities_used c (booked_items (row_id ord) s) s = Inr ((), s1) \<Longrightarrow> quota_used s' = quota_used s1" for s1
    using dec quota_same(1) [OF same] by simp
qed

lemma update_order_row:
  assumes "update_order i f s = Inr (x, s')" "tbl_get i False (orders s) = Some r"
    and "\<And>r. row_id (f r) = row_id r" "\<And>r. is_active (f r) = is_active r"
  shows "tbl_get i False (orders s') = Some ((f r)\<lparr>updated_at := clock s\<rparr>)"
  using assms(1,2) by (auto simp: update_order_iff tbl_get_update [OF assms(3,4)])

lemma release_order_row:
  assumes "release_order_quantities ord s = Inr (x, s')" "tbl_get (row_id ord) False (orders s) = Some r"
  shows "\<exists>now. tbl_get (row_id ord) False (orders s') = Some (r\<lparr>ord_quantities_reserved := False, updated_at := now\<rparr>)"
proof -
  obtain t w where dec: "tx_when (items_of (row_id ord) s \<noteq> []) (decrement_quantities_used (the (ord_contract_id ord))
        (map (\<lambda>it. (oit_product_id it, oit_quantity it)) (items_of (row_id ord) s))) s = Inr (w, t)"
      and upd: "update_order (row_id ord) (\<lambda>r. r\<lparr>ord_quantities_reserved := False\<rparr>) t = Inr (x, s')"
    using assms(1) unfolding release_order_quantities_def tx_bind_iff tx_get_iff by blast
  have t: "orders t = orders s" by (rule frameD [OF frame_when [OF frame_quantities(2)] dec]) simp
  show ?thesis using update_order_row [OF upd, of r] assms(2) t by auto
qed

lemma tx_when_cases:
  assumes "tx_when b m s = Inr (x, s')"
  obtains "b" "m s = Inr (x, s')" | "\<not> b" "s' = s"
  using assms by (cases b) (auto simp: tx_when_iff tx_ret_iff)

text \<open>What a cancellation through \<open>update_status\<close> writes.\<close>

definition cancelled_row :: "order_row \<Rightarrow> order_row \<Rightarrow> bool" where
  "cancelled_row ord r \<longleftrightarrow> ord_status r = OS_CANCELLED
     \<and> (ord_quantities_reserved r \<longleftrightarrow> ord_quantities_reserved ord \<and> contract_of_order ord = None)"

lemma cancelE:
  assumes "update_status_body i OS_CANCELLED act ou re s = Inr (j, s')"
    and ord: "tbl_get i False (orders s) = Some ord" and "ord_status ord \<notin> {OS_DELIVERED, OS_PICKUP_COMPLETED, OS_CANCELLED}"
  obtains s1 s3 s4 r y z w where
    "s1 = orders_update (tbl_update (clock s) i (\<lambda>r. r\<lparr>ord_status := OS_CANCELLED\<rparr>)) s"
    "tx_when (ord_quantities_reserved ord \<and> contract_of_order ord \<noteq> None) (release_order_quantities ord) s1 = Inr (y, s3)"
    "tbl_get i False (orders s3) = Some r" "cancelled_row ord r"
    "tx_when (re \<noteq> None \<and> re \<noteq> Some []) (update_order i (\<lambda>r. r\<lparr>ord_cancellation_reason := re\<rparr>)) s3 = Inr (z, s4)"
    "log_transition i (Some (ord_status ord)) OS_CANCELLED ou re s4 = Inr (w, s')"
proof -
  show ?thesis
  proof (rule update_statusE [OF assms(1)], goal_cases)
    case (1 ord' s1 upd s2 s3 s4 x y z w)
    have id: "ord' = ord" "row_id ord = i" using 1(1) ord tbl_get_SomeD [OF ord] by auto
    have s2: "s2 = s1" using 1(6) by (simp add: tx_when_iff tx_ret_iff)
    have rel: "releases_quota ord OS_CANCELLED \<longleftrightarrow> ord_quantities_reserved ord \<and> contract_of_order ord \<noteq> None"
      using assms(3) by (auto simp: releases_quota_def contract_of_order_def)
    have r1: "tbl_get i False (orders s1) = Some (ord\<lparr>ord_status := OS_CANCELLED, updated_at := clock s\<rparr>)"
      using ord by (simp add: 1(4) tbl_get_update)
    have run: "tx_when (ord_quantities_reserved ord \<and> contract_of_order ord \<noteq> None) (release_order_quantities ord) s1 = Inr (y, s3)"
      using 1(7) by (simp add: id rel s2)
    then have "\<exists>r. tbl_get i False (orders s3) = Some r \<and> cancelled_row ord r"
    proof (cases rule: tx_when_cases)
      case 1
      then show ?thesis using release_order_row [OF 1(2)] r1 by (auto simp: id cancelled_row_def)
    next
      case 2
      then show ?thesis using r1 by (auto simp: cancelled_row_def)
    qed
    then obtain r where r: "tbl_get i False (orders s3) = Some r" "cancelled_row ord r" by blast
    show ?thesis by (rule that [OF 1(4) run r]) (use 1(8,9) in \<open>simp_all add: id\<close>)
  qed
qed

lemma cancelD:
  assumes run: "update_status_body i OS_CANCELLED act ou re s = Inr (j, s')" and ok: "quotas_ok s"
    and ord: "tbl_get i False (orders s) = Some ord" and st: "ord_status ord \<notin> {OS_DELIVERED, OS_PICKUP_COMPLETED, OS_CANCELLED}"
  shows "\<exists>r. tbl_get i False (orders s') = Some r \<and> cancelled_row ord r"
    and "quota_used s' c p = (if ord_quantities_reserved ord \<and> contract_of_order ord = Some c
      then max 0 (quota_used s c p - total_of (booked_items i s) p) else quota_used s c p)"
    and "accounts s' = accounts s \<and> inventory_balances s' = inventory_balances s \<and> order_items s' = order_items s"
proof -
  obtain s1 s3 s4 r y z w where
    s1: "s1 = orders_update (tbl_update (clock s) i (\<lambda>r. r\<lparr>ord_status := OS_CANCELLED\<rparr>)) s" and
    rel: "tx_when (ord_quantities_reserved ord \<and> contract_of_order ord \<noteq> None) (release_order_quantities ord) s1 = Inr (y, s3)" and
    r: "tbl_get i False (orders s3) = Some r" "cancelled_row ord r" and
    re: "tx_when (re \<noteq> None \<and> re \<noteq> Some []) (update_order i (\<lambda>r. r\<lparr>ord_cancellation_reason := re\<rparr>)) s3 = Inr (z, s4)" and
    lg: "log_transition i (Some (ord_status ord)) OS_CANCELLED ou re s4 = Inr (w, s')"
    by (rule cancelE [OF run ord st])
  have frames: "accounts s3 = accounts s1" "inventory_balances s3 = inventory_balances s1" "order_items s3 = order_items s1"
    by (rule frameD [OF frame_when [OF frame_release_order_quantities] rel]; simp)+
  have frames4: "accounts s4 = accounts s3" "inventory_balances s4 = inventory_balances s3"
      "order_items s4 = order_items s3" "contract_price_items s4 = contract_price_items s3"
    by (rule frameD [OF frame_when [OF frame_update_order] re]; simp)+
  have frames5: "accounts s' = accounts s4" "inventory_balances s' = inventory_balances s4"
      "order_items s' = order_items s4" "contract_price_items s' = contract_price_items s4" "orders s' = orders s4"
    by (rule frameD [OF frame_log_transition lg]; simp)+
  show "accounts s' = accounts s \<and> inventory_balances s' = inventory_balances s \<and> order_items s' = order_items s"
    by (simp add: frames frames4 frames5 s1)
  from re have "\<exists>r. tbl_get i False (orders s4) = Some r \<and> cancelled_row ord r"
  proof (cases rule: tx_when_cases)
    case 1
    then show ?thesis using update_order_row [OF 1(2) r(1)] r(2) by (auto simp: cancelled_row_def)
  qed (use r in auto)
  then show "\<exists>r. tbl_get i False (orders s') = Some r \<and> cancelled_row ord r" by (simp add: frames5)
  have q1: "quota_used s1 = quota_used s" "quotas_ok s1" "booked_items i s1 = booked_items i s"
    using ok quota_same [of s1 s] by (simp_all add: s1 booked_items_def items_of_def)
  have "quota_used s' = quota_used s3" by (rule quota_same) (simp add: frames4 frames5)
  moreover from rel have "quota_used s3 c p = (if ord_quantities_reserved ord \<and> contract_of_order ord = Some c
      then max 0 (quota_used s c p - total_of (booked_items i s) p) else quota_used s c p)"
  proof (cases rule: tx_when_cases)
    case 1
    then obtain k where k: "contract_of_order ord = Some k" "ord_contract_id ord = Some k" "ord_quantities_reserved ord"
      by (auto simp: contract_of_order_def split: if_splits)
    with release_order_quantitiesD(2) [OF q1(2) 1(2) k(2), of c p] tbl_get_SomeD [OF ord] show ?thesis by (simp add: q1)
  qed (auto simp: q1)
  ultimately show "quota_used s' c p = (if ord_quantities_reserved ord \<and> contract_of_order ord = Some c
      then max 0 (quota_used s c p - total_of (booked_items i s) p) else quota_used s c p)"
    by simp
qed

lemma cancel_orderE:
  assumes "cancel_order i u re s = (Inr r, s')" and ok: "orders_ok s"
  obtains ord where "tbl_get i False (orders s) = Some ord" "ord_client_id ord = u" "ord_status ord = OS_NEW"
    "update_status_body i OS_CANCELLED [] (Some u) re s = Inr (i, s')" "tbl_get i False (orders s') = Some r"
proof -
  obtain ord where ord: "tbl_get i True (orders s) = Some ord" "ord_client_id ord = u" "ord_status ord = OS_NEW"
      and run: "update_status i OS_CANCELLED [] (Some u) re s = (Inr r, s')"
    using assms by (auto simp: cancel_order_def check_client_may_cancel_def split: sum.splits option.splits if_splits)
  obtain j where body: "update_status_body i OS_CANCELLED [] (Some u) re s = Inr (j, s')" and load: "load_order j s' = Inr r"
    using run by (auto simp: update_status_def commit_then_Inr)
  have j: "j = i" by (rule update_statusE [OF body])
  have "tbl_get i False (orders s) = Some ord"
    using tbl_get_key [of "orders s" ord False] tbl_get_SomeD [OF ord(1)] ok by (auto simp: orders_ok_def)
  then show ?thesis
    using that ord(2,3) body load by (auto simp: j load_order_def get_with_details_def split: option.splits)
qed

lemma cancel_order_books_back:
  assumes "cancel_order i u re s = (Inr r, s')" and ok: "orders_ok s" "quotas_ok s" and ord: "tbl_get i False (orders s) = Some ord"
  shows "quota_used s' c p = (if ord_quantities_reserved ord \<and> contract_of_order ord = Some c
      then max 0 (quota_used s c p - total_of (booked_items i s) p) else quota_used s c p)"
proof (rule cancel_orderE [OF assms(1) ok(1)])
  fix ord' assume row: "tbl_get i False (orders s) = Some ord'" and new: "ord_status ord' = OS_NEW"
    and run: "update_status_body i OS_CANCELLED [] (Some u) re s = Inr (i, s')"
  have "ord' = ord" using row ord by simp
  with cancelD(2) [OF run ok(2) row, of c p] new show ?thesis by simp
qed

text \<open>
  C13. A client's cancellation undoes the booking: when \<open>cancel_order\<close> returns, the order was the client's own and NEW, it
  is now CANCELLED and no longer holds a booking, the price list of its contract got back product by
  product what its lines had booked, every other quantity used is as before, and neither goods nor money moved.
\<close>

theorem cancel_order_returns_quota:
  assumes "cancel_order i u re s = (Inr r, s')" and "quotas_ok s" and "orders_ok s"
  shows "\<exists>ord. tbl_get i False (orders s) = Some ord \<and> ord_client_id ord = u \<and> ord_status ord = OS_NEW
    \<and> ord_status r = OS_CANCELLED \<and> \<not> (ord_quantities_reserved r \<and> contract_of_order ord \<noteq> None)
    \<and> (\<forall>c p. quota_used s' c p = (if ord_quantities_reserved ord \<and> contract_of_order ord = Some c
         then max 0 (quota_used s c p - total_of (booked_items i s) p) else quota_used s c p))
    \<and> accounts s' = accounts s \<and> inventory_balances s' = inventory_balances s"
proof (rule cancel_orderE [OF assms(1,3)])
  fix ord assume ord: "tbl_get i False (orders s) = Some ord" "ord_client_id ord = u" "ord_status ord = OS_NEW"
    and run: "update_status_body i OS_CANCELLED [] (Some u) re s = Inr (i, s')" and r: "tbl_get i False (orders s') = Some r"
  note D = cancelD [OF run assms(2) ord(1)]
  show ?thesis using D ord r by (auto simp: cancelled_row_def)
qed

theorem cancel_order_returns_quota_witness:
  "\<exists>r s'. cancel_order 60 5 (Some ''changed my mind'') sample_db = (Inr r, s') \<and> quotas_ok sample_db \<and> orders_ok sample_db
     \<and> quota_used sample_db 50 20 = 5 \<and> quota_used s' 50 20 = 2"
proof -
  have "\<not> isl (fst (cancel_order 60 5 (Some ''changed my mind'') sample_db))" by code_simp
  then obtain r s' where run: "cancel_order 60 5 (Some ''changed my mind'') sample_db = (Inr r, s')" using run_ok by blast
  have ok: "quotas_ok sample_db" "orders_ok sample_db" by code_simp+
  have s: "quota_used sample_db 50 20 = 5" "booked_items 60 sample_db = [(20, 3)]"
      "map_option (\<lambda>ord. ord_quantities_reserved ord \<and> contract_of_order ord = Some 50) (tbl_get 60 False (orders sample_db)) = Some True"
    by code_simp+
  then show ?thesis using cancel_order_returns_quota [OF run ok] run ok by auto
qed

definition items_owned :: "db \<Rightarrow> bool" where
  "items_owned s \<longleftrightarrow> (\<forall>it\<in>set (order_items s). tbl_has (oit_order_id it) (orders s))"

lemma new_order_booked:
  assumes "items_owned s" "\<not> tbl_has i (orders s)" "order_items s' = order_items s @ lines"
    and "map line_view lines = map line_view (order_lines i price items)"
  shows "booked_items i s' = items"
proof -
  have "map (\<lambda>it. (oit_order_id it, oit_product_id it, oit_quantity it)) lines = map (\<lambda>(p, q). (i, p, q)) items"
    using arg_cong [OF assms(4), of "map (\<lambda>(a, b, c, d). (a, b, c))"]
    by (simp add: comp_def line_view_def order_lines_def order_item_draft_def case_prod_beta)
  then have own: "map (\<lambda>it. (oit_product_id it, oit_quantity it)) lines = items"
      "\<forall>it\<in>set lines. oit_order_id it = i"
    by (induction lines arbitrary: items) (auto simp: map_eq_Cons_conv)
  have "filter (\<lambda>it. oit_order_id it = i) (order_items s) = []"
    using assms(1,2) by (auto simp: items_owned_def filter_empty_conv)
  then show ?thesis using own assms(3) by (simp add: booked_items_def items_of_def)
qed

text \<open>
  Placing and cancelling an order is a round trip for the quotas: after \<open>create_order\<close> and the client's
  \<open>cancel_order\<close> of the new order every quantity used of every contract is what it was before.
\<close>

theorem create_cancel_roundtrip:
  assumes "create_order u dto s = (Inr ord, s1)" and "cancel_order (row_id ord) u re s1 = (Inr r, s2)"
    and "quotas_ok s" and "orders_ok s" and "items_owned s"
  shows "quota_used s2 c p = quota_used s c p"
proof (rule create_order_stepsE [OF assms(1)], goal_cases)
  case (1 prods client terms t x lines)
  have body: "create_order_body u dto s = Inr (row_id ord, s1)"
    using assms(1) by (auto simp: create_order_def commit_then_Inr load_order_def get_with_details_def
        split: option.splits dest: tbl_get_SomeD)
  have ok: "orders_ok s1" "quotas_ok s1"
    using movesD [OF moves_db_orders_bodies(1) body] keepsD [OF keeps_quotas_create_order assms(3) body] assms(4)
    by (simp_all add: db_evolve_def orders_evolve_def)
  have get: "tbl_get (row_id ord) False (orders s1) = Some ord"
    using tbl_get_key [of "orders s1" ord False] ok(1) 1(5) by (simp add: orders_ok_def)
  have booked: "booked_items (row_id ord) s1 = oc_items dto"
    by (rule new_order_booked [OF assms(5) 1(6,7,17)])
  have canc: "quota_used s2 c p = (if ord_quantities_reserved ord \<and> contract_of_order ord = Some c
      then max 0 (quota_used s1 c p - total_of (oc_items dto) p) else quota_used s1 c p)"
    using cancel_order_books_back [OF assms(2) ok get] by (simp add: booked)
  show ?thesis
  proof (cases terms)
    case None
    with 1(4,8,14,15) canc quota_same [of s1 s] show ?thesis by simp
  next
    case (Some tm)
    obtain con locked where tm: "tm = (con, locked)" by force
    have agreed: "contract_terms u (usr_role client) (map fst (oc_items dto)) s = Inr ((con, locked), s)"
        "check_and_reserve_quantities (row_id con) (oc_items dto) locked s = Inr (x, t)" "oc_payment_method dto = PM_CONTRACT"
      using 1(4) Some tm by simp_all
    have "quota_used s1 c p = quota_used s c p + (if c = row_id con then total_of (oc_items dto) p else 0)"
      using quota.reserve_law [OF assms(3) 1(2) create_order_reserves(1) [OF assms(3) 1(2) agreed(1,2)]]
      by (simp add: quota_same [OF 1(8)])
    moreover have "ord_quantities_reserved ord" "contract_of_order ord = Some (row_id con)"
      using 1(13,14,15) Some tm agreed(3) by (simp_all add: contract_of_order_def)
    ultimately show ?thesis using canc quota.within [OF assms(3), of c p] by auto
  qed
qed

theorem create_cancel_roundtrip_witness:
  "\<exists>ord s1 r s2. create_order 5 contract_cart sample_db = (Inr ord, s1) \<and> cancel_order (row_id ord) 5 None s1 = (Inr r, s2)
     \<and> quotas_ok sample_db \<and> orders_ok sample_db \<and> items_owned sample_db \<and> quota_used s2 50 20 = quota_used sample_db 50 20"
proof -
  have "\<not> isl (fst (case create_order 5 contract_cart sample_db of
      (Inr ord, s1) \<Rightarrow> cancel_order (row_id ord) 5 None s1 | (Inl e, s1) \<Rightarrow> (Inl e, s1)))"
    by code_simp
  moreover have "\<not> isl (fst (create_order 5 contract_cart sample_db))" by code_simp
  then obtain ord s1 where run: "create_order 5 contract_cart sample_db = (Inr ord, s1)" using run_ok by blast
  ultimately have "\<not> isl (fst (cancel_order (row_id ord) 5 None s1))" by simp
  then obtain r s2 where run2: "cancel_order (row_id ord) 5 None s1 = (Inr r, s2)" using run_ok by blast
  have ok: "quotas_ok sample_db" "orders_ok sample_db" "items_owned sample_db" by code_simp+
  show ?thesis using create_cancel_roundtrip [OF run run2 ok] run run2 ok by blast
qed

end
