(* ===== verification/HandOverLaws.thy ===== *)
theory HandOverLaws
  imports OrderLaws
begin

text \<open>
  The hand-over of goods: what a delivery by a courier and a pickup at a warehouse do to the stock and
  to the accounts.
\<close>

section \<open>Money\<close>

text \<open>Who owes the money of a delivered order, and who of a pickup.\<close>

definition delivery_debtor :: "order_row \<Rightarrow> db \<Rightarrow> account_row option" where
  "delivery_debtor ord s = (case (ord_payment_method ord, ord_courier_id ord) of
     (PM_CASH, Some courier) \<Rightarrow> get_courier_account courier s
   | _ \<Rightarrow> get_client_account (ord_client_id ord) s)"

definition pickup_debtor :: "order_row \<Rightarrow> db \<Rightarrow> account_row option" where
  "pickup_debtor ord s = (if ord_payment_method ord = PM_CASH then get_system_cash_account s
     else get_client_account (ord_client_id ord) s)"

lemma post_two_balance:
  assumes "fin_ok s" "post_transactions (transaction_draft a b q r1 o1 TS_COMPLETED None # ds) s = Inr (x, s')"
    and "ds = [] \<or> (\<exists>c r2. ds = [transaction_draft b c q r2 o1 st None])"
  shows "acct_balance s' k = acct_balance s k
    + flow (a, if ds \<noteq> [] \<and> st = TS_COMPLETED then txn_to_id (hd ds) else b, q) k"
  using fin_insert.post_many_balance [OF assms(1) assms(2) [unfolded post_transactions_def], of k] assms(3)
  by (auto simp: completed_lines_def txn_line_def transaction_draft_def flow_def)

lemma delivery_settlement_balance:
  assumes "fin_ok s" "process_financial_settlement ord s = Inr (x, s')"
  shows "\<exists>revenue debtor. get_system_revenue_account s = Some revenue \<and> delivery_debtor ord s = Some debtor
    \<and> 0 < ord_total_amount ord
    \<and> (\<forall>k. acct_balance s' k = acct_balance s k + flow (row_id revenue, row_id debtor, ord_total_amount ord) k)"
proof -
  let ?debt = "\<lambda>revenue client. transaction_draft (row_id revenue) (row_id client) (ord_total_amount ord)
       ''Zadolzhennost za zakaz'' (Some (row_id ord)) TS_COMPLETED None"
  obtain client revenue payment where a: "get_client_account (ord_client_id ord) s = Some client"
      "get_system_revenue_account s = Some revenue" "delivery_payment ord client s = Inr (payment, s)"
      and post: "post_transactions (?debt revenue client # payment) s = Inr (x, s')"
    using assms(2) unfolding process_financial_settlement_def tx_bind_iff require_account_iff
    using payment_reads(1) by blast
  have pos: "0 < ord_total_amount ord"
    using post by (auto simp: post_transactions_def tx_bind_iff dest!: insert_transactionD(5))
       (simp add: transaction_draft_def)
  note two = post_two_balance [OF assms(1) post]
  show ?thesis
  proof (cases "ord_payment_method ord")
    case PM_CASH
    show ?thesis
    proof (cases "ord_courier_id ord")
      case None
      with PM_CASH a have "payment = []" by (simp add: delivery_payment_def tx_ret_iff)
      with two [of TS_COMPLETED] a PM_CASH None pos show ?thesis by (auto simp: delivery_debtor_def)
    next
      case (Some u)
      with PM_CASH a obtain courier where "get_courier_account u s = Some courier"
          "payment = [transaction_draft (row_id client) (row_id courier) (ord_total_amount ord)
            ''Oplata nalichnymi kuryeru'' (Some (row_id ord)) TS_COMPLETED None]"
        by (auto simp: delivery_payment_def tx_iff)
      with two [of TS_COMPLETED] a PM_CASH Some pos show ?thesis
        by (auto simp: delivery_debtor_def transaction_draft_def)
    qed
  next
    case PM_CARD
    with a obtain c where "payment = [transaction_draft (row_id client) c (ord_total_amount ord)
         ''Perevod na kartu'' (Some (row_id ord)) TS_PENDING None]"
      by (auto simp: delivery_payment_def tx_iff)
    with two [of TS_PENDING] a PM_CARD pos show ?thesis by (auto simp: delivery_debtor_def)
  next
    case PM_CONTRACT
    with a have "payment = []" by (simp add: delivery_payment_def tx_ret_iff)
    with two [of TS_COMPLETED] a PM_CONTRACT pos show ?thesis by (auto simp: delivery_debtor_def)
  qed
qed

lemma pickup_settlement_balance:
  assumes "fin_ok s" "process_pickup_settlement ord s = Inr (x, s')"
  shows "\<exists>revenue debtor. get_system_revenue_account s = Some revenue \<and> pickup_debtor ord s = Some debtor
    \<and> (\<forall>k. acct_balance s' k = acct_balance s k + flow (row_id revenue, row_id debtor, ord_total_amount ord) k)"
proof -
  let ?debt = "\<lambda>revenue client. transaction_draft (row_id revenue) (row_id client) (ord_total_amount ord)
       ''Zadolzhennost za zakaz (samovyvoz)'' (Some (row_id ord)) TS_COMPLETED None"
  obtain client revenue payment where a: "get_client_account (ord_client_id ord) s = Some client"
      "get_system_revenue_account s = Some revenue" "pickup_payment ord client s = Inr (payment, s)"
      and post: "post_transactions (?debt revenue client # payment) s = Inr (x, s')"
    using assms(2) unfolding process_pickup_settlement_def tx_bind_iff require_account_iff
    using payment_reads(2) by blast
  note two = post_two_balance [OF assms(1) post]
  show ?thesis
  proof (cases "ord_payment_method ord")
    case PM_CASH
    with a obtain cash where "get_system_cash_account s = Some cash"
        "payment = [transaction_draft (row_id client) (row_id cash) (ord_total_amount ord)
          ''Oplata nalichnymi na sklade (samovyvoz)'' (Some (row_id ord)) TS_COMPLETED None]"
      by (auto simp: pickup_payment_def tx_iff)
    with two [of TS_COMPLETED] a PM_CASH show ?thesis by (auto simp: pickup_debtor_def transaction_draft_def)
  next
    case PM_CARD
    with a obtain c where "payment = [transaction_draft (row_id client) c (ord_total_amount ord)
         ''Perevod na kartu (samovyvoz)'' (Some (row_id ord)) TS_PENDING None]"
      by (auto simp: pickup_payment_def tx_iff)
    with two [of TS_PENDING] a PM_CARD show ?thesis by (auto simp: pickup_debtor_def)
  next
    case PM_CONTRACT
    with a have "payment = []" by (simp add: pickup_payment_def tx_ret_iff)
    with two [of TS_COMPLETED] a PM_CONTRACT show ?thesis by (auto simp: pickup_debtor_def)
  qed
qed

section \<open>Partial delivery\<close>

definition delivered_quantity :: "item list \<Rightarrow> order_item_row \<Rightarrow> int" where
  "delivered_quantity actual it = (case map_of (rev actual) (oit_product_id it) of None \<Rightarrow> oit_quantity it | Some q \<Rightarrow> q)"

definition delivered_items :: "item list \<Rightarrow> order_item_row list \<Rightarrow> item list" where
  "delivered_items actual items = map (\<lambda>it. (oit_product_id it, delivered_quantity actual it)) items"

definition delivered_amount :: "item list \<Rightarrow> order_item_row list \<Rightarrow> int" where
  "delivered_amount actual items = sum_list (map (\<lambda>it. oit_unit_price it * delivered_quantity actual it) items)"

lemma apply_actual_items_result:
  assumes "apply_actual_items actual items s = Inr ((items', amount, deltas), s')"
  shows "map (\<lambda>it. (oit_product_id it, oit_quantity it)) items' = delivered_items actual items"
    "amount = delivered_amount actual items"
    "\<forall>it\<in>set items. map_of (rev actual) (oit_product_id it) \<noteq> None
       \<longrightarrow> 0 \<le> delivered_quantity actual it \<and> delivered_quantity actual it \<le> oit_quantity it"
    "total_of deltas p = total_of (map (\<lambda>it. (oit_product_id it, oit_quantity it)) items) p - total_of (delivered_items actual items) p"
proof -
  have "map (\<lambda>it. (oit_product_id it, oit_quantity it)) items' = delivered_items actual items
    \<and> amount = delivered_amount actual items
    \<and> (\<forall>it\<in>set items. map_of (rev actual) (oit_product_id it) \<noteq> None
       \<longrightarrow> 0 \<le> delivered_quantity actual it \<and> delivered_quantity actual it \<le> oit_quantity it)
    \<and> total_of deltas p = total_of (map (\<lambda>it. (oit_product_id it, oit_quantity it)) items) p - total_of (delivered_items actual items) p"
    using assms
  proof (induction items arbitrary: s s' items' amount deltas)
    case (Cons it items)
    show ?case
    proof (cases "map_of (rev actual) (oit_product_id it)")
      case None
      with Cons.prems obtain items1 amount1 where "apply_actual_items actual items s = Inr ((items1, amount1, deltas), s')"
          "items' = it # items1" "amount = oit_unit_price it * oit_quantity it + amount1"
        by (auto simp: tx_bind_iff tx_ret_iff)
      with Cons.IH [OF this(1)] None show ?thesis
        by (auto simp: delivered_items_def delivered_amount_def delivered_quantity_def)
    next
      case (Some q)
      with Cons.prems obtain s1 items1 amount1 deltas1 where rest: "apply_actual_items actual items s1 = Inr ((items1, amount1, deltas1), s')"
          and it: "items' = it\<lparr>oit_quantity := q\<rparr> # items1" "amount = oit_unit_price it * q + amount1" "0 \<le> q" "q \<le> oit_quantity it"
          "deltas = (if oit_quantity it - q > 0 then (oit_product_id it, oit_quantity it - q) # deltas1 else deltas1)"
        by (auto simp: tx_bind_iff tx_raise_if_iff tx_ret_iff)
      from Cons.IH [OF rest] it Some show ?thesis
        by (auto simp: delivered_items_def delivered_amount_def delivered_quantity_def)
    qed
  qed (auto simp: tx_ret_iff delivered_items_def delivered_amount_def)
  then show "map (\<lambda>it. (oit_product_id it, oit_quantity it)) items' = delivered_items actual items"
    "amount = delivered_amount actual items"
    "\<forall>it\<in>set items. map_of (rev actual) (oit_product_id it) \<noteq> None
       \<longrightarrow> 0 \<le> delivered_quantity actual it \<and> delivered_quantity actual it \<le> oit_quantity it"
    "total_of deltas p = total_of (map (\<lambda>it. (oit_product_id it, oit_quantity it)) items) p - total_of (delivered_items actual items) p"
    by blast+
qed

lemma frame_correct_delivery [frame_intro]:
  assumes "\<And>s f. g (order_items_update f s) = g s" "\<And>s f. g (contract_price_items_update f s) = g s"
    "\<And>s f. g (orders_update f s) = g s"
  shows "frame g (correct_delivery ord actual)"
  unfolding correct_delivery_def by (intro frame_intro; rule assms)

lemma correct_deliveryD:
  assumes run: "correct_delivery ord actual s = Inr ((items, amount), s')"
    and row: "tbl_get (row_id ord) False (orders s) = Some r"
  shows "map (\<lambda>it. (oit_product_id it, oit_quantity it)) items = delivered_items actual (items_of (row_id ord) s)"
    and "amount = (if actual = [] then ord_total_amount ord else delivered_amount actual (items_of (row_id ord) s))"
    and "\<exists>now. tbl_get (row_id ord) False (orders s') = Some (if actual = [] then r else r\<lparr>ord_total_amount := amount, updated_at := now\<rparr>)"
proof -
  let ?its = "items_of (row_id ord) s"
  have "map (\<lambda>it. (oit_product_id it, oit_quantity it)) items = delivered_items actual ?its
    \<and> amount = (if actual = [] then ord_total_amount ord else delivered_amount actual ?its)
    \<and> (\<exists>now. tbl_get (row_id ord) False (orders s') = Some (if actual = [] then r else r\<lparr>ord_total_amount := amount, updated_at := now\<rparr>))"
  proof (cases "actual = []")
    case True
    then have "items = ?its" "amount = ord_total_amount ord" "s' = s"
      using run by (auto simp: correct_delivery_def tx_bind_iff tx_get_iff tx_ret_iff)
    then show ?thesis using True row by (auto simp: delivered_items_def delivered_quantity_def)
  next
    case False
    obtain deltas s1 s2 y where app: "apply_actual_items actual ?its s = Inr ((items, amount, deltas), s1)"
        and dec: "(case ord_contract_id ord of
           Some c \<Rightarrow> tx_when (deltas \<noteq> [] \<and> ord_payment_method ord = PM_CONTRACT) (decrement_quantities_used c deltas)
         | None \<Rightarrow> tx_ret ()) s1 = Inr (y, s2)"
        and upd: "update_order (row_id ord) (\<lambda>r. r\<lparr>ord_total_amount := amount\<rparr>) s2 = Inr ((), s')"
      using run False by (auto simp: correct_delivery_def tx_bind_iff tx_get_iff tx_ret_iff)
    have "orders s1 = orders s" by (rule frameD [OF frame_apply_actual_items app]) simp
    moreover have "orders s2 = orders s1"
      using frameD [OF frame_option [OF frame_ret frame_when [OF frame_quantities(2)]] dec, of orders] by simp
    ultimately show ?thesis
      using False apply_actual_items_result(1,2) [OF app] update_order_row [OF upd, of r] row by auto
  qed
  then show "map (\<lambda>it. (oit_product_id it, oit_quantity it)) items = delivered_items actual ?its"
    "amount = (if actual = [] then ord_total_amount ord else delivered_amount actual ?its)"
    "\<exists>now. tbl_get (row_id ord) False (orders s') = Some (if actual = [] then r else r\<lparr>ord_total_amount := amount, updated_at := now\<rparr>)"
    by blast+
qed

lemma shipped_items_view:
  "shipped_items items = filter (\<lambda>it. 0 < snd it) (map (\<lambda>it. (oit_product_id it, oit_quantity it)) items)"
  by (simp add: shipped_items_def filter_map comp_def)

section \<open>Delivery\<close>

definition goods_moved :: "db \<Rightarrow> db \<Rightarrow> uuid \<Rightarrow> uuid \<Rightarrow> item list \<Rightarrow> bool" where
  "goods_moved s s' a b items \<longleftrightarrow> (\<forall>j p. stock_balance s' (j, p) = stock_balance s (j, p) + flow (a, b, total_of items p) j)"

definition money_moved :: "db \<Rightarrow> db \<Rightarrow> uuid \<Rightarrow> uuid \<Rightarrow> int \<Rightarrow> bool" where
  "money_moved s s' a b q \<longleftrightarrow> (\<forall>k. acct_balance s' k = acct_balance s k + flow (a, b, q) k)"

lemma accounts_same:
  assumes "accounts s' = accounts s"
  shows "acct_balance s' = acct_balance s" "get_system_revenue_account s' = get_system_revenue_account s"
    "get_system_cash_account s' = get_system_cash_account s"
    "get_client_account u s' = get_client_account u s" "get_courier_account u s' = get_courier_account u s"
    "delivery_debtor ord s' = delivery_debtor ord s" "pickup_debtor ord s' = pickup_debtor ord s"
  using assms by (simp_all add: acct_balance_def get_system_revenue_account_def get_system_cash_account_def
      get_system_account_def get_client_account_def get_courier_account_def get_user_account_by_type_def
      delivery_debtor_def pickup_debtor_def fun_eq_iff split: payment_method.splits option.splits)

lemma fulfillmentE:
  assumes "handle_order_fulfillment ord actual s = Inr (x, s')"
  obtains courier items amount s1 v s2 y where "ord_courier_id ord = Some courier"
    "correct_delivery ord actual s = Inr ((items, amount), s1)" "courier_stock courier s1 = Inr (v, s1)"
    "ship_delivery ord courier (row_id v) items s1 = Inr (y, s2)"
    "process_financial_settlement (ord\<lparr>ord_total_amount := amount\<rparr>) s2 = Inr (x, s')"
  using assms unfolding handle_order_fulfillment_def tx_bind_iff tx_require_iff
  by (auto simp: tx_bind_iff courier_stock_iff)

lemma delivery_effect:
  assumes run: "handle_order_fulfillment ord actual s = Inr (x, s')" and ok: "fin_ok s" "stock_ok s"
    and row: "tbl_get (row_id ord) False (orders s) = Some r"
  shows "\<exists>courier v revenue debtor amount now. ord_courier_id ord = Some courier \<and> courier_inventories courier s = [v]
    \<and> goods_moved s s' (row_id v) (ord_client_inventory_id ord)
        (filter (\<lambda>it. 0 < snd it) (delivered_items actual (items_of (row_id ord) s)))
    \<and> get_system_revenue_account s = Some revenue \<and> delivery_debtor ord s = Some debtor
    \<and> money_moved s s' (row_id revenue) (row_id debtor) amount
    \<and> amount = (if actual = [] then ord_total_amount ord else delivered_amount actual (items_of (row_id ord) s))
    \<and> tbl_get (row_id ord) False (orders s') = Some (if actual = [] then r else r\<lparr>ord_total_amount := amount, updated_at := now\<rparr>)"
proof (rule fulfillmentE [OF run], goal_cases)
  case (1 courier items amount s1 v s2 y)
  note C = correct_deliveryD [OF 1(2) row]
  have f1: "accounts s1 = accounts s" "transactions s1 = transactions s" "inventories s1 = inventories s"
      "inventory_balances s1 = inventory_balances s" "stock_transactions s1 = stock_transactions s"
    by (rule frameD [OF frame_correct_delivery 1(2)]; simp)+
  have f2: "accounts s2 = accounts s1" "transactions s2 = transactions s1" "orders s2 = orders s1"
    by (rule frameD [OF frame_ship(1) 1(4)]; simp)+
  have f3: "inventory_balances s' = inventory_balances s2" "orders s' = orders s2"
    by (rule frameD [OF frame_settlement(1) 1(5)]; simp)+
  have ok1: "stock_ok s1" "fin_ok s2"
    using ok by (simp_all add: stock_ok_def fin_ok_def f1 f2)
  obtain w where w: "courier_inventories courier s1 = [w]" "get_inventory_with_balances (row_id w) None s1 = Some v"
    using 1(3) by (auto simp: courier_stock_iff)
  have v: "row_id v = row_id w"
    using w(2) by (auto simp: get_inventory_with_balances_def dest: tbl_get_SomeD find_Some_in)
  have goods: "goods_moved s s' (row_id w) (ord_client_inventory_id ord) (shipped_items items)"
    using ship_delivery_balance(3) [OF ok1(1) 1(4)] f3 f1
    by (auto simp: goods_moved_def flow_def stock_balance_def v)
  obtain revenue debtor where pay: "get_system_revenue_account s2 = Some revenue"
      "delivery_debtor (ord\<lparr>ord_total_amount := amount\<rparr>) s2 = Some debtor"
      "\<forall>k. acct_balance s' k = acct_balance s2 k + flow (row_id revenue, row_id debtor, amount) k"
    using delivery_settlement_balance [OF ok1(2) 1(5)] by auto
  obtain now where now: "tbl_get (row_id ord) False (orders s1) = Some (if actual = [] then r else r\<lparr>ord_total_amount := amount, updated_at := now\<rparr>)"
    using C(3) by blast
  have same: "accounts s2 = accounts s" "courier_inventories courier s = [w]"
    using f1 f2 w(1) by (simp_all add: courier_inventories_def)
  have debtor: "delivery_debtor (ord\<lparr>ord_total_amount := amount\<rparr>) s = delivery_debtor ord s"
    by (simp add: delivery_debtor_def split: payment_method.split option.split)
  show ?thesis
    by (rule exI [of _ courier], rule exI [of _ w], rule exI [of _ revenue], rule exI [of _ debtor],
        rule exI [of _ amount], rule exI [of _ now])
       (use 1(1) same(2) goods pay now debtor C(1,2) f2(3) f3(2) in
         \<open>simp add: accounts_same [OF same(1)] shipped_items_view money_moved_def\<close>)
qed

lemma deliveredE:
  assumes "update_status i OS_DELIVERED actual ou re s = (Inr r, s')"
    and ord: "tbl_get i False (orders s) = Some ord" and "ord_status ord \<noteq> OS_DELIVERED"
  obtains s1 upd s2 x where "ord_status ord = OS_ARRIVED" "ord_sale_type ord = SALE_DELIVERY" "row_id ord = i"
    "s1 = orders_update (tbl_update (clock s) i (\<lambda>r. r\<lparr>ord_status := OS_DELIVERED\<rparr>)) s"
    "upd = ord\<lparr>ord_status := OS_DELIVERED, updated_at := clock s\<rparr>" "tbl_get i False (orders s1) = Some upd"
    "handle_order_fulfillment upd actual s1 = Inr (x, s2)" "tbl_get i False (orders s2) = Some r"
    "accounts s' = accounts s2" "inventory_balances s' = inventory_balances s2"
    "contract_price_items s' = contract_price_items s2"
proof -
  obtain j where body: "update_status_body i OS_DELIVERED actual ou re s = Inr (j, s')" and load: "load_order j s' = Inr r"
    using assms(1) by (auto simp: update_status_def commit_then_Inr)
  show ?thesis
  proof (rule update_statusE [OF body], goal_cases)
    case (1 ord' s1 upd s2 s3 s4 x y z w)
    have id: "ord' = ord" "row_id ord = i" using 1(1) ord tbl_get_SomeD [OF ord] by auto
    have upd: "upd = ord\<lparr>ord_status := OS_DELIVERED, updated_at := clock s\<rparr>"
      using 1(4,5) ord by (simp add: tbl_get_update)
    have arrived: "ord_status ord = OS_ARRIVED" "ord_sale_type ord = SALE_DELIVERY"
      using 1(3) assms(3) by (cases "ord_sale_type ord"; cases "ord_status ord"; simp add: id set_allowed_statuses)+
    have ful: "handle_order_fulfillment upd actual s1 = Inr (x, s2)" using 1(6) assms(3) by (simp add: id tx_when_iff)
    have same: "s3 = s2" "s4 = s3" using 1(7,8) by (simp_all add: tx_when_iff releases_quota_def)
    have f5: "accounts s' = accounts s4" "inventory_balances s' = inventory_balances s4" "orders s' = orders s4"
        "contract_price_items s' = contract_price_items s4"
      by (rule frameD [OF frame_log_transition 1(9)]; simp)+
    have "tbl_get i False (orders s2) = Some r"
      using load 1(10) same f5 by (auto simp: load_order_def get_with_details_def split: option.splits)
    then show ?thesis using that [OF arrived id(2) 1(4) upd 1(5) ful] same f5 by simp
  qed
qed

text \<open>
  C7. A delivery moves exactly what was delivered and what it costs: when \<open>update_status\<close> turns an order
  DELIVERED, the order was an ARRIVED delivery with a courier who has one truck; for every product the client's
  inventory gains and the truck loses the delivered quantity (the containers go back and forth and
  cancel out), and no other balance of stock changes; the revenue account pays the order's total, recomputed
  from what was delivered, to the courier's account for cash and to the client's debt for a card or a contract,
  and no other account changes.
\<close>

theorem delivery_hands_over:
  assumes "update_status i OS_DELIVERED actual ou re s = (Inr r, s')"
    and "tbl_get i False (orders s) = Some ord" and "ord_status ord \<noteq> OS_DELIVERED" and "fin_ok s" and "stock_ok s"
  shows "ord_status ord = OS_ARRIVED \<and> ord_sale_type ord = SALE_DELIVERY \<and> ord_status r = OS_DELIVERED
    \<and> ord_total_amount r = (if actual = [] then ord_total_amount ord else delivered_amount actual (items_of i s))
    \<and> (\<exists>courier v revenue debtor. ord_courier_id ord = Some courier \<and> courier_inventories courier s = [v]
        \<and> goods_moved s s' (row_id v) (ord_client_inventory_id ord)
            (filter (\<lambda>it. 0 < snd it) (delivered_items actual (items_of i s)))
        \<and> get_system_revenue_account s = Some revenue \<and> delivery_debtor ord s = Some debtor
        \<and> money_moved s s' (row_id revenue) (row_id debtor) (ord_total_amount r))"
proof (rule deliveredE [OF assms(1-3)], goal_cases)
  case (1 s1 upd s2 x)
  have f1: "accounts s1 = accounts s" "inventory_balances s1 = inventory_balances s"
      "items_of i s1 = items_of i s" "courier_inventories u s1 = courier_inventories u s" for u
    by (simp_all add: 1(4) items_of_def courier_inventories_def)
  have ok1: "fin_ok s1" "stock_ok s1" using assms(4,5) by (simp_all add: 1(4) fin_ok_def stock_ok_def)
  have sel: "row_id upd = i" "ord_courier_id upd = ord_courier_id ord" "ord_client_inventory_id upd = ord_client_inventory_id ord"
      "ord_total_amount upd = ord_total_amount ord" "ord_status upd = OS_DELIVERED"
      "delivery_debtor upd t = delivery_debtor ord t" for t
    by (simp_all add: 1(3,5) delivery_debtor_def split: payment_method.split option.split)
  note E = delivery_effect [OF 1(7) ok1, of upd, unfolded sel f1, OF 1(6)]
  show ?thesis
    using E 1(1,2,8,9,10) accounts_same [OF f1(1)] f1(2)
    by (auto simp: goods_moved_def money_moved_def stock_balance_def acct_balance_def sel)
qed

theorem delivery_hands_over_witness:
  "\<exists>r s' ord. update_status 62 OS_DELIVERED [(20, 1)] (Some 6) None sample_db = (Inr r, s')
     \<and> tbl_get 62 False (orders sample_db) = Some ord \<and> ord_status ord \<noteq> OS_DELIVERED
     \<and> fin_ok sample_db \<and> stock_ok sample_db \<and> ord_total_amount r = 15000"
proof -
  have "\<not> isl (fst (update_status 62 OS_DELIVERED [(20, 1)] (Some 6) None sample_db))" by code_simp
  then obtain r s' where run: "update_status 62 OS_DELIVERED [(20, 1)] (Some 6) None sample_db = (Inr r, s')"
    using run_ok by blast
  have "map_option ord_status (tbl_get 62 False (orders sample_db)) = Some OS_ARRIVED" by code_simp
  then obtain ord where ord: "tbl_get 62 False (orders sample_db) = Some ord" "ord_status ord \<noteq> OS_DELIVERED" by auto
  have ok: "fin_ok sample_db" "stock_ok sample_db" by code_simp+
  have "delivered_amount [(20, 1)] (items_of 62 sample_db) = 15000" by code_simp
  with delivery_hands_over [OF run ord ok] run ord ok show ?thesis by auto
qed

section \<open>Pickup\<close>

lemma create_stock_transfer_moves:
  assumes "stock_ok s" "create_stock_transfer a b ty items u acc ord re s = Inr (tr, s')"
    and "\<And>it. it \<in> set items \<Longrightarrow> 0 \<le> snd it"
  shows "stock_ok s' \<and> goods_moved s s' a b items"
  using create_stock_transfer_balance [OF assms(1,2)] assms(3) by (auto simp: goods_moved_def flow_def)

text \<open>
  The vendor from whose virtual stock the warehouse is credited with the containers a named client
  takes along: nothing for a walk-in customer.
\<close>

definition credited :: "order_row \<Rightarrow> order_item_row list \<Rightarrow> db \<Rightarrow> item list" where
  "credited ord items s = (if ord_client_id ord = WALKIN_USER_ID then [] else build_returnable_items items s)"

lemma ship_pickup_balance:
  assumes ok: "stock_ok s" and run: "ship_pickup ord u w items s = Inr (x, s')"
  shows "\<exists>vendor. (credited ord items s \<noteq> [] \<longrightarrow> get_vendor_inventory s = Inr (vendor, s))
    \<and> (\<forall>j p. stock_balance s' (j, p) = stock_balance s (j, p)
        + flow (w, ord_client_inventory_id ord, total_of (shipped_items items) p) j
        + flow (row_id vendor, w, total_of (credited ord items s) p) j)"
proof -
  let ?c = "ord_client_inventory_id ord" and ?ret = "build_returnable_items items s" and ?walkin = "ord_client_id ord = WALKIN_USER_ID"
  let ?given = "returned_containers ?walkin items ?ret"
  have nn: "0 \<le> snd it" if "it \<in> set ?ret \<or> it \<in> set ?given \<or> it \<in> set (shipped_items items)" for it
    using that returnable_nonneg [of it items s] shipped_nonneg [of it items]
    by (auto simp: returned_containers_def split: if_splits)
  have sent: "(if ?walkin then returned_containers ?walkin items r else r) = returned_containers ?walkin items r" for r
    by (simp add: returned_containers_def)
  obtain s1 s2 tr y where
    1: "tx_when (?ret \<noteq> [] \<and> \<not> ?walkin) (tx_bind get_vendor_inventory (\<lambda>vendor.
         tx_bind (create_stock_transfer (row_id vendor) w TT_INITIAL_BALANCE ?ret u
           (Some u) (Some (row_id ord)) (Some ''Container issued with warehouse pickup'')) (\<lambda>_. tx_ret ()))) s = Inr (y, s1)"
    and 2: "create_stock_transfer w ?c TT_WAREHOUSE_SALE (shipped_items items @ ?given) u
        (Some (ord_client_id ord)) (Some (row_id ord)) None s1 = Inr (tr, s2)"
    and 3: "tx_when (?given \<noteq> []) (tx_bind (create_stock_transfer ?c w TT_WAREHOUSE_TARA_RETURN ?given u (Some u)
        (Some (row_id ord)) None) (\<lambda>_. tx_ret ())) s2 = Inr (x, s')"
    using run unfolding ship_pickup_def Let_def sent tx_bind_iff [of "tx_get q" for q] tx_bind_iff [of "tx_raise_if b e" for b e]
      tx_bind_iff [of "tx_when b m" for b m] tx_bind_iff [of "create_stock_transfer w c ty is a b d e" for w c ty "is" a b d e] tx_get_iff tx_raise_if_iff
    by blast
  have first: "\<exists>vendor. (credited ord items s \<noteq> [] \<longrightarrow> get_vendor_inventory s = Inr (vendor, s))
      \<and> stock_ok s1 \<and> goods_moved s s1 (row_id vendor) w (credited ord items s)"
    using 1
  proof (cases rule: tx_when_cases)
    case 1
    then obtain vendor tr' where v: "get_vendor_inventory s = Inr (vendor, s)" and
        "create_stock_transfer (row_id vendor) w TT_INITIAL_BALANCE ?ret u (Some u) (Some (row_id ord))
          (Some ''Container issued with warehouse pickup'') s = Inr (tr', s1)"
      by (auto simp: tx_bind_iff tx_ret_iff get_vendor_inventory_def get_system_inventory_def tx_get_iff scalar_one_or_none_iff tx_require_iff)
    from create_stock_transfer_moves [OF ok this(2)] nn v 1(1) show ?thesis by (auto simp: credited_def)
  next
    case 2
    then have "credited ord items s = []" "s1 = s" by (auto simp: credited_def)
    then show ?thesis using ok by (auto simp: goods_moved_def flow_def)
  qed
  then obtain vendor where v: "credited ord items s \<noteq> [] \<longrightarrow> get_vendor_inventory s = Inr (vendor, s)"
      and ok1: "stock_ok s1" and g1: "goods_moved s s1 (row_id vendor) w (credited ord items s)"
    by blast
  have "stock_ok s2" and g2: "goods_moved s1 s2 w ?c (shipped_items items @ ?given)"
    using create_stock_transfer_moves [OF ok1 2] nn by (auto simp only: set_append Un_iff)
  moreover have "goods_moved s2 s' ?c w ?given"
    using 3
  proof (cases rule: tx_when_cases)
    case 1
    then obtain tr' where "create_stock_transfer ?c w TT_WAREHOUSE_TARA_RETURN ?given u (Some u) (Some (row_id ord)) None s2 = Inr (tr', s')"
      by (auto simp: tx_bind_iff tx_ret_iff)
    with create_stock_transfer_moves [OF \<open>stock_ok s2\<close> this] nn show ?thesis by blast
  qed (simp add: goods_moved_def flow_def)
  ultimately show ?thesis
    using v g1 by (intro exI [of _ vendor]) (auto simp: goods_moved_def flow_def)
qed

lemma pickup_effect:
  assumes run: "handle_warehouse_pickup ord u s = Inr (x, s')" and ok: "fin_ok s" "stock_ok s"
  shows "\<exists>w vendor revenue debtor. ord_warehouse_id ord = Some w
    \<and> (credited ord (items_of (row_id ord) s) s \<noteq> [] \<longrightarrow> get_vendor_inventory s = Inr (vendor, s))
    \<and> (\<forall>j p. stock_balance s' (j, p) = stock_balance s (j, p)
        + flow (w, ord_client_inventory_id ord, total_of (shipped_items (items_of (row_id ord) s)) p) j
        + flow (row_id vendor, w, total_of (credited ord (items_of (row_id ord) s) s) p) j)
    \<and> get_system_revenue_account s = Some revenue \<and> pickup_debtor ord s = Some debtor
    \<and> money_moved s s' (row_id revenue) (row_id debtor) (ord_total_amount ord) \<and> orders s' = orders s"
proof -
  obtain w v s1 y where w: "ord_warehouse_id ord = Some w" "get_inventory_with_balances w (Some IT_WAREHOUSE) s = Some v"
      and ship: "ship_pickup ord u (row_id v) (items_of (row_id ord) s) s = Inr (y, s1)"
      and pay: "process_pickup_settlement ord s1 = Inr (x, s')"
    using run unfolding handle_warehouse_pickup_def tx_bind_iff tx_require_iff tx_get_iff by blast
  have v: "row_id v = w"
    using w(2) by (auto simp: get_inventory_with_balances_def dest: tbl_get_SomeD find_Some_in)
  have f1: "accounts s1 = accounts s" "transactions s1 = transactions s" "orders s1 = orders s"
    by (rule frameD [OF frame_ship(2) ship]; simp)+
  have f2: "inventory_balances s' = inventory_balances s1" "orders s' = orders s1"
    by (rule frameD [OF frame_settlement(2) pay]; simp)+
  have "fin_ok s1" using ok by (simp add: fin_ok_def f1)
  from pickup_settlement_balance [OF this pay] obtain revenue debtor where
      "get_system_revenue_account s1 = Some revenue" "pickup_debtor ord s1 = Some debtor"
      "\<forall>k. acct_balance s' k = acct_balance s1 k + flow (row_id revenue, row_id debtor, ord_total_amount ord) k"
    by blast
  moreover have "stock_balance s' = stock_balance s1" by (simp add: stock_balance_def f2 fun_eq_iff)
  ultimately show ?thesis
    using ship_pickup_balance [OF ok(2) ship] w(1) f1(3) f2(2)
    by (auto simp: v money_moved_def accounts_same [OF f1(1)])
qed

text \<open>
  C14. A pickup moves exactly the goods bought and their price: when \<open>complete_pickup\<close> returns, the order was
  a NEW pickup of a warehouse and is now PICKUP\_COMPLETED; for every product the client's inventory gains and the
  warehouse loses what the lines say, while a named client's empty containers stay at the warehouse (they are booked in
  from the virtual vendor), and no other balance of stock changes; the revenue account pays the total to the cash
  desk for cash and to the client's debt otherwise, and no other account changes.
\<close>

theorem complete_pickup_hands_over:
  assumes "complete_pickup i u s = (Inr r, s')" and "fin_ok s" and "stock_ok s"
  shows "\<exists>ord w vendor revenue debtor. tbl_get i False (orders s) = Some ord
    \<and> ord_sale_type ord = SALE_WAREHOUSE_PICKUP \<and> ord_status ord = OS_NEW \<and> ord_status r = OS_PICKUP_COMPLETED
    \<and> ord_warehouse_id ord = Some w
    \<and> (\<forall>j p. stock_balance s' (j, p) = stock_balance s (j, p)
        + flow (w, ord_client_inventory_id ord, total_of (shipped_items (items_of i s)) p) j
        + flow (row_id vendor, w, total_of (credited ord (items_of i s) s) p) j)
    \<and> (credited ord (items_of i s) s \<noteq> [] \<longrightarrow> get_vendor_inventory s = Inr (vendor, s))
    \<and> get_system_revenue_account s = Some revenue \<and> pickup_debtor ord s = Some debtor
    \<and> money_moved s s' (row_id revenue) (row_id debtor) (ord_total_amount ord)"
proof -
  obtain j where body: "complete_pickup_body i u s = Inr (j, s')" and load: "load_order j s' = Inr r"
    using assms(1) by (auto simp: complete_pickup_def commit_then_Inr)
  obtain ord s1 s2 v y z where ord: "tbl_get i False (orders s) = Some ord" "ord_sale_type ord = SALE_WAREHOUSE_PICKUP"
      "ord_status ord = OS_NEW"
      and s1: "s1 = orders_update (tbl_update (clock s) i (\<lambda>r. r\<lparr>ord_status := OS_PICKUP_COMPLETED\<rparr>)) s"
      and lg: "log_transition i (Some OS_NEW) OS_PICKUP_COMPLETED (Some u) None s1 = Inr (y, s2)"
      and pick: "handle_warehouse_pickup ord u s2 = Inr (z, s')" and j: "j = i"
    using body unfolding complete_pickup_body_def tx_bind_iff require_order_iff tx_raise_if_iff repo_update_status_iff tx_ret_iff
    by blast
  have id: "row_id ord = i" using tbl_get_SomeD [OF ord(1)] by simp
  have f2: "accounts s2 = accounts s1" "transactions s2 = transactions s1" "inventories s2 = inventories s1"
      "inventory_balances s2 = inventory_balances s1" "stock_transactions s2 = stock_transactions s1"
      "order_items s2 = order_items s1" "products s2 = products s1" "orders s2 = orders s1"
    by (rule frameD [OF frame_log_transition lg]; simp)+
  have same: "accounts s2 = accounts s" "items_of i s2 = items_of i s" "stock_balance s2 = stock_balance s"
      "credited ord its s2 = credited ord its s" "get_vendor_inventory s2 = Inr (vd, s2) \<longleftrightarrow> get_vendor_inventory s = Inr (vd, s)" for its vd
    by (auto simp: f2 s1 items_of_def stock_balance_def fun_eq_iff credited_def build_returnable_items_def returnable_of_def
        get_vendor_inventory_def get_system_inventory_def tx_bind_iff tx_get_iff scalar_one_or_none_iff tx_require_iff)
  have ok2: "fin_ok s2" "stock_ok s2" using assms(2,3) by (simp_all add: fin_ok_def stock_ok_def f2 s1)
  have "ord_status r = OS_PICKUP_COMPLETED" if "orders s' = orders s2"
    using load ord(1) that by (auto simp: j f2 s1 load_order_def get_with_details_def tbl_get_update split: option.splits)
  then show ?thesis
    using pickup_effect [OF pick ok2] ord
    by (auto simp: id same accounts_same [OF same(1)] money_moved_def)
qed

theorem complete_pickup_hands_over_witness:
  "\<exists>r s'. complete_pickup 64 3 sample_db = (Inr r, s') \<and> fin_ok sample_db \<and> stock_ok sample_db
     \<and> ord_status r = OS_PICKUP_COMPLETED"
proof -
  have "\<not> isl (fst (complete_pickup 64 3 sample_db))" by code_simp
  then obtain r s' where run: "complete_pickup 64 3 sample_db = (Inr r, s')" using run_ok by blast
  have ok: "fin_ok sample_db" "stock_ok sample_db" by code_simp+
  show ?thesis using complete_pickup_hands_over [OF run ok] run ok by auto
qed

end
