(* ===== verification/OrderGuards.thy ===== *)
theory OrderGuards
  imports HandOverLaws
begin

text \<open>
  The guards of the order service: who may see and change an order, how far a partial delivery may
  go, and how the check of the containers before checkout relates to the checkout.
\<close>

section \<open>Access\<close>

lemma tx_bind_Inl:
  "tx_bind m f s = Inl e \<longleftrightarrow> m s = Inl e \<or> (\<exists>x s1. m s = Inr (x, s1) \<and> f x s1 = Inl e)"
  by (auto simp: tx_bind_def split: sum.splits)

lemma require_order_run: "tbl_get i False (orders s) = Some ord \<Longrightarrow> require_order i s = Inr (ord, s)"
  by (simp add: require_order_iff)

lemma require_editable_denied:
  assumes "tbl_get i False (orders s) = Some ord" "ord_client_id ord \<noteq> u"
  shows "require_editable i (Some u) s = Inl (OrderErr (OrderAccessDeniedError u i))"
  using assms by (simp add: require_editable_def require_order_def load_order_def get_with_details_def tx_run_defs)

text \<open>
  C28. Orders are private: a user who is neither the client nor the courier of an order gets
  \<open>ORDER_ACCESS_DENIED\<close> (403) for reading it and for moving its status, whatever status is asked for; a user
  who is not its client cannot remove a product (403), add one or cancel it; and none of
  these requests changes the database.
\<close>

theorem order_access_denied:
  assumes "tbl_get i False (orders s) = Some ord" and "u \<noteq> ord_client_id ord"
  shows "(ord_courier_id ord \<noteq> Some u \<longrightarrow>
      get_order_with_details i (Some u) s = (Inl (OrderErr (OrderAccessDeniedError u i)), s)
      \<and> update_status i st actual (Some u) re s = (Inl (OrderErr (OrderAccessDeniedError u i)), s))
    \<and> remove_product_from_order i p (Some u) s = (Inl (OrderErr (OrderAccessDeniedError u i)), s)
    \<and> error_response (OrderErr (OrderAccessDeniedError u i)) = (403, ''ORDER_ACCESS_DENIED'')
    \<and> (\<exists>e. add_product_to_order i p q (Some u) s = (Inl e, s))
    \<and> (orders_ok s \<longrightarrow> (\<exists>e. cancel_order i u re s = (Inl e, s)))"
proof (intro conjI impI)
  note run = require_order_run [OF assms(1)] and denied = require_editable_denied [OF assms(1), of u]
  show "remove_product_from_order i p (Some u) s = (Inl (OrderErr (OrderAccessDeniedError u i)), s)"
    using denied assms(2) by (simp add: remove_product_from_order_def remove_product_from_order_body_def commit_then_def tx_run_defs)
  show "\<exists>e. add_product_to_order i p q (Some u) s = (Inl e, s)"
    using denied assms(2)
    by (simp add: add_product_to_order_def add_product_to_order_body_def commit_then_def tx_run_defs)
  show "error_response (OrderErr (OrderAccessDeniedError u i)) = (403, ''ORDER_ACCESS_DENIED'')"
    by (simp add: http_response_def)
  show "\<exists>e. cancel_order i u re s = (Inl e, s)" if ok: "orders_ok s"
  proof (cases "tbl_get i True (orders s)")
    case (Some ord')
    have "ord' = ord"
      using tbl_get_key [of "orders s" ord' False] tbl_get_SomeD [OF Some] assms(1) ok by (auto simp: orders_ok_def)
    with Some assms(2) show ?thesis by (simp add: cancel_order_def check_client_may_cancel_def)
  qed (simp add: cancel_order_def check_client_may_cancel_def)
  assume "ord_courier_id ord \<noteq> Some u"
  with run assms(2) show "get_order_with_details i (Some u) s = (Inl (OrderErr (OrderAccessDeniedError u i)), s)"
    "update_status i st actual (Some u) re s = (Inl (OrderErr (OrderAccessDeniedError u i)), s)"
    by (auto simp: get_order_with_details_def with_uow_def update_status_def update_status_body_def commit_then_def tx_run_defs)
qed

theorem order_access_denied_witness:
  "\<exists>ord. tbl_get 60 False (orders sample_db) = Some ord \<and> 4 \<noteq> ord_client_id ord
     \<and> remove_product_from_order 60 20 (Some 4) sample_db = (Inl (OrderErr (OrderAccessDeniedError 4 60)), sample_db)"
proof -
  have "map_option ord_client_id (tbl_get 60 False (orders sample_db)) = Some 5" by code_simp
  then obtain ord where "tbl_get 60 False (orders sample_db) = Some ord" "4 \<noteq> ord_client_id ord" by auto
  with order_access_denied [OF this] show ?thesis by blast
qed

section \<open>Partial delivery\<close>

lemma apply_actual_items_positive:
  assumes "apply_actual_items actual items s = Inr (x, s')" "\<forall>it\<in>set items. tbl_has (row_id it) (order_items s)"
    and "it \<in> set items" "map_of (rev actual) (oit_product_id it) = Some q"
  shows "0 < q \<and> q \<le> oit_quantity it"
  using assms
proof (induction items arbitrary: s x s')
  case (Cons y items)
  show ?case
  proof (cases "map_of (rev actual) (oit_product_id y)")
    case None
    with Cons.prems(1) obtain z where rest: "apply_actual_items actual items s = Inr (z, s')"
      by (auto simp: tx_bind_iff tx_ret_iff)
    have "it \<in> set items" using Cons.prems(3,4) None by auto
    then show ?thesis using Cons.IH [OF rest] Cons.prems(2,4) by simp
  next
    case (Some r)
    with Cons.prems(1) obtain s1 z where r: "r \<le> oit_quantity y" and upd: "update_quantity (row_id y) r s = Inr ((), s1)"
        and rest: "apply_actual_items actual items s1 = Inr (z, s')"
      by (auto simp: tx_bind_iff tx_raise_if_iff tx_ret_iff)
    have "0 < r" using upd Cons.prems(2) by (simp add: update_quantity_iff)
    moreover have "\<forall>it\<in>set items. tbl_has (row_id it) (order_items s1)"
      using upd Cons.prems(2) by (auto simp: update_quantity_iff tbl_has_update)
    ultimately show ?thesis using Cons.IH [OF rest] Cons.prems(3,4) Some r by auto
  qed
qed simp

definition undelivered :: "item list \<Rightarrow> order_item_row list \<Rightarrow> uuid \<Rightarrow> int" where
  "undelivered actual items p = total_of (map (\<lambda>it. (oit_product_id it, oit_quantity it)) items) p
     - total_of (delivered_items actual items) p"

lemma correct_delivery_quota:
  assumes "correct_delivery ord actual s = Inr ((items, amount), s')" "quotas_ok s"
  shows "quota_used s' c p = (if contract_of_order ord = Some c
    then max 0 (quota_used s c p - undelivered actual (items_of (row_id ord) s) p) else quota_used s c p)"
proof (cases "actual = []")
  case True
  then have "s' = s" using assms(1) by (auto simp: correct_delivery_def tx_bind_iff tx_get_iff tx_ret_iff)
  moreover have "undelivered actual (items_of (row_id ord) s) p = 0"
    using True by (simp add: undelivered_def delivered_items_def delivered_quantity_def)
  ultimately show ?thesis using quota.within [OF assms(2), of c p] by simp
next
  case False
  let ?its = "items_of (row_id ord) s"
  obtain deltas s1 s2 y where app: "apply_actual_items actual ?its s = Inr ((items, amount, deltas), s1)"
      and dec: "(case ord_contract_id ord of
         Some c \<Rightarrow> tx_when (deltas \<noteq> [] \<and> ord_payment_method ord = PM_CONTRACT) (decrement_quantities_used c deltas)
       | None \<Rightarrow> tx_ret ()) s1 = Inr (y, s2)"
      and upd: "update_order (row_id ord) (\<lambda>r. r\<lparr>ord_total_amount := amount\<rparr>) s2 = Inr ((), s')"
    using assms(1) False by (auto simp: correct_delivery_def tx_bind_iff tx_get_iff tx_ret_iff)
  have same: "contract_price_items s1 = contract_price_items s" "contract_price_items s' = contract_price_items s2"
    by (rule frameD [OF frame_apply_actual_items app], simp, rule frameD [OF frame_update_order upd], simp)
  have deltas: "total_of deltas p = undelivered actual ?its p"
    using apply_actual_items_result(4) [OF app] by (simp add: undelivered_def)
  have ok1: "quotas_ok s1" using assms(2) quota_same(3) [OF same(1)] by simp
  have "quota_used s2 c p = (if contract_of_order ord = Some c
    then max 0 (quota_used s1 c p - undelivered actual ?its p) else quota_used s1 c p)"
  proof (cases "contract_of_order ord")
    case None
    then have "s2 = s1" using dec by (auto simp: contract_of_order_def tx_when_iff tx_ret_iff split: if_splits option.splits)
    with None show ?thesis by simp
  next
    case (Some k)
    then have k: "ord_contract_id ord = Some k" "ord_payment_method ord = PM_CONTRACT"
      by (auto simp: contract_of_order_def split: if_splits)
    show ?thesis
    proof (cases "deltas = []")
      case True
      then have "s2 = s1" using dec k by (simp add: tx_when_iff)
      with True deltas quota.within [OF ok1, of c p] show ?thesis by simp
    next
      case False
      then have "decrement_quantities_used k deltas s1 = Inr (y, s2)" using dec k by (simp add: tx_when_iff)
      with quota.release_law [OF ok1 this] deltas Some show ?thesis by auto
    qed
  qed
  then show ?thesis using quota_same(1) [OF same(1)] quota_same(1) [OF same(2)] by simp
qed

text \<open>
  C27. A partial delivery stays within the order: when a delivery with actual quantities returns, every line
  it names was delivered in a quantity between 1 and the ordered one (so a line that was not delivered at
  all, quantity 0, is always refused), the order is charged exactly unit price times delivered quantity,
  line by line, and a contract gets back the quantity booked and not delivered.
\<close>

theorem partial_delivery_bounds:
  assumes "update_status i OS_DELIVERED actual ou re s = (Inr r, s')" and "actual \<noteq> []"
    and "tbl_get i False (orders s) = Some ord" and "ord_status ord \<noteq> OS_DELIVERED" and "quotas_ok s"
  shows "(\<forall>it\<in>set (items_of i s). \<forall>q. map_of (rev actual) (oit_product_id it) = Some q \<longrightarrow> 1 \<le> q \<and> q \<le> oit_quantity it)
    \<and> ord_total_amount r = delivered_amount actual (items_of i s)
    \<and> (\<forall>c p. quota_used s' c p = (if contract_of_order ord = Some c
         then max 0 (quota_used s c p - undelivered actual (items_of i s) p) else quota_used s c p))"
proof (rule deliveredE [OF assms(1,3,4)], goal_cases)
  case (1 s1 upd s2 x)
  have sel: "row_id upd = i" "contract_of_order upd = contract_of_order ord" by (simp_all add: 1(3,5) contract_of_order_def)
  have s1: "items_of i s1 = items_of i s" "contract_price_items s1 = contract_price_items s" "order_items s1 = order_items s"
    by (simp_all add: 1(4) items_of_def)
  have rows: "\<forall>it\<in>set (items_of i s). tbl_has (row_id it) (order_items s)"
    by (auto simp: items_of_def tbl_has_def)
  note E = 1
  show ?thesis
  proof (rule fulfillmentE [OF 1(7)], goal_cases)
    case (1 courier items amount t1 v t2 yy)
    have "contract_price_items t2 = contract_price_items t1" by (rule frameD [OF frame_ship(1) 1(4)]) simp_all
    moreover have "contract_price_items s2 = contract_price_items t2" by (rule frameD [OF frame_settlement(1) 1(5)]) simp_all
    ultimately have pi: "contract_price_items s' = contract_price_items t1" using E(11) by simp
    have quota: "quota_used s' c p = (if contract_of_order ord = Some c
        then max 0 (quota_used s c p - undelivered actual (items_of i s) p) else quota_used s c p)" for c p
      using correct_delivery_quota [OF 1(2), of c p] assms(5)
      by (simp add: sel s1(1) quota_same [OF s1(2)] quota_same [OF pi])
    have "orders t2 = orders t1" by (rule frameD [OF frame_ship(1) 1(4)]) simp_all
    moreover have "orders s2 = orders t2" by (rule frameD [OF frame_settlement(1) 1(5)]) simp_all
    ultimately have "ord_total_amount r = delivered_amount actual (items_of i s)"
      using correct_deliveryD(2,3) [OF 1(2), of upd] E(6,8) assms(2) by (auto simp: sel s1)
    moreover obtain deltas t0 where "apply_actual_items actual (items_of i s) s1 = Inr ((items, amount, deltas), t0)"
      using 1(2) assms(2) by (auto simp: correct_delivery_def tx_bind_iff tx_get_iff tx_ret_iff sel s1)
    from apply_actual_items_positive [OF this] rows
    have "\<forall>it\<in>set (items_of i s). \<forall>q. map_of (rev actual) (oit_product_id it) = Some q \<longrightarrow> 1 \<le> q \<and> q \<le> oit_quantity it"
      by (simp add: s1) fastforce
    ultimately show ?thesis using quota by blast
  qed
qed

theorem partial_delivery_bounds_witness:
  "\<exists>r s' ord. update_status 62 OS_DELIVERED [(20, 1)] (Some 6) None sample_db = (Inr r, s')
     \<and> tbl_get 62 False (orders sample_db) = Some ord \<and> ord_status ord \<noteq> OS_DELIVERED \<and> quotas_ok sample_db
     \<and> ord_total_amount r = 15000"
proof -
  have "\<not> isl (fst (update_status 62 OS_DELIVERED [(20, 1)] (Some 6) None sample_db))" by code_simp
  then obtain r s' where run: "update_status 62 OS_DELIVERED [(20, 1)] (Some 6) None sample_db = (Inr r, s')"
    using run_ok by blast
  have "map_option ord_status (tbl_get 62 False (orders sample_db)) = Some OS_ARRIVED" by code_simp
  then obtain ord where ord: "tbl_get 62 False (orders sample_db) = Some ord" "ord_status ord \<noteq> OS_DELIVERED" by auto
  have ok: "quotas_ok sample_db" by code_simp
  have "delivered_amount [(20, 1)] (items_of 62 sample_db) = 15000" by code_simp
  with partial_delivery_bounds [OF run _ ord ok] run ord ok show ?thesis by auto
qed

end
