(* ===== verification/UserService.thy ===== *)
theory UserService
  imports Users Inventory Finances
begin

text \<open>
  \<open>UserService\<close> (\<open>src/modules/users/services.py\<close>) over \<open>UserRepository\<close>,
  \<open>IdentityRepository\<close> and \<open>PhoneNumberRepository\<close> (\<open>src/modules/users/repositories.py\<close>):
  registration of clients and staff, changes of a profile, blocking and deleting, additional
  phones. The password hash of \<open>pwdlib\<close> is the argument \<open>hash\<close>. Lists that SQLAlchemy loads without
  an \<open>ORDER BY\<close> are in insertion order.
\<close>

section \<open>Identities and phones\<close>

definition user_draft :: "string \<Rightarrow> role \<Rightarrow> user_row" where
  "user_draft nm r = \<lparr>row_id = 0, is_active = True, created_at = 0, updated_at = 0,
     usr_username = nm, usr_role = r\<rparr>"

definition insert_user :: "user_row \<Rightarrow> user_row dbtx" where
  "insert_user d = insert_row users users_update d"

definition identity_draft :: "uuid \<Rightarrow> auth_provider \<Rightarrow> string \<Rightarrow> string option \<Rightarrow> identity_row" where
  "identity_draft u pr i h = \<lparr>row_id = 0, is_active = True, created_at = 0, updated_at = 0,
     idn_user_id = u, idn_provider = pr, idn_provider_identity_id = i, idn_password_hash = h\<rparr>"

abbreviation identity_key :: "identity_row \<Rightarrow> auth_provider \<times> string" where
  "identity_key r \<equiv> (idn_provider r, idn_provider_identity_id r)"

text \<open>\<open>uq_identities_provider_identity_id\<close>, against the rows other than \<open>i\<close>, and the foreign key.\<close>

definition identity_constraints :: "uuid option \<Rightarrow> identity_row \<Rightarrow> unit dbtx" where
  "identity_constraints i r =
     tx_bind (tx_get users) (\<lambda>us.
     tx_bind (tx_raise_if (\<not> tbl_has (idn_user_id r) us) (DbErr (ForeignKeyViolation ''users''))) (\<lambda>_.
     tx_bind (tx_get identities) (\<lambda>rows.
     tx_raise_if (list_ex (\<lambda>x. Some (row_id x) \<noteq> i \<and> identity_key x = identity_key r) rows)
       (DbErr (UniqueViolation ''uq_identities_provider_identity_id'')))))"

definition insert_identity :: "identity_row \<Rightarrow> identity_row dbtx" where
  "insert_identity d = tx_bind (identity_constraints None d) (\<lambda>_. insert_row identities identities_update d)"

definition add_local :: "uuid \<Rightarrow> string \<Rightarrow> string option \<Rightarrow> identity_row dbtx" where
  "add_local user_id provider_identity_id h = insert_identity (identity_draft user_id AP_LOCAL provider_identity_id h)"

definition get_by_id_and_provider :: "string \<Rightarrow> auth_provider \<Rightarrow> db \<Rightarrow> identity_row option" where
  "get_by_id_and_provider i pr s = find (\<lambda>r. idn_provider r = pr \<and> idn_provider_identity_id r = i) (identities s)"

definition get_local_by_id :: "string \<Rightarrow> db \<Rightarrow> identity_row option" where
  "get_local_by_id i = get_by_id_and_provider i AP_LOCAL"

definition get_by_user_and_provider :: "uuid \<Rightarrow> auth_provider \<Rightarrow> identity_row dbtx" where
  "get_by_user_and_provider user_id pr =
     tx_bind (tx_get (\<lambda>s. filter (\<lambda>r. idn_user_id r = user_id \<and> idn_provider r = pr) (identities s))) (\<lambda>rows.
     tx_bind (scalar_one_or_none rows) (\<lambda>r.
     tx_require r (UserErr (UserNotFoundError user_id))))"

definition get_local_by_user :: "uuid \<Rightarrow> identity_row dbtx" where
  "get_local_by_user user_id = get_by_user_and_provider user_id AP_LOCAL"

definition get_local_by_user_or_none :: "uuid \<Rightarrow> identity_row option dbtx" where
  "get_local_by_user_or_none user_id =
     tx_bind (tx_get (\<lambda>s. filter (\<lambda>r. idn_user_id r = user_id \<and> idn_provider r = AP_LOCAL) (identities s)))
       scalar_one_or_none"

text \<open>\<open>BaseRepository.update\<close> on the identities, with the columns \<open>update\<close> may set.\<close>

definition update_identity :: "uuid \<Rightarrow> string option \<Rightarrow> string option \<Rightarrow> unit dbtx" where
  "update_identity i phone h =
     (let f = (\<lambda>r. r\<lparr>idn_provider_identity_id := (case phone of None \<Rightarrow> idn_provider_identity_id r | Some p \<Rightarrow> p),
                      idn_password_hash := (case h of None \<Rightarrow> idn_password_hash r | Some x \<Rightarrow> Some x)\<rparr>) in
      tx_bind (tx_get identities) (\<lambda>rows.
      tx_bind (tx_require (tbl_get i False rows) (HttpErr (NotFoundError ''NOT_FOUND''))) (\<lambda>r.
      tx_bind (identity_constraints (Some i) (f r)) (\<lambda>_.
      update_row identities_update i f))))"

definition phone_draft :: "uuid \<Rightarrow> string \<Rightarrow> string option \<Rightarrow> phone_row" where
  "phone_draft u p l = \<lparr>row_id = 0, is_active = True, created_at = 0, updated_at = 0,
     phn_user_id = u, phn_phone = p, phn_label = l\<rparr>"

definition insert_phone :: "phone_row \<Rightarrow> phone_row dbtx" where
  "insert_phone d =
     tx_bind (tx_get users) (\<lambda>us.
     tx_bind (tx_raise_if (\<not> tbl_has (phn_user_id d) us) (DbErr (ForeignKeyViolation ''users''))) (\<lambda>_.
     tx_bind (tx_get phone_numbers) (\<lambda>rows.
     tx_bind (tx_raise_if (list_ex (\<lambda>x. phn_phone x = phn_phone d) rows)
       (DbErr (UniqueViolation ''phone_numbers''))) (\<lambda>_.
     insert_row phone_numbers phone_numbers_update d))))"

definition get_by_phone :: "string \<Rightarrow> db \<Rightarrow> phone_row option" where
  "get_by_phone p s = find (\<lambda>r. phn_phone r = p) (phone_numbers s)"

definition phones_of_user :: "uuid \<Rightarrow> db \<Rightarrow> phone_row list" where
  "phones_of_user user_id s =
     sort_key created_at (filter (\<lambda>r. phn_user_id r = user_id \<and> is_active r) (phone_numbers s))"

definition count_by_user :: "uuid \<Rightarrow> db \<Rightarrow> nat" where
  "count_by_user user_id s = length (filter (\<lambda>r. phn_user_id r = user_id \<and> is_active r) (phone_numbers s))"

section \<open>UserRepository\<close>

text \<open>\<open>get_with_identity\<close>: the first row of the join.\<close>

definition get_with_identity :: "auth_provider \<Rightarrow> string \<Rightarrow> db \<Rightarrow> (user_row \<times> identity_row) option" where
  "get_with_identity pr i s =
     limit_1 [(u, r). r \<leftarrow> identities s, idn_provider r = pr \<and> idn_provider_identity_id r = i,
                      u \<leftarrow> users s, row_id u = idn_user_id r \<and> is_active u]"

definition get_system_user :: "user_row dbtx" where
  "get_system_user =
     tx_bind (tx_get (\<lambda>s. filter (\<lambda>u. usr_role u = R_SYSTEM \<and> is_active u) (users s))) (\<lambda>rows.
     tx_bind (scalar_one_or_none rows) (\<lambda>u.
     tx_require u (UserErr (UserNotFoundError SYSTEM_USER_ID))))"

definition user_matches :: "(char \<Rightarrow> char) \<Rightarrow> string option \<Rightarrow> db \<Rightarrow> user_row \<Rightarrow> bool" where
  "user_matches lower search s u =
     (if search = None \<or> search = Some [] then True
      else let pat = CHR 0x25 # the search @ [CHR 0x25] in
        like_match lower pat (usr_username u)
        \<or> list_ex (\<lambda>r. idn_user_id r = row_id u \<and> like_match lower pat (idn_provider_identity_id r)) (identities s)
        \<or> list_ex (\<lambda>r. phn_user_id r = row_id u \<and> like_match lower pat (phn_phone r)) (phone_numbers s))"

text \<open>The active users with one of the roles that match the search, newest first, one page of them.\<close>

definition users_with_details ::
  "(char \<Rightarrow> char) \<Rightarrow> nat \<Rightarrow> nat \<Rightarrow> role list \<Rightarrow> string option \<Rightarrow> db \<Rightarrow> nat \<times> user_row list" where
  "users_with_details lower skip limit roles search s =
     (let rows = filter (\<lambda>u. is_active u \<and> usr_role u \<in> set roles \<and> user_matches lower search s u) (users s)
      in (length rows, take limit (drop skip
           (sort_key (\<lambda>u. (- created_at u, - int (row_id u))) rows))))"

definition get_staff_with_details ::
  "(char \<Rightarrow> char) \<Rightarrow> nat \<Rightarrow> nat \<Rightarrow> role list \<Rightarrow> string option \<Rightarrow> db \<Rightarrow> nat \<times> user_row list" where
  "get_staff_with_details lower skip limit roles search = users_with_details lower skip limit roles search"

definition get_couriers_with_details ::
  "(char \<Rightarrow> char) \<Rightarrow> nat \<Rightarrow> nat \<Rightarrow> string option \<Rightarrow> db \<Rightarrow> nat \<times> user_row list" where
  "get_couriers_with_details lower skip limit search = users_with_details lower skip limit [R_COURIER] search"

definition get_clients_with_details ::
  "(char \<Rightarrow> char) \<Rightarrow> nat \<Rightarrow> nat \<Rightarrow> string option \<Rightarrow> db \<Rightarrow> nat \<times> user_row list" where
  "get_clients_with_details lower skip limit search =
     users_with_details lower skip limit [R_CLIENT_B2C, R_CLIENT_B2B] search"

record user_update =
  uu_username :: "string option option"
  uu_role :: "role option option"
  uu_is_active :: "bool option option"

text \<open>
  \<open>UserRepository.update\<close> of the columns that are given, a \<open>NULL\<close> among them violating
  \<open>NOT NULL\<close>: only an active row is matched, and \<open>scalar_one\<close> raises when none is.
\<close>

definition apply_user_update :: "user_update \<Rightarrow> user_row \<Rightarrow> user_row" where
  "apply_user_update d u = u\<lparr>usr_username := (case uu_username d of Some (Some x) \<Rightarrow> x | _ \<Rightarrow> usr_username u),
     usr_role := (case uu_role d of Some (Some x) \<Rightarrow> x | _ \<Rightarrow> usr_role u),
     is_active := (case uu_is_active d of Some (Some x) \<Rightarrow> x | _ \<Rightarrow> is_active u)\<rparr>"

definition repo_update_user :: "uuid \<Rightarrow> user_update \<Rightarrow> user_row dbtx" where
  "repo_update_user i d =
     tx_bind (tx_get users) (\<lambda>us.
     tx_bind (tx_require (tbl_get i True us) (DbErr NoResultFound)) (\<lambda>_.
     tx_bind (tx_raise_if (uu_username d = Some None \<or> uu_role d = Some None \<or> uu_is_active d = Some None)
       (UserErr (UserUpdateConflictError i))) (\<lambda>_.
     tx_bind (update_row users_update i (apply_user_update d)) (\<lambda>_.
     tx_bind (tx_get users) (\<lambda>us'.
     tx_require (tbl_get i False us') (DbErr NoResultFound))))))"

definition repo_archive_user :: "uuid \<Rightarrow> bool dbtx" where
  "repo_archive_user i =
     tx_bind (tx_get users) (\<lambda>us.
     case tbl_get i True us of
       None \<Rightarrow> tx_ret False
     | Some _ \<Rightarrow> tx_bind (update_row users_update i (\<lambda>u. u\<lparr>is_active := False\<rparr>)) (\<lambda>_. tx_ret True))"

text \<open>
  \<open>DELETE\<close> of a user. The foreign keys on \<open>users\<close> are \<open>ON DELETE RESTRICT\<close> on accounts, inventories,
  transactions, transfers, orders (the client) and contracts, \<open>SET NULL\<close> for the courier of an order and
  the authors in the logs, and \<open>CASCADE\<close> on identities and phones.
\<close>

definition user_referenced :: "uuid \<Rightarrow> db \<Rightarrow> bool" where
  "user_referenced i s \<longleftrightarrow>
     list_ex (\<lambda>r. acc_user_id r = i) (accounts s)
     \<or> list_ex (\<lambda>r. txn_verified_by_id r = Some i) (transactions s)
     \<or> list_ex (\<lambda>r. inv_user_id r = i) (inventories s)
     \<or> list_ex (\<lambda>r. trf_created_by_id r = i \<or> trf_accepted_by_id r = Some i) (stock_transfers s)
     \<or> list_ex (\<lambda>r. ord_client_id r = i) (orders s)
     \<or> list_ex (\<lambda>r. con_client_id r = i \<or> con_signed_by_id r = Some i) (contracts s)"

definition set_null :: "uuid \<Rightarrow> uuid option \<Rightarrow> uuid option" where
  "set_null i v = (if v = Some i then None else v)"

definition delete_user_row :: "uuid \<Rightarrow> db \<Rightarrow> db" where
  "delete_user_row i s = s\<lparr>users := tbl_delete i (users s),
     identities := filter (\<lambda>r. idn_user_id r \<noteq> i) (identities s),
     phone_numbers := filter (\<lambda>r. phn_user_id r \<noteq> i) (phone_numbers s),
     orders := map (\<lambda>r. r\<lparr>ord_courier_id := set_null i (ord_courier_id r)\<rparr>) (orders s),
     order_status_logs := map (\<lambda>r. r\<lparr>osl_changed_by_id := set_null i (osl_changed_by_id r)\<rparr>) (order_status_logs s),
     contract_status_logs := map (\<lambda>r. r\<lparr>csl_changed_by_id := set_null i (csl_changed_by_id r)\<rparr>) (contract_status_logs s),
     contract_amendments := map (\<lambda>r. r\<lparr>amd_created_by_id := set_null i (amd_created_by_id r)\<rparr>) (contract_amendments s)\<rparr>"

definition repo_delete_user :: "uuid \<Rightarrow> bool dbtx" where
  "repo_delete_user i =
     tx_bind (tx_get users) (\<lambda>us.
     case tbl_get i False us of
       None \<Rightarrow> tx_ret False
     | Some _ \<Rightarrow>
         tx_bind (tx_get (user_referenced i)) (\<lambda>ref.
         tx_bind (tx_raise_if ref (UserErr (UserDeleteConflictError i))) (\<lambda>_.
         tx_bind (tx_modify (delete_user_row i)) (\<lambda>_.
         tx_ret True))))"

section \<open>Registration\<close>

definition STAFF_ROLES :: "role list" where
  "STAFF_ROLES = [R_ADMIN, R_ACCOUNTANT, R_STOREKEEPER, R_CASHIER, R_COURIER]"

definition load_user :: "uuid \<Rightarrow> db \<Rightarrow> app_error + user_row" where
  "load_user i s = (case tbl_get i False (users s) of
     None \<Rightarrow> Inl (UserErr (UserNotFoundError i)) | Some u \<Rightarrow> Inr u)"

definition ensure_courier_account :: "user_row \<Rightarrow> bool dbtx" where
  "ensure_courier_account user =
     (if usr_role user \<noteq> R_COURIER then tx_ret False
      else
        tx_bind (tx_get (\<lambda>s. tbl_filter_by True (\<lambda>a. acc_user_id a = row_id user \<and> acc_type a = AT_COURIER) (accounts s))) (\<lambda>rows.
        tx_bind (scalar_one_or_none rows) (\<lambda>account.
        if account \<noteq> None then tx_ret False
        else tx_bind (create_courier_account (row_id user) (usr_username user)) (\<lambda>_. tx_ret True))))"

record user_admin_create =
  uac_username :: string
  uac_role :: role
  uac_phone :: string
  uac_password :: string

record user_client_create = user_admin_create +
  ucc_initial_tare_quantity :: "int option"
  ucc_tare_product_id :: "uuid option"

text \<open>The transfer of the first containers from the vendor, one line.\<close>

definition initial_balance :: "uuid \<Rightarrow> item \<Rightarrow> uuid \<Rightarrow> unit dbtx" where
  "initial_balance inventory_id it created_by_id =
     tx_bind get_vendor_inventory (\<lambda>vendor.
     tx_bind (insert_transfer (transfer_draft (row_id vendor) inventory_id TT_INITIAL_BALANCE
       created_by_id (Some created_by_id) None None None)) (\<lambda>transfer.
     tx_bind (insert_transfer_item (transfer_item_draft (row_id transfer) it)) (\<lambda>_.
     tx_bind (insert_stock_transaction
       (stock_transaction_draft (row_id transfer) (row_id vendor) inventory_id it)) (\<lambda>_.
     tx_ret ()))))"

definition phone_not_registered :: "string \<Rightarrow> unit dbtx" where
  "phone_not_registered phone =
     tx_bind (tx_get (get_with_identity AP_LOCAL phone)) (\<lambda>existing.
     tx_raise_if (existing \<noteq> None) (UserErr (UserAlreadyExistsError phone)))"

definition register_client_body :: "(string \<Rightarrow> string) \<Rightarrow> user_client_create \<Rightarrow> uuid dbtx" where
  "register_client_body hash dto =
     tx_bind (phone_not_registered (uac_phone dto)) (\<lambda>_.
     tx_bind (insert_user (user_draft (uac_username dto) (uac_role dto))) (\<lambda>user.
     tx_bind (insert_identity (identity_draft (row_id user) AP_LOCAL (uac_phone dto) (Some (hash (uac_password dto))))) (\<lambda>_.
     tx_bind (create_account (row_id user) AT_CLIENT (''Litsevoy schet: '' @ usr_username user)) (\<lambda>_.
     tx_bind (insert_inventory (inventory_draft (row_id user) IT_CLIENT (''Adres: '' @ usr_username user))) (\<lambda>inventory.
     tx_bind (case (ucc_initial_tare_quantity dto, ucc_tare_product_id dto) of
         (Some q, Some p) \<Rightarrow> tx_when (q \<noteq> 0) (initial_balance (row_id inventory) (p, q) (row_id user))
       | _ \<Rightarrow> tx_ret ()) (\<lambda>_.
     tx_ret (row_id user)))))))"

definition register_client where
  "register_client hash dto = commit_then (register_client_body hash dto) load_user"

definition register_local_user_body :: "(string \<Rightarrow> string) \<Rightarrow> user_admin_create \<Rightarrow> uuid dbtx" where
  "register_local_user_body hash dto =
     tx_bind (phone_not_registered (uac_phone dto)) (\<lambda>_.
     tx_bind (insert_user (user_draft (uac_username dto) (uac_role dto))) (\<lambda>user.
     tx_bind (insert_identity (identity_draft (row_id user) AP_LOCAL (uac_phone dto) (Some (hash (uac_password dto))))) (\<lambda>_.
     tx_bind (ensure_courier_account user) (\<lambda>_.
     tx_ret (row_id user)))))"

definition register_local_user where
  "register_local_user hash dto = commit_then (register_local_user_body hash dto) load_user"

section \<open>Changing, blocking and deleting\<close>

text \<open>The fields of the request, \<open>None\<close> when unset, \<open>Some None\<close> when \<open>null\<close>.\<close>

record user_admin_update = user_update +
  uu_phone :: "string option option"
  uu_password :: "string option option"

definition validate_staff_update ::
  "role option \<Rightarrow> identity_row option \<Rightarrow> string option \<Rightarrow> string option \<Rightarrow> uuid \<Rightarrow> unit dbtx" where
  "validate_staff_update next_role local_identity phone password user_id =
     (case next_role of
        None \<Rightarrow> tx_ret ()
      | Some r \<Rightarrow>
          if r \<notin> set STAFF_ROLES then tx_ret ()
          else
            tx_bind (tx_raise_if (local_identity = None \<and> phone = None)
              (HttpErr (BadRequestError ''STAFF_PHONE_REQUIRED''))) (\<lambda>_.
            tx_raise_if ((case local_identity of None \<Rightarrow> True
                | Some li \<Rightarrow> idn_password_hash li = None \<or> idn_password_hash li = Some [])
                \<and> (password = None \<or> password = Some []))
              (UserErr (StaffPasswordRequiredError user_id r))))"

fun integrity_to_update_conflict :: "uuid \<Rightarrow> app_error \<Rightarrow> app_error" where
  "integrity_to_update_conflict i (DbErr e) =
     (if is_integrity_error e then UserErr (UserUpdateConflictError i) else DbErr e)"
| "integrity_to_update_conflict i e = e"

definition apply_identity_changes ::
  "(string \<Rightarrow> string) \<Rightarrow> uuid \<Rightarrow> identity_row option \<Rightarrow> string option \<Rightarrow> string option \<Rightarrow> unit dbtx" where
  "apply_identity_changes hash user_id local_identity phone password =
     tx_map_error (integrity_to_update_conflict user_id)
       (case local_identity of
          None \<Rightarrow>
            (case phone of
               None \<Rightarrow> tx_raise (HttpErr (BadRequestError ''PHONE_REQUIRED_FOR_LOCAL_IDENTITY''))
             | Some p \<Rightarrow> tx_bind (add_local user_id p (map_option hash password)) (\<lambda>_. tx_ret ()))
        | Some li \<Rightarrow> update_identity (row_id li) phone (map_option hash password))"

definition given :: "'a option option \<Rightarrow> 'a option" where
  "given v = (case v of None \<Rightarrow> None | Some x \<Rightarrow> x)"

definition update_user_body :: "(string \<Rightarrow> string) \<Rightarrow> uuid \<Rightarrow> user_admin_update \<Rightarrow> uuid dbtx" where
  "update_user_body hash i d =
     (let phone = given (uu_phone d); password = given (uu_password d) in
      tx_bind (tx_raise_if (i \<in> PROTECTED_USER_IDS \<and> uu_is_active d = Some (Some False))
        (UserErr (SystemUserDeletionForbiddenError i))) (\<lambda>_.
      tx_bind (tx_get users) (\<lambda>us.
      tx_bind (tx_require (tbl_get i False us) (UserErr (UserNotFoundError i))) (\<lambda>user.
      tx_bind (get_local_by_user_or_none i) (\<lambda>local_identity.
      tx_bind (validate_staff_update (case uu_role d of None \<Rightarrow> Some (usr_role user) | Some r \<Rightarrow> r)
        local_identity phone password i) (\<lambda>_.
      tx_bind (if uu_username d \<noteq> None \<or> uu_role d \<noteq> None \<or> uu_is_active d \<noteq> None
        then repo_update_user i (user_update.truncate d) else tx_ret user) (\<lambda>user.
      tx_bind (tx_when (phone \<noteq> None \<or> password \<noteq> None)
        (apply_identity_changes hash i local_identity phone password)) (\<lambda>_.
      tx_bind (ensure_courier_account user) (\<lambda>_.
      tx_ret i)))))))))"

definition update_user where
  "update_user hash i d = commit_then (update_user_body hash i d) load_user"

definition delete_staff_body :: "uuid \<Rightarrow> unit dbtx" where
  "delete_staff_body i =
     tx_bind (tx_raise_if (i \<in> PROTECTED_USER_IDS) (UserErr (SystemUserDeletionForbiddenError i))) (\<lambda>_.
     tx_bind (tx_get users) (\<lambda>us.
     tx_bind (tx_raise_if (case tbl_get i False us of None \<Rightarrow> True | Some u \<Rightarrow> usr_role u \<notin> set STAFF_ROLES)
       (UserErr (UserNotFoundError i))) (\<lambda>_.
     tx_bind (repo_delete_user i) (\<lambda>is_deleted.
     tx_raise_if (\<not> is_deleted) (UserErr (UserNotFoundError i))))))"

definition delete_staff where
  "delete_staff i = with_uow (delete_staff_body i)"

definition archive_user_body :: "uuid \<Rightarrow> bool dbtx" where
  "archive_user_body i =
     tx_bind (tx_raise_if (i \<in> PROTECTED_USER_IDS) (UserErr (SystemUserDeletionForbiddenError i))) (\<lambda>_.
     repo_archive_user i)"

definition archive_user where
  "archive_user i = with_uow (archive_user_body i)"

definition delete_user_body :: "uuid \<Rightarrow> bool dbtx" where
  "delete_user_body i =
     tx_bind (tx_raise_if (i \<in> PROTECTED_USER_IDS) (UserErr (SystemUserDeletionForbiddenError i))) (\<lambda>_.
     repo_delete_user i)"

definition delete_user where
  "delete_user i = with_uow (delete_user_body i)"

section \<open>Additional phones\<close>

definition MAX_ADDITIONAL_PHONES :: nat where
  "MAX_ADDITIONAL_PHONES = 5"

definition check_phone_globally_unique :: "string \<Rightarrow> unit dbtx" where
  "check_phone_globally_unique phone =
     tx_bind (tx_get (get_local_by_id phone)) (\<lambda>existing_identity.
     tx_bind (tx_raise_if (existing_identity \<noteq> None) (UserErr (PhoneAlreadyExistsError phone))) (\<lambda>_.
     tx_bind (tx_get (get_by_phone phone)) (\<lambda>existing_phone.
     tx_raise_if (existing_phone \<noteq> None) (UserErr (PhoneAlreadyExistsError phone)))))"

definition get_user_phones where
  "get_user_phones user_id = with_uow
     (tx_bind (tx_get users) (\<lambda>us.
      tx_bind (tx_require (tbl_get user_id False us) (UserErr (UserNotFoundError user_id))) (\<lambda>_.
      tx_get (phones_of_user user_id))))"

fun integrity_to_phone_exists :: "string \<Rightarrow> app_error \<Rightarrow> app_error" where
  "integrity_to_phone_exists p (DbErr e) =
     (if is_integrity_error e then UserErr (PhoneAlreadyExistsError p) else DbErr e)"
| "integrity_to_phone_exists p e = e"

definition add_phone_body :: "uuid \<Rightarrow> string \<Rightarrow> string option \<Rightarrow> phone_row dbtx" where
  "add_phone_body user_id phone label =
     tx_bind (tx_get users) (\<lambda>us.
     tx_bind (tx_require (tbl_get user_id True us) (UserErr (UserNotFoundError user_id))) (\<lambda>_.
     tx_bind (tx_get (count_by_user user_id)) (\<lambda>count.
     tx_bind (tx_raise_if (count \<ge> MAX_ADDITIONAL_PHONES)
       (UserErr (PhoneLimitExceededError user_id MAX_ADDITIONAL_PHONES))) (\<lambda>_.
     tx_bind (check_phone_globally_unique phone) (\<lambda>_.
     tx_map_error (integrity_to_phone_exists phone) (insert_phone (phone_draft user_id phone label)))))))"

definition add_phone where
  "add_phone user_id phone label = with_uow (add_phone_body user_id phone label)"

definition require_phone :: "uuid \<Rightarrow> uuid \<Rightarrow> phone_row dbtx" where
  "require_phone user_id phone_id =
     tx_bind (tx_get phone_numbers) (\<lambda>rows.
     tx_bind (tx_require (tbl_get phone_id True rows) (UserErr (PhoneNotFoundError phone_id))) (\<lambda>phone.
     tx_bind (tx_raise_if (phn_user_id phone \<noteq> user_id) (UserErr (PhoneNotFoundError phone_id))) (\<lambda>_.
     tx_ret phone)))"

text \<open>The request has only the label; an unset one leaves it.\<close>

definition update_phone_body :: "uuid \<Rightarrow> uuid \<Rightarrow> string option option \<Rightarrow> phone_row dbtx" where
  "update_phone_body user_id phone_id label =
     tx_bind (require_phone user_id phone_id) (\<lambda>_.
     tx_bind (update_row phone_numbers_update phone_id
       (\<lambda>r. r\<lparr>phn_label := (case label of None \<Rightarrow> phn_label r | Some l \<Rightarrow> l)\<rparr>)) (\<lambda>_.
     tx_bind (tx_get phone_numbers) (\<lambda>rows.
     tx_require (tbl_get phone_id False rows) (HttpErr (NotFoundError ''NOT_FOUND'')))))"

definition update_phone where
  "update_phone user_id phone_id label = with_uow (update_phone_body user_id phone_id label)"

definition remove_phone_body :: "uuid \<Rightarrow> uuid \<Rightarrow> unit dbtx" where
  "remove_phone_body user_id phone_id =
     tx_bind (require_phone user_id phone_id) (\<lambda>_.
     tx_modify (phone_numbers_update (tbl_delete phone_id)))"

definition remove_phone where
  "remove_phone user_id phone_id = with_uow (remove_phone_body user_id phone_id)"

section \<open>Queries\<close>

definition get_user_local_identity :: "string \<Rightarrow> db \<Rightarrow> (user_row \<times> identity_row) option" where
  "get_user_local_identity identity_id = get_with_identity AP_LOCAL identity_id"

record courier_entry =
  cre_id :: uuid
  cre_username :: string
  cre_phone :: "string option"
  cre_is_active :: bool
  cre_account :: "account_row option"
  cre_inventory :: "inventory_row option"

definition get_couriers ::
  "(char \<Rightarrow> char) \<Rightarrow> nat \<Rightarrow> nat \<Rightarrow> string option \<Rightarrow> db \<Rightarrow> nat \<times> courier_entry list" where
  "get_couriers lower skip limit search s =
     (let (n, us) = get_couriers_with_details lower skip limit search s in
      (n, map (\<lambda>u. \<lparr>cre_id = row_id u, cre_username = usr_username u,
        cre_phone = map_option idn_provider_identity_id (find (\<lambda>r. idn_user_id r = row_id u) (identities s)),
        cre_is_active = is_active u,
        cre_account = find (\<lambda>a. acc_user_id a = row_id u) (accounts s),
        cre_inventory = find (\<lambda>v. inv_user_id v = row_id u) (inventories s)\<rparr>) us))"

definition get_staff ::
  "(char \<Rightarrow> char) \<Rightarrow> nat \<Rightarrow> nat \<Rightarrow> string option \<Rightarrow> role list option \<Rightarrow> db \<Rightarrow> app_error + (nat \<times> user_row list)" where
  "get_staff lower skip limit search roles s =
     (let selected = (case roles of None \<Rightarrow> STAFF_ROLES | Some [] \<Rightarrow> STAFF_ROLES | Some rs \<Rightarrow> rs) in
      if list_ex (\<lambda>r. r \<notin> set STAFF_ROLES) selected
      then Inl (HttpErr (BadRequestError ''INVALID_STAFF_ROLE_FILTER''))
      else Inr (get_staff_with_details lower skip limit selected search s))"

end
