(* ===== verification/Codec.thy ===== *)
theory Codec
  imports Errors
begin

text \<open>
  What the cursor tokens and the bearer tokens take from Python's standard library: UTF-8, \<open>base64.urlsafe_b64encode\<close>
  and \<open>urlsafe_b64decode\<close>, \<open>str\<close> and \<open>int\<close> of a number, \<open>str\<close> of a UUID and \<open>uuid.UUID\<close>. A Python
  string is the list of its code points here, bytes are numbers below 256. The lemmas are the round trips.
  \<open>int\<close> reads ASCII digits; the decimal digits of other scripts, which Python reads too, are left out.
\<close>

type_synonym pystr = "nat list"

definition py_text :: "string \<Rightarrow> pystr" where
  "py_text cs = map of_char cs"

section \<open>UTF-8\<close>

definition is_scalar :: "nat \<Rightarrow> bool" where
  "is_scalar n \<longleftrightarrow> n < 55296 \<or> 57344 \<le> n \<and> n < 1114112"

definition utf8_char :: "nat \<Rightarrow> nat list" where
  "utf8_char n =
     (if n < 128 then [n]
      else if n < 2048 then [192 + n div 64, 128 + n mod 64]
      else if n < 65536 then [224 + n div 4096, 128 + n div 64 mod 64, 128 + n mod 64]
      else [240 + n div 262144, 128 + n div 4096 mod 64, 128 + n div 64 mod 64, 128 + n mod 64])"

text \<open>\<open>None\<close> is \<open>UnicodeEncodeError\<close>, a surrogate.\<close>

definition utf8_encode :: "pystr \<Rightarrow> nat list option" where
  "utf8_encode cs = (if list_all is_scalar cs then Some (concat (map utf8_char cs)) else None)"

definition cont :: "nat \<Rightarrow> bool" where
  "cont b \<longleftrightarrow> 128 \<le> b \<and> b < 192"

fun utf8_decode :: "nat list \<Rightarrow> pystr option" where
  "utf8_decode [] = Some []"
| "utf8_decode (a # bs) =
     (if a < 128 then map_option ((#) a) (utf8_decode bs)
      else if 194 \<le> a \<and> a < 224 then
        (case bs of b # r \<Rightarrow> if cont b then map_option ((#) ((a - 192) * 64 + (b - 128))) (utf8_decode r) else None
         | _ \<Rightarrow> None)
      else if 224 \<le> a \<and> a < 240 then
        (case bs of b # c # r \<Rightarrow>
            let n = (a - 224) * 4096 + (b - 128) * 64 + (c - 128) in
            if cont b \<and> cont c \<and> 2048 \<le> n \<and> is_scalar n then map_option ((#) n) (utf8_decode r) else None
         | _ \<Rightarrow> None)
      else if 240 \<le> a \<and> a < 245 then
        (case bs of b # c # d # r \<Rightarrow>
            let n = (a - 240) * 262144 + (b - 128) * 4096 + (c - 128) * 64 + (d - 128) in
            if cont b \<and> cont c \<and> cont d \<and> 65536 \<le> n \<and> is_scalar n then map_option ((#) n) (utf8_decode r) else None
         | _ \<Rightarrow> None)
      else None)"

declare utf8_decode.simps(2) [simp del]

section \<open>base64url\<close>

definition b64_char :: "nat \<Rightarrow> char" where
  "b64_char n = (if n < 26 then char_of (65 + n) else if n < 52 then char_of (71 + n)
     else if n < 62 then char_of (n - 4) else if n = 62 then CHR ''-'' else CHR ''_'')"

text \<open>\<open>urlsafe_b64decode\<close> replaces \<open>-\<close> and \<open>_\<close> and so reads both alphabets.\<close>

definition b64_val :: "char \<Rightarrow> nat option" where
  "b64_val ch = (let n = of_char ch :: nat in
     if 65 \<le> n \<and> n \<le> 90 then Some (n - 65) else if 97 \<le> n \<and> n \<le> 122 then Some (n - 71)
     else if 48 \<le> n \<and> n \<le> 57 then Some (n + 4) else if n = 43 \<or> n = 45 then Some 62
     else if n = 47 \<or> n = 95 then Some 63 else None)"

abbreviation pad :: char where
  "pad \<equiv> CHR 0x3D"

fun urlsafe_b64encode :: "nat list \<Rightarrow> string" where
  "urlsafe_b64encode [] = []"
| "urlsafe_b64encode [a] = [b64_char (a div 4), b64_char (a mod 4 * 16), pad, pad]"
| "urlsafe_b64encode [a, b] =
     [b64_char (a div 4), b64_char (a mod 4 * 16 + b div 16), b64_char (b mod 16 * 4), pad]"
| "urlsafe_b64encode (a # b # c # r) =
     [b64_char (a div 4), b64_char (a mod 4 * 16 + b div 16), b64_char (b mod 16 * 4 + c div 64), b64_char (c mod 64)]
     @ urlsafe_b64encode r"

text \<open>
  \<open>binascii.a2b_base64\<close> without \<open>strict_mode\<close>: other characters are skipped, enough padding ends the input. The
  arguments are the position in the group of four, the bits left over, and the padding seen; \<open>None\<close> is
  \<open>binascii.Error\<close>.
\<close>

fun a2b_base64 :: "nat \<Rightarrow> nat \<Rightarrow> nat \<Rightarrow> string \<Rightarrow> nat list option" where
  "a2b_base64 quad left pads [] = (if quad = 0 then Some [] else None)"
| "a2b_base64 quad left pads (ch # cs) =
     (if ch = pad then
        (if quad \<ge> 2 \<and> quad + Suc pads \<ge> 4 then Some []
         else a2b_base64 quad left (if quad \<ge> 2 then Suc pads else pads) cs)
      else
        (case b64_val ch of
           None \<Rightarrow> a2b_base64 quad left pads cs
         | Some v \<Rightarrow>
             if quad = 0 then a2b_base64 1 v 0 cs
             else if quad = 1 then map_option ((#) (left * 4 + v div 16)) (a2b_base64 2 (v mod 16) 0 cs)
             else if quad = 2 then map_option ((#) (left * 16 + v div 4)) (a2b_base64 3 (v mod 4) 0 cs)
             else map_option ((#) (left * 64 + v)) (a2b_base64 0 0 0 cs)))"

declare a2b_base64.simps(2) [simp del]

definition urlsafe_b64decode :: "string \<Rightarrow> nat list option" where
  "urlsafe_b64decode cs = a2b_base64 0 0 0 cs"

definition rstrip_pad :: "string \<Rightarrow> string" where
  "rstrip_pad cs = rev (dropWhile (\<lambda>ch. ch = pad) (rev cs))"

text \<open>\<open>token + "=" * (-len(token) % 4)\<close>\<close>

definition with_padding :: "string \<Rightarrow> string" where
  "with_padding token = token @ replicate (nat ((- int (length token)) mod 4)) pad"

section \<open>Numbers\<close>

definition py_space :: "nat \<Rightarrow> bool" where
  "py_space n \<longleftrightarrow> n \<in> set ([9..<14] @ [28..<33] @ [133, 160, 5760] @ [8192..<8203] @ [8232, 8233, 8239, 8287, 12288])"

definition digit_val :: "nat \<Rightarrow> nat option" where
  "digit_val n = (if 48 \<le> n \<and> n \<le> 57 then Some (n - 48) else if 97 \<le> n \<and> n \<le> 122 then Some (n - 87)
     else if 65 \<le> n \<and> n \<le> 90 then Some (n - 55) else None)"

text \<open>Digits with single underscores between them; the flag is that an underscore is not allowed here.\<close>

fun py_digits :: "nat \<Rightarrow> nat \<Rightarrow> bool \<Rightarrow> pystr \<Rightarrow> nat option" where
  "py_digits base acc u [] = (if u then None else Some acc)"
| "py_digits base acc u (c # cs) =
     (if c = 95 then (if u then None else py_digits base acc True cs)
      else (case digit_val c of
          None \<Rightarrow> None
        | Some d \<Rightarrow> if d < base then py_digits base (acc * base + d) False cs else None))"

definition strip_spaces :: "pystr \<Rightarrow> pystr" where
  "strip_spaces cs = rev (dropWhile py_space (rev (dropWhile py_space cs)))"

definition py_sign :: "pystr \<Rightarrow> int \<times> pystr" where
  "py_sign cs = (case cs of [] \<Rightarrow> (1, []) | c # r \<Rightarrow> if c = 45 then (-1, r) else if c = 43 then (1, r) else (1, cs))"

definition drop_hex_prefix :: "nat \<Rightarrow> pystr \<Rightarrow> pystr" where
  "drop_hex_prefix base cs = (case cs of
     c # x # r \<Rightarrow> if base = 16 \<and> c = 48 \<and> (x = 120 \<or> x = 88) then (case r of u # r' \<Rightarrow> if u = 95 then r' else r | [] \<Rightarrow> r) else cs
   | _ \<Rightarrow> cs)"

definition py_int :: "nat \<Rightarrow> pystr \<Rightarrow> int option" where
  "py_int base cs = (let (sgn, digits) = py_sign (strip_spaces cs) in
     map_option (\<lambda>n. sgn * int n) (py_digits base 0 True (drop_hex_prefix base digits)))"

definition py_str_int :: "int \<Rightarrow> pystr" where
  "py_str_int i = (if i < 0 then [45] else []) @ py_text (decimal (nat \<bar>i\<bar>))"

section \<open>UUIDs\<close>

definition hex_digit :: "nat \<Rightarrow> nat" where
  "hex_digit d = (if d < 10 then 48 + d else 87 + d)"

primrec hex_digits :: "nat \<Rightarrow> nat \<Rightarrow> pystr" where
  "hex_digits 0 n = []"
| "hex_digits (Suc w) n = hex_digits w (n div 16) @ [hex_digit (n mod 16)]"

definition uuid_str :: "uuid \<Rightarrow> pystr" where
  "uuid_str u = (let h = hex_digits 32 u in
     take 8 h @ [45] @ take 4 (drop 8 h) @ [45] @ take 4 (drop 12 h) @ [45] @ take 4 (drop 16 h) @ [45] @ drop 20 h)"

text \<open>\<open>s.replace(old, "")\<close>; the number is how many characters of a match are still to be skipped.\<close>

fun py_remove :: "pystr \<Rightarrow> nat \<Rightarrow> pystr \<Rightarrow> pystr" where
  "py_remove old k [] = []"
| "py_remove old (Suc k) (c # cs) = py_remove old k cs"
| "py_remove old 0 (c # cs) =
     (if take (length old) (c # cs) = old then py_remove old (length old - 1) cs else c # py_remove old 0 cs)"

definition strip_braces :: "pystr \<Rightarrow> pystr" where
  "strip_braces cs = rev (dropWhile (\<lambda>c. c \<in> {123, 125}) (rev (dropWhile (\<lambda>c. c \<in> {123, 125}) cs)))"

definition uuid_parse :: "pystr \<Rightarrow> uuid option" where
  "uuid_parse cs =
     (let h = filter (\<lambda>c. c \<noteq> 45) (strip_braces (py_remove (py_text ''uuid:'') 0 (py_remove (py_text ''urn:'') 0 cs))) in
      if length h \<noteq> 32 then None
      else (case py_int 16 h of None \<Rightarrow> None | Some i \<Rightarrow> if 0 \<le> i \<and> i < 2 ^ 128 then Some (nat i) else None))"

section \<open>Splitting\<close>

primrec py_split :: "nat \<Rightarrow> nat \<Rightarrow> pystr \<Rightarrow> pystr list" where
  "py_split sep 0 cs = [cs]"
| "py_split sep (Suc n) cs = (case dropWhile (\<lambda>c. c \<noteq> sep) cs of
     [] \<Rightarrow> [cs] | _ # r \<Rightarrow> takeWhile (\<lambda>c. c \<noteq> sep) cs # py_split sep n r)"

section \<open>Round trips\<close>

lemma base64_digits:
  fixes n :: nat
  shows "n div 4096 * 4096 + n div 64 mod 64 * 64 + n mod 64 = n"
    "n div 262144 * 262144 + n div 4096 mod 64 * 4096 + n div 64 mod 64 * 64 + n mod 64 = n"
proof -
  have two: "m div 4096 * 4096 + m div 64 mod 64 * 64 + m mod 64 = m" for m :: nat
  proof -
    have "m div 4096 * 4096 + m div 64 mod 64 * 64 + m mod 64 = (m div 64 div 64 * 64 + m div 64 mod 64) * 64 + m mod 64"
      by (simp add: div_mult2_eq [symmetric] algebra_simps)
    then show ?thesis by (simp only: div_mult_mod_eq)
  qed
  show "n div 4096 * 4096 + n div 64 mod 64 * 64 + n mod 64 = n" by (rule two)
  have "n div 262144 * 262144 + n div 4096 mod 64 * 4096 + n div 64 mod 64 * 64 + n mod 64
      = (n div 64 div 4096 * 4096 + n div 64 div 64 mod 64 * 64 + n div 64 mod 64) * 64 + n mod 64"
    by (simp add: div_mult2_eq [symmetric] algebra_simps)
  then show "n div 262144 * 262144 + n div 4096 mod 64 * 4096 + n div 64 mod 64 * 64 + n mod 64 = n"
    by (simp only: two div_mult_mod_eq)
qed

lemma utf8_decode_char:
  assumes "is_scalar n"
  shows "utf8_decode (utf8_char n @ r) = map_option ((#) n) (utf8_decode r)"
proof -
  consider "n < 128" | "128 \<le> n" "n < 2048" | "2048 \<le> n" "n < 65536" | "65536 \<le> n" "n < 1114112"
    using assms by (force simp: is_scalar_def)
  then show ?thesis
  proof cases
    case 1
    then show ?thesis by (simp add: utf8_char_def utf8_decode.simps(2))
  next
    case 2
    then have "2 \<le> n div 64" "n div 64 < 32" by (auto simp: less_mult_imp_div_less)
    then show ?thesis using 2 by (simp add: utf8_char_def utf8_decode.simps(2) cont_def)
  next
    case 3
    then have "n div 4096 < 16" by (simp add: less_mult_imp_div_less)
    then show ?thesis
      using 3 assms base64_digits(1) [of n] by (simp add: utf8_char_def utf8_decode.simps(2) cont_def Let_def)
  next
    case 4
    then have "n div 262144 < 5" by (simp add: less_mult_imp_div_less)
    then show ?thesis
      using 4 assms base64_digits(2) [of n] by (simp add: utf8_char_def utf8_decode.simps(2) cont_def Let_def)
  qed
qed

lemma utf8_roundtrip: "utf8_encode cs = Some bs \<Longrightarrow> utf8_decode bs = Some cs"
proof -
  have "list_all is_scalar cs \<Longrightarrow> utf8_decode (concat (map utf8_char cs)) = Some cs"
    by (induction cs) (simp_all add: utf8_decode_char)
  then show "utf8_encode cs = Some bs \<Longrightarrow> utf8_decode bs = Some cs"
    by (auto simp: utf8_encode_def split: if_splits)
qed

lemma utf8_bytes:
  assumes "utf8_encode cs = Some bs"
  shows "\<forall>b\<in>set bs. b < 256"
proof -
  have "n div 262144 < 16" if "is_scalar n" for n :: nat
    using that by (auto simp: is_scalar_def less_mult_imp_div_less)
  moreover have "n div 4096 < 16" if "n < 65536" for n :: nat using that by (simp add: less_mult_imp_div_less)
  moreover have "n div 64 < 32" if "n < 2048" for n :: nat using that by (simp add: less_mult_imp_div_less)
  moreover have "n mod 64 < 64" for n :: nat by simp
  ultimately have "\<forall>b\<in>set (utf8_char n). b < 256" if "is_scalar n" for n
    using that unfolding utf8_char_def by (auto simp: add_less_mono)
  then show ?thesis using assms by (fastforce simp: utf8_encode_def list_all_iff split: if_splits)
qed

lemma b64_val_char: "n < 64 \<Longrightarrow> b64_val (b64_char n) = Some n"
  by (auto simp: b64_val_def b64_char_def Let_def)

lemma b64_char_pad: "n < 64 \<Longrightarrow> b64_char n \<noteq> pad"
  using b64_val_char [of n] by (auto simp: b64_val_def)

lemma rstrip_pad_append: "xs \<noteq> [] \<Longrightarrow> last xs \<noteq> pad \<Longrightarrow> rstrip_pad (xs @ ys) = xs @ rstrip_pad ys"
  by (cases xs rule: rev_cases) (auto simp: rstrip_pad_def dropWhile_append)

fun b64_unpadded :: "nat list \<Rightarrow> string" where
  "b64_unpadded [] = []"
| "b64_unpadded [a] = [b64_char (a div 4), b64_char (a mod 4 * 16)]"
| "b64_unpadded [a, b] = [b64_char (a div 4), b64_char (a mod 4 * 16 + b div 16), b64_char (b mod 16 * 4)]"
| "b64_unpadded (a # b # c # r) =
     [b64_char (a div 4), b64_char (a mod 4 * 16 + b div 16), b64_char (b mod 16 * 4 + c div 64), b64_char (c mod 64)]
     @ b64_unpadded r"

lemma b64_bounds:
  fixes a b :: nat
  assumes "a < 256" "b < 256"
  shows "a div 4 < 64" "a mod 4 * 16 < 64" "a mod 4 * 16 + b div 16 < 64" "a mod 16 * 4 < 64" "a mod 16 * 4 + b div 64 < 64"
proof -
  show "a div 4 < 64" using assms by (simp add: less_mult_imp_div_less)
  have "a mod 4 \<le> 3" "b div 16 < 16" "a mod 16 \<le> 15" "b div 64 < 4"
    using assms by (auto simp: less_mult_imp_div_less intro: Suc_leI simp flip: less_Suc_eq_le)
  then show "a mod 4 * 16 < 64" "a mod 4 * 16 + b div 16 < 64" "a mod 16 * 4 < 64" "a mod 16 * 4 + b div 64 < 64"
    by linarith+
qed

lemma rstrip_b64: "\<forall>b\<in>set bs. b < 256 \<Longrightarrow> rstrip_pad (urlsafe_b64encode bs) = b64_unpadded bs"
proof (induction bs rule: b64_unpadded.induct)
  case 1
  then show ?case by (simp add: rstrip_pad_def)
next
  case (2 a)
  then show ?case using b64_bounds [of a a] by (simp add: rstrip_pad_def b64_char_pad)
next
  case (3 a b)
  then show ?case using b64_bounds [of b b] by (simp add: rstrip_pad_def b64_char_pad)
next
  case (4 a b c r)
  let ?xs = "[b64_char (a div 4), b64_char (a mod 4 * 16 + b div 16), b64_char (b mod 16 * 4 + c div 64), b64_char (c mod 64)]"
  have "rstrip_pad (?xs @ urlsafe_b64encode r) = ?xs @ rstrip_pad (urlsafe_b64encode r)"
    by (rule rstrip_pad_append) (auto simp: b64_char_pad)
  with 4 show ?case by simp
qed

lemma a2b_step:
  assumes "v < 64"
  shows "a2b_base64 0 l p (b64_char v # cs) = a2b_base64 1 v 0 cs"
    "a2b_base64 (Suc 0) l p (b64_char v # cs) = map_option ((#) (l * 4 + v div 16)) (a2b_base64 2 (v mod 16) 0 cs)"
    "a2b_base64 2 l p (b64_char v # cs) = map_option ((#) (l * 16 + v div 4)) (a2b_base64 3 (v mod 4) 0 cs)"
    "a2b_base64 3 l p (b64_char v # cs) = map_option ((#) (l * 64 + v)) (a2b_base64 0 0 0 cs)"
  using b64_val_char [OF assms] b64_char_pad [OF assms] by (simp_all add: a2b_base64.simps(2))

lemma a2b_pad:
  "a2b_base64 q l p (pad # cs) = (if q \<ge> 2 \<and> q + Suc p \<ge> 4 then Some [] else a2b_base64 q l (if q \<ge> 2 then Suc p else p) cs)"
  by (simp add: a2b_base64.simps(2))

lemma b64_first: "(a :: nat) < 256 \<Longrightarrow> b < 256 \<Longrightarrow> a div 4 * 4 + (a mod 4 * 16 + b div 16) div 16 = a"
  by (simp add: less_mult_imp_div_less)

lemma b64_second: "(b :: nat) < 256 \<Longrightarrow> c < 256 \<Longrightarrow> (a mod 4 * 16 + b div 16) mod 16 * 16 + (b mod 16 * 4 + c div 64) div 4 = b"
  by (simp add: less_mult_imp_div_less)

lemma b64_third: "(c :: nat) < 256 \<Longrightarrow> (b mod 16 * 4 + c div 64) mod 4 * 64 + c mod 64 = c"
  by (simp add: less_mult_imp_div_less)

lemma b64_padding: "nat ((- int (length (b64_unpadded bs))) mod 4) = (3 - length bs mod 3) mod 3"
proof (induction bs rule: b64_unpadded.induct)
  case (4 a b c r)
  have "(- int (length (b64_unpadded (a # b # c # r)))) mod 4 = (- int (length (b64_unpadded r))) mod 4"
    unfolding b64_unpadded.simps length_append by simp presburger
  moreover have "length (a # b # c # r) mod 3 = length r mod 3" by simp
  ultimately show ?case using 4 by simp
qed simp_all

lemma b64_roundtrip:
  assumes "\<forall>b\<in>set bs. b < 256"
  shows "urlsafe_b64decode (with_padding (rstrip_pad (urlsafe_b64encode bs))) = Some bs"
proof -
  have "a2b_base64 0 l p (b64_unpadded bs @ replicate ((3 - length bs mod 3) mod 3) pad) = Some bs" for l p
    using assms
  proof (induction bs arbitrary: l p rule: b64_unpadded.induct)
    case (2 a)
    have "replicate 2 pad = [pad, pad]" by (simp add: numeral_2_eq_2)
    with 2 show ?case using b64_bounds [of a 0] b64_first [of a 0]
      by (simp add: a2b_step a2b_pad)
  next
    case (3 a b)
    then show ?case using b64_bounds [of a b] b64_bounds [of b 0] b64_first [of a b] b64_second [of b 0 a]
      by (simp add: a2b_step a2b_pad)
  next
    case (4 a b c r)
    have "(3 - length (a # b # c # r) mod 3) mod 3 = (3 - length r mod 3) mod 3" by simp
    then show ?case
      using 4 b64_bounds [of a b] b64_bounds [of b c] b64_first [of a b] b64_second [of b c a] b64_third [of c b]
      by (simp add: a2b_step)
  qed simp
  then show ?thesis
    using assms by (simp add: rstrip_b64 with_padding_def b64_padding urlsafe_b64decode_def)
qed


lemma py_digits_fold:
  assumes "\<forall>c\<in>set cs. c \<noteq> 95 \<and> (\<exists>d<b. digit_val c = Some d)"
  shows "py_digits b a u cs = (if cs = [] \<and> u then None else Some (foldl (\<lambda>a c. a * b + the (digit_val c)) a cs))"
  using assms by (induction cs arbitrary: a u) auto

lemma dropWhile_none: "\<forall>c\<in>set cs. \<not> P c \<Longrightarrow> dropWhile P cs = cs"
  by (cases cs) auto

lemma strip_spaces_id: "\<forall>c\<in>set cs. \<not> py_space c \<Longrightarrow> strip_spaces cs = cs"
  by (simp add: strip_spaces_def dropWhile_none)

lemma decimal_digits: "\<forall>c\<in>set (py_text (decimal n)). 48 \<le> c \<and> c \<le> 57"
proof (induction n rule: decimal.induct)
  case (1 n)
  then show ?case by (subst decimal.simps) (auto simp: py_text_def)
qed

lemma decimal_fold: "foldl (\<lambda>a c. a * 10 + the (digit_val c)) 0 (py_text (decimal n)) = n"
proof (induction n rule: decimal.induct)
  case (1 n)
  have "n mod 10 < 10" by simp
  then show ?case using 1 by (subst decimal.simps) (auto simp: py_text_def digit_val_def)
qed

lemma decimal_not_empty: "py_text (decimal n) \<noteq> []"
  by (subst decimal.simps) (simp add: py_text_def)

lemma digit_not_space: "48 \<le> c \<Longrightarrow> c \<le> 57 \<Longrightarrow> \<not> py_space c"
  by (auto simp: py_space_def)

lemma py_int_roundtrip: "py_int 10 (py_str_int i) = Some i"
proof -
  let ?ds = "py_text (decimal (nat \<bar>i\<bar>))"
  have ds: "\<forall>c\<in>set ?ds. 48 \<le> c \<and> c \<le> 57" by (rule decimal_digits)
  have "py_sign ?ds = (1, ?ds)" using ds decimal_not_empty [of "nat \<bar>i\<bar>"] by (cases ?ds) (auto simp: py_sign_def)
  moreover have "py_digits 10 0 True ?ds = Some (nat \<bar>i\<bar>)"
    using ds decimal_not_empty [of "nat \<bar>i\<bar>"] decimal_fold [of "nat \<bar>i\<bar>"]
    by (subst py_digits_fold) (auto simp: digit_val_def)
  moreover have "drop_hex_prefix 10 cs = cs" for cs by (simp add: drop_hex_prefix_def split: list.splits)
  moreover have "strip_spaces (py_str_int i) = py_str_int i"
    by (rule strip_spaces_id) (use ds digit_not_space in \<open>auto simp: py_str_int_def py_space_def\<close>)
  moreover have "py_sign (45 # cs) = (-1, cs)" for cs by (simp add: py_sign_def)
  ultimately show ?thesis by (cases "i < 0") (simp_all add: py_int_def py_str_int_def)
qed

lemma hex_digits_range: "\<forall>c\<in>set (hex_digits w n). 48 \<le> c \<and> c \<le> 57 \<or> 97 \<le> c \<and> c \<le> 102"
proof (induction w arbitrary: n)
  case (Suc w)
  have "n mod 16 < 16" by simp
  then show ?case using Suc by (auto simp: hex_digit_def)
qed simp

lemma length_hex_digits [simp]: "length (hex_digits w n) = w"
  by (induction w arbitrary: n) auto

lemma hex_digits_fold: "foldl (\<lambda>a c. a * 16 + the (digit_val c)) 0 (hex_digits w n) = n mod 16 ^ w"
proof (induction w arbitrary: n)
  case (Suc w)
  have "the (digit_val (hex_digit (n mod 16))) = n mod 16"
    using mod_less_divisor [of 16 n] by (auto simp: hex_digit_def digit_val_def)
  then show ?case using Suc by (simp add: mod_mult2_eq algebra_simps)
qed simp

lemma py_remove_id: "old \<noteq> [] \<Longrightarrow> hd old \<notin> set cs \<Longrightarrow> py_remove old 0 cs = cs"
proof (induction cs)
  case (Cons c cs)
  then have "take (length old) (c # cs) \<noteq> old" by (cases old) auto
  with Cons show ?case by auto
qed simp

lemma uuid_str_chars: "\<forall>c\<in>set (uuid_str u). c = 45 \<or> 48 \<le> c \<and> c \<le> 57 \<or> 97 \<le> c \<and> c \<le> 102"
proof -
  have "set (uuid_str u) \<subseteq> insert 45 (set (hex_digits 32 u))"
    by (auto simp: uuid_str_def Let_def dest: in_set_takeD in_set_dropD)
  then show ?thesis using hex_digits_range [of 32 u] by auto
qed

lemma uuid_str_filter: "filter (\<lambda>c. c \<noteq> 45) (uuid_str u) = hex_digits 32 u"
proof -
  let ?h = "hex_digits 32 u"
  have no: "filter (\<lambda>c. c \<noteq> 45) cs = cs" if "set cs \<subseteq> set ?h" for cs
    using that hex_digits_range [of 32 u] by (intro filter_True) fastforce
  have "filter (\<lambda>c. c \<noteq> 45) (uuid_str u) = take 8 ?h @ take 4 (drop 8 ?h) @ take 4 (drop 12 ?h) @ take 4 (drop 16 ?h) @ drop 20 ?h"
    by (simp add: uuid_str_def Let_def no set_take_subset set_drop_subset subset_trans [OF set_take_subset set_drop_subset])
  also have "\<dots> = ?h"
    using append_take_drop_id [of 8 ?h] append_take_drop_id [of 4 "drop 8 ?h"] append_take_drop_id [of 4 "drop 12 ?h"]
      append_take_drop_id [of 4 "drop 16 ?h"] by simp
  finally show ?thesis .
qed

lemma uuid_roundtrip:
  assumes "u < 2 ^ 128"
  shows "uuid_parse (uuid_str u) = Some u"
proof -
  let ?h = "hex_digits 32 u"
  have chars: "\<forall>c\<in>set (uuid_str u). c = 45 \<or> 48 \<le> c \<and> c \<le> 57 \<or> 97 \<le> c \<and> c \<le> 102" by (rule uuid_str_chars)
  have "py_remove (py_text ''urn:'') 0 (uuid_str u) = uuid_str u" "py_remove (py_text ''uuid:'') 0 (uuid_str u) = uuid_str u"
    using chars by (auto intro!: py_remove_id simp: py_text_def)
  moreover have "strip_braces (uuid_str u) = uuid_str u"
    unfolding strip_braces_def using chars
    by (subst (1 2) dropWhile_none) (auto dest!: bspec)
  moreover have "py_int 16 ?h = Some (int u)"
  proof -
    have r: "\<forall>c\<in>set ?h. 48 \<le> c \<and> c \<le> 57 \<or> 97 \<le> c \<and> c \<le> 102" by (rule hex_digits_range)
    then have "strip_spaces ?h = ?h" by (intro strip_spaces_id) (auto simp: py_space_def)
    moreover have "py_sign ?h = (1, ?h)" using r length_hex_digits [of 32 u] by (cases ?h) (auto simp: py_sign_def)
    moreover have "drop_hex_prefix 16 ?h = ?h"
      using r by (auto simp: drop_hex_prefix_def split: list.splits)
    moreover have "py_digits 16 0 True ?h = Some u"
    proof -
      have "?h \<noteq> []" using length_hex_digits [of 32 u] by fastforce
      moreover have "u mod 16 ^ 32 = u" using assms by simp
      ultimately show ?thesis using r hex_digits_fold [of 32 u] by (subst py_digits_fold) (auto simp: digit_val_def)
    qed
    ultimately show ?thesis by (simp add: py_int_def)
  qed
  ultimately show ?thesis using assms by (simp add: uuid_parse_def uuid_str_filter of_nat_less_iff [of u "2 ^ 128", where ?'a = int, simplified])
qed

lemma py_split_first: "sep \<notin> set xs \<Longrightarrow> py_split sep (Suc n) (xs @ sep # r) = xs # py_split sep n r"
  by (induction xs) (auto simp: dropWhile_append takeWhile_append split: list.splits)

end
