(* ===== verification/Auth.thy ===== *)
theory Auth
  imports UserService Codec
begin

text \<open>
  Who a request comes from: \<open>AuthService\<close> (\<open>src/modules/auth/services.py\<close>), the access tokens of
  \<open>src/core/security/jwt.py\<close> and the dependencies of the routes (\<open>src/modules/auth/dependencies.py\<close>).
  The libraries are arguments: \<open>verify\<close> is the password check of \<open>pwdlib\<close> (\<open>None\<close> when it does not know the
  hash), \<open>encode\<close> and \<open>decode\<close> are those of \<open>PyJWT\<close> under the application's key. The \<open>jti\<close> of a token is random
  and an argument too.
\<close>

section \<open>Tokens\<close>

record claims =
  clm_sub :: "pystr option"
  clm_scopes :: "string list option"
  clm_exp :: timestamp
  clm_iat :: timestamp
  clm_jti :: uuid

datatype jwt_error = ExpiredSignatureError | InvalidTokenError

definition minutes :: "int \<Rightarrow> int" where
  "minutes m = m * 60 * 1000000"

text \<open>A delta of zero is falsy, as no delta.\<close>

definition create_access_token ::
  "(claims \<Rightarrow> 't) \<Rightarrow> int \<Rightarrow> timestamp \<Rightarrow> uuid \<Rightarrow> pystr \<Rightarrow> string list \<Rightarrow> int option \<Rightarrow> 't" where
  "create_access_token encode expire_minutes now jti sub scopes expires_delta =
     (let expire = (case expires_delta of
          Some d \<Rightarrow> if d = 0 then now + minutes expire_minutes else now + d
        | None \<Rightarrow> now + minutes expire_minutes)
      in encode \<lparr>clm_sub = Some sub, clm_scopes = Some scopes, clm_exp = expire, clm_iat = now, clm_jti = jti\<rparr>)"

definition decode_access_token ::
  "(timestamp \<Rightarrow> 't \<Rightarrow> jwt_error + claims) \<Rightarrow> timestamp \<Rightarrow> 't \<Rightarrow> app_error + claims" where
  "decode_access_token decode now token = (case decode now token of
     Inr c \<Rightarrow> Inr c
   | Inl ExpiredSignatureError \<Rightarrow> Inl (HttpErr (UnauthorizedError ''TOKEN_EXPIRED''))
   | Inl InvalidTokenError \<Rightarrow> Inl (HttpErr (UnauthorizedError ''INVALID_TOKEN'')))"

section \<open>Logging in\<close>

definition CLIENT_ROLES :: "role list" where
  "CLIENT_ROLES = [R_CLIENT_B2B, R_CLIENT_B2C]"

abbreviation invalid_credentials :: app_error where
  "invalid_credentials \<equiv> HttpErr (UnauthorizedError ''INVALID_CREDENTIALS'')"

definition authenticate_local_user ::
  "(string \<Rightarrow> string \<Rightarrow> bool option) \<Rightarrow> string \<Rightarrow> string \<Rightarrow> db \<Rightarrow> app_error + user_row" where
  "authenticate_local_user verify phone password s = (case get_user_local_identity phone s of
     None \<Rightarrow> Inl invalid_credentials
   | Some (user, identity) \<Rightarrow> (case idn_password_hash identity of
       None \<Rightarrow> Inl invalid_credentials
     | Some h \<Rightarrow>
         if h = [] \<or> verify password h \<noteq> Some True then Inl invalid_credentials else Inr user))"

definition build_token_response :: "(claims \<Rightarrow> 't) \<Rightarrow> int \<Rightarrow> uuid \<Rightarrow> user_row \<Rightarrow> db \<Rightarrow> 't" where
  "build_token_response encode expire_minutes jti user s =
     create_access_token encode expire_minutes (clock s) jti (uuid_str (row_id user)) (ROLE_SCOPES (usr_role user)) None"

definition local_login ::
  "(string \<Rightarrow> string \<Rightarrow> bool option) \<Rightarrow> (claims \<Rightarrow> 't) \<Rightarrow> int \<Rightarrow> uuid \<Rightarrow> string \<Rightarrow> string \<Rightarrow> db \<Rightarrow> app_error + 't" where
  "local_login verify encode expire_minutes jti phone password s =
     (case authenticate_local_user verify phone password s of
        Inl e \<Rightarrow> Inl e
      | Inr user \<Rightarrow>
          if usr_role user \<notin> set STAFF_ROLES then Inl (HttpErr (ForbiddenError ''STAFF_LOGIN_ONLY''))
          else Inr (build_token_response encode expire_minutes jti user s))"

definition courier_login ::
  "(string \<Rightarrow> string \<Rightarrow> bool option) \<Rightarrow> (claims \<Rightarrow> 't) \<Rightarrow> int \<Rightarrow> uuid \<Rightarrow> string \<Rightarrow> string \<Rightarrow> db \<Rightarrow> app_error + 't" where
  "courier_login verify encode expire_minutes jti phone password s =
     (case authenticate_local_user verify phone password s of
        Inl e \<Rightarrow> Inl e
      | Inr user \<Rightarrow>
          if usr_role user \<noteq> R_COURIER then Inl (HttpErr (ForbiddenError ''COURIER_LOGIN_ONLY''))
          else Inr (build_token_response encode expire_minutes jti user s))"

definition client_login ::
  "(string \<Rightarrow> string \<Rightarrow> bool option) \<Rightarrow> (claims \<Rightarrow> 't) \<Rightarrow> int \<Rightarrow> uuid \<Rightarrow> string \<Rightarrow> string \<Rightarrow> db \<Rightarrow> app_error + 't" where
  "client_login verify encode expire_minutes jti phone password s =
     (case authenticate_local_user verify phone password s of
        Inl e \<Rightarrow> Inl e
      | Inr user \<Rightarrow>
          if row_id user = WALKIN_USER_ID then Inl (HttpErr (ForbiddenError ''WALKIN_LOGIN_FORBIDDEN''))
          else if usr_role user \<notin> set CLIENT_ROLES then Inl (HttpErr (ForbiddenError ''CLIENT_LOGIN_ONLY''))
          else Inr (build_token_response encode expire_minutes jti user s))"

section \<open>The user of a request\<close>

definition get_token_payload ::
  "(timestamp \<Rightarrow> 't \<Rightarrow> jwt_error + claims) \<Rightarrow> timestamp \<Rightarrow> string list \<Rightarrow> 't \<Rightarrow> app_error + claims" where
  "get_token_payload decode now required token = (case decode_access_token decode now token of
     Inl e \<Rightarrow> Inl e
   | Inr c \<Rightarrow>
       if clm_sub c = None \<or> clm_sub c = Some [] then Inl (HttpErr (UnauthorizedError ''INVALID_TOKEN_PAYLOAD''))
       else if list_ex (\<lambda>sc. sc \<notin> set (case clm_scopes c of None \<Rightarrow> [] | Some scs \<Rightarrow> scs)) required
       then Inl (HttpErr (ForbiddenError ''INSUFFICIENT_PERMISSIONS''))
       else Inr c)"

definition get_current_user ::
  "(timestamp \<Rightarrow> 't \<Rightarrow> jwt_error + claims) \<Rightarrow> string list \<Rightarrow> 't \<Rightarrow> db \<Rightarrow> app_error + user_row" where
  "get_current_user decode required token s = (case get_token_payload decode (clock s) required token of
     Inl e \<Rightarrow> Inl e
   | Inr c \<Rightarrow> (case uuid_parse (the (clm_sub c)) of
       None \<Rightarrow> Inl (HttpErr (UnauthorizedError ''INVALID_USER_ID''))
     | Some i \<Rightarrow> (case tbl_get i True (users s) of
         None \<Rightarrow> Inl (HttpErr (UnauthorizedError ''USER_NOT_FOUND''))
       | Some user \<Rightarrow> if \<not> is_active user then Inl (HttpErr (ForbiddenError ''USER_BANNED'')) else Inr user)))"

definition get_caller_scopes :: "claims \<Rightarrow> string list" where
  "get_caller_scopes c = (case clm_scopes c of None \<Rightarrow> [] | Some scs \<Rightarrow> scs)"

definition get_current_courier ::
  "(timestamp \<Rightarrow> 't \<Rightarrow> jwt_error + claims) \<Rightarrow> string list \<Rightarrow> 't \<Rightarrow> db \<Rightarrow> app_error + user_row" where
  "get_current_courier decode required token s = (case get_current_user decode required token s of
     Inl e \<Rightarrow> Inl e
   | Inr user \<Rightarrow> if usr_role user \<noteq> R_COURIER then Inl (HttpErr (ForbiddenError ''COURIER_ONLY'')) else Inr user)"

section \<open>Properties\<close>

lemma get_with_identity_SomeD:
  "get_with_identity pr i s = Some (u, r) \<Longrightarrow> u \<in> set (users s) \<and> is_active u \<and> row_id u = idn_user_id r
     \<and> r \<in> set (identities s) \<and> idn_provider r = pr \<and> idn_provider_identity_id r = i"
proof -
  assume "get_with_identity pr i s = Some (u, r)"
  then have "(u, r) \<in> set [(u, r). r \<leftarrow> identities s, idn_provider r = pr \<and> idn_provider_identity_id r = i,
      u \<leftarrow> users s, row_id u = idn_user_id r \<and> is_active u]"
    unfolding get_with_identity_def limit_1_def by (auto split: list.splits simp del: set_concat)
  then show ?thesis by auto
qed

lemma authenticate_local_userD:
  assumes "authenticate_local_user verify phone password s = Inr u"
  obtains r h where "u \<in> set (users s)" "is_active u" "r \<in> set (identities s)" "idn_user_id r = row_id u"
    "idn_provider r = AP_LOCAL" "idn_provider_identity_id r = phone" "idn_password_hash r = Some h" "verify password h = Some True"
  using assms get_with_identity_SomeD [of AP_LOCAL phone s]
  by (fastforce simp: authenticate_local_user_def get_user_local_identity_def split: option.splits prod.splits if_splits)

text \<open>What a token that was just issued opens, until it expires and while the users are the same.\<close>

lemma token_identifies:
  assumes jwt: "\<And>now c. now < clm_exp c \<Longrightarrow> decode now (encode c) = Inr c"
    and u: "keys_distinct (users s')" "u \<in> set (users s')" "is_active u" "row_id u < 2 ^ 128"
    and fresh: "clock s' < clock s + minutes expire_minutes"
  shows "get_current_user decode required (build_token_response encode expire_minutes jti u s) s' =
    (if set required \<subseteq> set (ROLE_SCOPES (usr_role u)) then Inr u
     else Inl (HttpErr (ForbiddenError ''INSUFFICIENT_PERMISSIONS'')))"
proof -
  have get: "tbl_get (row_id u) True (users s') = Some u" using tbl_get_key [OF u(1,2)] u(3) by simp
  have sub: "uuid_parse (uuid_str (row_id u)) = Some (row_id u)" "uuid_str (row_id u) \<noteq> []"
    using uuid_roundtrip u(4) by (auto simp: uuid_str_def Let_def)
  show ?thesis
    using get sub u(3) fresh
    by (auto simp: get_current_user_def get_token_payload_def decode_access_token_def build_token_response_def
        create_access_token_def Let_def jwt list_ex_iff)
qed

text \<open>The sample database with an identity of its administrator, and a stand-in for the libraries.\<close>

definition sample_auth_db :: db where
  "sample_auth_db = sample_db\<lparr>identities :=
     [\<lparr>row_id = 95, is_active = True, created_at = 0, updated_at = 0, idn_user_id = 3, idn_provider = AP_LOCAL,
       idn_provider_identity_id = ''998'', idn_password_hash = Some ''secret''\<rparr>]\<rparr>"

definition sample_decode :: "timestamp \<Rightarrow> claims \<Rightarrow> jwt_error + claims" where
  "sample_decode now c = (if now < clm_exp c then Inr c else Inl ExpiredSignatureError)"

text \<open>
  C29. What a login gives is what the role allows: a password login of the staff succeeds only for an active staff
  member whose stored hash the password verifies against, and until it expires the token that comes back
  identifies this user on exactly those routes whose scopes are all among the scopes of the role; the others
  answer \<open>INSUFFICIENT_PERMISSIONS\<close> (403). The hypothesis on \<open>PyJWT\<close> is that a token decodes to what was encoded while it has not
  expired.
\<close>

theorem login_gives_role_scopes:
  assumes jwt: "\<And>now c. now < clm_exp c \<Longrightarrow> decode now (encode c) = Inr c"
    and login: "local_login verify encode expire_minutes jti phone password s = Inr token"
    and ids: "keys_distinct (users s)" "\<forall>u\<in>set (users s). row_id u < 2 ^ 128"
    and later: "users s' = users s" "clock s' < clock s + minutes expire_minutes"
  shows "\<exists>u r h. u \<in> set (users s) \<and> is_active u \<and> usr_role u \<in> set STAFF_ROLES
    \<and> r \<in> set (identities s) \<and> idn_user_id r = row_id u \<and> idn_provider_identity_id r = phone
    \<and> idn_password_hash r = Some h \<and> verify password h = Some True
    \<and> (\<forall>required. get_current_user decode required token s' =
        (if set required \<subseteq> set (ROLE_SCOPES (usr_role u)) then Inr u
         else Inl (HttpErr (ForbiddenError ''INSUFFICIENT_PERMISSIONS''))))"
proof -
  obtain u where auth: "authenticate_local_user verify phone password s = Inr u" and staff: "usr_role u \<in> set STAFF_ROLES"
    and token: "token = build_token_response encode expire_minutes jti u s"
    using login by (auto simp: local_login_def split: sum.splits if_splits)
  obtain r h where u: "u \<in> set (users s)" "is_active u" "r \<in> set (identities s)" "idn_user_id r = row_id u"
      "idn_provider_identity_id r = phone" "idn_password_hash r = Some h" "verify password h = Some True"
    using authenticate_local_userD [OF auth] by metis
  have "get_current_user decode required token s' = (if set required \<subseteq> set (ROLE_SCOPES (usr_role u)) then Inr u
         else Inl (HttpErr (ForbiddenError ''INSUFFICIENT_PERMISSIONS'')))" for required
    unfolding token by (rule token_identifies) (use jwt ids u later in auto)
  with u staff show ?thesis by blast
qed

theorem login_gives_role_scopes_witness:
  "\<exists>token. local_login (\<lambda>p h. Some (p = h)) (\<lambda>c. c) 30 9 ''998'' ''secret'' sample_auth_db = Inr token
     \<and> map_sum id row_id (get_current_user sample_decode [USERS_WRITE] token sample_auth_db) = Inr 3"
proof -
  have "\<not> isl (local_login (\<lambda>p h. Some (p = h)) (\<lambda>c. c) 30 9 ''998'' ''secret'' sample_auth_db)" by code_simp
  then obtain token where run: "local_login (\<lambda>p h. Some (p = h)) (\<lambda>c. c) 30 9 ''998'' ''secret'' sample_auth_db = Inr token"
    by (metis sum.collapse(2))
  have ids: "keys_distinct (users sample_auth_db)" "\<forall>u\<in>set (users sample_auth_db). row_id u < 2 ^ 128"
    by (simp_all add: keys_distinct_def sample_auth_db_def sample_defs sample_rows)
  have "\<forall>u\<in>set (users sample_auth_db). \<forall>r\<in>set (identities sample_auth_db). idn_user_id r = row_id u
      \<longrightarrow> row_id u = 3 \<and> USERS_WRITE \<in> set (ROLE_SCOPES (usr_role u))" by code_simp
  moreover have later: "clock sample_auth_db < clock sample_auth_db + minutes 30" by (simp add: minutes_def)
  have jwt: "now < clm_exp c \<Longrightarrow> sample_decode now c = Inr c" for now c by (simp add: sample_decode_def)
  obtain u r where "u \<in> set (users sample_auth_db)" "r \<in> set (identities sample_auth_db)" "idn_user_id r = row_id u"
      "get_current_user sample_decode [USERS_WRITE] token sample_auth_db =
        (if set [USERS_WRITE] \<subseteq> set (ROLE_SCOPES (usr_role u)) then Inr u
         else Inl (HttpErr (ForbiddenError ''INSUFFICIENT_PERMISSIONS'')))"
    using login_gives_role_scopes [where decode = sample_decode, OF jwt run ids refl later] by blast
  ultimately have "map_sum id row_id (get_current_user sample_decode [USERS_WRITE] token sample_auth_db) = Inr 3" by (simp, blast)
  with run show ?thesis by blast
qed

text \<open>
  C30. Blocking a user takes effect at once: after \<open>archive\<close> no token that names the user is accepted on any route, however it was
  obtained, and no phone of theirs logs in, on any of the three entrances. The answers are 401;
  \<open>USER_BANNED\<close> is never given, since only active users are looked up.
\<close>

theorem blocked_user_locked_out:
  assumes "archive_user i s = (Inr True, s')" and "keys_distinct (users s)"
    and "decode (clock s') token = Inr c" and "clm_sub c = Some sub" and "uuid_parse sub = Some i"
    and "\<forall>r\<in>set (identities s). idn_provider r = AP_LOCAL \<and> idn_provider_identity_id r = phone \<longrightarrow> idn_user_id r = i"
  shows "isl (get_current_user decode required token s')
    \<and> (set required \<subseteq> set (get_caller_scopes c) \<and> sub \<noteq> []
        \<longrightarrow> get_current_user decode required token s' = Inl (HttpErr (UnauthorizedError ''USER_NOT_FOUND'')))
    \<and> local_login verify encode m jti phone password s' = Inl invalid_credentials
    \<and> courier_login verify encode m jti phone password s' = Inl invalid_credentials
    \<and> client_login verify encode m jti phone password s' = Inl invalid_credentials
    \<and> error_response invalid_credentials = (401, ''INVALID_CREDENTIALS'')"
proof -
  have s': "users s' = tbl_update (clock s) i (\<lambda>u. u\<lparr>is_active := False\<rparr>) (users s)" "identities s' = identities s"
    using assms(1) by (auto simp: archive_user_def archive_user_body_def repo_archive_user_def tx_iff split: option.splits)
  have inactive: "\<not> is_active u" if mem: "u \<in> set (users s')" "row_id u = i" for u
  proof -
    obtain r where "u = (if row_id r = i then r\<lparr>is_active := False, updated_at := clock s\<rparr> else r)"
      using mem(1) unfolding s'(1) tbl_update_def set_map by (elim imageE) (rule that)
    with mem(2) show ?thesis by (cases "row_id r = i") simp_all
  qed
  then have none: "tbl_get i True (users s') = None" by (auto simp: tbl_get_def find_None_all)
  have "get_with_identity AP_LOCAL phone s' = None"
  proof (cases "get_with_identity AP_LOCAL phone s'")
    case (Some p)
    then obtain u r where p: "get_with_identity AP_LOCAL phone s' = Some (u, r)" by (cases p) auto
    from get_with_identity_SomeD [OF p] assms(6) inactive show ?thesis by (auto simp: s'(2))
  qed simp
  then have auth: "authenticate_local_user verify phone password s' = Inl invalid_credentials"
    by (simp add: authenticate_local_user_def get_user_local_identity_def)
  have "get_current_user decode required token s' = Inl (HttpErr (UnauthorizedError ''USER_NOT_FOUND''))"
    if "set required \<subseteq> set (get_caller_scopes c)" "sub \<noteq> []"
    using that none assms(3-5)
    by (auto simp: get_current_user_def get_token_payload_def decode_access_token_def get_caller_scopes_def list_ex_iff)
  moreover have "isl (get_current_user decode required token s')"
    using none assms(3-5) by (auto simp: get_current_user_def get_token_payload_def decode_access_token_def)
  ultimately show ?thesis
    using auth by (simp add: local_login_def courier_login_def client_login_def http_response_def)
qed

theorem blocked_user_locked_out_witness:
  "\<exists>s' c. archive_user 3 sample_auth_db = (Inr True, s') \<and> sample_decode (clock s') c = Inr c
     \<and> get_current_user sample_decode [USERS_WRITE] c s' = Inl (HttpErr (UnauthorizedError ''USER_NOT_FOUND''))
     \<and> local_login (\<lambda>p h. Some (p = h)) (\<lambda>c. c) 30 9 ''998'' ''secret'' s' = Inl invalid_credentials"
proof -
  let ?c = "\<lparr>clm_sub = Some (uuid_str 3), clm_scopes = Some [USERS_WRITE], clm_exp = now0 + 1, clm_iat = 0, clm_jti = 9\<rparr>"
  have "fst (archive_user 3 sample_auth_db) = Inr True" by code_simp
  then obtain s' where run: "archive_user 3 sample_auth_db = (Inr True, s')" by (metis prod.collapse)
  have "clock (snd (archive_user 3 sample_auth_db)) = now0" by code_simp
  then have dec: "sample_decode (clock s') ?c = Inr ?c" by (simp add: run sample_decode_def)
  have facts: "keys_distinct (users sample_auth_db)"
      "\<forall>r\<in>set (identities sample_auth_db). idn_provider r = AP_LOCAL \<and> idn_provider_identity_id r = ''998'' \<longrightarrow> idn_user_id r = 3"
    by (simp_all add: keys_distinct_def sample_auth_db_def sample_defs sample_rows)
  have "uuid_parse (uuid_str 3) = Some 3" "uuid_str 3 \<noteq> []" by (rule uuid_roundtrip) (simp_all add: uuid_str_def Let_def)
  from blocked_user_locked_out [where decode = sample_decode and token = ?c, OF run facts(1) dec _ this(1) facts(2), of "[USERS_WRITE]" "\<lambda>p h. Some (p = h)" "\<lambda>c. c" 30 9 "''secret''"] this(2)
  have "get_current_user sample_decode [USERS_WRITE] ?c s' = Inl (HttpErr (UnauthorizedError ''USER_NOT_FOUND''))"
    "local_login (\<lambda>p h. Some (p = h)) (\<lambda>c. c) 30 9 ''998'' ''secret'' s' = Inl invalid_credentials"
    by (simp_all add: get_caller_scopes_def)
  with run dec show ?thesis by blast
qed

end
