(* ===== verification/Onboarding.thy ===== *)
theory Onboarding
  imports UserService OrderTables ContractTables
begin

text \<open>
  The application services that create users together with what they own: \<open>ClientService\<close>
  (\<open>src/application/client/service.py\<close>) and \<open>CourierService\<close>
  (\<open>src/application/courier/service.py\<close>). Each reads the card of the new user back after its commit.
\<close>

section \<open>Clients\<close>

record client_card =
  clc_user :: user_row
  clc_phone :: string
  clc_additional_phones :: "phone_row list"
  clc_account :: "account_row option"
  clc_inventories :: "inventory_row list"
  clc_orders :: "order_row list"
  clc_contracts :: "contract_row list"

definition get_active_user :: "uuid \<Rightarrow> db \<Rightarrow> user_row option" where
  "get_active_user i s = tbl_get i True (users s)"

text \<open>
  \<open>ClientService.get_client\<close>: an active user with a client's role, the local identity, which must
  exist, the account, the phones and the first hundred contracts.
\<close>

definition client_card_of :: "uuid \<Rightarrow> client_card dbtx" where
  "client_card_of client_id =
     tx_bind (tx_get (get_client_by_id client_id)) (\<lambda>client.
     tx_bind (tx_require client (ClientErr (ClientNotFoundError client_id))) (\<lambda>client.
     tx_bind (get_local_by_user client_id) (\<lambda>identity.
     tx_bind (tx_get (get_client_account client_id)) (\<lambda>account.
     tx_bind (tx_get (\<lambda>s. tbl_get_multi 0 100 True (\<lambda>c. con_client_id c = client_id) (contracts s))) (\<lambda>cs.
     tx_bind (tx_get (phones_of_user client_id)) (\<lambda>phones.
     tx_get (\<lambda>s. \<lparr>clc_user = client, clc_phone = idn_provider_identity_id identity,
       clc_additional_phones = phones, clc_account = account,
       clc_inventories = filter (\<lambda>v. inv_user_id v = client_id) (inventories s),
       clc_orders = sort_key (\<lambda>r. - created_at r) (filter (\<lambda>r. ord_client_id r = client_id) (orders s)),
       clc_contracts = cs\<rparr>)))))))"

definition read_only :: "'a dbtx \<Rightarrow> db \<Rightarrow> app_error + 'a" where
  "read_only m s = (case m s of Inl e \<Rightarrow> Inl e | Inr (x, _) \<Rightarrow> Inr x)"

definition get_client_card :: "uuid \<Rightarrow> db \<Rightarrow> app_error + client_card" where
  "get_client_card client_id = read_only (client_card_of client_id)"

record client_create =
  clr_username :: string
  clr_phone :: "string option"
  clr_role :: role
  clr_address_name :: "string option"

text \<open>\<open>ClientRole\<close> has two members, and \<open>_b2c_requires_phone\<close> validates the request.\<close>

definition client_request_ok :: "role \<Rightarrow> string option \<Rightarrow> bool" where
  "client_request_ok r phone \<longleftrightarrow> r \<in> {R_CLIENT_B2C, R_CLIENT_B2B}
     \<and> phone \<noteq> Some [] \<and> (r = R_CLIENT_B2C \<longrightarrow> phone \<noteq> None)"

definition client_phone_free :: "string option \<Rightarrow> unit dbtx" where
  "client_phone_free phone = (case phone of
     None \<Rightarrow> tx_ret ()
   | Some p \<Rightarrow>
       tx_bind (tx_get (get_local_by_id p)) (\<lambda>existing_identity.
       tx_raise_if (existing_identity \<noteq> None) (ClientErr (ClientAlreadyExistsError p))))"

text \<open>The user, the identity if there is a phone, and the account: the same in both methods.\<close>

definition new_client :: "string \<Rightarrow> role \<Rightarrow> string option \<Rightarrow> user_row dbtx" where
  "new_client username r phone =
     tx_bind (client_phone_free phone) (\<lambda>_.
     tx_bind (insert_user (user_draft username r)) (\<lambda>client.
     tx_bind (case phone of None \<Rightarrow> tx_ret ()
       | Some p \<Rightarrow> tx_bind (add_local (row_id client) p None) (\<lambda>_. tx_ret ())) (\<lambda>_.
     tx_bind (create_client_account (row_id client) username) (\<lambda>_.
     tx_ret client))))"

definition create_client_body :: "client_create \<Rightarrow> uuid dbtx" where
  "create_client_body dto =
     tx_bind (new_client (clr_username dto) (clr_role dto) (clr_phone dto)) (\<lambda>client.
     tx_bind (case clr_address_name dto of
         None \<Rightarrow> tx_ret ()
       | Some nm \<Rightarrow> tx_when (nm \<noteq> []) (tx_bind (create_client_inventory (row_id client) nm) (\<lambda>_. tx_ret ()))) (\<lambda>_.
     tx_ret (row_id client)))"

definition create_client where
  "create_client dto = commit_then (create_client_body dto) get_client_card"

definition add_client_address_body :: "uuid \<Rightarrow> string \<Rightarrow> uuid dbtx" where
  "add_client_address_body client_id nm =
     tx_bind (tx_get (get_active_user client_id)) (\<lambda>client.
     tx_bind (tx_require client (ClientErr (ClientNotFoundError client_id))) (\<lambda>client.
     tx_bind (insert_inventory (inventory_draft (row_id client) IT_CLIENT nm)) (\<lambda>_.
     tx_ret client_id)))"

definition add_client_address where
  "add_client_address client_id nm = commit_then (add_client_address_body client_id nm) get_client_card"

record onboarding_order =
  obo_items :: "item list"
  obo_payment_method :: payment_method

record client_onboarding_request =
  obr_username :: string
  obr_phone :: "string option"
  obr_address_name :: string
  obr_role :: role
  obr_initial_balance_product_id :: "uuid option"
  obr_initial_balance_quantity :: int
  obr_order :: "onboarding_order option"

definition catalog_price :: "product_row list \<Rightarrow> uuid \<Rightarrow> int" where
  "catalog_price prods p = (case find (\<lambda>r. row_id r = p) prods of Some r \<Rightarrow> prd_price r | None \<Rightarrow> 0)"

text \<open>The first order: an order of the catalog's prices, without a contract and without a log entry.\<close>

definition first_order :: "uuid \<Rightarrow> uuid \<Rightarrow> onboarding_order \<Rightarrow> unit dbtx" where
  "first_order client_id inventory_id dto =
     (let items = obo_items dto; product_ids = map fst items in
      tx_bind (tx_get (get_by_ids product_ids)) (\<lambda>prods.
      let missing_ids = filter (\<lambda>p. p \<notin> set (map row_id prods)) product_ids in
      tx_bind (tx_raise_if (missing_ids \<noteq> []) (OrderErr (ProductsUnavailableError missing_ids))) (\<lambda>_.
      tx_bind (insert_order (order_draft client_id inventory_id (obo_payment_method dto) OS_NEW
        (sum_list (map (\<lambda>it. catalog_price prods (fst it) * snd it) items)) False SALE_DELIVERY None None False None)) (\<lambda>ord.
      add_order_items (map (\<lambda>it. order_item_draft (row_id ord) it (catalog_price prods (fst it))) items)))))"

definition onboard_client_with_balance_body :: "client_onboarding_request \<Rightarrow> uuid \<Rightarrow> uuid dbtx" where
  "onboard_client_with_balance_body dto creator_id =
     tx_bind (new_client (obr_username dto) (obr_role dto) (obr_phone dto)) (\<lambda>client.
     tx_bind (create_client_inventory (row_id client) (obr_address_name dto)) (\<lambda>client_inventory.
     tx_bind (case obr_initial_balance_product_id dto of
         None \<Rightarrow> tx_ret ()
       | Some p \<Rightarrow> tx_when (obr_initial_balance_quantity dto > 0)
           (initial_balance (row_id client_inventory) (p, obr_initial_balance_quantity dto) creator_id)) (\<lambda>_.
     tx_bind (case obr_order dto of
         None \<Rightarrow> tx_ret ()
       | Some ord \<Rightarrow> first_order (row_id client) (row_id client_inventory) ord) (\<lambda>_.
     tx_ret (row_id client)))))"

definition onboard_client_with_balance where
  "onboard_client_with_balance dto creator_id =
     commit_then (onboard_client_with_balance_body dto creator_id) get_client_card"

record client_entry =
  cle_id :: uuid
  cle_username :: string
  cle_role :: role
  cle_phone :: "string option"
  cle_additional_phones :: "phone_row list"
  cle_is_active :: bool
  cle_orders :: nat
  cle_created_at :: timestamp

definition get_clients ::
  "(char \<Rightarrow> char) \<Rightarrow> nat \<Rightarrow> nat \<Rightarrow> string option \<Rightarrow> db \<Rightarrow> nat \<times> client_entry list" where
  "get_clients lower skip limit search s =
     (let (n, us) = get_clients_with_details lower skip limit search s in
      (n, map (\<lambda>u. \<lparr>cle_id = row_id u, cle_username = usr_username u, cle_role = usr_role u,
        cle_phone = map_option idn_provider_identity_id (find (\<lambda>r. idn_user_id r = row_id u) (identities s)),
        cle_additional_phones = filter (\<lambda>r. phn_user_id r = row_id u) (phone_numbers s),
        cle_is_active = is_active u,
        cle_orders = length (filter (\<lambda>r. ord_client_id r = row_id u) (orders s)),
        cle_created_at = created_at u\<rparr>) us))"

section \<open>Couriers\<close>

record courier_card =
  crc_user :: user_row
  crc_phone :: string
  crc_additional_phones :: "phone_row list"
  crc_account :: "account_row option"
  crc_inventory :: "inventory_row option"
  crc_orders :: "order_row list"

definition courier_card_of :: "uuid \<Rightarrow> courier_card dbtx" where
  "courier_card_of courier_id =
     tx_bind (tx_get (get_courier courier_id)) (\<lambda>courier.
     tx_bind (tx_require courier (CourierErr (CourierNotFoundError courier_id))) (\<lambda>courier.
     tx_bind (get_local_by_user (row_id courier)) (\<lambda>identity.
     tx_bind (tx_get (get_courier_account (row_id courier))) (\<lambda>account.
     tx_bind (get_courier_inventory courier_id) (\<lambda>inventory.
     tx_bind (tx_get (phones_of_user (row_id courier))) (\<lambda>phones.
     tx_get (\<lambda>s. \<lparr>crc_user = courier, crc_phone = idn_provider_identity_id identity,
       crc_additional_phones = phones, crc_account = account, crc_inventory = inventory,
       crc_orders = sort_key (\<lambda>r. - created_at r)
         (filter (\<lambda>r. ord_courier_id r = Some (row_id courier)) (orders s))\<rparr>)))))))"

definition get_courier_card :: "uuid \<Rightarrow> db \<Rightarrow> app_error + courier_card" where
  "get_courier_card courier_id = read_only (courier_card_of courier_id)"

fun courier_exists_error :: "string \<Rightarrow> app_error \<Rightarrow> app_error" where
  "courier_exists_error phone (DbErr (UniqueViolation n)) =
     (if n = ''uq_identities_provider_identity_id'' then CourierErr (CourierAlreadyExistsError phone)
      else DbErr (UniqueViolation n))"
| "courier_exists_error phone e = e"

definition create_courier_body :: "(string \<Rightarrow> string) \<Rightarrow> string \<Rightarrow> string \<Rightarrow> string \<Rightarrow> uuid dbtx" where
  "create_courier_body hash username phone password =
     tx_bind (tx_get (get_local_by_id phone)) (\<lambda>existing_identity.
     tx_bind (tx_raise_if (existing_identity \<noteq> None) (CourierErr (CourierAlreadyExistsError phone))) (\<lambda>_.
     tx_map_error (courier_exists_error phone)
       (tx_bind (insert_user (user_draft username R_COURIER)) (\<lambda>courier.
        tx_bind (insert_identity (identity_draft (row_id courier) AP_LOCAL phone (Some (hash password)))) (\<lambda>_.
        tx_bind (create_courier_account (row_id courier) (usr_username courier)) (\<lambda>_.
        tx_ret (row_id courier)))))))"

definition create_courier where
  "create_courier hash username phone password =
     commit_then (create_courier_body hash username phone password) get_courier_card"

text \<open>
  The handler looks for \<open>uq_user_single_courier_inventory\<close>, while the index of the table is
  \<open>uq_active_courier_inventory\<close>.
\<close>

fun courier_inventory_error :: "app_error \<Rightarrow> app_error" where
  "courier_inventory_error (DbErr (UniqueViolation n)) =
     (if n = ''uq_user_single_courier_inventory'' then HttpErr (ConflictError ''COURIER_INVENTORY_ALREADY_EXISTS'')
      else DbErr (UniqueViolation n))"
| "courier_inventory_error e = e"

definition add_courier_inventory_body :: "uuid \<Rightarrow> string \<Rightarrow> uuid dbtx" where
  "add_courier_inventory_body courier_id nm =
     tx_bind (tx_get (get_active_user courier_id)) (\<lambda>courier.
     tx_bind (tx_require courier (CourierErr (CourierNotFoundError courier_id))) (\<lambda>_.
     tx_bind (tx_map_error courier_inventory_error (insert_inventory (inventory_draft courier_id IT_COURIER nm))) (\<lambda>_.
     tx_ret courier_id)))"

definition add_courier_inventory where
  "add_courier_inventory courier_id nm = commit_then (add_courier_inventory_body courier_id nm) get_courier_card"

record courier_list_entry =
  cri_id :: uuid
  cri_username :: string
  cri_phone :: "string option"
  cri_additional_phones :: "phone_row list"
  cri_account :: "account_row option"
  cri_inventory :: "inventory_row option"
  cri_is_active :: bool
  cri_orders :: nat
  cri_created_at :: timestamp

definition list_couriers ::
  "(char \<Rightarrow> char) \<Rightarrow> nat \<Rightarrow> nat \<Rightarrow> string option \<Rightarrow> db \<Rightarrow> nat \<times> courier_list_entry list" where
  "list_couriers lower skip limit search s =
     (let (n, us) = get_couriers_with_details lower skip limit search s in
      (n, map (\<lambda>u. \<lparr>cri_id = row_id u, cri_username = usr_username u,
        cri_phone = map_option idn_provider_identity_id (find (\<lambda>r. idn_user_id r = row_id u) (identities s)),
        cri_additional_phones = filter (\<lambda>r. phn_user_id r = row_id u) (phone_numbers s),
        cri_account = find (\<lambda>a. acc_user_id a = row_id u) (accounts s),
        cri_inventory = find (\<lambda>v. inv_user_id v = row_id u) (inventories s),
        cri_is_active = is_active u,
        cri_orders = length (filter (\<lambda>r. ord_courier_id r = Some (row_id u)) (orders s)),
        cri_created_at = created_at u\<rparr>) us))"

end
