(* ===== verification/Bootstrap.thy ===== *)
theory Bootstrap
  imports UserService
begin

text \<open>
  \<open>init_data\<close> (\<open>src/core/init.py\<close>): the system user, its accounts and virtual inventories, the walk-in
  user with what it owns, and the first administrator, each created unless it is there. The phone and the
  password of the administrator come from the settings.
\<close>

text \<open>An \<open>INSERT\<close> of a user with a given id.\<close>

definition insert_user_with_id :: "uuid \<Rightarrow> user_row \<Rightarrow> user_row dbtx" where
  "insert_user_with_id i d =
     tx_bind (tx_get clock) (\<lambda>now.
     tx_bind (tx_get users) (\<lambda>us.
     tx_bind (tx_raise_if (tbl_has i us) (DbErr (UniqueViolation ''pkey''))) (\<lambda>_.
     tx_bind (tx_modify (users_update (tbl_add (stamp i now d)))) (\<lambda>_.
     tx_ret (stamp i now d)))))"

definition accounts_named :: "uuid \<Rightarrow> account_type \<Rightarrow> string \<Rightarrow> db \<Rightarrow> account_row list" where
  "accounts_named user_id ty nm s =
     filter (\<lambda>a. acc_user_id a = user_id \<and> acc_type a = ty \<and> acc_name a = nm) (accounts s)"

definition ensure_account :: "uuid \<Rightarrow> account_type \<Rightarrow> string \<Rightarrow> unit dbtx" where
  "ensure_account user_id ty nm =
     tx_bind (tx_get (accounts_named user_id ty nm)) (\<lambda>rows.
     tx_bind (scalar_one_or_none rows) (\<lambda>existing.
     tx_when (existing = None) (tx_bind (create_account user_id ty nm) (\<lambda>_. tx_ret ()))))"

definition ensure_system_user :: "uuid dbtx" where
  "ensure_system_user =
     tx_bind (tx_get (\<lambda>s. filter (\<lambda>u. usr_role u = R_SYSTEM) (users s))) (\<lambda>rows.
     tx_bind (scalar_one_or_none rows) (\<lambda>system_user.
     case system_user of
       Some u \<Rightarrow> tx_ret (row_id u)
     | None \<Rightarrow>
         tx_bind (insert_user_with_id SYSTEM_USER_ID (user_draft ''Sistema (Sluzhebnyy akkaunt)'' R_SYSTEM)) (\<lambda>u.
         tx_ret (row_id u))))"

definition required_accounts :: "(account_type \<times> string) list" where
  "required_accounts =
     [(AT_REVENUE, ''Vyruchka''), (AT_CASH, ''Kassovyy schet''), (AT_CARD, ''Karta''),
      (AT_BANK, ''Bankovskiy schet''), (AT_EXPENSE, ''Raskhody (Nalichnye)''),
      (AT_EXPENSE, ''Raskhody (Karta)''), (AT_EXPENSE, ''Raskhody (Bank)'')]"

definition required_inventories :: "(inventory_type \<times> string) list" where
  "required_inventories = [(IT_VIRTUAL_VENDOR, ''Oprikhodovanie''), (IT_VIRTUAL_LOSS, ''Spisanie (Brak i Poteri)'')]"

definition ensure_inventory :: "uuid \<Rightarrow> inventory_type \<Rightarrow> string \<Rightarrow> unit dbtx" where
  "ensure_inventory user_id inv_ty nm =
     tx_bind (tx_get (\<lambda>s. filter (\<lambda>v. inv_user_id v = user_id \<and> inv_type v = inv_ty) (inventories s))) (\<lambda>rows.
     tx_bind (scalar_one_or_none rows) (\<lambda>existing.
     tx_when (existing = None) (tx_bind (insert_inventory (inventory_draft user_id inv_ty nm)) (\<lambda>_. tx_ret ()))))"

definition ensure_walkin :: "unit dbtx" where
  "ensure_walkin =
     tx_bind (tx_get users) (\<lambda>us.
     tx_when (tbl_get WALKIN_USER_ID False us = None)
       (tx_bind (insert_user_with_id WALKIN_USER_ID (user_draft ''Pokupatel so sklada (Walk-in)'' R_CLIENT_B2C)) (\<lambda>u.
        tx_bind (insert_identity (identity_draft (row_id u) AP_LOCAL ''00000000002'' (Some ''!disabled''))) (\<lambda>_.
        tx_bind (insert_inventory (inventory_draft (row_id u) IT_CLIENT ''Samovyvoz'')) (\<lambda>_.
        tx_bind (create_account (row_id u) AT_CLIENT ''Schet anonimnykh pokupok'') (\<lambda>_.
        tx_ret ()))))))"

definition ensure_admin :: "(string \<Rightarrow> string) \<Rightarrow> string option \<Rightarrow> string option \<Rightarrow> unit dbtx" where
  "ensure_admin hash admin_phone admin_password =
     (case (admin_phone, admin_password) of
        (Some phone, Some password) \<Rightarrow>
          if phone = [] \<or> password = [] then tx_ret ()
          else
            tx_bind (tx_get (\<lambda>s. filter (\<lambda>r. idn_provider r = AP_LOCAL \<and> idn_provider_identity_id r = phone) (identities s))) (\<lambda>rows.
            tx_bind (scalar_one_or_none rows) (\<lambda>existing.
            case existing of
              None \<Rightarrow>
                tx_bind (insert_user (user_draft ''Glavnyy Administrator'' R_ADMIN)) (\<lambda>u.
                tx_bind (insert_identity (identity_draft (row_id u) AP_LOCAL phone (Some (hash password)))) (\<lambda>_.
                ensure_account (row_id u) AT_ADMIN ''Schet administratora''))
            | Some r \<Rightarrow> ensure_account (idn_user_id r) AT_ADMIN ''Schet administratora''))
      | _ \<Rightarrow> tx_ret ())"

definition init_data_body :: "(string \<Rightarrow> string) \<Rightarrow> string option \<Rightarrow> string option \<Rightarrow> unit dbtx" where
  "init_data_body hash admin_phone admin_password =
     tx_bind ensure_system_user (\<lambda>system_user_id.
     tx_bind (tx_for (\<lambda>(ty, nm). ensure_account system_user_id ty nm) required_accounts) (\<lambda>_.
     tx_bind (tx_for (\<lambda>(ty, nm). ensure_inventory system_user_id ty nm) required_inventories) (\<lambda>_.
     tx_bind ensure_walkin (\<lambda>_.
     ensure_admin hash admin_phone admin_password))))"

definition init_data where
  "init_data hash admin_phone admin_password = with_uow (init_data_body hash admin_phone admin_password)"

end
