(* ===== verification/Pagination.thy ===== *)
theory Pagination
  imports Codec Inventory "HOL-Library.Product_Lexorder"
begin

text \<open>
  Cursor pagination: the token codec of \<open>src/common/pagination.py\<close>, the keyset queries of
  \<open>src/modules/inventory/repositories.py\<close> and the services over them. The texts of a time stamp,
  \<open>datetime.isoformat\<close> and \<open>datetime.fromisoformat\<close>, are the arguments \<open>isoformat\<close> and \<open>fromisoformat\<close>; the order of
  names, the database's collation, is the order of the keys \<open>coll\<close> gives them. The locale
  \<open>keyset_listing\<close> is the contract of such a listing: a client that follows \<open>next_cursor\<close> from the first
  page sees every row once.
\<close>

section \<open>Tokens\<close>

datatype sort_value = SV_datetime timestamp | SV_int int | SV_str pystr

abbreviation CursorInvalidError :: app_error where
  "CursorInvalidError \<equiv> HttpErr (UnprocessableEntityError ''CURSOR_INVALID'')"

fun sort_kind :: "sort_value \<Rightarrow> pystr" where
  "sort_kind (SV_datetime t) = py_text ''dt''"
| "sort_kind (SV_int i) = py_text ''i''"
| "sort_kind (SV_str x) = py_text ''s''"

fun sort_text :: "(timestamp \<Rightarrow> pystr) \<Rightarrow> sort_value \<Rightarrow> pystr" where
  "sort_text isoformat (SV_datetime t) = isoformat t"
| "sort_text isoformat (SV_int i) = py_str_int i"
| "sort_text isoformat (SV_str x) = x"

abbreviation bar :: nat where
  "bar \<equiv> 124"

definition cursor_payload :: "(timestamp \<Rightarrow> pystr) \<Rightarrow> sort_value \<Rightarrow> uuid \<Rightarrow> pystr" where
  "cursor_payload isoformat v i = py_text ''v1'' @ bar # sort_kind v @ bar # uuid_str i @ bar # sort_text isoformat v"

definition encode_cursor :: "(timestamp \<Rightarrow> pystr) \<Rightarrow> sort_value \<Rightarrow> uuid \<Rightarrow> app_error + string" where
  "encode_cursor isoformat v i = (case utf8_encode (cursor_payload isoformat v i) of
     None \<Rightarrow> Inl (ValueErr ''UnicodeEncodeError'')
   | Some raw \<Rightarrow> Inr (rstrip_pad (urlsafe_b64encode raw)))"

definition decode_value :: "(pystr \<Rightarrow> timestamp option) \<Rightarrow> pystr \<Rightarrow> pystr \<Rightarrow> sort_value option" where
  "decode_value fromisoformat kind v =
     (if kind = py_text ''dt'' then map_option SV_datetime (fromisoformat v)
      else if kind = py_text ''i'' then map_option SV_int (py_int 10 v)
      else if kind = py_text ''s'' then Some (SV_str v)
      else None)"

definition decode_payload :: "(pystr \<Rightarrow> timestamp option) \<Rightarrow> pystr \<Rightarrow> (sort_value \<times> uuid) option" where
  "decode_payload fromisoformat raw = (case py_split bar 3 raw of
     [version, kind, raw_id, v] \<Rightarrow>
       if version \<noteq> py_text ''v1'' then None
       else (case uuid_parse raw_id of None \<Rightarrow> None | Some i \<Rightarrow> map_option (\<lambda>x. (x, i)) (decode_value fromisoformat kind v))
   | _ \<Rightarrow> None)"

definition decode_cursor :: "(pystr \<Rightarrow> timestamp option) \<Rightarrow> string \<Rightarrow> app_error + (sort_value \<times> uuid)" where
  "decode_cursor fromisoformat token = (case urlsafe_b64decode (with_padding token) of
     None \<Rightarrow> Inl CursorInvalidError
   | Some bytes \<Rightarrow> (case utf8_decode bytes of
       None \<Rightarrow> Inl CursorInvalidError
     | Some raw \<Rightarrow> (case decode_payload fromisoformat raw of None \<Rightarrow> Inl CursorInvalidError | Some r \<Rightarrow> Inr r)))"

section \<open>Pages\<close>

record cursor_meta =
  cm_size :: nat
  cm_has_more :: bool
  cm_next_cursor :: "string option"

definition build_cursor_meta ::
  "(timestamp \<Rightarrow> pystr) \<Rightarrow> 'r base_model_scheme list \<Rightarrow> nat \<Rightarrow> ('r base_model_scheme \<Rightarrow> sort_value)
   \<Rightarrow> app_error + ('r base_model_scheme list \<times> cursor_meta)" where
  "build_cursor_meta isoformat rows page_size sort_value_of =
     (let has_more = length rows > page_size; page_rows = take page_size rows in
      if has_more \<and> page_rows \<noteq> []
      then (case encode_cursor isoformat (sort_value_of (last page_rows)) (row_id (last page_rows)) of
          Inl e \<Rightarrow> Inl e
        | Inr token \<Rightarrow> Inr (page_rows, \<lparr>cm_size = page_size, cm_has_more = True, cm_next_cursor = Some token\<rparr>))
      else Inr (page_rows, \<lparr>cm_size = page_size, cm_has_more = has_more, cm_next_cursor = None\<rparr>))"

section \<open>Keyset queries\<close>

definition name_key :: "(pystr \<Rightarrow> 'k::linorder) \<Rightarrow> inventory_row \<Rightarrow> 'k \<times> uuid" where
  "name_key coll v = (coll (py_text (inv_name v)), row_id v)"

definition after_name :: "(pystr \<Rightarrow> 'k::linorder) \<Rightarrow> (pystr \<times> uuid) option \<Rightarrow> inventory_row \<Rightarrow> bool" where
  "after_name coll cursor v = (case cursor of None \<Rightarrow> True | Some (nm, i) \<Rightarrow> (coll nm, i) < name_key coll v)"

definition repo_search_inventories_cursor ::
  "(pystr \<Rightarrow> 'k::linorder) \<Rightarrow> (char \<Rightarrow> char) \<Rightarrow> string \<Rightarrow> inventory_type option \<Rightarrow> nat \<Rightarrow> (pystr \<times> uuid) option
   \<Rightarrow> db \<Rightarrow> inventory_row list" where
  "repo_search_inventories_cursor coll lower q ty page_size cursor s =
     take (page_size + 1) (sort_key (name_key coll) (filter (\<lambda>v. like_match lower (ilike_pattern q) (inv_name v) \<and> is_active v
       \<and> (case ty of None \<Rightarrow> True | Some t \<Rightarrow> inv_type v = t) \<and> after_name coll cursor v) (inventories s)))"

definition get_all_warehouses_with_balances_cursor ::
  "(pystr \<Rightarrow> 'k::linorder) \<Rightarrow> uuid option \<Rightarrow> nat \<Rightarrow> (pystr \<times> uuid) option \<Rightarrow> db \<Rightarrow> inventory_row list" where
  "get_all_warehouses_with_balances_cursor coll owner_id page_size cursor s =
     take (page_size + 1) (sort_key (name_key coll) (filter (\<lambda>v. inv_type v = IT_WAREHOUSE \<and> is_active v
       \<and> (case owner_id of None \<Rightarrow> True | Some u \<Rightarrow> inv_user_id v = u) \<and> after_name coll cursor v) (inventories s)))"

record transfer_search =
  ts_status :: "transfer_status option"
  ts_transfer_type :: "transfer_type option"
  ts_from_inventory_id :: "uuid option"
  ts_to_inventory_id :: "uuid option"
  ts_date_from :: "timestamp option"
  ts_date_to :: "timestamp option"
  ts_warehouse_owner_id :: "uuid option"
  ts_warehouse_id :: "uuid option"

definition opt_matches :: "'a option \<Rightarrow> ('a \<Rightarrow> bool) \<Rightarrow> bool" where
  "opt_matches v p = (case v of None \<Rightarrow> True | Some x \<Rightarrow> p x)"

definition transfer_matches :: "transfer_search \<Rightarrow> db \<Rightarrow> transfer_row \<Rightarrow> bool" where
  "transfer_matches q s t \<longleftrightarrow>
     opt_matches (ts_status q) (\<lambda>x. trf_status t = x) \<and> opt_matches (ts_transfer_type q) (\<lambda>x. trf_type t = x)
     \<and> opt_matches (ts_from_inventory_id q) (\<lambda>x. trf_from_id t = x) \<and> opt_matches (ts_to_inventory_id q) (\<lambda>x. trf_to_id t = x)
     \<and> opt_matches (ts_date_from q) (\<lambda>d. created_at t \<ge> d) \<and> opt_matches (ts_date_to q) (\<lambda>d. created_at t \<le> d)
     \<and> opt_matches (ts_warehouse_id q) (\<lambda>w. trf_from_id t = w \<or> trf_to_id t = w)
     \<and> opt_matches (ts_warehouse_owner_id q) (\<lambda>u.
         let ids = map row_id (filter (\<lambda>v. inv_user_id v = u \<and> inv_type v = IT_WAREHOUSE) (inventories s))
         in trf_from_id t \<in> set ids \<or> trf_to_id t \<in> set ids)"

definition repo_search_transfers :: "nat \<Rightarrow> nat \<Rightarrow> transfer_search \<Rightarrow> db \<Rightarrow> transfer_row list" where
  "repo_search_transfers skip limit q s =
     take limit (drop skip (sort_key (\<lambda>t. - created_at t) (filter (transfer_matches q s) (stock_transfers s))))"

definition newest_key :: "transfer_row \<Rightarrow> int \<times> int" where
  "newest_key t = (- created_at t, - int (row_id t))"

definition before_time :: "(timestamp \<times> uuid) option \<Rightarrow> transfer_row \<Rightarrow> bool" where
  "before_time cursor t = (case cursor of None \<Rightarrow> True | Some (c, i) \<Rightarrow> (created_at t, row_id t) < (c, i))"

definition repo_search_transfers_cursor ::
  "nat \<Rightarrow> (timestamp \<times> uuid) option \<Rightarrow> transfer_search \<Rightarrow> db \<Rightarrow> transfer_row list" where
  "repo_search_transfers_cursor page_size cursor q s =
     take (page_size + 1) (sort_key newest_key (filter (\<lambda>t. transfer_matches q s t \<and> before_time cursor t) (stock_transfers s)))"

section \<open>Services\<close>

definition name_cursor ::
  "(pystr \<Rightarrow> timestamp option) \<Rightarrow> string option \<Rightarrow> app_error + (pystr \<times> uuid) option" where
  "name_cursor fromisoformat token =
     (if token = None \<or> token = Some [] then Inr None
      else (case decode_cursor fromisoformat (the token) of
          Inl e \<Rightarrow> Inl e
        | Inr (SV_str x, i) \<Rightarrow> Inr (Some (x, i))
        | Inr _ \<Rightarrow> Inl CursorInvalidError))"

definition time_cursor ::
  "(pystr \<Rightarrow> timestamp option) \<Rightarrow> string option \<Rightarrow> app_error + (timestamp \<times> uuid) option" where
  "time_cursor fromisoformat token =
     (if token = None \<or> token = Some [] then Inr None
      else (case decode_cursor fromisoformat (the token) of
          Inl e \<Rightarrow> Inl e
        | Inr (SV_datetime x, i) \<Rightarrow> Inr (Some (x, i))
        | Inr _ \<Rightarrow> Inl CursorInvalidError))"

definition search_inventories_cursor where
  "search_inventories_cursor isoformat fromisoformat coll lower q ty page_size token s = (case name_cursor fromisoformat token of
     Inl e \<Rightarrow> Inl e
   | Inr cursor \<Rightarrow> build_cursor_meta isoformat (repo_search_inventories_cursor coll lower q ty page_size cursor s) page_size
       (\<lambda>v. SV_str (py_text (inv_name v))))"

definition get_warehouses_with_balances_cursor where
  "get_warehouses_with_balances_cursor isoformat fromisoformat coll owner_id page_size token s = (case name_cursor fromisoformat token of
     Inl e \<Rightarrow> Inl e
   | Inr cursor \<Rightarrow> build_cursor_meta isoformat (get_all_warehouses_with_balances_cursor coll owner_id page_size cursor s) page_size
       (\<lambda>v. SV_str (py_text (inv_name v))))"

definition search_transfers where
  "search_transfers skip limit q s = repo_search_transfers skip limit q s"

definition search_transfers_cursor where
  "search_transfers_cursor isoformat fromisoformat page_size token q s = (case time_cursor fromisoformat token of
     Inl e \<Rightarrow> Inl e
   | Inr cursor \<Rightarrow> build_cursor_meta isoformat (repo_search_transfers_cursor page_size cursor q s) page_size (\<lambda>t. SV_datetime (created_at t)))"

section \<open>The token round trip\<close>

lemma py_text_scalar: "list_all is_scalar (py_text cs)"
proof -
  have "of_char c < (55296 :: nat)" for c :: char by (rule less_le_trans [of _ 256]) simp_all
  then show ?thesis by (auto simp: py_text_def list_all_iff is_scalar_def)
qed

lemma digits_scalar: "\<forall>c\<in>set cs. c < 128 \<Longrightarrow> list_all is_scalar cs"
  by (auto simp: list_all_iff is_scalar_def)

lemma uuid_str_scalar: "list_all is_scalar (uuid_str u)"
  using uuid_str_chars [of u] by (intro digits_scalar) auto

lemma bar_free: "bar \<notin> set (uuid_str u)" "bar \<notin> set (sort_kind v)" "bar \<notin> set (py_text ''v1'')"
  using uuid_str_chars [of u] by (auto, cases v, auto simp: py_text_def)

lemma decode_payload_of:
  assumes "i < 2 ^ 128" and "\<And>t. v = SV_datetime t \<Longrightarrow> fromisoformat (isoformat t) = Some t"
  shows "decode_payload fromisoformat (cursor_payload isoformat v i) = Some (v, i)"
proof -
  have "decode_value fromisoformat (sort_kind v) (sort_text isoformat v) = Some v"
    using assms(2) by (cases v) (auto simp: decode_value_def py_text_def py_int_roundtrip)
  moreover have "py_split bar 3 (cursor_payload isoformat v i) = [py_text ''v1'', sort_kind v, uuid_str i, sort_text isoformat v]"
    unfolding cursor_payload_def numeral_3_eq_3 py_split_first [OF bar_free(3)] py_split_first [OF bar_free(2)]
      py_split_first [OF bar_free(1)] by simp
  ultimately show ?thesis by (simp add: decode_payload_def uuid_roundtrip [OF assms(1)])
qed

lemma decode_encoded:
  assumes "encode_cursor isoformat v i = Inr token" "i < 2 ^ 128" "\<And>t. v = SV_datetime t \<Longrightarrow> fromisoformat (isoformat t) = Some t"
  shows "decode_cursor fromisoformat token = Inr (v, i)"
proof -
  obtain raw where raw: "utf8_encode (cursor_payload isoformat v i) = Some raw" "token = rstrip_pad (urlsafe_b64encode raw)"
    using assms(1) by (auto simp: encode_cursor_def split: option.splits)
  show ?thesis
    using b64_roundtrip [OF utf8_bytes [OF raw(1)]] utf8_roundtrip [OF raw(1)] decode_payload_of [OF assms(2,3)]
    by (simp add: decode_cursor_def raw(2))
qed

lemma encode_total:
  "list_all is_scalar (sort_text isoformat v) \<Longrightarrow> \<exists>token. encode_cursor isoformat v i = Inr token \<and> token \<noteq> []"
proof -
  assume v: "list_all is_scalar (sort_text isoformat v)"
  let ?p = "cursor_payload isoformat v i"
  have "list_all is_scalar (sort_kind v)" by (cases v) (auto simp: py_text_scalar)
  moreover have "is_scalar bar" by (simp add: is_scalar_def)
  ultimately have enc: "utf8_encode ?p = Some (concat (map utf8_char ?p))"
    using v uuid_str_scalar by (simp add: utf8_encode_def cursor_payload_def py_text_scalar)
  have "concat (map utf8_char ?p) \<noteq> []" by (auto simp: cursor_payload_def py_text_def utf8_char_def)
  then have "b64_unpadded (concat (map utf8_char ?p)) \<noteq> []"
    by (cases "concat (map utf8_char ?p)" rule: b64_unpadded.cases) auto
  then show ?thesis using rstrip_b64 [OF utf8_bytes [OF enc]] enc by (simp add: encode_cursor_def)
qed

section \<open>Following the cursors\<close>

text \<open>
  A client that asks for pages until there is no next cursor; \<open>None\<close> when it gave up after \<open>n\<close> pages.
\<close>

primrec follow_cursors ::
  "nat \<Rightarrow> (string option \<Rightarrow> app_error + ('r list \<times> cursor_meta)) \<Rightarrow> string option \<Rightarrow> (app_error + 'r list) option" where
  "follow_cursors 0 svc token = None"
| "follow_cursors (Suc n) svc token = (case svc token of
     Inl e \<Rightarrow> Some (Inl e)
   | Inr (rows, meta) \<Rightarrow> (case cm_next_cursor meta of
       None \<Rightarrow> Some (Inr rows)
     | Some t \<Rightarrow> map_option (map_sum id ((@) rows)) (follow_cursors n svc (Some t))))"

text \<open>The page of the rows that are still to come, with the token \<open>tok\<close> of its last row.\<close>

definition cursor_page :: "nat \<Rightarrow> ('r \<Rightarrow> string) \<Rightarrow> 'r list \<Rightarrow> 'r list \<times> cursor_meta" where
  "cursor_page n tok rows = (take n rows, \<lparr>cm_size = n, cm_has_more = length rows > n,
     cm_next_cursor = (if length rows > n then Some (tok (rows ! (n - 1))) else None)\<rparr>)"

locale keyset_listing =
  fixes svc :: "'p \<Rightarrow> string option \<Rightarrow> app_error + ('r list \<times> cursor_meta)"
    and listed :: "'p \<Rightarrow> 'r list" and psize :: "'p \<Rightarrow> nat" and tok :: "'p \<Rightarrow> 'r \<Rightarrow> string" and ok :: "'p \<Rightarrow> bool"
  assumes first_page: "ok p \<Longrightarrow> svc p None = Inr (cursor_page (psize p) (tok p) (listed p))"
    and next_page: "ok p \<Longrightarrow> listed p = xs @ r # ys \<Longrightarrow> svc p (Some (tok p r)) = Inr (cursor_page (psize p) (tok p) ys)"
    and page_not_empty: "ok p \<Longrightarrow> 0 < psize p"
begin

lemma follow_suffix:
  assumes ok: "ok p"
  shows "listed p = xs @ ys \<Longrightarrow> length ys < n \<Longrightarrow> svc p token = Inr (cursor_page (psize p) (tok p) ys)
    \<Longrightarrow> follow_cursors n (svc p) token = Some (Inr ys)"
proof (induction n arbitrary: xs ys token)
  case (Suc n)
  let ?k = "psize p"
  show ?case
  proof (cases "length ys > ?k")
    case True
    have k: "0 < ?k" using page_not_empty [OF ok] .
    have split: "ys = take (?k - 1) ys @ ys ! (?k - 1) # drop ?k ys"
      using id_take_nth_drop [of "?k - 1" ys] True k by simp
    then have pos: "listed p = (xs @ take (?k - 1) ys) @ ys ! (?k - 1) # drop ?k ys" using Suc.prems(1) by simp
    have "listed p = (xs @ take ?k ys) @ drop ?k ys" using Suc.prems(1) by simp
    moreover have "length (drop ?k ys) < n" using Suc.prems(2) True k by simp
    ultimately have "follow_cursors n (svc p) (Some (tok p (ys ! (?k - 1)))) = Some (Inr (drop ?k ys))"
      using Suc.IH next_page [OF ok pos] by blast
    then show ?thesis using Suc.prems(3) True by (simp add: cursor_page_def)
  qed (use Suc.prems(3) in \<open>simp add: cursor_page_def\<close>)
qed simp

lemma follow_all: "ok p \<Longrightarrow> length (listed p) < n \<Longrightarrow> follow_cursors n (svc p) None = Some (Inr (listed p))"
  using follow_suffix [of p "[]" "listed p" n None] first_page by simp

end

text \<open>The rows after one of them, in the order of distinct keys.\<close>

lemma rows_after:
  assumes "sort_key f rows = xs @ r # ys" "distinct (map f rows)"
  shows "sort_key f (filter (\<lambda>x. f r < f x) rows) = ys"
proof -
  have "sorted (map f (xs @ r # ys))" using assms(1) sorted_sort_key [of f rows] by simp
  moreover have "distinct (map f (xs @ r # ys))"
    using assms by (metis distinct_map distinct_sort set_sort)
  ultimately have "\<forall>x\<in>set xs. \<not> f r < f x" "\<forall>y\<in>set ys. f r < f y"
    by (auto simp: sorted_append order.strict_iff_order)
  moreover have "sort_key f (filter (\<lambda>x. f r < f x) rows) = filter (\<lambda>x. f r < f x) (xs @ r # ys)"
    using assms(1) by (simp flip: filter_sort)
  ultimately show ?thesis by simp
qed

lemma build_cursor_page:
  assumes "\<And>r. r \<in> set rows \<Longrightarrow> encode_cursor isoformat (sv r) (row_id r) = Inr (tok r)" "0 < n"
  shows "build_cursor_meta isoformat (take (n + 1) rows) n sv = Inr (cursor_page n tok rows)"
proof (cases "length rows > n")
  case True
  then have "take n rows \<noteq> []" using assms(2) by auto
  then have "last (take n rows) = rows ! (n - 1)" using True assms(2) by (simp add: last_conv_nth min_def)
  moreover have "rows ! (n - 1) \<in> set rows" using True by simp
  ultimately show ?thesis using True assms by (auto simp: build_cursor_meta_def Let_def cursor_page_def min_def)
qed (simp add: build_cursor_meta_def Let_def cursor_page_def)

definition row_token :: "(timestamp \<Rightarrow> pystr) \<Rightarrow> sort_value \<Rightarrow> uuid \<Rightarrow> string" where
  "row_token isoformat v i = projr (encode_cursor isoformat v i)"

lemma row_token_encode:
  assumes "list_all is_scalar (sort_text isoformat v)"
  shows "encode_cursor isoformat v i = Inr (row_token isoformat v i)" "row_token isoformat v i \<noteq> []"
  using encode_total [OF assms, of i] by (auto simp: row_token_def)

lemma name_cursor_token:
  assumes "i < 2 ^ 128"
  shows "name_cursor fromisoformat (Some (row_token isoformat (SV_str (py_text nm)) i)) = Inr (Some (py_text nm, i))"
  using decode_encoded [OF row_token_encode(1) assms, of isoformat "SV_str (py_text nm)" fromisoformat]
    row_token_encode(2) [of isoformat "SV_str (py_text nm)"]
  by (simp add: name_cursor_def py_text_scalar)

lemma time_cursor_token:
  assumes "i < 2 ^ 128" "fromisoformat (isoformat t) = Some t" "list_all is_scalar (isoformat t)"
  shows "time_cursor fromisoformat (Some (row_token isoformat (SV_datetime t) i)) = Inr (Some (t, i))"
  using decode_encoded [OF row_token_encode(1) assms(1), of isoformat "SV_datetime t" fromisoformat] assms(2,3)
    row_token_encode(2) [of isoformat "SV_datetime t"]
  by (simp add: time_cursor_def)

definition ids_ok :: "'r table \<Rightarrow> bool" where
  "ids_ok rows \<longleftrightarrow> keys_distinct rows \<and> (\<forall>r\<in>set rows. row_id r < 2 ^ 128)"

lemma distinct_keys_filter:
  assumes "keys_distinct rows" "\<And>x y. f x = f y \<Longrightarrow> row_id x = row_id y"
  shows "distinct (map f (filter P rows))"
proof -
  have "inj_on f (set rows)"
    using assms distinct_key_eq [of row_id rows] unfolding inj_on_def keys_distinct_def by blast
  then show ?thesis
    using assms(1) by (auto simp: keys_distinct_def distinct_map intro: inj_on_subset)
qed

text \<open>The two pages of a listing by name, the first one and the one after \<open>v\<close>.\<close>

lemma name_pages:
  assumes "0 < n"
  shows "build_cursor_meta isoformat (take (n + 1) (sort_key (name_key coll) rows)) n (\<lambda>v. SV_str (py_text (inv_name v)))
      = Inr (cursor_page n (\<lambda>v. row_token isoformat (SV_str (py_text (inv_name v))) (row_id v)) (sort_key (name_key coll) rows))"
  by (rule build_cursor_page [OF _ assms]) (simp add: row_token_encode py_text_scalar)

lemma name_rows_after:
  assumes "sort_key (name_key coll) (filter P rows) = xs @ v # ys" "keys_distinct rows"
  shows "sort_key (name_key coll) (filter (\<lambda>x. P x \<and> after_name coll (Some (py_text (inv_name v), row_id v)) x) rows) = ys"
proof -
  have "distinct (map (name_key coll) (filter P rows))"
    by (rule distinct_keys_filter [OF assms(2)]) (simp add: name_key_def)
  from rows_after [OF assms(1) this] show ?thesis by (simp add: after_name_def name_key_def conj_commute)
qed

abbreviation (input) inventory_search_rows where
  "inventory_search_rows lower q ty s \<equiv> filter (\<lambda>v. like_match lower (ilike_pattern q) (inv_name v) \<and> is_active v
     \<and> (case ty of None \<Rightarrow> True | Some t \<Rightarrow> inv_type v = t)) (inventories s)"

abbreviation (input) warehouse_rows where
  "warehouse_rows owner s \<equiv> filter (\<lambda>v. inv_type v = IT_WAREHOUSE \<and> is_active v
     \<and> (case owner of None \<Rightarrow> True | Some u \<Rightarrow> inv_user_id v = u)) (inventories s)"

interpretation inventory_pages: keyset_listing
  "\<lambda>(isof, fromiso, coll :: pystr \<Rightarrow> 'k::linorder, lower, q, ty, n, s) tk. search_inventories_cursor isof fromiso coll lower q ty n tk s"
  "\<lambda>(isof, fromiso, coll, lower, q, ty, n, s). sort_key (name_key coll) (inventory_search_rows lower q ty s)"
  "\<lambda>(isof, fromiso, coll, lower, q, ty, n, s). n"
  "\<lambda>(isof, fromiso, coll, lower, q, ty, n, s) v. row_token isof (SV_str (py_text (inv_name v))) (row_id v)"
  "\<lambda>(isof, fromiso, coll, lower, q, ty, n, s). 0 < n \<and> ids_ok (inventories s)"
proof (unfold_locales, goal_cases)
  case (1 p)
  then show ?case
    by (auto simp: search_inventories_cursor_def name_cursor_def repo_search_inventories_cursor_def after_name_def
        name_pages [simplified])
next
  case (2 p xs v ys)
  obtain isof fromiso coll lower q ty n s where p: "p = (isof, fromiso, coll, lower, q, ty, n, s)"
    by (metis prod_cases7 surj_pair)
  have ok: "0 < n" "keys_distinct (inventories s)" and list: "sort_key (name_key coll) (inventory_search_rows lower q ty s) = xs @ v # ys"
    and id: "\<forall>r\<in>set (inventories s). row_id r < 2 ^ 128"
    using 2 by (auto simp: p ids_ok_def)
  have "v \<in> set (sort_key (name_key coll) (inventory_search_rows lower q ty s))" by (simp only: list) simp
  then have "row_id v < 2 ^ 128" using id by auto
  then show ?case
    using name_rows_after [OF list ok(2)] name_pages [OF ok(1), of isof coll "filter (\<lambda>x. (like_match lower (ilike_pattern q) (inv_name x) \<and> is_active x
     \<and> (case ty of None \<Rightarrow> True | Some t \<Rightarrow> inv_type x = t)) \<and> after_name coll (Some (py_text (inv_name v), row_id v)) x) (inventories s)"]
    by (simp add: p search_inventories_cursor_def name_cursor_token repo_search_inventories_cursor_def conj_assoc)
qed auto

interpretation warehouse_pages: keyset_listing
  "\<lambda>(isof, fromiso, coll :: pystr \<Rightarrow> 'k::linorder, owner, n, s) tk. get_warehouses_with_balances_cursor isof fromiso coll owner n tk s"
  "\<lambda>(isof, fromiso, coll, owner, n, s). sort_key (name_key coll) (warehouse_rows owner s)"
  "\<lambda>(isof, fromiso, coll, owner, n, s). n"
  "\<lambda>(isof, fromiso, coll, owner, n, s) v. row_token isof (SV_str (py_text (inv_name v))) (row_id v)"
  "\<lambda>(isof, fromiso, coll, owner, n, s). 0 < n \<and> ids_ok (inventories s)"
proof (unfold_locales, goal_cases)
  case (1 p)
  then show ?case
    by (auto simp: get_warehouses_with_balances_cursor_def name_cursor_def get_all_warehouses_with_balances_cursor_def
        after_name_def name_pages [simplified])
next
  case (2 p xs v ys)
  obtain isof fromiso coll owner n s where p: "p = (isof, fromiso, coll, owner, n, s)" by (cases p)
  have ok: "0 < n" "keys_distinct (inventories s)" and list: "sort_key (name_key coll) (warehouse_rows owner s) = xs @ v # ys"
    and id: "\<forall>r\<in>set (inventories s). row_id r < 2 ^ 128"
    using 2 by (auto simp: p ids_ok_def)
  have "v \<in> set (sort_key (name_key coll) (warehouse_rows owner s))" by (simp only: list) simp
  then have "row_id v < 2 ^ 128" using id by auto
  then show ?case
    using name_rows_after [OF list ok(2)] name_pages [OF ok(1), of isof coll "filter (\<lambda>x. (inv_type x = IT_WAREHOUSE \<and> is_active x
     \<and> (case owner of None \<Rightarrow> True | Some u \<Rightarrow> inv_user_id x = u)) \<and> after_name coll (Some (py_text (inv_name v), row_id v)) x) (inventories s)"]
    by (simp add: p get_warehouses_with_balances_cursor_def name_cursor_token get_all_warehouses_with_balances_cursor_def conj_assoc)
qed auto

lemma before_time_key: "before_time (Some (created_at r, row_id r)) t \<longleftrightarrow> newest_key r < newest_key t"
  by (auto simp: before_time_def newest_key_def)

interpretation transfer_pages: keyset_listing
  "\<lambda>(isof, fromiso, n, q, s) tk. search_transfers_cursor isof fromiso n tk q s"
  "\<lambda>(isof, fromiso, n, q, s). sort_key newest_key (filter (transfer_matches q s) (stock_transfers s))"
  "\<lambda>(isof, fromiso, n, q, s). n"
  "\<lambda>(isof, fromiso, n, q, s) t. row_token isof (SV_datetime (created_at t)) (row_id t)"
  "\<lambda>(isof, fromiso, n, q, s). 0 < n \<and> ids_ok (stock_transfers s)
     \<and> (\<forall>t\<in>set (stock_transfers s). fromiso (isof (created_at t)) = Some (created_at t) \<and> list_all is_scalar (isof (created_at t)))"
proof (unfold_locales, goal_cases)
  case (1 p)
  obtain isof fromiso n q s where p: "p = (isof, fromiso, n, q, s)" by (cases p)
  have "build_cursor_meta isof (take (n + 1) (sort_key newest_key (filter (transfer_matches q s) (stock_transfers s)))) n (\<lambda>t. SV_datetime (created_at t))
      = Inr (cursor_page n (\<lambda>t. row_token isof (SV_datetime (created_at t)) (row_id t)) (sort_key newest_key (filter (transfer_matches q s) (stock_transfers s))))"
    using 1 by (intro build_cursor_page) (auto simp: p intro!: row_token_encode)
  then show ?case by (simp add: p search_transfers_cursor_def time_cursor_def repo_search_transfers_cursor_def before_time_def)
next
  case (2 p xs t ys)
  obtain isof fromiso n q s where p: "p = (isof, fromiso, n, q, s)" by (cases p)
  have ok: "0 < n" "keys_distinct (stock_transfers s)" and list: "sort_key newest_key (filter (transfer_matches q s) (stock_transfers s)) = xs @ t # ys"
    and rows: "\<forall>r\<in>set (stock_transfers s). row_id r < 2 ^ 128 \<and> fromiso (isof (created_at r)) = Some (created_at r) \<and> list_all is_scalar (isof (created_at r))"
    using 2 by (auto simp: p ids_ok_def)
  have after: "sort_key newest_key (filter (\<lambda>x. transfer_matches q s x \<and> before_time (Some (created_at t, row_id t)) x) (stock_transfers s)) = ys"
    using rows_after [OF list distinct_keys_filter [OF ok(2)]] by (simp add: before_time_key newest_key_def conj_commute)
  have "set (xs @ t # ys) = set (filter (transfer_matches q s) (stock_transfers s))" by (simp only: list [symmetric] set_sort)
  then have mem: "t \<in> set (stock_transfers s)" "set ys \<subseteq> set (stock_transfers s)" by auto
  have "build_cursor_meta isof (take (n + 1) ys) n (\<lambda>t. SV_datetime (created_at t))
      = Inr (cursor_page n (\<lambda>t. row_token isof (SV_datetime (created_at t)) (row_id t)) ys)"
    using rows mem ok(1) by (intro build_cursor_page) (auto intro!: row_token_encode)
  then show ?case
    using rows mem(1) after by (simp add: p search_transfers_cursor_def time_cursor_token repo_search_transfers_cursor_def)
qed auto

section \<open>Properties\<close>

text \<open>
  C31. A cursor token reads back to the sort value and the id it was made from, names with bars and any other
  characters included, and the token is made of characters of the base64url alphabet without padding; reading a
  time stamp back relies on \<open>fromisoformat\<close> inverting \<open>isoformat\<close>.
\<close>

theorem cursor_roundtrip:
  assumes "encode_cursor isoformat v i = Inr token" and "i < 2 ^ 128"
    and "\<And>t. v = SV_datetime t \<Longrightarrow> fromisoformat (isoformat t) = Some t"
  shows "decode_cursor fromisoformat token = Inr (v, i) \<and> set token \<subseteq> b64_char ` {..<64}"
proof -
  obtain raw where raw: "utf8_encode (cursor_payload isoformat v i) = Some raw" "token = rstrip_pad (urlsafe_b64encode raw)"
    using assms(1) by (auto simp: encode_cursor_def split: option.splits)
  have "\<forall>b\<in>set bs. b < 256 \<Longrightarrow> set (b64_unpadded bs) \<subseteq> b64_char ` {..<64}" for bs
  proof (induction bs rule: b64_unpadded.induct)
    case (2 a)
    then show ?case using b64_bounds [of a a] by auto
  next
    case (3 a b)
    then show ?case using b64_bounds [of a b] b64_bounds [of b b] by auto
  next
    case (4 a b c r)
    have "c mod 64 < 64" by simp
    with 4 show ?case using b64_bounds [of a b] b64_bounds [of b c] by auto
  qed simp
  then show ?thesis
    using decode_encoded [OF assms] rstrip_b64 [OF utf8_bytes [OF raw(1)]] utf8_bytes [OF raw(1)] raw(2) by auto
qed

theorem cursor_roundtrip_witness:
  "\<exists>token. encode_cursor py_str_int (SV_str (py_text ''a|b'')) 7 = Inr token
     \<and> decode_cursor (py_int 10) token = Inr (SV_str (py_text ''a|b''), 7)"
proof -
  obtain token where enc: "encode_cursor py_str_int (SV_str (py_text ''a|b'')) 7 = Inr token"
    using encode_total [of py_str_int "SV_str (py_text ''a|b'')" 7] py_text_scalar by auto
  show ?thesis using enc cursor_roundtrip [OF enc, of "py_int 10"] by auto
qed

text \<open>
  C32. Cursor pagination is complete: a client that follows \<open>next_cursor\<close> from the first page, with any page size above
  zero, comes to a page without one after at most one request more than there are rows, and the pages one after another are all matching rows
  in the order of the listing, each once. This is shown of the search over inventories, of the warehouses and of the stock
  transfers, over tables with distinct 128-bit ids.
\<close>

theorem cursor_pages_complete:
  fixes coll :: "pystr \<Rightarrow> 'k::linorder"
  assumes "0 < n" and "ids_ok (inventories s)" and "ids_ok (stock_transfers s)"
    and "\<And>t. fromisoformat (isoformat t) = Some t" and "\<And>t. list_all is_scalar (isoformat t)"
    and "length (inventories s) < k" and "length (stock_transfers s) < k"
  shows "follow_cursors k (\<lambda>tk. search_inventories_cursor isoformat fromisoformat coll lower q ty n tk s) None
      = Some (Inr (sort_key (name_key coll) (inventory_search_rows lower q ty s)))
    \<and> follow_cursors k (\<lambda>tk. get_warehouses_with_balances_cursor isoformat fromisoformat coll owner n tk s) None
      = Some (Inr (sort_key (name_key coll) (warehouse_rows owner s)))
    \<and> follow_cursors k (\<lambda>tk. search_transfers_cursor isoformat fromisoformat n tk tq s) None
      = Some (Inr (sort_key newest_key (filter (transfer_matches tq s) (stock_transfers s))))"
proof (intro conjI)
  show "follow_cursors k (\<lambda>tk. search_inventories_cursor isoformat fromisoformat coll lower q ty n tk s) None
      = Some (Inr (sort_key (name_key coll) (inventory_search_rows lower q ty s)))"
    using inventory_pages.follow_all [of "(isoformat, fromisoformat, coll, lower, q, ty, n, s)" k] assms
    by (simp add: le_less_trans [OF length_filter_le])
  show "follow_cursors k (\<lambda>tk. get_warehouses_with_balances_cursor isoformat fromisoformat coll owner n tk s) None
      = Some (Inr (sort_key (name_key coll) (warehouse_rows owner s)))"
    using warehouse_pages.follow_all [of "(isoformat, fromisoformat, coll, owner, n, s)" k] assms
    by (simp add: le_less_trans [OF length_filter_le])
  show "follow_cursors k (\<lambda>tk. search_transfers_cursor isoformat fromisoformat n tk tq s) None
      = Some (Inr (sort_key newest_key (filter (transfer_matches tq s) (stock_transfers s))))"
    using transfer_pages.follow_all [of "(isoformat, fromisoformat, n, tq, s)" k] assms
    by (simp add: le_less_trans [OF length_filter_le])
qed

theorem cursor_pages_complete_witness:
  "map_option (map_sum id (map row_id)) (follow_cursors 8
     (\<lambda>tk. search_transfers_cursor py_str_int (py_int 10) 1 tk (transfer_search.make None None None None None None None None) sample_db) None)
   = Some (Inr [81, 80])"
proof -
  have iso: "list_all is_scalar (py_str_int t)" for t
    by (rule digits_scalar) (use decimal_digits in \<open>fastforce simp: py_str_int_def split: if_splits\<close>)
  have ids: "ids_ok (inventories sample_db)" "ids_ok (stock_transfers sample_db)"
    "length (inventories sample_db) < 8" "length (stock_transfers sample_db) < 8"
    by (simp_all add: ids_ok_def keys_distinct_def sample_defs sample_rows)
  have rows: "map row_id (sort_key newest_key (filter (transfer_matches (transfer_search.make None None None None None None None None) sample_db)
      (stock_transfers sample_db))) = [81, 80]" by code_simp
  from cursor_pages_complete [OF _ ids(1,2) py_int_roundtrip iso ids(3,4), of 1 "length"
      "\<lambda>c. c" "[]" None None "transfer_search.make None None None None None None None None"]
  show ?thesis by (simp add: rows del: One_nat_def)
qed

end
