(* ===== verification/UserLaws.thy ===== *)
theory UserLaws
  imports Onboarding Bootstrap ContractTables Auth
begin

text \<open>
  What the operations on users keep: the two ledgers, the quotas and the life cycles, and the invariants of
  the users' own tables: unique phones and identities, at most five additional phones, and the two
  protected users always there and active.
\<close>

section \<open>Reads\<close>

lemma reads_keep: "frame (\<lambda>s. s) m \<Longrightarrow> keeps P m"
  by (auto simp: frame_def keeps_def)

lemma reads_move: "reflp R \<Longrightarrow> frame (\<lambda>s. s) m \<Longrightarrow> moves R m"
  by (auto simp: frame_def moves_def reflp_def)

lemma frame_user_reads [frame_intro]:
  "frame g (identity_constraints io r)" "frame g (get_by_user_and_provider u pr)" "frame g (get_local_by_user_or_none u)"
  "frame g get_system_user" "frame g (phone_not_registered p)" "frame g (validate_staff_update nr li po pw u)"
  "frame g (check_phone_globally_unique p)" "frame g (require_phone u i)" "frame g (client_phone_free po)"
  "frame g get_vendor_inventory"
  unfolding identity_constraints_def get_by_user_and_provider_def get_local_by_user_or_none_def get_system_user_def
    phone_not_registered_def validate_staff_update_def check_phone_globally_unique_def require_phone_def client_phone_free_def
    get_vendor_inventory_def get_system_inventory_def
  by (intro frame_intro)+

lemmas user_reads = frame_user_reads [where g = "\<lambda>s. s"]
lemmas keeps_user_reads [keeps_intro] = user_reads [THEN reads_keep]
lemmas moves_user_reads [moves_intro] = user_reads [THEN reads_move [rotated]]

section \<open>Statements\<close>

lemma frame_user_statements [frame_intro]:
  assumes "\<And>s f. g (users_update f s) = g s" "\<And>s f. g (identities_update f s) = g s"
    "\<And>s f. g (phone_numbers_update f s) = g s" "\<And>s i. g (s\<lparr>next_id := i\<rparr>) = g s"
  shows "frame g (insert_user u)" "frame g (insert_identity r)" "frame g (add_local i p h)" "frame g (update_identity i po ho)"
    "frame g (insert_phone ph)" "frame g (repo_update_user i d)" "frame g (repo_archive_user i)" "frame g (insert_user_with_id i u)"
    "frame g (add_phone_body i p l)" "frame g (update_phone_body i j lo)" "frame g (remove_phone_body i j)"
    "frame g (archive_user_body i)"
  using assms
  unfolding insert_user_def insert_identity_def add_local_def update_identity_def insert_phone_def repo_update_user_def
    repo_archive_user_def insert_user_with_id_def add_phone_body_def update_phone_body_def remove_phone_body_def
    archive_user_body_def Let_def
  by (intro frame_intro; simp)+

lemma frame_owned_statements [frame_intro]:
  "(\<And>s f. g (accounts_update f s) = g s) \<Longrightarrow> (\<And>s i. g (s\<lparr>next_id := i\<rparr>) = g s) \<Longrightarrow> frame g (create_account u ty nm)"
  "(\<And>s f. g (inventories_update f s) = g s) \<Longrightarrow> (\<And>s i. g (s\<lparr>next_id := i\<rparr>) = g s) \<Longrightarrow> frame g (insert_inventory v)"
  unfolding create_account_def insert_inventory_def by (intro frame_intro; simp)+

lemma frame_delete_user:
  assumes "\<And>s i. g (delete_user_row i s) = g s"
  shows "frame g (repo_delete_user i)"
  unfolding repo_delete_user_def using assms by (intro frame_intro; simp)

lemma delete_user_row_sel [simp]:
  "accounts (delete_user_row i s) = accounts s" "transactions (delete_user_row i s) = transactions s"
  "inventories (delete_user_row i s) = inventories s" "inventory_balances (delete_user_row i s) = inventory_balances s"
  "stock_transactions (delete_user_row i s) = stock_transactions s" "contract_price_items (delete_user_row i s) = contract_price_items s"
  "contracts (delete_user_row i s) = contracts s" "invoices (delete_user_row i s) = invoices s"
  by (simp_all add: delete_user_row_def)

lemma keeps_user_statements [keeps_intro]:
  "keeps fin_explained (insert_user u)" "keeps fin_explained (insert_identity r)" "keeps fin_explained (add_local i p h)"
  "keeps fin_explained (update_identity i po ho)" "keeps fin_explained (insert_phone ph)" "keeps fin_explained (repo_update_user i d)"
  "keeps fin_explained (repo_archive_user i)" "keeps fin_explained (insert_user_with_id i u)" "keeps fin_explained (add_phone_body i p l)"
  "keeps fin_explained (update_phone_body i j lo)" "keeps fin_explained (remove_phone_body i j)" "keeps fin_explained (archive_user_body i)"
  "keeps fin_explained (insert_inventory v)" "keeps fin_explained (repo_delete_user i)"
  "keeps stock_explained (insert_user u)" "keeps stock_explained (insert_identity r)" "keeps stock_explained (add_local i p h)"
  "keeps stock_explained (update_identity i po ho)" "keeps stock_explained (insert_phone ph)" "keeps stock_explained (repo_update_user i d)"
  "keeps stock_explained (repo_archive_user i)" "keeps stock_explained (insert_user_with_id i u)" "keeps stock_explained (add_phone_body i p l)"
  "keeps stock_explained (update_phone_body i j lo)" "keeps stock_explained (remove_phone_body i j)" "keeps stock_explained (archive_user_body i)"
  "keeps stock_explained (create_account ui ty nm)" "keeps stock_explained (repo_delete_user i)"
  "keeps quotas_ok (insert_user u)" "keeps quotas_ok (insert_identity r)" "keeps quotas_ok (add_local i p h)"
  "keeps quotas_ok (update_identity i po ho)" "keeps quotas_ok (insert_phone ph)" "keeps quotas_ok (repo_update_user i d)"
  "keeps quotas_ok (repo_archive_user i)" "keeps quotas_ok (insert_user_with_id i u)" "keeps quotas_ok (add_phone_body i p l)"
  "keeps quotas_ok (update_phone_body i j lo)" "keeps quotas_ok (remove_phone_body i j)" "keeps quotas_ok (archive_user_body i)"
  "keeps quotas_ok (create_account ui ty nm)" "keeps quotas_ok (insert_inventory v)" "keeps quotas_ok (repo_delete_user i)"
  by ((rule fin_explained_frame stock_explained_frame quotas_ok_frame; intro frame_intro frame_delete_user; simp))+

lemma db_evolve_users [moves_intro]:
  "moves db_evolve (insert_user u)" "moves db_evolve (insert_identity r)" "moves db_evolve (add_local i p h)"
  "moves db_evolve (update_identity i po ho)" "moves db_evolve (insert_phone ph)" "moves db_evolve (repo_update_user i d)"
  "moves db_evolve (repo_archive_user i)" "moves db_evolve (insert_user_with_id i u)" "moves db_evolve (add_phone_body i p l)"
  "moves db_evolve (update_phone_body i j lo)" "moves db_evolve (remove_phone_body i j)" "moves db_evolve (archive_user_body i)"
  "moves db_evolve (create_account ui ty nm)" "moves db_evolve (insert_inventory v)"
  by (rule moves_db_other; intro frame_intro; simp)+

lemma db_evolve_delete_user [moves_intro]: "moves db_evolve (repo_delete_user i)"
proof (rule moves_db_orders)
  show "moves orders_evolve (repo_delete_user i)"
  proof (rule movesI)
    fix s x s' assume run: "repo_delete_user i s = Inr (x, s')"
    then consider "s' = s" | "s' = delete_user_row i s"
      by (auto simp: repo_delete_user_def tx_iff split: option.splits)
    then show "orders_evolve s s'"
    proof cases
      case 1
      then show ?thesis using orders_evolve_refl by (simp add: reflp_def)
    next
      case 2
      then have "orders s' = map (\<lambda>r. r\<lparr>ord_courier_id := set_null i (ord_courier_id r)\<rparr>) (orders s)"
        by (simp add: delete_user_row_def)
      then show ?thesis by (rule orders_evolve_map) (simp add: order_le_def order_phase_def)
    qed
  qed
qed (intro frame_delete_user; simp)+

section \<open>Bodies\<close>

lemma frame_ensure_account [frame_intro]:
  "(\<And>s f. g (accounts_update f s) = g s) \<Longrightarrow> (\<And>s i. g (s\<lparr>next_id := i\<rparr>) = g s) \<Longrightarrow> frame g (ensure_account u ty nm)"
  "(\<And>s f. g (accounts_update f s) = g s) \<Longrightarrow> (\<And>s i. g (s\<lparr>next_id := i\<rparr>) = g s) \<Longrightarrow> frame g (ensure_courier_account ur)"
  "(\<And>s f. g (inventories_update f s) = g s) \<Longrightarrow> (\<And>s i. g (s\<lparr>next_id := i\<rparr>) = g s) \<Longrightarrow> frame g (ensure_inventory u ity nm)"
  unfolding ensure_account_def ensure_courier_account_def create_courier_account_def ensure_inventory_def
  by (intro frame_intro; simp)+

lemmas user_bodies = register_client_body_def register_local_user_body_def update_user_body_def delete_staff_body_def
  delete_user_body_def new_client_def create_client_body_def add_client_address_body_def
  onboard_client_with_balance_body_def create_courier_body_def add_courier_inventory_body_def ensure_courier_account_def
  initial_balance_def first_order_def apply_identity_changes_def create_client_account_def create_courier_account_def
  create_client_inventory_def ensure_account_def ensure_inventory_def ensure_system_user_def ensure_walkin_def
  ensure_admin_def init_data_body_def Let_def

lemma keeps_user_bodies_fin [keeps_intro]:
  "keeps fin_explained (register_client_body hash rc)" "keeps fin_explained (register_local_user_body hash ru)"
  "keeps fin_explained (update_user_body hash i d)" "keeps fin_explained (delete_staff_body i)"
  "keeps fin_explained (delete_user_body i)" "keeps fin_explained (create_client_body cl)"
  "keeps fin_explained (add_client_address_body i nm)" "keeps fin_explained (onboard_client_with_balance_body ob i)"
  "keeps fin_explained (create_courier_body hash nm p pw)" "keeps fin_explained (add_courier_inventory_body i nm)"
  "keeps fin_explained (init_data_body hash po pwo)"
  unfolding user_bodies by (intro keeps_intro)+

lemma keeps_user_bodies_stock [keeps_intro]:
  "keeps stock_explained (register_client_body hash rc)" "keeps stock_explained (register_local_user_body hash ru)"
  "keeps stock_explained (update_user_body hash i d)" "keeps stock_explained (delete_staff_body i)"
  "keeps stock_explained (delete_user_body i)" "keeps stock_explained (create_client_body cl)"
  "keeps stock_explained (add_client_address_body i nm)" "keeps stock_explained (onboard_client_with_balance_body ob i)"
  "keeps stock_explained (create_courier_body hash nm p pw)" "keeps stock_explained (add_courier_inventory_body i nm)"
  "keeps stock_explained (init_data_body hash po pwo)"
  unfolding user_bodies by (intro keeps_intro)+

lemma keeps_user_bodies_quotas [keeps_intro]:
  "keeps quotas_ok (register_client_body hash rc)" "keeps quotas_ok (register_local_user_body hash ru)"
  "keeps quotas_ok (update_user_body hash i d)" "keeps quotas_ok (delete_staff_body i)"
  "keeps quotas_ok (delete_user_body i)" "keeps quotas_ok (create_client_body cl)"
  "keeps quotas_ok (add_client_address_body i nm)" "keeps quotas_ok (onboard_client_with_balance_body ob i)"
  "keeps quotas_ok (create_courier_body hash nm p pw)" "keeps quotas_ok (add_courier_inventory_body i nm)"
  "keeps quotas_ok (init_data_body hash po pwo)"
  unfolding user_bodies by (intro keeps_intro)+

lemma moves_user_bodies [moves_intro]:
  "moves db_evolve (register_client_body hash rc)" "moves db_evolve (register_local_user_body hash ru)"
  "moves db_evolve (update_user_body hash i d)" "moves db_evolve (delete_staff_body i)"
  "moves db_evolve (delete_user_body i)" "moves db_evolve (create_client_body cl)"
  "moves db_evolve (add_client_address_body i nm)" "moves db_evolve (onboard_client_with_balance_body ob i)"
  "moves db_evolve (create_courier_body hash nm p pw)" "moves db_evolve (add_courier_inventory_body i nm)"
  "moves db_evolve (init_data_body hash po pwo)"
  unfolding user_bodies
  by (intro moves_intro; simp add: order_phase_def order_draft_def phase_ok_def)+

section \<open>The invariant of the users' tables\<close>

text \<open>
  Primary keys, the unique constraints on identities and additional phones, the foreign keys, and the limit
  of additional phones, which only the service enforces.
\<close>

definition users_ok :: "db \<Rightarrow> bool" where
  "users_ok s \<longleftrightarrow> keys_distinct (users s) \<and> keys_distinct (identities s) \<and> keys_distinct (phone_numbers s)
     \<and> distinct (map identity_key (identities s)) \<and> distinct (map phn_phone (phone_numbers s))
     \<and> (\<forall>r\<in>set (identities s). tbl_has (idn_user_id r) (users s))
     \<and> (\<forall>r\<in>set (phone_numbers s). tbl_has (phn_user_id r) (users s))
     \<and> (\<forall>u. count_by_user u s \<le> MAX_ADDITIONAL_PHONES)"

text \<open>The users the system itself needs are there and active.\<close>

definition protected_ok :: "db \<Rightarrow> bool" where
  "protected_ok s \<longleftrightarrow> (\<forall>i\<in>PROTECTED_USER_IDS. tbl_get i True (users s) \<noteq> None)"

abbreviation user_tables :: "db \<Rightarrow> user_row list \<times> identity_row list \<times> phone_row list" where
  "user_tables s \<equiv> (users s, identities s, phone_numbers s)"

lemma users_ok_frame: "frame user_tables m \<Longrightarrow> keeps users_ok m"
  by (auto simp: frame_def keeps_def users_ok_def count_by_user_def)

lemma protected_ok_frame: "frame users m \<Longrightarrow> keeps protected_ok m"
  by (auto simp: frame_def keeps_def protected_ok_def)

lemma active_update:
  assumes "\<And>r. row_id (f r) = row_id r"
  shows "(\<exists>r\<in>set (tbl_update now i f t). row_id r = j \<and> is_active r) \<longleftrightarrow>
    (\<exists>r\<in>set t. row_id r = j \<and> (if j = i then is_active (f r) else is_active r))"
  using assms by (induction t) (auto simp: tbl_update_def)

lemma tbl_get_ex: "tbl_get j True t \<noteq> None \<longleftrightarrow> (\<exists>r\<in>set t. row_id r = j \<and> is_active r)"
  by (induction t) (auto simp: tbl_get_def)

lemma length_filter_filter: "length (filter P (filter Q t)) \<le> length (filter P t)"
  by (induction t) auto

lemma count_by_user_filter:
  assumes "users_ok s" "phone_numbers s' = filter Q (phone_numbers s)"
  shows "count_by_user u s' \<le> MAX_ADDITIONAL_PHONES"
proof -
  have "count_by_user u s' \<le> count_by_user u s"
    unfolding count_by_user_def assms(2) by (rule length_filter_filter)
  also have "\<dots> \<le> MAX_ADDITIONAL_PHONES" using assms(1) by (simp add: users_ok_def)
  finally show ?thesis .
qed

lemma keeps_users_inserts [keeps_intro]:
  "keeps users_ok (insert_user u)" "keeps users_ok (insert_user_with_id i u)" "keeps users_ok (insert_identity r)"
  "keeps users_ok (add_local i p h)"
proof -
  show id: "keeps users_ok (insert_identity r)" for r
    by (rule keepsI) (auto simp: insert_identity_def identity_constraints_def tx_iff users_ok_def keys_distinct_def
      tbl_has_def count_by_user_def tbl_add_def stamp_def list_ex_iff)
  show "keeps users_ok (add_local i p h)" unfolding add_local_def by (rule id)
  show "keeps users_ok (insert_user u)" "keeps users_ok (insert_user_with_id i u)"
    by (rule keepsI; auto simp: insert_user_def insert_user_with_id_def tx_iff users_ok_def keys_distinct_add count_by_user_def)+
qed

lemma keeps_users_phones [keeps_intro]:
  "keeps users_ok (add_phone_body i p l)" "keeps users_ok (update_phone_body i j lo)" "keeps users_ok (remove_phone_body i j)"
proof -
  show "keeps users_ok (add_phone_body i p l)"
  proof (rule keepsI)
    fix s x s' assume ok: "users_ok s" and run: "add_phone_body i p l s = Inr (x, s')"
    then have few: "count_by_user i s < MAX_ADDITIONAL_PHONES"
      and new: "phone_numbers s' = phone_numbers s @ [x]" "phn_phone x \<notin> phn_phone ` set (phone_numbers s)"
        "\<not> tbl_has (row_id x) (phone_numbers s)" "phn_user_id x = i" "tbl_has i (users s)"
      and same: "users s' = users s" "identities s' = identities s"
      by (auto simp: add_phone_body_def insert_phone_def check_phone_globally_unique_def tx_iff tbl_add_def stamp_def
        phone_draft_def list_ex_iff)
    have "count_by_user u s' \<le> MAX_ADDITIONAL_PHONES" for u
      using ok few new by (auto simp: users_ok_def count_by_user_def)
    with ok new same show "users_ok s'"
      by (auto simp: users_ok_def keys_distinct_def tbl_has_def image_iff)
  qed
  show "keeps users_ok (update_phone_body i j lo)"
  proof (rule keepsI)
    fix s x s' assume ok: "users_ok s" and run: "update_phone_body i j lo s = Inr (x, s')"
    let ?f = "\<lambda>r. if row_id r = j then r\<lparr>phn_label := (case lo of None \<Rightarrow> phn_label r | Some l \<Rightarrow> l), updated_at := clock s\<rparr> else r"
    have s': "phone_numbers s' = map ?f (phone_numbers s)" "users s' = users s" "identities s' = identities s"
      using run by (auto simp: update_phone_body_def require_phone_def tx_iff tbl_update_def)
    have same: "map row_id (map ?f t) = map row_id t" "map phn_phone (map ?f t) = map phn_phone t"
      "length (filter (\<lambda>r. phn_user_id r = u \<and> is_active r) (map ?f t)) = length (filter (\<lambda>r. phn_user_id r = u \<and> is_active r) t)" for t u
      by (induction t) auto
    show "users_ok s'"
      using ok unfolding users_ok_def count_by_user_def keys_distinct_def s' same by auto
  qed
  show "keeps users_ok (remove_phone_body i j)"
  proof (rule keepsI)
    fix s x s' assume ok: "users_ok s" and run: "remove_phone_body i j s = Inr (x, s')"
    have "count_by_user u s' \<le> MAX_ADDITIONAL_PHONES" for u
      by (rule count_by_user_filter [OF ok])
        (use run in \<open>auto simp: remove_phone_body_def require_phone_def tx_iff tbl_delete_def\<close>)
    with ok run show "users_ok s'"
      by (auto simp: users_ok_def remove_phone_body_def require_phone_def tx_iff keys_distinct_def tbl_delete_def
        intro: distinct_map_filter)
  qed
qed

lemma keeps_users_updates [keeps_intro]:
  "keeps users_ok (update_identity i po ho)" "keeps users_ok (repo_update_user i d)" "keeps users_ok (repo_archive_user i)"
  "keeps users_ok (repo_delete_user i)"
proof -
  show "keeps users_ok (repo_update_user i d)" "keeps users_ok (repo_archive_user i)"
    unfolding repo_update_user_def repo_archive_user_def
    by (rule keepsI; auto simp: tx_iff users_ok_def keys_distinct_update tbl_has_update count_by_user_def apply_user_update_def
      split: option.splits)+
  show "keeps users_ok (repo_delete_user i)"
  proof (rule keepsI)
    fix s x s' assume ok: "users_ok s" and run: "repo_delete_user i s = Inr (x, s')"
    then consider "s' = s" | "s' = delete_user_row i s" by (auto simp: repo_delete_user_def tx_iff split: option.splits)
    then show "users_ok s'"
    proof cases
      case 2
      have "count_by_user u s' \<le> MAX_ADDITIONAL_PHONES" for u
        by (rule count_by_user_filter [OF ok]) (simp add: 2 delete_user_row_def)
      with ok show ?thesis
        unfolding users_ok_def
        by (simp add: 2 delete_user_row_def keys_distinct_delete) (simp add: keys_distinct_def distinct_map_filter)
    qed (use ok in simp)
  qed
  show "keeps users_ok (update_identity i po ho)"
  proof (rule keepsI)
    fix s x s' assume ok: "users_ok s" and run: "update_identity i po ho s = Inr (x, s')"
    let ?g = "\<lambda>r. r\<lparr>idn_provider_identity_id := (case po of None \<Rightarrow> idn_provider_identity_id r | Some p \<Rightarrow> p),
      idn_password_hash := (case ho of None \<Rightarrow> idn_password_hash r | Some x \<Rightarrow> Some x), updated_at := clock s\<rparr>"
    let ?f = "\<lambda>r. if row_id r = i then ?g r else r"
    have s': "identities s' = map ?f (identities s)" "users s' = users s" "phone_numbers s' = phone_numbers s"
      using run by (auto simp: update_identity_def identity_constraints_def tx_iff tbl_update_def)
    obtain r where r: "r \<in> set (identities s)" "row_id r = i"
      and free: "\<And>x. x \<in> set (identities s) \<Longrightarrow> row_id x \<noteq> i \<Longrightarrow> identity_key x \<noteq> identity_key (?g r)"
      using run by (auto simp: update_identity_def identity_constraints_def tx_iff list_ex_iff dest: tbl_get_SomeD)
    have keys: "distinct (map row_id (identities s))" using ok by (simp add: users_ok_def keys_distinct_def)
    have only: "x = r" if "x \<in> set (identities s)" "row_id x = i" for x
      using distinct_key_eq [OF keys that(1) r(1)] that(2) r(2) by simp
    have "inj_on (identity_key \<circ> ?f) (set (identities s))"
    proof (rule inj_onI)
      fix x y assume x: "x \<in> set (identities s)" and y: "y \<in> set (identities s)" and eq: "(identity_key \<circ> ?f) x = (identity_key \<circ> ?f) y"
      have dk: "distinct (map identity_key (identities s))" using ok by (simp add: users_ok_def)
      show "x = y"
      proof (cases "row_id x = i"; cases "row_id y = i")
        assume "row_id x = i" "row_id y = i" then show ?thesis using only x y by metis
      next
        assume "row_id x = i" "row_id y \<noteq> i" then show ?thesis using free [OF y] only [OF x] eq by auto
      next
        assume "row_id x \<noteq> i" "row_id y = i" then show ?thesis using free [OF x] only [OF y] eq by auto
      next
        assume "row_id x \<noteq> i" "row_id y \<noteq> i" then show ?thesis using eq distinct_key_eq [OF dk x y] by simp
      qed
    qed
    then have "distinct (map identity_key (map ?f (identities s)))"
      using keys by (simp add: distinct_map comp_def)
    moreover have same: "map row_id (map ?f (identities s)) = map row_id (identities s)" by simp
    have "keys_distinct (map ?f (identities s))" using keys unfolding keys_distinct_def same .
    moreover have "\<forall>r\<in>set (map ?f (identities s)). tbl_has (idn_user_id r) (users s)"
      using ok by (auto simp: users_ok_def)
    ultimately show "users_ok s'" using ok unfolding users_ok_def count_by_user_def s' by blast
  qed
qed

lemma keeps_users_other [keeps_intro]:
  "keeps users_ok (create_account u ty nm)" "keeps users_ok (insert_inventory v)" "keeps users_ok (insert_order ord)"
  "keeps users_ok (add_order_items ois)" "keeps users_ok (insert_transfer tr)" "keeps users_ok (insert_transfer_item ti)"
  "keeps users_ok (insert_stock_transaction st)"
  by (rule users_ok_frame; intro frame_intro; simp)+

lemma keeps_users_bodies [keeps_intro]:
  "keeps users_ok (register_client_body hash rc)" "keeps users_ok (register_local_user_body hash ru)"
  "keeps users_ok (update_user_body hash i d)" "keeps users_ok (delete_staff_body i)"
  "keeps users_ok (delete_user_body i)" "keeps users_ok (archive_user_body i)" "keeps users_ok (create_client_body cl)"
  "keeps users_ok (add_client_address_body i nm)" "keeps users_ok (onboard_client_with_balance_body ob i)"
  "keeps users_ok (create_courier_body hash nm p pw)" "keeps users_ok (add_courier_inventory_body i nm)"
  "keeps users_ok (init_data_body hash po pwo)"
  unfolding user_bodies archive_user_body_def by (intro keeps_intro)+

section \<open>The protected users\<close>

lemma protected_okI: "(\<And>j. j \<in> PROTECTED_USER_IDS \<Longrightarrow> tbl_get j True (users s) \<noteq> None \<Longrightarrow> tbl_get j True (users s') \<noteq> None)
  \<Longrightarrow> protected_ok s \<Longrightarrow> protected_ok s'"
  by (auto simp: protected_ok_def)

lemma keeps_protected_inserts [keeps_intro]:
  "keeps protected_ok (insert_user u)" "keeps protected_ok (insert_user_with_id i u)"
  by (rule keepsI; erule protected_okI [rotated];
      auto simp: insert_user_def insert_user_with_id_def tx_iff tbl_get_add split: option.splits)+

lemma keeps_protected_other [keeps_intro]:
  "keeps protected_ok (insert_identity r)" "keeps protected_ok (add_local i p h)" "keeps protected_ok (update_identity i po ho)"
  "keeps protected_ok (insert_phone ph)" "keeps protected_ok (add_phone_body i p l)"
  "keeps protected_ok (update_phone_body i j lo)" "keeps protected_ok (remove_phone_body i j)"
  "keeps protected_ok (create_account u ty nm)" "keeps protected_ok (insert_inventory v)" "keeps protected_ok (insert_order ord)"
  "keeps protected_ok (add_order_items ois)" "keeps protected_ok (insert_transfer tr)" "keeps protected_ok (insert_transfer_item ti)"
  "keeps protected_ok (insert_stock_transaction st)"
  unfolding insert_identity_def add_local_def update_identity_def insert_phone_def add_phone_body_def
    update_phone_body_def remove_phone_body_def Let_def
  by (rule protected_ok_frame; intro frame_intro; simp)+

lemma keeps_protected_unprotected [keeps_intro]:
  assumes "i \<notin> PROTECTED_USER_IDS"
  shows "keeps protected_ok (repo_delete_user i)" "keeps protected_ok (repo_archive_user i)"
proof -
  show "keeps protected_ok (repo_delete_user i)"
    using assms by (intro keepsI; elim protected_okI [rotated])
      (auto simp: repo_delete_user_def delete_user_row_def tx_iff tbl_get_delete split: option.splits if_splits)
  show "keeps protected_ok (repo_archive_user i)"
    using assms by (intro keepsI; elim protected_okI [rotated])
      (auto simp: repo_archive_user_def tx_iff active_update tbl_get_ex simp del: not_None_eq split: option.splits if_splits)
qed

lemma keeps_guarded: "(\<not> b \<Longrightarrow> keeps P (f ())) \<Longrightarrow> keeps P (tx_bind (tx_raise_if b e) f)"
  by (auto simp: keeps_def tx_iff)

lemma keeps_protected_update:
  assumes "\<not> (i \<in> PROTECTED_USER_IDS \<and> uu_is_active d = Some (Some False))"
  shows "keeps protected_ok (repo_update_user i d)"
proof (intro keepsI, elim protected_okI [rotated])
  fix s x s' j assume run: "repo_update_user i d s = Inr (x, s')" and j: "j \<in> PROTECTED_USER_IDS" "tbl_get j True (users s) \<noteq> None"
  have upd: "users s' = tbl_update (clock s) i (apply_user_update d) (users s)"
    using run by (auto simp: repo_update_user_def tx_iff)
  have row: "row_id (apply_user_update d r) = row_id r" for r by (simp add: apply_user_update_def)
  have "is_active (apply_user_update d r)" if "is_active r" "j = i" for r
    using that assms j(1) by (auto simp: apply_user_update_def split: option.splits)
  then show "tbl_get j True (users s') \<noteq> None"
    using j(2) unfolding tbl_get_ex upd active_update [of "apply_user_update d", OF row] by auto
qed

lemma keeps_protected_bodies [keeps_intro]:
  "keeps protected_ok (register_client_body hash rc)" "keeps protected_ok (register_local_user_body hash ru)"
  "keeps protected_ok (create_client_body cl)"
  "keeps protected_ok (add_client_address_body i nm)" "keeps protected_ok (onboard_client_with_balance_body ob i)"
  "keeps protected_ok (create_courier_body hash nm p pw)" "keeps protected_ok (add_courier_inventory_body i nm)"
  "keeps protected_ok (init_data_body hash po pwo)"
  unfolding user_bodies by (intro keeps_intro)+

lemma keeps_protected_removals [keeps_intro]:
  "keeps protected_ok (delete_staff_body i)" "keeps protected_ok (delete_user_body i)" "keeps protected_ok (archive_user_body i)"
  unfolding delete_staff_body_def delete_user_body_def archive_user_body_def
  by (rule keeps_guarded; intro keeps_intro; assumption)+

lemma keeps_protected_update_user [keeps_intro]: "keeps protected_ok (update_user_body hash i d)"
  unfolding update_user_body_def apply_identity_changes_def ensure_courier_account_def create_courier_account_def Let_def
  by (rule keeps_guarded) (intro keeps_intro keeps_protected_update; simp add: user_update.truncate_def)

section \<open>What registration leaves\<close>

lemma registered_identity:
  assumes ok: "users_ok s" and reg: "register_local_user hash dto s = (Inr u, s')"
  shows "\<exists>r. get_with_identity AP_LOCAL (uac_phone dto) s' = Some (u, r) \<and> idn_password_hash r = Some (hash (uac_password dto))
    \<and> usr_role u = uac_role dto \<and> usr_username u = uac_username dto \<and> \<not> tbl_has (row_id u) (users s)"
proof -
  obtain i where "register_local_user_body hash dto s = Inr (i, s')" and load: "load_user i s' = Inr u"
    using reg by (auto simp: register_local_user_def commit_then_Inr)
  then obtain w s1 r s2 b where ins: "insert_user (user_draft (uac_username dto) (uac_role dto)) s = Inr (w, s1)"
    and idn: "insert_identity (identity_draft (row_id w) AP_LOCAL (uac_phone dto) (Some (hash (uac_password dto)))) s1 = Inr (r, s2)"
    and acc: "ensure_courier_account w s2 = Inr (b, s')" and i: "i = row_id w"
    unfolding register_local_user_body_def phone_not_registered_def tx_bind_iff tx_ret_iff tx_get_iff tx_raise_if_iff by auto
  have "frame user_tables (ensure_courier_account w)" by (intro frame_intro; simp)
  from frameD [OF this acc] have same: "users s' = users s2" "identities s' = identities s2" by auto
  have w: "users s2 = users s @ [w]" "\<not> tbl_has (row_id w) (users s)" "is_active w" "usr_role w = uac_role dto"
      "usr_username w = uac_username dto"
    using ins idn by (auto simp: insert_user_def insert_identity_def identity_constraints_def user_draft_def stamp_def
      tx_iff tbl_add_def)
  have r: "identities s2 = identities s @ [r]" "idn_user_id r = row_id w" "idn_provider r = AP_LOCAL"
      "idn_provider_identity_id r = uac_phone dto" "idn_password_hash r = Some (hash (uac_password dto))"
      "\<forall>x\<in>set (identities s). idn_provider x = AP_LOCAL \<longrightarrow> idn_provider_identity_id x \<noteq> uac_phone dto"
    using ins idn by (auto simp: insert_user_def insert_identity_def identity_constraints_def identity_draft_def stamp_def
      tx_iff tbl_add_def list_ex_iff)
  have idns: "concat (map (\<lambda>x. if idn_provider x = AP_LOCAL \<and> idn_provider_identity_id x = uac_phone dto
      then F x else []) (identities s)) = []" for F :: "identity_row \<Rightarrow> (user_row \<times> identity_row) list"
    using r(6) by (auto simp: concat_eq_Nil_conv)
  have us: "concat (map (\<lambda>x. if row_id x = row_id w \<and> is_active x then [(x, r)] else []) (users s)) = []"
    using w(2) by (auto simp: concat_eq_Nil_conv tbl_has_def)
  have "get_with_identity AP_LOCAL (uac_phone dto) s' = Some (w, r)"
    by (simp add: get_with_identity_def same limit_1_def w(1,3) r(1-4) idns us del: concat_eq_Nil_conv)
  moreover have "u = w"
    using load w same by (auto simp: load_user_def i tbl_get_def find_append tbl_has_def find_None_all
      dest: find_Some_in split: option.splits)
  ultimately show ?thesis using w r by blast
qed

lemma created_without_phone:
  assumes ok: "users_ok s" and "clr_phone dto = None" "client_request_ok (clr_role dto) (clr_phone dto)"
    and run: "create_client_body dto s = Inr (i, s')"
  shows "\<exists>u. get_client_by_id i s' = Some u \<and> usr_username u = clr_username dto \<and> \<not> tbl_has i (users s)
    \<and> filter (\<lambda>r. idn_user_id r = i \<and> idn_provider r = AP_LOCAL) (identities s') = []"
proof -
  let ?m = "\<lambda>w. tx_bind (create_client_account (row_id w) (clr_username dto)) (\<lambda>_.
     tx_bind (case clr_address_name dto of
         None \<Rightarrow> tx_ret ()
       | Some nm \<Rightarrow> tx_when (nm \<noteq> []) (tx_bind (create_client_inventory (row_id w) nm) (\<lambda>_. tx_ret ()))) (\<lambda>_.
     tx_ret (row_id w)))"
  obtain w s1 where ins: "insert_user (user_draft (clr_username dto) (clr_role dto)) s = Inr (w, s1)"
    and rest: "?m w s1 = Inr (i, s')"
    using run assms(2)
    by (fastforce simp: create_client_body_def new_client_def client_phone_free_def tx_bind_iff tx_ret_iff)
  have "frame user_tables (?m w)"
    unfolding create_client_account_def create_client_inventory_def by (intro frame_intro; simp)
  from frameD [OF this rest] have same: "users s' = users s1" "identities s' = identities s1" by auto
  have "i = row_id w" using rest by (auto simp: tx_iff)
  moreover have w: "users s1 = users s @ [w]" "identities s1 = identities s" "\<not> tbl_has (row_id w) (users s)" "is_active w"
      "usr_role w = clr_role dto" "usr_username w = clr_username dto"
    using ins by (auto simp: insert_user_def user_draft_def stamp_def tx_iff tbl_add_def)
  moreover have "\<forall>r\<in>set (identities s). idn_user_id r \<noteq> row_id w" using ok w(3) by (auto simp: users_ok_def)
  moreover have "get_client_by_id (row_id w) s' = Some w"
    using w same assms(2,3) by (auto simp: get_client_by_id_def client_request_ok_def find_append tbl_has_def find_None_all
      dest: find_Some_in split: option.splits)
  ultimately show ?thesis using same by (auto simp: filter_empty_conv)
qed

end
