(* ===== verification/ServiceLaws.thy ===== *)
theory ServiceLaws
  imports UserLaws OrderGuards Billing Catalog
begin

text \<open>
  Which tables each service leaves alone, and from it what the services keep of the invariants of the
  other components.
\<close>

section \<open>Billing\<close>

lemma frame_billing [frame_intro]:
  assumes "\<And>s f. g (accounts_update f s) = g s" "\<And>s f. g (transactions_update f s) = g s"
    "\<And>s i. g (s\<lparr>next_id := i\<rparr>) = g s"
  shows "frame g (create_transaction_body f t amount reason ord u)" "frame g (verify_transaction_body i u)"
    "frame g (reject_transaction_body i u r)" "frame g (accept_payment_body c amount method reason u ord)"
  using assms
  unfolding create_transaction_body_def verify_transaction_body_def reject_transaction_body_def accept_payment_body_def
    pending_transaction_def Let_def
  by (intro frame_intro; simp)+

section \<open>Inventories\<close>

lemma frame_inventory_reads [frame_intro]:
  "frame g (check_transfer_scope ty sc)" "frame g (check_active_products items)"
  "frame g (resolve_endpoints rq)" "frame g (check_route ty f t)" "frame g (check_stock fv items)"
  unfolding check_transfer_scope_def check_active_products_def resolve_endpoints_def check_route_def
    check_stock_def get_vendor_inventory_def Let_def
  by (auto intro!: frame_intro split: option.splits transfer_type.splits)

lemma frame_inventory_services [frame_intro]:
  assumes "\<And>s f. g (inventories_update f s) = g s" "\<And>s f. g (stock_transfers_update f s) = g s"
    "\<And>s f. g (stock_transfer_items_update f s) = g s" "\<And>s f. g (inventory_balances_update f s) = g s"
    "\<And>s f. g (stock_transactions_update f s) = g s" "\<And>s i. g (s\<lparr>next_id := i\<rparr>) = g s"
  shows "frame g (create_transport_body u nm)" "frame g (update_transport_body i uo nmo)"
    "frame g (delete_transport_body i)" "frame g (create_warehouse_body u nm)"
    "frame g (update_warehouse_body lower i uo nmo)" "frame g (archive_warehouse_body i)"
    "frame g (create_transfer_body u rq sc)" "frame g (capitalize_tara_body i items u)"
    "frame g (capitalize_tara_for_client_body i items u)" "frame g (capitalize_deficit_body i items u)"
  using assms
  unfolding create_transport_body_def update_transport_body_def delete_transport_body_def
    create_warehouse_body_def update_warehouse_body_def archive_warehouse_body_def create_transfer_body_def
    capitalize_tara_body_def capitalize_tara_for_client_body_def capitalize_deficit_body_def
    capitalize_to_def post_lines_def update_inventory_def delete_inventory_def Let_def
  by (intro frame_intro; simp)+

section \<open>Contracts and orders\<close>

lemma user_tables_contracts:
  "frame user_tables (create_contract_body u cc)" "frame user_tables (activate_contract_body c u)"
  "frame user_tables (suspend_contract_body c re po)" "frame user_tables (reinstate_contract_body c po)"
  "frame user_tables (terminate_contract_body c re po)" "frame user_tables (update_contract_body c cu)"
  "frame user_tables (set_price_item_body c p a b)" "frame user_tables (remove_price_item_body c p)"
  "frame user_tables (generate_invoice_body c a b)" "frame user_tables (issue_invoice_body c i)"
  "frame user_tables (mark_invoice_paid_body c i)" "frame user_tables (cancel_invoice_body c i)"
  "frame user_tables (create_amendment_body c n re a po)" "frame user_tables run_overdue_job_body"
  "frame user_tables run_expire_job_body"
  unfolding contract_bodies cancel_inflight_defs by (intro frame_intro; simp)+

lemma frame_list_case [frame_intro]:
  "(v = [] \<Longrightarrow> frame f m) \<Longrightarrow> (\<And>x xs. v = x # xs \<Longrightarrow> frame f (n x xs)) \<Longrightarrow> frame f (case v of [] \<Rightarrow> m | x # xs \<Rightarrow> n x xs)"
  by (cases v) auto

lemma user_tables_hand_over [frame_intro]:
  "frame user_tables (handle_order_fulfillment ord actual)" "frame user_tables (handle_warehouse_pickup ord u)"
  unfolding handle_order_fulfillment_def handle_warehouse_pickup_def by (intro frame_intro; simp)+

lemma user_tables_orders:
  "frame user_tables (create_order_body u dto)" "frame user_tables (create_warehouse_sale_body w ou u)"
  "frame user_tables (complete_pickup_body i u)" "frame user_tables (add_product_to_order_body i p q ou)"
  "frame user_tables (remove_product_from_order_body i p ou)" "frame user_tables (assign_courier_body i u)"
  "frame user_tables (update_status_body i st act ou ro)" "frame user_tables (expire_stale_orders_body a b ou)"
  unfolding create_order_body_def create_warehouse_sale_body_def complete_pickup_body_def add_product_to_order_body_def
    book_contract_line_def remove_product_from_order_body_def assign_courier_body_def update_status_body_def
    expire_stale_orders_body_def expire_batch_def expire_order_def Let_def
  by (intro frame_intro; simp)+

section \<open>What the services keep of the other components\<close>

lemma keeps_fin_services [keeps_intro]:
  "keeps fin_explained (create_transport_body u nm)" "keeps fin_explained (update_transport_body i uo nmo)"
  "keeps fin_explained (delete_transport_body i)" "keeps fin_explained (create_warehouse_body u nm)"
  "keeps fin_explained (update_warehouse_body lower i uo nmo)" "keeps fin_explained (archive_warehouse_body i)"
  "keeps fin_explained (create_transfer_body u rq sc)" "keeps fin_explained (capitalize_tara_body i items u)"
  "keeps fin_explained (capitalize_tara_for_client_body i items u)"
  "keeps fin_explained (capitalize_deficit_body i items u)" "keeps fin_explained (add_product_body pr)"
  "keeps fin_explained (update_product_body i pu)" "keeps fin_explained (archive_product_body i)"
  "keeps fin_explained (restore_product_body i)" "keeps fin_explained (hard_delete_body i)"
  by (rule fin_explained_frame; intro frame_intro; simp)+

lemma keeps_stock_services [keeps_intro]:
  "keeps stock_explained (create_transaction_body f t amount reason ord u)"
  "keeps stock_explained (verify_transaction_body i u)" "keeps stock_explained (reject_transaction_body i u ro)"
  "keeps stock_explained (accept_payment_body c amount method reason u ord)"
  by (rule stock_explained_frame; intro frame_intro; simp)+

lemma keeps_stock_catalog [keeps_intro]:
  "keeps stock_explained (add_product_body pr)" "keeps stock_explained (update_product_body i pu)"
  "keeps stock_explained (archive_product_body i)" "keeps stock_explained (restore_product_body i)"
  "keeps stock_explained (hard_delete_body i)"
  by (rule stock_explained_frame; intro frame_intro; simp)+

lemma keeps_quotas_services [keeps_intro]:
  "keeps quotas_ok (create_transaction_body f t amount reason ord u)" "keeps quotas_ok (verify_transaction_body i u)"
  "keeps quotas_ok (reject_transaction_body i u ro)"
  "keeps quotas_ok (accept_payment_body c amount method reason u ord)" "keeps quotas_ok (create_transport_body u nm)"
  "keeps quotas_ok (update_transport_body i uo nmo)" "keeps quotas_ok (delete_transport_body i)"
  "keeps quotas_ok (create_warehouse_body u nm)" "keeps quotas_ok (update_warehouse_body lower i uo nmo)"
  "keeps quotas_ok (archive_warehouse_body i)" "keeps quotas_ok (create_transfer_body u rq sc)"
  "keeps quotas_ok (capitalize_tara_body i items u)" "keeps quotas_ok (capitalize_tara_for_client_body i items u)"
  "keeps quotas_ok (capitalize_deficit_body i items u)" "keeps quotas_ok (add_product_body pr)"
  "keeps quotas_ok (update_product_body i pu)" "keeps quotas_ok (archive_product_body i)"
  "keeps quotas_ok (restore_product_body i)" "keeps quotas_ok (hard_delete_body i)"
  by (rule quotas_ok_frame; intro frame_intro; simp)+

lemma moves_services [moves_intro]:
  "moves db_evolve (create_transaction_body f t amount reason ord u)" "moves db_evolve (verify_transaction_body i u)"
  "moves db_evolve (reject_transaction_body i u ro)"
  "moves db_evolve (accept_payment_body c amount method reason u ord)" "moves db_evolve (create_transport_body u nm)"
  "moves db_evolve (update_transport_body i uo nmo)" "moves db_evolve (delete_transport_body i)"
  "moves db_evolve (create_warehouse_body u nm)" "moves db_evolve (update_warehouse_body lower i uo nmo)"
  "moves db_evolve (archive_warehouse_body i)" "moves db_evolve (create_transfer_body u rq sc)"
  "moves db_evolve (capitalize_tara_body i items u)" "moves db_evolve (capitalize_tara_for_client_body i items u)"
  "moves db_evolve (capitalize_deficit_body i items u)" "moves db_evolve (add_product_body pr)"
  "moves db_evolve (update_product_body i pu)" "moves db_evolve (archive_product_body i)"
  "moves db_evolve (restore_product_body i)" "moves db_evolve (hard_delete_body i)"
  by (rule moves_db_other; intro frame_intro; simp)+

lemma users_kept: "frame user_tables m \<Longrightarrow> keeps users_ok m \<and> keeps protected_ok m"
  using users_ok_frame protected_ok_frame [of m] by (auto simp: frame_def)

lemma user_tables_services:
  "frame user_tables (create_transaction_body f t amount reason ord u)"
  "frame user_tables (verify_transaction_body i u)" "frame user_tables (reject_transaction_body i u ro)"
  "frame user_tables (accept_payment_body c amount method reason u ord)"
  "frame user_tables (create_transport_body u nm)" "frame user_tables (update_transport_body i uo nmo)"
  "frame user_tables (delete_transport_body i)" "frame user_tables (create_warehouse_body u nm)"
  "frame user_tables (update_warehouse_body lower i uo nmo)" "frame user_tables (archive_warehouse_body i)"
  "frame user_tables (create_transfer_body u rq sc)" "frame user_tables (capitalize_tara_body i items u)"
  "frame user_tables (capitalize_tara_for_client_body i items u)"
  "frame user_tables (capitalize_deficit_body i items u)" "frame user_tables (add_product_body pr)"
  "frame user_tables (update_product_body i pu)" "frame user_tables (archive_product_body i)"
  "frame user_tables (restore_product_body i)" "frame user_tables (hard_delete_body i)"
  by (intro frame_intro; simp)+

lemmas users_kept_services = user_tables_services user_tables_contracts user_tables_orders
lemmas keeps_users_services [keeps_intro] = users_kept_services [THEN users_kept, THEN conjunct1]
  users_kept_services [THEN users_kept, THEN conjunct2]

end
