(* ===== verification/System.thy ===== *)
theory System
  imports ServiceLaws
begin

text \<open>
  The services together: every method that writes, as a request; the database after a request; the states
  that a server reaches from an empty database by its start-up, then by any sequence of requests, in any order
  and with any arguments, while the clock advances. A request that raises leaves the database as it was,
  or as it was committed.
\<close>

section \<open>Requests\<close>

datatype finance_request =
    Create_Transaction uuid uuid int string "uuid option" uuid
  | Verify_Transaction uuid uuid
  | Reject_Transaction uuid uuid "string option"
  | Accept_Payment uuid int string string uuid "uuid option"

datatype catalog_request =
    Add_Product product_row
  | Update_Product uuid product_update
  | Archive_Product uuid
  | Restore_Product uuid
  | Hard_Delete uuid

datatype inventory_request =
    Create_Transport uuid string
  | Update_Transport uuid "uuid option option" "string option option"
  | Delete_Transport uuid
  | Create_Warehouse uuid string
  | Update_Warehouse uuid "uuid option option" "string option option"
  | Archive_Warehouse uuid
  | Create_Transfer uuid transfer_request "string list option"
  | Capitalize_Tara uuid "item list" uuid
  | Capitalize_Tara_For_Client uuid "item list" uuid
  | Capitalize_Deficit uuid "item list" uuid

datatype contract_request =
    Create_Contract uuid contract_create
  | Activate_Contract uuid uuid
  | Suspend_Contract uuid string "uuid option"
  | Reinstate_Contract uuid "uuid option"
  | Terminate_Contract uuid string "uuid option"
  | Update_Contract uuid contract_update
  | Set_Price_Item uuid uuid int int
  | Remove_Price_Item uuid uuid
  | Generate_Invoice uuid date date
  | Issue_Invoice uuid uuid
  | Mark_Invoice_Paid uuid uuid
  | Cancel_Invoice uuid uuid
  | Create_Amendment uuid string string date "uuid option"
  | Run_Overdue_Job
  | Run_Expire_Job

datatype order_request =
    Create_Order uuid order_create
  | Create_Warehouse_Sale warehouse_sale "uuid option" uuid
  | Complete_Pickup uuid uuid
  | Add_Product_To_Order uuid uuid int "uuid option"
  | Remove_Product_From_Order uuid uuid "uuid option"
  | Assign_Courier uuid uuid
  | Update_Status uuid order_status "item list" "uuid option" "string option"
  | Expire_Stale_Orders int int "uuid option"

datatype user_request =
    Register_Client user_client_create
  | Register_Local_User user_admin_create
  | Update_User uuid user_admin_update
  | Delete_Staff uuid
  | Archive_User uuid
  | Delete_User uuid
  | Add_Phone uuid string "string option"
  | Update_Phone uuid uuid "string option option"
  | Remove_Phone uuid uuid
  | Create_Client client_create
  | Add_Client_Address uuid string
  | Onboard_Client client_onboarding_request uuid
  | Create_Courier string string string
  | Add_Courier_Inventory uuid string
  | Init_Data "string option" "string option"

datatype request =
    Finance finance_request
  | Catalog_Request catalog_request
  | Inventory_Request inventory_request
  | Contract_Request contract_request
  | Order_Request order_request
  | User_Request user_request

section \<open>The database after a request\<close>

primrec after_finance :: "finance_request \<Rightarrow> db \<Rightarrow> db" where
  "after_finance (Create_Transaction f t amount reason ord u) s = snd (create_transaction f t amount reason ord u s)"
| "after_finance (Verify_Transaction i u) s = snd (verify_transaction i u s)"
| "after_finance (Reject_Transaction i u r) s = snd (reject_transaction i u r s)"
| "after_finance (Accept_Payment c amount method reason u ord) s = snd (accept_payment c amount method reason u ord s)"

primrec after_catalog :: "catalog_request \<Rightarrow> db \<Rightarrow> db" where
  "after_catalog (Add_Product dto) s = snd (add_product dto s)"
| "after_catalog (Update_Product i u) s = snd (update_product i u s)"
| "after_catalog (Archive_Product i) s = snd (archive_product i s)"
| "after_catalog (Restore_Product i) s = snd (restore_product i s)"
| "after_catalog (Hard_Delete i) s = snd (hard_delete i s)"

primrec after_inventory :: "(char \<Rightarrow> char) \<Rightarrow> inventory_request \<Rightarrow> db \<Rightarrow> db" where
  "after_inventory lower (Create_Transport u nm) s = snd (create_transport u nm s)"
| "after_inventory lower (Update_Transport i u nm) s = snd (update_transport i u nm s)"
| "after_inventory lower (Delete_Transport i) s = snd (delete_transport i s)"
| "after_inventory lower (Create_Warehouse u nm) s = snd (create_warehouse u nm s)"
| "after_inventory lower (Update_Warehouse i u nm) s = snd (update_warehouse lower i u nm s)"
| "after_inventory lower (Archive_Warehouse i) s = snd (archive_warehouse i s)"
| "after_inventory lower (Create_Transfer u rq sc) s = snd (create_transfer u rq sc s)"
| "after_inventory lower (Capitalize_Tara i items u) s = snd (capitalize_tara i items u s)"
| "after_inventory lower (Capitalize_Tara_For_Client i items u) s = snd (capitalize_tara_for_client i items u s)"
| "after_inventory lower (Capitalize_Deficit i items u) s = snd (capitalize_deficit i items u s)"

primrec after_contract :: "contract_request \<Rightarrow> db \<Rightarrow> db" where
  "after_contract (Create_Contract u dto) s = snd (create_contract u dto s)"
| "after_contract (Activate_Contract c u) s = snd (activate_contract c u s)"
| "after_contract (Suspend_Contract c re u) s = snd (suspend_contract c re u s)"
| "after_contract (Reinstate_Contract c u) s = snd (reinstate_contract c u s)"
| "after_contract (Terminate_Contract c re u) s = snd (terminate_contract c re u s)"
| "after_contract (Update_Contract c d) s = snd (update_contract c d s)"
| "after_contract (Set_Price_Item c p price q) s = snd (set_price_item c p price q s)"
| "after_contract (Remove_Price_Item c p) s = snd (remove_price_item c p s)"
| "after_contract (Generate_Invoice c a b) s = snd (generate_invoice c a b s)"
| "after_contract (Issue_Invoice c i) s = snd (issue_invoice c i s)"
| "after_contract (Mark_Invoice_Paid c i) s = snd (mark_invoice_paid c i s)"
| "after_contract (Cancel_Invoice c i) s = snd (cancel_invoice c i s)"
| "after_contract (Create_Amendment c n re d u) s = snd (create_amendment c n re d u s)"
| "after_contract Run_Overdue_Job s = snd (run_overdue_job s)"
| "after_contract Run_Expire_Job s = snd (run_expire_job s)"

primrec after_order :: "order_request \<Rightarrow> db \<Rightarrow> db" where
  "after_order (Create_Order u dto) s = snd (create_order u dto s)"
| "after_order (Create_Warehouse_Sale dto c u) s = snd (create_warehouse_sale dto c u s)"
| "after_order (Complete_Pickup i u) s = snd (complete_pickup i u s)"
| "after_order (Add_Product_To_Order i p q u) s = snd (add_product_to_order i p q u s)"
| "after_order (Remove_Product_From_Order i p u) s = snd (remove_product_from_order i p u s)"
| "after_order (Assign_Courier i u) s = snd (assign_courier i u s)"
| "after_order (Update_Status i st actual u re) s = snd (update_status i st actual u re s)"
| "after_order (Expire_Stale_Orders a b u) s = snd (expire_stale_orders a b u s)"

primrec after_user :: "(string \<Rightarrow> string) \<Rightarrow> user_request \<Rightarrow> db \<Rightarrow> db" where
  "after_user hash (Register_Client dto) s = snd (register_client hash dto s)"
| "after_user hash (Register_Local_User dto) s = snd (register_local_user hash dto s)"
| "after_user hash (Update_User i d) s = snd (update_user hash i d s)"
| "after_user hash (Delete_Staff i) s = snd (delete_staff i s)"
| "after_user hash (Archive_User i) s = snd (archive_user i s)"
| "after_user hash (Delete_User i) s = snd (delete_user i s)"
| "after_user hash (Add_Phone i p l) s = snd (add_phone i p l s)"
| "after_user hash (Update_Phone i j l) s = snd (update_phone i j l s)"
| "after_user hash (Remove_Phone i j) s = snd (remove_phone i j s)"
| "after_user hash (Create_Client dto) s = snd (create_client dto s)"
| "after_user hash (Add_Client_Address i nm) s = snd (add_client_address i nm s)"
| "after_user hash (Onboard_Client dto u) s = snd (onboard_client_with_balance dto u s)"
| "after_user hash (Create_Courier nm p pw) s = snd (create_courier hash nm p pw s)"
| "after_user hash (Add_Courier_Inventory i nm) s = snd (add_courier_inventory i nm s)"
| "after_user hash (Init_Data p pw) s = snd (init_data hash p pw s)"

primrec after :: "(string \<Rightarrow> string) \<Rightarrow> (char \<Rightarrow> char) \<Rightarrow> request \<Rightarrow> db \<Rightarrow> db" where
  "after hash lower (Finance r) s = after_finance r s"
| "after hash lower (Catalog_Request r) s = after_catalog r s"
| "after hash lower (Inventory_Request r) s = after_inventory lower r s"
| "after hash lower (Contract_Request r) s = after_contract r s"
| "after hash lower (Order_Request r) s = after_order r s"
| "after hash lower (User_Request r) s = after_user hash r s"

section \<open>Steps\<close>

datatype event = Request request | Tick nat

inductive step :: "(string \<Rightarrow> string) \<Rightarrow> (char \<Rightarrow> char) \<Rightarrow> db \<Rightarrow> event \<Rightarrow> db \<Rightarrow> bool" for hash lower where
  request: "step hash lower s (Request r) (after hash lower r s)"
| tick: "step hash lower s (Tick d) (s\<lparr>clock := clock s + int d\<rparr>)"

inductive_simps step_request_iff [simp]: "step hash lower s (Request r) s'"
inductive_simps step_tick_iff [simp]: "step hash lower s (Tick d) s'"
inductive_cases stepE: "step hash lower s e s'"

inductive runs :: "(string \<Rightarrow> string) \<Rightarrow> (char \<Rightarrow> char) \<Rightarrow> db \<Rightarrow> event list \<Rightarrow> db \<Rightarrow> bool" for hash lower where
  runs_nil: "runs hash lower s [] s"
| runs_cons: "step hash lower s e s1 \<Longrightarrow> runs hash lower s1 es s' \<Longrightarrow> runs hash lower s (e # es) s'"

inductive_simps runs_nil_iff [simp]: "runs hash lower s [] s'"
inductive_simps runs_cons_iff: "runs hash lower s (e # es) s'"

primrec play :: "(string \<Rightarrow> string) \<Rightarrow> (char \<Rightarrow> char) \<Rightarrow> event list \<Rightarrow> db \<Rightarrow> db" where
  "play hash lower [] s = s"
| "play hash lower (e # es) s = play hash lower es
     (case e of Request r \<Rightarrow> after hash lower r s | Tick d \<Rightarrow> s\<lparr>clock := clock s + int d\<rparr>)"

lemma runs_play: "runs hash lower s es s' \<longleftrightarrow> s' = play hash lower es s"
proof (induction es arbitrary: s)
  case (Cons e es)
  then show ?case by (cases e) (auto simp: runs_cons_iff)
qed simp

text \<open>The server starts: migrations have created the tables, and \<open>init_data\<close> has returned.\<close>

inductive reachable :: "(string \<Rightarrow> string) \<Rightarrow> (char \<Rightarrow> char) \<Rightarrow> db \<Rightarrow> bool" for hash lower where
  start: "init_data hash phone password empty_db = (Inr (), s) \<Longrightarrow> reachable hash lower s"
| step: "reachable hash lower s \<Longrightarrow> step hash lower s e s' \<Longrightarrow> reachable hash lower s'"

section \<open>From bodies to requests\<close>

lemma with_uow_snd: "snd (with_uow body s) = (case body s of Inl e \<Rightarrow> s | Inr (x, s') \<Rightarrow> s')"
  by (auto simp: with_uow_def split: sum.splits)

lemma commit_then_snd: "snd (commit_then body reload s) = (case body s of Inl e \<Rightarrow> s | Inr (x, s') \<Rightarrow> s')"
  by (auto simp: commit_then_def split: sum.splits)

lemma with_uow_moves: "reflp R \<Longrightarrow> moves R body \<Longrightarrow> R s (snd (with_uow body s))"
  by (auto simp: with_uow_snd reflp_def moves_def split: sum.splits)

lemma commit_then_moves: "reflp R \<Longrightarrow> moves R body \<Longrightarrow> R s (snd (commit_then body reload s))"
  by (auto simp: commit_then_snd reflp_def moves_def split: sum.splits)

lemmas finance_services = create_transaction_def verify_transaction_def reject_transaction_def accept_payment_def
lemmas catalog_services = add_product_def update_product_def archive_product_def restore_product_def hard_delete_def
lemmas inventory_services = create_transport_def update_transport_def delete_transport_def create_warehouse_def
  update_warehouse_def archive_warehouse_def create_transfer_def capitalize_tara_def capitalize_tara_for_client_def
  capitalize_deficit_def
lemmas contract_services = create_contract_def activate_contract_def suspend_contract_def reinstate_contract_def
  terminate_contract_def update_contract_def set_price_item_def remove_price_item_def generate_invoice_def
  issue_invoice_def mark_invoice_paid_def cancel_invoice_def create_amendment_def run_overdue_job_def run_expire_job_def
lemmas order_services = create_order_def create_warehouse_sale_def complete_pickup_def add_product_to_order_def
  remove_product_from_order_def assign_courier_def update_status_def expire_stale_orders_def
lemmas user_services = register_client_def register_local_user_def update_user_def delete_staff_def archive_user_def
  delete_user_def add_phone_def update_phone_def remove_phone_def create_client_def add_client_address_def
  onboard_client_with_balance_def create_courier_def add_courier_inventory_def init_data_def

section \<open>Invariants of the server\<close>

text \<open>A property of the database that start-up establishes and every request and the clock keep.\<close>

locale served_invariant =
  fixes P :: "db \<Rightarrow> bool"
  assumes started: "init_data hash phone password empty_db = (Inr (), s) \<Longrightarrow> P s"
    and served: "P s \<Longrightarrow> P (after hash lower r s)"
    and ticked: "P s \<Longrightarrow> P (s\<lparr>clock := t\<rparr>)"
begin

lemma step_kept: "step hash lower s e s' \<Longrightarrow> P s \<Longrightarrow> P s'"
  by (erule stepE) (auto intro: served ticked)

lemma runs_kept: "runs hash lower s es s' \<Longrightarrow> P s \<Longrightarrow> P s'"
  by (induction rule: runs.induct) (auto intro: step_kept)

lemma everywhere: "reachable hash lower s \<Longrightarrow> P s"
  by (induction rule: reachable.induct) (auto intro: started step_kept)

end

text \<open>A preorder that every request and the clock move along.\<close>

locale served_preorder =
  fixes R :: "db \<Rightarrow> db \<Rightarrow> bool"
  assumes refl: "reflp R" and trans: "transp R"
    and served: "R s (after hash lower r s)" and ticked: "R s (s\<lparr>clock := t\<rparr>)"
begin

lemma step_moves: "step hash lower s e s' \<Longrightarrow> R s s'"
  by (erule stepE) (auto intro: served ticked)

lemma runs_move: "runs hash lower s es s' \<Longrightarrow> R s s'"
  by (induction rule: runs.induct) (auto intro: reflpD [OF refl] transpD [OF trans] step_moves)

end

text \<open>It is enough that each service keeps it.\<close>

locale service_invariant =
  fixes P :: "db \<Rightarrow> bool"
  assumes started_by: "init_data hash phone password empty_db = (Inr (), s) \<Longrightarrow> P s"
    and finance: "P s \<Longrightarrow> P (after_finance rf s)" and catalog: "P s \<Longrightarrow> P (after_catalog rc s)"
    and inventory: "P s \<Longrightarrow> P (after_inventory lower ri s)" and contract: "P s \<Longrightarrow> P (after_contract rk s)"
    and order: "P s \<Longrightarrow> P (after_order ro s)" and user: "P s \<Longrightarrow> P (after_user hash ru s)"
    and ticked_by: "P s \<Longrightarrow> P (s\<lparr>clock := t\<rparr>)"

sublocale service_invariant \<subseteq> served_invariant P
proof
  show "init_data hash phone password empty_db = (Inr (), s) \<Longrightarrow> P s" for hash phone password s by (rule started_by)
  show "P s \<Longrightarrow> P (after hash lower r s)" for hash lower r s
    by (cases r) (auto intro: finance catalog inventory contract order user)
  show "P s \<Longrightarrow> P (s\<lparr>clock := t\<rparr>)" for s t by (rule ticked_by)
qed

lemmas kept_by_request =
  with_uow_keeps [where P = fin_explained] commit_then_keeps [where P = fin_explained]
  with_uow_keeps [where P = stock_explained] commit_then_keeps [where P = stock_explained]
  with_uow_keeps [where P = quotas_ok] commit_then_keeps [where P = quotas_ok]
  with_uow_keeps [where P = users_ok] commit_then_keeps [where P = users_ok]
  with_uow_keeps [where P = protected_ok] commit_then_keeps [where P = protected_ok]

lemmas moved_by_request = with_uow_moves [where R = db_evolve] commit_then_moves [where R = db_evolve]

lemma finance_requests_keep:
  "fin_explained s \<Longrightarrow> fin_explained (after_finance r s)"
  "stock_explained s \<Longrightarrow> stock_explained (after_finance r s)"
  "quotas_ok s \<Longrightarrow> quotas_ok (after_finance r s)"
  "users_ok s \<Longrightarrow> users_ok (after_finance r s)"
  "protected_ok s \<Longrightarrow> protected_ok (after_finance r s)"
  by (cases r; simp add: finance_services; intro kept_by_request keeps_intro; assumption)+

lemma catalog_requests_keep:
  "fin_explained s \<Longrightarrow> fin_explained (after_catalog r s)"
  "stock_explained s \<Longrightarrow> stock_explained (after_catalog r s)"
  "quotas_ok s \<Longrightarrow> quotas_ok (after_catalog r s)"
  "users_ok s \<Longrightarrow> users_ok (after_catalog r s)"
  "protected_ok s \<Longrightarrow> protected_ok (after_catalog r s)"
  by (cases r; simp add: catalog_services; intro kept_by_request keeps_intro; assumption)+

lemma inventory_requests_keep:
  "fin_explained s \<Longrightarrow> fin_explained (after_inventory lower r s)"
  "stock_explained s \<Longrightarrow> stock_explained (after_inventory lower r s)"
  "quotas_ok s \<Longrightarrow> quotas_ok (after_inventory lower r s)"
  "users_ok s \<Longrightarrow> users_ok (after_inventory lower r s)"
  "protected_ok s \<Longrightarrow> protected_ok (after_inventory lower r s)"
  by (cases r; simp add: inventory_services; intro kept_by_request keeps_intro; assumption)+

lemma contract_requests_keep:
  "fin_explained s \<Longrightarrow> fin_explained (after_contract r s)"
  "stock_explained s \<Longrightarrow> stock_explained (after_contract r s)"
  "quotas_ok s \<Longrightarrow> quotas_ok (after_contract r s)"
  "users_ok s \<Longrightarrow> users_ok (after_contract r s)"
  "protected_ok s \<Longrightarrow> protected_ok (after_contract r s)"
  by (cases r; simp add: contract_services; intro kept_by_request keeps_intro; assumption)+

lemma order_requests_keep:
  "fin_explained s \<Longrightarrow> fin_explained (after_order r s)"
  "stock_explained s \<Longrightarrow> stock_explained (after_order r s)"
  "quotas_ok s \<Longrightarrow> quotas_ok (after_order r s)"
  "users_ok s \<Longrightarrow> users_ok (after_order r s)"
  "protected_ok s \<Longrightarrow> protected_ok (after_order r s)"
  by (cases r; simp add: order_services; intro kept_by_request keeps_intro; assumption)+

lemma user_requests_keep:
  "fin_explained s \<Longrightarrow> fin_explained (after_user hash r s)"
  "stock_explained s \<Longrightarrow> stock_explained (after_user hash r s)"
  "quotas_ok s \<Longrightarrow> quotas_ok (after_user hash r s)"
  "users_ok s \<Longrightarrow> users_ok (after_user hash r s)"
  "protected_ok s \<Longrightarrow> protected_ok (after_user hash r s)"
  by (cases r; simp add: user_services; intro kept_by_request keeps_intro; assumption)+

lemma finance_requests_move: "db_evolve s (after_finance r s)"
  by (cases r; simp add: finance_services; intro moved_by_request moves_intro)

lemma catalog_requests_move: "db_evolve s (after_catalog r s)"
  by (cases r; simp add: catalog_services; intro moved_by_request moves_intro)

lemma inventory_requests_move: "db_evolve s (after_inventory lower r s)"
  by (cases r; simp add: inventory_services; intro moved_by_request moves_intro)

lemma contract_requests_move: "db_evolve s (after_contract r s)"
  by (cases r; simp add: contract_services; intro moved_by_request moves_intro)

lemma order_requests_move: "db_evolve s (after_order r s)"
  by (cases r; simp add: order_services; intro moved_by_request moves_intro)

lemma user_requests_move: "db_evolve s (after_user hash r s)"
  by (cases r; simp add: user_services; intro moved_by_request moves_intro)

lemma clock_kept:
  "fin_explained s \<Longrightarrow> fin_explained (s\<lparr>clock := t\<rparr>)" "stock_explained s \<Longrightarrow> stock_explained (s\<lparr>clock := t\<rparr>)"
  "quotas_ok s \<Longrightarrow> quotas_ok (s\<lparr>clock := t\<rparr>)" "users_ok s \<Longrightarrow> users_ok (s\<lparr>clock := t\<rparr>)"
  "protected_ok s \<Longrightarrow> protected_ok (s\<lparr>clock := t\<rparr>)"
  by (simp_all add: fin_explained_def fin_ok_def acct_balance_def fin_journal_def stock_explained_def stock_ok_def
    stock_balance_def stock_journal_def quotas_ok_def users_ok_def count_by_user_def protected_ok_def)

lemma clock_moves: "db_evolve s (s\<lparr>clock := t\<rparr>)"
proof -
  have "moves db_evolve (tx_modify (\<lambda>s. s\<lparr>clock := t\<rparr>))"
    by (rule moves_db_other; intro frame_intro; simp)
  then show ?thesis by (auto simp: moves_def tx_iff)
qed

section \<open>Start-up\<close>

lemma empty_db_sound: "fin_explained empty_db" "stock_explained empty_db" "quotas_ok empty_db" "users_ok empty_db"
  by (simp_all add: empty_db_def fin_explained_def fin_ok_def acct_balance_def fin_journal_def stock_explained_def
    stock_ok_def balances_ok_def stock_balance_def stock_of_def stock_journal_def quotas_ok_def users_ok_def
    count_by_user_def keys_distinct_def ledger_balance_def balance_in_def tbl_get_def)

lemma init_data_keeps: "keeps P (init_data_body hash phone password) \<Longrightarrow> P empty_db
  \<Longrightarrow> init_data hash phone password empty_db = (Inr (), s) \<Longrightarrow> P s"
  by (auto simp: init_data_def dest: keepsD)

lemma ensure_system_user_there:
  assumes "ensure_system_user empty_db = Inr (u, s)"
  shows "tbl_get SYSTEM_USER_ID True (users s) \<noteq> None"
  using assms by (auto simp: ensure_system_user_def insert_user_with_id_def tx_iff empty_db_def tbl_get_add split: option.splits)

lemma ensure_walkin_protects:
  assumes run: "ensure_walkin s = Inr (u, s')" and sys: "tbl_get SYSTEM_USER_ID True (users s) \<noteq> None"
    and none: "tbl_get WALKIN_USER_ID False (users s) = None"
  shows "protected_ok s'"
proof -
  let ?rest = "\<lambda>w. tx_bind (insert_identity (identity_draft (row_id w) AP_LOCAL ''00000000002'' (Some ''!disabled''))) (\<lambda>_.
        tx_bind (insert_inventory (inventory_draft (row_id w) IT_CLIENT ''Samovyvoz'')) (\<lambda>_.
        tx_bind (create_account (row_id w) AT_CLIENT ''Schet anonimnykh pokupok'') (\<lambda>_. tx_ret ())))"
  obtain w s1 where ins: "insert_user_with_id WALKIN_USER_ID (user_draft ''Pokupatel so sklada (Walk-in)'' R_CLIENT_B2C) s = Inr (w, s1)"
    and rest: "?rest w s1 = Inr (u, s')"
    using run none unfolding ensure_walkin_def tx_bind_iff tx_when_iff tx_get_iff by auto
  have "frame users (?rest w)" unfolding insert_identity_def by (intro frame_intro; simp)
  from frameD [OF this rest] show ?thesis
    using ins sys none
    by (auto simp: protected_ok_def PROTECTED_USER_IDS_def insert_user_with_id_def tx_iff tbl_get_add split: option.splits)
qed

lemma init_data_protects:
  assumes "init_data hash phone password empty_db = (Inr (), s)"
  shows "protected_ok s"
proof -
  obtain u s1 s2 s3 s4 where 1: "ensure_system_user empty_db = Inr (u, s1)"
    and 2: "tx_for (\<lambda>(ty, nm). ensure_account u ty nm) required_accounts s1 = Inr ((), s2)"
    and 3: "tx_for (\<lambda>(ty, nm). ensure_inventory u ty nm) required_inventories s2 = Inr ((), s3)"
    and 4: "ensure_walkin s3 = Inr ((), s4)" and 5: "ensure_admin hash phone password s4 = Inr ((), s)"
    using assms unfolding init_data_def with_uow_Inr init_data_body_def tx_bind_iff by auto
  have "frame users (tx_for (\<lambda>(ty, nm). ensure_account u ty nm) required_accounts)"
    "frame users (tx_for (\<lambda>(ty, nm). ensure_inventory u ty nm) required_inventories)"
    by (intro frame_intro; simp)+
  from this(1) [THEN frameD, OF 2] this(2) [THEN frameD, OF 3] have same: "users s3 = users s1" by simp
  have there: "tbl_get SYSTEM_USER_ID True (users s3) \<noteq> None" "tbl_get WALKIN_USER_ID False (users s3) = None"
    using 1 ensure_system_user_there [OF 1] unfolding same
    by (auto simp: ensure_system_user_def insert_user_with_id_def tx_iff empty_db_def tbl_get_def tbl_add_def
      SYSTEM_USER_ID_def WALKIN_USER_ID_def split: option.splits)
  have "protected_ok s4" by (rule ensure_walkin_protects [OF 4 there])
  moreover have "keeps protected_ok (ensure_admin hash phone password)"
    unfolding user_bodies by (intro keeps_intro)
  ultimately show ?thesis using 5 by (auto dest: keepsD)
qed

lemma init_data_starts:
  assumes "init_data hash phone password empty_db = (Inr (), s)"
  shows "fin_explained s" "stock_explained s" "quotas_ok s" "users_ok s"
  by (rule init_data_keeps [OF _ _ assms]; intro keeps_intro empty_db_sound)+

section \<open>Every reachable state\<close>

interpretation money: service_invariant fin_explained
  by unfold_locales (rule init_data_starts finance_requests_keep catalog_requests_keep inventory_requests_keep
    contract_requests_keep order_requests_keep user_requests_keep clock_kept; assumption)+

interpretation goods: service_invariant stock_explained
  by unfold_locales (rule init_data_starts finance_requests_keep catalog_requests_keep inventory_requests_keep
    contract_requests_keep order_requests_keep user_requests_keep clock_kept; assumption)+

interpretation quota_limits: service_invariant quotas_ok
  by unfold_locales (rule init_data_starts finance_requests_keep catalog_requests_keep inventory_requests_keep
    contract_requests_keep order_requests_keep user_requests_keep clock_kept; assumption)+

interpretation accounts_of_users: service_invariant users_ok
  by unfold_locales (rule init_data_starts finance_requests_keep catalog_requests_keep inventory_requests_keep
    contract_requests_keep order_requests_keep user_requests_keep clock_kept; assumption)+

interpretation protected_users: service_invariant protected_ok
  by unfold_locales (rule init_data_protects finance_requests_keep catalog_requests_keep inventory_requests_keep
    contract_requests_keep order_requests_keep user_requests_keep clock_kept; assumption)+

interpretation evolution: served_preorder db_evolve
proof
  show "db_evolve s (after hash lower r s)" for hash lower r s
    by (cases r) (auto intro: finance_requests_move catalog_requests_move inventory_requests_move
      contract_requests_move order_requests_move user_requests_move)
qed (auto intro: db_evolve_preorder clock_moves)

text \<open>The tables with a life cycle are sound everywhere.\<close>

definition lifecycles_ok :: "db \<Rightarrow> bool" where
  "lifecycles_ok s \<longleftrightarrow> orders_ok s \<and> contracts_ok s \<and> invoices_ok s"

lemma lifecycles_evolve: "db_evolve s s' \<Longrightarrow> lifecycles_ok s \<Longrightarrow> lifecycles_ok s'"
  by (auto simp: db_evolve_def orders_evolve_def contracts_evolve_def invoices_evolve_def lifecycles_ok_def)

lemma empty_db_lifecycles: "lifecycles_ok empty_db"
  by (simp add: empty_db_def lifecycles_ok_def orders_ok_def contracts_ok_def invoices_ok_def keys_distinct_def
    one_live_per_client_def)

interpretation lifecycles: served_invariant lifecycles_ok
proof
  fix hash phone password s assume "init_data hash phone password empty_db = (Inr (), s)"
  then have "init_data_body hash phone password empty_db = Inr ((), s)" by (simp add: init_data_def)
  from movesD [OF moves_user_bodies(11) this] show "lifecycles_ok s"
    using lifecycles_evolve empty_db_lifecycles by blast
qed (auto intro: lifecycles_evolve evolution.served evolution.ticked)

lemma reachable_runs: "runs hash lower s es s' \<Longrightarrow> reachable hash lower s \<Longrightarrow> reachable hash lower s'"
  by (induction rule: runs.induct) (auto intro: reachable.step)

section \<open>Rows with a status along a run\<close>

lemma order_carried:
  assumes "db_evolve s s'" "lifecycles_ok s" "tbl_get i False (orders s) = Some r"
  shows "\<exists>r'. tbl_get i False (orders s') = Some r' \<and> order_le r r'
    \<and> (ord_status r \<in> {OS_DELIVERED, OS_PICKUP_COMPLETED, OS_CANCELLED} \<longrightarrow> ord_status r' = ord_status r)"
proof -
  have "grows order_le (orders s) (orders s')"
    using assms(1,2) by (auto simp: db_evolve_def orders_evolve_def lifecycles_ok_def)
  from grows_get [OF this order_status.le_id assms(3)]
  obtain r' where r': "tbl_get i False (orders s') = Some r'" "order_le r r'" by blast
  moreover have "order_phase r' = order_phase r" if "ord_status r \<in> {OS_DELIVERED, OS_PICKUP_COMPLETED, OS_CANCELLED}"
    using order_life.terminal_final [of "order_phase r" "order_phase r'"] that r'(2)
    by (auto simp: order_le_def closed_phases_def order_phase_def)
  ultimately show ?thesis by (auto simp: order_phase_def)
qed

lemma contract_carried:
  assumes "db_evolve s s'" "lifecycles_ok s" "tbl_get i False (contracts s) = Some c"
  shows "\<exists>c'. tbl_get i False (contracts s') = Some c' \<and> contract_le c c'
    \<and> (con_status c \<in> {CS_TERMINATED, CS_EXPIRED} \<longrightarrow> con_status c' = con_status c)"
proof -
  have "grows contract_le (contracts s) (contracts s')"
    using assms(1,2) by (auto simp: db_evolve_def contracts_evolve_def lifecycles_ok_def)
  from grows_get [OF this contract_status.le_id assms(3)] show ?thesis
    using contract_life.terminal_final by (fastforce simp: contract_le_def)
qed

lemma invoice_carried:
  assumes "db_evolve s s'" "lifecycles_ok s" "tbl_get i False (invoices s) = Some v"
  shows "\<exists>v'. tbl_get i False (invoices s') = Some v' \<and> invoice_le v v'
    \<and> (ivc_status v \<in> {IS_PAID, IS_CANCELLED} \<longrightarrow> ivc_status v' = ivc_status v)"
proof -
  have "grows invoice_le (invoices s) (invoices s')"
    using assms(1,2) by (auto simp: db_evolve_def invoices_evolve_def lifecycles_ok_def)
  from grows_get [OF this invoice_status.le_id assms(3)] show ?thesis
    using invoice_life.terminal_final by (fastforce simp: invoice_le_def)
qed

section \<open>A run\<close>

text \<open>
  The server on an empty database: a product, a warehouse with ten units of it, a company, a payment, an active
  contract with a quota of five, and an order of three. The hash and the folding of case are stand-ins.
\<close>

definition sample_boot :: db where
  "sample_boot = snd (init_data (\<lambda>p. p) (Some ''998'') (Some ''pw'') empty_db)"

definition sample_events :: "event list" where
  "sample_events =
     [Request (Catalog_Request (Add_Product \<lparr>row_id = 0, is_active = True, created_at = 0, updated_at = 0,
        prd_returnable_item_id = None, prd_type = PT_CONTAINER, prd_name = ''Bottle'', prd_price = 50, prd_attributes = []\<rparr>)),
      Request (Inventory_Request (Create_Warehouse 112 ''Main'')),
      Request (Inventory_Request (Create_Transfer 112 \<lparr>trq_type = TT_INITIAL_BALANCE, trq_from_id = None,
        trq_to_id = Some 116, trq_items = [(115, 10)], trq_reason = None, trq_route_sheet_id = None\<rparr> (Some [LOGISTICS_ADJUSTMENT]))),
      Request (User_Request (Create_Client \<lparr>clr_username = ''Company'', clr_phone = Some ''997'', clr_role = R_CLIENT_B2B,
        clr_address_name = Some ''Office''\<rparr>)),
      Request (Finance (Accept_Payment 122 500 ''cash'' ''Deposit'' 112 None)),
      Request (Contract_Request (Create_Contract 122 \<lparr>cc_number = ''C-1'', cc_start_date = 0, cc_end_date = None,
        cc_payment_due_days = 30, cc_legal_name = ''Company'', cc_inn = ''123456789'', cc_notes = None\<rparr>)),
      Request (Contract_Request (Set_Price_Item 127 115 40 5)),
      Request (Contract_Request (Activate_Contract 127 112)),
      Request (Order_Request (Create_Order 122 \<lparr>oc_items = [(115, 3)], oc_payment_method = PM_CONTRACT,
        oc_client_inventory_id = 125, oc_capitalize_missing_tara = False, oc_notes = None\<rparr>)),
      Tick 5]"

definition sample_server :: db where
  "sample_server = play (\<lambda>p. p) (\<lambda>c. c) sample_events sample_boot"

lemma sample_boot_reachable: "reachable (\<lambda>p. p) (\<lambda>c. c) sample_boot"
proof -
  have "fst (init_data (\<lambda>p. p) (Some ''998'') (Some ''pw'') empty_db) = Inr ()" by code_simp
  then have "init_data (\<lambda>p. p) (Some ''998'') (Some ''pw'') empty_db = (Inr (), sample_boot)"
    by (simp add: sample_boot_def prod_eq_iff)
  then show ?thesis by (rule reachable.start)
qed

lemma sample_server_reachable: "reachable (\<lambda>p. p) (\<lambda>c. c) sample_server"
  by (rule reachable_runs [OF _ sample_boot_reachable]) (simp add: runs_play sample_server_def)

lemma sample_server_money: "map acc_balance (accounts sample_server) = [0, 500, 0, 0, 0, 0, 0, 0, 0, - 500]"
  by code_simp

lemma sample_server_quota:
  "map (\<lambda>pi. (cpi_quantity pi, cpi_quantity_used pi)) (contract_price_items sample_server) = [(5, 3)]"
  by code_simp

end
