(* ===== verification/Requests.thy ===== *)
theory Requests
  imports Orders Contracts Billing Onboarding
begin

text \<open>
  What a request body must satisfy before a handler runs: the constraints of the \<open>pydantic\<close> schemas
  (\<open>schemas.py\<close> of the modules and of \<open>src/application\<close>) on the write requests. A body that fails one is answered
  with \<open>VALIDATION_ERROR\<close>. Types are checked by the types of the model.
\<close>

definition text_between :: "nat \<Rightarrow> nat \<Rightarrow> string \<Rightarrow> bool" where
  "text_between lo hi x \<longleftrightarrow> lo \<le> length x \<and> length x \<le> hi"

definition given_ok :: "('a \<Rightarrow> bool) \<Rightarrow> 'a option \<Rightarrow> bool" where
  "given_ok p v \<longleftrightarrow> (case v of None \<Rightarrow> True | Some x \<Rightarrow> p x)"

text \<open>A field of a partial update: unset, \<open>null\<close>, or a value that satisfies its constraints.\<close>

definition update_ok :: "('a \<Rightarrow> bool) \<Rightarrow> 'a option option \<Rightarrow> bool" where
  "update_ok p v \<longleftrightarrow> given_ok (given_ok p) v"

section \<open>Orders\<close>

definition items_ok :: "item list \<Rightarrow> bool" where
  "items_ok items \<longleftrightarrow> items \<noteq> [] \<and> list_all (\<lambda>it. snd it > 0) items"

definition order_create_ok :: "order_create \<Rightarrow> bool" where
  "order_create_ok dto \<longleftrightarrow> items_ok (oc_items dto) \<and> given_ok (text_between 0 500) (oc_notes dto)"

definition cancel_request_ok :: "string option \<Rightarrow> bool" where
  "cancel_request_ok reason \<longleftrightarrow> given_ok (text_between 0 500) reason"

definition deliver_request_ok :: "item list option \<Rightarrow> bool" where
  "deliver_request_ok actual_items \<longleftrightarrow> given_ok (list_all (\<lambda>it. snd it \<ge> 0)) actual_items"

definition tara_check_ok :: "item list \<Rightarrow> bool" where
  "tara_check_ok items \<longleftrightarrow> items_ok items"

definition warehouse_sale_ok :: "warehouse_sale \<Rightarrow> bool" where
  "warehouse_sale_ok dto \<longleftrightarrow> items_ok (ws_items dto)"

definition sale_capitalize_ok :: "item list \<Rightarrow> bool" where
  "sale_capitalize_ok items \<longleftrightarrow> items_ok items"

section \<open>Contracts\<close>

definition contract_create_ok :: "contract_create \<Rightarrow> bool" where
  "contract_create_ok dto \<longleftrightarrow> text_between 1 50 (cc_number dto) \<and> 0 < cc_payment_due_days dto \<and> cc_payment_due_days dto \<le> 365
     \<and> text_between 1 255 (cc_legal_name dto) \<and> text_between 9 14 (cc_inn dto) \<and> given_ok (text_between 0 2000) (cc_notes dto)"

definition contract_update_ok :: "contract_update \<Rightarrow> bool" where
  "contract_update_ok d \<longleftrightarrow> update_ok (\<lambda>n. 0 < n \<and> n \<le> 365) (cu_payment_due_days d) \<and> update_ok (text_between 0 2000) (cu_notes d)"

definition suspend_request_ok :: "string \<Rightarrow> bool" where
  "suspend_request_ok reason \<longleftrightarrow> text_between 3 512 reason"

definition terminate_request_ok :: "string \<Rightarrow> bool" where
  "terminate_request_ok reason \<longleftrightarrow> text_between 3 512 reason"

definition price_item_ok :: "int \<Rightarrow> int \<Rightarrow> bool" where
  "price_item_ok price quantity \<longleftrightarrow> 0 \<le> price \<and> 0 \<le> quantity"

definition amendment_ok :: "string \<Rightarrow> string \<Rightarrow> bool" where
  "amendment_ok num description \<longleftrightarrow> text_between 1 50 num \<and> text_between 3 2000 description"

section \<open>Inventories\<close>

definition virtual_source_types :: "transfer_type list" where
  "virtual_source_types = [TT_INVENTORY_FINDING, TT_INITIAL_BALANCE]"

definition virtual_dest_types :: "transfer_type list" where
  "virtual_dest_types = [TT_LOSS_WRITE_OFF]"

definition create_transfer_ok :: "transfer_request \<Rightarrow> bool" where
  "create_transfer_ok rq \<longleftrightarrow> items_ok (trq_items rq) \<and> given_ok (text_between 3 255) (trq_reason rq)
     \<and> (trq_type rq \<notin> set virtual_source_types \<longrightarrow> trq_from_id rq \<noteq> None)
     \<and> (trq_type rq \<notin> set virtual_dest_types \<longrightarrow> trq_to_id rq \<noteq> None)
     \<and> (trq_type rq = TT_LOSS_WRITE_OFF \<longrightarrow> trq_reason rq \<noteq> None \<and> trq_reason rq \<noteq> Some [])"

definition capitalize_tara_ok :: "item list \<Rightarrow> bool" where
  "capitalize_tara_ok items \<longleftrightarrow> items_ok items"

definition transport_create_ok :: "string \<Rightarrow> bool" where
  "transport_create_ok nm \<longleftrightarrow> text_between 0 255 nm"

definition transport_update_ok :: "string option option \<Rightarrow> bool" where
  "transport_update_ok nm \<longleftrightarrow> update_ok (text_between 0 255) nm"

definition warehouse_create_ok :: "string \<Rightarrow> bool" where
  "warehouse_create_ok nm \<longleftrightarrow> text_between 0 255 nm"

definition warehouse_update_ok :: "string option option \<Rightarrow> bool" where
  "warehouse_update_ok nm \<longleftrightarrow> update_ok (text_between 0 255) nm"

section \<open>Money, catalog and users\<close>

definition transaction_create_ok :: "int \<Rightarrow> string \<Rightarrow> bool" where
  "transaction_create_ok amount reason \<longleftrightarrow> 0 < amount \<and> text_between 3 255 reason"

definition attributes_ok :: "(string \<times> string) list \<Rightarrow> bool" where
  "attributes_ok as \<longleftrightarrow> list_all (\<lambda>(l, v). text_between 1 255 l \<and> text_between 1 255 v) as"

definition product_create_ok :: "product_row \<Rightarrow> bool" where
  "product_create_ok p \<longleftrightarrow> text_between 1 255 (prd_name p) \<and> 0 \<le> prd_price p \<and> attributes_ok (prd_attributes p)"

definition product_update_ok :: "product_update \<Rightarrow> bool" where
  "product_update_ok u \<longleftrightarrow> given_ok (text_between 1 255) (pu_name u) \<and> given_ok (\<lambda>n. 0 \<le> n) (pu_price u)
     \<and> given_ok attributes_ok (pu_attributes u)"

definition full_name_ok :: "string \<Rightarrow> bool" where
  "full_name_ok x \<longleftrightarrow> text_between 2 255 x"

definition password_ok :: "string \<Rightarrow> bool" where
  "password_ok x \<longleftrightarrow> text_between 4 128 x"

definition user_admin_create_ok :: "user_admin_create \<Rightarrow> bool" where
  "user_admin_create_ok dto \<longleftrightarrow> full_name_ok (uac_username dto) \<and> password_ok (uac_password dto)"

definition user_admin_update_ok :: "user_admin_update \<Rightarrow> bool" where
  "user_admin_update_ok d \<longleftrightarrow> update_ok full_name_ok (uu_username d) \<and> update_ok password_ok (uu_password d)"

definition phone_create_ok :: "string \<Rightarrow> string option \<Rightarrow> bool" where
  "phone_create_ok phone label \<longleftrightarrow> text_between 5 20 phone \<and> given_ok (text_between 0 50) label"

definition phone_update_ok :: "string option option \<Rightarrow> bool" where
  "phone_update_ok label \<longleftrightarrow> update_ok (text_between 0 50) label"

definition courier_create_ok :: "string \<Rightarrow> bool" where
  "courier_create_ok password \<longleftrightarrow> 8 \<le> length password"

definition onboarding_request_ok :: "client_onboarding_request \<Rightarrow> bool" where
  "onboarding_request_ok dto \<longleftrightarrow> client_request_ok (obr_role dto) (obr_phone dto) \<and> 0 \<le> obr_initial_balance_quantity dto"

end
