(* ===== verification/Api.thy ===== *)
theory Api
  imports Requests Auth Pagination
begin

text \<open>
  The routes (\<open>src/api/v1\<close>): what a handler requires of the token and of the request, and the call it makes. The
  dependency \<open>get_current_user\<close> with the scopes of the route is resolved first, then the request is validated, then the
  handler runs. Conversions of the result to a response schema are left out: a route answers with what
  the service returned.
\<close>

section \<open>Handlers\<close>

type_synonym 'a reply = "(app_error + 'a) \<times> db"

definition secured :: "('t \<Rightarrow> db \<Rightarrow> app_error + user_row) \<Rightarrow> 't \<Rightarrow> (user_row \<Rightarrow> db \<Rightarrow> 'a reply) \<Rightarrow> db \<Rightarrow> 'a reply" where
  "secured auth token f s = (case auth token s of Inl e \<Rightarrow> (Inl e, s) | Inr u \<Rightarrow> f u s)"

abbreviation validation_error :: app_error where
  "validation_error \<equiv> HttpErr (UnprocessableEntityError ''VALIDATION_ERROR'')"

definition validated :: "bool \<Rightarrow> (db \<Rightarrow> 'a reply) \<Rightarrow> db \<Rightarrow> 'a reply" where
  "validated ok f s = (if ok then f s else (Inl validation_error, s))"

definition query :: "(db \<Rightarrow> 'a) \<Rightarrow> db \<Rightarrow> 'a reply" where
  "query q s = (Inr (q s), s)"

definition lookup :: "(db \<Rightarrow> app_error + 'a) \<Rightarrow> db \<Rightarrow> 'a reply" where
  "lookup q s = (q s, s)"

text \<open>\<open>http_exception_handler\<close> answers \<open>HTTP_ERROR_404\<close> to an \<open>HTTPException\<close> with status 404.\<close>

abbreviation http_404 :: app_error where
  "http_404 \<equiv> HttpErr (NotFoundError ''HTTP_ERROR_404'')"

definition or_404 :: "(db \<Rightarrow> 'a option reply) \<Rightarrow> db \<Rightarrow> 'a reply" where
  "or_404 f s = (case f s of
     (Inl e, s') \<Rightarrow> (Inl e, s') | (Inr None, s') \<Rightarrow> (Inl http_404, s') | (Inr (Some x), s') \<Rightarrow> (Inr x, s'))"

definition or_404_bool :: "(db \<Rightarrow> bool reply) \<Rightarrow> db \<Rightarrow> unit reply" where
  "or_404_bool f s = (case f s of
     (Inl e, s') \<Rightarrow> (Inl e, s') | (Inr b, s') \<Rightarrow> (if b then Inr () else Inl http_404, s'))"

definition limit_ok :: "nat \<Rightarrow> nat \<Rightarrow> bool" where
  "limit_ok most limit \<longleftrightarrow> 1 \<le> limit \<and> limit \<le> most"

definition page_ok :: "nat \<Rightarrow> nat \<Rightarrow> bool" where
  "page_ok page n \<longleftrightarrow> 1 \<le> page \<and> limit_ok 100 n"

section \<open>Logins\<close>

text \<open>The form of the staff calls the phone \<open>username\<close>.\<close>

definition staff_login_route where
  "staff_login_route verify encode expire_minutes jti phone password =
     lookup (local_login verify encode expire_minutes jti phone password)"

definition client_login_route where
  "client_login_route verify encode expire_minutes jti phone password =
     lookup (client_login verify encode expire_minutes jti phone password)"

definition courier_login_route where
  "courier_login_route verify encode expire_minutes jti phone password =
     lookup (courier_login verify encode expire_minutes jti phone password)"

section \<open>The client's API\<close>

definition client_check_tara where
  "client_check_tara decode token items client_inventory_id =
     secured (get_current_user decode [ORDERS_READ]) token (\<lambda>client.
     validated (tara_check_ok items) (with_uow (check_tara_availability items client_inventory_id (Some (row_id client)))))"

definition client_create_order where
  "client_create_order decode token dto =
     secured (get_current_user decode [ORDERS_CREATE]) token (\<lambda>client.
     validated (order_create_ok dto) (create_order (row_id client) dto))"

definition client_order_history where
  "client_order_history decode token skip limit status =
     secured (get_current_user decode [ORDERS_READ]) token (\<lambda>client.
     validated (limit_ok 100 limit) (query (get_client_history (row_id client) skip limit status)))"

definition client_order_details where
  "client_order_details decode token order_id =
     secured (get_current_user decode [ORDERS_READ]) token (\<lambda>client.
     get_order_with_details order_id (Some (row_id client)))"

definition client_cancel_order where
  "client_cancel_order decode token order_id reason =
     secured (get_current_user decode [ORDERS_CANCEL]) token (\<lambda>client.
     validated (cancel_request_ok reason) (cancel_order order_id (row_id client) reason))"

definition client_add_product where
  "client_add_product decode token order_id product_id quantity =
     secured (get_current_user decode [ORDERS_CREATE]) token (\<lambda>client.
     validated (quantity > 0) (add_product_to_order order_id product_id quantity (Some (row_id client))))"

definition client_remove_product where
  "client_remove_product decode token order_id product_id =
     secured (get_current_user decode [ORDERS_CANCEL]) token (\<lambda>client.
     remove_product_from_order order_id product_id (Some (row_id client)))"

text \<open>The active contract of the caller, or \<open>ContractRequiredError\<close>.\<close>

definition my_contract :: "user_row \<Rightarrow> (contract_row \<Rightarrow> db \<Rightarrow> 'a reply) \<Rightarrow> db \<Rightarrow> 'a reply" where
  "my_contract current_user f s = (case get_active_contract (row_id current_user) s of
     (Inl e, s') \<Rightarrow> (Inl e, s')
   | (Inr None, s') \<Rightarrow> (Inl (ContractErr (ContractRequiredError (row_id current_user))), s')
   | (Inr (Some c), s') \<Rightarrow> f c s')"

definition client_my_contract where
  "client_my_contract decode token =
     secured (get_current_user decode [CONTRACTS_READ]) token (\<lambda>u.
     my_contract u (\<lambda>c. get_contract_with_prices (row_id c)))"

definition client_my_contract_prices where
  "client_my_contract_prices decode token =
     secured (get_current_user decode [CONTRACTS_READ]) token (\<lambda>u.
     my_contract u (\<lambda>c s. apfst (map_sum id snd) (get_contract_with_prices (row_id c) s)))"

definition client_my_invoices where
  "client_my_invoices decode token =
     secured (get_current_user decode [CONTRACTS_READ]) token (\<lambda>u. my_contract u (\<lambda>c. list_invoices (row_id c)))"

definition client_my_invoice where
  "client_my_invoice decode token invoice_id =
     secured (get_current_user decode [CONTRACTS_READ]) token (\<lambda>u. my_contract u (\<lambda>c. get_invoice (row_id c) invoice_id))"

text \<open>The rows of an inventory of the caller that are not zero, each with its product.\<close>

definition stock_view :: "uuid \<Rightarrow> inventory_type \<Rightarrow> db \<Rightarrow> (product_row option \<times> int) list" where
  "stock_view user_id ty s = (case get_inventory_with_balances_by_user user_id ty s of
     None \<Rightarrow> []
   | Some v \<Rightarrow> map (\<lambda>b. (find (\<lambda>p. row_id p = bal_product_id b) (products s), bal_quantity b))
       (filter (\<lambda>b. bal_inventory_id b = row_id v \<and> bal_quantity b \<noteq> 0) (inventory_balances s)))"

definition client_tara_balance where
  "client_tara_balance decode token =
     secured (get_current_user decode [ORDERS_READ]) token (\<lambda>client. query (stock_view (row_id client) IT_CLIENT))"

record client_balance =
  clb_account_id :: uuid
  clb_balance :: int
  clb_recent_payments :: "(int \<times> transaction_status \<times> string \<times> timestamp) list"

definition client_balance_of :: "uuid \<Rightarrow> db \<Rightarrow> app_error + client_balance" where
  "client_balance_of client_id s = (case get_client_account client_id s of
     None \<Rightarrow> Inl (HttpErr (NotFoundError ''CLIENT_ACCOUNT_NOT_FOUND''))
   | Some a \<Rightarrow> Inr \<lparr>clb_account_id = row_id a, clb_balance = acc_balance a,
       clb_recent_payments = map (\<lambda>t. (txn_amount t, txn_status t, txn_reason t, created_at t))
         (get_recent_for_account (row_id a) 20 s)\<rparr>)"

definition client_my_balance where
  "client_my_balance decode token =
     secured (get_current_user decode [ORDERS_READ]) token (\<lambda>client. lookup (client_balance_of (row_id client)))"

definition client_catalog where
  "client_catalog decode token skip limit product_type =
     secured (get_current_user decode [CATALOG_READ]) token (\<lambda>_.
     validated (limit_ok 100 limit) (query (get_catalog skip limit product_type)))"

definition client_me where
  "client_me decode token = secured (get_current_user decode [PROFILE_READ]) token (\<lambda>u. query (\<lambda>_. u))"

section \<open>The courier's API\<close>

definition update_courier_order_status where
  "update_courier_order_status order_id new_status courier actual_items =
     update_status order_id new_status actual_items (Some (row_id courier)) None"

definition courier_tasks where
  "courier_tasks decode token =
     secured (get_current_courier decode [ORDERS_READ]) token (\<lambda>courier. query (get_courier_tasks (row_id courier)))"

definition courier_order_details where
  "courier_order_details decode token order_id =
     secured (get_current_courier decode [ORDERS_READ]) token (\<lambda>courier.
     get_order_with_details order_id (Some (row_id courier)))"

definition courier_in_transit where
  "courier_in_transit decode token order_id =
     secured (get_current_courier decode [ORDERS_DELIVER]) token (\<lambda>courier.
     update_courier_order_status order_id OS_IN_TRANSIT courier [])"

definition courier_arrived where
  "courier_arrived decode token order_id =
     secured (get_current_courier decode [ORDERS_DELIVER]) token (\<lambda>courier.
     update_courier_order_status order_id OS_ARRIVED courier [])"

text \<open>No list and an empty list are both falsy.\<close>

definition actual_of :: "item list option \<Rightarrow> item list" where
  "actual_of v = (case v of None \<Rightarrow> [] | Some items \<Rightarrow> items)"

definition courier_deliver where
  "courier_deliver decode token order_id actual_items =
     secured (get_current_courier decode [ORDERS_DELIVER]) token (\<lambda>courier.
     validated (deliver_request_ok actual_items)
       (update_courier_order_status order_id OS_DELIVERED courier (actual_of actual_items)))"

definition courier_deliver_legacy where
  "courier_deliver_legacy decode token order_id actual_items =
     secured (get_current_courier decode [ORDERS_DELIVER]) token (\<lambda>courier.
     validated (deliver_request_ok actual_items)
       (update_courier_order_status order_id OS_DELIVERED courier (actual_of actual_items)))"

definition courier_update_status where
  "courier_update_status decode token order_id new_status =
     secured (get_current_courier decode [ORDERS_DELIVER]) token (\<lambda>courier.
     update_courier_order_status order_id new_status courier [])"

record courier_balance =
  crb_account_id :: uuid
  crb_balance :: int
  crb_today_collected :: int
  crb_today_deposited :: int
  crb_transactions_today :: "(bool \<times> transaction_row) list"

text \<open>The loop over the day's transactions: what came in, what went out, and the entries with their direction.\<close>

fun courier_day :: "uuid \<Rightarrow> transaction_row list \<Rightarrow> int \<times> int \<times> (bool \<times> transaction_row) list" where
  "courier_day account_id [] = (0, 0, [])"
| "courier_day account_id (t # ts) =
     (case courier_day account_id ts of (collected, deposited, entries) \<Rightarrow>
        if txn_to_id t = account_id then (txn_amount t + collected, deposited, (True, t) # entries)
        else (collected, txn_amount t + deposited, (False, t) # entries))"

definition courier_balance_of :: "uuid \<Rightarrow> db \<Rightarrow> app_error + courier_balance" where
  "courier_balance_of courier_id s = (case get_courier_account courier_id s of
     None \<Rightarrow> Inl (HttpErr (NotFoundError ''COURIER_ACCOUNT_NOT_FOUND''))
   | Some a \<Rightarrow> (case courier_day (row_id a) (get_today_transactions_for_account (row_id a) s) of
       (collected, deposited, entries) \<Rightarrow>
         Inr \<lparr>crb_account_id = row_id a, crb_balance = acc_balance a, crb_today_collected = collected,
           crb_today_deposited = deposited, crb_transactions_today = entries\<rparr>))"

definition courier_my_balance where
  "courier_my_balance decode token =
     secured (get_current_courier decode [PAYMENTS_CREATE]) token (\<lambda>courier. lookup (courier_balance_of (row_id courier)))"

definition courier_my_stock where
  "courier_my_stock decode token =
     secured (get_current_courier decode [INVENTORY_READ]) token (\<lambda>courier. query (stock_view (row_id courier) IT_COURIER))"

definition courier_catalog where
  "courier_catalog decode token skip limit product_type =
     secured (get_current_courier decode [CATALOG_READ]) token (\<lambda>_.
     validated (limit_ok 100 limit) (query (get_catalog skip limit product_type)))"

definition courier_me where
  "courier_me decode token = secured (get_current_courier decode [PROFILE_READ]) token (\<lambda>u. query (\<lambda>_. u))"

end
