(* ===== verification/Backoffice.thy ===== *)
theory Backoffice
  imports Api
begin

text \<open>The routes of the back office (\<open>src/api/v1/backoffice\<close>), but for the dashboards and the two stock listings.\<close>

section \<open>Orders\<close>

definition update_backoffice_order_status where
  "update_backoffice_order_status order_id new_status actual_items = update_status order_id new_status actual_items None None"

definition office_search_orders where
  "office_search_orders decode token skip limit (q::order_search) =
     secured (get_current_user decode [ORDERS_READ]) token (\<lambda>_.
     validated (limit_ok 100 limit \<and> given_ok (\<lambda>n. 0 \<le> n) (osq_min_amount q) \<and> given_ok (\<lambda>n. 0 \<le> n) (osq_max_amount q))
       (lookup (search_orders skip limit (q\<lparr>osq_contract_id := None\<rparr>))))"

definition office_check_tara where
  "office_check_tara decode token items client_inventory_id =
     secured (get_current_user decode [ORDERS_READ]) token (\<lambda>_.
     validated (tara_check_ok items) (with_uow (check_tara_availability items client_inventory_id None)))"

definition office_create_order where
  "office_create_order decode token client_id dto =
     secured (get_current_user decode [ORDERS_CREATE]) token (\<lambda>_.
     validated (order_create_ok dto) (create_order client_id dto))"

definition office_warehouse_sale where
  "office_warehouse_sale decode token dto client_id =
     secured (get_current_user decode [ORDERS_CREATE]) token (\<lambda>admin.
     validated (warehouse_sale_ok dto) (create_warehouse_sale dto client_id (row_id admin)))"

definition office_capitalize_for_sale where
  "office_capitalize_for_sale decode token items client_id =
     secured (get_current_user decode [ORDERS_EDIT]) token (\<lambda>admin.
     validated (sale_capitalize_ok items)
       (capitalize_tara_for_client (case client_id of None \<Rightarrow> WALKIN_USER_ID | Some i \<Rightarrow> i) items (row_id admin)))"

definition office_complete_pickup where
  "office_complete_pickup decode token order_id =
     secured (get_current_user decode [ORDERS_EDIT]) token (\<lambda>admin. complete_pickup order_id (row_id admin))"

definition office_order_details where
  "office_order_details decode token order_id =
     secured (get_current_user decode [ORDERS_READ]) token (\<lambda>_. get_order_with_details order_id None)"

definition office_add_product where
  "office_add_product decode token order_id product_id quantity =
     secured (get_current_user decode [ORDERS_EDIT]) token (\<lambda>_.
     validated (quantity > 0) (add_product_to_order order_id product_id quantity None))"

definition office_remove_product where
  "office_remove_product decode token order_id product_id =
     secured (get_current_user decode [ORDERS_EDIT]) token (\<lambda>_. remove_product_from_order order_id product_id None)"

definition office_assign_courier where
  "office_assign_courier decode token order_id courier_id =
     secured (get_current_user decode [ORDERS_EDIT]) token (\<lambda>_. assign_courier order_id courier_id)"

definition office_order_status where
  "office_order_status decode token order_id new_status =
     secured (get_current_user decode [ORDERS_EDIT]) token (\<lambda>_. update_backoffice_order_status order_id new_status [])"

definition office_in_transit where
  "office_in_transit decode token order_id =
     secured (get_current_user decode [ORDERS_EDIT]) token (\<lambda>_. update_backoffice_order_status order_id OS_IN_TRANSIT [])"

definition office_arrived where
  "office_arrived decode token order_id =
     secured (get_current_user decode [ORDERS_EDIT]) token (\<lambda>_. update_backoffice_order_status order_id OS_ARRIVED [])"

definition office_delivered where
  "office_delivered decode token order_id actual_items =
     secured (get_current_user decode [ORDERS_EDIT]) token (\<lambda>_.
     validated (deliver_request_ok actual_items)
       (update_backoffice_order_status order_id OS_DELIVERED (actual_of actual_items)))"

text \<open>
  The service returns a pair and the response model is a list: the conversion of the response fails,
  which is an unhandled error.
\<close>

definition office_client_history where
  "office_client_history decode token (client_id::uuid) (skip::nat) limit =
     secured (get_current_user decode [ORDERS_READ]) token (\<lambda>_.
     validated (limit_ok 100 limit) (lookup (\<lambda>s. (Inl (ValueErr ''ResponseValidationError'') :: app_error + order_row list))))"

definition office_courier_tasks where
  "office_courier_tasks decode token courier_id =
     secured (get_current_user decode [ORDERS_READ]) token (\<lambda>_. query (get_courier_tasks courier_id))"

definition office_expire_stale where
  "office_expire_stale decode token (max_age_hours::int) (assigned_max_age_hours::int) =
     secured (get_current_user decode [ORDERS_EDIT]) token (\<lambda>admin.
     validated (1 \<le> max_age_hours \<and> max_age_hours \<le> 720 \<and> 1 \<le> assigned_max_age_hours \<and> assigned_max_age_hours \<le> 720)
       (expire_stale_orders max_age_hours assigned_max_age_hours (Some (row_id admin))))"

section \<open>Users\<close>

definition office_create_user where
  "office_create_user hash decode token dto =
     secured (get_current_user decode [USERS_WRITE]) token (\<lambda>_.
     validated (user_admin_create_ok dto) (register_local_user hash dto))"

definition office_staff where
  "office_staff decode lower token skip limit search roles =
     secured (get_current_user decode [USERS_READ]) token (\<lambda>_.
     validated (limit_ok 100 limit) (lookup (get_staff lower skip limit search roles)))"

definition office_get_user where
  "office_get_user decode token user_id =
     secured (get_current_user decode [USERS_READ]) token (\<lambda>_. query (\<lambda>s. tbl_get user_id True (users s)))"

definition office_update_user where
  "office_update_user hash decode token user_id d =
     secured (get_current_user decode [USERS_WRITE]) token (\<lambda>current_admin.
     validated (user_admin_update_ok d) (\<lambda>s.
       if user_id = row_id current_admin then (Inl (HttpErr (BadRequestError ''SELF_MODIFICATION_FORBIDDEN'')), s)
       else if uu_role d = Some (Some R_SYSTEM) then (Inl (HttpErr (ForbiddenError ''SYSTEM_ROLE_FORBIDDEN'')), s)
       else update_user hash user_id d s))"

definition office_block_user where
  "office_block_user decode token user_id =
     secured (get_current_user decode [USERS_WRITE]) token (\<lambda>_. archive_user user_id)"

definition office_delete_user where
  "office_delete_user decode token user_id =
     secured (get_current_user decode [USERS_WRITE]) token (\<lambda>_. delete_staff user_id)"

definition office_user_phones where
  "office_user_phones decode token user_id =
     secured (get_current_user decode [USERS_READ]) token (\<lambda>_. get_user_phones user_id)"

definition office_add_phone where
  "office_add_phone decode token user_id phone label =
     secured (get_current_user decode [USERS_WRITE]) token (\<lambda>_.
     validated (phone_create_ok phone label) (add_phone user_id phone label))"

definition office_update_phone where
  "office_update_phone decode token user_id phone_id label =
     secured (get_current_user decode [USERS_WRITE]) token (\<lambda>_.
     validated (phone_update_ok label) (update_phone user_id phone_id label))"

definition office_remove_phone where
  "office_remove_phone decode token user_id phone_id =
     secured (get_current_user decode [USERS_WRITE]) token (\<lambda>_. remove_phone user_id phone_id)"

section \<open>Clients and couriers\<close>

definition office_onboard_client where
  "office_onboard_client decode token dto =
     secured (get_current_user decode [USERS_WRITE]) token (\<lambda>current_admin.
     validated (onboarding_request_ok dto) (onboard_client_with_balance dto (row_id current_admin)))"

definition office_create_client where
  "office_create_client decode token dto =
     secured (get_current_user decode [USERS_WRITE]) token (\<lambda>_.
     validated (client_request_ok (clr_role dto) (clr_phone dto)) (create_client dto))"

definition office_client_address where
  "office_client_address decode token client_id nm =
     secured (get_current_user decode [USERS_WRITE]) token (\<lambda>_. add_client_address client_id nm)"

definition office_clients where
  "office_clients decode lower token skip limit search =
     secured (get_current_user decode [USERS_READ]) token (\<lambda>_.
     validated (limit_ok 100 limit) (query (get_clients lower skip limit search)))"

definition office_get_client where
  "office_get_client decode token client_id =
     secured (get_current_user decode [USERS_READ]) token (\<lambda>_. lookup (get_client_card client_id))"

text \<open>Without the two guards of \<open>office_update_user\<close>.\<close>

definition office_update_client where
  "office_update_client hash decode token client_id d =
     secured (get_current_user decode [USERS_WRITE]) token (\<lambda>_.
     validated (user_admin_update_ok d) (update_user hash client_id d))"

text \<open>The id of the client in the path is not used.\<close>

definition office_capitalize_tara where
  "office_capitalize_tara decode token (client_id::uuid) client_inventory_id items =
     secured (get_current_user decode [USERS_WRITE]) token (\<lambda>current_admin.
     validated (capitalize_tara_ok items) (capitalize_tara client_inventory_id items (row_id current_admin)))"

definition office_block_client where
  "office_block_client decode token user_id =
     secured (get_current_user decode [USERS_WRITE]) token (\<lambda>_. archive_user user_id)"

definition office_create_courier where
  "office_create_courier hash decode token username phone password =
     secured (get_current_user decode [USERS_WRITE]) token (\<lambda>_.
     validated (courier_create_ok password) (create_courier hash username phone password))"

definition office_couriers where
  "office_couriers decode lower token page n search =
     secured (get_current_user decode [USERS_READ]) token (\<lambda>_.
     validated (page_ok page n) (query (list_couriers lower ((page - 1) * n) n search)))"

definition office_get_courier where
  "office_get_courier decode token courier_id =
     secured (get_current_user decode [USERS_READ]) token (\<lambda>_. lookup (get_courier_card courier_id))"

definition office_update_courier where
  "office_update_courier hash decode token courier_id d =
     secured (get_current_user decode [USERS_WRITE]) token (\<lambda>_.
     validated (user_admin_update_ok d) (update_user hash courier_id d))"

definition office_block_courier where
  "office_block_courier decode token courier_id =
     secured (get_current_user decode [USERS_WRITE]) token (\<lambda>_. archive_user courier_id)"

definition office_me where
  "office_me decode token = secured (get_current_user decode [PROFILE_READ]) token (\<lambda>u. query (\<lambda>_. u))"

section \<open>Catalog\<close>

definition office_catalog where
  "office_catalog decode token skip limit product_type =
     secured (get_current_user decode [CATALOG_READ]) token (\<lambda>_.
     validated (limit_ok 100 limit) (query (get_catalog skip limit product_type)))"

definition office_create_product where
  "office_create_product decode token dto =
     secured (get_current_user decode [CATALOG_WRITE]) token (\<lambda>_. validated (product_create_ok dto) (add_product dto))"

definition office_update_product where
  "office_update_product decode token product_id u =
     secured (get_current_user decode [CATALOG_WRITE]) token (\<lambda>_.
     validated (product_update_ok u) (update_product product_id u))"

definition office_archive_product where
  "office_archive_product decode token product_id =
     secured (get_current_user decode [CATALOG_WRITE]) token (\<lambda>_. archive_product product_id)"

definition office_restore_product where
  "office_restore_product decode token product_id =
     secured (get_current_user decode [CATALOG_WRITE]) token (\<lambda>_. restore_product product_id)"

definition office_delete_product where
  "office_delete_product decode token product_id =
     secured (get_current_user decode [CATALOG_WRITE]) token (\<lambda>_. hard_delete product_id)"

section \<open>Inventories\<close>

definition office_transports where
  "office_transports decode token page n user_id =
     secured (get_current_user decode [TRANSPORTS_READ]) token (\<lambda>_.
     validated (page_ok page n) (query (\<lambda>s. fst (get_transports ((page - 1) * n) n user_id s))))"

definition office_create_transport where
  "office_create_transport decode token user_id nm =
     secured (get_current_user decode [INVENTORY_WRITE]) token (\<lambda>_.
     validated (transport_create_ok nm) (create_transport user_id nm))"

definition office_transport_detail where
  "office_transport_detail decode token transport_id =
     secured (get_current_user decode [TRANSPORTS_READ]) token (\<lambda>_.
     or_404 (query (get_inventory_with_balances transport_id (Some IT_COURIER))))"

definition office_update_transport where
  "office_update_transport decode token transport_id user_id nm =
     secured (get_current_user decode [INVENTORY_WRITE]) token (\<lambda>_.
     validated (transport_update_ok nm) (or_404 (update_transport transport_id user_id nm)))"

definition office_delete_transport where
  "office_delete_transport decode token transport_id =
     secured (get_current_user decode [INVENTORY_WRITE]) token (\<lambda>_. or_404_bool (delete_transport transport_id))"

text \<open>A storekeeper sees only what they own.\<close>

definition owner_filter :: "user_row \<Rightarrow> uuid option" where
  "owner_filter u = (if usr_role u = R_STOREKEEPER then Some (row_id u) else None)"

definition office_warehouses where
  "office_warehouses decode isoformat fromisoformat coll token cursor n =
     secured (get_current_user decode [INVENTORY_READ]) token (\<lambda>current_admin.
     validated (limit_ok 100 n)
       (if cursor \<noteq> None
        then lookup (\<lambda>s. map_sum id Inl
          (get_warehouses_with_balances_cursor isoformat fromisoformat coll (owner_filter current_admin) n cursor s))
        else query (\<lambda>s. Inr (get_all_warehouses_with_balances (owner_filter current_admin) s))))"

definition office_create_warehouse where
  "office_create_warehouse decode token user_id nm =
     secured (get_current_user decode [INVENTORY_WRITE]) token (\<lambda>_.
     validated (warehouse_create_ok nm) (create_warehouse user_id nm))"

definition office_warehouse_detail where
  "office_warehouse_detail decode token warehouse_id =
     secured (get_current_user decode [INVENTORY_READ]) token (\<lambda>current_admin.
     or_404 (query (\<lambda>s. case get_inventory_with_balances warehouse_id (Some IT_WAREHOUSE) s of
       None \<Rightarrow> None
     | Some w \<Rightarrow> if usr_role current_admin = R_STOREKEEPER \<and> inv_user_id w \<noteq> row_id current_admin then None else Some w)))"

definition office_update_warehouse where
  "office_update_warehouse decode lower token warehouse_id user_id nm =
     secured (get_current_user decode [INVENTORY_WRITE]) token (\<lambda>_.
     validated (warehouse_update_ok nm) (or_404 (update_warehouse lower warehouse_id user_id nm)))"

definition office_archive_warehouse where
  "office_archive_warehouse decode token warehouse_id =
     secured (get_current_user decode [INVENTORY_WRITE]) token (\<lambda>_. or_404_bool (archive_warehouse warehouse_id))"

definition office_search_inventories where
  "office_search_inventories decode isoformat fromisoformat coll lower token q inv_ty limit cursor n =
     secured (get_current_user decode [INVENTORY_READ]) token (\<lambda>_.
     validated (limit_ok 200 limit \<and> limit_ok 200 n)
       (if cursor \<noteq> None
        then lookup (\<lambda>s. map_sum id Inl (search_inventories_cursor isoformat fromisoformat coll lower q inv_ty n cursor s))
        else query (\<lambda>s. Inr (search_inventories lower q inv_ty limit s))))"

definition date_to_datetime_start :: "date \<Rightarrow> timestamp" where
  "date_to_datetime_start d = midnight d"

definition date_to_datetime_end :: "date \<Rightarrow> timestamp" where
  "date_to_datetime_end d = midnight (d + 1) - 1"

definition transfers_query ::
  "user_row \<Rightarrow> transfer_type option \<Rightarrow> date option \<Rightarrow> date option \<Rightarrow> uuid option \<Rightarrow> transfer_search" where
  "transfers_query current_admin ty from_date to_date warehouse_id =
     \<lparr>ts_status = None, ts_transfer_type = ty, ts_from_inventory_id = None, ts_to_inventory_id = None,
      ts_date_from = map_option date_to_datetime_start from_date, ts_date_to = map_option date_to_datetime_end to_date,
      ts_warehouse_owner_id = owner_filter current_admin, ts_warehouse_id = warehouse_id\<rparr>"

definition office_transfers where
  "office_transfers decode isoformat fromisoformat token page n cursor ty from_date to_date warehouse_id =
     secured (get_current_user decode [LOGISTICS_TRANSFER]) token (\<lambda>current_admin.
     validated (page_ok page n)
       (let q = transfers_query current_admin ty from_date to_date warehouse_id in
        if cursor \<noteq> None
        then lookup (\<lambda>s. map_sum id Inl (search_transfers_cursor isoformat fromisoformat n cursor q s))
        else query (\<lambda>s. Inr (search_transfers ((page - 1) * n) n q s))))"

text \<open>The service gets the scopes of the token, for the adjustments.\<close>

definition token_scopes :: "(timestamp \<Rightarrow> 't \<Rightarrow> jwt_error + claims) \<Rightarrow> 't \<Rightarrow> db \<Rightarrow> string list" where
  "token_scopes decode token s = (case decode_access_token decode (clock s) token of Inl _ \<Rightarrow> [] | Inr c \<Rightarrow> get_caller_scopes c)"

definition office_create_transfer where
  "office_create_transfer decode token rq =
     secured (get_current_user decode [LOGISTICS_TRANSFER]) token (\<lambda>current_admin.
     validated (create_transfer_ok rq) (\<lambda>s.
       create_transfer (row_id current_admin) rq (Some (token_scopes decode token s)) s))"

section \<open>Contracts\<close>

definition office_create_contract where
  "office_create_contract decode token client_id dto =
     secured (get_current_user decode [CONTRACTS_WRITE]) token (\<lambda>_.
     validated (contract_create_ok dto) (create_contract client_id dto))"

definition office_contracts where
  "office_contracts decode token skip limit client_id status =
     secured (get_current_user decode [CONTRACTS_READ]) token (\<lambda>_.
     validated (limit_ok 100 limit) (query (list_contracts status client_id skip limit)))"

definition office_get_contract where
  "office_get_contract decode token contract_id =
     secured (get_current_user decode [CONTRACTS_READ]) token (\<lambda>_. get_contract_with_prices contract_id)"

definition office_update_contract where
  "office_update_contract decode token contract_id d =
     secured (get_current_user decode [CONTRACTS_WRITE]) token (\<lambda>_.
     validated (contract_update_ok d) (update_contract contract_id d))"

definition office_activate_contract where
  "office_activate_contract decode token contract_id =
     secured (get_current_user decode [CONTRACTS_MANAGE]) token (\<lambda>u. activate_contract contract_id (row_id u))"

definition office_suspend_contract where
  "office_suspend_contract decode token contract_id reason =
     secured (get_current_user decode [CONTRACTS_MANAGE]) token (\<lambda>u.
     validated (suspend_request_ok reason) (suspend_contract contract_id reason (Some (row_id u))))"

definition office_reinstate_contract where
  "office_reinstate_contract decode token contract_id =
     secured (get_current_user decode [CONTRACTS_MANAGE]) token (\<lambda>u. reinstate_contract contract_id (Some (row_id u)))"

definition office_terminate_contract where
  "office_terminate_contract decode token contract_id reason =
     secured (get_current_user decode [CONTRACTS_MANAGE]) token (\<lambda>u.
     validated (terminate_request_ok reason) (terminate_contract contract_id reason (Some (row_id u))))"

definition office_contract_prices where
  "office_contract_prices decode token contract_id =
     secured (get_current_user decode [CONTRACTS_READ]) token (\<lambda>_ s.
     apfst (map_sum id snd) (get_contract_with_prices contract_id s))"

definition office_price_item where
  "office_price_item decode token contract_id product_id price quantity =
     secured (get_current_user decode [CONTRACTS_WRITE]) token (\<lambda>_.
     validated (price_item_ok price quantity) (set_price_item contract_id product_id price quantity))"

definition office_delete_price_item where
  "office_delete_price_item decode token contract_id product_id =
     secured (get_current_user decode [CONTRACTS_WRITE]) token (\<lambda>_. remove_price_item contract_id product_id)"

definition office_contract_orders where
  "office_contract_orders decode token contract_id skip limit =
     secured (get_current_user decode [CONTRACTS_READ]) token (\<lambda>_.
     validated (limit_ok 100 limit) (list_contract_orders contract_id skip limit))"

definition office_generate_invoice where
  "office_generate_invoice decode token contract_id period_from period_to =
     secured (get_current_user decode [CONTRACTS_MANAGE]) token (\<lambda>_. generate_invoice contract_id period_from period_to)"

definition office_invoices where
  "office_invoices decode token contract_id =
     secured (get_current_user decode [CONTRACTS_READ]) token (\<lambda>_. list_invoices contract_id)"

definition office_get_invoice where
  "office_get_invoice decode token contract_id invoice_id =
     secured (get_current_user decode [CONTRACTS_READ]) token (\<lambda>_. get_invoice contract_id invoice_id)"

definition office_issue_invoice where
  "office_issue_invoice decode token contract_id invoice_id =
     secured (get_current_user decode [CONTRACTS_MANAGE]) token (\<lambda>_. issue_invoice contract_id invoice_id)"

definition office_mark_paid where
  "office_mark_paid decode token contract_id invoice_id =
     secured (get_current_user decode [CONTRACTS_MANAGE]) token (\<lambda>_. mark_invoice_paid contract_id invoice_id)"

definition office_cancel_invoice where
  "office_cancel_invoice decode token contract_id invoice_id =
     secured (get_current_user decode [CONTRACTS_MANAGE]) token (\<lambda>_. cancel_invoice contract_id invoice_id)"

definition office_reconciliation where
  "office_reconciliation decode token contract_id date_from date_to =
     secured (get_current_user decode [CONTRACTS_READ]) token (\<lambda>_. get_reconciliation contract_id date_from date_to)"

definition office_contract_history where
  "office_contract_history decode token contract_id =
     secured (get_current_user decode [CONTRACTS_READ]) token (\<lambda>_. list_status_history contract_id)"

definition office_create_amendment where
  "office_create_amendment decode token contract_id num description effective_date =
     secured (get_current_user decode [CONTRACTS_MANAGE]) token (\<lambda>u.
     validated (amendment_ok num description)
       (create_amendment contract_id num description effective_date (Some (row_id u))))"

definition office_amendments where
  "office_amendments decode token contract_id =
     secured (get_current_user decode [CONTRACTS_READ]) token (\<lambda>_. list_amendments contract_id)"

definition office_mark_overdue_job where
  "office_mark_overdue_job decode token =
     secured (get_current_user decode [CONTRACTS_MANAGE]) token (\<lambda>_. run_overdue_job)"

definition office_expire_contracts_job where
  "office_expire_contracts_job decode token =
     secured (get_current_user decode [CONTRACTS_MANAGE]) token (\<lambda>_. run_expire_job)"

section \<open>Finances\<close>

text \<open>The query parameters of the two listings; a deprecated alias counts when its successor is not given.\<close>

record account_query = account_filter +
  aq_type :: "account_type option"
  aq_search :: "string option"

definition list_or_alias :: "'a list option \<Rightarrow> 'a option \<Rightarrow> 'a list option" where
  "list_or_alias v alias_value = (case (v, alias_value) of
     (None, Some x) \<Rightarrow> Some [x] | (Some [], Some x) \<Rightarrow> Some [x] | _ \<Rightarrow> v)"

definition value_or_alias :: "'a option \<Rightarrow> 'a option \<Rightarrow> 'a option" where
  "value_or_alias v alias_value = (if v \<noteq> None then v else alias_value)"

definition build_account_filter :: "account_query \<Rightarrow> account_filter" where
  "build_account_filter q = (account_filter.truncate q)
     \<lparr>af_q := value_or_alias (af_q q) (aq_search q), af_type_in := list_or_alias (af_type_in q) (aq_type q)\<rparr>"

record transaction_query = transaction_filter +
  tq_status :: "transaction_status option"
  tq_min_amount :: "int option"
  tq_max_amount :: "int option"

definition transaction_query_ok :: "transaction_query \<Rightarrow> bool" where
  "transaction_query_ok q \<longleftrightarrow> given_ok (\<lambda>x. 2 \<le> length x) (tf_reason_search q)
     \<and> list_all (given_ok (\<lambda>n. 0 \<le> n)) [tf_amount_eq q, tf_amount_from q, tf_amount_to q, tq_min_amount q, tq_max_amount q]"

definition build_transaction_filter :: "transaction_query \<Rightarrow> transaction_filter" where
  "build_transaction_filter q = (transaction_filter.truncate q)
     \<lparr>tf_status_in := list_or_alias (tf_status_in q) (tq_status q),
      tf_amount_from := value_or_alias (tf_amount_from q) (tq_min_amount q),
      tf_amount_to := value_or_alias (tf_amount_to q) (tq_max_amount q)\<rparr>"

definition office_finance_dashboard where
  "office_finance_dashboard decode token = secured (get_current_user decode [FINANCES_READ]) token (\<lambda>_. query get_dashboard)"

definition office_b2b_debts where
  "office_b2b_debts decode token =
     secured (get_current_user decode [CONTRACTS_READ]) token (\<lambda>_. query get_b2b_contract_debts)"

definition int_page_ok :: "int \<Rightarrow> int \<Rightarrow> bool" where
  "int_page_ok page n \<longleftrightarrow> 1 \<le> page \<and> 1 \<le> n \<and> n \<le> 100"

definition office_accounts where
  "office_accounts decode lower token q page n =
     secured (get_current_user decode [FINANCES_READ]) token (\<lambda>_.
     validated (int_page_ok page n) (lookup (\<lambda>s. map_sum FinanceErr id (get_accounts lower (build_account_filter q) page n s))))"

definition office_account_detail where
  "office_account_detail decode token account_id =
     secured (get_current_user decode [FINANCES_READ]) token (\<lambda>_. lookup (get_account_detail account_id))"

definition office_account_statement where
  "office_account_statement decode token account_id date_from date_to page n =
     secured (get_current_user decode [FINANCES_READ]) token (\<lambda>_.
     validated (page_ok page n) (lookup (get_account_statement account_id date_from date_to ((page - 1) * n) n)))"

definition office_transactions where
  "office_transactions decode lower token q page n =
     secured (get_current_user decode [FINANCES_READ]) token (\<lambda>_.
     validated (int_page_ok page n \<and> transaction_query_ok q)
       (lookup (\<lambda>s. map_sum FinanceErr id (get_transactions lower (build_transaction_filter q) page n s))))"

definition office_create_transaction where
  "office_create_transaction decode token from_id to_id amount reason order_id =
     secured (get_current_user decode [FINANCES_WRITE]) token (\<lambda>u.
     validated (transaction_create_ok amount reason) (create_transaction from_id to_id amount reason order_id (row_id u)))"

definition office_verify_transaction where
  "office_verify_transaction decode token transaction_id =
     secured (get_current_user decode [FINANCES_WRITE]) token (\<lambda>u. verify_transaction transaction_id (row_id u))"

definition office_reject_transaction where
  "office_reject_transaction decode token transaction_id reason =
     secured (get_current_user decode [FINANCES_WRITE]) token (\<lambda>u.
     validated (text_between 3 255 reason) (reject_transaction transaction_id (row_id u) (Some reason)))"

definition office_couriers_summary where
  "office_couriers_summary decode token =
     secured (get_current_user decode [FINANCES_READ]) token (\<lambda>_. query get_couriers_summary)"

definition office_client_debts where
  "office_client_debts decode token min_debt page n =
     secured (get_current_user decode [FINANCES_READ]) token (\<lambda>_.
     validated (page_ok page n \<and> given_ok (\<lambda>d. 0 \<le> d) min_debt) (query (get_client_debts min_debt ((page - 1) * n) n)))"

definition office_accept_payment where
  "office_accept_payment decode token client_id amount payment_method reason order_id =
     secured (get_current_user decode [PAYMENTS_CREATE]) token (\<lambda>u.
     validated (0 < amount \<and> text_between 3 255 reason)
       (accept_payment client_id amount payment_method reason (row_id u) order_id))"

end
