(* ===== verification/ApiLaws.thy ===== *)
theory ApiLaws
  imports Backoffice OrderGuards Samples
begin

text \<open>What a token opens, route by route.\<close>

lemma secured_scopes:
  assumes "get_current_user decode required token s =
    (if set required \<subseteq> set sc then Inr u else Inl (HttpErr (ForbiddenError ''INSUFFICIENT_PERMISSIONS'')))"
  shows "secured (get_current_user decode required) token f s =
    (if set required \<subseteq> set sc then f u s else (Inl (HttpErr (ForbiddenError ''INSUFFICIENT_PERMISSIONS'')), s))"
  using assms by (simp add: secured_def)

lemma order_details_office:
  "tbl_get i False (orders s) = Some ord \<Longrightarrow> get_order_with_details i None s = (Inr ord, s)"
  by (simp add: get_order_with_details_def with_uow_def tx_run_defs require_order_run)

lemma order_details_stranger:
  "tbl_get i False (orders s) = Some ord \<Longrightarrow> u \<noteq> ord_client_id ord \<Longrightarrow> ord_courier_id ord \<noteq> Some u
    \<Longrightarrow> get_order_with_details i (Some u) s = (Inl (OrderErr (OrderAccessDeniedError u i)), s)"
  by (auto simp: get_order_with_details_def with_uow_def tx_run_defs require_order_run)

lemma client_loginE:
  assumes "client_login verify encode m jti phone password s = Inr token"
  obtains u where "u \<in> set (users s)" "is_active u" "usr_role u \<in> {R_CLIENT_B2B, R_CLIENT_B2C}"
    "token = build_token_response encode m jti u s"
proof -
  obtain u where auth: "authenticate_local_user verify phone password s = Inr u" and "usr_role u \<in> set CLIENT_ROLES"
      "token = build_token_response encode m jti u s"
    using assms by (auto simp: client_login_def split: sum.splits if_splits)
  with authenticate_local_userD [OF auth] that show ?thesis by (metis CLIENT_ROLES_def set_simps)
qed

lemma client_scopes:
  assumes "usr_role u \<in> {R_CLIENT_B2B, R_CLIENT_B2C}"
  shows "set [ORDERS_READ] \<subseteq> set (ROLE_SCOPES (usr_role u))" "set [ORDERS_CREATE] \<subseteq> set (ROLE_SCOPES (usr_role u))"
    "\<not> set [ORDERS_EDIT] \<subseteq> set (ROLE_SCOPES (usr_role u))"
  using assms by (auto simp: BASE_SCOPES_def)

text \<open>The sample database with an identity of its retail client.\<close>

definition sample_client_db :: db where
  "sample_client_db = sample_db\<lparr>identities :=
     [\<lparr>row_id = 96, is_active = True, created_at = 0, updated_at = 0, idn_user_id = 4, idn_provider = AP_LOCAL,
       idn_provider_identity_id = ''997'', idn_password_hash = Some ''secret''\<rparr>]\<rparr>"

section \<open>Properties\<close>

text \<open>
  C39. The role of the caller is not checked in the back office: with the token of a client's login, the client's API answers
  \<open>ORDER_ACCESS_DENIED\<close> for the order of somebody else, while the back office route shows it, and
  places an order in the name of any client. Only the routes that need \<open>orders:edit\<close> are closed to the token. The hypothesis on \<open>PyJWT\<close> is that
  a token decodes to what was encoded while it has not expired.
\<close>

theorem client_token_in_back_office:
  assumes jwt: "\<And>now c. now < clm_exp c \<Longrightarrow> decode now (encode c) = Inr c"
    and login: "client_login verify encode m jti phone password s = Inr token"
    and ids: "keys_distinct (users s)" "\<forall>u\<in>set (users s). row_id u < 2 ^ 128"
    and later: "users s' = users s" "clock s' < clock s + minutes m"
    and ord: "tbl_get i False (orders s') = Some ord"
  shows "\<exists>u\<in>set (users s). usr_role u \<in> {R_CLIENT_B2B, R_CLIENT_B2C}
    \<and> (row_id u \<noteq> ord_client_id ord \<and> ord_courier_id ord \<noteq> Some (row_id u)
        \<longrightarrow> client_order_details decode token i s' = (Inl (OrderErr (OrderAccessDeniedError (row_id u) i)), s'))
    \<and> office_order_details decode token i s' = (Inr ord, s')
    \<and> (order_create_ok dto \<longrightarrow> office_create_order decode token client_id dto s' = create_order client_id dto s')
    \<and> office_order_status decode token i st s' = (Inl (HttpErr (ForbiddenError ''INSUFFICIENT_PERMISSIONS'')), s')"
proof -
  obtain u where u: "u \<in> set (users s)" "is_active u" "usr_role u \<in> {R_CLIENT_B2B, R_CLIENT_B2C}"
    and token: "token = build_token_response encode m jti u s"
    by (rule client_loginE [OF login])
  have "get_current_user decode required token s' = (if set required \<subseteq> set (ROLE_SCOPES (usr_role u)) then Inr u
      else Inl (HttpErr (ForbiddenError ''INSUFFICIENT_PERMISSIONS'')))" for required
    unfolding token by (rule token_identifies) (use jwt ids u later in auto)
  note route = secured_scopes [OF this] and scopes = client_scopes [OF u(3)]
  have "office_order_details decode token i s' = (Inr ord, s')"
    using order_details_office [OF ord] unfolding office_order_details_def route by (simp only: scopes if_True)
  moreover have "office_create_order decode token client_id dto s' = create_order client_id dto s'" if "order_create_ok dto"
    using that unfolding office_create_order_def route by (simp only: scopes if_True validated_def)
  moreover have "office_order_status decode token i st s' = (Inl (HttpErr (ForbiddenError ''INSUFFICIENT_PERMISSIONS'')), s')"
    unfolding office_order_status_def route by (simp only: scopes if_False)
  moreover have "client_order_details decode token i s' = (Inl (OrderErr (OrderAccessDeniedError (row_id u) i)), s')"
    if "row_id u \<noteq> ord_client_id ord \<and> ord_courier_id ord \<noteq> Some (row_id u)"
    unfolding client_order_details_def route using order_details_stranger [OF ord conjunct1 [OF that] conjunct2 [OF that]]
    by (simp only: scopes if_True)
  ultimately show ?thesis using u by blast
qed

theorem client_token_in_back_office_witness:
  "\<exists>token ord. client_login (\<lambda>p h. Some (p = h)) (\<lambda>c. c) 30 9 ''997'' ''secret'' sample_client_db = Inr token
     \<and> tbl_get 60 False (orders sample_client_db) = Some ord \<and> ord_client_id ord = 5
     \<and> office_order_details sample_decode token 60 sample_client_db = (Inr ord, sample_client_db)"
proof -
  have "\<not> isl (client_login (\<lambda>p h. Some (p = h)) (\<lambda>c. c) 30 9 ''997'' ''secret'' sample_client_db)" by code_simp
  then obtain token where run: "client_login (\<lambda>p h. Some (p = h)) (\<lambda>c. c) 30 9 ''997'' ''secret'' sample_client_db = Inr token"
    by (metis sum.collapse(2))
  have ids: "keys_distinct (users sample_client_db)" "\<forall>u\<in>set (users sample_client_db). row_id u < 2 ^ 128"
    by (simp_all add: keys_distinct_def sample_client_db_def sample_defs sample_rows)
  have later: "clock sample_client_db < clock sample_client_db + minutes 30" by (simp add: minutes_def)
  have jwt: "now < clm_exp c \<Longrightarrow> sample_decode now c = Inr c" for now c by (simp add: sample_decode_def)
  have "map_option ord_client_id (tbl_get 60 False (orders sample_client_db)) = Some 5" by code_simp
  then obtain ord where ord: "tbl_get 60 False (orders sample_client_db) = Some ord" "ord_client_id ord = 5" by auto
  from client_token_in_back_office [where decode = sample_decode, OF jwt run ids refl later ord(1)] run ord
  show ?thesis by blast
qed

end
