(* ===== verification/Aggregates.thy ===== *)
theory Aggregates
  imports Calendar Schema "HOL-Library.Multiset"
begin

text \<open>
  What the reporting queries take from SQL and from Python's arithmetic: \<open>GROUP BY\<close>, \<open>SUM\<close> and \<open>COUNT\<close> with a filter,
  \<open>date_trunc\<close>, ranges of dates, and the rounding of a ratio. A query without \<open>ORDER BY\<close> lists its groups in the order in which they are
  first met, and rows that an \<open>ORDER BY\<close> does not separate keep that order.
\<close>

section \<open>Groups\<close>

fun first_met :: "'k list \<Rightarrow> 'k list" where
  "first_met [] = []"
| "first_met (k # ks) = k # first_met (filter (\<lambda>x. x \<noteq> k) ks)"

definition group_by :: "('r \<Rightarrow> 'k) \<Rightarrow> 'r list \<Rightarrow> ('k \<times> 'r list) list" where
  "group_by f rows = map (\<lambda>k. (k, filter (\<lambda>r. f r = k) rows)) (first_met (map f rows))"

definition sum_of :: "('r \<Rightarrow> int) \<Rightarrow> 'r list \<Rightarrow> int" where
  "sum_of h rows = sum_list (map h rows)"

definition sum_where :: "('r \<Rightarrow> bool) \<Rightarrow> ('r \<Rightarrow> int) \<Rightarrow> 'r list \<Rightarrow> int" where
  "sum_where P h rows = sum_of h (filter P rows)"

definition count_where :: "('r \<Rightarrow> bool) \<Rightarrow> 'r list \<Rightarrow> int" where
  "count_where P rows = int (length (filter P rows))"

definition largest :: "int list \<Rightarrow> int" where
  "largest ns = (if ns = [] then 0 else Max (set ns))"

text \<open>\<open>dict.get(k, 0)\<close> on a dictionary that a comprehension over the rows built: the last row of a key counts.\<close>

definition dict_get :: "('k \<times> 'v) list \<Rightarrow> 'k \<Rightarrow> 'v option" where
  "dict_get d k = map_of (rev d) k"

fun dict_put :: "'k \<Rightarrow> 'v \<Rightarrow> ('k \<times> 'v) list \<Rightarrow> ('k \<times> 'v) list" where
  "dict_put k v [] = [(k, v)]"
| "dict_put k v ((j, w) # d) = (if j = k then (j, v) # d else (j, w) # dict_put k v d)"

definition dict_or :: "'v \<Rightarrow> ('k \<times> 'v) list \<Rightarrow> 'k \<Rightarrow> 'v" where
  "dict_or v d k = (case dict_get d k of None \<Rightarrow> v | Some w \<Rightarrow> w)"

text \<open>\<open>ORDER BY key DESC\<close>.\<close>

definition sort_desc :: "('r \<Rightarrow> 'k::linorder) \<Rightarrow> 'r list \<Rightarrow> 'r list" where
  "sort_desc key rows = rev (sort_key key (rev rows))"

lemma first_met_set [simp]: "set (first_met ks) = set ks"
  by (induction ks rule: first_met.induct) auto

lemma first_met_distinct [simp]: "distinct (first_met ks)"
  by (induction ks rule: first_met.induct) auto

lemma sum_of_simps [simp]: "sum_of h [] = 0" "sum_of h (r # rows) = h r + sum_of h rows"
  "sum_of h (rows @ rows') = sum_of h rows + sum_of h rows'"
  by (simp_all add: sum_of_def)

lemma sum_of_filter: "sum_of h (filter P rows) = sum_of (\<lambda>r. if P r then h r else 0) rows"
  by (induction rows) auto

lemma sum_of_cong: "(\<And>r. r \<in> set rows \<Longrightarrow> g r = h r) \<Longrightarrow> sum_of g rows = sum_of h rows"
  by (induction rows) auto

lemma sum_of_add: "sum_of (\<lambda>r. g r + h r) rows = sum_of g rows + sum_of h rows"
  by (induction rows) auto

lemma sum_of_diff: "sum_of (\<lambda>r. g r - h r) rows = sum_of g rows - sum_of h rows"
  by (induction rows) auto

lemma sum_of_uminus: "sum_of (\<lambda>r. - h r) rows = - sum_of h rows"
  by (induction rows) auto

lemma sum_of_nonneg: "(\<And>r. r \<in> set rows \<Longrightarrow> 0 \<le> h r) \<Longrightarrow> 0 \<le> sum_of h rows"
  by (induction rows) auto

lemma sum_of_mset: "mset rows = mset rows' \<Longrightarrow> sum_of h rows = sum_of h rows'"
  unfolding sum_of_def by (metis mset_map sum_mset_sum_list)

lemma sum_of_sort [simp]: "sum_of h (sort_key g rows) = sum_of h rows"
  by (rule sum_of_mset) simp

lemma sum_of_map [simp]: "sum_of h (map g rows) = sum_of (\<lambda>r. h (g r)) rows"
  by (induction rows) auto

lemma length_sum_of: "int (length rows) = sum_of (\<lambda>_. 1) rows"
  by (induction rows) auto

lemma count_where_sum: "count_where P rows = sum_of (\<lambda>r. if P r then 1 else 0) rows"
  by (induction rows) (auto simp: count_where_def)

lemma sum_where_sum: "sum_where P h rows = sum_of (\<lambda>r. if P r then h r else 0) rows"
  by (simp add: sum_where_def sum_of_filter)

text \<open>The rows of the groups are the rows: a sum over the groups of a sum over the rows of each is the sum over all rows.\<close>

lemma sum_of_single:
  "distinct ks \<Longrightarrow> sum_of (\<lambda>k. if x = k then v else 0) ks = (if x \<in> set ks then v else 0)"
  by (induction ks) auto

lemma sum_of_keys:
  assumes "distinct ks" "f ` set rows \<subseteq> set ks"
  shows "sum_of (\<lambda>k. sum_of h (filter (\<lambda>r. f r = k) rows)) ks = sum_of h rows"
  using assms(2)
proof (induction rows)
  case (Cons r rows)
  have "sum_of (\<lambda>k. if f r = k then h r else 0) ks = h r" using sum_of_single [OF assms(1), of "f r" "h r"] Cons.prems by simp
  moreover have "sum_of (\<lambda>k. sum_of h (filter (\<lambda>r. f r = k) (r # rows))) ks
      = sum_of (\<lambda>k. (if f r = k then h r else 0) + sum_of h (filter (\<lambda>r. f r = k) rows)) ks"
    by (rule sum_of_cong) simp
  ultimately show ?case using Cons by (simp add: sum_of_add)
qed (simp add: sum_of_def)

lemma sum_of_groups: "sum_of (\<lambda>g. sum_of h (snd g)) (group_by f rows) = sum_of h rows"
  by (simp add: group_by_def sum_of_keys)

lemma sum_of_group_lengths: "sum_of (\<lambda>g. int (length (snd g))) (group_by f rows) = int (length rows)"
  unfolding length_sum_of by (rule sum_of_groups)

lemma group_by_nonempty: "(k, g) \<in> set (group_by f rows) \<Longrightarrow> g \<noteq> []"
  by (auto simp: group_by_def filter_empty_conv)

lemma group_by_keys: "map fst (group_by f rows) = first_met (map f rows)"
  by (simp add: group_by_def comp_def)

section \<open>Dates\<close>

definition in_period :: "date \<Rightarrow> date \<Rightarrow> timestamp \<Rightarrow> bool" where
  "in_period date_from date_to t \<longleftrightarrow> midnight date_from \<le> t \<and> t < midnight (date_to + 1)"

definition on_day :: "date \<Rightarrow> timestamp \<Rightarrow> bool" where
  "on_day d t \<longleftrightarrow> in_period d d t"

lemma midnight_mono [simp]: "midnight a \<le> midnight b \<longleftrightarrow> a \<le> b" "midnight a < midnight b \<longleftrightarrow> a < b"
  by (simp_all add: midnight_def usecs_per_day_def)

lemma midnight_le_iff: "midnight d \<le> t \<longleftrightarrow> d \<le> date_of t"
proof -
  have "midnight (date_of t) \<le> t" "t < midnight (date_of t + 1)" using date_of_range by blast+
  then show ?thesis by (meson less_le_trans linorder_not_less midnight_mono order.trans zle_add1_eq_le order_le_less_trans)
qed

lemma in_period_date: "in_period a b t \<longleftrightarrow> a \<le> date_of t \<and> date_of t \<le> b"
  unfolding in_period_def using midnight_le_iff [of a t] midnight_le_iff [of "b + 1" t] by linarith

lemma on_day_date: "on_day d t \<longleftrightarrow> date_of t = d"
  by (auto simp: on_day_def in_period_date)

datatype granularity = DAY | WEEK | MONTH

fun date_trunc :: "granularity \<Rightarrow> date \<Rightarrow> date" where
  "date_trunc DAY d = d"
| "date_trunc WEEK d = d - weekday d"
| "date_trunc MONTH d = first_of_month d"

section \<open>Ratios\<close>

text \<open>A quotient rounded to an integer, half to even.\<close>

definition half_even :: "int \<Rightarrow> int \<Rightarrow> int" where
  "half_even n d = (let q = n div d; r = n mod d in
     if 2 * r < d then q else if d < 2 * r then q + 1 else if even q then q else q + 1)"

function bit_length :: "int \<Rightarrow> nat" where
  "bit_length n = (if n \<le> 0 then 0 else Suc (bit_length (n div 2)))"
  by auto
termination by (relation "measure nat") auto

declare bit_length.simps [simp del]

text \<open>
  \<open>n / d\<close> of two positive integers is the nearest number with 53 binary digits, a mantissa and the number of binary places;
  \<open>round(n / d, p)\<close> rounds the exact value of that number to \<open>p\<close> decimal places, and is given here in units of the last place. The
  integers are counts below \<open>2 ^ 53\<close>, so the quotient has binary places.
\<close>

definition float_quotient :: "int \<Rightarrow> int \<Rightarrow> int \<times> nat" where
  "float_quotient n d =
     (let k = 53 + bit_length d - bit_length n;
          k' = (if 2 ^ 53 * d \<le> n * 2 ^ k then k - 1 else k)
      in (half_even (n * 2 ^ k') d, k'))"

definition float_ratio :: "nat \<Rightarrow> int \<Rightarrow> int \<Rightarrow> int" where
  "float_ratio places n d = (case float_quotient n d of (m, k) \<Rightarrow> half_even (10 ^ places * m) (2 ^ k))"

text \<open>The quotient of two \<open>Decimal\<close>s has 28 digits, enough for the exact quotient of two 64-bit integers to decide its rounding.\<close>

definition decimal_ratio :: "nat \<Rightarrow> int \<Rightarrow> int \<Rightarrow> int" where
  "decimal_ratio places n d = half_even (10 ^ places * n) d"

lemma half_even_le:
  assumes "0 < d" "n \<le> b * d"
  shows "half_even n d \<le> b"
proof (cases "n div d < b")
  case False
  have "n div d \<le> b" using assms zdiv_mono1 [of n "b * d" d] by simp
  with False have "n div d = b" by simp
  moreover have "n = n div d * d + n mod d" by simp
  ultimately have "n mod d = 0" using assms pos_mod_sign [of d n] by (metis add_le_same_cancel1 order_antisym)
  then show ?thesis using \<open>n div d = b\<close> assms(1) by (simp add: half_even_def)
qed (simp add: half_even_def Let_def)

lemma half_even_nonneg: "0 < d \<Longrightarrow> 0 \<le> n \<Longrightarrow> 0 \<le> half_even n d"
  using pos_imp_zdiv_nonneg_iff [of d n] by (simp add: half_even_def Let_def)

lemma float_ratio_range:
  assumes "0 < d" "0 \<le> n" "n \<le> d"
  shows "0 \<le> float_ratio places n d" "float_ratio places n d \<le> 10 ^ places"
proof -
  obtain m k where mk: "float_quotient n d = (m, k)" by fastforce
  then have m: "m = half_even (n * 2 ^ k) d" by (auto simp: float_quotient_def Let_def)
  have "n * 2 ^ k \<le> 2 ^ k * d" using assms by simp
  then have "0 \<le> m" "m \<le> 2 ^ k" unfolding m using assms half_even_le half_even_nonneg by auto
  then show "0 \<le> float_ratio places n d" "float_ratio places n d \<le> 10 ^ places"
    by (simp_all add: float_ratio_def mk half_even_le half_even_nonneg)
qed

lemma decimal_ratio_range:
  "0 < d \<Longrightarrow> 0 \<le> n \<Longrightarrow> 0 \<le> decimal_ratio places n d"
  "0 < d \<Longrightarrow> n \<le> d \<Longrightarrow> decimal_ratio places n d \<le> 10 ^ places"
  by (simp_all add: decimal_ratio_def half_even_le half_even_nonneg)

lemma float_ratio_examples: "float_ratio 4 1 3 = 3333" "float_ratio 4 2 3 = 6667" "float_ratio 4 1 1 = 10000"
  "float_ratio 4 0 7 = 0" "float_ratio 4 1 32 = 312" "float_ratio 2 7 2 = 350"
  by code_simp+

end
