(* ===== verification/StockReports.thy ===== *)
theory StockReports
  imports Aggregates Stock
begin

text \<open>
  The reports on stock: \<open>InventoryDashboardQueries\<close> (\<open>src/modules/inventory/dashboard_queries.py\<close>) and the reports of
  \<open>StockTransactionRepository\<close> on the containers that clients hold.
\<close>

section \<open>Joined rows\<close>

definition stock_rows :: "db \<Rightarrow> (balance_row \<times> inventory_row \<times> product_row) list" where
  "stock_rows s = concat (map (\<lambda>b.
     case (tbl_get (bal_inventory_id b) False (inventories s), tbl_get (bal_product_id b) False (products s)) of
       (Some v, Some p) \<Rightarrow> [(b, v, p)] | _ \<Rightarrow> []) (inventory_balances s))"

abbreviation row_quantity :: "balance_row \<times> inventory_row \<times> product_row \<Rightarrow> int" where
  "row_quantity r \<equiv> bal_quantity (fst r)"

abbreviation row_place :: "balance_row \<times> inventory_row \<times> product_row \<Rightarrow> inventory_type" where
  "row_place r \<equiv> inv_type (fst (snd r))"

abbreviation row_product :: "balance_row \<times> inventory_row \<times> product_row \<Rightarrow> product_row" where
  "row_product r \<equiv> snd (snd r)"

definition place_of :: "uuid \<Rightarrow> db \<Rightarrow> inventory_type option" where
  "place_of i s = map_option inv_type (tbl_get i False (inventories s))"

section \<open>Summary and containers\<close>

record inventory_summary =
  ism_total_water_stock :: int
  ism_total_container_stock :: int
  ism_total_equipment_stock :: int
  ism_containers_at_clients :: int
  ism_stock_on_couriers :: int
  ism_losses_today :: int
  ism_active_couriers_count :: int

definition losses_on :: "date \<Rightarrow> db \<Rightarrow> int" where
  "losses_on d s = sum_of stx_quantity (filter (\<lambda>t. place_of (stx_to_id t) s = Some IT_VIRTUAL_LOSS
     \<and> on_day d (created_at t)) (stock_transactions s))"

definition get_summary :: "uuid option \<Rightarrow> db \<Rightarrow> inventory_summary" where
  "get_summary warehouse_owner_id s =
     (let rows = filter (\<lambda>r. row_quantity r > 0 \<and> (case warehouse_owner_id of None \<Rightarrow> True
            | Some u \<Rightarrow> row_place r = IT_WAREHOUSE \<and> inv_user_id (fst (snd r)) = u)) (stock_rows s);
          wh_co = [IT_WAREHOUSE, IT_COURIER];
          kind = (\<lambda>ty r. prd_type (row_product r) = ty)
      in \<lparr>ism_total_water_stock = sum_where (\<lambda>r. kind PT_WATER r \<and> row_place r \<in> set wh_co) row_quantity rows,
          ism_total_container_stock = sum_where (\<lambda>r. kind PT_CONTAINER r \<and> row_place r \<in> set wh_co) row_quantity rows,
          ism_total_equipment_stock = sum_where (\<lambda>r. kind PT_EQUIPMENT r \<and> row_place r \<in> set wh_co) row_quantity rows,
          ism_containers_at_clients = sum_where (\<lambda>r. kind PT_CONTAINER r \<and> row_place r = IT_CLIENT) row_quantity rows,
          ism_stock_on_couriers = sum_where (\<lambda>r. row_place r = IT_COURIER) row_quantity rows,
          ism_losses_today = losses_on (date_of (clock s)) s,
          ism_active_couriers_count = int (length (remdups (map inv_user_id
            (filter (\<lambda>v. inv_type v = IT_COURIER \<and> is_active v) (inventories s)))))\<rparr>)"

record container_breakdown =
  cbd_product_id :: uuid
  cbd_product_name :: string
  cbd_at_warehouses :: int
  cbd_at_couriers :: int
  cbd_at_clients :: int
  cbd_lost :: int
  cbd_total :: int

record container_distribution =
  cds_at_warehouses :: int
  cds_at_couriers :: int
  cds_at_clients :: int
  cds_lost :: int
  cds_total_in_system :: int
  cds_per_product :: "container_breakdown list"

text \<open>The balances of the products summed per product and kind of inventory.\<close>

definition product_place_sums ::
  "(balance_row \<times> inventory_row \<times> product_row) list \<Rightarrow> ((uuid \<times> string \<times> inventory_type) \<times> int) list" where
  "product_place_sums rows = map (\<lambda>(k, g). (k, sum_of row_quantity g))
     (group_by (\<lambda>r. (row_id (row_product r), prd_name (row_product r), row_place r)) rows)"

fun at_place :: "inventory_type \<Rightarrow> int \<Rightarrow> container_breakdown \<Rightarrow> container_breakdown" where
  "at_place IT_WAREHOUSE q p = p\<lparr>cbd_at_warehouses := q\<rparr>"
| "at_place IT_COURIER q p = p\<lparr>cbd_at_couriers := q\<rparr>"
| "at_place IT_CLIENT q p = p\<lparr>cbd_at_clients := q\<rparr>"
| "at_place IT_VIRTUAL_LOSS q p = p\<lparr>cbd_lost := q\<rparr>"
| "at_place IT_VIRTUAL_VENDOR q p = p"

fun breakdown_loop ::
  "((uuid \<times> string \<times> inventory_type) \<times> int) list \<Rightarrow> (uuid \<times> container_breakdown) list \<Rightarrow> (uuid \<times> container_breakdown) list" where
  "breakdown_loop [] d = d"
| "breakdown_loop (((pid, pname, place), qty) # rows) d =
     breakdown_loop rows (dict_put pid (at_place place qty (dict_or \<lparr>cbd_product_id = pid, cbd_product_name = pname,
       cbd_at_warehouses = 0, cbd_at_couriers = 0, cbd_at_clients = 0, cbd_lost = 0, cbd_total = 0\<rparr> d pid)) d)"

definition get_container_distribution :: "db \<Rightarrow> container_distribution" where
  "get_container_distribution s =
     (let rows = filter (\<lambda>r. prd_type (row_product r) = PT_CONTAINER) (stock_rows s);
          totals = map (\<lambda>(place, g). (place, sum_of row_quantity g)) (group_by row_place rows);
          products = breakdown_loop (product_place_sums rows) []
      in \<lparr>cds_at_warehouses = dict_or 0 totals IT_WAREHOUSE, cds_at_couriers = dict_or 0 totals IT_COURIER,
          cds_at_clients = dict_or 0 totals IT_CLIENT, cds_lost = dict_or 0 totals IT_VIRTUAL_LOSS,
          cds_total_in_system = abs (dict_or 0 totals IT_VIRTUAL_VENDOR),
          cds_per_product = map (\<lambda>(_, p). p\<lparr>cbd_total := cbd_at_warehouses p + cbd_at_couriers p + cbd_at_clients p + cbd_lost p\<rparr>) products\<rparr>)"

section \<open>The virtual accounts\<close>

record virtual_product =
  vpr_product_id :: uuid
  vpr_product_name :: string
  vpr_vendor_balance :: int
  vpr_loss_balance :: int

record virtual_accounts =
  vac_vendor_total :: int
  vac_loss_total :: int
  vac_real_total :: int
  vac_integrity_ok :: bool
  vac_integrity_diff :: int
  vac_per_product :: "virtual_product list"
  vac_loss_trend_30d :: "(date \<times> int) list"

record virtual_state =
  vst_vendor_by_product :: "(uuid \<times> int) list"
  vst_loss_by_product :: "(uuid \<times> int) list"
  vst_names :: "(uuid \<times> string) list"
  vst_vendor_total :: int
  vst_loss_total :: int
  vst_real_total :: int

definition virtual_step :: "(uuid \<times> string \<times> inventory_type) \<times> int \<Rightarrow> virtual_state \<Rightarrow> virtual_state" where
  "virtual_step r st = (case r of ((pid, pname, place), qty) \<Rightarrow>
     let st = st\<lparr>vst_names := dict_put pid pname (vst_names st)\<rparr> in
     if place = IT_VIRTUAL_VENDOR
     then st\<lparr>vst_vendor_by_product := dict_put pid (dict_or 0 (vst_vendor_by_product st) pid + qty) (vst_vendor_by_product st),
       vst_vendor_total := vst_vendor_total st + qty\<rparr>
     else if place = IT_VIRTUAL_LOSS
     then st\<lparr>vst_loss_by_product := dict_put pid (dict_or 0 (vst_loss_by_product st) pid + qty) (vst_loss_by_product st),
       vst_loss_total := vst_loss_total st + qty\<rparr>
     else if place \<in> {IT_WAREHOUSE, IT_COURIER, IT_CLIENT} then st\<lparr>vst_real_total := vst_real_total st + qty\<rparr>
     else st)"

definition get_virtual_accounts :: "db \<Rightarrow> virtual_accounts" where
  "get_virtual_accounts s =
     (let st = fold virtual_step (product_place_sums (stock_rows s)) \<lparr>vst_vendor_by_product = [], vst_loss_by_product = [],
            vst_names = [], vst_vendor_total = 0, vst_loss_total = 0, vst_real_total = 0\<rparr>;
          abs_vendor = abs (vst_vendor_total st);
          diff = abs_vendor - vst_loss_total st - vst_real_total st;
          per_product = concat (map (\<lambda>(pid, name).
            let vb = dict_or 0 (vst_vendor_by_product st) pid; lb = dict_or 0 (vst_loss_by_product st) pid in
            if vb \<noteq> 0 \<or> lb \<noteq> 0 then [\<lparr>vpr_product_id = pid, vpr_product_name = name, vpr_vendor_balance = vb, vpr_loss_balance = lb\<rparr>]
            else []) (vst_names st));
          lost = filter (\<lambda>t. place_of (stx_to_id t) s = Some IT_VIRTUAL_LOSS
            \<and> midnight (date_of (clock s) - 30) \<le> created_at t) (stock_transactions s)
      in \<lparr>vac_vendor_total = abs_vendor, vac_loss_total = vst_loss_total st, vac_real_total = vst_real_total st,
          vac_integrity_ok = (diff = 0), vac_integrity_diff = diff, vac_per_product = per_product,
          vac_loss_trend_30d = sort_key fst (map (\<lambda>(d, g). (d, sum_of stx_quantity g))
            (group_by (\<lambda>t. date_of (created_at t)) lost))\<rparr>)"

section \<open>Containers at clients and movements\<close>

record container_debtor =
  cdb_client_id :: uuid
  cdb_client_name :: string
  cdb_client_type :: role
  cdb_container_balance :: int
  cdb_last_order_date :: "date option"

definition last_order_date :: "uuid \<Rightarrow> db \<Rightarrow> date option" where
  "last_order_date u s = (let ts = map created_at (filter (\<lambda>r. ord_client_id r = u
       \<and> ord_status r \<in> {OS_DELIVERED, OS_PICKUP_COMPLETED}) (orders s))
     in if ts = [] then None else Some (date_of (Max (set ts))))"

definition client_container_rows :: "db \<Rightarrow> (balance_row \<times> inventory_row \<times> product_row) list" where
  "client_container_rows s = filter (\<lambda>r. row_place r = IT_CLIENT \<and> prd_type (row_product r) = PT_CONTAINER
     \<and> row_quantity r > 0) (stock_rows s)"

definition get_container_debtors :: "nat \<Rightarrow> db \<Rightarrow> container_debtor list \<times> int" where
  "get_container_debtors limit s =
     (let rows = concat (map (\<lambda>r. case tbl_get (inv_user_id (fst (snd r))) False (users s) of
            None \<Rightarrow> [] | Some u \<Rightarrow> if row_id u \<in> {SYSTEM_USER_ID, WALKIN_USER_ID} then [] else [(r, u)]) (client_container_rows s));
          debtors = map (\<lambda>((i, name, ty), g). \<lparr>cdb_client_id = i, cdb_client_name = name, cdb_client_type = ty,
            cdb_container_balance = sum_of (\<lambda>(r, u). row_quantity r) g, cdb_last_order_date = last_order_date i s\<rparr>)
            (group_by (\<lambda>(r, u). (row_id u, usr_username u, usr_role u)) rows)
      in (take limit (sort_desc cdb_container_balance debtors), sum_of row_quantity (client_container_rows s)))"

record movement_type_stats =
  mvt_transfer_type :: transfer_type
  mvt_transfers_count :: int
  mvt_total_items :: int

record movement_stats =
  mvs_types :: "movement_type_stats list"
  mvs_total_transfers :: int
  mvs_total_items :: int

definition own_warehouse :: "uuid \<Rightarrow> uuid \<Rightarrow> db \<Rightarrow> bool" where
  "own_warehouse u i s = (\<exists>v\<in>set (inventories s). row_id v = i \<and> inv_user_id v = u \<and> inv_type v = IT_WAREHOUSE)"

definition get_movement_stats :: "date \<Rightarrow> date \<Rightarrow> uuid option \<Rightarrow> db \<Rightarrow> movement_stats" where
  "get_movement_stats date_from date_to warehouse_owner_id s =
     (let rows = filter (\<lambda>(t, f). in_period date_from date_to (created_at f)
            \<and> (case warehouse_owner_id of None \<Rightarrow> True
               | Some u \<Rightarrow> own_warehouse u (trf_from_id f) s \<or> own_warehouse u (trf_to_id f) s))
            (concat (map (\<lambda>t. case tbl_get (stx_transfer_id t) False (stock_transfers s) of
               None \<Rightarrow> [] | Some f \<Rightarrow> [(t, f)]) (stock_transactions s)));
          types = map (\<lambda>(ty, g). \<lparr>mvt_transfer_type = ty, mvt_transfers_count = int (length (remdups (map (\<lambda>(t, f). row_id f) g))),
            mvt_total_items = sum_of (\<lambda>(t, f). stx_quantity t) g\<rparr>) (group_by (\<lambda>(t, f). trf_type f) rows)
      in \<lparr>mvs_types = types, mvs_total_transfers = sum_of mvt_transfers_count types,
          mvs_total_items = sum_of mvt_total_items types\<rparr>)"

section \<open>The trend of the stock\<close>

text \<open>A kind of stock: a type of product, in some types of inventories.\<close>

type_synonym stock_kind = "product_type \<times> inventory_type list"

definition WATER_STOCK :: stock_kind where "WATER_STOCK = (PT_WATER, [IT_WAREHOUSE, IT_COURIER])"

definition CONTAINER_STOCK :: stock_kind where "CONTAINER_STOCK = (PT_CONTAINER, [IT_WAREHOUSE, IT_COURIER])"

definition CLIENT_CONTAINERS :: stock_kind where "CLIENT_CONTAINERS = (PT_CONTAINER, [IT_CLIENT])"

definition current_stock :: "stock_kind \<Rightarrow> db \<Rightarrow> int" where
  "current_stock k s = sum_where (\<lambda>r. prd_type (row_product r) = fst k \<and> row_place r \<in> set (snd k)) row_quantity (stock_rows s)"

text \<open>The joined rows of the ledger: the transaction, the types of both inventories, the type of the product.\<close>

definition ledger_rows :: "db \<Rightarrow> (stock_transaction_row \<times> inventory_type \<times> inventory_type \<times> product_type) list" where
  "ledger_rows s = concat (map (\<lambda>t. case (place_of (stx_to_id t) s, place_of (stx_from_id t) s, tbl_get (stx_product_id t) False (products s)) of
     (Some i_to, Some i_from, Some p) \<Rightarrow> [(t, i_to, i_from, prd_type p)] | _ \<Rightarrow> []) (stock_transactions s))"

definition net_change :: "stock_kind \<Rightarrow> (stock_transaction_row \<times> inventory_type \<times> inventory_type \<times> product_type) list \<Rightarrow> int" where
  "net_change k rows =
     sum_where (\<lambda>(t, i_to, i_from, ty). ty = fst k \<and> i_to \<in> set (snd k)) (\<lambda>r. stx_quantity (fst r)) rows
     - sum_where (\<lambda>(t, i_to, i_from, ty). ty = fst k \<and> i_from \<in> set (snd k)) (\<lambda>r. stx_quantity (fst r)) rows"

record trend_point =
  trp_date :: date
  trp_water_stock :: int
  trp_container_stock :: int
  trp_containers_at_clients :: int

text \<open>The loop over the reversed days, with what changed after the day.\<close>

fun trend_loop :: "int \<times> int \<times> int \<Rightarrow> (date \<times> int \<times> int \<times> int) list \<Rightarrow> int \<times> int \<times> int \<Rightarrow> trend_point list" where
  "trend_loop now [] accum = []"
| "trend_loop (water_now, cont_now, cl_now) ((d, w, c, cl) # days) (accum_w, accum_c, accum_cl) =
     \<lparr>trp_date = d, trp_water_stock = water_now - accum_w, trp_container_stock = cont_now - accum_c,
      trp_containers_at_clients = cl_now - accum_cl\<rparr>
     # trend_loop (water_now, cont_now, cl_now) days (accum_w + w, accum_c + c, accum_cl + cl)"

definition day_nets :: "date \<Rightarrow> date \<Rightarrow> db \<Rightarrow> (date \<times> int \<times> int \<times> int) list" where
  "day_nets date_from date_to s = sort_key fst (map (\<lambda>(d, g). (d, net_change WATER_STOCK g, net_change CONTAINER_STOCK g,
       net_change CLIENT_CONTAINERS g))
     (group_by (\<lambda>r. date_of (created_at (fst r))) (filter (\<lambda>r. in_period date_from date_to (created_at (fst r))) (ledger_rows s))))"

definition get_inventory_trends :: "date \<Rightarrow> date \<Rightarrow> db \<Rightarrow> trend_point list" where
  "get_inventory_trends date_from date_to s =
     rev (trend_loop (current_stock WATER_STOCK s, current_stock CONTAINER_STOCK s, current_stock CLIENT_CONTAINERS s)
       (rev (day_nets date_from date_to s)) (0, 0, 0))"

section \<open>Reports of the ledger\<close>

definition client_inventory :: "uuid \<Rightarrow> uuid \<Rightarrow> db \<Rightarrow> bool" where
  "client_inventory u i s = (\<exists>v\<in>set (inventories s). row_id v = i \<and> inv_user_id v = u \<and> inv_type v = IT_CLIENT)"

definition get_client_total_debt :: "uuid \<Rightarrow> uuid \<Rightarrow> db \<Rightarrow> int" where
  "get_client_total_debt user_id empty_bottle_id s =
     sum_of (\<lambda>t. if client_inventory user_id (stx_to_id t) s then stx_quantity t
        else if client_inventory user_id (stx_from_id t) s then - stx_quantity t else 0)
       (filter (\<lambda>t. stx_product_id t = empty_bottle_id
          \<and> (client_inventory user_id (stx_to_id t) s \<or> client_inventory user_id (stx_from_id t) s)) (stock_transactions s))"

definition get_debtors_report :: "uuid \<Rightarrow> int \<Rightarrow> db \<Rightarrow> (uuid \<times> int) list" where
  "get_debtors_report empty_bottle_id min_debt s =
     (let rows = concat (map (\<lambda>t. map (\<lambda>v. (t, v)) (filter (\<lambda>v. (stx_to_id t = row_id v \<or> stx_from_id t = row_id v)
            \<and> inv_type v = IT_CLIENT) (inventories s))) (filter (\<lambda>t. stx_product_id t = empty_bottle_id) (stock_transactions s)));
          debts = map (\<lambda>(u, g). (u, sum_of (\<lambda>(t, v). if stx_to_id t = row_id v then stx_quantity t
            else if stx_from_id t = row_id v then - stx_quantity t else 0) g)) (group_by (\<lambda>(t, v). inv_user_id v) rows)
      in sort_desc snd (filter (\<lambda>(u, q). q \<ge> min_debt) debts))"

end
