(* ===== verification/StockListings.thy ===== *)
theory StockListings
  imports StockReports Billing
begin

text \<open>
  The two filtered listings of the stock ledger: \<open>StockLedgerService\<close> and \<open>BalanceService\<close> (\<open>src/modules/inventory/services.py\<close>)
  with their queries (\<open>StockTransactionRepository\<close> and \<open>BalanceRepository\<close> of \<open>src/modules/inventory/repositories.py\<close>) and the free-text
  search of \<open>src/modules/inventory/search.py\<close>. The exceptions share their names with those of the finances and carry \<open>Inv\<close> here, as
  the helpers of the module carry \<open>stock\<close>.
\<close>

section \<open>Free-text search\<close>

definition STOCK_LONG_HEX_RE :: "string \<Rightarrow> bool" where
  "STOCK_LONG_HEX_RE s \<longleftrightarrow> length (chomp s) \<ge> 8 \<and> list_all is_hex (chomp s)"

definition starts_0x :: "string \<Rightarrow> bool" where
  "starts_0x s \<longleftrightarrow> take 2 s \<in> {''0x'', ''0X''}"

definition stock_normalize_q :: "string option \<Rightarrow> inventory_error + string option" where
  "stock_normalize_q raw = (case raw of
     None \<Rightarrow> Inr None
   | Some raw \<Rightarrow>
       let q = py_strip raw in
       if q = [] then Inr None
       else if length q < MIN_LEN then Inl (InvSearchTooShortError (length q))
       else if length q > MAX_LEN then Inl (InvSearchTooLongError (length q))
       else let compact = py_replace_char (CHR ''-'') [] q;
                compact = (if starts_0x compact then drop 2 compact else compact) in
         if UUID_RE q \<or> STOCK_LONG_HEX_RE compact then Inl InvSearchUuidNotAllowedError
         else Inr (Some q))"

text \<open>\<open>str.isdigit\<close> holds of the three superscript digits, too.\<close>

definition py_isdigit :: "char \<Rightarrow> bool" where
  "py_isdigit c \<longleftrightarrow> (let n = of_char c :: nat in (48 \<le> n \<and> n \<le> 57) \<or> n \<in> {178, 179, 185})"

definition ascii_digit :: "char \<Rightarrow> bool" where
  "ascii_digit c \<longleftrightarrow> (let n = of_char c :: nat in 48 \<le> n \<and> n \<le> 57)"

definition extract_phone_digits :: "string \<Rightarrow> string" where
  "extract_phone_digits q = filter (\<lambda>c. \<not> (py_isspace c \<or> c \<in> set ''+-()'')) q"

definition is_phone_like :: "string \<Rightarrow> bool" where
  "is_phone_like q \<longleftrightarrow> (let digits = extract_phone_digits q in list_all py_isdigit digits \<and> length digits \<ge> 4)"

definition try_parse_int :: "string \<Rightarrow> int option" where
  "try_parse_int q = (let d = chomp q in
     if 1 \<le> length d \<and> length d \<le> 9 \<and> list_all ascii_digit d
     then Some (fold (\<lambda>c n. 10 * n + (of_char c - 48)) d 0) else None)"

section \<open>Filters\<close>

datatype stock_direction = ST_INCOMING | ST_OUTGOING | ST_ANY

datatype stock_sort = ST_CREATED_AT | ST_QUANTITY

record stock_transaction_filter =
  sf_q :: "string option"
  sf_product_id :: "uuid option"
  sf_product_id_in :: "uuid list option"
  sf_product_type_in :: "product_type list option"
  sf_from_id :: "uuid option"
  sf_to_id :: "uuid option"
  sf_inventory_id :: "uuid option"
  sf_direction :: "stock_direction option"
  sf_from_type_in :: "inventory_type list option"
  sf_to_type_in :: "inventory_type list option"
  sf_transfer_id :: "uuid option"
  sf_transfer_type_in :: "transfer_type list option"
  sf_order_id :: "uuid option"
  sf_created_by_id :: "uuid option"
  sf_quantity_eq :: "int option"
  sf_quantity_from :: "int option"
  sf_quantity_to :: "int option"
  sf_date_preset :: "date_preset option"
  sf_date_from :: "timestamp option"
  sf_date_to :: "timestamp option"
  sf_sort :: stock_sort
  sf_ascending :: bool

datatype balance_sort = BL_QUANTITY | BL_PRODUCT_NAME | BL_INVENTORY_NAME

record balance_filter =
  bf_q :: "string option"
  bf_product_id :: "uuid option"
  bf_product_id_in :: "uuid list option"
  bf_product_type_in :: "product_type list option"
  bf_inventory_type_in :: "inventory_type list option"
  bf_inventory_id_in :: "uuid list option"
  bf_user_id :: "uuid option"
  bf_quantity_from :: "int option"
  bf_quantity_to :: "int option"
  bf_nonzero_only :: bool
  bf_sort :: balance_sort
  bf_ascending :: bool

definition stock_check_pagination :: "int \<Rightarrow> int \<Rightarrow> inventory_error + unit" where
  "stock_check_pagination page page_size =
     (if page * page_size > MAX_PAGE_DEPTH then Inl (InvPaginationTooDeepError page page_size) else Inr ())"

definition validate_stock_transaction_filter :: "stock_transaction_filter \<Rightarrow> inventory_error + unit" where
  "validate_stock_transaction_filter f =
     (if sf_quantity_eq f \<noteq> None \<and> (sf_quantity_from f \<noteq> None \<or> sf_quantity_to f \<noteq> None) then Inl QuantityConflictError
      else if \<not> opt_when (sf_quantity_from f) (\<lambda>a. opt_when (sf_quantity_to f) (\<lambda>b. a \<le> b)) then Inl QuantityRangeInvalidError
      else if sf_date_preset f \<noteq> None \<and> (sf_date_from f \<noteq> None \<or> sf_date_to f \<noteq> None) then Inl InvDatePresetConflictError
      else if \<not> opt_when (sf_date_from f) (\<lambda>a. opt_when (sf_date_to f) (\<lambda>b. a \<le> b)) then Inl InvDateRangeInvalidError
      else Inr ())"

definition validate_balance_filter :: "balance_filter \<Rightarrow> inventory_error + unit" where
  "validate_balance_filter f =
     (if \<not> opt_when (bf_quantity_from f) (\<lambda>a. opt_when (bf_quantity_to f) (\<lambda>b. a \<le> b)) then Inl QuantityRangeInvalidError
      else Inr ())"

definition stock_resolve_date_preset :: "timestamp \<Rightarrow> stock_transaction_filter \<Rightarrow> stock_transaction_filter" where
  "stock_resolve_date_preset now f = (case sf_date_preset f of
     None \<Rightarrow> f
   | Some p \<Rightarrow>
       (case preset_days p (date_of (now + tashkent_offset)) of (start_local, end_local) \<Rightarrow>
          f\<lparr>sf_date_preset := None,
            sf_date_from := Some (midnight start_local - tashkent_offset),
            sf_date_to := Some (midnight end_local - tashkent_offset)\<rparr>))"

section \<open>The journal of movements\<close>

text \<open>The owner of an inventory has a local identity whose digits contain the given ones.\<close>

definition owner_phone_matches :: "string \<Rightarrow> uuid \<Rightarrow> db \<Rightarrow> bool" where
  "owner_phone_matches digits i s = (\<exists>v\<in>set (inventories s). row_id v = i
     \<and> (\<exists>u\<in>set (users s). row_id u = inv_user_id v
     \<and> (\<exists>x\<in>set (identities s). idn_user_id x = row_id u \<and> idn_provider x = AP_LOCAL
     \<and> like_match id (CHR 0x25 # digits @ [CHR 0x25]) (filter ascii_digit (idn_provider_identity_id x)))))"

definition stock_q_matches ::
  "(char \<Rightarrow> char) \<Rightarrow> db \<Rightarrow> string \<Rightarrow> stock_transaction_row \<Rightarrow> inventory_row \<Rightarrow> inventory_row \<Rightarrow> product_row \<Rightarrow> transfer_row \<Rightarrow> bool" where
  "stock_q_matches lower s q t fv tv p f =
     (let q = py_strip q; pat = ilike_pattern q in
      (\<not> is_phone_like q \<and> try_parse_int q = Some (stx_quantity t))
      \<or> like_match lower pat (prd_name p) \<or> like_match lower pat (inv_name fv) \<or> like_match lower pat (inv_name tv)
      \<or> (case trf_reason f of None \<Rightarrow> False | Some r \<Rightarrow> like_match lower pat r)
      \<or> (is_phone_like q \<and> (owner_phone_matches (extract_phone_digits q) (stx_from_id t) s
           \<or> owner_phone_matches (extract_phone_digits q) (stx_to_id t) s)))"

definition apply_stock_transaction_filters ::
  "(char \<Rightarrow> char) \<Rightarrow> db \<Rightarrow> stock_transaction_filter \<Rightarrow> stock_transaction_row \<Rightarrow> inventory_row \<Rightarrow> inventory_row \<Rightarrow> product_row \<Rightarrow> transfer_row \<Rightarrow> bool" where
  "apply_stock_transaction_filters lower s f t fv tv p tr \<longleftrightarrow>
     opt_when (sf_product_id f) (\<lambda>i. stx_product_id t = i)
     \<and> opt_in (stx_product_id t) (sf_product_id_in f)
     \<and> opt_in (prd_type p) (sf_product_type_in f)
     \<and> opt_when (sf_from_id f) (\<lambda>i. stx_from_id t = i)
     \<and> opt_when (sf_to_id f) (\<lambda>i. stx_to_id t = i)
     \<and> opt_when (sf_inventory_id f) (\<lambda>i. case sf_direction f of
          Some ST_INCOMING \<Rightarrow> stx_to_id t = i | Some ST_OUTGOING \<Rightarrow> stx_from_id t = i
        | _ \<Rightarrow> stx_from_id t = i \<or> stx_to_id t = i)
     \<and> opt_in (inv_type fv) (sf_from_type_in f)
     \<and> opt_in (inv_type tv) (sf_to_type_in f)
     \<and> opt_when (sf_transfer_id f) (\<lambda>i. stx_transfer_id t = i)
     \<and> opt_in (trf_type tr) (sf_transfer_type_in f)
     \<and> opt_when (sf_order_id f) (\<lambda>i. trf_order_id tr = Some i)
     \<and> opt_when (sf_created_by_id f) (\<lambda>i. trf_created_by_id tr = i)
     \<and> opt_when (sf_quantity_eq f) (\<lambda>n. stx_quantity t = n)
     \<and> opt_when (sf_quantity_from f) (\<lambda>n. stx_quantity t \<ge> n)
     \<and> opt_when (sf_quantity_to f) (\<lambda>n. stx_quantity t \<le> n)
     \<and> opt_when (sf_date_from f) (\<lambda>d. created_at t \<ge> d)
     \<and> opt_when (sf_date_to f) (\<lambda>d. created_at t \<le> d)
     \<and> opt_when (sf_q f) (\<lambda>q. q \<noteq> [] \<longrightarrow> stock_q_matches lower s q t fv tv p tr)"

record stock_transaction_item =
  sti_transaction :: stock_transaction_row
  sti_product :: product_row
  sti_from_inventory :: inventory_row
  sti_to_inventory :: inventory_row
  sti_transfer_type :: transfer_type

text \<open>The rows of the inner joins that satisfy the filter.\<close>

definition filtered_stock_transactions :: "(char \<Rightarrow> char) \<Rightarrow> stock_transaction_filter \<Rightarrow> db \<Rightarrow> stock_transaction_item list" where
  "filtered_stock_transactions lower f s = concat (map (\<lambda>t.
     case (tbl_get (stx_from_id t) False (inventories s), tbl_get (stx_to_id t) False (inventories s),
           tbl_get (stx_product_id t) False (products s), tbl_get (stx_transfer_id t) False (stock_transfers s)) of
       (Some fv, Some tv, Some p, Some tr) \<Rightarrow>
         if apply_stock_transaction_filters lower s f t fv tv p tr
         then [\<lparr>sti_transaction = t, sti_product = p, sti_from_inventory = fv, sti_to_inventory = tv, sti_transfer_type = trf_type tr\<rparr>]
         else []
     | _ \<Rightarrow> []) (stock_transactions s))"

definition sorted_by :: "bool \<Rightarrow> ('r \<Rightarrow> 'k::linorder) \<Rightarrow> 'r list \<Rightarrow> 'r list" where
  "sorted_by ascending key rows = (if ascending then sort_key key rows else sort_desc key rows)"

definition search_stock_transactions ::
  "(char \<Rightarrow> char) \<Rightarrow> stock_transaction_filter \<Rightarrow> nat \<Rightarrow> nat \<Rightarrow> db \<Rightarrow> int \<times> stock_transaction_item list" where
  "search_stock_transactions lower f skip limit s =
     (let rows = filtered_stock_transactions lower f s;
          by_id = sort_desc (\<lambda>r. row_id (sti_transaction r)) rows;
          key = (case sf_sort f of ST_QUANTITY \<Rightarrow> (\<lambda>r. stx_quantity (sti_transaction r)) | ST_CREATED_AT \<Rightarrow> (\<lambda>r. created_at (sti_transaction r)))
      in (int (length rows), take limit (drop skip (sorted_by (sf_ascending f) key by_id))))"

text \<open>
  The totals are selected from the subquery of the filtered rows, but the columns are those of the table: the table is a second
  element of the \<open>FROM\<close> clause, without a join condition.
\<close>

record stock_transaction_summary =
  sts_total_transactions :: int
  sts_total_quantity :: int
  sts_by_transfer_type :: "(transfer_type \<times> int) list"

definition summarize_stock_transactions :: "(char \<Rightarrow> char) \<Rightarrow> stock_transaction_filter \<Rightarrow> db \<Rightarrow> stock_transaction_summary" where
  "summarize_stock_transactions lower f s =
     (let rows = filtered_stock_transactions lower f s;
          crossed = List.product rows (stock_transactions s)
      in \<lparr>sts_total_transactions = int (length crossed),
          sts_total_quantity = sum_of (\<lambda>(_, t). stx_quantity t) crossed,
          sts_by_transfer_type = map (\<lambda>(ty, g). (ty, sum_of (\<lambda>r. stx_quantity (sti_transaction r)) g)) (group_by sti_transfer_type rows)\<rparr>)"

record offset_pagination =
  opg_page :: int
  opg_size :: int
  opg_total_count :: int
  opg_total_pages :: int

record stock_transactions_list =
  stl_items :: "stock_transaction_item list"
  stl_pagination :: offset_pagination
  stl_summary :: stock_transaction_summary

definition list_stock_ledger ::
  "(char \<Rightarrow> char) \<Rightarrow> stock_transaction_filter \<Rightarrow> int \<Rightarrow> int \<Rightarrow> db \<Rightarrow> app_error + stock_transactions_list" where
  "list_stock_ledger lower filters page page_size s =
     (case stock_check_pagination page page_size of Inl e \<Rightarrow> Inl (InventoryErr e) | Inr _ \<Rightarrow>
      (case stock_normalize_q (sf_q filters) of Inl e \<Rightarrow> Inl (InventoryErr e) | Inr q \<Rightarrow>
       let filters = filters\<lparr>sf_q := q\<rparr> in
       (case validate_stock_transaction_filter filters of Inl e \<Rightarrow> Inl (InventoryErr e) | Inr _ \<Rightarrow>
        let filters = stock_resolve_date_preset (clock s) filters in
        (case search_stock_transactions lower filters (nat ((page - 1) * page_size)) (nat page_size) s of (cnt, rows) \<Rightarrow>
         Inr \<lparr>stl_items = rows,
              stl_pagination = \<lparr>opg_page = page, opg_size = page_size, opg_total_count = cnt, opg_total_pages = total_pages cnt page_size\<rparr>,
              stl_summary = summarize_stock_transactions lower filters s\<rparr>))))"

section \<open>The balances\<close>

definition apply_balance_filters :: "(char \<Rightarrow> char) \<Rightarrow> balance_filter \<Rightarrow> balance_row \<times> inventory_row \<times> product_row \<Rightarrow> bool" where
  "apply_balance_filters lower f r \<longleftrightarrow> (case r of (b, v, p) \<Rightarrow>
     (bf_nonzero_only f \<longrightarrow> bal_quantity b > 0)
     \<and> opt_when (bf_product_id f) (\<lambda>i. bal_product_id b = i)
     \<and> opt_in (bal_product_id b) (bf_product_id_in f)
     \<and> opt_in (prd_type p) (bf_product_type_in f)
     \<and> opt_in (inv_type v) (bf_inventory_type_in f)
     \<and> opt_in (bal_inventory_id b) (bf_inventory_id_in f)
     \<and> opt_when (bf_user_id f) (\<lambda>i. inv_user_id v = i)
     \<and> opt_when (bf_quantity_from f) (\<lambda>n. bal_quantity b \<ge> n)
     \<and> opt_when (bf_quantity_to f) (\<lambda>n. bal_quantity b \<le> n)
     \<and> opt_when (bf_q f) (\<lambda>q. q \<noteq> [] \<longrightarrow> (let pat = ilike_pattern (py_strip q) in
          like_match lower pat (prd_name p) \<or> like_match lower pat (inv_name v))))"

definition filtered_balances ::
  "(char \<Rightarrow> char) \<Rightarrow> balance_filter \<Rightarrow> db \<Rightarrow> (balance_row \<times> inventory_row \<times> product_row) list" where
  "filtered_balances lower f s = filter (apply_balance_filters lower f) (stock_rows s)"

definition search_balances ::
  "(string \<Rightarrow> 'k::linorder) \<Rightarrow> (char \<Rightarrow> char) \<Rightarrow> balance_filter \<Rightarrow> nat \<Rightarrow> nat \<Rightarrow> db
   \<Rightarrow> int \<times> (balance_row \<times> inventory_row \<times> product_row) list" where
  "search_balances coll lower f skip limit s =
     (let rows = filtered_balances lower f s;
          by_id = sort_desc (\<lambda>(b, v, p). row_id b) rows;
          sorted = (case bf_sort f of
              BL_PRODUCT_NAME \<Rightarrow> sorted_by (bf_ascending f) (\<lambda>(b, v, p). coll (prd_name p)) by_id
            | BL_INVENTORY_NAME \<Rightarrow> sorted_by (bf_ascending f) (\<lambda>(b, v, p). coll (inv_name v)) by_id
            | BL_QUANTITY \<Rightarrow> sorted_by (bf_ascending f) row_quantity by_id)
      in (int (length rows), take limit (drop skip sorted)))"

record balance_summary =
  bls_total_quantity :: int
  bls_by_inventory_type :: "(inventory_type \<times> int) list"

text \<open>Here, too, the table is crossed with the subquery.\<close>

definition summarize_balances :: "(char \<Rightarrow> char) \<Rightarrow> balance_filter \<Rightarrow> db \<Rightarrow> balance_summary" where
  "summarize_balances lower f s =
     (let rows = filtered_balances lower f s
      in \<lparr>bls_total_quantity = sum_of (\<lambda>(_, b). bal_quantity b) (List.product rows (inventory_balances s)),
          bls_by_inventory_type = map (\<lambda>(ty, g). (ty, sum_of row_quantity g)) (group_by row_place rows)\<rparr>)"

record balances_list =
  bll_items :: "(balance_row \<times> inventory_row \<times> product_row) list"
  bll_pagination :: offset_pagination
  bll_summary :: balance_summary

definition list_balances ::
  "(string \<Rightarrow> 'k::linorder) \<Rightarrow> (char \<Rightarrow> char) \<Rightarrow> balance_filter \<Rightarrow> int \<Rightarrow> int \<Rightarrow> db \<Rightarrow> app_error + balances_list" where
  "list_balances coll lower filters page page_size s =
     (case stock_check_pagination page page_size of Inl e \<Rightarrow> Inl (InventoryErr e) | Inr _ \<Rightarrow>
      (case stock_normalize_q (bf_q filters) of Inl e \<Rightarrow> Inl (InventoryErr e) | Inr q \<Rightarrow>
       let filters = filters\<lparr>bf_q := q\<rparr> in
       (case validate_balance_filter filters of Inl e \<Rightarrow> Inl (InventoryErr e) | Inr _ \<Rightarrow>
        (case search_balances coll lower filters (nat ((page - 1) * page_size)) (nat page_size) s of (cnt, rows) \<Rightarrow>
         Inr \<lparr>bll_items = rows,
              bll_pagination = \<lparr>opg_page = page, opg_size = page_size, opg_total_count = cnt, opg_total_pages = total_pages cnt page_size\<rparr>,
              bll_summary = summarize_balances lower filters s\<rparr>))))"

end
