(* ===== verification/StockReportLaws.thy ===== *)
theory StockReportLaws
  imports StockListings
begin

text \<open>
  What the reports on stock show: the balances of a kind of stock against the history of the ledger, the trend, the integrity
  check of the virtual accounts, and the totals of the listing of balances.
\<close>

section \<open>Joined rows and the history\<close>

text \<open>An inventory and a product that satisfy a condition on the type of the inventory and on the product.\<close>

definition key_where :: "(inventory_type \<Rightarrow> product_row \<Rightarrow> bool) \<Rightarrow> db \<Rightarrow> stock_key \<Rightarrow> bool" where
  "key_where C s k = (case (place_of (fst k) s, tbl_get (snd k) False (products s)) of
     (Some v, Some p) \<Rightarrow> C v p | _ \<Rightarrow> False)"

lemma stock_rows_sum:
  "sum_where (\<lambda>r. C (row_place r) (row_product r)) row_quantity (stock_rows s)
    = sum_list (map bal_quantity (filter (\<lambda>b. key_where C s (bal_key b)) (inventory_balances s)))"
proof -
  have "sum_where (\<lambda>r. C (row_place r) (row_product r)) row_quantity (concat (map (\<lambda>b.
      case (tbl_get (bal_inventory_id b) False (inventories s), tbl_get (bal_product_id b) False (products s)) of
       (Some v, Some p) \<Rightarrow> [(b, v, p)] | _ \<Rightarrow> []) bs))
    = sum_list (map bal_quantity (filter (\<lambda>b. key_where C s (bal_key b)) bs))" for bs
    by (induction bs) (auto simp: sum_where_def key_where_def place_of_def bal_key_def split: option.splits)
  then show ?thesis by (simp add: stock_rows_def)
qed

definition moved :: "(stock_key \<Rightarrow> bool) \<Rightarrow> stock_transaction_row \<Rightarrow> int" where
  "moved C t = (if C (stx_to_id t, stx_product_id t) then stx_quantity t else 0)
     - (if C (stx_from_id t, stx_product_id t) then stx_quantity t else 0)"

lemma stock_rows_history:
  assumes "stock_explained s"
  shows "sum_where (\<lambda>r. C (row_place r) (row_product r)) row_quantity (stock_rows s)
    = sum_of (moved (key_where C s)) (stock_transactions s)"
  by (simp add: stock_rows_sum kind_total [OF assms] sum_of_def moved_def [abs_def])

lemma tbl_has_place: "tbl_has i (inventories s) \<Longrightarrow> \<exists>v. place_of i s = Some v"
  by (cases "tbl_get i False (inventories s)") (auto simp: place_of_def tbl_get_def tbl_has_def find_None_all)

lemma has_place:
  assumes "stock_ok s" "t \<in> set (stock_transactions s)"
  obtains i_to i_from where "place_of (stx_to_id t) s = Some i_to" "place_of (stx_from_id t) s = Some i_from"
  using assms tbl_has_place unfolding stock_ok_def by meson

text \<open>All the joined balances add up to nothing.\<close>

lemma stock_rows_zero:
  assumes "stock_explained s"
  shows "sum_of row_quantity (stock_rows s) = 0"
proof -
  have "moved (key_where (\<lambda>_ _. True) s) t = 0" if "t \<in> set (stock_transactions s)" for t
    by (rule has_place [of s t]) (use assms that in \<open>auto simp: stock_explained_def moved_def key_where_def split: option.splits\<close>)
  then have "sum_of (moved (key_where (\<lambda>_ _. True) s)) (stock_transactions s) = sum_of (\<lambda>_. 0) (stock_transactions s)"
    by (rule sum_of_cong)
  then show ?thesis
    using stock_rows_history [OF assms, of "\<lambda>_ _. True"] by (simp add: sum_where_def sum_of_def)
qed

section \<open>The trend\<close>

definition kind_cond :: "stock_kind \<Rightarrow> inventory_type \<Rightarrow> product_row \<Rightarrow> bool" where
  "kind_cond k v p \<longleftrightarrow> prd_type p = fst k \<and> v \<in> set (snd k)"

definition kind_moved :: "stock_kind \<Rightarrow> db \<Rightarrow> stock_transaction_row \<Rightarrow> int" where
  "kind_moved k s = moved (key_where (kind_cond k) s)"

text \<open>What the history says: the stock of a kind at the end of a day, and what has moved into it after a day.\<close>

definition stock_at :: "stock_kind \<Rightarrow> date \<Rightarrow> db \<Rightarrow> int" where
  "stock_at k d s = sum_of (kind_moved k s) (filter (\<lambda>t. date_of (created_at t) \<le> d) (stock_transactions s))"

definition moved_after :: "stock_kind \<Rightarrow> date \<Rightarrow> db \<Rightarrow> int" where
  "moved_after k d s = sum_of (kind_moved k s) (filter (\<lambda>t. d < date_of (created_at t)) (stock_transactions s))"

lemma current_stock_history:
  assumes "stock_explained s"
  shows "current_stock k s = sum_of (kind_moved k s) (stock_transactions s)"
  using stock_rows_history [OF assms, of "kind_cond k"] by (simp add: current_stock_def kind_moved_def kind_cond_def)

definition row_moved :: "stock_kind \<Rightarrow> stock_transaction_row \<times> inventory_type \<times> inventory_type \<times> product_type \<Rightarrow> int" where
  "row_moved k r = (case r of (t, i_to, i_from, ty) \<Rightarrow>
     (if ty = fst k \<and> i_to \<in> set (snd k) then stx_quantity t else 0) - (if ty = fst k \<and> i_from \<in> set (snd k) then stx_quantity t else 0))"

lemma net_change_sum: "net_change k rows = sum_of (row_moved k) rows"
  unfolding net_change_def sum_where_sum sum_of_diff [symmetric]
  by (rule sum_of_cong) (auto simp: row_moved_def split: prod.splits)

lemma ledger_rows_history:
  assumes "stock_ok s"
  shows "sum_of (row_moved k) (filter (\<lambda>r. P (fst r)) (ledger_rows s)) = sum_of (kind_moved k s) (filter P (stock_transactions s))"
proof -
  let ?join = "\<lambda>t. case (place_of (stx_to_id t) s, place_of (stx_from_id t) s, tbl_get (stx_product_id t) False (products s)) of
     (Some i_to, Some i_from, Some p) \<Rightarrow> [(t, i_to, i_from, prd_type p)] | _ \<Rightarrow> []"
  have one: "sum_of (row_moved k) (filter (\<lambda>r. P (fst r)) (?join t)) = (if P t then kind_moved k s t else 0)"
    if "t \<in> set (stock_transactions s)" for t
    by (rule has_place [OF assms that]) (auto simp: kind_moved_def moved_def key_where_def kind_cond_def row_moved_def split: option.splits)
  have "sum_of (row_moved k) (filter (\<lambda>r. P (fst r)) (concat (map ?join ts))) = sum_of (kind_moved k s) (filter P ts)"
    if "set ts \<subseteq> set (stock_transactions s)" for ts
    using that
  proof (induction ts)
    case (Cons t ts)
    then have "sum_of (row_moved k) (filter (\<lambda>r. P (fst r)) (concat (map ?join (t # ts))))
        = (if P t then kind_moved k s t else 0) + sum_of (kind_moved k s) (filter P ts)"
      by (simp only: list.map concat.simps filter_append sum_of_simps one [of t] list.set insert_subset simp_thms)
    then show ?case by simp
  qed simp
  then show ?thesis by (simp add: ledger_rows_def)
qed

text \<open>A point of the loop has subtracted what the days before it in the loop changed.\<close>

lemma trend_loopE:
  assumes "pt \<in> set (trend_loop (w, c, cl) days (aw, ac, acl))"
  obtains ys x zs where "days = ys @ x # zs" "trp_date pt = fst x"
    "trp_water_stock pt = w - aw - sum_of (\<lambda>d. fst (snd d)) ys"
    "trp_container_stock pt = c - ac - sum_of (\<lambda>d. fst (snd (snd d))) ys"
    "trp_containers_at_clients pt = cl - acl - sum_of (\<lambda>d. snd (snd (snd d))) ys"
  using assms
proof (induction days arbitrary: aw ac acl thesis)
  case (Cons day days)
  obtain d n m l where day: "day = (d, n, m, l)" by (cases day)
  from Cons.prems(2) consider "pt = \<lparr>trp_date = d, trp_water_stock = w - aw, trp_container_stock = c - ac, trp_containers_at_clients = cl - acl\<rparr>"
    | "pt \<in> set (trend_loop (w, c, cl) days (aw + n, ac + m, acl + l))" by (auto simp: day)
  then show ?case
  proof cases
    case 1
    then show ?thesis using Cons.prems(1) [of "[]" day days] by (simp add: day)
  next
    case 2
    then obtain ys x zs where *: "days = ys @ x # zs" "trp_date pt = fst x"
      "trp_water_stock pt = w - (aw + n) - sum_of (\<lambda>d. fst (snd d)) ys"
      "trp_container_stock pt = c - (ac + m) - sum_of (\<lambda>d. fst (snd (snd d))) ys"
      "trp_containers_at_clients pt = cl - (acl + l) - sum_of (\<lambda>d. snd (snd (snd d))) ys"
      using Cons.IH by blast
    show ?thesis by (rule Cons.prems(1) [of "day # ys" x zs]) (use * in \<open>simp_all add: day\<close>)
  qed
qed simp

lemma later_days:
  fixes xs :: "('k::linorder \<times> 'v) list"
  assumes "sorted (map fst xs)" "distinct (map fst xs)" "xs = as @ x # bs"
  shows "filter (\<lambda>e. fst x < fst e) xs = bs"
proof -
  have "filter (\<lambda>e. fst x < fst e) as = []" using assms by (auto simp: sorted_append filter_empty_conv)
  moreover have "filter (\<lambda>e. fst x < fst e) bs = bs"
    using assms by (force simp: sorted_append filter_id_conv order.strict_iff_order)
  ultimately show ?thesis by (simp add: assms(3))
qed

lemma mset_map_sort: "mset (map f (sort_key g xs)) = mset (map f xs)"
  by simp

lemma day_nets_sorted: "sorted (map fst (day_nets a b s))" "distinct (map fst (day_nets a b s))"
proof -
  have keys: "map fst (map (\<lambda>(d, g). (d, net_change WATER_STOCK g, net_change CONTAINER_STOCK g, net_change CLIENT_CONTAINERS g)) gs)
      = map fst gs" for gs by (induction gs) auto
  show "sorted (map fst (day_nets a b s))" by (simp add: day_nets_def)
  show "distinct (map fst (day_nets a b s))"
    unfolding day_nets_def mset_eq_imp_distinct_iff [OF mset_map_sort] by (simp only: keys group_by_keys first_met_distinct)
qed

lemma group_by_member: "(k, g) \<in> set (group_by f rows) \<Longrightarrow> r \<in> set g \<Longrightarrow> f r = k"
  by (auto simp: group_by_def)

lemma day_nets_range: "e \<in> set (day_nets a b s) \<Longrightarrow> a \<le> fst e \<and> fst e \<le> b"
  by (auto simp: day_nets_def group_by_def in_period_date)

lemma later_nets:
  assumes "stock_ok s" and "\<And>d g. p (d, net_change WATER_STOCK g, net_change CONTAINER_STOCK g, net_change CLIENT_CONTAINERS g) = net_change k g"
  shows "sum_of p (filter (\<lambda>e. d < fst e) (day_nets a b s))
    = sum_of (kind_moved k s) (filter (\<lambda>t. d < date_of (created_at t) \<and> in_period a b (created_at t)) (stock_transactions s))"
proof -
  let ?day = "\<lambda>r :: stock_transaction_row \<times> inventory_type \<times> inventory_type \<times> product_type. date_of (created_at (fst r))"
  let ?rows = "filter (\<lambda>r. in_period a b (created_at (fst r))) (ledger_rows s)"
  have "sum_of p (filter (\<lambda>e. d < fst e) (day_nets a b s))
      = sum_of (\<lambda>x. if d < fst x then net_change k (snd x) else 0) (group_by ?day ?rows)"
    by (simp add: day_nets_def sum_of_filter case_prod_unfold assms(2) cong: if_cong)
  also have "\<dots> = sum_of (\<lambda>x. sum_of (\<lambda>r. if d < ?day r then row_moved k r else 0) (snd x)) (group_by ?day ?rows)"
  proof (rule sum_of_cong)
    fix x assume x: "x \<in> set (group_by ?day ?rows)"
    have "sum_of (\<lambda>r. if d < ?day r then row_moved k r else 0) (snd x) = sum_of (\<lambda>r. if d < fst x then row_moved k r else 0) (snd x)"
      by (rule sum_of_cong) (use group_by_member [of "fst x" "snd x" ?day ?rows] x in simp)
    then show "(if d < fst x then net_change k (snd x) else 0) = sum_of (\<lambda>r. if d < ?day r then row_moved k r else 0) (snd x)"
      by (simp add: net_change_sum sum_of_def)
  qed
  also have "\<dots> = sum_of (row_moved k) (filter (\<lambda>r. d < ?day r \<and> in_period a b (created_at (fst r))) (ledger_rows s))"
    unfolding sum_of_groups by (simp add: sum_of_filter [symmetric] conj_commute)
  finally show ?thesis
    using ledger_rows_history [OF assms(1), of k "\<lambda>t. d < date_of (created_at t) \<and> in_period a b (created_at t)"] by simp
qed

lemma split_history:
  assumes "a \<le> d" "d \<le> b"
  shows "sum_of h ts - sum_of h (filter (\<lambda>t. d < date_of (created_at t) \<and> in_period a b (created_at t)) ts)
    = sum_of h (filter (\<lambda>t. date_of (created_at t) \<le> d) ts) + sum_of h (filter (\<lambda>t. b < date_of (created_at t)) ts)"
  using assms by (induction ts) (auto simp: in_period_date)

section \<open>The virtual accounts\<close>

lemma virtual_totals:
  "vst_vendor_total (fold virtual_step xs st) = vst_vendor_total st + sum_where (\<lambda>x. snd (snd (fst x)) = IT_VIRTUAL_VENDOR) snd xs"
  "vst_loss_total (fold virtual_step xs st) = vst_loss_total st + sum_where (\<lambda>x. snd (snd (fst x)) = IT_VIRTUAL_LOSS) snd xs"
  "vst_real_total (fold virtual_step xs st) = vst_real_total st
     + sum_where (\<lambda>x. snd (snd (fst x)) \<in> {IT_WAREHOUSE, IT_COURIER, IT_CLIENT}) snd xs"
  by (induction xs arbitrary: st) (auto simp: virtual_step_def sum_where_def Let_def split: prod.splits)

lemma product_place_sums_where:
  "sum_where (\<lambda>x. P (snd (snd (fst x)))) snd (product_place_sums rows) = sum_where (\<lambda>r. P (row_place r)) row_quantity rows"
proof -
  let ?key = "\<lambda>r. (row_id (row_product r), prd_name (row_product r), row_place r)"
  have "sum_where (\<lambda>x. P (snd (snd (fst x)))) snd (product_place_sums rows)
      = sum_of (\<lambda>x. if P (snd (snd (fst x))) then sum_of row_quantity (snd x) else 0) (group_by ?key rows)"
    by (simp add: product_place_sums_def sum_where_sum case_prod_unfold cong: if_cong)
  also have "\<dots> = sum_of (\<lambda>x. sum_of (\<lambda>r. if P (row_place r) then row_quantity r else 0) (snd x)) (group_by ?key rows)"
  proof (rule sum_of_cong)
    fix x assume x: "x \<in> set (group_by ?key rows)"
    have "row_place r = snd (snd (fst x))" if "r \<in> set (snd x)" for r
    proof -
      have "?key r = fst x" using group_by_member [of "fst x" "snd x" ?key rows r] x that by simp
      then show ?thesis by (metis snd_conv)
    qed
    then have "sum_of (\<lambda>r. if P (row_place r) then row_quantity r else 0) (snd x)
        = sum_of (\<lambda>r. if P (snd (snd (fst x))) then row_quantity r else 0) (snd x)"
      by (intro sum_of_cong) simp
    then show "(if P (snd (snd (fst x))) then sum_of row_quantity (snd x) else 0)
        = sum_of (\<lambda>r. if P (row_place r) then row_quantity r else 0) (snd x)"
      by (simp add: sum_of_def)
  qed
  finally show ?thesis unfolding sum_of_groups by (simp add: sum_where_sum)
qed

definition place_total :: "inventory_type list \<Rightarrow> db \<Rightarrow> int" where
  "place_total places s = sum_where (\<lambda>r. row_place r \<in> set places) row_quantity (stock_rows s)"

lemma place_totals_zero:
  assumes "stock_explained s"
  shows "place_total [IT_VIRTUAL_VENDOR] s + place_total [IT_VIRTUAL_LOSS] s + place_total [IT_WAREHOUSE, IT_COURIER, IT_CLIENT] s = 0"
proof -
  have "sum_of row_quantity rows = sum_where (\<lambda>r. row_place r \<in> set [IT_VIRTUAL_VENDOR]) row_quantity rows
      + sum_where (\<lambda>r. row_place r \<in> set [IT_VIRTUAL_LOSS]) row_quantity rows
      + sum_where (\<lambda>r. row_place r \<in> set [IT_WAREHOUSE, IT_COURIER, IT_CLIENT]) row_quantity rows" for rows
    unfolding sum_where_sum sum_of_add [symmetric] by (rule sum_of_cong) (use inventory_type.exhaust in auto)
  then show ?thesis using stock_rows_zero [OF assms] by (simp add: place_total_def)
qed

section \<open>Properties\<close>

text \<open>
  C35. The trend of the stock is the history of the ledger, shifted: each of its points lies in the period asked for, and shows, for each of the
  three kinds of stock, what the ledger says for the end of that day plus whatever has moved since the last day of the period. So the trend
  is right when it ends today and nothing moved later, and wrong by exactly those movements for a period in the past.
\<close>

theorem trend_is_history:
  assumes "stock_explained s" and "pt \<in> set (get_inventory_trends date_from date_to s)"
  shows "date_from \<le> trp_date pt \<and> trp_date pt \<le> date_to
    \<and> trp_water_stock pt = stock_at WATER_STOCK (trp_date pt) s + moved_after WATER_STOCK date_to s
    \<and> trp_container_stock pt = stock_at CONTAINER_STOCK (trp_date pt) s + moved_after CONTAINER_STOCK date_to s
    \<and> trp_containers_at_clients pt = stock_at CLIENT_CONTAINERS (trp_date pt) s + moved_after CLIENT_CONTAINERS date_to s"
proof -
  have ok: "stock_ok s" using assms(1) by (simp add: stock_explained_def)
  let ?nets = "day_nets date_from date_to s"
  have "pt \<in> set (trend_loop (current_stock WATER_STOCK s, current_stock CONTAINER_STOCK s, current_stock CLIENT_CONTAINERS s)
      (rev ?nets) (0, 0, 0))" using assms(2) by (simp add: get_inventory_trends_def)
  then obtain ys x zs where days: "rev ?nets = ys @ x # zs" and pt: "trp_date pt = fst x"
      "trp_water_stock pt = current_stock WATER_STOCK s - sum_of (\<lambda>d. fst (snd d)) ys"
      "trp_container_stock pt = current_stock CONTAINER_STOCK s - sum_of (\<lambda>d. fst (snd (snd d))) ys"
      "trp_containers_at_clients pt = current_stock CLIENT_CONTAINERS s - sum_of (\<lambda>d. snd (snd (snd d))) ys"
    by (rule trend_loopE) simp
  from days have nets: "?nets = rev zs @ x # rev ys" by (simp add: rev_swap)
  then have later: "filter (\<lambda>e. fst x < fst e) ?nets = rev ys" by (rule later_days [OF day_nets_sorted])
  have range: "date_from \<le> fst x" "fst x \<le> date_to" using day_nets_range [of x date_from date_to s] nets by auto
  have point: "current_stock k s - sum_of p ys = stock_at k (fst x) s + moved_after k date_to s"
    if "\<And>d g. p (d, net_change WATER_STOCK g, net_change CONTAINER_STOCK g, net_change CLIENT_CONTAINERS g) = net_change k g" for p k
  proof -
    have "sum_of p ys = sum_of p (filter (\<lambda>e. fst x < fst e) ?nets)" unfolding later by (rule sum_of_mset) simp
    then show ?thesis
      using later_nets [OF ok that, of "fst x" date_from date_to] split_history [OF range, of "kind_moved k s" "stock_transactions s"]
      by (simp add: current_stock_history [OF assms(1)] stock_at_def moved_after_def)
  qed
  show ?thesis using range by (simp add: pt point)
qed

theorem trend_is_history_witness:
  "get_inventory_trends 0 0 sample_db = [\<lparr>trp_date = 0, trp_water_stock = 100, trp_container_stock = 100, trp_containers_at_clients = 0\<rparr>]
   \<and> stock_at WATER_STOCK 0 sample_db + moved_after WATER_STOCK 0 sample_db = 100"
proof -
  have run: "get_inventory_trends 0 0 sample_db
      = [\<lparr>trp_date = 0, trp_water_stock = 100, trp_container_stock = 100, trp_containers_at_clients = 0\<rparr>]" by code_simp
  with trend_is_history [OF sample_stock_explained, of _ 0 0] show ?thesis by simp
qed

text \<open>
  C36. The integrity check of the virtual accounts tests a sign: in a sound ledger the goods lost and the goods in warehouses, vehicles and
  at clients are together exactly what the vendor's account is short of, so the check succeeds if and only if the vendor's account is not positive,
  and otherwise reports twice that balance as the difference.
\<close>

theorem integrity_check_is_sign:
  assumes "stock_explained s"
  shows "vac_loss_total (get_virtual_accounts s) + vac_real_total (get_virtual_accounts s) = - place_total [IT_VIRTUAL_VENDOR] s
    \<and> vac_integrity_ok (get_virtual_accounts s) = (place_total [IT_VIRTUAL_VENDOR] s \<le> 0)
    \<and> vac_integrity_diff (get_virtual_accounts s) = 2 * max 0 (place_total [IT_VIRTUAL_VENDOR] s)"
proof -
  let ?s0 = "\<lparr>vst_vendor_by_product = [], vst_loss_by_product = [], vst_names = [], vst_vendor_total = 0, vst_loss_total = 0, vst_real_total = 0\<rparr>"
  let ?st = "fold virtual_step (product_place_sums (stock_rows s)) ?s0"
  have totals: "vst_vendor_total ?st = place_total [IT_VIRTUAL_VENDOR] s" "vst_loss_total ?st = place_total [IT_VIRTUAL_LOSS] s"
    "vst_real_total ?st = place_total [IT_WAREHOUSE, IT_COURIER, IT_CLIENT] s"
    using product_place_sums_where [of "\<lambda>v. v = IT_VIRTUAL_VENDOR"] product_place_sums_where [of "\<lambda>v. v = IT_VIRTUAL_LOSS"]
      product_place_sums_where [of "\<lambda>v. v \<in> {IT_WAREHOUSE, IT_COURIER, IT_CLIENT}"]
    by (simp_all add: virtual_totals place_total_def)
  show ?thesis using place_totals_zero [OF assms] totals
    by (auto simp: get_virtual_accounts_def Let_def abs_if max_def)
qed

theorem integrity_check_is_sign_witness:
  "place_total [IT_VIRTUAL_VENDOR] sample_db = -200 \<and> vac_integrity_ok (get_virtual_accounts sample_db)
   \<and> vac_real_total (get_virtual_accounts sample_db) = 200"
proof -
  have "place_total [IT_VIRTUAL_VENDOR] sample_db = -200" "vac_loss_total (get_virtual_accounts sample_db) = 0" by code_simp+
  with integrity_check_is_sign [OF sample_stock_explained] show ?thesis by simp
qed

text \<open>
  C37. The total of the listing of balances is always 0: in a sound ledger, whatever the filter and however much is in stock, the
  summary of a listing shows the total quantity 0, because the sum runs over the whole table once for every row that was found, while its parts
  by type of inventory add up to the quantity of the rows that were found.
\<close>

theorem balances_total_is_zero:
  assumes "stock_explained s" and "list_balances coll lower f page n s = Inr resp"
  shows "bls_total_quantity (bll_summary resp) = 0
    \<and> (\<exists>f'. sum_of snd (bls_by_inventory_type (bll_summary resp)) = sum_of row_quantity (filtered_balances lower f' s)
        \<and> opg_total_count (bll_pagination resp) = int (length (filtered_balances lower f' s))
        \<and> set (bll_items resp) \<subseteq> set (filtered_balances lower f' s))"
proof -
  obtain f' cnt rows where run: "search_balances coll lower f' (nat ((page - 1) * n)) (nat n) s = (cnt, rows)"
      and resp: "bll_summary resp = summarize_balances lower f' s" "bll_items resp = rows" "opg_total_count (bll_pagination resp) = cnt"
    using assms(2) by (auto simp: list_balances_def Let_def split: sum.splits prod.splits)
  have sub: "set (take a (drop b (sorted_by asc key xs))) \<subseteq> set xs" for a b asc xs and key :: "_ \<Rightarrow> 'z::linorder"
    by (auto simp: sorted_by_def sort_desc_def dest!: in_set_takeD in_set_dropD split: if_splits)
  have "cnt = int (length (filtered_balances lower f' s))" "set rows \<subseteq> set (filtered_balances lower f' s)"
    using run sub by (auto simp: search_balances_def Let_def sort_desc_def split: balance_sort.splits dest!: subsetD [OF sub])
  moreover have "sum_of bal_quantity (inventory_balances s) = 0"
    using kind_total [OF assms(1), of "\<lambda>_. True"] by (simp add: sum_of_def)
  then have "sum_of (\<lambda>(_, b). bal_quantity b) (List.product xs (inventory_balances s)) = 0" for xs :: "(balance_row \<times> inventory_row \<times> product_row) list"
    by (induction xs) simp_all
  moreover have "sum_of snd (bls_by_inventory_type (summarize_balances lower f' s)) = sum_of row_quantity (filtered_balances lower f' s)"
    by (simp add: summarize_balances_def Let_def case_prod_unfold sum_of_groups)
  ultimately show ?thesis by (auto simp: resp summarize_balances_def)
qed

theorem balances_total_is_zero_witness:
  "\<exists>resp. list_balances (\<lambda>x. x) id \<lparr>bf_q = None, bf_product_id = None, bf_product_id_in = None, bf_product_type_in = Some [PT_WATER],
      bf_inventory_type_in = None, bf_inventory_id_in = None, bf_user_id = None, bf_quantity_from = None, bf_quantity_to = None,
      bf_nonzero_only = True, bf_sort = BL_QUANTITY, bf_ascending = False\<rparr> 1 50 sample_db = Inr resp
    \<and> map row_quantity (bll_items resp) = [90, 10] \<and> bls_total_quantity (bll_summary resp) = 0"
proof -
  let ?run = "list_balances (\<lambda>x. x) id \<lparr>bf_q = None, bf_product_id = None, bf_product_id_in = None, bf_product_type_in = Some [PT_WATER],
      bf_inventory_type_in = None, bf_inventory_id_in = None, bf_user_id = None, bf_quantity_from = None, bf_quantity_to = None,
      bf_nonzero_only = True, bf_sort = BL_QUANTITY, bf_ascending = False\<rparr> 1 50 sample_db"
  have "map_sum id (\<lambda>r. map row_quantity (bll_items r)) ?run = Inr [90, 10]" by code_simp
  then obtain resp where run: "?run = Inr resp" and items: "map row_quantity (bll_items resp) = [90, 10]"
    by (cases ?run) auto
  have "bls_total_quantity (bll_summary resp) = 0"
    using balances_total_is_zero [OF sample_stock_explained run] by (rule conjunct1)
  with run items show ?thesis by (intro exI [where x = resp] conjI)
qed

end
