(* ===== verification/SalesReports.thy ===== *)
theory SalesReports
  imports Aggregates Finances
begin

text \<open>
  The reports on orders and on money: \<open>OrderDashboardQueries\<close> (\<open>src/modules/orders/dashboard_queries.py\<close>) and \<open>FinanceDashboardQueries\<close>
  (\<open>src/modules/finances/dashboard_queries.py\<close>). A date in a comparison with a timestamp is its midnight, in the time zone UTC of the
  session. Rates are in units of their last decimal place. The average time of the confirmation of a card payment, which depends on the scale of
  PostgreSQL's numeric division, is left out.
\<close>

section \<open>Orders\<close>

definition ACTIVE_STATUSES :: "order_status list" where
  "ACTIVE_STATUSES = [OS_NEW, OS_ASSIGNED, OS_IN_TRANSIT, OS_ARRIVED]"

definition COMPLETED_STATUSES :: "order_status list" where
  "COMPLETED_STATUSES = [OS_DELIVERED, OS_PICKUP_COMPLETED]"

definition EXCLUDED_IDS :: "uuid list" where
  "EXCLUDED_IDS = [SYSTEM_USER_ID, WALKIN_USER_ID]"

definition FSM_ORDER :: "order_status list" where
  "FSM_ORDER = [OS_NEW, OS_ASSIGNED, OS_IN_TRANSIT, OS_ARRIVED, OS_DELIVERED, OS_PICKUP_COMPLETED, OS_CANCELLED]"

definition active_courier_count :: "db \<Rightarrow> int" where
  "active_courier_count s = int (length (remdups (map inv_user_id
     (filter (\<lambda>v. inv_type v = IT_COURIER \<and> is_active v) (inventories s)))))"

record orders_summary =
  osm_active_by_status :: "(order_status \<times> int) list"
  osm_unassigned_orders :: int
  osm_total_today :: int
  osm_delivered_today :: int
  osm_cancelled_today :: int
  osm_revenue_today :: int
  osm_by_sale_type :: "(sale_type \<times> int) list"
  osm_active_couriers :: int

definition get_orders_summary :: "db \<Rightarrow> orders_summary" where
  "get_orders_summary s =
     (let active = filter (\<lambda>r. ord_status r \<in> set ACTIVE_STATUSES \<and> is_active r) (orders s);
          unassigned = count_where (\<lambda>r. ord_status r = OS_NEW \<and> ord_sale_type r = SALE_DELIVERY
            \<and> ord_courier_id r = None \<and> is_active r) (orders s);
          today = filter (\<lambda>r. on_day (date_of (clock s)) (created_at r) \<and> is_active r) (orders s)
      in \<lparr>osm_active_by_status = map (\<lambda>(st, g). (st, int (length g))) (group_by ord_status active),
          osm_unassigned_orders = unassigned,
          osm_total_today = int (length today),
          osm_delivered_today = count_where (\<lambda>r. ord_status r \<in> set COMPLETED_STATUSES) today,
          osm_cancelled_today = count_where (\<lambda>r. ord_status r = OS_CANCELLED) today,
          osm_revenue_today = sum_where (\<lambda>r. ord_status r \<in> set COMPLETED_STATUSES) ord_total_amount today,
          osm_by_sale_type = [(SALE_DELIVERY, count_where (\<lambda>r. ord_sale_type r = SALE_DELIVERY) today),
            (SALE_WAREHOUSE_PICKUP, count_where (\<lambda>r. ord_sale_type r = SALE_WAREHOUSE_PICKUP) today)],
          osm_active_couriers = active_courier_count s\<rparr>)"

text \<open>The conditions that most of the reports share: a completed, active order created in the period.\<close>

definition completed_orders :: "date \<Rightarrow> date \<Rightarrow> db \<Rightarrow> order_row list" where
  "completed_orders date_from date_to s = filter (\<lambda>r. ord_status r \<in> set COMPLETED_STATUSES
     \<and> in_period date_from date_to (created_at r) \<and> is_active r) (orders s)"

definition method_rows :: "order_row list \<Rightarrow> (payment_method \<times> int \<times> int) list" where
  "method_rows rows = map (\<lambda>(m, g). (m, int (length g), sum_of ord_total_amount g)) (group_by ord_payment_method rows)"

record payment_breakdown =
  pbd_methods :: "(payment_method \<times> int \<times> int) list"
  pbd_total_orders :: int
  pbd_total_amount :: int

definition get_payment_breakdown :: "date \<Rightarrow> date \<Rightarrow> db \<Rightarrow> payment_breakdown" where
  "get_payment_breakdown date_from date_to s =
     (let methods = method_rows (completed_orders date_from date_to s)
      in \<lparr>pbd_methods = methods, pbd_total_orders = sum_of (\<lambda>m. fst (snd m)) methods,
          pbd_total_amount = sum_of (\<lambda>m. snd (snd m)) methods\<rparr>)"

text \<open>The points of a time series: the period, the number of orders and their amount, in the order of the periods.\<close>

definition period_rows :: "granularity \<Rightarrow> order_row list \<Rightarrow> (date \<times> int \<times> int) list" where
  "period_rows granularity rows = sort_key fst (map (\<lambda>(d, g). (d, int (length g), sum_of ord_total_amount g))
     (group_by (\<lambda>r. date_trunc granularity (date_of (created_at r))) rows))"

text \<open>\<open>Decimal // int\<close> cuts the fraction off.\<close>

definition decimal_floordiv :: "int \<Rightarrow> int \<Rightarrow> int" where
  "decimal_floordiv a b = (if a < 0 then - (- a div b) else a div b)"

definition client_of :: "order_row \<Rightarrow> db \<Rightarrow> user_row option" where
  "client_of r s = tbl_get (ord_client_id r) False (users s)"

record order_trend_point =
  otp_period :: date
  otp_orders_count :: int
  otp_revenue :: int
  otp_avg_order_value :: int

record order_trend =
  otr_points :: "order_trend_point list"
  otr_total_orders :: int
  otr_total_revenue :: int

definition get_order_trends ::
  "date \<Rightarrow> date \<Rightarrow> granularity \<Rightarrow> sale_type option \<Rightarrow> role option \<Rightarrow> db \<Rightarrow> order_trend" where
  "get_order_trends date_from date_to granularity sale client_type s =
     (let rows = filter (\<lambda>r. (case sale of None \<Rightarrow> True | Some t \<Rightarrow> ord_sale_type r = t)
            \<and> (case client_type of None \<Rightarrow> True | Some c \<Rightarrow> map_option usr_role (client_of r s) = Some c))
            (completed_orders date_from date_to s);
          points = map (\<lambda>(d, cnt, rev). \<lparr>otp_period = d, otp_orders_count = cnt, otp_revenue = rev,
            otp_avg_order_value = (if cnt = 0 then 0 else decimal_floordiv rev cnt)\<rparr>) (period_rows granularity rows)
      in \<lparr>otr_points = points, otr_total_orders = sum_of otp_orders_count points,
          otr_total_revenue = sum_of otp_revenue points\<rparr>)"

record funnel_item =
  fni_status :: order_status
  fni_count :: int
  fni_percentage :: int

definition get_order_funnel :: "date \<Rightarrow> date \<Rightarrow> db \<Rightarrow> int \<times> funnel_item list" where
  "get_order_funnel date_from date_to s =
     (let rows = filter (\<lambda>r. in_period date_from date_to (created_at r) \<and> is_active r) (orders s);
          counts = map (\<lambda>(st, g). (st, int (length g))) (group_by ord_status rows);
          count = dict_or 0 counts;
          everything = sum_of snd counts
      in (everything, map (\<lambda>st. \<lparr>fni_status = st, fni_count = count st,
            fni_percentage = (if everything > 0 then float_ratio 4 (count st) everything else 0)\<rparr>) FSM_ORDER))"

text \<open>\<open>EXTRACT(isodow)\<close> and \<open>EXTRACT(hour)\<close> in Tashkent.\<close>

definition local_hour :: "timestamp \<Rightarrow> int \<times> int" where
  "local_hour t = (let l = t + tashkent_offset in (weekday (date_of l) + 1, (l - midnight (date_of l)) div 3600000000))"

definition get_order_heatmap :: "date \<Rightarrow> date \<Rightarrow> db \<Rightarrow> ((int \<times> int) \<times> int) list \<times> int" where
  "get_order_heatmap date_from date_to s =
     (let rows = filter (\<lambda>r. in_period date_from date_to (created_at r) \<and> is_active r) (orders s);
          cells = sort_key fst (map (\<lambda>(c, g). (c, int (length g))) (group_by (\<lambda>r. local_hour (created_at r)) rows))
      in (cells, largest (map snd cells)))"

datatype client_sort = BY_TOTAL_AMOUNT | BY_ORDERS_COUNT

record top_client =
  tcl_client_id :: uuid
  tcl_client_name :: string
  tcl_client_type :: role
  tcl_orders_count :: int
  tcl_total_amount :: int

definition client_rows :: "order_row list \<Rightarrow> db \<Rightarrow> (order_row \<times> user_row) list" where
  "client_rows rows s = concat (map (\<lambda>r. case client_of r s of None \<Rightarrow> [] | Some u \<Rightarrow> [(r, u)]) rows)"

definition get_top_clients :: "date \<Rightarrow> date \<Rightarrow> nat \<Rightarrow> client_sort \<Rightarrow> db \<Rightarrow> top_client list" where
  "get_top_clients date_from date_to limit sort_by s =
     (let rows = filter (\<lambda>(r, u). row_id u \<notin> set EXCLUDED_IDS) (client_rows (completed_orders date_from date_to s) s);
          clients = map (\<lambda>((i, name, ty), g). \<lparr>tcl_client_id = i, tcl_client_name = name, tcl_client_type = ty,
            tcl_orders_count = int (length g), tcl_total_amount = sum_of (\<lambda>(r, u). ord_total_amount r) g\<rparr>)
            (group_by (\<lambda>(r, u). (row_id u, usr_username u, usr_role u)) rows)
      in take limit (sort_desc (case sort_by of BY_TOTAL_AMOUNT \<Rightarrow> tcl_total_amount | BY_ORDERS_COUNT \<Rightarrow> tcl_orders_count) clients))"

section \<open>Money\<close>

record revenue_trend =
  rvt_points :: "(date \<times> int \<times> int) list"
  rvt_total_revenue :: int
  rvt_total_orders :: int
  rvt_change_percent :: "int option"

definition get_revenue_trend :: "date \<Rightarrow> date \<Rightarrow> granularity \<Rightarrow> db \<Rightarrow> revenue_trend" where
  "get_revenue_trend date_from date_to granularity s =
     (let points = period_rows granularity (completed_orders date_from date_to s);
          total_rev = sum_of (\<lambda>p. snd (snd p)) points;
          total_ord = sum_of (\<lambda>p. fst (snd p)) points;
          delta = date_to - date_from;
          prev_from = date_from - delta - 1;
          prev_to = date_from - 1;
          prev_rev = sum_of ord_total_amount (completed_orders prev_from prev_to s)
      in \<lparr>rvt_points = points, rvt_total_revenue = total_rev, rvt_total_orders = total_ord,
          rvt_change_percent = (if prev_rev > 0 then Some (decimal_ratio 4 (total_rev - prev_rev) prev_rev) else None)\<rparr>)"

definition debt_accounts :: "db \<Rightarrow> account_row list" where
  "debt_accounts s = filter (\<lambda>a. acc_type a = AT_CLIENT \<and> acc_balance a > 0 \<and> acc_user_id a \<notin> set EXCLUDED_IDS) (accounts s)"

text \<open>\<open>max(created_at)\<close> over the completed transactions from the account.\<close>

definition last_pay :: "account_row \<Rightarrow> db \<Rightarrow> timestamp option" where
  "last_pay a s = (let ts = map created_at (filter (\<lambda>t. txn_from_id t = row_id a \<and> txn_status t = TS_COMPLETED) (transactions s))
     in if ts = [] then None else Some (Max (set ts)))"

text \<open>The age of a debt in microseconds; a comparison of the days with \<open>n\<close> compares it with \<open>n\<close> days.\<close>

definition debt_age :: "account_row \<Rightarrow> db \<Rightarrow> int" where
  "debt_age a s = clock s - (case last_pay a s of None \<Rightarrow> created_at a | Some t \<Rightarrow> t)"

definition AGING_BUCKETS :: "(string \<times> int \<times> int option) list" where
  "AGING_BUCKETS = [(''0-7 dney'', 0, Some 7), (''8-14 dney'', 8, Some 14), (''15-30 dney'', 15, Some 30), (''31-60 dney'', 31, Some 60), (''60+ dney'', 61, None)]"

definition bucket_label :: "int \<Rightarrow> string" where
  "bucket_label age = (if age \<le> 7 * usecs_per_day then ''0-7 dney'' else if age \<le> 14 * usecs_per_day then ''8-14 dney''
     else if age \<le> 30 * usecs_per_day then ''15-30 dney'' else if age \<le> 60 * usecs_per_day then ''31-60 dney'' else ''60+ dney'')"

record aging_bucket =
  agb_label :: string
  agb_min_days :: int
  agb_max_days :: "int option"
  agb_clients_count :: int
  agb_total_amount :: int

definition get_debt_aging :: "db \<Rightarrow> aging_bucket list \<times> int \<times> int" where
  "get_debt_aging s =
     (let rows = sort_key (\<lambda>(l, g). Min (set (map (\<lambda>a. debt_age a s) g)))
            (group_by (\<lambda>a. bucket_label (debt_age a s)) (debt_accounts s));
          buckets = map (\<lambda>(l, g). let rng = dict_or (0, None) AGING_BUCKETS l in
            \<lparr>agb_label = l, agb_min_days = fst rng, agb_max_days = snd rng,
             agb_clients_count = int (length g), agb_total_amount = sum_of acc_balance g\<rparr>) rows
      in (buckets, sum_of agb_total_amount buckets, sum_of agb_clients_count buckets))"

text \<open>A cast of a number to \<open>INTEGER\<close> rounds half away from zero.\<close>

definition cast_days :: "int \<Rightarrow> int" where
  "cast_days age = (if age < 0 then - ((2 * (- age) + usecs_per_day) div (2 * usecs_per_day))
     else (2 * age + usecs_per_day) div (2 * usecs_per_day))"

record top_debtor =
  tdb_client_id :: uuid
  tdb_client_name :: string
  tdb_client_type :: role
  tdb_debt_amount :: int
  tdb_last_payment_date :: "date option"
  tdb_days_overdue :: int

text \<open>Here the last payment is a date, and the age is counted from its midnight.\<close>

definition top_debtor_of :: "account_row \<Rightarrow> user_row \<Rightarrow> db \<Rightarrow> top_debtor" where
  "top_debtor_of a u s =
     (let paid = map_option date_of (last_pay a s)
      in \<lparr>tdb_client_id = acc_user_id a, tdb_client_name = usr_username u, tdb_client_type = usr_role u,
          tdb_debt_amount = acc_balance a, tdb_last_payment_date = paid,
          tdb_days_overdue = cast_days (clock s - (case paid of None \<Rightarrow> created_at a | Some d \<Rightarrow> midnight d))\<rparr>)"

definition get_top_debtors :: "nat \<Rightarrow> db \<Rightarrow> top_debtor list \<times> int" where
  "get_top_debtors limit s =
     (take limit (sort_desc tdb_debt_amount (concat (map (\<lambda>a. case tbl_get (acc_user_id a) False (users s) of
          None \<Rightarrow> [] | Some u \<Rightarrow> [top_debtor_of a u s]) (debt_accounts s)))),
      sum_of acc_balance (debt_accounts s))"

record finance_kpis =
  kpi_avg_order_value :: int
  kpi_total_orders :: int
  kpi_total_revenue :: int
  kpi_card_confirmation_rate :: int
  kpi_card_rejection_rate :: int
  kpi_collection_rate :: int
  kpi_overdue_debt_ratio :: int

definition account_of_type :: "uuid \<Rightarrow> account_type \<Rightarrow> db \<Rightarrow> bool" where
  "account_of_type i ty s = (case tbl_get i False (accounts s) of None \<Rightarrow> False | Some a \<Rightarrow> acc_type a = ty)"

definition get_summary_kpis :: "date \<Rightarrow> date \<Rightarrow> db \<Rightarrow> finance_kpis" where
  "get_summary_kpis date_from date_to s =
     (let done = completed_orders date_from date_to s;
          cnt = int (length done); rev = sum_of ord_total_amount done;
          card = filter (\<lambda>t. account_of_type (txn_to_id t) AT_CARD s \<and> in_period date_from date_to (created_at t)) (transactions s);
          card_total = int (length card);
          confirmed = count_where (\<lambda>t. txn_status t = TS_COMPLETED) card;
          rejected = count_where (\<lambda>t. txn_status t = TS_REJECTED) card;
          moved = filter (\<lambda>t. txn_status t = TS_COMPLETED \<and> in_period date_from date_to (created_at t)) (transactions s);
          collected = sum_where (\<lambda>t. account_of_type (txn_to_id t) AT_COURIER s) txn_amount moved;
          deposited = sum_where (\<lambda>t. account_of_type (txn_from_id t) AT_COURIER s) txn_amount moved;
          debts = debt_accounts s;
          debt = sum_of acc_balance debts;
          overdue = sum_where (\<lambda>a. debt_age a s > 7 * usecs_per_day) acc_balance debts
      in \<lparr>kpi_avg_order_value = (if cnt > 0 then decimal_floordiv rev cnt else 0),
          kpi_total_orders = cnt, kpi_total_revenue = rev,
          kpi_card_confirmation_rate = (if card_total > 0 then float_ratio 4 confirmed card_total else 0),
          kpi_card_rejection_rate = (if card_total > 0 then float_ratio 4 rejected card_total else 0),
          kpi_collection_rate = (if collected > 0 then decimal_ratio 4 deposited collected else 0),
          kpi_overdue_debt_ratio = (if debt > 0 then decimal_ratio 4 overdue debt else 0)\<rparr>)"

record segment_revenue =
  sgr_segment :: role
  sgr_orders_count :: int
  sgr_total_revenue :: int
  sgr_avg_order_value :: int

definition get_revenue_by_segment :: "date \<Rightarrow> date \<Rightarrow> db \<Rightarrow> segment_revenue list \<times> int \<times> int" where
  "get_revenue_by_segment date_from date_to s =
     (let rows = filter (\<lambda>(r, u). row_id u \<notin> set EXCLUDED_IDS \<and> usr_role u \<in> {R_CLIENT_B2B, R_CLIENT_B2C})
            (client_rows (completed_orders date_from date_to s) s);
          segments = map (\<lambda>(ty, g). let cnt = int (length g); rev = sum_of (\<lambda>(r, u). ord_total_amount r) g in
            \<lparr>sgr_segment = ty, sgr_orders_count = cnt, sgr_total_revenue = rev,
             sgr_avg_order_value = (if cnt > 0 then decimal_floordiv rev cnt else 0)\<rparr>) (group_by (\<lambda>(r, u). usr_role u) rows)
      in (segments, sum_of sgr_orders_count segments, sum_of sgr_total_revenue segments))"

definition get_payment_methods :: "date \<Rightarrow> date \<Rightarrow> db \<Rightarrow> (payment_method \<times> int \<times> int) list" where
  "get_payment_methods date_from date_to s = method_rows (completed_orders date_from date_to s)"

end
