(* ===== verification/SalesReportLaws.thy ===== *)
theory SalesReportLaws
  imports SalesReports
begin

text \<open>The reports on orders and on money agree with each other, and the shares of the funnel are shares.\<close>

lemma period_rows_totals:
  "sum_of (\<lambda>p. fst (snd p)) (period_rows g rows) = int (length rows)"
  "sum_of (\<lambda>p. snd (snd p)) (period_rows g rows) = sum_of ord_total_amount rows"
  by (simp_all add: period_rows_def case_prod_unfold sum_of_groups sum_of_group_lengths)

lemma method_rows_totals:
  "sum_of (\<lambda>m. fst (snd m)) (method_rows rows) = int (length rows)"
  "sum_of (\<lambda>m. snd (snd m)) (method_rows rows) = sum_of ord_total_amount rows"
  by (simp_all add: method_rows_def case_prod_unfold sum_of_groups sum_of_group_lengths)

lemma order_trends_totals:
  "otr_total_orders (get_order_trends a b g None None s) = int (length (completed_orders a b s))"
  "otr_total_revenue (get_order_trends a b g None None s) = sum_of ord_total_amount (completed_orders a b s)"
  using period_rows_totals [of g "completed_orders a b s"] by (simp_all add: get_order_trends_def Let_def case_prod_unfold)

lemma order_trends_sale:
  "otr_total_revenue (get_order_trends a b g (Some t) None s)
    = sum_of ord_total_amount (filter (\<lambda>r. ord_sale_type r = t) (completed_orders a b s))"
  using period_rows_totals(2) [of g "filter (\<lambda>r. ord_sale_type r = t) (completed_orders a b s)"]
  by (simp add: get_order_trends_def Let_def case_prod_unfold)

lemma sale_types_split:
  fixes rows :: "'a order_row_scheme list"
  shows "sum_of h (filter (\<lambda>r. ord_sale_type r = SALE_DELIVERY) rows) + sum_of h (filter (\<lambda>r. ord_sale_type r = SALE_WAREHOUSE_PICKUP) rows)
    = sum_of h rows"
  unfolding sum_of_filter sum_of_add [symmetric]
proof (rule sum_of_cong)
  fix r :: "'a order_row_scheme"
  show "(if ord_sale_type r = SALE_DELIVERY then h r else 0) + (if ord_sale_type r = SALE_WAREHOUSE_PICKUP then h r else 0) = h r"
    by (cases "ord_sale_type r") simp_all
qed

lemma debt_aging_totals:
  "fst (snd (get_debt_aging s)) = sum_of acc_balance (debt_accounts s)"
  "snd (snd (get_debt_aging s)) = int (length (debt_accounts s))"
  by (simp_all add: get_debt_aging_def Let_def case_prod_unfold sum_of_groups sum_of_group_lengths)

lemma top_debtors_total: "snd (get_top_debtors n s) = sum_of acc_balance (debt_accounts s)"
  by (simp add: get_top_debtors_def)

text \<open>The shares of the funnel.\<close>

lemma dict_get_groups:
  "dict_or 0 (map (\<lambda>(k, g). (k, int (length g))) (group_by f rows)) k = count_where (\<lambda>r. f r = k) rows"
proof -
  let ?d = "map (\<lambda>(k, g). (k, int (length g))) (group_by f rows)"
  have d: "?d = map (\<lambda>k. (k, count_where (\<lambda>r. f r = k) rows)) (first_met (map f rows))"
    by (simp add: group_by_def count_where_def)
  have "map_of (rev ?d) k = (if k \<in> f ` set rows then Some (count_where (\<lambda>r. f r = k) rows) else None)"
    unfolding d rev_map map_of_map_restrict by (simp add: restrict_map_def)
  then show ?thesis
    by (auto simp: dict_or_def dict_get_def count_where_def filter_empty_conv)
qed

lemma count_where_le: "0 \<le> count_where P rows" "count_where P rows \<le> int (length rows)"
  by (simp_all add: count_where_def)

lemma status_split:
  "sum_of (\<lambda>st. count_where (\<lambda>r. ord_status r = st) rows) FSM_ORDER = int (length rows)"
  by (induction rows) (auto simp: FSM_ORDER_def count_where_def split: order_status.splits intro: order_status.exhaust)

text \<open>
  C38. The reports agree: for any period and any granularity the revenue trend, the unfiltered order trend, both breakdowns by payment method and
  the key figures show the same number of orders and the same revenue; the trends of deliveries and of pickups add up to it; the
  ages of the debts and the list of the largest debtors show the same total debt; and the shares of the status funnel lie
  between 0 and 1, with counts that add up to its total.
\<close>

theorem sales_reports_agree:
  "rvt_total_revenue (get_revenue_trend a b g s) = kpi_total_revenue (get_summary_kpis a b s)
    \<and> rvt_total_orders (get_revenue_trend a b g s) = kpi_total_orders (get_summary_kpis a b s)
    \<and> otr_total_revenue (get_order_trends a b g' None None s) = kpi_total_revenue (get_summary_kpis a b s)
    \<and> otr_total_orders (get_order_trends a b g' None None s) = kpi_total_orders (get_summary_kpis a b s)
    \<and> otr_total_revenue (get_order_trends a b g' (Some SALE_DELIVERY) None s)
        + otr_total_revenue (get_order_trends a b g' (Some SALE_WAREHOUSE_PICKUP) None s) = kpi_total_revenue (get_summary_kpis a b s)
    \<and> pbd_total_amount (get_payment_breakdown a b s) = kpi_total_revenue (get_summary_kpis a b s)
    \<and> pbd_total_orders (get_payment_breakdown a b s) = kpi_total_orders (get_summary_kpis a b s)
    \<and> sum_of (\<lambda>m. fst (snd m)) (get_payment_methods a b s) = kpi_total_orders (get_summary_kpis a b s)
    \<and> sum_of (\<lambda>m. snd (snd m)) (get_payment_methods a b s) = kpi_total_revenue (get_summary_kpis a b s)
    \<and> fst (snd (get_debt_aging s)) = snd (get_top_debtors n s)
    \<and> sum_of fni_count (snd (get_order_funnel a b s)) = fst (get_order_funnel a b s)
    \<and> list_all (\<lambda>i. 0 \<le> fni_percentage i \<and> fni_percentage i \<le> 10000) (snd (get_order_funnel a b s))"
proof -
  let ?rows = "filter (\<lambda>r. in_period a b (created_at r) \<and> is_active r) (orders s)"
  let ?counts = "map (\<lambda>(st, g). (st, int (length g))) (group_by ord_status ?rows)"
  have everything: "sum_of snd ?counts = int (length ?rows)"
    by (simp add: case_prod_unfold sum_of_group_lengths)
  have funnel: "get_order_funnel a b s = (int (length ?rows), map (\<lambda>st. \<lparr>fni_status = st,
      fni_count = count_where (\<lambda>r. ord_status r = st) ?rows,
      fni_percentage = (if int (length ?rows) > 0 then float_ratio 4 (count_where (\<lambda>r. ord_status r = st) ?rows) (int (length ?rows)) else 0)\<rparr>)
      FSM_ORDER)"
    unfolding get_order_funnel_def Let_def everything dict_get_groups by (rule refl)
  have "sum_of fni_count (snd (get_order_funnel a b s)) = fst (get_order_funnel a b s)"
    using status_split [of ?rows] by (simp add: funnel)
  moreover have "list_all (\<lambda>i. 0 \<le> fni_percentage i \<and> fni_percentage i \<le> 10000) (snd (get_order_funnel a b s))"
    using float_ratio_range [where places = 4 and d = "int (length ?rows)"] count_where_le [where rows = ?rows]
    by (simp add: funnel list_all_iff)
  ultimately show ?thesis
    by (simp add: get_revenue_trend_def get_payment_breakdown_def get_payment_methods_def Let_def get_summary_kpis_def
        period_rows_totals method_rows_totals order_trends_totals order_trends_sale sale_types_split
        debt_aging_totals top_debtors_total)
qed

end
