(* ===== verification/FleetReports.thy ===== *)
theory FleetReports
  imports Aggregates Stock Finances
begin

text \<open>
  The reports on people: \<open>CourierDashboardQueries\<close> (\<open>src/modules/users/dashboard_queries.py\<close>) and \<open>UsersDashboardQuery\<close>
  (\<open>src/modules/users/queries.py\<close>), which no route calls.
\<close>

section \<open>The fleet\<close>

record fleet_card =
  flc_courier_id :: uuid
  flc_courier_name :: string
  flc_vehicle_id :: "uuid option"
  flc_vehicle_name :: "string option"
  flc_is_active :: bool
  flc_vehicle_balances :: "(uuid \<times> string \<times> int) list"
  flc_orders_assigned_today :: int
  flc_orders_delivered_today :: int
  flc_cash_balance :: int
  flc_cash_collected_today :: int
  flc_containers_collected_today :: int

record fleet =
  flt_couriers :: "fleet_card list"
  flt_total_active :: int
  flt_total_stock_on_couriers :: int
  flt_total_courier_cash :: int

definition today_in :: "db \<Rightarrow> timestamp \<Rightarrow> bool" where
  "today_in s t = on_day (date_of (clock s)) t"

definition couriers_active :: "db \<Rightarrow> user_row list" where
  "couriers_active s = filter (\<lambda>u. usr_role u = R_COURIER \<and> is_active u) (users s)"

definition vehicle_rows :: "uuid list \<Rightarrow> db \<Rightarrow> inventory_row list" where
  "vehicle_rows courier_ids s = filter (\<lambda>v. inv_type v = IT_COURIER \<and> is_active v \<and> inv_user_id v \<in> set courier_ids) (inventories s)"

definition vehicle_balance_rows :: "uuid list \<Rightarrow> db \<Rightarrow> (balance_row \<times> product_row) list" where
  "vehicle_balance_rows vehicle_ids s = concat (map (\<lambda>b. case tbl_get (bal_product_id b) False (products s) of
     None \<Rightarrow> [] | Some p \<Rightarrow> if bal_inventory_id b \<in> set vehicle_ids \<and> bal_quantity b > 0 then [(b, p)] else []) (inventory_balances s))"

definition collected_today :: "uuid list \<Rightarrow> db \<Rightarrow> (uuid \<times> int) list" where
  "collected_today courier_ids s =
     (let rows = concat (map (\<lambda>t. case tbl_get (txn_to_id t) False (accounts s) of None \<Rightarrow> [] | Some a \<Rightarrow>
            if acc_type a = AT_COURIER \<and> txn_status t = TS_COMPLETED \<and> today_in s (created_at t) \<and> acc_user_id a \<in> set courier_ids
            then [(t, a)] else []) (transactions s))
      in map (\<lambda>(u, g). (u, sum_of (\<lambda>(t, a). txn_amount t) g)) (group_by (\<lambda>(t, a). acc_user_id a) rows))"

definition returned_today :: "uuid list \<Rightarrow> db \<Rightarrow> (uuid \<times> int) list" where
  "returned_today vehicle_ids s =
     (let rows = concat (map (\<lambda>t. case (tbl_get (stx_transfer_id t) False (stock_transfers s), tbl_get (stx_product_id t) False (products s)) of
            (Some f, Some p) \<Rightarrow> if trf_type f = TT_CLIENT_RETURN \<and> prd_type p = PT_CONTAINER \<and> today_in s (created_at t)
              \<and> trf_to_id f \<in> set vehicle_ids then [(t, f)] else []
          | _ \<Rightarrow> []) (stock_transactions s))
      in map (\<lambda>(i, g). (i, sum_of (\<lambda>(t, f). stx_quantity t) g)) (group_by (\<lambda>(t, f). trf_to_id f) rows))"

text \<open>The loop that adds up the containers per courier.\<close>

fun tara_loop :: "(uuid \<times> uuid) list \<Rightarrow> (uuid \<times> int) list \<Rightarrow> (uuid \<times> int) list \<Rightarrow> (uuid \<times> int) list" where
  "tara_loop vid_to_uid [] tara_map = tara_map"
| "tara_loop vid_to_uid ((to_id, tara) # rows) tara_map = tara_loop vid_to_uid rows
     (case dict_get vid_to_uid to_id of None \<Rightarrow> tara_map | Some u \<Rightarrow> dict_put u (dict_or 0 tara_map u + tara) tara_map)"

text \<open>A dictionary built from rows: a later row replaces an earlier one of its key.\<close>

definition dict_of :: "('k \<times> 'v) list \<Rightarrow> ('k \<times> 'v) list" where
  "dict_of rows = fold (\<lambda>(k, v). dict_put k v) rows []"

definition get_fleet :: "db \<Rightarrow> fleet" where
  "get_fleet s =
     (let courier_rows = couriers_active s in
      if courier_rows = []
      then \<lparr>flt_couriers = [], flt_total_active = 0, flt_total_stock_on_couriers = 0, flt_total_courier_cash = 0\<rparr>
      else
      let courier_ids = map row_id courier_rows;
          courier_names = dict_of (map (\<lambda>u. (row_id u, usr_username u)) courier_rows);
          vrows = vehicle_rows courier_ids s;
          vehicles = dict_of (map (\<lambda>v. (inv_user_id v, (row_id v, inv_name v))) vrows);
          balance_rows = vehicle_balance_rows (map row_id vrows) s;
          stock = map (\<lambda>(i, g). (i, map (\<lambda>(b, p). (row_id p, prd_name p, bal_quantity b)) g))
            (group_by (\<lambda>(b, p). bal_inventory_id b) balance_rows);
          cash_map = dict_of (map (\<lambda>a. (acc_user_id a, acc_balance a))
            (filter (\<lambda>a. acc_type a = AT_COURIER \<and> acc_user_id a \<in> set courier_ids) (accounts s)));
          orders_map = map (\<lambda>(c, g). (c, (int (length g), count_where (\<lambda>r. ord_status r = OS_DELIVERED) g)))
            (group_by (\<lambda>r. the (ord_courier_id r)) (filter (\<lambda>r. today_in s (created_at r) \<and> is_active r \<and> ord_status r \<noteq> OS_CANCELLED
               \<and> (case ord_courier_id r of None \<Rightarrow> False | Some c \<Rightarrow> c \<in> set courier_ids)) (orders s)));
          collected_map = collected_today courier_ids s;
          tara_map = tara_loop (dict_of (map (\<lambda>(u, v, n). (v, u)) vehicles)) (returned_today (map row_id vrows) s) [];
          card = (\<lambda>c. let v = dict_get vehicles c; ords = dict_or (0, 0) orders_map c in
            \<lparr>flc_courier_id = c, flc_courier_name = dict_or [] courier_names c,
             flc_vehicle_id = map_option fst v, flc_vehicle_name = map_option snd v, flc_is_active = (v \<noteq> None),
             flc_vehicle_balances = (case v of None \<Rightarrow> [] | Some (i, n) \<Rightarrow> dict_or [] stock i),
             flc_orders_assigned_today = fst ords, flc_orders_delivered_today = snd ords,
             flc_cash_balance = dict_or 0 cash_map c, flc_cash_collected_today = dict_or 0 collected_map c,
             flc_containers_collected_today = dict_or 0 tara_map c\<rparr>);
          cards = map card courier_ids
      in \<lparr>flt_couriers = cards, flt_total_active = count_where flc_is_active cards,
          flt_total_stock_on_couriers = sum_of (\<lambda>(b, p). bal_quantity b) balance_rows,
          flt_total_courier_cash = sum_of (\<lambda>c. max (flc_cash_balance c) 0) cards\<rparr>)"

record day_load =
  dld_date :: date
  dld_courier_id :: uuid
  dld_courier_name :: string
  dld_deliveries_count :: int

record courier_load =
  cld_data :: "day_load list"
  cld_total_deliveries :: int
  cld_avg_per_courier :: int
  cld_max_load :: int

definition get_courier_load :: "date \<Rightarrow> date \<Rightarrow> db \<Rightarrow> courier_load" where
  "get_courier_load date_from date_to s =
     (let rows = concat (map (\<lambda>r. case Option.bind (ord_courier_id r) (\<lambda>c. tbl_get c False (users s)) of
            None \<Rightarrow> []
          | Some u \<Rightarrow> if ord_status r = OS_DELIVERED \<and> in_period date_from date_to (created_at r) \<and> is_active r then [(r, u)] else [])
            (orders s));
          data = sort_key (\<lambda>d. dld_date d) (sort_desc dld_deliveries_count (map (\<lambda>((d, c, name), g).
            \<lparr>dld_date = d, dld_courier_id = c, dld_courier_name = name, dld_deliveries_count = int (length g)\<rparr>)
            (group_by (\<lambda>(r, u). (date_of (created_at r), row_id u, usr_username u)) rows)));
          everything = sum_of dld_deliveries_count data;
          unique_couriers = int (length (remdups (map dld_courier_id data)))
      in \<lparr>cld_data = data, cld_total_deliveries = everything,
          cld_avg_per_courier = (if unique_couriers > 0 then float_ratio 2 everything unique_couriers else 0),
          cld_max_load = largest (map dld_deliveries_count data)\<rparr>)"

section \<open>The dashboards of users\<close>

record inventory_product =
  ivp_type :: product_type
  ivp_name :: string
  ivp_attributes :: "(string \<times> string) list"
  ivp_quantity :: int

record users_dashboard =
  udb_id :: uuid
  udb_username :: string
  udb_phone :: string
  udb_role :: role
  udb_balance :: int
  udb_inventory :: "inventory_product list"

definition first_local_phone :: "uuid \<Rightarrow> db \<Rightarrow> string" where
  "first_local_phone u s = (case find (\<lambda>x. idn_user_id x = u \<and> idn_provider x = AP_LOCAL) (identities s) of
     None \<Rightarrow> ''Net telefona''
   | Some x \<Rightarrow> if idn_provider_identity_id x = [] then ''Net telefona'' else idn_provider_identity_id x)"

definition first_balance :: "uuid \<Rightarrow> account_type \<Rightarrow> db \<Rightarrow> int" where
  "first_balance u ty s = (case find (\<lambda>a. acc_user_id a = u \<and> acc_type a = ty) (accounts s) of None \<Rightarrow> 0 | Some a \<Rightarrow> acc_balance a)"

text \<open>The lines of the ledger, incoming and outgoing, joined with the inventories of the user.\<close>

definition user_stock :: "uuid \<Rightarrow> inventory_type \<Rightarrow> uuid \<Rightarrow> db \<Rightarrow> int" where
  "user_stock u ty p s = sum_of (\<lambda>v. sum_where (\<lambda>t. stx_to_id t = row_id v \<and> stx_product_id t = p) stx_quantity (stock_transactions s)
       - sum_where (\<lambda>t. stx_from_id t = row_id v \<and> stx_product_id t = p) stx_quantity (stock_transactions s))
     (filter (\<lambda>v. inv_user_id v = u \<and> inv_type v = ty) (inventories s))"

definition user_stock_rows :: "uuid \<Rightarrow> inventory_type \<Rightarrow> db \<Rightarrow> (product_row \<times> int) list" where
  "user_stock_rows u ty s = filter (\<lambda>(p, q). q \<noteq> 0) (map (\<lambda>p. (p, user_stock u ty (row_id p) s)) (products s))"

definition inventory_product_of :: "product_row \<Rightarrow> int \<Rightarrow> inventory_product" where
  "inventory_product_of p q = \<lparr>ivp_type = prd_type p, ivp_name = prd_name p, ivp_attributes = prd_attributes p, ivp_quantity = q\<rparr>"

definition client_containers :: "uuid \<Rightarrow> db \<Rightarrow> inventory_product list" where
  "client_containers u s = map (\<lambda>(p, q). inventory_product_of p q) (filter (\<lambda>(p, q). prd_type p = PT_CONTAINER) (user_stock_rows u IT_CLIENT s))"

text \<open>A vehicle's containers without the ones that are full.\<close>

definition courier_goods :: "uuid \<Rightarrow> db \<Rightarrow> inventory_product list" where
  "courier_goods u s =
     (let rows = user_stock_rows u IT_COURIER s;
          occupied = (\<lambda>i. sum_where (\<lambda>(p, q). prd_type p = PT_WATER \<and> prd_returnable_item_id p = Some i) snd rows)
      in concat (map (\<lambda>(p, q). let qty = max 0 (if prd_type p = PT_CONTAINER then q - occupied (row_id p) else q)
            in if qty > 0 then [inventory_product_of p qty] else []) rows))"

definition users_page :: "role list \<Rightarrow> account_type \<Rightarrow> (uuid \<Rightarrow> db \<Rightarrow> inventory_product list) \<Rightarrow> nat \<Rightarrow> nat \<Rightarrow> db \<Rightarrow> int \<times> users_dashboard list" where
  "users_page roles ty goods skip limit s =
     (let rows = filter (\<lambda>u. usr_role u \<in> set roles) (users s)
      in (int (length rows), map (\<lambda>u. \<lparr>udb_id = row_id u, udb_username = usr_username u, udb_phone = first_local_phone (row_id u) s,
            udb_role = usr_role u, udb_balance = first_balance (row_id u) ty s, udb_inventory = goods (row_id u) s\<rparr>)
          (take limit (drop skip rows))))"

definition users_get_clients :: "nat \<Rightarrow> nat \<Rightarrow> db \<Rightarrow> int \<times> users_dashboard list" where
  "users_get_clients = users_page [R_CLIENT_B2B, R_CLIENT_B2C] AT_CLIENT client_containers"

definition users_get_couriers :: "nat \<Rightarrow> nat \<Rightarrow> db \<Rightarrow> int \<times> users_dashboard list" where
  "users_get_couriers = users_page [R_COURIER] AT_COURIER courier_goods"

end
