(* ===== verification/ReportsApi.thy ===== *)
theory ReportsApi
  imports Backoffice SalesReports StockListings FleetReports
begin

text \<open>
  The routes of the reports: \<open>src/api/v1/backoffice/dashboard\<close>, \<open>balances.py\<close> and \<open>stock_transactions.py\<close>. \<open>date.today()\<close> is the day of the
  clock in UTC.
\<close>

definition month_ago :: "date \<Rightarrow> date" where
  "month_ago ref = ref - 30"

definition value_or :: "'a \<Rightarrow> 'a option \<Rightarrow> 'a" where
  "value_or d v = (case v of None \<Rightarrow> d | Some x \<Rightarrow> x)"

text \<open>The period of a report: a month up to today by default.\<close>

definition period_query :: "(date \<Rightarrow> date \<Rightarrow> db \<Rightarrow> 'a) \<Rightarrow> date option \<Rightarrow> date option \<Rightarrow> db \<Rightarrow> 'a reply" where
  "period_query f date_from date_to s =
     (let today = date_of (clock s) in query (f (value_or (month_ago today) date_from) (value_or today date_to)) s)"

definition storekeeper_id :: "user_row \<Rightarrow> uuid option" where
  "storekeeper_id user = (if usr_role user = R_STOREKEEPER then Some (row_id user) else None)"

section \<open>Orders\<close>

definition report_orders_summary where
  "report_orders_summary decode token =
     secured (get_current_user decode [ORDERS_READ]) token (\<lambda>_.
     query get_orders_summary)"

definition report_payment_breakdown where
  "report_payment_breakdown decode token date_from date_to =
     secured (get_current_user decode [ORDERS_READ]) token (\<lambda>_.
     period_query get_payment_breakdown date_from date_to)"

definition report_order_trends where
  "report_order_trends decode token date_from date_to granularity sale client_type =
     secured (get_current_user decode [ORDERS_READ]) token (\<lambda>_.
     period_query (\<lambda>a b. get_order_trends a b granularity sale client_type) date_from date_to)"

definition report_order_funnel where
  "report_order_funnel decode token date_from date_to =
     secured (get_current_user decode [ORDERS_READ]) token (\<lambda>_.
     period_query get_order_funnel date_from date_to)"

definition report_order_heatmap where
  "report_order_heatmap decode token date_from date_to =
     secured (get_current_user decode [ORDERS_READ]) token (\<lambda>_.
     period_query get_order_heatmap date_from date_to)"

definition report_top_clients where
  "report_top_clients decode token date_from date_to limit sort_by =
     secured (get_current_user decode [ORDERS_READ]) token (\<lambda>_.
     validated (limit_ok 100 limit) (period_query (\<lambda>a b. get_top_clients a b limit sort_by) date_from date_to))"

section \<open>Money\<close>

definition report_revenue_trend where
  "report_revenue_trend decode token date_from date_to granularity =
     secured (get_current_user decode [FINANCES_READ]) token (\<lambda>_.
     period_query (\<lambda>a b. get_revenue_trend a b granularity) date_from date_to)"

definition report_debt_aging where
  "report_debt_aging decode token =
     secured (get_current_user decode [FINANCES_READ]) token (\<lambda>_.
     query get_debt_aging)"

definition report_top_debtors where
  "report_top_debtors decode token limit =
     secured (get_current_user decode [FINANCES_READ]) token (\<lambda>_.
     validated (limit_ok 100 limit) (query (get_top_debtors limit)))"

definition report_summary_kpis where
  "report_summary_kpis decode token date_from date_to =
     secured (get_current_user decode [FINANCES_READ]) token (\<lambda>_.
     period_query get_summary_kpis date_from date_to)"

definition report_revenue_by_segment where
  "report_revenue_by_segment decode token date_from date_to =
     secured (get_current_user decode [FINANCES_READ]) token (\<lambda>_.
     period_query get_revenue_by_segment date_from date_to)"

definition report_payment_methods where
  "report_payment_methods decode token date_from date_to =
     secured (get_current_user decode [FINANCES_READ]) token (\<lambda>_.
     period_query get_payment_methods date_from date_to)"

section \<open>Stock\<close>

definition report_inventory_summary where
  "report_inventory_summary decode token =
     secured (get_current_user decode [INVENTORY_READ]) token (\<lambda>user.
     query (get_summary (storekeeper_id user)))"

definition report_container_distribution where
  "report_container_distribution decode token =
     secured (get_current_user decode [INVENTORY_READ]) token (\<lambda>_.
     query get_container_distribution)"

definition report_virtual_accounts where
  "report_virtual_accounts decode token =
     secured (get_current_user decode [INVENTORY_READ]) token (\<lambda>_.
     query get_virtual_accounts)"

definition report_container_debtors where
  "report_container_debtors decode token limit =
     secured (get_current_user decode [INVENTORY_READ]) token (\<lambda>_.
     validated (limit_ok 100 limit) (query (get_container_debtors limit)))"

definition report_movement_stats where
  "report_movement_stats decode token date_from date_to =
     secured (get_current_user decode [INVENTORY_READ]) token (\<lambda>user.
     period_query (\<lambda>a b. get_movement_stats a b (storekeeper_id user)) date_from date_to)"

definition report_inventory_trends where
  "report_inventory_trends decode token date_from date_to =
     secured (get_current_user decode [INVENTORY_READ]) token (\<lambda>_.
     \<lambda>s. let today = date_of (clock s) in
       query (get_inventory_trends (value_or (today - 7) date_from) (value_or today date_to)) s)"

section \<open>Couriers\<close>

definition report_courier_fleet where
  "report_courier_fleet decode token =
     secured (get_current_user decode [USERS_READ]) token (\<lambda>_.
     query get_fleet)"

definition report_courier_load where
  "report_courier_load decode token date_from date_to =
     secured (get_current_user decode [USERS_READ]) token (\<lambda>_.
     period_query get_courier_load date_from date_to)"

section \<open>The listings of the stock ledger\<close>

definition quantity_ok :: "int option \<Rightarrow> bool" where
  "quantity_ok v \<longleftrightarrow> given_ok (\<lambda>n. 0 \<le> n) v"

definition stock_transaction_query_ok :: "stock_transaction_filter \<Rightarrow> bool" where
  "stock_transaction_query_ok f \<longleftrightarrow> quantity_ok (sf_quantity_eq f) \<and> quantity_ok (sf_quantity_from f) \<and> quantity_ok (sf_quantity_to f)"

definition balance_query_ok :: "balance_filter \<Rightarrow> bool" where
  "balance_query_ok f \<longleftrightarrow> quantity_ok (bf_quantity_from f) \<and> quantity_ok (bf_quantity_to f)"

definition office_stock_transactions where
  "office_stock_transactions decode token lower filters page n =
     secured (get_current_user decode [INVENTORY_READ]) token (\<lambda>_.
     validated (stock_transaction_query_ok filters \<and> int_page_ok page n) (lookup (list_stock_ledger lower filters page n)))"

definition office_balances where
  "office_balances decode token coll lower filters page n =
     secured (get_current_user decode [INVENTORY_READ]) token (\<lambda>_.
     validated (balance_query_ok filters \<and> int_page_ok page n) (lookup (list_balances coll lower filters page n)))"

end
