(* ===== verification/Gateway.thy ===== *)
theory Gateway
  imports System Backoffice
begin

text \<open>
  The API in front of the services: every call that can write, with the scope its route asks for, and the database after it (the
  route of the demonstration data is closed in production and left to \<open>Seeder\<close>);
  histories of calls with any tokens in any order. A call that changes the database is one request of
  \<open>System\<close>, made for a user that the token names, so what holds in every reachable state holds behind the API.
\<close>

section \<open>Calls\<close>

text \<open>One datatype per router: the client's, the courier's, and the parts of the back office.\<close>

datatype client_call =
    Place_Order order_create
  | Cancel_Order uuid "string option"
  | Add_Item uuid uuid int
  | Remove_Item uuid uuid

datatype courier_call =
    Set_Out uuid
  | Arrive uuid
  | Deliver uuid "item list option"
  | Deliver_Legacy uuid "item list option"
  | Set_Courier_Status uuid order_status

datatype order_desk_call =
    Order_For_Client uuid order_create
  | Warehouse_Sale warehouse_sale "uuid option"
  | Capitalize_For_Sale "item list" "uuid option"
  | Hand_Out uuid
  | Office_Add_Item uuid uuid int
  | Office_Remove_Item uuid uuid
  | Assign uuid uuid
  | Office_Status uuid order_status
  | Office_Set_Out uuid
  | Office_Arrive uuid
  | Office_Deliver uuid "item list option"
  | Expire_Stale int int

datatype user_desk_call =
    Create_User user_admin_create
  | Patch_User uuid user_admin_update
  | Block_User uuid
  | Remove_User uuid
  | Create_Phone uuid string "string option"
  | Patch_Phone uuid uuid "string option option"
  | Delete_Phone uuid uuid
  | Onboard client_onboarding_request
  | New_Client client_create
  | New_Address uuid string
  | Patch_Client uuid user_admin_update
  | Capitalize_At_Client uuid uuid "item list"
  | Block_Client uuid
  | New_Courier string string string
  | Patch_Courier uuid user_admin_update
  | Block_Courier uuid

datatype stock_desk_call =
    New_Product product_row
  | Patch_Product uuid product_update
  | Close_Product uuid
  | Reopen_Product uuid
  | Drop_Product uuid
  | New_Transport uuid string
  | Patch_Transport uuid "uuid option option" "string option option"
  | Drop_Transport uuid
  | New_Warehouse uuid string
  | Patch_Warehouse uuid "uuid option option" "string option option"
  | Close_Warehouse uuid
  | Move_Stock transfer_request

datatype contract_desk_call =
    New_Contract uuid contract_create
  | Patch_Contract uuid contract_update
  | Activate uuid
  | Suspend uuid string
  | Reinstate uuid
  | Terminate uuid string
  | Put_Price uuid uuid int int
  | Drop_Price uuid uuid
  | New_Invoice uuid date date
  | Issue uuid uuid
  | Mark_Paid uuid uuid
  | Cancel_Draft uuid uuid
  | Amend uuid string string date
  | Mark_Overdue
  | Expire_Contracts

datatype cash_desk_call =
    Post uuid uuid int string "uuid option"
  | Verify uuid
  | Reject uuid string
  | Take_Payment uuid int string string "uuid option"

section \<open>The scopes of the routes\<close>

fun client_scope :: "client_call \<Rightarrow> string" where
  "client_scope (Cancel_Order _ _) = ORDERS_CANCEL"
| "client_scope (Remove_Item _ _) = ORDERS_CANCEL"
| "client_scope _ = ORDERS_CREATE"

fun courier_scope :: "courier_call \<Rightarrow> string" where
  "courier_scope _ = ORDERS_DELIVER"

fun order_desk_scope :: "order_desk_call \<Rightarrow> string" where
  "order_desk_scope (Order_For_Client _ _) = ORDERS_CREATE"
| "order_desk_scope (Warehouse_Sale _ _) = ORDERS_CREATE"
| "order_desk_scope _ = ORDERS_EDIT"

fun user_desk_scope :: "user_desk_call \<Rightarrow> string" where
  "user_desk_scope _ = USERS_WRITE"

fun stock_desk_scope :: "stock_desk_call \<Rightarrow> string" where
  "stock_desk_scope (New_Product _) = CATALOG_WRITE"
| "stock_desk_scope (Patch_Product _ _) = CATALOG_WRITE"
| "stock_desk_scope (Close_Product _) = CATALOG_WRITE"
| "stock_desk_scope (Reopen_Product _) = CATALOG_WRITE"
| "stock_desk_scope (Drop_Product _) = CATALOG_WRITE"
| "stock_desk_scope (Move_Stock _) = LOGISTICS_TRANSFER"
| "stock_desk_scope _ = INVENTORY_WRITE"

fun contract_desk_scope :: "contract_desk_call \<Rightarrow> string" where
  "contract_desk_scope (New_Contract _ _) = CONTRACTS_WRITE"
| "contract_desk_scope (Patch_Contract _ _) = CONTRACTS_WRITE"
| "contract_desk_scope (Put_Price _ _ _ _) = CONTRACTS_WRITE"
| "contract_desk_scope (Drop_Price _ _) = CONTRACTS_WRITE"
| "contract_desk_scope _ = CONTRACTS_MANAGE"

fun cash_desk_scope :: "cash_desk_call \<Rightarrow> string" where
  "cash_desk_scope (Take_Payment _ _ _ _ _) = PAYMENTS_CREATE"
| "cash_desk_scope _ = FINANCES_WRITE"

section \<open>The database after a call\<close>

primrec after_client ::
  "(timestamp \<Rightarrow> 't \<Rightarrow> jwt_error + claims) \<Rightarrow> 't \<Rightarrow> client_call \<Rightarrow> db \<Rightarrow> db" where
  "after_client decode token (Place_Order a) s = snd (client_create_order decode token a s)"
| "after_client decode token (Cancel_Order a b) s = snd (client_cancel_order decode token a b s)"
| "after_client decode token (Add_Item a b c) s = snd (client_add_product decode token a b c s)"
| "after_client decode token (Remove_Item a b) s = snd (client_remove_product decode token a b s)"

primrec after_courier ::
  "(timestamp \<Rightarrow> 't \<Rightarrow> jwt_error + claims) \<Rightarrow> 't \<Rightarrow> courier_call \<Rightarrow> db \<Rightarrow> db" where
  "after_courier decode token (Set_Out a) s = snd (courier_in_transit decode token a s)"
| "after_courier decode token (Arrive a) s = snd (courier_arrived decode token a s)"
| "after_courier decode token (Deliver a b) s = snd (courier_deliver decode token a b s)"
| "after_courier decode token (Deliver_Legacy a b) s = snd (courier_deliver_legacy decode token a b s)"
| "after_courier decode token (Set_Courier_Status a b) s = snd (courier_update_status decode token a b s)"

primrec after_order_desk ::
  "(timestamp \<Rightarrow> 't \<Rightarrow> jwt_error + claims) \<Rightarrow> 't \<Rightarrow> order_desk_call \<Rightarrow> db \<Rightarrow> db" where
  "after_order_desk decode token (Order_For_Client a b) s = snd (office_create_order decode token a b s)"
| "after_order_desk decode token (Warehouse_Sale a b) s = snd (office_warehouse_sale decode token a b s)"
| "after_order_desk decode token (Capitalize_For_Sale a b) s = snd (office_capitalize_for_sale decode token a b s)"
| "after_order_desk decode token (Hand_Out a) s = snd (office_complete_pickup decode token a s)"
| "after_order_desk decode token (Office_Add_Item a b c) s = snd (office_add_product decode token a b c s)"
| "after_order_desk decode token (Office_Remove_Item a b) s = snd (office_remove_product decode token a b s)"
| "after_order_desk decode token (Assign a b) s = snd (office_assign_courier decode token a b s)"
| "after_order_desk decode token (Office_Status a b) s = snd (office_order_status decode token a b s)"
| "after_order_desk decode token (Office_Set_Out a) s = snd (office_in_transit decode token a s)"
| "after_order_desk decode token (Office_Arrive a) s = snd (office_arrived decode token a s)"
| "after_order_desk decode token (Office_Deliver a b) s = snd (office_delivered decode token a b s)"
| "after_order_desk decode token (Expire_Stale a b) s = snd (office_expire_stale decode token a b s)"

primrec after_user_desk ::
  "(string \<Rightarrow> string) \<Rightarrow> (timestamp \<Rightarrow> 't \<Rightarrow> jwt_error + claims) \<Rightarrow> 't \<Rightarrow> user_desk_call \<Rightarrow> db \<Rightarrow> db" where
  "after_user_desk hash decode token (Create_User a) s = snd (office_create_user hash decode token a s)"
| "after_user_desk hash decode token (Patch_User a b) s = snd (office_update_user hash decode token a b s)"
| "after_user_desk hash decode token (Block_User a) s = snd (office_block_user decode token a s)"
| "after_user_desk hash decode token (Remove_User a) s = snd (office_delete_user decode token a s)"
| "after_user_desk hash decode token (Create_Phone a b c) s = snd (office_add_phone decode token a b c s)"
| "after_user_desk hash decode token (Patch_Phone a b c) s = snd (office_update_phone decode token a b c s)"
| "after_user_desk hash decode token (Delete_Phone a b) s = snd (office_remove_phone decode token a b s)"
| "after_user_desk hash decode token (Onboard a) s = snd (office_onboard_client decode token a s)"
| "after_user_desk hash decode token (New_Client a) s = snd (office_create_client decode token a s)"
| "after_user_desk hash decode token (New_Address a b) s = snd (office_client_address decode token a b s)"
| "after_user_desk hash decode token (Patch_Client a b) s = snd (office_update_client hash decode token a b s)"
| "after_user_desk hash decode token (Capitalize_At_Client a b c) s = snd (office_capitalize_tara decode token a b c s)"
| "after_user_desk hash decode token (Block_Client a) s = snd (office_block_client decode token a s)"
| "after_user_desk hash decode token (New_Courier a b c) s = snd (office_create_courier hash decode token a b c s)"
| "after_user_desk hash decode token (Patch_Courier a b) s = snd (office_update_courier hash decode token a b s)"
| "after_user_desk hash decode token (Block_Courier a) s = snd (office_block_courier decode token a s)"

primrec after_stock_desk ::
  "(char \<Rightarrow> char) \<Rightarrow> (timestamp \<Rightarrow> 't \<Rightarrow> jwt_error + claims) \<Rightarrow> 't \<Rightarrow> stock_desk_call \<Rightarrow> db \<Rightarrow> db" where
  "after_stock_desk lower decode token (New_Product a) s = snd (office_create_product decode token a s)"
| "after_stock_desk lower decode token (Patch_Product a b) s = snd (office_update_product decode token a b s)"
| "after_stock_desk lower decode token (Close_Product a) s = snd (office_archive_product decode token a s)"
| "after_stock_desk lower decode token (Reopen_Product a) s = snd (office_restore_product decode token a s)"
| "after_stock_desk lower decode token (Drop_Product a) s = snd (office_delete_product decode token a s)"
| "after_stock_desk lower decode token (New_Transport a b) s = snd (office_create_transport decode token a b s)"
| "after_stock_desk lower decode token (Patch_Transport a b c) s = snd (office_update_transport decode token a b c s)"
| "after_stock_desk lower decode token (Drop_Transport a) s = snd (office_delete_transport decode token a s)"
| "after_stock_desk lower decode token (New_Warehouse a b) s = snd (office_create_warehouse decode token a b s)"
| "after_stock_desk lower decode token (Patch_Warehouse a b c) s = snd (office_update_warehouse decode lower token a b c s)"
| "after_stock_desk lower decode token (Close_Warehouse a) s = snd (office_archive_warehouse decode token a s)"
| "after_stock_desk lower decode token (Move_Stock a) s = snd (office_create_transfer decode token a s)"

primrec after_contract_desk ::
  "(timestamp \<Rightarrow> 't \<Rightarrow> jwt_error + claims) \<Rightarrow> 't \<Rightarrow> contract_desk_call \<Rightarrow> db \<Rightarrow> db" where
  "after_contract_desk decode token (New_Contract a b) s = snd (office_create_contract decode token a b s)"
| "after_contract_desk decode token (Patch_Contract a b) s = snd (office_update_contract decode token a b s)"
| "after_contract_desk decode token (Activate a) s = snd (office_activate_contract decode token a s)"
| "after_contract_desk decode token (Suspend a b) s = snd (office_suspend_contract decode token a b s)"
| "after_contract_desk decode token (Reinstate a) s = snd (office_reinstate_contract decode token a s)"
| "after_contract_desk decode token (Terminate a b) s = snd (office_terminate_contract decode token a b s)"
| "after_contract_desk decode token (Put_Price a b c d) s = snd (office_price_item decode token a b c d s)"
| "after_contract_desk decode token (Drop_Price a b) s = snd (office_delete_price_item decode token a b s)"
| "after_contract_desk decode token (New_Invoice a b c) s = snd (office_generate_invoice decode token a b c s)"
| "after_contract_desk decode token (Issue a b) s = snd (office_issue_invoice decode token a b s)"
| "after_contract_desk decode token (Mark_Paid a b) s = snd (office_mark_paid decode token a b s)"
| "after_contract_desk decode token (Cancel_Draft a b) s = snd (office_cancel_invoice decode token a b s)"
| "after_contract_desk decode token (Amend a b c d) s = snd (office_create_amendment decode token a b c d s)"
| "after_contract_desk decode token Mark_Overdue s = snd (office_mark_overdue_job decode token s)"
| "after_contract_desk decode token Expire_Contracts s = snd (office_expire_contracts_job decode token s)"

primrec after_cash_desk ::
  "(timestamp \<Rightarrow> 't \<Rightarrow> jwt_error + claims) \<Rightarrow> 't \<Rightarrow> cash_desk_call \<Rightarrow> db \<Rightarrow> db" where
  "after_cash_desk decode token (Post a b c d e) s = snd (office_create_transaction decode token a b c d e s)"
| "after_cash_desk decode token (Verify a) s = snd (office_verify_transaction decode token a s)"
| "after_cash_desk decode token (Reject a b) s = snd (office_reject_transaction decode token a b s)"
| "after_cash_desk decode token (Take_Payment a b c d e) s = snd (office_accept_payment decode token a b c d e s)"
datatype call =
    Client_Call client_call
  | Courier_Call courier_call
  | Order_Call order_desk_call
  | User_Call user_desk_call
  | Stock_Call stock_desk_call
  | Contract_Call contract_desk_call
  | Cash_Call cash_desk_call

primrec call_scope :: "call \<Rightarrow> string" where
  "call_scope (Client_Call c) = client_scope c"
| "call_scope (Courier_Call c) = courier_scope c"
| "call_scope (Order_Call c) = order_desk_scope c"
| "call_scope (User_Call c) = user_desk_scope c"
| "call_scope (Stock_Call c) = stock_desk_scope c"
| "call_scope (Contract_Call c) = contract_desk_scope c"
| "call_scope (Cash_Call c) = cash_desk_scope c"

text \<open>\<open>api_v1_router\<close>: the routers under their prefixes.\<close>

primrec after_call ::
  "(string \<Rightarrow> string) \<Rightarrow> (char \<Rightarrow> char) \<Rightarrow> (timestamp \<Rightarrow> 't \<Rightarrow> jwt_error + claims) \<Rightarrow> 't \<Rightarrow> call \<Rightarrow> db \<Rightarrow> db" where
  "after_call hash lower decode token (Client_Call c) s = after_client decode token c s"
| "after_call hash lower decode token (Courier_Call c) s = after_courier decode token c s"
| "after_call hash lower decode token (Order_Call c) s = after_order_desk decode token c s"
| "after_call hash lower decode token (User_Call c) s = after_user_desk hash decode token c s"
| "after_call hash lower decode token (Stock_Call c) s = after_stock_desk lower decode token c s"
| "after_call hash lower decode token (Contract_Call c) s = after_contract_desk decode token c s"
| "after_call hash lower decode token (Cash_Call c) s = after_cash_desk decode token c s"

section \<open>What a call can do\<close>

text \<open>A route either leaves the database or makes one request for the user it has let in.\<close>

definition acts ::
  "(string \<Rightarrow> string) \<Rightarrow> (char \<Rightarrow> char) \<Rightarrow> ('t \<Rightarrow> db \<Rightarrow> app_error + user_row) \<Rightarrow> 't \<Rightarrow> db \<Rightarrow> db \<Rightarrow> bool" where
  "acts hash lower auth token s s' \<longleftrightarrow> s' = s \<or> (\<exists>u r. auth token s = Inr u \<and> s' = after hash lower r s)"

lemma one_request:
  "\<exists>r. after_finance rf s = after hash lower r s" "\<exists>r. after_catalog rc s = after hash lower r s"
  "\<exists>r. after_inventory lower ri s = after hash lower r s" "\<exists>r. after_contract rk s = after hash lower r s"
  "\<exists>r. after_order ro s = after hash lower r s" "\<exists>r. after_user hash ru s = after hash lower r s"
  by (metis after.simps)+

lemmas requests_simps = after_finance.simps after_catalog.simps after_inventory.simps after_contract.simps after_order.simps
  after_user.simps

lemmas as_request =
  after_finance.simps [symmetric] after_catalog.simps [symmetric] after_contract.simps [symmetric] after_order.simps [symmetric]

lemma validated_snd: "snd (validated ok f s) = (if ok then snd (f s) else s)"
  by (simp add: validated_def)

lemma or_404_snd: "snd (or_404 f s) = snd (f s)" "snd (or_404_bool g s) = snd (g s)"
  by (auto simp: or_404_def or_404_bool_def split: prod.splits sum.splits option.splits)

lemma secured_acts:
  assumes "\<And>u. snd (f u s) = s \<or> (\<exists>r. snd (f u s) = after hash lower r s)"
  shows "acts hash lower auth token s (snd (secured auth token f s))"
  using assms by (fastforce simp: acts_def secured_def split: sum.splits)

text \<open>The routes of a router, unfolded.\<close>

lemmas client_routes =
  client_create_order_def client_cancel_order_def client_add_product_def client_remove_product_def
lemmas courier_routes =
  courier_in_transit_def courier_arrived_def courier_deliver_def courier_deliver_legacy_def courier_update_status_def
lemmas order_desk_routes =
  office_create_order_def office_warehouse_sale_def office_capitalize_for_sale_def office_complete_pickup_def
  office_add_product_def office_remove_product_def office_assign_courier_def office_order_status_def office_in_transit_def
  office_arrived_def office_delivered_def office_expire_stale_def
lemmas user_desk_routes =
  office_create_user_def office_update_user_def office_block_user_def office_delete_user_def office_add_phone_def
  office_update_phone_def office_remove_phone_def office_onboard_client_def office_create_client_def
  office_client_address_def office_update_client_def office_capitalize_tara_def office_block_client_def
  office_create_courier_def office_update_courier_def office_block_courier_def
lemmas stock_desk_routes =
  office_create_product_def office_update_product_def office_archive_product_def office_restore_product_def
  office_delete_product_def office_create_transport_def office_update_transport_def office_delete_transport_def
  office_create_warehouse_def office_update_warehouse_def office_archive_warehouse_def office_create_transfer_def
lemmas contract_desk_routes =
  office_create_contract_def office_update_contract_def office_activate_contract_def office_suspend_contract_def
  office_reinstate_contract_def office_terminate_contract_def office_price_item_def office_delete_price_item_def
  office_generate_invoice_def office_issue_invoice_def office_mark_paid_def office_cancel_invoice_def
  office_create_amendment_def office_mark_overdue_job_def office_expire_contracts_job_def
lemmas cash_desk_routes =
  office_create_transaction_def office_verify_transaction_def office_reject_transaction_def office_accept_payment_def

lemmas shared_handlers = update_backoffice_order_status_def update_courier_order_status_def

lemma cancel_order_request: "snd (cancel_order i u reason s) = s \<or> (\<exists>r. snd (cancel_order i u reason s) = after hash lower r s)"
proof (cases "check_client_may_cancel i u s")
  case (Inr b)
  then have "snd (cancel_order i u reason s) = after hash lower (Order_Request (Update_Status i OS_CANCELLED [] (Some u) reason)) s"
    by (simp add: cancel_order_def)
  then show ?thesis by blast
qed (simp add: cancel_order_def)

lemma client_acts: "acts hash lower (get_current_user decode [client_scope c]) token s (after_client decode token c s)"
  by (cases c; simp add: client_routes; intro secured_acts;
      simp add: validated_snd cancel_order_request as_request after_inventory.simps [of lower, symmetric] after_user.simps [of hash, symmetric]
        one_request del: requests_simps)

lemma order_desk_acts: "acts hash lower (get_current_user decode [order_desk_scope c]) token s (after_order_desk decode token c s)"
  by (cases c; simp add: order_desk_routes shared_handlers; intro secured_acts;
      simp add: validated_snd or_404_snd as_request after_inventory.simps [of lower, symmetric] after_user.simps [of hash, symmetric]
        one_request del: requests_simps)

lemma user_desk_acts: "acts hash lower (get_current_user decode [user_desk_scope c]) token s (after_user_desk hash decode token c s)"
  by (cases c; simp add: user_desk_routes shared_handlers; intro secured_acts;
      simp add: validated_snd or_404_snd as_request after_inventory.simps [of lower, symmetric] after_user.simps [of hash, symmetric]
        one_request del: requests_simps)

lemma stock_desk_acts: "acts hash lower (get_current_user decode [stock_desk_scope c]) token s (after_stock_desk lower decode token c s)"
  by (cases c; simp add: stock_desk_routes shared_handlers; intro secured_acts;
      simp add: validated_snd or_404_snd as_request after_inventory.simps [of lower, symmetric] after_user.simps [of hash, symmetric]
        one_request del: requests_simps)

lemma contract_desk_acts: "acts hash lower (get_current_user decode [contract_desk_scope c]) token s (after_contract_desk decode token c s)"
  by (cases c; simp add: contract_desk_routes shared_handlers; intro secured_acts;
      simp add: validated_snd or_404_snd as_request after_inventory.simps [of lower, symmetric] after_user.simps [of hash, symmetric]
        one_request del: requests_simps)

lemma cash_desk_acts: "acts hash lower (get_current_user decode [cash_desk_scope c]) token s (after_cash_desk decode token c s)"
  by (cases c; simp add: cash_desk_routes shared_handlers; intro secured_acts;
      simp add: validated_snd or_404_snd as_request after_inventory.simps [of lower, symmetric] after_user.simps [of hash, symmetric]
        one_request del: requests_simps)

lemma courier_acts: "acts hash lower (get_current_courier decode [courier_scope c]) token s (after_courier decode token c s)"
  by (cases c; simp add: courier_routes shared_handlers; intro secured_acts;
      simp add: validated_snd as_request after_inventory.simps [of lower, symmetric] after_user.simps [of hash, symmetric]
        one_request del: requests_simps)

text \<open>The dependency that resolves the caller.\<close>

primrec courier_only :: "call \<Rightarrow> bool" where
  "courier_only (Client_Call c) = False"
| "courier_only (Courier_Call c) = True"
| "courier_only (Order_Call c) = False"
| "courier_only (User_Call c) = False"
| "courier_only (Stock_Call c) = False"
| "courier_only (Contract_Call c) = False"
| "courier_only (Cash_Call c) = False"

lemma get_current_courierD:
  "get_current_courier decode required token s = Inr u \<Longrightarrow> get_current_user decode required token s = Inr u \<and> usr_role u = R_COURIER"
  by (auto simp: get_current_courier_def split: sum.splits if_splits)

lemma get_current_userD:
  assumes "get_current_user decode required token s = Inr u"
  shows "\<exists>p. decode (clock s) token = Inr p \<and> set required \<subseteq> set (get_caller_scopes p)
    \<and> uuid_parse (the (clm_sub p)) = Some (row_id u) \<and> u \<in> set (users s) \<and> is_active u"
  using assms
  by (auto simp: get_current_user_def get_token_payload_def decode_access_token_def get_caller_scopes_def list_ex_iff
      dest!: tbl_get_SomeD split: sum.splits jwt_error.splits if_splits option.splits)

text \<open>A call that changes the database had a caller, and made one request.\<close>

lemma call_acts:
  "after_call hash lower decode token c s = s \<or>
   (\<exists>u r. get_current_user decode [call_scope c] token s = Inr u \<and> (courier_only c \<longrightarrow> usr_role u = R_COURIER)
     \<and> after_call hash lower decode token c s = after hash lower r s)"
proof (cases c)
  case (Courier_Call d)
  with courier_acts [of hash lower decode d token s] show ?thesis
    by (auto simp: acts_def dest: get_current_courierD)
next
  case (Client_Call d)
  with client_acts [of hash lower decode d token s] show ?thesis by (auto simp: acts_def)
next
  case (Order_Call d)
  with order_desk_acts [of hash lower decode d token s] show ?thesis by (auto simp: acts_def)
next
  case (User_Call d)
  with user_desk_acts [of hash lower decode d token s] show ?thesis by (auto simp: acts_def)
next
  case (Stock_Call d)
  with stock_desk_acts [of hash lower decode d token s] show ?thesis by (auto simp: acts_def)
next
  case (Contract_Call d)
  with contract_desk_acts [of hash lower decode d token s] show ?thesis by (auto simp: acts_def)
next
  case (Cash_Call d)
  with cash_desk_acts [of hash lower decode d token s] show ?thesis by (auto simp: acts_def)
qed

section \<open>Histories\<close>

datatype 't api_event = Call 't call | Wait nat

inductive api_step :: "(string \<Rightarrow> string) \<Rightarrow> (char \<Rightarrow> char) \<Rightarrow> (timestamp \<Rightarrow> 't \<Rightarrow> jwt_error + claims)
    \<Rightarrow> db \<Rightarrow> 't api_event \<Rightarrow> db \<Rightarrow> bool" for hash lower decode where
  called: "api_step hash lower decode s (Call token c) (after_call hash lower decode token c s)"
| waited: "api_step hash lower decode s (Wait d) (s\<lparr>clock := clock s + int d\<rparr>)"

inductive_cases api_stepE: "api_step hash lower decode s e s'"

inductive api_runs :: "(string \<Rightarrow> string) \<Rightarrow> (char \<Rightarrow> char) \<Rightarrow> (timestamp \<Rightarrow> 't \<Rightarrow> jwt_error + claims)
    \<Rightarrow> db \<Rightarrow> 't api_event list \<Rightarrow> db \<Rightarrow> bool" for hash lower decode where
  api_nil: "api_runs hash lower decode s [] s"
| api_cons: "api_step hash lower decode s e s1 \<Longrightarrow> api_runs hash lower decode s1 es s' \<Longrightarrow> api_runs hash lower decode s (e # es) s'"

text \<open>A token that never opens the route of a call.\<close>

definition powerless :: "(timestamp \<Rightarrow> 't \<Rightarrow> jwt_error + claims) \<Rightarrow> 't \<Rightarrow> call \<Rightarrow> bool" where
  "powerless decode token c \<longleftrightarrow> (\<forall>now p. decode now token = Inr p \<longrightarrow> call_scope c \<notin> set (get_caller_scopes p))"

lemma powerless_call: "powerless decode token c \<Longrightarrow> after_call hash lower decode token c s = s"
  using call_acts [of hash lower decode token c s] get_current_userD [of decode "[call_scope c]" token s]
  by (auto simp: powerless_def)

lemma api_step_runs:
  assumes "api_step hash lower decode s e s'"
  shows "\<exists>evs. runs hash lower s evs s' \<and> length evs \<le> 1"
  using assms
proof (rule api_stepE)
  fix token c assume s': "s' = after_call hash lower decode token c s"
  show ?thesis
  proof (cases "s' = s")
    case True
    then have "runs hash lower s [] s' \<and> length ([] :: event list) \<le> 1" by simp
    then show ?thesis by blast
  next
    case False
    then obtain r where "s' = after hash lower r s" using call_acts [of hash lower decode token c s] s' by auto
    then have "runs hash lower s [Request r] s' \<and> length [Request r] \<le> 1" by (simp add: runs_play)
    then show ?thesis by blast
  qed
next
  fix d assume "s' = s\<lparr>clock := clock s + int d\<rparr>"
  then have "runs hash lower s [Tick d] s' \<and> length [Tick d] \<le> 1" by (simp add: runs_play)
  then show ?thesis by blast
qed

lemma runs_append: "runs hash lower s es s1 \<Longrightarrow> runs hash lower s1 fs s' \<Longrightarrow> runs hash lower s (es @ fs) s'"
  by (induction rule: runs.induct) (auto simp: runs_cons_iff)

lemma api_runs_runs:
  "api_runs hash lower decode s es s' \<Longrightarrow> \<exists>evs. runs hash lower s evs s' \<and> length evs \<le> length es"
proof (induction rule: api_runs.induct)
  case (api_cons s e s1 es s')
  then obtain evs where evs: "runs hash lower s1 evs s'" "length evs \<le> length es" by blast
  from api_step_runs [OF api_cons.hyps(1)] obtain fs where "runs hash lower s fs s1" "length fs \<le> 1" by blast
  with evs have "runs hash lower s (fs @ evs) s' \<and> length (fs @ evs) \<le> length (e # es)" by (simp add: runs_append)
  then show ?case by blast
qed (use runs_nil in force)

lemma api_runs_powerless:
  "api_runs hash lower decode s es s' \<Longrightarrow> (\<And>token c. Call token c \<in> set es \<Longrightarrow> powerless decode token c)
    \<Longrightarrow> \<exists>t. s' = s\<lparr>clock := t\<rparr>"
proof (induction rule: api_runs.induct)
  case (api_nil s)
  have "s = s\<lparr>clock := clock s\<rparr>" by simp
  then show ?case by blast
next
  case (api_cons s e s1 es s')
  obtain t where "s' = s1\<lparr>clock := t\<rparr>" using api_cons.IH api_cons.prems by auto
  moreover obtain u where "s1 = s \<or> s1 = s\<lparr>clock := u\<rparr>"
    using api_cons.hyps(1) api_cons.prems by (auto elim!: api_stepE simp: powerless_call)
  ultimately have "s' = s\<lparr>clock := t\<rparr>" by auto
  then show ?case by blast
qed

section \<open>What a token proves\<close>

lemma loginD:
  assumes "local_login verify encode m jti phone password s = Inr token \<or> courier_login verify encode m jti phone password s = Inr token
    \<or> client_login verify encode m jti phone password s = Inr token"
  shows "\<exists>u. authenticate_local_user verify phone password s = Inr u \<and> token = build_token_response encode m jti u s"
  using assms by (auto simp: local_login_def courier_login_def client_login_def split: sum.splits if_splits)

lemma issued_tokenD:
  assumes jwt: "\<And>now c. decode now (encode c) = (if now < clm_exp c then Inr c else Inl ExpiredSignatureError)"
    and id: "row_id u < 2 ^ 128"
    and auth: "get_current_user decode required (build_token_response encode m jti u s0) s = Inr v"
  shows "set required \<subseteq> set (ROLE_SCOPES (usr_role u)) \<and> clock s < clock s0 + minutes m
    \<and> v \<in> set (users s) \<and> is_active v \<and> row_id v = row_id u"
proof -
  have "uuid_parse (uuid_str (row_id u)) = Some (row_id u)" using uuid_roundtrip id by simp
  with get_current_userD [OF auth] show ?thesis
    by (auto simp: build_token_response_def create_access_token_def jwt get_caller_scopes_def split: if_splits)
qed

section \<open>A call\<close>

text \<open>The first administrator of the sample server logs in and opens a warehouse.\<close>

definition sample_admin :: user_row where
  "sample_admin = projr (authenticate_local_user (\<lambda>p h. Some (p = h)) ''998'' ''pw'' sample_boot)"

definition sample_claims :: claims where
  "sample_claims = build_token_response (\<lambda>c. c) 30 9 sample_admin sample_boot"

lemma sample_jwt: "sample_decode now c = (if now < clm_exp c then Inr c else Inl ExpiredSignatureError)"
  by (simp add: sample_decode_def)

lemma sample_boot_ids: "map row_id (users sample_boot) = [0, 2, 112]"
  by code_simp

lemma sample_boot_ids_small: "\<forall>u\<in>set (users sample_boot). row_id u < 2 ^ 128"
proof -
  have "list_all (\<lambda>i. i < 2 ^ 128) (map row_id (users sample_boot))" unfolding sample_boot_ids by simp
  then show ?thesis by (simp add: list_all_iff)
qed

lemma sample_login: "local_login (\<lambda>p h. Some (p = h)) (\<lambda>c. c) 30 9 ''998'' ''pw'' sample_boot = Inr sample_claims"
proof -
  have "\<not> isl (local_login (\<lambda>p h. Some (p = h)) (\<lambda>c. c) 30 9 ''998'' ''pw'' sample_boot)" by code_simp
  then show ?thesis
    by (auto simp: sample_claims_def sample_admin_def local_login_def split: sum.splits if_splits)
qed

lemma sample_authenticated: "authenticate_local_user (\<lambda>p h. Some (p = h)) ''998'' ''pw'' sample_boot = Inr sample_admin"
  using sample_login by (auto simp: sample_admin_def local_login_def split: sum.splits)

lemma sample_caller: "get_current_user sample_decode [INVENTORY_WRITE] sample_claims sample_boot = Inr sample_admin"
proof -
  obtain h where u: "sample_admin \<in> set (users sample_boot)" "is_active sample_admin"
    by (rule authenticate_local_userD [OF sample_authenticated])
  have "keys_distinct (users sample_boot)" by (simp add: keys_distinct_def sample_boot_ids)
  moreover have "set [INVENTORY_WRITE] \<subseteq> set (ROLE_SCOPES (usr_role sample_admin))" by code_simp
  ultimately show ?thesis
    unfolding sample_claims_def using u sample_boot_ids_small
    by (subst token_identifies) (auto simp: sample_decode_def minutes_def)
qed

abbreviation sample_call :: call where
  "sample_call \<equiv> Stock_Call (New_Warehouse 112 ''North'')"

lemma sample_call_run:
  "after_call (\<lambda>p. p) (\<lambda>c. c) sample_decode sample_claims sample_call sample_boot = snd (create_warehouse 112 ''North'' sample_boot)"
proof -
  have "warehouse_create_ok ''North''" by code_simp
  then show ?thesis by (simp add: office_create_warehouse_def secured_def sample_caller validated_def)
qed

lemma sample_call_opens: "''North'' \<in> inv_name ` set (inventories (snd (create_warehouse 112 ''North'' sample_boot)))"
  "''North'' \<notin> inv_name ` set (inventories sample_boot)"
  by code_simp+

section \<open>Properties\<close>

text \<open>
  C5. No call changes the database without a right to do so. If a call with the token of some login, be it of the
  staff, of a courier or of a client, leaves another database than it found, then the password of an active
  account was given at that login, the role of the account at the login has the scope that the route asks for, the token has
  not expired, the account is still there and active (and a courier's, on the courier's routes), and the change is that of one request of
  \<open>System\<close>. The role is the one at the login: a token keeps its scopes when the role is changed. The
  hypothesis on \<open>PyJWT\<close> is that a token decodes to what was encoded until it expires, and not after.
\<close>

theorem change_needs_authority:
  assumes jwt: "\<And>now c. decode now (encode c) = (if now < clm_exp c then Inr c else Inl ExpiredSignatureError)"
    and login: "local_login verify encode m jti phone password s0 = Inr token
      \<or> courier_login verify encode m jti phone password s0 = Inr token \<or> client_login verify encode m jti phone password s0 = Inr token"
    and ids: "\<forall>u\<in>set (users s0). row_id u < 2 ^ 128"
    and changed: "after_call hash lower decode token c s \<noteq> s"
  shows "\<exists>u v h. authenticate_local_user verify phone password s0 = Inr u \<and> u \<in> set (users s0) \<and> is_active u
    \<and> verify password h = Some True \<and> call_scope c \<in> set (ROLE_SCOPES (usr_role u)) \<and> clock s < clock s0 + minutes m
    \<and> v \<in> set (users s) \<and> is_active v \<and> row_id v = row_id u \<and> (courier_only c \<longrightarrow> usr_role v = R_COURIER)
    \<and> (\<exists>r. after_call hash lower decode token c s = after hash lower r s)"
proof -
  obtain u where u: "authenticate_local_user verify phone password s0 = Inr u" and token: "token = build_token_response encode m jti u s0"
    using loginD [OF login] by blast
  obtain h where h: "u \<in> set (users s0)" "is_active u" "verify password h = Some True"
    by (rule authenticate_local_userD [OF u])
  obtain v r where v: "get_current_user decode [call_scope c] token s = Inr v" "courier_only c \<longrightarrow> usr_role v = R_COURIER"
    "after_call hash lower decode token c s = after hash lower r s"
    using call_acts [of hash lower decode token c s] changed by blast
  from issued_tokenD [OF jwt _ v(1) [unfolded token]] ids h(1)
  have "set [call_scope c] \<subseteq> set (ROLE_SCOPES (usr_role u)) \<and> clock s < clock s0 + minutes m
      \<and> v \<in> set (users s) \<and> is_active v \<and> row_id v = row_id u" by blast
  with u h v show ?thesis by auto
qed

theorem change_needs_authority_witness:
  "\<exists>u. after_call (\<lambda>p. p) (\<lambda>c. c) sample_decode sample_claims sample_call sample_boot \<noteq> sample_boot
     \<and> authenticate_local_user (\<lambda>p h. Some (p = h)) ''998'' ''pw'' sample_boot = Inr u \<and> INVENTORY_WRITE \<in> set (ROLE_SCOPES (usr_role u))"
proof -
  let ?check = "\<lambda>p h. Some (p = h)"
  have login: "local_login ?check (\<lambda>c. c) 30 9 ''998'' ''pw'' sample_boot = Inr sample_claims
    \<or> courier_login ?check (\<lambda>c. c) 30 9 ''998'' ''pw'' sample_boot = Inr sample_claims
    \<or> client_login ?check (\<lambda>c. c) 30 9 ''998'' ''pw'' sample_boot = Inr sample_claims" using sample_login by simp
  have changed: "after_call (\<lambda>p. p) (\<lambda>c. c) sample_decode sample_claims sample_call sample_boot \<noteq> sample_boot"
    unfolding sample_call_run using sample_call_opens by metis
  from change_needs_authority [OF sample_jwt login sample_boot_ids_small changed] changed show ?thesis by auto
qed

text \<open>
  C6. The API refines the server of \<open>System\<close>: a history of calls, with any tokens, well formed or not, in
  any order and over any time, that starts in a reachable state ends in a reachable state, and its
  effect is that of a run of requests that is not longer. So the invariants of the reachable states hold
  behind the API. If none of the tokens carries the scope of the route it is used for, then nothing has
  changed but the time.
\<close>

theorem api_refines_server:
  assumes start: "reachable hash lower s" and history: "api_runs hash lower decode s es s'"
  shows "reachable hash lower s' \<and> (\<exists>evs. runs hash lower s evs s' \<and> length evs \<le> length es)
    \<and> ((\<forall>token c. Call token c \<in> set es \<longrightarrow> powerless decode token c) \<longrightarrow> (\<exists>t. s' = s\<lparr>clock := t\<rparr>))"
proof -
  obtain evs where "runs hash lower s evs s'" "length evs \<le> length es" using api_runs_runs [OF history] by blast
  with start show ?thesis using reachable_runs api_runs_powerless [OF history] by blast
qed

theorem api_refines_server_witness:
  "\<exists>s'. api_runs (\<lambda>p. p) (\<lambda>c. c) sample_decode sample_boot [Call sample_claims sample_call, Wait 7] s'
     \<and> reachable (\<lambda>p. p) (\<lambda>c. c) s' \<and> ''North'' \<in> inv_name ` set (inventories s')"
proof -
  let ?s1 = "after_call (\<lambda>p. p) (\<lambda>c. c) sample_decode sample_claims sample_call sample_boot"
  let ?s2 = "?s1\<lparr>clock := clock ?s1 + int 7\<rparr>"
  have history: "api_runs (\<lambda>p. p) (\<lambda>c. c) sample_decode sample_boot [Call sample_claims sample_call, Wait 7] ?s2"
    by (rule api_runs.intros api_step.intros)+
  have "inventories (x\<lparr>clock := t\<rparr>) = inventories x" for x :: db and t by simp
  then have "''North'' \<in> inv_name ` set (inventories ?s2)" using sample_call_opens(1) by (simp only: sample_call_run)
  with history api_refines_server [OF sample_boot_reachable history] show ?thesis by blast
qed

end
