(* ===== verification/Ddl.thy ===== *)
theory Ddl
  imports Prelude
begin

text \<open>
  The schema as the migrations see it (\<open>alembic/versions\<close>): tables with their columns and constraints, indexes, functions,
  triggers and extensions, and the statements that change them, with the errors that PostgreSQL documents for
  them. Rows are left out. Comments of columns and tables are left out.
\<close>

section \<open>The catalog\<close>

datatype sql_type = T_UUID | T_STRING nat | T_TEXT | T_BIGINT | T_INTEGER | T_BOOLEAN | T_DATE | T_TIMESTAMPTZ | T_JSONB
  | T_ENUM string "string list"

record column =
  cl_name :: string
  cl_type :: sql_type
  cl_nullable :: bool
  cl_default :: "string option"

datatype constraint =
    Check_Constraint "string option" string
  | Foreign_Key "string option" "string list" string "string list" "string option"
  | Primary_Key "string list"
  | Unique_Key "string option" "string list"

record table_def =
  td_columns :: "column list"
  td_constraints :: "constraint list"

record index_def =
  ix_table :: string
  ix_on :: "string list"
  ix_unique :: bool
  ix_using :: "string option"
  ix_where :: "string option"

record catalog =
  ct_tables :: "(string \<times> table_def) list"
  ct_indexes :: "(string \<times> index_def) list"
  ct_functions :: "string list"
  ct_triggers :: "(string \<times> string) list"
  ct_extensions :: "string list"

definition empty_catalog :: catalog where
  "empty_catalog = \<lparr>ct_tables = [], ct_indexes = [], ct_functions = [], ct_triggers = [], ct_extensions = []\<rparr>"

definition col :: "string \<Rightarrow> sql_type \<Rightarrow> column" where
  "col n t = \<lparr>cl_name = n, cl_type = t, cl_nullable = False, cl_default = None\<rparr>"

definition col_null :: "string \<Rightarrow> sql_type \<Rightarrow> column" where
  "col_null n t = \<lparr>cl_name = n, cl_type = t, cl_nullable = True, cl_default = None\<rparr>"

definition col_default :: "string \<Rightarrow> sql_type \<Rightarrow> string \<Rightarrow> column" where
  "col_default n t d = \<lparr>cl_name = n, cl_type = t, cl_nullable = False, cl_default = Some d\<rparr>"

definition fk :: "string \<Rightarrow> string \<Rightarrow> string \<Rightarrow> constraint" where
  "fk c t on_delete = Foreign_Key None [c] t [''id''] (Some on_delete)"

definition plain_index :: "string \<Rightarrow> string list \<Rightarrow> index_def" where
  "plain_index t cs = \<lparr>ix_table = t, ix_on = cs, ix_unique = False, ix_using = None, ix_where = None\<rparr>"

primrec constraint_name :: "constraint \<Rightarrow> string option" where
  "constraint_name (Check_Constraint n e) = n"
| "constraint_name (Foreign_Key n cs t rs d) = n"
| "constraint_name (Primary_Key cs) = None"
| "constraint_name (Unique_Key n cs) = n"

primrec constraint_columns :: "constraint \<Rightarrow> string list" where
  "constraint_columns (Check_Constraint n e) = []"
| "constraint_columns (Foreign_Key n cs t rs d) = cs"
| "constraint_columns (Primary_Key cs) = cs"
| "constraint_columns (Unique_Key n cs) = cs"

primrec constraint_target :: "constraint \<Rightarrow> string list" where
  "constraint_target (Check_Constraint n e) = []"
| "constraint_target (Foreign_Key n cs t rs d) = [t]"
| "constraint_target (Primary_Key cs) = []"
| "constraint_target (Unique_Key n cs) = []"

definition fk_targets :: "table_def \<Rightarrow> string list" where
  "fk_targets t = concat (map constraint_target (td_constraints t))"

fun references_column :: "string \<Rightarrow> string \<Rightarrow> constraint \<Rightarrow> bool" where
  "references_column t c (Foreign_Key n cs t' rs d) \<longleftrightarrow> t' = t \<and> c \<in> set rs"
| "references_column t c _ \<longleftrightarrow> False"

section \<open>Statements\<close>

datatype ddl =
    Create_Table string table_def
  | Drop_Table string
  | Create_Index string index_def
  | Index_If_Absent string index_def
  | Drop_Index string
  | Drop_Index_If_Present string
  | Add_Column string column
  | Drop_Column string string
  | Create_Check string string string
  | Drop_Constraint string string
  | Add_Value string string
  | Extension_If_Absent string
  | Create_Or_Replace_Function string
  | Drop_Function_If_Present string
  | Create_Trigger string string
  | Drop_Trigger_If_Present string string

datatype ddl_error = Duplicate_Relation | Undefined_Table | Duplicate_Column | Undefined_Column | Duplicate_Object | Undefined_Object
  | Dependent_Objects

definition has_table :: "string \<Rightarrow> catalog \<Rightarrow> bool" where
  "has_table t c \<longleftrightarrow> t \<in> set (map fst (ct_tables c))"

text \<open>Tables and indexes share their name space.\<close>

definition has_relation :: "string \<Rightarrow> catalog \<Rightarrow> bool" where
  "has_relation n c \<longleftrightarrow> has_table n c \<or> n \<in> set (map fst (ct_indexes c))"

definition columns_of :: "table_def \<Rightarrow> string list" where
  "columns_of t = map cl_name (td_columns t)"

text \<open>A new table: the targets of its foreign keys exist or are the table itself, and its constraints are over its columns.\<close>

definition targets_exist :: "string \<Rightarrow> table_def \<Rightarrow> catalog \<Rightarrow> bool" where
  "targets_exist n t c \<longleftrightarrow> list_all (\<lambda>m. m = n \<or> has_table m c) (fk_targets t)"

definition own_columns :: "table_def \<Rightarrow> bool" where
  "own_columns t \<longleftrightarrow> list_all (\<lambda>k. set (constraint_columns k) \<subseteq> set (columns_of t)) (td_constraints t)"

definition set_key :: "'a \<Rightarrow> 'b \<Rightarrow> ('a \<times> 'b) list \<Rightarrow> ('a \<times> 'b) list" where
  "set_key n v xs = map (\<lambda>(m, u). (m, if m = n then v else u)) xs"

lemma set_key_simps [simp]: "map fst (set_key n v xs) = map fst xs" "set_key n v (set_key n w xs) = set_key n v xs"
  "map_of (set_key n v xs) m = map_option (\<lambda>u. if m = n then v else u) (map_of xs m)"
  by (induction xs) (auto simp: set_key_def)

lemma set_key_same: "distinct (map fst xs) \<Longrightarrow> map_of xs n = Some v \<Longrightarrow> set_key n v xs = xs"
  by (induction xs) (auto simp: set_key_def image_iff split: if_splits intro!: map_idI)

lemma in_set_key: "(m, u) \<in> set (set_key n v xs) \<Longrightarrow> (if m = n then u = v else (m, u) \<in> set xs)"
  by (auto simp: set_key_def split: if_splits)

definition on_table :: "string \<Rightarrow> (table_def \<Rightarrow> ddl_error + table_def) \<Rightarrow> catalog \<Rightarrow> ddl_error + catalog" where
  "on_table n f c = (case map_of (ct_tables c) n of
     None \<Rightarrow> Inl Undefined_Table
   | Some t \<Rightarrow> (case f t of
       Inl e \<Rightarrow> Inl e
     | Inr t' \<Rightarrow> Inr (c\<lparr>ct_tables := set_key n t' (ct_tables c)\<rparr>)))"

definition add_column :: "column \<Rightarrow> table_def \<Rightarrow> ddl_error + table_def" where
  "add_column k t = (if cl_name k \<in> set (columns_of t) then Inl Duplicate_Column else Inr (t\<lparr>td_columns := td_columns t @ [k]\<rparr>))"

text \<open>Constraints over the column go with it. (The checks are texts: the scripts drop them first.)\<close>

definition drop_column :: "string \<Rightarrow> table_def \<Rightarrow> ddl_error + table_def" where
  "drop_column k t = (if k \<notin> set (columns_of t) then Inl Undefined_Column
     else Inr (t\<lparr>td_columns := filter (\<lambda>x. cl_name x \<noteq> k) (td_columns t),
                  td_constraints := filter (\<lambda>x. k \<notin> set (constraint_columns x)) (td_constraints t)\<rparr>))"

definition create_check :: "string \<Rightarrow> string \<Rightarrow> table_def \<Rightarrow> ddl_error + table_def" where
  "create_check n e t = (if Some n \<in> set (map constraint_name (td_constraints t)) then Inl Duplicate_Object
     else Inr (t\<lparr>td_constraints := td_constraints t @ [Check_Constraint (Some n) e]\<rparr>))"

definition drop_constraint :: "string \<Rightarrow> table_def \<Rightarrow> ddl_error + table_def" where
  "drop_constraint n t = (if Some n \<notin> set (map constraint_name (td_constraints t)) then Inl Undefined_Object
     else Inr (t\<lparr>td_constraints := filter (\<lambda>x. constraint_name x \<noteq> Some n) (td_constraints t)\<rparr>))"

text \<open>\<open>ALTER TYPE ... ADD VALUE\<close>: the labels of a type are kept with the columns of that type.\<close>

fun add_value :: "string \<Rightarrow> string \<Rightarrow> sql_type \<Rightarrow> sql_type" where
  "add_value n v (T_ENUM m vs) = (if m = n then T_ENUM m (vs @ [v]) else T_ENUM m vs)"
| "add_value n v t = t"

definition enum_labels :: "string \<Rightarrow> catalog \<Rightarrow> string list list" where
  "enum_labels n c = concat (map (\<lambda>(_, t). concat (map (\<lambda>k. case cl_type k of T_ENUM m vs \<Rightarrow> if m = n then [vs] else [] | _ \<Rightarrow> []) (td_columns t)))
     (ct_tables c))"

definition alter_type :: "string \<Rightarrow> string \<Rightarrow> catalog \<Rightarrow> ddl_error + catalog" where
  "alter_type n v c = (case enum_labels n c of
     [] \<Rightarrow> Inl Undefined_Object
   | vs # _ \<Rightarrow> if v \<in> set vs then Inl Duplicate_Object
       else Inr (c\<lparr>ct_tables := map (apsnd (\<lambda>t. t\<lparr>td_columns := map (\<lambda>k. k\<lparr>cl_type := add_value n v (cl_type k)\<rparr>) (td_columns t)\<rparr>))
         (ct_tables c)\<rparr>))"

definition create_index :: "string \<Rightarrow> index_def \<Rightarrow> catalog \<Rightarrow> ddl_error + catalog" where
  "create_index n x c = (if has_relation n c then Inl Duplicate_Relation
     else if \<not> has_table (ix_table x) c then Inl Undefined_Table
     else Inr (c\<lparr>ct_indexes := ct_indexes c @ [(n, x)]\<rparr>))"

definition without_index :: "string \<Rightarrow> catalog \<Rightarrow> catalog" where
  "without_index n c = c\<lparr>ct_indexes := filter (\<lambda>(m, _). m \<noteq> n) (ct_indexes c)\<rparr>"

text \<open>
  A table that others refer to is not dropped; its indexes and triggers go with it. The types of its columns
  stay behind: they are objects of their own, see \<open>Enum types\<close> below.
\<close>

definition drop_table :: "string \<Rightarrow> catalog \<Rightarrow> ddl_error + catalog" where
  "drop_table n c = (if \<not> has_table n c then Inl Undefined_Table
     else if list_ex (\<lambda>(m, t). m \<noteq> n \<and> n \<in> set (fk_targets t)) (ct_tables c) then Inl Dependent_Objects
     else Inr (c\<lparr>ct_tables := filter (\<lambda>(m, _). m \<noteq> n) (ct_tables c),
                  ct_indexes := filter (\<lambda>(_, x). ix_table x \<noteq> n) (ct_indexes c),
                  ct_triggers := filter (\<lambda>(_, t). t \<noteq> n) (ct_triggers c)\<rparr>))"

definition drop_column_of :: "string \<Rightarrow> string \<Rightarrow> catalog \<Rightarrow> ddl_error + catalog" where
  "drop_column_of n k c = (if list_ex (\<lambda>(m, t). m \<noteq> n \<and> list_ex (references_column n k) (td_constraints t)) (ct_tables c)
     then Inl Dependent_Objects
     else map_sum id (\<lambda>c. c\<lparr>ct_indexes := filter (\<lambda>(_, x). \<not> (ix_table x = n \<and> k \<in> set (ix_on x))) (ct_indexes c)\<rparr>)
       (on_table n (drop_column k) c))"

fun execute :: "ddl \<Rightarrow> catalog \<Rightarrow> ddl_error + catalog" where
  "execute (Create_Table n t) c =
     (if has_relation n c then Inl Duplicate_Relation
      else if \<not> distinct (columns_of t) then Inl Duplicate_Column
      else if \<not> targets_exist n t c then Inl Undefined_Table
      else if \<not> own_columns t then Inl Undefined_Column
      else Inr (c\<lparr>ct_tables := ct_tables c @ [(n, t)]\<rparr>))"
| "execute (Drop_Table n) c = drop_table n c"
| "execute (Create_Index n x) c = create_index n x c"
| "execute (Index_If_Absent n x) c = (if has_relation n c then Inr c else create_index n x c)"
| "execute (Drop_Index n) c = (if n \<notin> set (map fst (ct_indexes c)) then Inl Undefined_Object else Inr (without_index n c))"
| "execute (Drop_Index_If_Present n) c = Inr (without_index n c)"
| "execute (Add_Column n k) c = on_table n (add_column k) c"
| "execute (Drop_Column n k) c = drop_column_of n k c"
| "execute (Create_Check k n e) c = on_table n (create_check k e) c"
| "execute (Drop_Constraint k n) c = on_table n (drop_constraint k) c"
| "execute (Add_Value n v) c = alter_type n v c"
| "execute (Extension_If_Absent n) c = Inr (if n \<in> set (ct_extensions c) then c else c\<lparr>ct_extensions := ct_extensions c @ [n]\<rparr>)"
| "execute (Create_Or_Replace_Function n) c =
     Inr (if n \<in> set (ct_functions c) then c else c\<lparr>ct_functions := ct_functions c @ [n]\<rparr>)"
| "execute (Drop_Function_If_Present n) c = Inr (c\<lparr>ct_functions := filter (\<lambda>m. m \<noteq> n) (ct_functions c)\<rparr>)"
| "execute (Create_Trigger n t) c =
     (if \<not> has_table t c then Inl Undefined_Table
      else if (n, t) \<in> set (ct_triggers c) then Inl Duplicate_Object
      else Inr (c\<lparr>ct_triggers := ct_triggers c @ [(n, t)]\<rparr>))"
| "execute (Drop_Trigger_If_Present n t) c =
     (if has_table t c then Inr (c\<lparr>ct_triggers := filter (\<lambda>x. x \<noteq> (n, t)) (ct_triggers c)\<rparr>) else Inr c)"

fun run_ddl :: "ddl list \<Rightarrow> catalog \<Rightarrow> ddl_error + catalog" where
  "run_ddl [] c = Inr c"
| "run_ddl (d # ds) c = (case execute d c of Inl e \<Rightarrow> Inl e | Inr c' \<Rightarrow> run_ddl ds c')"

lemma run_ddl_append: "run_ddl (ds @ es) c = (case run_ddl ds c of Inl e \<Rightarrow> Inl e | Inr c' \<Rightarrow> run_ddl es c')"
  by (induction ds arbitrary: c) (auto split: sum.splits)

lemma run_ddl_appendE:
  assumes "run_ddl (ds @ es) c = Inr c'"
  obtains c1 where "run_ddl ds c = Inr c1" "run_ddl es c1 = Inr c'"
  using assms by (auto simp: run_ddl_append split: sum.splits)

section \<open>Enum types\<close>

text \<open>
  An enum of PostgreSQL is an object beside the tables. \<open>op.create_table\<close> creates the enum types of the
  columns before the table, each name once in a run of alembic: the names seen are the memo of the run. A name that is new to the run
  but not to the database is an error of PostgreSQL. Adding a column creates no type, and no statement drops one:
  \<open>op.drop_table\<close> names the table only.
\<close>

type_synonym enum_types = "(string \<times> string list) list"

fun enum_of :: "sql_type \<Rightarrow> enum_types" where
  "enum_of (T_ENUM m vs) = [(m, vs)]"
| "enum_of _ = []"

definition enums_in :: "table_def \<Rightarrow> enum_types" where
  "enums_in t = concat (map (\<lambda>k. enum_of (cl_type k)) (td_columns t))"

fun create_types :: "enum_types \<Rightarrow> string list \<times> enum_types \<Rightarrow> ddl_error + string list \<times> enum_types" where
  "create_types [] (memo, ty) = Inr (memo, ty)"
| "create_types ((m, vs) # es) (memo, ty) =
     (if m \<in> set memo then create_types es (memo, ty)
      else if m \<in> set (map fst ty) then Inl Duplicate_Object
      else create_types es (m # memo, ty @ [(m, vs)]))"

fun types_step :: "ddl \<Rightarrow> string list \<times> enum_types \<Rightarrow> ddl_error + string list \<times> enum_types" where
  "types_step (Create_Table n t) st = create_types (enums_in t) st"
| "types_step (Add_Column n k) (memo, ty) =
     (if list_all (\<lambda>(m, _). m \<in> set (map fst ty)) (enum_of (cl_type k)) then Inr (memo, ty) else Inl Undefined_Object)"
| "types_step (Add_Value n v) (memo, ty) = (case map_of ty n of
     None \<Rightarrow> Inl Undefined_Object
   | Some vs \<Rightarrow> if v \<in> set vs then Inl Duplicate_Object else Inr (memo, set_key n (vs @ [v]) ty))"
| "types_step _ st = Inr st"

fun run_types :: "ddl list \<Rightarrow> string list \<times> enum_types \<Rightarrow> ddl_error + string list \<times> enum_types" where
  "run_types [] st = Inr st"
| "run_types (d # ds) st = (case types_step d st of Inl e \<Rightarrow> Inl e | Inr st' \<Rightarrow> run_types ds st')"

text \<open>A statement on the database: its tables and its types. (A label is repeated at the columns that have the type, if any.)\<close>

definition execute_db :: "ddl \<Rightarrow> catalog \<times> string list \<times> enum_types \<Rightarrow> ddl_error + catalog \<times> string list \<times> enum_types" where
  "execute_db d = (\<lambda>(c, st). case types_step d st of
     Inl e \<Rightarrow> Inl e
   | Inr st' \<Rightarrow> (case (case d of Add_Value n v \<Rightarrow> if enum_labels n c = [] then Inr c else execute d c | _ \<Rightarrow> execute d c) of
       Inl e \<Rightarrow> Inl e
     | Inr c' \<Rightarrow> Inr (c', st')))"

fun run_statements :: "ddl list \<Rightarrow> catalog \<times> string list \<times> enum_types \<Rightarrow> ddl_error + catalog \<times> string list \<times> enum_types" where
  "run_statements [] st = Inr st"
| "run_statements (d # ds) st = (case execute_db d st of Inl e \<Rightarrow> Inl e | Inr st' \<Rightarrow> run_statements ds st')"

text \<open>One run of alembic: the memo starts empty and is forgotten at the end.\<close>

definition run_db :: "ddl list \<Rightarrow> catalog \<times> enum_types \<Rightarrow> ddl_error + catalog \<times> enum_types" where
  "run_db ds = (\<lambda>(c, ty). case run_statements ds (c, [], ty) of Inl e \<Rightarrow> Inl e | Inr (c', memo, ty') \<Rightarrow> Inr (c', ty'))"

lemma execute_db_parts:
  assumes "execute d c = Inr c'" "types_step d st = Inr st'"
  shows "execute_db d (c, st) = Inr (c', st')"
  using assms by (cases d) (auto simp: execute_db_def alter_type_def)

lemma run_statements_parts:
  "run_ddl ds c = Inr c' \<Longrightarrow> run_types ds st = Inr st' \<Longrightarrow> run_statements ds (c, st) = Inr (c', st')"
  by (induction ds arbitrary: c st) (auto simp: execute_db_parts split: sum.splits)

lemma run_db_parts:
  "run_ddl ds c = Inr c' \<Longrightarrow> run_types ds ([], ty) = Inr (memo, ty') \<Longrightarrow> run_db ds (c, ty) = Inr (c', ty')"
  by (simp add: run_db_def run_statements_parts)

text \<open>Statements that have nothing to do with types, and those that may only create one.\<close>

fun untyped :: "ddl \<Rightarrow> bool" where
  "untyped (Create_Table n t) \<longleftrightarrow> False"
| "untyped (Add_Column n k) \<longleftrightarrow> enum_of (cl_type k) = []"
| "untyped (Add_Value n v) \<longleftrightarrow> False"
| "untyped _ \<longleftrightarrow> True"

fun creates_only :: "ddl \<Rightarrow> bool" where
  "creates_only (Create_Table n t) \<longleftrightarrow> True"
| "creates_only d \<longleftrightarrow> untyped d"

lemma untyped_step: "untyped d \<Longrightarrow> types_step d st = Inr st"
  by (cases d; cases st) auto

lemma untyped_run: "list_all untyped ds \<Longrightarrow> run_types ds st = Inr st"
  by (induction ds) (auto simp: untyped_step)

lemma run_types_append: "run_types (ds @ es) st = (case run_types ds st of Inl e \<Rightarrow> Inl e | Inr st' \<Rightarrow> run_types es st')"
  by (induction ds arbitrary: st) (auto split: sum.splits)

text \<open>What a script creates does not depend on the types that are there, as long as they are other ones.\<close>

lemma create_types_adds:
  "create_types es (memo, ty) = Inr st \<Longrightarrow> \<exists>new. snd st = ty @ new
     \<and> (\<forall>ty2. fst ` set ty2 \<inter> fst ` set new = {} \<longrightarrow> create_types es (memo, ty2) = Inr (fst st, ty2 @ new))"
proof (induction es arbitrary: memo ty)
  case (Cons e es)
  obtain m vs where e: "e = (m, vs)" by (cases e)
  show ?case
  proof (cases "m \<in> set memo")
    case True
    with Cons e show ?thesis by simp
  next
    case False
    with Cons.prems e have m: "m \<notin> fst ` set ty" and run: "create_types es (m # memo, ty @ [(m, vs)]) = Inr st"
      by (auto split: if_splits)
    from Cons.IH [OF run] obtain new where new: "snd st = (ty @ [(m, vs)]) @ new"
      "\<forall>ty2. fst ` set ty2 \<inter> fst ` set new = {} \<longrightarrow> create_types es (m # memo, ty2) = Inr (fst st, ty2 @ new)" by blast
    have fresh: "m \<notin> fst ` set new"
    proof -
      have kept: "create_types es (mm, t) = Inr s \<Longrightarrow> m \<in> set mm \<Longrightarrow> \<exists>nw. snd s = t @ nw \<and> m \<notin> fst ` set nw" for es mm t s
        by (induction es "(mm, t)" arbitrary: mm t rule: create_types.induct) (fastforce split: if_splits)+
      from kept [OF run] new(1) show ?thesis by auto
    qed
    show ?thesis
      using m new False fresh by (intro exI [of _ "(m, vs) # new"]) (auto simp: e)
  qed
qed auto

lemma create_types_append: "create_types (es @ fs) st = (case create_types es st of Inl e \<Rightarrow> Inl e | Inr st' \<Rightarrow> create_types fs st')"
  by (induction es st rule: create_types.induct) auto

fun enums_made :: "ddl \<Rightarrow> enum_types" where
  "enums_made (Create_Table n t) = enums_in t"
| "enums_made _ = []"

lemma run_types_creates: "list_all creates_only ds \<Longrightarrow> run_types ds st = create_types (concat (map enums_made ds)) st"
proof (induction ds arbitrary: st)
  case (Cons d ds)
  have step: "types_step d st = create_types (enums_made d) st"
    using Cons.prems by (cases d; cases st) auto
  show ?case using Cons by (auto simp: step create_types_append split: sum.splits)
qed auto

text \<open>A script that succeeds on the tables and on the types has succeeded on the tables.\<close>

lemma creates_tables:
  "run_statements ds (c, st) = Inr (c', st') \<Longrightarrow> list_all creates_only ds \<Longrightarrow> run_ddl ds c = Inr c' \<and> run_types ds st = Inr st'"
proof (induction ds arbitrary: c st)
  case (Cons d ds)
  then obtain c1 st1 where d: "execute_db d (c, st) = Inr (c1, st1)" and ds: "run_statements ds (c1, st1) = Inr (c', st')"
    by (auto split: sum.splits)
  have "execute d c = Inr c1 \<and> types_step d st = Inr st1"
    using d Cons.prems(2) by (cases d) (auto simp: execute_db_def simp del: execute.simps split: sum.splits)
  with Cons.IH [OF ds] Cons.prems(2) show ?case by simp
qed simp

text \<open>No statement drops a type.\<close>

lemma create_types_keeps: "create_types es (memo, ty) = Inr (memo', ty') \<Longrightarrow> fst ` set ty \<subseteq> fst ` set ty'"
  by (induction es "(memo, ty)" arbitrary: memo ty rule: create_types.induct) (auto split: if_splits)

lemma types_step_keeps: "types_step d st = Inr st' \<Longrightarrow> fst ` set (snd st) \<subseteq> fst ` set (snd st')"
proof (induction d st rule: types_step.induct)
  case (1 n t st)
  then show ?case using create_types_keeps by (cases st; cases st') auto
next
  case (3 n v memo ty)
  have "fst ` set (set_key m u xs) = fst ` set xs" for m u and xs :: enum_types
    by (metis list.set_map set_key_simps(1))
  moreover obtain vs where "st' = (memo, set_key n (vs @ [v]) ty)" using 3 by (auto split: option.splits if_splits)
  ultimately show ?case by (simp only: snd_conv order_refl)
qed (auto split: if_splits)

lemma run_statements_keeps_types: "run_statements ds st = Inr st' \<Longrightarrow> fst ` set (snd (snd st)) \<subseteq> fst ` set (snd (snd st'))"
proof (induction ds arbitrary: st)
  case (Cons d ds)
  obtain c t where st: "st = (c, t)" by (cases st)
  obtain c1 t1 where "types_step d t = Inr t1" "run_statements ds (c1, t1) = Inr st'"
    using Cons.prems by (auto simp: st execute_db_def split: sum.splits)
  with types_step_keeps [of d t t1] Cons.IH [of "(c1, t1)"] show ?case by (auto simp: st)
qed simp

lemma run_db_iff: "run_db ds (c, ty) = Inr (c', ty') \<longleftrightarrow> (\<exists>memo. run_statements ds (c, [], ty) = Inr (c', memo, ty'))"
  by (auto simp: run_db_def split: sum.splits)

lemma run_db_keeps_types: "run_db ds (c, ty) = Inr (c', ty') \<Longrightarrow> fst ` set ty \<subseteq> fst ` set ty'"
  using run_statements_keeps_types [of ds "(c, [], ty)"] by (fastforce simp only: run_db_iff snd_conv)

section \<open>Sound catalogs\<close>

text \<open>
  Names are unique, every foreign key, index and trigger has its table, and no two columns of a table share a name.
\<close>

definition catalog_ok :: "catalog \<Rightarrow> bool" where
  "catalog_ok c \<longleftrightarrow> distinct (map fst (ct_tables c) @ map fst (ct_indexes c))
     \<and> (\<forall>(n, t)\<in>set (ct_tables c). distinct (columns_of t) \<and> targets_exist n t c)
     \<and> (\<forall>(n, x)\<in>set (ct_indexes c). has_table (ix_table x) c)
     \<and> (\<forall>(n, t)\<in>set (ct_triggers c). has_table t c)"

lemma run_ddl_keeps:
  assumes "\<And>d c c'. execute d c = Inr c' \<Longrightarrow> P c \<Longrightarrow> P c'"
  shows "run_ddl ds c = Inr c' \<Longrightarrow> P c \<Longrightarrow> P c'"
  by (induction ds arbitrary: c) (auto intro: assms split: sum.splits)

lemma targets_exist_iff: "targets_exist n t c \<longleftrightarrow> (\<forall>m\<in>set (fk_targets t). m = n \<or> has_table m c)"
  by (simp add: targets_exist_def list_all_iff)

lemma has_table_iff: "has_table n c \<longleftrightarrow> (\<exists>t. (n, t) \<in> set (ct_tables c))"
  by (force simp: has_table_def)

lemma catalog_okD:
  assumes "catalog_ok c"
  shows "distinct (map fst (ct_tables c))" "distinct (map fst (ct_indexes c))"
    "set (map fst (ct_tables c)) \<inter> set (map fst (ct_indexes c)) = {}"
    "(n, t) \<in> set (ct_tables c) \<Longrightarrow> distinct (columns_of t)" "(n, t) \<in> set (ct_tables c) \<Longrightarrow> targets_exist n t c"
    "(n, x) \<in> set (ct_indexes c) \<Longrightarrow> has_table (ix_table x) c" "(g, n) \<in> set (ct_triggers c) \<Longrightarrow> has_table n c"
  using assms unfolding catalog_ok_def by auto

lemma empty_catalog_ok: "catalog_ok empty_catalog"
  by (simp add: catalog_ok_def empty_catalog_def)

text \<open>Statements that leave the tables and only take indexes away or add a fresh one.\<close>

lemma fk_targets_columns [simp]: "fk_targets (t\<lparr>td_columns := cs\<rparr>) = fk_targets t"
  by (simp add: fk_targets_def)

lemma fk_targets_check [simp]: "fk_targets (t\<lparr>td_constraints := td_constraints t @ [Check_Constraint n e]\<rparr>) = fk_targets t"
  by (simp add: fk_targets_def)

lemma fk_targets_filterD:
  "m \<in> set (fk_targets (t\<lparr>td_constraints := filter P (td_constraints t)\<rparr>)) \<Longrightarrow> m \<in> set (fk_targets t)"
  by (auto simp: fk_targets_def)

lemma same_tables: "ct_tables c' = ct_tables c \<Longrightarrow> has_table n c' = has_table n c \<and> targets_exist n t c' = targets_exist n t c"
  by (simp add: has_table_def targets_exist_iff)

lemma fewer_indexes_ok: "catalog_ok c \<Longrightarrow> catalog_ok (c\<lparr>ct_indexes := filter P (ct_indexes c)\<rparr>)"
  using same_tables [of "c\<lparr>ct_indexes := filter P (ct_indexes c)\<rparr>" c]
  by (auto simp: catalog_ok_def distinct_map_filter)

lemma triggers_ok: "catalog_ok c \<Longrightarrow> (\<And>g t. (g, t) \<in> set ts \<Longrightarrow> has_table t c) \<Longrightarrow> catalog_ok (c\<lparr>ct_triggers := ts\<rparr>)"
  using same_tables [of "c\<lparr>ct_triggers := ts\<rparr>" c] by (auto simp: catalog_ok_def)

lemma other_parts_ok: "catalog_ok c \<Longrightarrow> catalog_ok (c\<lparr>ct_functions := fs\<rparr>)" "catalog_ok c \<Longrightarrow> catalog_ok (c\<lparr>ct_extensions := fs\<rparr>)"
  by (simp_all add: catalog_ok_def same_tables [of "c\<lparr>ct_functions := fs\<rparr>" c] same_tables [of "c\<lparr>ct_extensions := fs\<rparr>" c])

lemma create_index_ok:
  assumes "create_index n x c = Inr c'" "catalog_ok c"
  shows "catalog_ok c'"
proof -
  have "n \<notin> set (map fst (ct_tables c))" "n \<notin> set (map fst (ct_indexes c))" "has_table (ix_table x) c"
    and c': "c' = c\<lparr>ct_indexes := ct_indexes c @ [(n, x)]\<rparr>"
    using assms(1) by (auto simp: create_index_def has_relation_def has_table_def split: if_splits)
  with assms(2) same_tables [of c' c] show ?thesis by (auto simp: catalog_ok_def)
qed

text \<open>A change of one table.\<close>

lemma on_table_ok:
  assumes ok: "catalog_ok c" and run: "on_table n f c = Inr c'"
    and f: "\<And>t t'. f t = Inr t' \<Longrightarrow> distinct (columns_of t) \<Longrightarrow> distinct (columns_of t')"
    and fks: "\<And>t t'. f t = Inr t' \<Longrightarrow> set (fk_targets t') \<subseteq> set (fk_targets t)"
  shows "catalog_ok c'"
proof -
  obtain t t' where t: "map_of (ct_tables c) n = Some t" "f t = Inr t'"
    and c': "c' = c\<lparr>ct_tables := set_key n t' (ct_tables c)\<rparr>"
    using run by (auto simp: on_table_def split: option.splits sum.splits)
  have mem: "(n, t) \<in> set (ct_tables c)" using t(1) by (rule map_of_SomeD)
  have names: "map fst (ct_tables c') = map fst (ct_tables c)" by (auto simp: c')
  then have tables: "has_table m c' = has_table m c" for m by (simp add: has_table_def)
  have "distinct (columns_of u) \<and> targets_exist m u c'" if "(m, u) \<in> set (ct_tables c')" for m u
  proof (cases "m = n")
    case True
    with that have "u = t'" by (auto simp: c' dest: in_set_key)
    with True show ?thesis
      using f [OF t(2)] fks [OF t(2)] catalog_okD(4,5) [OF ok mem] by (auto simp: targets_exist_iff tables)
  next
    case False
    with that have "(m, u) \<in> set (ct_tables c)" by (auto simp: c' dest: in_set_key)
    then show ?thesis using catalog_okD(4,5) [OF ok] by (auto simp: targets_exist_iff tables)
  qed
  moreover have "ct_indexes c' = ct_indexes c" "ct_triggers c' = ct_triggers c" by (simp_all add: c')
  ultimately show ?thesis using ok names tables unfolding catalog_ok_def by auto
qed

lemma drop_column_ok: "on_table n (drop_column k) c = Inr c' \<Longrightarrow> catalog_ok c \<Longrightarrow> catalog_ok c'"
  by (erule on_table_ok [rotated])
     (auto simp: drop_column_def columns_of_def fk_targets_def distinct_map_filter split: if_splits)

lemma alter_type_ok:
  assumes ok: "catalog_ok c" and run: "alter_type n v c = Inr c'"
  shows "catalog_ok c'"
proof -
  define g :: "table_def \<Rightarrow> table_def" where "g = (\<lambda>t. t\<lparr>td_columns := map (\<lambda>k. k\<lparr>cl_type := add_value n v (cl_type k)\<rparr>) (td_columns t)\<rparr>)"
  have c': "c' = c\<lparr>ct_tables := map (apsnd g) (ct_tables c)\<rparr>"
    using run by (auto simp: alter_type_def g_def split: list.splits if_splits)
  have g: "columns_of (g t) = columns_of t" "fk_targets (g t) = fk_targets t" for t
    by (auto simp: g_def columns_of_def fk_targets_def)
  have names: "map fst (ct_tables c') = map fst (ct_tables c)" by (auto simp: c')
  then have tables: "has_table m c' = has_table m c" for m by (simp add: has_table_def)
  have "distinct (columns_of u) \<and> targets_exist m u c'" if "(m, u) \<in> set (ct_tables c')" for m u
    using that catalog_okD(4,5) [OF ok] by (fastforce simp: c' g targets_exist_iff tables [unfolded c'])
  moreover have "ct_indexes c' = ct_indexes c" "ct_triggers c' = ct_triggers c" by (simp_all add: c')
  ultimately show ?thesis using ok names tables unfolding catalog_ok_def by auto
qed

lemma drop_table_ok:
  assumes ok: "catalog_ok c" and run: "drop_table n c = Inr c'"
  shows "catalog_ok c'"
proof -
  have free: "\<And>m t. (m, t) \<in> set (ct_tables c) \<Longrightarrow> m \<noteq> n \<Longrightarrow> n \<notin> set (fk_targets t)"
    and c': "c' = c\<lparr>ct_tables := filter (\<lambda>(m, _). m \<noteq> n) (ct_tables c),
      ct_indexes := filter (\<lambda>(_, x). ix_table x \<noteq> n) (ct_indexes c), ct_triggers := filter (\<lambda>(_, t). t \<noteq> n) (ct_triggers c)\<rparr>"
    using run by (auto simp: drop_table_def list_ex_iff split: if_splits)
  have tables: "has_table m c' \<longleftrightarrow> has_table m c \<and> m \<noteq> n" for m by (auto simp: c' has_table_iff)
  have "targets_exist m t c'" if mt: "(m, t) \<in> set (ct_tables c)" "m \<noteq> n" for m t
    using catalog_okD(5) [OF ok mt(1)] free [OF mt] mt(2) by (fastforce simp: targets_exist_iff tables)
  then show ?thesis
    using ok tables unfolding catalog_ok_def by (auto simp: c' distinct_map_filter)
qed

lemma create_table_ok:
  assumes ok: "catalog_ok c" and fresh: "\<not> has_relation n c" and t: "distinct (columns_of t)" "targets_exist n t c"
  shows "catalog_ok (c\<lparr>ct_tables := ct_tables c @ [(n, t)]\<rparr>)"
proof -
  let ?c = "c\<lparr>ct_tables := ct_tables c @ [(n, t)]\<rparr>"
  have tables: "has_table m ?c \<longleftrightarrow> has_table m c \<or> m = n" for m by (auto simp: has_table_def)
  have "targets_exist m u ?c" if "targets_exist m u c" for m u using that by (auto simp: targets_exist_iff tables)
  then show ?thesis
    using ok fresh t tables unfolding catalog_ok_def by (fastforce simp: has_relation_def has_table_def)
qed

text \<open>What no statement breaks.\<close>

lemma execute_ok: "execute d c = Inr c' \<Longrightarrow> catalog_ok c \<Longrightarrow> catalog_ok c'"
proof (induction d c rule: execute.induct)
  case (8 n k c)
  then obtain c1 where "on_table n (drop_column k) c = Inr c1"
      "c' = c1\<lparr>ct_indexes := filter (\<lambda>(_, x). \<not> (ix_table x = n \<and> k \<in> set (ix_on x))) (ct_indexes c1)\<rparr>"
    by (auto simp: drop_column_of_def map_sum_def split: if_splits sum.splits)
  then show ?case using drop_column_ok fewer_indexes_ok 8(2) by blast
next
  case (7 n k c)
  then show ?case
    by (auto simp: add_column_def columns_of_def split: if_splits elim!: on_table_ok [rotated])
next
  case (9 k n e c)
  then show ?case by (auto simp: create_check_def columns_of_def split: if_splits elim!: on_table_ok [rotated])
next
  case (10 k n c)
  then show ?case by (auto simp: drop_constraint_def columns_of_def split: if_splits dest: fk_targets_filterD elim!: on_table_ok [rotated])
next
  case (15 n t c)
  then show ?case by (auto split: if_splits intro!: triggers_ok dest: catalog_okD(7))
next
  case (16 n t c)
  then show ?case by (auto split: if_splits intro!: triggers_ok dest: catalog_okD(7))
next
  case (1 n t c)
  then show ?case by (auto split: if_splits intro: create_table_ok)
next
  case (4 n x c)
  then show ?case by (auto split: if_splits intro: create_index_ok)
next
  case (5 n c)
  then show ?case by (auto simp: without_index_def split: if_splits intro: fewer_indexes_ok)
next
  case (6 n c)
  then show ?case by (auto simp: without_index_def intro: fewer_indexes_ok)
next
  case (12 n c)
  then show ?case by (auto simp: other_parts_ok split: if_splits)
next
  case (13 n c)
  then show ?case by (auto simp: other_parts_ok split: if_splits)
next
  case (14 n c)
  then show ?case by (auto simp: other_parts_ok)
next
  case (2 n c)
  then show ?case by (simp only: execute.simps) (rule drop_table_ok)
next
  case (3 n x c)
  then show ?case by (simp only: execute.simps) (rule create_index_ok)
next
  case (11 n v c)
  then show ?case by (simp only: execute.simps) (rule alter_type_ok)
qed

lemma run_ddl_ok: "run_ddl ds c = Inr c' \<Longrightarrow> catalog_ok c \<Longrightarrow> catalog_ok c'"
  by (rule run_ddl_keeps [where P = catalog_ok]) (rule execute_ok)

section \<open>Undoing\<close>

text \<open>What takes a creation back, and a script that takes back another one.\<close>

fun undo :: "ddl \<Rightarrow> ddl option" where
  "undo (Create_Table n t) = Some (Drop_Table n)"
| "undo (Create_Index n x) = Some (Drop_Index n)"
| "undo _ = None"

definition undoes :: "ddl list \<Rightarrow> ddl list \<Rightarrow> bool" where
  "undoes down up \<longleftrightarrow> map Some down = rev (map undo up)"

lemma filter_fresh: "n \<notin> fst ` set xs \<Longrightarrow> filter (\<lambda>(m, _). m \<noteq> n) xs = xs"
  by (induction xs) auto

text \<open>In a sound catalog nothing refers to a table that has just come into being.\<close>

lemma undo_execute:
  assumes ok: "catalog_ok c" and run: "execute d c = Inr c'" and u: "undo d = Some u"
  shows "execute u c' = Inr c"
  using run u
proof (induction d rule: undo.induct)
  case (1 n t)
  then have fresh: "\<not> has_relation n c" and c': "c' = c\<lparr>ct_tables := ct_tables c @ [(n, t)]\<rparr>" by (auto split: if_splits)
  then have none: "n \<notin> fst ` set (ct_tables c)" by (auto simp: has_relation_def has_table_def)
  have unreferenced: "n \<notin> set (fk_targets u)" if "(m, u) \<in> set (ct_tables c)" for m u
    using catalog_okD(5) [OF ok that] none that by (force simp: targets_exist_iff has_table_def)
  have "filter (\<lambda>(_, x). ix_table x \<noteq> n) (ct_indexes c) = ct_indexes c"
    using catalog_okD(6) [OF ok] none by (intro filter_True) (auto simp: has_table_def)
  moreover have "filter (\<lambda>(_, t). t \<noteq> n) (ct_triggers c) = ct_triggers c"
    using catalog_okD(7) [OF ok] none by (intro filter_True) (auto simp: has_table_def)
  moreover have "has_table n c'" by (simp add: c' has_table_def)
  ultimately show ?case
    using 1(2) unreferenced by (auto simp: drop_table_def c' list_ex_iff filter_fresh none)
next
  case (2 n x)
  then have "n \<notin> fst ` set (ct_indexes c)" and c': "c' = c\<lparr>ct_indexes := ct_indexes c @ [(n, x)]\<rparr>"
    by (auto simp: create_index_def has_relation_def split: if_splits)
  then show ?case using 2(2) by (auto simp: without_index_def filter_fresh)
qed simp_all

lemma undo_run:
  assumes "run_ddl up c = Inr c'" "catalog_ok c" "undoes down up"
  shows "run_ddl down c' = Inr c"
  using assms
proof (induction up arbitrary: c down)
  case Nil
  then show ?case by (simp add: undoes_def)
next
  case (Cons d up)
  then obtain c1 where c1: "execute d c = Inr c1" "run_ddl up c1 = Inr c'" by (auto split: sum.splits)
  from Cons.prems(3) obtain down' u where down: "down = down' @ [u]" "undoes down' up" "undo d = Some u"
    by (auto simp: undoes_def map_eq_append_conv)
  have "run_ddl down' c' = Inr c1" using Cons.IH [OF c1(2) _ down(2)] execute_ok c1(1) Cons.prems(2) by blast
  then show ?case using undo_execute [OF Cons.prems(2) c1(1) down(3)] by (simp add: down run_ddl_append)
qed

section \<open>Scripts of creations\<close>

text \<open>
  A script that only creates adds its tables and indexes at the end, when the names are new and distinct and
  every table comes after those it refers to. The check looks at names only.
\<close>

fun new_tables :: "ddl list \<Rightarrow> (string \<times> table_def) list" where
  "new_tables [] = []"
| "new_tables (Create_Table n t # ds) = (n, t) # new_tables ds"
| "new_tables (_ # ds) = new_tables ds"

fun new_indexes :: "ddl list \<Rightarrow> (string \<times> index_def) list" where
  "new_indexes [] = []"
| "new_indexes (Create_Index n x # ds) = (n, x) # new_indexes ds"
| "new_indexes (Index_If_Absent n x # ds) = (n, x) # new_indexes ds"
| "new_indexes (_ # ds) = new_indexes ds"

fun creatable :: "string list \<Rightarrow> string list \<Rightarrow> ddl list \<Rightarrow> bool" where
  "creatable ts xs [] \<longleftrightarrow> True"
| "creatable ts xs (Create_Table n t # ds) \<longleftrightarrow> n \<notin> set ts \<and> n \<notin> set xs \<and> distinct (columns_of t)
     \<and> set (fk_targets t) \<subseteq> insert n (set ts) \<and> own_columns t \<and> creatable (n # ts) xs ds"
| "creatable ts xs (Create_Index n x # ds) \<longleftrightarrow> n \<notin> set ts \<and> n \<notin> set xs \<and> ix_table x \<in> set ts \<and> creatable ts (n # xs) ds"
| "creatable ts xs (Index_If_Absent n x # ds) \<longleftrightarrow> n \<notin> set ts \<and> n \<notin> set xs \<and> ix_table x \<in> set ts \<and> creatable ts (n # xs) ds"
| "creatable ts xs (_ # ds) \<longleftrightarrow> False"

lemma creatable_run:
  assumes "creatable ts xs ds" "set ts = set (map fst (ct_tables c))" "set xs = set (map fst (ct_indexes c))"
  shows "run_ddl ds c = Inr (c\<lparr>ct_tables := ct_tables c @ new_tables ds, ct_indexes := ct_indexes c @ new_indexes ds\<rparr>)"
  using assms
proof (induction ts xs ds arbitrary: c rule: creatable.induct)
  case (2 ts xs n t ds)
  let ?c = "c\<lparr>ct_tables := ct_tables c @ [(n, t)]\<rparr>"
  have "execute (Create_Table n t) c = Inr ?c"
    using 2(2-4) by (auto simp: has_relation_def has_table_def targets_exist_iff)
  moreover have "run_ddl ds ?c = Inr (?c\<lparr>ct_tables := ct_tables ?c @ new_tables ds, ct_indexes := ct_indexes ?c @ new_indexes ds\<rparr>)"
    using 2(2-4) by (intro 2(1)) auto
  ultimately show ?case by simp
next
  case (3 ts xs n x ds)
  let ?c = "c\<lparr>ct_indexes := ct_indexes c @ [(n, x)]\<rparr>"
  have "execute (Create_Index n x) c = Inr ?c"
    using 3(2-4) by (auto simp: create_index_def has_relation_def has_table_def)
  moreover have "run_ddl ds ?c = Inr (?c\<lparr>ct_tables := ct_tables ?c @ new_tables ds, ct_indexes := ct_indexes ?c @ new_indexes ds\<rparr>)"
    using 3(2-4) by (intro 3(1)) auto
  ultimately show ?case by simp
next
  case (4 ts xs n x ds)
  let ?c = "c\<lparr>ct_indexes := ct_indexes c @ [(n, x)]\<rparr>"
  have "execute (Index_If_Absent n x) c = Inr ?c"
    using 4(2-4) by (auto simp: create_index_def has_relation_def has_table_def)
  moreover have "run_ddl ds ?c = Inr (?c\<lparr>ct_tables := ct_tables ?c @ new_tables ds, ct_indexes := ct_indexes ?c @ new_indexes ds\<rparr>)"
    using 4(2-4) by (intro 4(1)) auto
  ultimately show ?case by simp
qed simp_all

section \<open>Scripts over one table\<close>

text \<open>Statements that change one table, as changes of its definition.\<close>

fun local_change :: "ddl \<Rightarrow> (string \<times> (table_def \<Rightarrow> ddl_error + table_def)) option" where
  "local_change (Add_Column n k) = Some (n, add_column k)"
| "local_change (Drop_Column n k) = Some (n, drop_column k)"
| "local_change (Create_Check k n e) = Some (n, create_check k e)"
| "local_change (Drop_Constraint k n) = Some (n, drop_constraint k)"
| "local_change _ = None"

fun run_local :: "string \<Rightarrow> ddl list \<Rightarrow> table_def \<Rightarrow> ddl_error + table_def" where
  "run_local n [] t = Inr t"
| "run_local n (d # ds) t = (case local_change d of
     None \<Rightarrow> Inl Undefined_Object
   | Some (m, f) \<Rightarrow> if m \<noteq> n then Inl Undefined_Table
       else (case f t of Inl e \<Rightarrow> Inl e | Inr t' \<Rightarrow> run_local n ds t'))"

definition set_table :: "string \<Rightarrow> table_def \<Rightarrow> catalog \<Rightarrow> catalog" where
  "set_table n t c = c\<lparr>ct_tables := set_key n t (ct_tables c)\<rparr>"

text \<open>No other table refers to the column and no index is over it.\<close>

definition column_free :: "string \<Rightarrow> catalog \<Rightarrow> string \<Rightarrow> bool" where
  "column_free n c k \<longleftrightarrow> \<not> list_ex (\<lambda>(m, t). m \<noteq> n \<and> list_ex (references_column n k) (td_constraints t)) (ct_tables c)
     \<and> \<not> list_ex (\<lambda>(_, x). ix_table x = n \<and> k \<in> set (ix_on x)) (ct_indexes c)"

definition dropped_columns :: "ddl list \<Rightarrow> string list" where
  "dropped_columns ds = concat (map (\<lambda>d. case d of Drop_Column n k \<Rightarrow> [k] | _ \<Rightarrow> []) ds)"

lemma map_of_set_table [simp]:
  "map_of (ct_tables (set_table n t c)) m = map_option (\<lambda>u. if m = n then t else u) (map_of (ct_tables c) m)"
  by (simp add: set_table_def)

lemma set_table_twice: "set_table n t (set_table n u c) = set_table n t c"
  by (simp add: set_table_def)

lemma set_table_same: "catalog_ok c \<Longrightarrow> map_of (ct_tables c) n = Some t \<Longrightarrow> set_table n t c = c"
  by (simp add: set_table_def set_key_same catalog_okD(1))

lemma column_free_set_table: "column_free n (set_table n t c) k = column_free n c k"
  by (auto simp: column_free_def set_table_def set_key_def list_ex_iff split: prod.splits if_splits)

lemma on_table_set: "map_of (ct_tables c) n = Some t \<Longrightarrow> f t = Inr t' \<Longrightarrow> on_table n f c = Inr (set_table n t' c)"
  by (simp add: on_table_def set_table_def)

lemma drop_column_free:
  assumes "column_free n c k" "map_of (ct_tables c) n = Some t" "drop_column k t = Inr t'"
  shows "execute (Drop_Column n k) c = Inr (set_table n t' c)"
proof -
  have "filter (\<lambda>(_, x). \<not> (ix_table x = n \<and> k \<in> set (ix_on x))) (ct_indexes c) = ct_indexes c"
    using assms(1) by (intro filter_True) (auto simp: column_free_def list_ex_iff)
  then show ?thesis
    using assms by (simp add: drop_column_of_def on_table_set column_free_def set_table_def)
qed

lemma local_step:
  assumes "local_change d = Some (n, f)" "map_of (ct_tables c) n = Some t" "f t = Inr t'"
    and "\<And>k. d = Drop_Column n k \<Longrightarrow> column_free n c k"
  shows "execute d c = Inr (set_table n t' c)"
  using assms(1)
proof (cases rule: local_change.cases [of d])
  case (2 m k)
  with assms show ?thesis using drop_column_free by simp
qed (use assms on_table_set in auto)

lemma local_run:
  assumes "map_of (ct_tables c) n = Some t" "run_local n ds t = Inr t'" "list_all (column_free n c) (dropped_columns ds)"
    "catalog_ok c"
  shows "run_ddl ds c = Inr (set_table n t' c)"
  using assms
proof (induction ds arbitrary: c t)
  case Nil
  then show ?case by (simp add: set_table_same)
next
  case (Cons d ds)
  obtain f t1 where d: "local_change d = Some (n, f)" "f t = Inr t1" "run_local n ds t1 = Inr t'"
    using Cons.prems(2) by (auto split: option.splits prod.splits if_splits sum.splits)
  have free: "column_free n c k" if "d = Drop_Column n k" for k using Cons.prems(3) that by (simp add: dropped_columns_def)
  have step: "execute d c = Inr (set_table n t1 c)" using local_step [OF d(1) Cons.prems(1) d(2)] free by blast
  have "run_ddl ds (set_table n t1 c) = Inr (set_table n t' (set_table n t1 c))"
  proof (rule Cons.IH [OF _ d(3)])
    show "map_of (ct_tables (set_table n t1 c)) n = Some t1" using Cons.prems(1) by simp
    show "list_all (column_free n (set_table n t1 c)) (dropped_columns ds)"
      using Cons.prems(3) by (auto simp: column_free_set_table dropped_columns_def list_all_iff)
    show "catalog_ok (set_table n t1 c)" using execute_ok [OF step Cons.prems(4)] .
  qed
  with step show ?case by (simp add: set_table_twice)
qed

end
