(* ===== verification/Migrations.thy ===== *)
theory Migrations
  imports Ddl
begin

text \<open>
  The scripts of \<open>alembic/versions\<close> as lists of statements, table by table, and the chain that their
  \<open>down_revision\<close>s form. The statements that work on rows are in \<open>DataMigrations\<close>.
\<close>

definition base_columns :: "column list" where
  "base_columns =
     [col ''id'' T_UUID,
      col_default ''is_active'' T_BOOLEAN ''true'',
      col_default ''created_at'' T_TIMESTAMPTZ ''now()'',
      col_default ''updated_at'' T_TIMESTAMPTZ ''now()'']"

section \<open>\<open>109a87243062_init\<close>\<close>

definition create_products :: "ddl list" where
  "create_products =
     [Create_Table ''products''
        \<lparr>td_columns = [col_null ''returnable_item_id'' T_UUID,
          col ''type'' (T_ENUM ''product_type_enum'' [''water'', ''container'', ''equipment'']), col ''name'' (T_STRING 255),
          col ''price'' T_BIGINT, col_default ''attributes'' T_JSONB ''[]''] @ base_columns,
         td_constraints = [Check_Constraint (Some ''ck_product_attributes_is_array'') (''jsonb_typeof(attributes) = 'array'' @ [CHR 0x27]),
          Check_Constraint (Some ''ck_product_price_pos'') ''price >= 0'',
          fk ''returnable_item_id'' ''products'' ''RESTRICT'', Primary_Key [''id'']]\<rparr>,
      Create_Index ''idx_product_attributes_gin'' \<lparr>ix_table = ''products'', ix_on = [''attributes''], ix_unique = False,
         ix_using = (Some ''gin''), ix_where = None\<rparr>,
      Create_Index ''ix_products_returnable_item_id'' (plain_index ''products'' [''returnable_item_id'']),
      Create_Index ''ix_products_type'' (plain_index ''products'' [''type''])]"

definition create_users :: "ddl list" where
  "create_users =
     [Create_Table ''users''
        \<lparr>td_columns = [col ''username'' (T_STRING 255),
          col ''role'' (T_ENUM ''user_role_enum'' [''system'', ''admin'', ''accountant'', ''storekeeper'', ''cashier'', ''courier'', ''client_b2c'', ''client_b2b''])] @ base_columns,
         td_constraints = [Primary_Key [''id'']]\<rparr>,
      Create_Index ''ix_users_role'' (plain_index ''users'' [''role''])]"

definition create_accounts :: "ddl list" where
  "create_accounts =
     [Create_Table ''accounts''
        \<lparr>td_columns = [col ''user_id'' T_UUID,
          col ''type'' (T_ENUM ''account_type_enum'' [''revenue'', ''cash'', ''card'', ''bank'', ''discount'', ''client'', ''courier'']),
          col ''name'' (T_STRING 255), col_default ''balance'' T_BIGINT ''0''] @ base_columns,
         td_constraints = [fk ''user_id'' ''users'' ''RESTRICT'', Primary_Key [''id'']]\<rparr>,
      Create_Index ''idx_account_user_type'' (plain_index ''accounts'' [''user_id'', ''type'']),
      Create_Index ''ix_accounts_type'' (plain_index ''accounts'' [''type''])]"

definition create_contracts :: "ddl list" where
  "create_contracts =
     [Create_Table ''contracts''
        \<lparr>td_columns = [col ''number'' (T_STRING 50), col ''client_id'' T_UUID,
          col ''status'' (T_ENUM ''contract_status_enum'' [''draft'', ''active'', ''suspended'', ''terminated'', ''expired'']),
          col ''start_date'' T_DATE, col_null ''end_date'' T_DATE, col ''credit_limit'' T_BIGINT,
          col ''credit_used'' T_BIGINT, col ''payment_due_days'' T_INTEGER, col ''legal_name'' (T_STRING 255),
          col ''inn'' (T_STRING 14), col_null ''notes'' T_TEXT, col_null ''signed_at'' T_TIMESTAMPTZ,
          col_null ''signed_by_id'' T_UUID, col_null ''suspended_at'' T_TIMESTAMPTZ,
          col_null ''suspension_reason'' (T_STRING 512), col_null ''terminated_at'' T_TIMESTAMPTZ,
          col_null ''termination_reason'' (T_STRING 512)] @ base_columns,
         td_constraints = [Check_Constraint (Some ''ck_contract_credit_limit_non_neg'') ''credit_limit >= 0'',
          Check_Constraint (Some ''ck_contract_credit_used_le_limit'') ''credit_used <= credit_limit OR credit_limit = 0'',
          Check_Constraint (Some ''ck_contract_credit_used_non_neg'') ''credit_used >= 0'',
          Check_Constraint (Some ''ck_contract_dates_order'') ''end_date IS NULL OR end_date > start_date'',
          Check_Constraint (Some ''ck_contract_payment_due_days_pos'') ''payment_due_days > 0'',
          fk ''client_id'' ''users'' ''RESTRICT'', fk ''signed_by_id'' ''users'' ''RESTRICT'', Primary_Key [''id''],
          Unique_Key None [''number'']]\<rparr>,
      Create_Index ''idx_contract_client_status'' (plain_index ''contracts'' [''client_id'', ''status'']),
      Create_Index ''ix_contracts_client_id'' (plain_index ''contracts'' [''client_id'']),
      Create_Index ''ix_contracts_status'' (plain_index ''contracts'' [''status'']),
      Create_Index ''uq_one_active_contract_per_client'' \<lparr>ix_table = ''contracts'', ix_on = [''client_id''], ix_unique = True,
         ix_using = None, ix_where = (Some ''status = 'active' AND is_active = true'')\<rparr>]"

definition create_identities :: "ddl list" where
  "create_identities =
     [Create_Table ''identities''
        \<lparr>td_columns = [col ''user_id'' T_UUID,
          col ''provider'' (T_ENUM ''auth_provider_enum'' [''local'', ''google'', ''telegram'', ''apple'']),
          col ''provider_identity_id'' (T_STRING 255), col_null ''password_hash'' (T_STRING 255)] @ base_columns,
         td_constraints = [fk ''user_id'' ''users'' ''CASCADE'', Primary_Key [''id''],
          Unique_Key (Some ''uq_identities_provider_identity_id'') [''provider'', ''provider_identity_id'']]\<rparr>,
      Create_Index ''ix_identities_user_id'' (plain_index ''identities'' [''user_id''])]"

definition create_inventories :: "ddl list" where
  "create_inventories =
     [Create_Table ''inventories''
        \<lparr>td_columns = [col ''user_id'' T_UUID,
          col ''type'' (T_ENUM ''inventory_type_enum'' [''WAREHOUSE'', ''COURIER'', ''CLIENT'', ''VIRTUAL_LOSS'', ''VIRTUAL_VENDOR'']),
          col ''name'' (T_STRING 255)] @ base_columns,
         td_constraints = [fk ''user_id'' ''users'' ''RESTRICT'', Primary_Key [''id'']]\<rparr>,
      Create_Index ''idx_inventory_user_type'' (plain_index ''inventories'' [''user_id'', ''type'']),
      Create_Index ''ix_inventories_type'' (plain_index ''inventories'' [''type'']),
      Create_Index ''uq_active_courier_inventory'' \<lparr>ix_table = ''inventories'', ix_on = [''user_id''], ix_unique = True,
         ix_using = None, ix_where = (Some ''type = 'COURIER' AND is_active = true'')\<rparr>]"

definition create_phone_numbers :: "ddl list" where
  "create_phone_numbers =
     [Create_Table ''phone_numbers''
        \<lparr>td_columns = [col ''user_id'' T_UUID, col ''phone'' (T_STRING 20), col_null ''label'' (T_STRING 50)] @ base_columns,
         td_constraints = [fk ''user_id'' ''users'' ''CASCADE'', Primary_Key [''id''], Unique_Key None [''phone'']]\<rparr>,
      Create_Index ''ix_phone_numbers_user_id'' (plain_index ''phone_numbers'' [''user_id''])]"

definition create_contract_amendments :: "ddl list" where
  "create_contract_amendments =
     [Create_Table ''contract_amendments''
        \<lparr>td_columns = [col ''contract_id'' T_UUID, col ''number'' (T_STRING 50), col ''description'' T_TEXT,
          col ''effective_date'' T_DATE, col_null ''created_by_id'' T_UUID] @ base_columns,
         td_constraints = [fk ''contract_id'' ''contracts'' ''RESTRICT'', fk ''created_by_id'' ''users'' ''SET NULL'', Primary_Key [''id''],
          Unique_Key (Some ''uq_contract_amendment_number'') [''contract_id'', ''number'']]\<rparr>,
      Create_Index ''ix_contract_amendments_contract_id'' (plain_index ''contract_amendments'' [''contract_id''])]"

definition create_contract_price_items :: "ddl list" where
  "create_contract_price_items =
     [Create_Table ''contract_price_items''
        \<lparr>td_columns = [col ''contract_id'' T_UUID, col ''product_id'' T_UUID, col ''price'' T_BIGINT] @ base_columns,
         td_constraints = [Check_Constraint (Some ''ck_contract_price_item_price_non_neg'') ''price >= 0'',
          fk ''contract_id'' ''contracts'' ''CASCADE'', fk ''product_id'' ''products'' ''RESTRICT'', Primary_Key [''id''],
          Unique_Key (Some ''uq_contract_price_item_product'') [''contract_id'', ''product_id'']]\<rparr>,
      Create_Index ''ix_contract_price_items_contract_id'' (plain_index ''contract_price_items'' [''contract_id'']),
      Create_Index ''ix_contract_price_items_product_id'' (plain_index ''contract_price_items'' [''product_id''])]"

definition create_contract_status_logs :: "ddl list" where
  "create_contract_status_logs =
     [Create_Table ''contract_status_logs''
        \<lparr>td_columns = [col ''contract_id'' T_UUID,
          col_null ''from_status'' (T_ENUM ''contract_status_enum'' [''draft'', ''active'', ''suspended'', ''terminated'', ''expired'']),
          col ''to_status'' (T_ENUM ''contract_status_enum'' [''draft'', ''active'', ''suspended'', ''terminated'', ''expired'']),
          col_null ''changed_by_id'' T_UUID, col_null ''reason'' (T_STRING 512)] @ base_columns,
         td_constraints = [fk ''changed_by_id'' ''users'' ''SET NULL'', fk ''contract_id'' ''contracts'' ''RESTRICT'', Primary_Key [''id'']]\<rparr>,
      Create_Index ''idx_contract_status_log_contract'' (plain_index ''contract_status_logs'' [''contract_id'']),
      Create_Index ''ix_contract_status_logs_contract_id'' (plain_index ''contract_status_logs'' [''contract_id''])]"

definition create_inventory_balances :: "ddl list" where
  "create_inventory_balances =
     [Create_Table ''inventory_balances''
        \<lparr>td_columns = [col ''inventory_id'' T_UUID, col ''product_id'' T_UUID, col ''quantity'' T_INTEGER] @ base_columns,
         td_constraints = [fk ''inventory_id'' ''inventories'' ''CASCADE'', fk ''product_id'' ''products'' ''RESTRICT'', Primary_Key [''id''],
          Unique_Key (Some ''uq_inventory_product_balance'') [''inventory_id'', ''product_id'']]\<rparr>,
      Create_Index ''ix_inventory_balances_product_id'' (plain_index ''inventory_balances'' [''product_id''])]"

definition create_invoices :: "ddl list" where
  "create_invoices =
     [Create_Table ''invoices''
        \<lparr>td_columns = [col ''number'' (T_STRING 50), col ''contract_id'' T_UUID,
          col ''status'' (T_ENUM ''invoice_status_enum'' [''draft'', ''issued'', ''partially_paid'', ''paid'', ''overdue'', ''cancelled'']),
          col ''period_from'' T_DATE, col ''period_to'' T_DATE, col ''amount'' T_BIGINT, col_null ''due_date'' T_DATE,
          col_null ''issued_at'' T_TIMESTAMPTZ, col_null ''paid_at'' T_TIMESTAMPTZ] @ base_columns,
         td_constraints = [Check_Constraint (Some ''ck_invoice_amount_non_neg'') ''amount >= 0'',
          Check_Constraint (Some ''ck_invoice_period_order'') ''period_to > period_from'',
          fk ''contract_id'' ''contracts'' ''RESTRICT'', Primary_Key [''id''],
          Unique_Key (Some ''uq_invoice_contract_number'') [''contract_id'', ''number'']]\<rparr>,
      Create_Index ''ix_invoices_contract_id'' (plain_index ''invoices'' [''contract_id'']),
      Create_Index ''ix_invoices_status'' (plain_index ''invoices'' [''status''])]"

definition create_orders :: "ddl list" where
  "create_orders =
     [Create_Table ''orders''
        \<lparr>td_columns = [col ''client_id'' T_UUID, col ''client_inventory_id'' T_UUID, col_null ''courier_id'' T_UUID,
          col ''payment_method'' (T_ENUM ''payment_method_enum'' [''cash'', ''card'', ''contract'']),
          col ''status'' (T_ENUM ''order_status_enum'' [''new'', ''assigned'', ''in_transit'', ''arrived'', ''delivered'', ''pickup_completed'', ''cancelled'']),
          col ''total_amount'' T_BIGINT, col_default ''capitalization_applied'' T_BOOLEAN ''false'',
          col_default ''sale_type'' (T_ENUM ''sale_type_enum'' [''delivery'', ''warehouse_pickup'']) ''delivery'',
          col_null ''warehouse_id'' T_UUID, col_null ''contract_id'' T_UUID, col_null ''reserved_credit_amount'' T_BIGINT,
          col_null ''cancellation_reason'' (T_STRING 500), col_null ''notes'' (T_STRING 500)] @ base_columns,
         td_constraints = [fk ''client_id'' ''users'' ''RESTRICT'', fk ''client_inventory_id'' ''inventories'' ''RESTRICT'',
          fk ''contract_id'' ''contracts'' ''RESTRICT'', fk ''courier_id'' ''users'' ''SET NULL'',
          fk ''warehouse_id'' ''inventories'' ''RESTRICT'', Primary_Key [''id'']]\<rparr>,
      Create_Index ''ix_orders_client_id'' (plain_index ''orders'' [''client_id'']),
      Create_Index ''ix_orders_client_inventory_id'' (plain_index ''orders'' [''client_inventory_id'']),
      Create_Index ''ix_orders_contract_id'' (plain_index ''orders'' [''contract_id'']),
      Create_Index ''ix_orders_courier_id'' (plain_index ''orders'' [''courier_id'']),
      Create_Index ''ix_orders_sale_type'' (plain_index ''orders'' [''sale_type'']),
      Create_Index ''ix_orders_status'' (plain_index ''orders'' [''status'']),
      Create_Index ''ix_orders_warehouse_id'' (plain_index ''orders'' [''warehouse_id''])]"

definition create_order_items :: "ddl list" where
  "create_order_items =
     [Create_Table ''order_items''
        \<lparr>td_columns = [col ''order_id'' T_UUID, col ''product_id'' T_UUID, col ''quantity'' T_INTEGER, col ''unit_price'' T_BIGINT] @ base_columns,
         td_constraints = [Check_Constraint (Some ''ck_order_item_quantity_pos'') ''quantity > 0'',
          Check_Constraint (Some ''ck_order_item_price_pos'') ''unit_price >= 0'', fk ''order_id'' ''orders'' ''CASCADE'',
          fk ''product_id'' ''products'' ''RESTRICT'', Primary_Key [''id'']]\<rparr>,
      Create_Index ''ix_order_items_order_id'' (plain_index ''order_items'' [''order_id'']),
      Create_Index ''ix_order_items_product_id'' (plain_index ''order_items'' [''product_id''])]"

definition create_order_status_logs :: "ddl list" where
  "create_order_status_logs =
     [Create_Table ''order_status_logs''
        \<lparr>td_columns = [col ''order_id'' T_UUID,
          col_null ''old_status'' (T_ENUM ''order_status_enum'' [''new'', ''assigned'', ''in_transit'', ''arrived'', ''delivered'', ''pickup_completed'', ''cancelled'']),
          col ''new_status'' (T_ENUM ''order_status_enum'' [''new'', ''assigned'', ''in_transit'', ''arrived'', ''delivered'', ''pickup_completed'', ''cancelled'']),
          col_null ''changed_by_id'' T_UUID, col_null ''reason'' (T_STRING 500)] @ base_columns,
         td_constraints = [fk ''changed_by_id'' ''users'' ''SET NULL'', fk ''order_id'' ''orders'' ''CASCADE'', Primary_Key [''id'']]\<rparr>,
      Create_Index ''ix_order_status_logs_order_id'' (plain_index ''order_status_logs'' [''order_id''])]"

definition create_stock_transfers :: "ddl list" where
  "create_stock_transfers =
     [Create_Table ''stock_transfers''
        \<lparr>td_columns = [col ''from_id'' T_UUID, col ''to_id'' T_UUID, col ''created_by_id'' T_UUID, col_null ''accepted_by_id'' T_UUID,
          col_null ''order_id'' T_UUID, col_null ''reason'' (T_STRING 255), col_null ''route_sheet_id'' T_UUID,
          col ''type'' (T_ENUM ''transfer_type_enum'' [''COURIER_LOAD'', ''COURIER_RETURN'', ''CLIENT_DELIVERY'', ''CLIENT_RETURN'', ''LOSS_WRITE_OFF'', ''INVENTORY_FINDING'', ''INITIAL_BALANCE'', ''WAREHOUSE_SALE'', ''WAREHOUSE_TARA_RETURN'']),
          col ''status'' (T_ENUM ''transfer_status_enum'' [''DRAFT'', ''COMPLETED'', ''CANCELLED''])] @ base_columns,
         td_constraints = [Check_Constraint (Some ''ck_stock_transfer_no_circular'') ''from_id != to_id'',
          fk ''accepted_by_id'' ''users'' ''RESTRICT'', fk ''created_by_id'' ''users'' ''RESTRICT'',
          fk ''from_id'' ''inventories'' ''RESTRICT'', fk ''order_id'' ''orders'' ''RESTRICT'',
          fk ''to_id'' ''inventories'' ''RESTRICT'', Primary_Key [''id''],
          Unique_Key (Some ''uq_stock_transfer_route'') [''id'', ''from_id'', ''to_id'']]\<rparr>,
      Create_Index ''ix_stock_transfers_from_id'' (plain_index ''stock_transfers'' [''from_id'']),
      Create_Index ''ix_stock_transfers_order_id'' (plain_index ''stock_transfers'' [''order_id'']),
      Create_Index ''ix_stock_transfers_route_sheet_id'' (plain_index ''stock_transfers'' [''route_sheet_id'']),
      Create_Index ''ix_stock_transfers_status'' (plain_index ''stock_transfers'' [''status'']),
      Create_Index ''ix_stock_transfers_to_id'' (plain_index ''stock_transfers'' [''to_id'']),
      Create_Index ''ix_stock_transfers_type'' (plain_index ''stock_transfers'' [''type''])]"

definition create_transactions :: "ddl list" where
  "create_transactions =
     [Create_Table ''transactions''
        \<lparr>td_columns = [col ''from_id'' T_UUID, col ''to_id'' T_UUID, col_null ''order_id'' T_UUID, col_null ''verified_by_id'' T_UUID,
          col ''amount'' T_BIGINT,
          col ''status'' (T_ENUM ''transaction_status_enum'' [''pending'', ''completed'', ''rejected'']),
          col ''reason'' (T_STRING 255)] @ base_columns,
         td_constraints = [Check_Constraint (Some ''ck_transaction_amount_pos'') ''amount > 0'',
          Check_Constraint (Some ''ck_transaction_no_self_transfer'') ''from_id != to_id'',
          fk ''from_id'' ''accounts'' ''RESTRICT'', fk ''order_id'' ''orders'' ''SET NULL'',
          fk ''to_id'' ''accounts'' ''RESTRICT'', fk ''verified_by_id'' ''users'' ''RESTRICT'', Primary_Key [''id'']]\<rparr>,
      Create_Index ''idx_transaction_from_status'' (plain_index ''transactions'' [''from_id'', ''status'']),
      Create_Index ''idx_transaction_to_status'' (plain_index ''transactions'' [''to_id'', ''status'']),
      Create_Index ''ix_transactions_order_id'' (plain_index ''transactions'' [''order_id'']),
      Create_Index ''ix_transactions_verified_by_id'' (plain_index ''transactions'' [''verified_by_id''])]"

definition create_stock_transactions :: "ddl list" where
  "create_stock_transactions =
     [Create_Table ''stock_transactions''
        \<lparr>td_columns = [col ''product_id'' T_UUID, col ''transfer_id'' T_UUID, col ''from_id'' T_UUID, col ''to_id'' T_UUID,
          col ''quantity'' T_INTEGER] @ base_columns,
         td_constraints = [Check_Constraint (Some ''ck_stock_transaction_quantity_positive'') ''quantity > 0'',
          fk ''from_id'' ''inventories'' ''RESTRICT'', fk ''product_id'' ''products'' ''RESTRICT'',
          fk ''to_id'' ''inventories'' ''RESTRICT'',
          Foreign_Key (Some ''fk_stock_transaction_strict_route'') [''transfer_id'', ''from_id'', ''to_id''] ''stock_transfers'' [''id'', ''from_id'', ''to_id''] (Some ''CASCADE''),
          Primary_Key [''id'']]\<rparr>,
      Create_Index ''idx_st_product_from'' (plain_index ''stock_transactions'' [''product_id'', ''from_id'']),
      Create_Index ''idx_st_product_to'' (plain_index ''stock_transactions'' [''product_id'', ''to_id'']),
      Create_Index ''ix_stock_transactions_from_id'' (plain_index ''stock_transactions'' [''from_id'']),
      Create_Index ''ix_stock_transactions_product_id'' (plain_index ''stock_transactions'' [''product_id'']),
      Create_Index ''ix_stock_transactions_to_id'' (plain_index ''stock_transactions'' [''to_id'']),
      Create_Index ''ix_stock_transactions_transfer_id'' (plain_index ''stock_transactions'' [''transfer_id''])]"

definition create_stock_transfer_items :: "ddl list" where
  "create_stock_transfer_items =
     [Create_Table ''stock_transfer_items''
        \<lparr>td_columns = [col ''transfer_id'' T_UUID, col ''product_id'' T_UUID, col ''quantity'' T_INTEGER] @ base_columns,
         td_constraints = [Check_Constraint (Some ''ck_stock_transfer_item_quantity_pos'') ''quantity > 0'',
          fk ''product_id'' ''products'' ''RESTRICT'', fk ''transfer_id'' ''stock_transfers'' ''CASCADE'',
          Primary_Key [''id'']]\<rparr>,
      Create_Index ''ix_stock_transfer_items_product_id'' (plain_index ''stock_transfer_items'' [''product_id'']),
      Create_Index ''ix_stock_transfer_items_transfer_id'' (plain_index ''stock_transfer_items'' [''transfer_id''])]"

definition init_upgrade :: "ddl list" where
  "init_upgrade = concat
     [create_products, create_users, create_accounts, create_contracts, create_identities, create_inventories,
      create_phone_numbers, create_contract_amendments, create_contract_price_items, create_contract_status_logs,
      create_inventory_balances, create_invoices, create_orders, create_order_items, create_order_status_logs,
      create_stock_transfers, create_transactions, create_stock_transactions, create_stock_transfer_items]"

definition drop_stock_transfer_items :: "ddl list" where
  "drop_stock_transfer_items =
     [Drop_Index ''ix_stock_transfer_items_transfer_id'', Drop_Index ''ix_stock_transfer_items_product_id'',
      Drop_Table ''stock_transfer_items'']"

definition drop_stock_transactions :: "ddl list" where
  "drop_stock_transactions =
     [Drop_Index ''ix_stock_transactions_transfer_id'', Drop_Index ''ix_stock_transactions_to_id'',
      Drop_Index ''ix_stock_transactions_product_id'', Drop_Index ''ix_stock_transactions_from_id'',
      Drop_Index ''idx_st_product_to'', Drop_Index ''idx_st_product_from'', Drop_Table ''stock_transactions'']"

definition drop_transactions :: "ddl list" where
  "drop_transactions =
     [Drop_Index ''ix_transactions_verified_by_id'', Drop_Index ''ix_transactions_order_id'',
      Drop_Index ''idx_transaction_to_status'', Drop_Index ''idx_transaction_from_status'', Drop_Table ''transactions'']"

definition drop_stock_transfers :: "ddl list" where
  "drop_stock_transfers =
     [Drop_Index ''ix_stock_transfers_type'', Drop_Index ''ix_stock_transfers_to_id'',
      Drop_Index ''ix_stock_transfers_status'', Drop_Index ''ix_stock_transfers_route_sheet_id'',
      Drop_Index ''ix_stock_transfers_order_id'', Drop_Index ''ix_stock_transfers_from_id'', Drop_Table ''stock_transfers'']"

definition drop_order_status_logs :: "ddl list" where
  "drop_order_status_logs =
     [Drop_Index ''ix_order_status_logs_order_id'', Drop_Table ''order_status_logs'']"

definition drop_order_items :: "ddl list" where
  "drop_order_items =
     [Drop_Index ''ix_order_items_product_id'', Drop_Index ''ix_order_items_order_id'', Drop_Table ''order_items'']"

definition drop_orders :: "ddl list" where
  "drop_orders =
     [Drop_Index ''ix_orders_warehouse_id'', Drop_Index ''ix_orders_status'', Drop_Index ''ix_orders_sale_type'',
      Drop_Index ''ix_orders_courier_id'', Drop_Index ''ix_orders_contract_id'',
      Drop_Index ''ix_orders_client_inventory_id'', Drop_Index ''ix_orders_client_id'', Drop_Table ''orders'']"

definition drop_invoices :: "ddl list" where
  "drop_invoices =
     [Drop_Index ''ix_invoices_status'', Drop_Index ''ix_invoices_contract_id'', Drop_Table ''invoices'']"

definition drop_inventory_balances :: "ddl list" where
  "drop_inventory_balances =
     [Drop_Index ''ix_inventory_balances_product_id'', Drop_Table ''inventory_balances'']"

definition drop_contract_status_logs :: "ddl list" where
  "drop_contract_status_logs =
     [Drop_Index ''ix_contract_status_logs_contract_id'', Drop_Index ''idx_contract_status_log_contract'',
      Drop_Table ''contract_status_logs'']"

definition drop_contract_price_items :: "ddl list" where
  "drop_contract_price_items =
     [Drop_Index ''ix_contract_price_items_product_id'', Drop_Index ''ix_contract_price_items_contract_id'',
      Drop_Table ''contract_price_items'']"

definition drop_contract_amendments :: "ddl list" where
  "drop_contract_amendments =
     [Drop_Index ''ix_contract_amendments_contract_id'', Drop_Table ''contract_amendments'']"

definition drop_phone_numbers :: "ddl list" where
  "drop_phone_numbers =
     [Drop_Index ''ix_phone_numbers_user_id'', Drop_Table ''phone_numbers'']"

definition drop_inventories :: "ddl list" where
  "drop_inventories =
     [Drop_Index ''uq_active_courier_inventory'', Drop_Index ''ix_inventories_type'', Drop_Index ''idx_inventory_user_type'',
      Drop_Table ''inventories'']"

definition drop_identities :: "ddl list" where
  "drop_identities =
     [Drop_Index ''ix_identities_user_id'', Drop_Table ''identities'']"

definition drop_contracts :: "ddl list" where
  "drop_contracts =
     [Drop_Index ''uq_one_active_contract_per_client'', Drop_Index ''ix_contracts_status'',
      Drop_Index ''ix_contracts_client_id'', Drop_Index ''idx_contract_client_status'', Drop_Table ''contracts'']"

definition drop_accounts :: "ddl list" where
  "drop_accounts =
     [Drop_Index ''ix_accounts_type'', Drop_Index ''idx_account_user_type'', Drop_Table ''accounts'']"

definition drop_users :: "ddl list" where
  "drop_users =
     [Drop_Index ''ix_users_role'', Drop_Table ''users'']"

definition drop_products :: "ddl list" where
  "drop_products =
     [Drop_Index ''ix_products_type'', Drop_Index ''ix_products_returnable_item_id'',
      Drop_Index ''idx_product_attributes_gin'', Drop_Table ''products'']"

definition init_downgrade :: "ddl list" where
  "init_downgrade = concat
     [drop_stock_transfer_items, drop_stock_transactions, drop_transactions, drop_stock_transfers, drop_order_status_logs,
      drop_order_items, drop_orders, drop_invoices, drop_inventory_balances, drop_contract_status_logs,
      drop_contract_price_items, drop_contract_amendments, drop_phone_numbers, drop_inventories, drop_identities,
      drop_contracts, drop_accounts, drop_users, drop_products]"

section \<open>\<open>014cf8e85d99_triggers\<close>\<close>

text \<open>What the statements of the two SQL files do to the catalog.\<close>

definition triggers_upgrade :: "ddl list" where
  "triggers_upgrade =
     [Create_Or_Replace_Function ''update_account_balances'',
      Drop_Trigger_If_Present ''trigger_update_account_balances'' ''transactions'',
      Create_Trigger ''trigger_update_account_balances'' ''transactions'',
      Create_Or_Replace_Function ''update_inventory_balances'',
      Drop_Trigger_If_Present ''trigger_update_inventory_balances'' ''stock_transactions'',
      Create_Trigger ''trigger_update_inventory_balances'' ''stock_transactions'']"

definition triggers_downgrade :: "ddl list" where
  "triggers_downgrade =
     [Drop_Trigger_If_Present ''trigger_update_inventory_balances'' ''stock_transactions'',
      Drop_Function_If_Present ''update_inventory_balances'',
      Drop_Trigger_If_Present ''trigger_update_account_balances'' ''transactions'',
      Drop_Function_If_Present ''update_account_balances'']"

section \<open>\<open>a1b2c3d4e5f6_contract_quantity_quotas\<close>\<close>

definition quotas_upgrade :: "ddl list" where
  "quotas_upgrade =
     [Drop_Constraint ''ck_contract_credit_used_le_limit'' ''contracts'',
      Drop_Constraint ''ck_contract_credit_used_non_neg'' ''contracts'',
      Drop_Constraint ''ck_contract_credit_limit_non_neg'' ''contracts'',
      Drop_Column ''contracts'' ''credit_used'',
      Drop_Column ''contracts'' ''credit_limit'',
      Add_Column ''contract_price_items'' (col_default ''quantity'' T_INTEGER ''0''),
      Add_Column ''contract_price_items'' (col_default ''quantity_used'' T_INTEGER ''0''),
      Create_Check ''ck_contract_price_item_quantity_non_neg'' ''contract_price_items'' ''quantity >= 0'',
      Create_Check ''ck_contract_price_item_quantity_used_non_neg'' ''contract_price_items'' ''quantity_used >= 0'',
      Create_Check ''ck_contract_price_item_quantity_used_le_limit'' ''contract_price_items'' ''quantity_used <= quantity OR quantity = 0'',
      Add_Column ''orders'' (col_default ''quantities_reserved'' T_BOOLEAN ''false''),
      Drop_Column ''orders'' ''reserved_credit_amount'']"

definition quotas_downgrade :: "ddl list" where
  "quotas_downgrade =
     [Drop_Column ''orders'' ''quantities_reserved'',
      Add_Column ''orders'' (col_null ''reserved_credit_amount'' T_BIGINT),
      Drop_Constraint ''ck_contract_price_item_quantity_used_le_limit'' ''contract_price_items'',
      Drop_Constraint ''ck_contract_price_item_quantity_used_non_neg'' ''contract_price_items'',
      Drop_Constraint ''ck_contract_price_item_quantity_non_neg'' ''contract_price_items'',
      Drop_Column ''contract_price_items'' ''quantity_used'',
      Drop_Column ''contract_price_items'' ''quantity'',
      Add_Column ''contracts'' (col_default ''credit_limit'' T_BIGINT ''0''),
      Add_Column ''contracts'' (col_default ''credit_used'' T_BIGINT ''0''),
      Create_Check ''ck_contract_credit_limit_non_neg'' ''contracts'' ''credit_limit >= 0'',
      Create_Check ''ck_contract_credit_used_non_neg'' ''contracts'' ''credit_used >= 0'',
      Create_Check ''ck_contract_credit_used_le_limit'' ''contracts'' ''credit_used <= credit_limit OR credit_limit = 0'']"

section \<open>\<open>1d156127d709_add_expense_and_admin_account_types\<close>\<close>

definition account_types_upgrade :: "ddl list" where
  "account_types_upgrade =
     [Add_Value ''account_type_enum'' ''expense'',
      Add_Value ''account_type_enum'' ''admin'']"

definition account_types_downgrade :: "ddl list" where
  "account_types_downgrade = []"

section \<open>\<open>b2c4e8f1a7d3_finances_search_indexes\<close>\<close>

definition finance_indexes_upgrade :: "ddl list" where
  "finance_indexes_upgrade =
     [Extension_If_Absent ''pg_trgm'',
      Index_If_Absent ''ix_transaction_created_at_id'' \<lparr>ix_table = ''transactions'', ix_on = [''created_at DESC'', ''id DESC''], ix_unique = False,
         ix_using = None, ix_where = (Some ''is_active = true'')\<rparr>,
      Index_If_Absent ''ix_transaction_reason_trgm'' \<lparr>ix_table = ''transactions'', ix_on = [''reason gin_trgm_ops''], ix_unique = False,
         ix_using = (Some ''gin''), ix_where = (Some ''is_active = true'')\<rparr>,
      Index_If_Absent ''ix_account_name_trgm'' \<lparr>ix_table = ''accounts'', ix_on = [''name gin_trgm_ops''], ix_unique = False,
         ix_using = (Some ''gin''), ix_where = (Some ''is_active = true'')\<rparr>,
      Index_If_Absent ''ix_user_username_trgm'' \<lparr>ix_table = ''users'', ix_on = [''username gin_trgm_ops''], ix_unique = False,
         ix_using = (Some ''gin''), ix_where = (Some ''is_active = true'')\<rparr>,
      Index_If_Absent ''ix_transaction_pending'' \<lparr>ix_table = ''transactions'', ix_on = [''created_at DESC''], ix_unique = False,
         ix_using = None, ix_where = (Some (''is_active = true AND status = 'pending'' @ [CHR 0x27]))\<rparr>,
      Index_If_Absent ''ix_account_type_balance'' \<lparr>ix_table = ''accounts'', ix_on = [''type'', ''balance DESC''], ix_unique = False,
         ix_using = None, ix_where = (Some ''is_active = true'')\<rparr>,
      Index_If_Absent ''ix_order_payment_method'' \<lparr>ix_table = ''orders'', ix_on = [''payment_method''], ix_unique = False,
         ix_using = None, ix_where = (Some ''is_active = true'')\<rparr>,
      Index_If_Absent ''ix_contract_number_trgm'' \<lparr>ix_table = ''contracts'', ix_on = [''number gin_trgm_ops''], ix_unique = False,
         ix_using = (Some ''gin''), ix_where = (Some ''is_active = true'')\<rparr>]"

definition finance_indexes_downgrade :: "ddl list" where
  "finance_indexes_downgrade =
     [Drop_Index_If_Present ''ix_contract_number_trgm'',
      Drop_Index_If_Present ''ix_order_payment_method'',
      Drop_Index_If_Present ''ix_account_type_balance'',
      Drop_Index_If_Present ''ix_transaction_pending'',
      Drop_Index_If_Present ''ix_user_username_trgm'',
      Drop_Index_If_Present ''ix_account_name_trgm'',
      Drop_Index_If_Present ''ix_transaction_reason_trgm'',
      Drop_Index_If_Present ''ix_transaction_created_at_id'']"

section \<open>\<open>c3f8a9d4e2b1_inventory_search_indexes\<close>\<close>

definition inventory_indexes_upgrade :: "ddl list" where
  "inventory_indexes_upgrade =
     [Extension_If_Absent ''pg_trgm'',
      Index_If_Absent ''ix_stock_transfer_created_at_id'' \<lparr>ix_table = ''stock_transfers'', ix_on = [''created_at DESC'', ''id DESC''], ix_unique = False,
         ix_using = None, ix_where = (Some ''is_active = true'')\<rparr>,
      Index_If_Absent ''ix_stock_transfer_created_by'' \<lparr>ix_table = ''stock_transfers'', ix_on = [''created_by_id'', ''created_at DESC''], ix_unique = False,
         ix_using = None, ix_where = (Some ''is_active = true'')\<rparr>,
      Index_If_Absent ''ix_stock_transfer_accepted_by'' \<lparr>ix_table = ''stock_transfers'', ix_on = [''accepted_by_id'', ''created_at DESC''], ix_unique = False,
         ix_using = None, ix_where = (Some ''accepted_by_id IS NOT NULL AND is_active = true'')\<rparr>,
      Index_If_Absent ''ix_stock_transfer_reason_trgm'' \<lparr>ix_table = ''stock_transfers'', ix_on = [''reason gin_trgm_ops''], ix_unique = False,
         ix_using = (Some ''gin''), ix_where = (Some ''reason IS NOT NULL'')\<rparr>,
      Index_If_Absent ''ix_stock_transaction_created_at_id'' (plain_index ''stock_transactions'' [''created_at DESC'', ''id DESC'']),
      Index_If_Absent ''ix_stock_transaction_product_created_at'' (plain_index ''stock_transactions'' [''product_id'', ''created_at DESC'']),
      Index_If_Absent ''ix_inventory_name_trgm'' \<lparr>ix_table = ''inventories'', ix_on = [''name gin_trgm_ops''], ix_unique = False,
         ix_using = (Some ''gin''), ix_where = (Some ''is_active = true'')\<rparr>,
      Index_If_Absent ''ix_product_name_trgm'' \<lparr>ix_table = ''products'', ix_on = [''name gin_trgm_ops''], ix_unique = False,
         ix_using = (Some ''gin''), ix_where = (Some ''is_active = true'')\<rparr>,
      Index_If_Absent ''ix_user_username_trgm'' \<lparr>ix_table = ''users'', ix_on = [''username gin_trgm_ops''], ix_unique = False,
         ix_using = (Some ''gin''), ix_where = (Some ''is_active = true'')\<rparr>,
      Index_If_Absent ''ix_identity_local_phone_digits_trgm'' \<lparr>ix_table = ''identities'', ix_on = [(''(regexp_replace(provider_identity_id, '' @ [CHR 0x27, CHR 0x5C] @ ''D', '' @ [CHR 0x27, CHR 0x27] @ '', 'g')) gin_trgm_ops'')], ix_unique = False,
         ix_using = (Some ''gin''), ix_where = (Some ''provider = 'local'::auth_provider_enum'')\<rparr>,
      Index_If_Absent ''ix_phone_numbers_digits_trgm'' \<lparr>ix_table = ''phone_numbers'', ix_on = [(''(regexp_replace(phone, '' @ [CHR 0x27, CHR 0x5C] @ ''D', '' @ [CHR 0x27, CHR 0x27] @ '', 'g')) gin_trgm_ops'')], ix_unique = False,
         ix_using = (Some ''gin''), ix_where = None\<rparr>]"

definition inventory_indexes_downgrade :: "ddl list" where
  "inventory_indexes_downgrade =
     [Drop_Index_If_Present ''ix_phone_numbers_digits_trgm'',
      Drop_Index_If_Present ''ix_identity_local_phone_digits_trgm'',
      Drop_Index_If_Present ''ix_product_name_trgm'',
      Drop_Index_If_Present ''ix_inventory_name_trgm'',
      Drop_Index_If_Present ''ix_stock_transaction_product_created_at'',
      Drop_Index_If_Present ''ix_stock_transaction_created_at_id'',
      Drop_Index_If_Present ''ix_stock_transfer_reason_trgm'',
      Drop_Index_If_Present ''ix_stock_transfer_accepted_by'',
      Drop_Index_If_Present ''ix_stock_transfer_created_by'',
      Drop_Index_If_Present ''ix_stock_transfer_created_at_id'']"

section \<open>\<open>d4e5f6a7b8c9_soft_quota_limits\<close>\<close>

definition soft_limits_upgrade :: "ddl list" where
  "soft_limits_upgrade =
     [Drop_Constraint ''ck_contract_price_item_quantity_used_le_limit'' ''contract_price_items'',
      Add_Column ''orders'' (col_default ''quota_exceeded'' T_BOOLEAN ''false''),
      Add_Column ''orders'' (col_null ''quota_overspend'' T_JSONB)]"

definition soft_limits_downgrade :: "ddl list" where
  "soft_limits_downgrade =
     [Drop_Column ''orders'' ''quota_overspend'',
      Drop_Column ''orders'' ''quota_exceeded'',
      Create_Check ''ck_contract_price_item_quantity_used_le_limit'' ''contract_price_items'' ''quantity_used <= quantity OR quantity = 0'']"

section \<open>The chain\<close>

record revision =
  rv_id :: string
  rv_down :: "string option"
  rv_upgrade :: "ddl list"
  rv_downgrade :: "ddl list"

text \<open>In the order of the file names. The last one works on rows only.\<close>

definition revisions :: "revision list" where
  "revisions =
     [\<lparr>rv_id = ''014cf8e85d99'', rv_down = Some ''109a87243062'', rv_upgrade = triggers_upgrade, rv_downgrade = triggers_downgrade\<rparr>,
      \<lparr>rv_id = ''109a87243062'', rv_down = None, rv_upgrade = init_upgrade, rv_downgrade = init_downgrade\<rparr>,
      \<lparr>rv_id = ''1d156127d709'', rv_down = Some ''a1b2c3d4e5f6'', rv_upgrade = account_types_upgrade, rv_downgrade = account_types_downgrade\<rparr>,
      \<lparr>rv_id = ''a1b2c3d4e5f6'', rv_down = Some ''014cf8e85d99'', rv_upgrade = quotas_upgrade, rv_downgrade = quotas_downgrade\<rparr>,
      \<lparr>rv_id = ''b2c4e8f1a7d3'', rv_down = Some ''1d156127d709'', rv_upgrade = finance_indexes_upgrade, rv_downgrade = finance_indexes_downgrade\<rparr>,
      \<lparr>rv_id = ''c3f8a9d4e2b1'', rv_down = Some ''b2c4e8f1a7d3'', rv_upgrade = inventory_indexes_upgrade, rv_downgrade = inventory_indexes_downgrade\<rparr>,
      \<lparr>rv_id = ''d4e5f6a7b8c9'', rv_down = Some ''c3f8a9d4e2b1'', rv_upgrade = soft_limits_upgrade, rv_downgrade = soft_limits_downgrade\<rparr>,
      \<lparr>rv_id = ''e5f6a7b8c9d0'', rv_down = Some ''d4e5f6a7b8c9'', rv_upgrade = [], rv_downgrade = []\<rparr>]"

text \<open>The revisions after a given one, while the chain does not branch; the number bounds the steps.\<close>

fun chain :: "nat \<Rightarrow> string option \<Rightarrow> revision list \<Rightarrow> revision list" where
  "chain 0 cur rs = []"
| "chain (Suc n) cur rs = (case filter (\<lambda>r. rv_down r = cur) rs of [r] \<Rightarrow> r # chain n (Some (rv_id r)) rs | _ \<Rightarrow> [])"

definition upgrades :: "ddl list" where
  "upgrades = concat (map rv_upgrade (chain (length revisions) None revisions))"

definition downgrades :: "ddl list" where
  "downgrades = concat (map rv_downgrade (rev (chain (length revisions) None revisions)))"

end
