(* ===== verification/ModelTables.thy ===== *)
theory ModelTables
  imports Migrations
begin

text \<open>
  The tables that the mapped classes declare (\<open>models.py\<close> of the modules, over \<open>BaseModel\<close>): columns from the
  annotations and \<open>mapped_column\<close>, foreign keys, constraints, and indexes, named after table and column when
  they come from \<open>index=True\<close>. They are the target metadata of \<open>alembic/env.py\<close>, listed in an order in which each table comes after those it refers to.
\<close>

record model_table =
  mt_name :: string
  mt_table :: table_def
  mt_indexes :: "(string \<times> index_def) list"

definition model_product :: model_table where
  "model_product = \<lparr>mt_name = ''products'',
     mt_table =
      \<lparr>td_columns = [col_null ''returnable_item_id'' T_UUID,
        col ''type'' (T_ENUM ''product_type_enum'' [''water'', ''container'', ''equipment'']), col ''name'' (T_STRING 255),
        col ''price'' T_BIGINT, col_default ''attributes'' T_JSONB ''[]''] @ base_columns,
       td_constraints = [fk ''returnable_item_id'' ''products'' ''RESTRICT'', Check_Constraint (Some ''ck_product_price_pos'') ''price >= 0'',
        Check_Constraint (Some ''ck_product_attributes_is_array'') (''jsonb_typeof(attributes) = 'array'' @ [CHR 0x27]),
        Primary_Key [''id'']]\<rparr>,
     mt_indexes = [(''ix_products_returnable_item_id'', plain_index ''products'' [''returnable_item_id'']),
        (''ix_products_type'', plain_index ''products'' [''type'']),
        (''idx_product_attributes_gin'', \<lparr>ix_table = ''products'', ix_on = [''attributes''], ix_unique = False,
         ix_using = (Some ''gin''), ix_where = None\<rparr>)]\<rparr>"

definition model_user :: model_table where
  "model_user = \<lparr>mt_name = ''users'',
     mt_table =
      \<lparr>td_columns = [col ''username'' (T_STRING 255),
        col ''role'' (T_ENUM ''user_role_enum'' [''system'', ''admin'', ''accountant'', ''storekeeper'', ''cashier'', ''courier'', ''client_b2c'', ''client_b2b''])] @ base_columns,
       td_constraints = [Primary_Key [''id'']]\<rparr>,
     mt_indexes = [(''ix_users_role'', plain_index ''users'' [''role''])]\<rparr>"

definition model_account :: model_table where
  "model_account = \<lparr>mt_name = ''accounts'',
     mt_table =
      \<lparr>td_columns = [col ''user_id'' T_UUID,
        col ''type'' (T_ENUM ''account_type_enum'' [''revenue'', ''cash'', ''card'', ''bank'', ''discount'', ''client'', ''courier'', ''expense'', ''admin'']),
        col ''name'' (T_STRING 255), col_default ''balance'' T_BIGINT ''0''] @ base_columns,
       td_constraints = [fk ''user_id'' ''users'' ''RESTRICT'', Primary_Key [''id'']]\<rparr>,
     mt_indexes = [(''ix_accounts_type'', plain_index ''accounts'' [''type'']),
        (''idx_account_user_type'', plain_index ''accounts'' [''user_id'', ''type''])]\<rparr>"

definition model_contract :: model_table where
  "model_contract = \<lparr>mt_name = ''contracts'',
     mt_table =
      \<lparr>td_columns = [col ''number'' (T_STRING 50), col ''client_id'' T_UUID,
        col ''status'' (T_ENUM ''contract_status_enum'' [''draft'', ''active'', ''suspended'', ''terminated'', ''expired'']),
        col ''start_date'' T_DATE, col_null ''end_date'' T_DATE, col ''payment_due_days'' T_INTEGER,
        col ''legal_name'' (T_STRING 255), col ''inn'' (T_STRING 14), col_null ''notes'' T_TEXT,
        col_null ''signed_at'' T_TIMESTAMPTZ, col_null ''signed_by_id'' T_UUID, col_null ''suspended_at'' T_TIMESTAMPTZ,
        col_null ''suspension_reason'' (T_STRING 512), col_null ''terminated_at'' T_TIMESTAMPTZ,
        col_null ''termination_reason'' (T_STRING 512)] @ base_columns,
       td_constraints = [Unique_Key None [''number''], fk ''client_id'' ''users'' ''RESTRICT'', fk ''signed_by_id'' ''users'' ''RESTRICT'',
        Check_Constraint (Some ''ck_contract_payment_due_days_pos'') ''payment_due_days > 0'',
        Check_Constraint (Some ''ck_contract_dates_order'') ''end_date IS NULL OR end_date > start_date'',
        Primary_Key [''id'']]\<rparr>,
     mt_indexes = [(''ix_contracts_client_id'', plain_index ''contracts'' [''client_id'']),
        (''ix_contracts_status'', plain_index ''contracts'' [''status'']),
        (''uq_one_active_contract_per_client'', \<lparr>ix_table = ''contracts'', ix_on = [''client_id''], ix_unique = True,
         ix_using = None, ix_where = (Some ''status = 'active' AND is_active = true'')\<rparr>),
        (''idx_contract_client_status'', plain_index ''contracts'' [''client_id'', ''status''])]\<rparr>"

definition model_identity :: model_table where
  "model_identity = \<lparr>mt_name = ''identities'',
     mt_table =
      \<lparr>td_columns = [col ''user_id'' T_UUID,
        col ''provider'' (T_ENUM ''auth_provider_enum'' [''local'', ''google'', ''telegram'', ''apple'']),
        col ''provider_identity_id'' (T_STRING 255), col_null ''password_hash'' (T_STRING 255)] @ base_columns,
       td_constraints = [fk ''user_id'' ''users'' ''CASCADE'',
        Unique_Key (Some ''uq_identities_provider_identity_id'') [''provider'', ''provider_identity_id''],
        Primary_Key [''id'']]\<rparr>,
     mt_indexes = [(''ix_identities_user_id'', plain_index ''identities'' [''user_id''])]\<rparr>"

definition model_inventory :: model_table where
  "model_inventory = \<lparr>mt_name = ''inventories'',
     mt_table =
      \<lparr>td_columns = [col ''user_id'' T_UUID,
        col ''type'' (T_ENUM ''inventory_type_enum'' [''WAREHOUSE'', ''COURIER'', ''CLIENT'', ''VIRTUAL_LOSS'', ''VIRTUAL_VENDOR'']),
        col ''name'' (T_STRING 255)] @ base_columns,
       td_constraints = [fk ''user_id'' ''users'' ''RESTRICT'', Primary_Key [''id'']]\<rparr>,
     mt_indexes = [(''ix_inventories_type'', plain_index ''inventories'' [''type'']),
        (''uq_active_courier_inventory'', \<lparr>ix_table = ''inventories'', ix_on = [''user_id''], ix_unique = True,
         ix_using = None, ix_where = (Some ''type = 'COURIER' AND is_active = true'')\<rparr>),
        (''idx_inventory_user_type'', plain_index ''inventories'' [''user_id'', ''type''])]\<rparr>"

definition model_phone_number :: model_table where
  "model_phone_number = \<lparr>mt_name = ''phone_numbers'',
     mt_table =
      \<lparr>td_columns = [col ''user_id'' T_UUID, col ''phone'' (T_STRING 20), col_null ''label'' (T_STRING 50)] @ base_columns,
       td_constraints = [fk ''user_id'' ''users'' ''CASCADE'', Unique_Key None [''phone''], Primary_Key [''id'']]\<rparr>,
     mt_indexes = [(''ix_phone_numbers_user_id'', plain_index ''phone_numbers'' [''user_id''])]\<rparr>"

definition model_contract_amendment :: model_table where
  "model_contract_amendment = \<lparr>mt_name = ''contract_amendments'',
     mt_table =
      \<lparr>td_columns = [col ''contract_id'' T_UUID, col ''number'' (T_STRING 50), col ''description'' T_TEXT, col ''effective_date'' T_DATE,
        col_null ''created_by_id'' T_UUID] @ base_columns,
       td_constraints = [fk ''contract_id'' ''contracts'' ''RESTRICT'', fk ''created_by_id'' ''users'' ''SET NULL'',
        Unique_Key (Some ''uq_contract_amendment_number'') [''contract_id'', ''number''], Primary_Key [''id'']]\<rparr>,
     mt_indexes = [(''ix_contract_amendments_contract_id'', plain_index ''contract_amendments'' [''contract_id''])]\<rparr>"

definition model_contract_price_item :: model_table where
  "model_contract_price_item = \<lparr>mt_name = ''contract_price_items'',
     mt_table =
      \<lparr>td_columns = [col ''contract_id'' T_UUID, col ''product_id'' T_UUID, col ''price'' T_BIGINT, col ''quantity'' T_INTEGER,
        col ''quantity_used'' T_INTEGER] @ base_columns,
       td_constraints = [fk ''contract_id'' ''contracts'' ''CASCADE'', fk ''product_id'' ''products'' ''RESTRICT'',
        Unique_Key (Some ''uq_contract_price_item_product'') [''contract_id'', ''product_id''],
        Check_Constraint (Some ''ck_contract_price_item_price_non_neg'') ''price >= 0'',
        Check_Constraint (Some ''ck_contract_price_item_quantity_non_neg'') ''quantity >= 0'',
        Check_Constraint (Some ''ck_contract_price_item_quantity_used_non_neg'') ''quantity_used >= 0'',
        Check_Constraint (Some ''ck_contract_price_item_quantity_used_le_limit'') ''quantity_used <= quantity OR quantity = 0'',
        Primary_Key [''id'']]\<rparr>,
     mt_indexes = [(''ix_contract_price_items_contract_id'', plain_index ''contract_price_items'' [''contract_id'']),
        (''ix_contract_price_items_product_id'', plain_index ''contract_price_items'' [''product_id''])]\<rparr>"

definition model_contract_status_log :: model_table where
  "model_contract_status_log = \<lparr>mt_name = ''contract_status_logs'',
     mt_table =
      \<lparr>td_columns = [col ''contract_id'' T_UUID,
        col_null ''from_status'' (T_ENUM ''contract_status_enum'' [''draft'', ''active'', ''suspended'', ''terminated'', ''expired'']),
        col ''to_status'' (T_ENUM ''contract_status_enum'' [''draft'', ''active'', ''suspended'', ''terminated'', ''expired'']),
        col_null ''changed_by_id'' T_UUID, col_null ''reason'' (T_STRING 512)] @ base_columns,
       td_constraints = [fk ''contract_id'' ''contracts'' ''RESTRICT'', fk ''changed_by_id'' ''users'' ''SET NULL'', Primary_Key [''id'']]\<rparr>,
     mt_indexes = [(''ix_contract_status_logs_contract_id'', plain_index ''contract_status_logs'' [''contract_id'']),
        (''idx_contract_status_log_contract'', plain_index ''contract_status_logs'' [''contract_id''])]\<rparr>"

definition model_balance :: model_table where
  "model_balance = \<lparr>mt_name = ''inventory_balances'',
     mt_table =
      \<lparr>td_columns = [col ''inventory_id'' T_UUID, col ''product_id'' T_UUID, col ''quantity'' T_INTEGER] @ base_columns,
       td_constraints = [fk ''inventory_id'' ''inventories'' ''CASCADE'', fk ''product_id'' ''products'' ''RESTRICT'',
        Unique_Key (Some ''uq_inventory_product_balance'') [''inventory_id'', ''product_id''], Primary_Key [''id'']]\<rparr>,
     mt_indexes = [(''ix_inventory_balances_product_id'', plain_index ''inventory_balances'' [''product_id''])]\<rparr>"

definition model_invoice :: model_table where
  "model_invoice = \<lparr>mt_name = ''invoices'',
     mt_table =
      \<lparr>td_columns = [col ''number'' (T_STRING 50), col ''contract_id'' T_UUID,
        col ''status'' (T_ENUM ''invoice_status_enum'' [''draft'', ''issued'', ''partially_paid'', ''paid'', ''overdue'', ''cancelled'']),
        col ''period_from'' T_DATE, col ''period_to'' T_DATE, col ''amount'' T_BIGINT, col_null ''due_date'' T_DATE,
        col_null ''issued_at'' T_TIMESTAMPTZ, col_null ''paid_at'' T_TIMESTAMPTZ] @ base_columns,
       td_constraints = [fk ''contract_id'' ''contracts'' ''RESTRICT'',
        Check_Constraint (Some ''ck_invoice_period_order'') ''period_to > period_from'',
        Check_Constraint (Some ''ck_invoice_amount_non_neg'') ''amount >= 0'',
        Unique_Key (Some ''uq_invoice_contract_number'') [''contract_id'', ''number''], Primary_Key [''id'']]\<rparr>,
     mt_indexes = [(''ix_invoices_contract_id'', plain_index ''invoices'' [''contract_id'']),
        (''ix_invoices_status'', plain_index ''invoices'' [''status''])]\<rparr>"

definition model_order :: model_table where
  "model_order = \<lparr>mt_name = ''orders'',
     mt_table =
      \<lparr>td_columns = [col ''client_id'' T_UUID, col ''client_inventory_id'' T_UUID, col_null ''courier_id'' T_UUID,
        col ''payment_method'' (T_ENUM ''payment_method_enum'' [''cash'', ''card'', ''contract'']),
        col ''status'' (T_ENUM ''order_status_enum'' [''new'', ''assigned'', ''in_transit'', ''arrived'', ''delivered'', ''pickup_completed'', ''cancelled'']),
        col ''total_amount'' T_BIGINT, col_default ''capitalization_applied'' T_BOOLEAN ''false'',
        col_default ''sale_type'' (T_ENUM ''sale_type_enum'' [''delivery'', ''warehouse_pickup'']) ''delivery'',
        col_null ''warehouse_id'' T_UUID, col_null ''contract_id'' T_UUID, col ''quantities_reserved'' T_BOOLEAN,
        col_null ''cancellation_reason'' (T_STRING 500), col_null ''notes'' (T_STRING 500)] @ base_columns,
       td_constraints = [fk ''client_id'' ''users'' ''RESTRICT'', fk ''client_inventory_id'' ''inventories'' ''RESTRICT'',
        fk ''courier_id'' ''users'' ''SET NULL'', fk ''warehouse_id'' ''inventories'' ''RESTRICT'',
        fk ''contract_id'' ''contracts'' ''RESTRICT'', Primary_Key [''id'']]\<rparr>,
     mt_indexes = [(''ix_orders_client_id'', plain_index ''orders'' [''client_id'']),
        (''ix_orders_client_inventory_id'', plain_index ''orders'' [''client_inventory_id'']),
        (''ix_orders_courier_id'', plain_index ''orders'' [''courier_id'']),
        (''ix_orders_status'', plain_index ''orders'' [''status'']),
        (''ix_orders_sale_type'', plain_index ''orders'' [''sale_type'']),
        (''ix_orders_warehouse_id'', plain_index ''orders'' [''warehouse_id'']),
        (''ix_orders_contract_id'', plain_index ''orders'' [''contract_id''])]\<rparr>"

definition model_order_item :: model_table where
  "model_order_item = \<lparr>mt_name = ''order_items'',
     mt_table =
      \<lparr>td_columns = [col ''order_id'' T_UUID, col ''product_id'' T_UUID, col ''quantity'' T_INTEGER, col ''unit_price'' T_BIGINT] @ base_columns,
       td_constraints = [fk ''order_id'' ''orders'' ''CASCADE'', fk ''product_id'' ''products'' ''RESTRICT'',
        Check_Constraint (Some ''ck_order_item_quantity_pos'') ''quantity > 0'',
        Check_Constraint (Some ''ck_order_item_price_pos'') ''unit_price >= 0'', Primary_Key [''id'']]\<rparr>,
     mt_indexes = [(''ix_order_items_order_id'', plain_index ''order_items'' [''order_id'']),
        (''ix_order_items_product_id'', plain_index ''order_items'' [''product_id''])]\<rparr>"

definition model_order_status_log :: model_table where
  "model_order_status_log = \<lparr>mt_name = ''order_status_logs'',
     mt_table =
      \<lparr>td_columns = [col ''order_id'' T_UUID,
        col_null ''old_status'' (T_ENUM ''order_status_enum'' [''new'', ''assigned'', ''in_transit'', ''arrived'', ''delivered'', ''pickup_completed'', ''cancelled'']),
        col ''new_status'' (T_ENUM ''order_status_enum'' [''new'', ''assigned'', ''in_transit'', ''arrived'', ''delivered'', ''pickup_completed'', ''cancelled'']),
        col_null ''changed_by_id'' T_UUID, col_null ''reason'' (T_STRING 500)] @ base_columns,
       td_constraints = [fk ''order_id'' ''orders'' ''CASCADE'', fk ''changed_by_id'' ''users'' ''SET NULL'', Primary_Key [''id'']]\<rparr>,
     mt_indexes = [(''ix_order_status_logs_order_id'', plain_index ''order_status_logs'' [''order_id''])]\<rparr>"

definition model_stock_transfer :: model_table where
  "model_stock_transfer = \<lparr>mt_name = ''stock_transfers'',
     mt_table =
      \<lparr>td_columns = [col ''from_id'' T_UUID, col ''to_id'' T_UUID, col ''created_by_id'' T_UUID, col_null ''accepted_by_id'' T_UUID,
        col_null ''order_id'' T_UUID, col_null ''reason'' (T_STRING 255), col_null ''route_sheet_id'' T_UUID,
        col ''type'' (T_ENUM ''transfer_type_enum'' [''COURIER_LOAD'', ''COURIER_RETURN'', ''CLIENT_DELIVERY'', ''CLIENT_RETURN'', ''LOSS_WRITE_OFF'', ''INVENTORY_FINDING'', ''INITIAL_BALANCE'', ''WAREHOUSE_SALE'', ''WAREHOUSE_TARA_RETURN'']),
        col ''status'' (T_ENUM ''transfer_status_enum'' [''DRAFT'', ''COMPLETED'', ''CANCELLED''])] @ base_columns,
       td_constraints = [fk ''from_id'' ''inventories'' ''RESTRICT'', fk ''to_id'' ''inventories'' ''RESTRICT'',
        fk ''created_by_id'' ''users'' ''RESTRICT'', fk ''accepted_by_id'' ''users'' ''RESTRICT'',
        fk ''order_id'' ''orders'' ''RESTRICT'',
        Check_Constraint (Some ''ck_stock_transfer_no_circular'') ''from_id != to_id'',
        Unique_Key (Some ''uq_stock_transfer_route'') [''id'', ''from_id'', ''to_id''], Primary_Key [''id'']]\<rparr>,
     mt_indexes = [(''ix_stock_transfers_from_id'', plain_index ''stock_transfers'' [''from_id'']),
        (''ix_stock_transfers_to_id'', plain_index ''stock_transfers'' [''to_id'']),
        (''ix_stock_transfers_order_id'', plain_index ''stock_transfers'' [''order_id'']),
        (''ix_stock_transfers_route_sheet_id'', plain_index ''stock_transfers'' [''route_sheet_id'']),
        (''ix_stock_transfers_type'', plain_index ''stock_transfers'' [''type'']),
        (''ix_stock_transfers_status'', plain_index ''stock_transfers'' [''status''])]\<rparr>"

definition model_transaction :: model_table where
  "model_transaction = \<lparr>mt_name = ''transactions'',
     mt_table =
      \<lparr>td_columns = [col ''from_id'' T_UUID, col ''to_id'' T_UUID, col_null ''order_id'' T_UUID, col_null ''verified_by_id'' T_UUID,
        col ''amount'' T_BIGINT,
        col ''status'' (T_ENUM ''transaction_status_enum'' [''pending'', ''completed'', ''rejected'']),
        col ''reason'' (T_STRING 255)] @ base_columns,
       td_constraints = [fk ''from_id'' ''accounts'' ''RESTRICT'', fk ''to_id'' ''accounts'' ''RESTRICT'',
        fk ''order_id'' ''orders'' ''SET NULL'', fk ''verified_by_id'' ''users'' ''RESTRICT'',
        Check_Constraint (Some ''ck_transaction_amount_pos'') ''amount > 0'',
        Check_Constraint (Some ''ck_transaction_no_self_transfer'') ''from_id != to_id'', Primary_Key [''id'']]\<rparr>,
     mt_indexes = [(''ix_transactions_order_id'', plain_index ''transactions'' [''order_id'']),
        (''ix_transactions_verified_by_id'', plain_index ''transactions'' [''verified_by_id'']),
        (''idx_transaction_from_status'', plain_index ''transactions'' [''from_id'', ''status'']),
        (''idx_transaction_to_status'', plain_index ''transactions'' [''to_id'', ''status''])]\<rparr>"

definition model_stock_transaction :: model_table where
  "model_stock_transaction = \<lparr>mt_name = ''stock_transactions'',
     mt_table =
      \<lparr>td_columns = [col ''product_id'' T_UUID, col ''transfer_id'' T_UUID, col ''from_id'' T_UUID, col ''to_id'' T_UUID,
        col ''quantity'' T_INTEGER] @ base_columns,
       td_constraints = [fk ''product_id'' ''products'' ''RESTRICT'', fk ''from_id'' ''inventories'' ''RESTRICT'',
        fk ''to_id'' ''inventories'' ''RESTRICT'',
        Check_Constraint (Some ''ck_stock_transaction_quantity_positive'') ''quantity > 0'',
        Foreign_Key (Some ''fk_stock_transaction_strict_route'') [''transfer_id'', ''from_id'', ''to_id''] ''stock_transfers'' [''id'', ''from_id'', ''to_id''] (Some ''CASCADE''),
        Primary_Key [''id'']]\<rparr>,
     mt_indexes = [(''ix_stock_transactions_product_id'', plain_index ''stock_transactions'' [''product_id'']),
        (''ix_stock_transactions_transfer_id'', plain_index ''stock_transactions'' [''transfer_id'']),
        (''ix_stock_transactions_from_id'', plain_index ''stock_transactions'' [''from_id'']),
        (''ix_stock_transactions_to_id'', plain_index ''stock_transactions'' [''to_id'']),
        (''idx_st_product_from'', plain_index ''stock_transactions'' [''product_id'', ''from_id'']),
        (''idx_st_product_to'', plain_index ''stock_transactions'' [''product_id'', ''to_id''])]\<rparr>"

definition model_stock_transfer_item :: model_table where
  "model_stock_transfer_item = \<lparr>mt_name = ''stock_transfer_items'',
     mt_table =
      \<lparr>td_columns = [col ''transfer_id'' T_UUID, col ''product_id'' T_UUID, col ''quantity'' T_INTEGER] @ base_columns,
       td_constraints = [fk ''transfer_id'' ''stock_transfers'' ''CASCADE'', fk ''product_id'' ''products'' ''RESTRICT'',
        Check_Constraint (Some ''ck_stock_transfer_item_quantity_pos'') ''quantity > 0'', Primary_Key [''id'']]\<rparr>,
     mt_indexes = [(''ix_stock_transfer_items_transfer_id'', plain_index ''stock_transfer_items'' [''transfer_id'']),
        (''ix_stock_transfer_items_product_id'', plain_index ''stock_transfer_items'' [''product_id''])]\<rparr>"

definition model_tables :: "model_table list" where
  "model_tables =
     [model_product, model_user, model_account, model_contract, model_identity, model_inventory, model_phone_number,
      model_contract_amendment, model_contract_price_item, model_contract_status_log, model_balance, model_invoice,
      model_order, model_order_item, model_order_status_log, model_stock_transfer, model_transaction,
      model_stock_transaction, model_stock_transfer_item]"

end
