(* ===== verification/MigrationLaws.thy ===== *)
theory MigrationLaws
  imports ModelTables
begin

text \<open>
  Where the migrations lead. The script of the first revision is checked by names; the later ones are followed table by
  table, so that no proof runs all the statements at once.
\<close>

section \<open>After the first revision\<close>

definition init_catalog :: catalog where
  "init_catalog = empty_catalog\<lparr>ct_tables := new_tables init_upgrade, ct_indexes := new_indexes init_upgrade\<rparr>"

lemma init_creatable: "creatable [] [] init_upgrade"
  by code_simp

lemma init_run: "run_ddl init_upgrade empty_catalog = Inr init_catalog"
  using creatable_run [OF init_creatable, of empty_catalog] by (simp add: init_catalog_def empty_catalog_def)

lemma init_ok: "catalog_ok init_catalog"
  using run_ddl_ok [OF init_run empty_catalog_ok] .

definition contracts_init :: table_def where
  "contracts_init = snd (hd (new_tables create_contracts))"

definition items_init :: table_def where
  "items_init = snd (hd (new_tables create_contract_price_items))"

definition orders_init :: table_def where
  "orders_init = snd (hd (new_tables create_orders))"

lemma init_tables:
  "map_of (ct_tables init_catalog) ''contracts'' = Some contracts_init"
  "map_of (ct_tables init_catalog) ''contract_price_items'' = Some items_init"
  "map_of (ct_tables init_catalog) ''orders'' = Some orders_init"
  by code_simp+

lemma init_columns_free:
  "list_all (column_free ''contracts'' init_catalog) [''credit_used'', ''credit_limit'']"
  "column_free ''orders'' init_catalog ''reserved_credit_amount''"
  by code_simp+

section \<open>Triggers\<close>

definition with_triggers :: "catalog \<Rightarrow> catalog" where
  "with_triggers c = c\<lparr>ct_functions := [''update_account_balances'', ''update_inventory_balances''],
     ct_triggers := [(''trigger_update_account_balances'', ''transactions''), (''trigger_update_inventory_balances'', ''stock_transactions'')]\<rparr>"

lemma init_has_tables: "has_table ''transactions'' init_catalog" "has_table ''stock_transactions'' init_catalog"
  by code_simp+

lemma triggers_run:
  assumes "ct_functions c = []" "ct_triggers c = []" "has_table ''transactions'' c" "has_table ''stock_transactions'' c"
  shows "run_ddl triggers_upgrade c = Inr (with_triggers c)"
  using assms by (simp add: triggers_upgrade_def with_triggers_def has_table_def)

section \<open>Quotas\<close>

definition contracts_quotas :: table_def where
  "contracts_quotas = projr (run_local ''contracts'' (take 5 quotas_upgrade) contracts_init)"

definition items_quotas :: table_def where
  "items_quotas = projr (run_local ''contract_price_items'' (take 5 (drop 5 quotas_upgrade)) items_init)"

definition orders_quotas :: table_def where
  "orders_quotas = projr (run_local ''orders'' (drop 10 quotas_upgrade) orders_init)"

lemma quotas_local:
  "run_local ''contracts'' (take 5 quotas_upgrade) contracts_init = Inr contracts_quotas"
  "run_local ''contract_price_items'' (take 5 (drop 5 quotas_upgrade)) items_init = Inr items_quotas"
  "run_local ''orders'' (drop 10 quotas_upgrade) orders_init = Inr orders_quotas"
proof -
  have "\<not> isl (run_local ''contracts'' (take 5 quotas_upgrade) contracts_init)"
    "\<not> isl (run_local ''contract_price_items'' (take 5 (drop 5 quotas_upgrade)) items_init)"
    "\<not> isl (run_local ''orders'' (drop 10 quotas_upgrade) orders_init)" by code_simp+
  then show "run_local ''contracts'' (take 5 quotas_upgrade) contracts_init = Inr contracts_quotas"
    "run_local ''contract_price_items'' (take 5 (drop 5 quotas_upgrade)) items_init = Inr items_quotas"
    "run_local ''orders'' (drop 10 quotas_upgrade) orders_init = Inr orders_quotas"
    by (simp_all add: contracts_quotas_def items_quotas_def orders_quotas_def)
qed

text \<open>Replacing the definition of another table does not tie a column down, unless it refers to it.\<close>

lemma column_free_other:
  assumes "column_free n c k" "\<not> list_ex (references_column n k) (td_constraints t)"
  shows "column_free n (set_table m t c) k"
  using assms by (force simp: column_free_def set_table_def set_key_def list_ex_iff split: prod.splits if_splits)

lemma quotas_run:
  assumes ok: "catalog_ok c"
    and tables: "map_of (ct_tables c) ''contracts'' = Some contracts_init"
      "map_of (ct_tables c) ''contract_price_items'' = Some items_init" "map_of (ct_tables c) ''orders'' = Some orders_init"
    and free: "list_all (column_free ''contracts'' c) [''credit_used'', ''credit_limit'']"
      "column_free ''orders'' c ''reserved_credit_amount''"
  shows "run_ddl quotas_upgrade c = Inr (set_table ''orders'' orders_quotas
    (set_table ''contract_price_items'' items_quotas (set_table ''contracts'' contracts_quotas c)))"
proof -
  define c1 where "c1 = set_table ''contracts'' contracts_quotas c"
  define c2 where "c2 = set_table ''contract_price_items'' items_quotas c1"
  have drops: "dropped_columns (take 5 quotas_upgrade) = [''credit_used'', ''credit_limit'']"
    "dropped_columns (take 5 (drop 5 quotas_upgrade)) = []" "dropped_columns (drop 10 quotas_upgrade) = [''reserved_credit_amount'']"
    by (simp_all add: dropped_columns_def quotas_upgrade_def)
  have r1: "run_ddl (take 5 quotas_upgrade) c = Inr c1"
    unfolding c1_def by (rule local_run [OF tables(1) quotas_local(1) _ ok]) (simp add: drops free [simplified])
  have ok1: "catalog_ok c1" by (rule run_ddl_ok [OF r1 ok])
  have r2: "run_ddl (take 5 (drop 5 quotas_upgrade)) c1 = Inr c2"
    unfolding c2_def by (rule local_run [OF _ quotas_local(2) _ ok1]) (simp_all add: drops c1_def tables)
  have ok2: "catalog_ok c2" by (rule run_ddl_ok [OF r2 ok1])
  have refs: "\<not> list_ex (references_column ''orders'' ''reserved_credit_amount'') (td_constraints contracts_quotas)"
    "\<not> list_ex (references_column ''orders'' ''reserved_credit_amount'') (td_constraints items_quotas)" by code_simp+
  have "column_free ''orders'' c2 ''reserved_credit_amount''"
    unfolding c2_def c1_def by (intro column_free_other free refs)
  then have r3: "run_ddl (drop 10 quotas_upgrade) c2 = Inr (set_table ''orders'' orders_quotas c2)"
    by (intro local_run [OF _ quotas_local(3) _ ok2]) (simp_all add: drops c1_def c2_def tables)
  have "quotas_upgrade = take 5 quotas_upgrade @ take 5 (drop 5 quotas_upgrade) @ drop 10 quotas_upgrade"
    by (simp add: quotas_upgrade_def)
  then have "run_ddl quotas_upgrade c = run_ddl (take 5 quotas_upgrade @ take 5 (drop 5 quotas_upgrade) @ drop 10 quotas_upgrade) c"
    by simp
  also have "\<dots> = Inr (set_table ''orders'' orders_quotas c2)" by (simp add: run_ddl_append r1 r2 r3)
  finally show ?thesis by (simp add: c1_def c2_def)
qed

section \<open>Labels, indexes, soft limits\<close>

definition relabelled :: "string \<Rightarrow> string \<Rightarrow> table_def \<Rightarrow> table_def" where
  "relabelled n v t = t\<lparr>td_columns := map (\<lambda>k. k\<lparr>cl_type := add_value n v (cl_type k)\<rparr>) (td_columns t)\<rparr>"

definition relabel :: "string \<Rightarrow> string \<Rightarrow> catalog \<Rightarrow> catalog" where
  "relabel n v c = c\<lparr>ct_tables := map (apsnd (relabelled n v)) (ct_tables c)\<rparr>"

lemma alter_type_run: "enum_labels n c = vs # vss \<Longrightarrow> v \<notin> set vs \<Longrightarrow> run_ddl [Add_Value n v] c = Inr (relabel n v c)"
  by (simp add: alter_type_def relabel_def relabelled_def)

lemma map_of_relabel: "map_of (ct_tables (relabel n v c)) m = map_option (relabelled n v) (map_of (ct_tables c) m)"
proof -
  have "map_of (map (apsnd f) xs) m = map_option f (map_of xs m)" for f :: "table_def \<Rightarrow> table_def" and xs
    by (induction xs) auto
  then show ?thesis by (simp add: relabel_def)
qed

definition with_indexes :: "ddl list \<Rightarrow> catalog \<Rightarrow> catalog" where
  "with_indexes ds c = c\<lparr>ct_indexes := ct_indexes c @ new_indexes ds\<rparr>"

definition with_extension :: "string \<Rightarrow> catalog \<Rightarrow> catalog" where
  "with_extension n c = c\<lparr>ct_extensions := [n]\<rparr>"

lemma extension_run: "ct_extensions c = [] \<or> ct_extensions c = [n] \<Longrightarrow> execute (Extension_If_Absent n) c = Inr (with_extension n c)"
  by (auto simp: with_extension_def)

text \<open>The indexes for searches: those of the first script, then those of the second but the one that both create.\<close>

definition finance_search :: "ddl list" where
  "finance_search = drop 1 finance_indexes_upgrade"

definition inventory_search :: "ddl list" where
  "inventory_search = take 8 (drop 1 inventory_indexes_upgrade) @ drop 10 inventory_indexes_upgrade"

lemma search_creatable:
  "creatable (map fst (ct_tables init_catalog)) (map fst (ct_indexes init_catalog)) finance_search"
  "creatable (map fst (ct_tables init_catalog)) (map fst (ct_indexes init_catalog @ new_indexes finance_search)) inventory_search"
  by code_simp+

lemma search_only: "new_tables finance_search = []" "new_tables (take 8 (drop 1 inventory_indexes_upgrade)) = []"
  "new_tables (drop 10 inventory_indexes_upgrade) = []"
  by (simp_all add: finance_search_def finance_indexes_upgrade_def inventory_indexes_upgrade_def)

section \<open>The head\<close>

definition quota_catalog :: catalog where
  "quota_catalog = set_table ''orders'' orders_quotas
     (set_table ''contract_price_items'' items_quotas (set_table ''contracts'' contracts_quotas (with_triggers init_catalog)))"

definition labelled_catalog :: catalog where
  "labelled_catalog = relabel ''account_type_enum'' ''admin'' (relabel ''account_type_enum'' ''expense'' quota_catalog)"

definition indexed_catalog :: catalog where
  "indexed_catalog = with_indexes inventory_search (with_indexes finance_search (with_extension ''pg_trgm'' labelled_catalog))"

definition items_head :: table_def where
  "items_head = projr (run_local ''contract_price_items'' (take 1 soft_limits_upgrade) items_quotas)"

definition orders_head :: table_def where
  "orders_head = projr (run_local ''orders'' (drop 1 soft_limits_upgrade) orders_quotas)"

definition head_catalog :: catalog where
  "head_catalog = set_table ''orders'' orders_head (set_table ''contract_price_items'' items_head indexed_catalog)"

lemma to_quotas: "run_ddl (triggers_upgrade @ quotas_upgrade) init_catalog = Inr quota_catalog"
proof -
  have empty: "ct_functions init_catalog = []" "ct_triggers init_catalog = []" by (simp_all add: init_catalog_def empty_catalog_def)
  have run: "run_ddl triggers_upgrade init_catalog = Inr (with_triggers init_catalog)"
    by (rule triggers_run [OF empty init_has_tables])
  have same: "ct_tables (with_triggers c) = ct_tables c" "column_free n (with_triggers c) = column_free n c" for c n
    by (simp_all add: with_triggers_def column_free_def fun_eq_iff)
  have "run_ddl quotas_upgrade (with_triggers init_catalog) = Inr quota_catalog"
    unfolding quota_catalog_def
    by (rule quotas_run) (simp_all only: same init_tables init_columns_free run_ddl_ok [OF run init_ok])
  with run show ?thesis by (simp add: run_ddl_append)
qed

lemma quota_ok: "catalog_ok quota_catalog"
  by (rule run_ddl_ok [OF to_quotas init_ok])

lemma labels:
  "\<exists>vss. enum_labels ''account_type_enum'' quota_catalog =
    [''revenue'', ''cash'', ''card'', ''bank'', ''discount'', ''client'', ''courier''] # vss"
  "\<exists>vss. enum_labels ''account_type_enum'' (relabel ''account_type_enum'' ''expense'' quota_catalog) =
    [''revenue'', ''cash'', ''card'', ''bank'', ''discount'', ''client'', ''courier'', ''expense''] # vss"
proof -
  have "enum_labels ''account_type_enum'' quota_catalog =
    [[''revenue'', ''cash'', ''card'', ''bank'', ''discount'', ''client'', ''courier'']]" by code_simp
  then show "\<exists>vss. enum_labels ''account_type_enum'' quota_catalog =
    [''revenue'', ''cash'', ''card'', ''bank'', ''discount'', ''client'', ''courier''] # vss" by blast
  have "enum_labels ''account_type_enum'' (relabel ''account_type_enum'' ''expense'' quota_catalog) =
    [[''revenue'', ''cash'', ''card'', ''bank'', ''discount'', ''client'', ''courier'', ''expense'']]" by code_simp
  then show "\<exists>vss. enum_labels ''account_type_enum'' (relabel ''account_type_enum'' ''expense'' quota_catalog) =
    [''revenue'', ''cash'', ''card'', ''bank'', ''discount'', ''client'', ''courier'', ''expense''] # vss" by blast
qed

lemma to_labels: "run_ddl account_types_upgrade quota_catalog = Inr labelled_catalog"
proof -
  obtain vss wss where vss: "enum_labels ''account_type_enum'' quota_catalog =
      [''revenue'', ''cash'', ''card'', ''bank'', ''discount'', ''client'', ''courier''] # vss"
    and wss: "enum_labels ''account_type_enum'' (relabel ''account_type_enum'' ''expense'' quota_catalog) =
      [''revenue'', ''cash'', ''card'', ''bank'', ''discount'', ''client'', ''courier'', ''expense''] # wss"
    using labels by blast
  let ?c = "relabel ''account_type_enum'' ''expense'' quota_catalog"
  have r1: "run_ddl [Add_Value ''account_type_enum'' ''expense''] quota_catalog = Inr ?c" by (rule alter_type_run [OF vss]) simp
  have r2: "run_ddl [Add_Value ''account_type_enum'' ''admin''] ?c = Inr labelled_catalog"
    unfolding labelled_catalog_def by (rule alter_type_run [OF wss]) simp
  have "run_ddl ([Add_Value ''account_type_enum'' ''expense''] @ [Add_Value ''account_type_enum'' ''admin'']) quota_catalog = Inr labelled_catalog"
    unfolding run_ddl_append by (simp only: r1 r2 sum.case)
  then show ?thesis by (simp add: account_types_upgrade_def)
qed

lemma creations_run:
  assumes "creatable (map fst (ct_tables c)) (map fst (ct_indexes c)) ds" "new_tables ds = []"
  shows "run_ddl ds c = Inr (with_indexes ds c)"
  using creatable_run [OF assms(1) refl refl] assms(2) by (simp add: with_indexes_def)

lemma creatable_append: "creatable ts xs (ds @ es) \<Longrightarrow> creatable ts xs ds"
  by (induction ts xs ds rule: creatable.induct) auto

lemma names_through:
  "map fst (ct_tables (set_table n t c)) = map fst (ct_tables c)" "map fst (ct_tables (relabel n v c)) = map fst (ct_tables c)"
  "ct_indexes (set_table n t c) = ct_indexes c" "ct_indexes (relabel n v c) = ct_indexes c"
  "ct_tables (with_triggers c) = ct_tables c" "ct_indexes (with_triggers c) = ct_indexes c"
  "ct_tables (with_extension n c) = ct_tables c" "ct_indexes (with_extension n c) = ct_indexes c"
  "ct_tables (with_indexes ds c) = ct_tables c" "ct_indexes (with_indexes ds c) = ct_indexes c @ new_indexes ds"
  "ct_extensions (with_indexes ds c) = ct_extensions c" "ct_extensions (with_extension n c) = [n]"
  "ct_extensions (set_table m t c) = ct_extensions c" "ct_extensions (relabel m v c) = ct_extensions c"
  "ct_extensions (with_triggers c) = ct_extensions c"
  by (auto simp: set_table_def relabel_def with_triggers_def with_extension_def with_indexes_def)

lemma quota_names:
  "map fst (ct_tables quota_catalog) = map fst (ct_tables init_catalog)" "ct_indexes quota_catalog = ct_indexes init_catalog"
  "ct_extensions quota_catalog = []"
  by (simp_all add: quota_catalog_def names_through) (simp add: init_catalog_def empty_catalog_def)

lemma to_indexes: "run_ddl (finance_indexes_upgrade @ inventory_indexes_upgrade) labelled_catalog = Inr indexed_catalog"
proof -
  define c1 where "c1 = with_extension ''pg_trgm'' labelled_catalog"
  define c2 where "c2 = with_indexes finance_search c1"
  define ds where "ds = take 8 (drop 1 inventory_indexes_upgrade)"
  define es where "es = drop 10 inventory_indexes_upgrade"
  define username where "username = hd (drop 9 inventory_indexes_upgrade)"
  have names: "map fst (ct_tables c1) = map fst (ct_tables init_catalog)" "ct_indexes c1 = ct_indexes init_catalog"
    "map fst (ct_tables c2) = map fst (ct_tables init_catalog)" "ct_indexes c2 = ct_indexes init_catalog @ new_indexes finance_search"
    "ct_extensions c2 = [''pg_trgm'']" "ct_extensions labelled_catalog = []"
    by (simp_all add: c1_def c2_def labelled_catalog_def names_through quota_names)
  have eq: "finance_indexes_upgrade = [Extension_If_Absent ''pg_trgm''] @ finance_search"
    by (simp add: finance_search_def finance_indexes_upgrade_def)
  have f1: "run_ddl [Extension_If_Absent ''pg_trgm''] labelled_catalog = Inr c1"
    using extension_run [of labelled_catalog "''pg_trgm''"] names by (simp add: c1_def)
  have f2: "run_ddl finance_search c1 = Inr c2"
    unfolding c2_def by (rule creations_run) (simp_all only: names search_creatable search_only)
  have first: "run_ddl finance_indexes_upgrade labelled_catalog = Inr c2"
    unfolding eq run_ddl_append by (simp only: f1 f2 sum.case)
  have both: "creatable (map fst (ct_tables c2)) (map fst (ct_indexes c2)) (ds @ es)"
    using search_creatable(2) by (simp add: names inventory_search_def ds_def es_def)
  have r1: "run_ddl ds c2 = Inr (with_indexes ds c2)"
    by (rule creations_run [OF creatable_append [OF both]]) (simp only: ds_def search_only)
  have "run_ddl (ds @ es) c2 = Inr (with_indexes (ds @ es) c2)"
    by (rule creations_run [OF both]) (simp add: ds_def es_def inventory_indexes_upgrade_def)
  then have r2: "run_ddl es (with_indexes ds c2) = Inr (with_indexes (ds @ es) c2)" by (simp add: run_ddl_append r1)
  have "''ix_user_username_trgm'' \<in> set (map fst (ct_indexes (with_indexes ds c2)))"
    by (simp add: names_through names finance_search_def finance_indexes_upgrade_def)
  then have r3: "run_ddl [username] (with_indexes ds c2) = Inr (with_indexes ds c2)"
    by (simp add: username_def inventory_indexes_upgrade_def has_relation_def)
  have r0: "run_ddl [Extension_If_Absent ''pg_trgm''] c2 = Inr c2"
    using names by (simp add: c2_def c1_def names_through)
  have "inventory_indexes_upgrade = [Extension_If_Absent ''pg_trgm''] @ ds @ [username] @ es"
    by (simp add: ds_def es_def username_def inventory_indexes_upgrade_def)
  then have "run_ddl inventory_indexes_upgrade c2 = run_ddl ([Extension_If_Absent ''pg_trgm''] @ ds @ [username] @ es) c2" by simp
  also have "\<dots> = Inr (with_indexes (ds @ es) c2)"
    unfolding run_ddl_append [of "[Extension_If_Absent ''pg_trgm'']"] run_ddl_append [of ds] run_ddl_append [of "[username]"]
    by (simp only: r0 r1 r2 r3 sum.case)
  finally have "run_ddl inventory_indexes_upgrade c2 = Inr indexed_catalog"
    by (simp add: indexed_catalog_def inventory_search_def ds_def es_def c1_def c2_def)
  with first show ?thesis by (simp add: run_ddl_append)
qed

lemma indexed_ok: "catalog_ok indexed_catalog"
proof -
  have "run_ddl (account_types_upgrade @ finance_indexes_upgrade @ inventory_indexes_upgrade) quota_catalog = Inr indexed_catalog"
    using to_labels to_indexes by (simp only: run_ddl_append sum.case)
  then show ?thesis by (rule run_ddl_ok [OF _ quota_ok])
qed

lemma soft_local:
  "run_local ''contract_price_items'' (take 1 soft_limits_upgrade) items_quotas = Inr items_head"
  "run_local ''orders'' (drop 1 soft_limits_upgrade) orders_quotas = Inr orders_head"
proof -
  have "\<not> isl (run_local ''contract_price_items'' (take 1 soft_limits_upgrade) items_quotas)"
    "\<not> isl (run_local ''orders'' (drop 1 soft_limits_upgrade) orders_quotas)" by code_simp+
  then show "run_local ''contract_price_items'' (take 1 soft_limits_upgrade) items_quotas = Inr items_head"
    "run_local ''orders'' (drop 1 soft_limits_upgrade) orders_quotas = Inr orders_head"
    by (simp_all add: items_head_def orders_head_def)
qed

lemma unlabelled:
  "relabelled ''account_type_enum'' v items_quotas = items_quotas" "relabelled ''account_type_enum'' v orders_quotas = orders_quotas"
proof -
  have "list_all (\<lambda>k. case cl_type k of T_ENUM m vs \<Rightarrow> m \<noteq> ''account_type_enum'' | _ \<Rightarrow> True) (td_columns items_quotas)"
    "list_all (\<lambda>k. case cl_type k of T_ENUM m vs \<Rightarrow> m \<noteq> ''account_type_enum'' | _ \<Rightarrow> True) (td_columns orders_quotas)"
    by code_simp+
  moreover have "relabelled ''account_type_enum'' v t = t"
    if all: "list_all (\<lambda>k. case cl_type k of T_ENUM m vs \<Rightarrow> m \<noteq> ''account_type_enum'' | _ \<Rightarrow> True) (td_columns t)" for t :: table_def
  proof -
    have "add_value ''account_type_enum'' v (cl_type k) = cl_type k" if "k \<in> set (td_columns t)" for k
      using that all by (cases "cl_type k") (auto simp: list_all_iff)
    then have "map (\<lambda>k. k\<lparr>cl_type := add_value ''account_type_enum'' v (cl_type k)\<rparr>) (td_columns t) = td_columns t"
      by (intro map_idI) simp
    then show ?thesis by (simp add: relabelled_def)
  qed
  ultimately show "relabelled ''account_type_enum'' v items_quotas = items_quotas"
    "relabelled ''account_type_enum'' v orders_quotas = orders_quotas" by blast+
qed

lemma indexed_tables:
  "map_of (ct_tables indexed_catalog) ''contract_price_items'' = Some items_quotas"
  "map_of (ct_tables indexed_catalog) ''orders'' = Some orders_quotas"
  by (simp_all add: indexed_catalog_def names_through labelled_catalog_def map_of_relabel quota_catalog_def unlabelled init_tables)

lemma to_head: "run_ddl soft_limits_upgrade indexed_catalog = Inr head_catalog"
proof -
  define c1 where "c1 = set_table ''contract_price_items'' items_head indexed_catalog"
  have drops: "dropped_columns (take 1 soft_limits_upgrade) = []" "dropped_columns (drop 1 soft_limits_upgrade) = []"
    by (simp_all add: dropped_columns_def soft_limits_upgrade_def)
  have r1: "run_ddl (take 1 soft_limits_upgrade) indexed_catalog = Inr c1"
    unfolding c1_def by (rule local_run [OF indexed_tables(1) soft_local(1) _ indexed_ok]) (simp only: drops list.pred_inject)
  have r2: "run_ddl (drop 1 soft_limits_upgrade) c1 = Inr head_catalog"
    unfolding head_catalog_def c1_def [symmetric]
    by (rule local_run [OF _ soft_local(2) _ run_ddl_ok [OF r1 indexed_ok]]) (simp add: c1_def indexed_tables, simp only: drops list.pred_inject)
  have "run_ddl (take 1 soft_limits_upgrade @ drop 1 soft_limits_upgrade) indexed_catalog = Inr head_catalog"
    by (simp only: run_ddl_append r1 r2 sum.case)
  then show ?thesis by (simp only: append_take_drop_id)
qed

lemma chain_ids: "map rv_id (chain (length revisions) None revisions) =
  [''109a87243062'', ''014cf8e85d99'', ''a1b2c3d4e5f6'', ''1d156127d709'', ''b2c4e8f1a7d3'', ''c3f8a9d4e2b1'', ''d4e5f6a7b8c9'', ''e5f6a7b8c9d0'']"
  by (simp add: revisions_def)

lemma upgrades_are: "upgrades = init_upgrade @ triggers_upgrade @ quotas_upgrade @ account_types_upgrade
    @ finance_indexes_upgrade @ inventory_indexes_upgrade @ soft_limits_upgrade"
  by (simp add: upgrades_def revisions_def)

lemma upgrades_run: "run_ddl upgrades empty_catalog = Inr head_catalog"
proof -
  have "run_ddl (init_upgrade @ (triggers_upgrade @ quotas_upgrade) @ account_types_upgrade
      @ (finance_indexes_upgrade @ inventory_indexes_upgrade) @ soft_limits_upgrade) empty_catalog = Inr head_catalog"
    unfolding run_ddl_append [of init_upgrade] run_ddl_append [of "triggers_upgrade @ quotas_upgrade"]
      run_ddl_append [of account_types_upgrade] run_ddl_append [of "finance_indexes_upgrade @ inventory_indexes_upgrade"]
    by (simp only: init_run to_quotas to_labels to_indexes to_head sum.case)
  then show ?thesis by (simp only: upgrades_are append_assoc)
qed

section \<open>The models\<close>

definition agrees :: "string \<times> table_def \<Rightarrow> model_table \<Rightarrow> bool" where
  "agrees p m \<longleftrightarrow> fst p = mt_name m \<and> set (td_columns (snd p)) = set (td_columns (mt_table m))
     \<and> set (td_constraints (snd p)) = set (td_constraints (mt_table m))"

definition set_default :: "string \<Rightarrow> string \<Rightarrow> column \<Rightarrow> column" where
  "set_default n d k = (if cl_name k = n then k\<lparr>cl_default := Some d\<rparr> else k)"

text \<open>What the database has and the mapped classes do not declare, and the other way round.\<close>

definition deployed :: "model_table \<Rightarrow> model_table" where
  "deployed m =
     (if mt_name m = ''orders'' then
        m\<lparr>mt_table := (mt_table m)\<lparr>td_columns := map (set_default ''quantities_reserved'' ''false'') (td_columns (mt_table m))
            @ [col_default ''quota_exceeded'' T_BOOLEAN ''false'', col_null ''quota_overspend'' T_JSONB]\<rparr>\<rparr>
      else if mt_name m = ''contract_price_items'' then
        m\<lparr>mt_table := \<lparr>td_columns = map (set_default ''quantity'' ''0'' \<circ> set_default ''quantity_used'' ''0'') (td_columns (mt_table m)),
            td_constraints = filter (\<lambda>k. constraint_name k \<noteq> Some ''ck_contract_price_item_quantity_used_le_limit'')
              (td_constraints (mt_table m))\<rparr>\<rparr>
      else m)"

lemma head_tables:
  "ct_tables head_catalog = set_key ''orders'' orders_head (set_key ''contract_price_items'' items_head
     (map (apsnd (relabelled ''account_type_enum'' ''admin'' \<circ> relabelled ''account_type_enum'' ''expense''))
       (set_key ''orders'' orders_quotas (set_key ''contract_price_items'' items_quotas
         (set_key ''contracts'' contracts_quotas (new_tables init_upgrade))))))"
  by (simp add: head_catalog_def indexed_catalog_def labelled_catalog_def quota_catalog_def init_catalog_def names_through
      set_table_def relabel_def with_indexes_def with_extension_def with_triggers_def comp_def apsnd_def map_prod_def split_def)

lemma new_indexes_append: "new_indexes (ds @ es) = new_indexes ds @ new_indexes es"
  by (induction ds rule: new_indexes.induct) auto

lemma head_indexes: "ct_indexes head_catalog = new_indexes init_upgrade @ new_indexes (finance_search @ inventory_search)"
  by (simp add: head_catalog_def indexed_catalog_def labelled_catalog_def names_through quota_names init_catalog_def new_indexes_append)

lemma indexes_agree: "list_all2 (\<lambda>ds m. set (new_indexes ds) = set (mt_indexes m))
    [create_products, create_users, create_accounts, create_contracts, create_identities, create_inventories,
      create_phone_numbers, create_contract_amendments, create_contract_price_items, create_contract_status_logs,
      create_inventory_balances, create_invoices, create_orders, create_order_items, create_order_status_logs,
      create_stock_transfers, create_transactions, create_stock_transactions, create_stock_transfer_items] model_tables"
  by code_simp

lemma same_indexes: "set (new_indexes init_upgrade) = set (concat (map mt_indexes model_tables))"
proof -
  have "set (new_indexes (concat dss)) = set (concat (map mt_indexes ms))"
    if "list_all2 (\<lambda>ds m. set (new_indexes ds) = set (mt_indexes m)) dss ms" for dss ms
    using that by (induction rule: list_all2_induct) (auto simp: new_indexes_append)
  from this [OF indexes_agree] show ?thesis by (simp only: init_upgrade_def)
qed

lemma tables_agree: "list_all2 agrees (ct_tables head_catalog) (map deployed model_tables)"
  unfolding head_tables by code_simp

text \<open>C19. Run from an empty database, the upgrades of the chain of revisions succeed and make the schema that the mapped
  classes declare: the same tables in the same order, with the same columns and constraints, and the same indexes beside
  the search indexes that two revisions add. Where the two differ is written in \<open>deployed\<close>: the columns and defaults
  that only the database has and the one check that only the classes still declare.\<close>

theorem migrations_match_models:
  "\<exists>head. run_ddl upgrades empty_catalog = Inr head
     \<and> catalog_ok head
     \<and> list_all2 agrees (ct_tables head) (map deployed model_tables)
     \<and> set (ct_indexes head) = set (concat (map mt_indexes model_tables))
         \<union> set (new_indexes (finance_indexes_upgrade @ inventory_indexes_upgrade))
     \<and> length (chain (length revisions) None revisions) = length revisions"
proof -
  have "set (new_indexes (finance_search @ inventory_search)) = set (new_indexes (finance_indexes_upgrade @ inventory_indexes_upgrade))"
    by code_simp
  moreover have "length (chain (length revisions) None revisions) = length revisions" by code_simp
  ultimately show ?thesis
    by (intro exI [of _ head_catalog] conjI upgrades_run run_ddl_ok [OF upgrades_run empty_catalog_ok] tables_agree)
      (simp_all only: head_indexes set_append same_indexes)
qed

end
