(* ===== verification/DowngradeLaws.thy ===== *)
theory DowngradeLaws
  imports MigrationLaws
begin

text \<open>
  The way back: from the head to the base, revision by revision. Every table, index, function and trigger goes; the enum types stay.
\<close>

section \<open>Skeletons\<close>

text \<open>What a script of drops looks at: the names of the tables and what they refer to, and the tables of the indexes.\<close>

definition same_skeleton :: "catalog \<Rightarrow> catalog \<Rightarrow> bool" where
  "same_skeleton c d \<longleftrightarrow> list_all2 (\<lambda>p q. fst p = fst q \<and> set (fk_targets (snd p)) = set (fk_targets (snd q))) (ct_tables c) (ct_tables d)
     \<and> ct_indexes c = ct_indexes d \<and> ct_triggers c = ct_triggers d"

fun only_drops :: "ddl \<Rightarrow> bool" where
  "only_drops (Drop_Table n) \<longleftrightarrow> True"
| "only_drops (Drop_Index n) \<longleftrightarrow> True"
| "only_drops _ \<longleftrightarrow> False"

lemma list_all2_filter: "list_all2 R xs ys \<Longrightarrow> (\<And>x y. R x y \<Longrightarrow> P x = Q y) \<Longrightarrow> list_all2 R (filter P xs) (filter Q ys)"
  by (induction rule: list_all2_induct) auto

lemma list_all2_ex: "list_all2 R xs ys \<Longrightarrow> (\<And>x y. R x y \<Longrightarrow> P x = Q y) \<Longrightarrow> list_ex P xs = list_ex Q ys"
  by (induction rule: list_all2_induct) auto

lemma skeleton_names: "same_skeleton c d \<Longrightarrow> map fst (ct_tables c) = map fst (ct_tables d)"
proof -
  have "list_all2 (\<lambda>p q. fst p = fst q \<and> S p q) xs ys \<Longrightarrow> map fst xs = map fst ys" for S and xs ys :: "(string \<times> table_def) list"
    by (induction rule: list_all2_induct) auto
  then show "same_skeleton c d \<Longrightarrow> map fst (ct_tables c) = map fst (ct_tables d)" by (auto simp: same_skeleton_def)
qed

lemma skeleton_execute:
  assumes "same_skeleton c d" "only_drops s" "execute s c = Inr c'"
  shows "\<exists>d'. execute s d = Inr d' \<and> same_skeleton c' d' \<and> ct_functions d' = ct_functions d \<and> ct_extensions d' = ct_extensions d"
  using assms(2,3)
proof (induction s rule: only_drops.induct)
  case (1 n)
  let ?R = "\<lambda>p q. fst p = fst q \<and> set (fk_targets (snd p)) = set (fk_targets (snd q))"
  have tables: "list_all2 ?R (ct_tables c) (ct_tables d)" using assms(1) by (simp add: same_skeleton_def)
  have "has_table n d = has_table n c" using skeleton_names [OF assms(1)] by (simp add: has_table_def)
  moreover have "list_ex (\<lambda>(m, t). m \<noteq> n \<and> n \<in> set (fk_targets t)) (ct_tables c)
      = list_ex (\<lambda>(m, t). m \<noteq> n \<and> n \<in> set (fk_targets t)) (ct_tables d)"
    by (rule list_all2_ex [OF tables]) (auto simp: split_def)
  moreover have "list_all2 ?R (filter (\<lambda>(m, _). m \<noteq> n) (ct_tables c)) (filter (\<lambda>(m, _). m \<noteq> n) (ct_tables d))"
    by (rule list_all2_filter [OF tables]) (auto simp: split_def)
  ultimately show ?case
    using assms(1) 1 by (auto simp: drop_table_def same_skeleton_def split: if_splits)
next
  case (2 n)
  with assms(1) show ?case by (auto simp: same_skeleton_def without_index_def split: if_splits)
qed simp_all

lemma skeleton_run:
  assumes "same_skeleton c d" "list_all only_drops ds" "run_ddl ds c = Inr c'"
  shows "\<exists>d'. run_ddl ds d = Inr d' \<and> same_skeleton c' d' \<and> ct_functions d' = ct_functions d \<and> ct_extensions d' = ct_extensions d"
  using assms
proof (induction ds arbitrary: c d)
  case (Cons s ds)
  then obtain c1 where c1: "execute s c = Inr c1" "run_ddl ds c1 = Inr c'" by (auto split: sum.splits)
  obtain d1 where d1: "execute s d = Inr d1" "same_skeleton c1 d1" "ct_functions d1 = ct_functions d" "ct_extensions d1 = ct_extensions d"
    using skeleton_execute [OF Cons.prems(1) _ c1(1)] Cons.prems(2) by auto
  then show ?case using Cons.IH [OF d1(2) _ c1(2)] Cons.prems(2) by auto
qed auto

lemma init_undone: "undoes init_downgrade init_upgrade"
  by code_simp

lemma init_drops: "list_all only_drops init_downgrade"
  by code_simp

text \<open>The downgrade of the first revision empties every catalog that has the skeleton that its upgrade makes.\<close>

lemma init_down:
  assumes "same_skeleton init_catalog d"
  shows "run_ddl init_downgrade d = Inr (empty_catalog\<lparr>ct_functions := ct_functions d, ct_extensions := ct_extensions d\<rparr>)"
proof -
  have "run_ddl init_downgrade init_catalog = Inr empty_catalog"
    by (rule undo_run [OF init_run empty_catalog_ok init_undone])
  from skeleton_run [OF assms init_drops this] obtain d' where d': "run_ddl init_downgrade d = Inr d'" "same_skeleton empty_catalog d'"
    "ct_functions d' = ct_functions d" "ct_extensions d' = ct_extensions d" by blast
  then have "d' = empty_catalog\<lparr>ct_functions := ct_functions d, ct_extensions := ct_extensions d\<rparr>"
    by (auto simp: same_skeleton_def empty_catalog_def)
  with d'(1) show ?thesis by simp
qed

section \<open>Dropping indexes\<close>

definition without_indexes :: "string list \<Rightarrow> catalog \<Rightarrow> catalog" where
  "without_indexes ns c = c\<lparr>ct_indexes := filter (\<lambda>(m, _). m \<notin> set ns) (ct_indexes c)\<rparr>"

lemma without_indexes_run: "run_ddl (map Drop_Index_If_Present ns) c = Inr (without_indexes ns c)"
proof (induction ns arbitrary: c)
  case Nil
  have "filter (\<lambda>(m, _). True) xs = xs" for xs :: "(string \<times> index_def) list" by (induction xs) auto
  then show ?case by (simp add: without_indexes_def)
next
  case (Cons n ns)
  have "filter (\<lambda>(m, _). m \<notin> set ns) (filter (\<lambda>(m, _). m \<noteq> n) xs) = filter (\<lambda>(m, _). m \<notin> set (n # ns)) xs"
    for xs :: "(string \<times> index_def) list" by (induction xs) auto
  then show ?case by (simp add: Cons without_indexes_def without_index_def)
qed

definition search_names :: "string list" where
  "search_names =
     [''ix_phone_numbers_digits_trgm'', ''ix_identity_local_phone_digits_trgm'', ''ix_product_name_trgm'', ''ix_inventory_name_trgm'',
      ''ix_stock_transaction_product_created_at'', ''ix_stock_transaction_created_at_id'', ''ix_stock_transfer_reason_trgm'',
      ''ix_stock_transfer_accepted_by'', ''ix_stock_transfer_created_by'', ''ix_stock_transfer_created_at_id'',
      ''ix_contract_number_trgm'', ''ix_order_payment_method'', ''ix_account_type_balance'', ''ix_transaction_pending'',
      ''ix_user_username_trgm'', ''ix_account_name_trgm'', ''ix_transaction_reason_trgm'', ''ix_transaction_created_at_id'']"

lemma index_scripts: "inventory_indexes_downgrade @ finance_indexes_downgrade = map Drop_Index_If_Present search_names"
  by (simp add: inventory_indexes_downgrade_def finance_indexes_downgrade_def search_names_def)

lemma index_names:
  "list_all (\<lambda>(m, _). m \<notin> set search_names) (new_indexes init_upgrade)"
  "list_all (\<lambda>(m, _). m \<in> set search_names) (new_indexes (finance_search @ inventory_search))"
  by code_simp+

lemma indexes_dropped: "ct_indexes c = ct_indexes head_catalog \<Longrightarrow> ct_indexes (without_indexes search_names c) = new_indexes init_upgrade"
proof -
  have "filter (\<lambda>(m, _). m \<notin> set search_names) (new_indexes init_upgrade) = new_indexes init_upgrade"
    using index_names(1) by (intro filter_True) (auto simp: list_all_iff)
  moreover have "filter (\<lambda>(m, _). m \<notin> set search_names) (new_indexes (finance_search @ inventory_search)) = []"
    using index_names(2) by (intro filter_False) (auto simp: list_all_iff)
  ultimately show "ct_indexes c = ct_indexes head_catalog \<Longrightarrow> ct_indexes (without_indexes search_names c) = new_indexes init_upgrade"
    by (simp add: without_indexes_def head_indexes)
qed

section \<open>Back to the quotas\<close>

lemma head_table:
  "map_of (ct_tables head_catalog) ''orders'' = Some orders_head"
  "map_of (ct_tables head_catalog) ''contract_price_items'' = Some items_head"
  "map_of (ct_tables head_catalog) ''contracts'' =
     Some (relabelled ''account_type_enum'' ''admin'' (relabelled ''account_type_enum'' ''expense'' contracts_quotas))"
  using indexed_tables
  by (simp_all add: head_catalog_def indexed_catalog_def names_through labelled_catalog_def map_of_relabel quota_catalog_def init_tables)

lemma head_ok: "catalog_ok head_catalog"
  by (rule run_ddl_ok [OF upgrades_run empty_catalog_ok])

lemma head_columns_free:
  "list_all (column_free ''orders'' head_catalog) [''quota_overspend'', ''quota_exceeded'', ''quantities_reserved'']"
  "list_all (column_free ''contract_price_items'' head_catalog) [''quantity_used'', ''quantity'']"
  unfolding column_free_def head_tables head_indexes by code_simp+

definition orders_soft :: table_def where
  "orders_soft = projr (run_local ''orders'' (take 2 soft_limits_downgrade) orders_head)"

definition items_soft :: table_def where
  "items_soft = projr (run_local ''contract_price_items'' (drop 2 soft_limits_downgrade) items_head)"

definition orders_back :: table_def where
  "orders_back = projr (run_local ''orders'' (take 2 quotas_downgrade) orders_soft)"

definition items_back :: table_def where
  "items_back = projr (run_local ''contract_price_items'' (take 5 (drop 2 quotas_downgrade)) items_soft)"

definition contracts_back :: table_def where
  "contracts_back = projr (run_local ''contracts'' (drop 7 quotas_downgrade)
     (relabelled ''account_type_enum'' ''admin'' (relabelled ''account_type_enum'' ''expense'' contracts_quotas)))"

lemma not_isl_projr: "\<not> isl x \<Longrightarrow> x = Inr (projr x)"
  by (cases x) auto

lemma back_local:
  "run_local ''orders'' (take 2 soft_limits_downgrade) orders_head = Inr orders_soft"
  "run_local ''contract_price_items'' (drop 2 soft_limits_downgrade) items_head = Inr items_soft"
  "run_local ''orders'' (take 2 quotas_downgrade) orders_soft = Inr orders_back"
  "run_local ''contract_price_items'' (take 5 (drop 2 quotas_downgrade)) items_soft = Inr items_back"
  "run_local ''contracts'' (drop 7 quotas_downgrade)
     (relabelled ''account_type_enum'' ''admin'' (relabelled ''account_type_enum'' ''expense'' contracts_quotas)) = Inr contracts_back"
  unfolding orders_back_def items_back_def contracts_back_def orders_soft_def items_soft_def
  by (rule not_isl_projr; code_simp)+

text \<open>What these tables refer to is what they referred to at first.\<close>

lemma same_targets:
  "set (fk_targets orders_back) = set (fk_targets orders_init)" "set (fk_targets items_back) = set (fk_targets items_init)"
  "set (fk_targets contracts_back) = set (fk_targets contracts_init)"
  by code_simp+

lemma no_references:
  "\<not> list_ex (references_column ''contract_price_items'' k) (td_constraints orders_soft)"
  "\<not> list_ex (references_column ''contract_price_items'' k) (td_constraints orders_back)"
  "\<not> list_ex (references_column ''orders'' k) (td_constraints items_soft)"
proof -
  have no: "\<not> list_ex (references_column n k) cs" if "n \<notin> set (concat (map constraint_target cs))" for n cs
    using that by (induction cs) (auto elim: references_column.elims)
  have "''contract_price_items'' \<notin> set (fk_targets orders_soft)" "''contract_price_items'' \<notin> set (fk_targets orders_back)"
    "''orders'' \<notin> set (fk_targets items_soft)" by code_simp+
  then show "\<not> list_ex (references_column ''contract_price_items'' k) (td_constraints orders_soft)"
    "\<not> list_ex (references_column ''contract_price_items'' k) (td_constraints orders_back)"
    "\<not> list_ex (references_column ''orders'' k) (td_constraints items_soft)" by (simp_all add: no fk_targets_def)
qed

lemma column_free_fewer: "column_free n c k \<Longrightarrow> column_free n (without_indexes ns c) k"
  by (auto simp: column_free_def without_indexes_def list_ex_iff)

lemma same_targets_between:
  "set (fk_targets orders_quotas) = set (fk_targets orders_init)" "set (fk_targets items_quotas) = set (fk_targets items_init)"
  "set (fk_targets contracts_quotas) = set (fk_targets contracts_init)"
  "set (fk_targets orders_head) = set (fk_targets orders_init)" "set (fk_targets items_head) = set (fk_targets items_init)"
  "set (fk_targets orders_soft) = set (fk_targets orders_init)" "set (fk_targets items_soft) = set (fk_targets items_init)"
  by code_simp+

section \<open>The whole way back\<close>

definition soft_undone :: catalog where
  "soft_undone = set_table ''contract_price_items'' items_soft (set_table ''orders'' orders_soft head_catalog)"

definition search_undone :: catalog where
  "search_undone = without_indexes search_names soft_undone"

definition quotas_undone :: catalog where
  "quotas_undone = set_table ''contracts'' contracts_back (set_table ''contract_price_items'' items_back
     (set_table ''orders'' orders_back search_undone))"

lemma from_head: "run_ddl soft_limits_downgrade head_catalog = Inr soft_undone"
proof -
  define c1 where "c1 = set_table ''orders'' orders_soft head_catalog"
  have drops: "dropped_columns (take 2 soft_limits_downgrade) = [''quota_overspend'', ''quota_exceeded'']"
    "dropped_columns (drop 2 soft_limits_downgrade) = []" by (simp_all add: dropped_columns_def soft_limits_downgrade_def)
  have r1: "run_ddl (take 2 soft_limits_downgrade) head_catalog = Inr c1"
    unfolding c1_def by (rule local_run [OF head_table(1) back_local(1) _ head_ok]) (use head_columns_free(1) in \<open>simp add: drops\<close>)
  have r2: "run_ddl (drop 2 soft_limits_downgrade) c1 = Inr soft_undone"
    unfolding soft_undone_def c1_def [symmetric]
    by (rule local_run [OF _ back_local(2) _ run_ddl_ok [OF r1 head_ok]]) (simp add: c1_def head_table, simp only: drops list.pred_inject)
  have "run_ddl (take 2 soft_limits_downgrade @ drop 2 soft_limits_downgrade) head_catalog = Inr soft_undone"
    by (simp only: run_ddl_append r1 r2 sum.case)
  then show ?thesis by (simp only: append_take_drop_id)
qed

lemma from_search: "run_ddl (inventory_indexes_downgrade @ finance_indexes_downgrade) soft_undone = Inr search_undone"
  unfolding index_scripts search_undone_def by (rule without_indexes_run)

lemma search_undone_ok: "catalog_ok search_undone"
  by (rule run_ddl_ok [OF from_search run_ddl_ok [OF from_head head_ok]])

lemma search_undone_tables:
  "map_of (ct_tables search_undone) ''orders'' = Some orders_soft"
  "map_of (ct_tables search_undone) ''contract_price_items'' = Some items_soft"
  "map_of (ct_tables search_undone) ''contracts'' =
     Some (relabelled ''account_type_enum'' ''admin'' (relabelled ''account_type_enum'' ''expense'' contracts_quotas))"
  by (simp_all add: search_undone_def without_indexes_def soft_undone_def head_table)

lemma undone_columns_free:
  "column_free ''orders'' search_undone ''quantities_reserved''"
  "list_all (column_free ''contract_price_items'' (set_table ''orders'' orders_back search_undone)) [''quantity_used'', ''quantity'']"
proof -
  have "column_free ''orders'' soft_undone ''quantities_reserved''"
    unfolding soft_undone_def
    by (rule column_free_other [OF _ no_references(3)]) (use head_columns_free(1) in \<open>simp add: column_free_set_table\<close>)
  then show "column_free ''orders'' search_undone ''quantities_reserved''"
    unfolding search_undone_def by (rule column_free_fewer)
  have "column_free ''contract_price_items'' (set_table ''orders'' orders_back search_undone) k"
    if "k \<in> {''quantity_used'', ''quantity''}" for k
  proof -
    have "column_free ''contract_price_items'' head_catalog k" using that head_columns_free(2) by auto
    then have "column_free ''contract_price_items'' (set_table ''orders'' orders_soft head_catalog) k"
      by (rule column_free_other [OF _ no_references(1)])
    then have "column_free ''contract_price_items'' soft_undone k"
      unfolding soft_undone_def by (simp only: column_free_set_table)
    then have "column_free ''contract_price_items'' search_undone k"
      unfolding search_undone_def by (rule column_free_fewer)
    then show ?thesis by (rule column_free_other [OF _ no_references(2)])
  qed
  then show "list_all (column_free ''contract_price_items'' (set_table ''orders'' orders_back search_undone)) [''quantity_used'', ''quantity'']"
    by simp
qed

lemma from_quotas: "run_ddl quotas_downgrade search_undone = Inr quotas_undone"
proof -
  define c1 where "c1 = set_table ''orders'' orders_back search_undone"
  define c2 where "c2 = set_table ''contract_price_items'' items_back c1"
  have drops: "dropped_columns (take 2 quotas_downgrade) = [''quantities_reserved'']"
    "dropped_columns (take 5 (drop 2 quotas_downgrade)) = [''quantity_used'', ''quantity'']" "dropped_columns (drop 7 quotas_downgrade) = []"
    by (simp_all add: dropped_columns_def quotas_downgrade_def)
  have r1: "run_ddl (take 2 quotas_downgrade) search_undone = Inr c1"
    unfolding c1_def by (rule local_run [OF search_undone_tables(1) back_local(3) _ search_undone_ok])
      (use undone_columns_free(1) in \<open>simp add: drops\<close>)
  have ok1: "catalog_ok c1" by (rule run_ddl_ok [OF r1 search_undone_ok])
  have r2: "run_ddl (take 5 (drop 2 quotas_downgrade)) c1 = Inr c2"
    unfolding c2_def by (rule local_run [OF _ back_local(4) _ ok1])
      (simp add: c1_def search_undone_tables, simp only: drops c1_def undone_columns_free)
  have r3: "run_ddl (drop 7 quotas_downgrade) c2 = Inr quotas_undone"
    unfolding quotas_undone_def c1_def [symmetric] c2_def [symmetric]
    by (rule local_run [OF _ back_local(5) _ run_ddl_ok [OF r2 ok1]])
      (simp add: c1_def c2_def search_undone_tables, simp only: drops list.pred_inject)
  have "quotas_downgrade = take 2 quotas_downgrade @ take 5 (drop 2 quotas_downgrade) @ drop 7 quotas_downgrade"
    by (simp add: quotas_downgrade_def)
  then have "run_ddl quotas_downgrade search_undone =
      run_ddl (take 2 quotas_downgrade @ take 5 (drop 2 quotas_downgrade) @ drop 7 quotas_downgrade) search_undone" by simp
  also have "\<dots> = Inr quotas_undone" by (simp only: run_ddl_append r1 r2 r3 sum.case)
  finally show ?thesis .
qed

definition triggers_undone :: catalog where
  "triggers_undone = quotas_undone\<lparr>ct_functions := [], ct_triggers := []\<rparr>"

lemma undone_rest:
  "ct_functions quotas_undone = [''update_account_balances'', ''update_inventory_balances'']"
  "ct_triggers quotas_undone = [(''trigger_update_account_balances'', ''transactions''),
     (''trigger_update_inventory_balances'', ''stock_transactions'')]"
  "ct_extensions quotas_undone = [''pg_trgm'']" "map fst (ct_tables quotas_undone) = map fst (ct_tables init_catalog)"
  "ct_indexes quotas_undone = new_indexes init_upgrade"
proof -
  show "ct_indexes quotas_undone = new_indexes init_upgrade"
    using indexes_dropped [of soft_undone] by (simp add: quotas_undone_def search_undone_def names_through soft_undone_def)
next
  show "map fst (ct_tables quotas_undone) = map fst (ct_tables init_catalog)"
    by (simp add: quotas_undone_def search_undone_def without_indexes_def soft_undone_def names_through head_catalog_def
        indexed_catalog_def labelled_catalog_def quota_names)
qed (simp_all add: quotas_undone_def search_undone_def without_indexes_def soft_undone_def head_catalog_def indexed_catalog_def
    labelled_catalog_def quota_catalog_def set_table_def relabel_def with_indexes_def with_extension_def with_triggers_def)

lemma from_triggers: "run_ddl triggers_downgrade quotas_undone = Inr triggers_undone"
proof -
  have "has_table ''transactions'' quotas_undone" "has_table ''stock_transactions'' quotas_undone"
    using init_has_tables by (simp_all add: has_table_def undone_rest del: set_map)
  then show ?thesis
    by (simp add: triggers_downgrade_def triggers_undone_def has_table_def undone_rest(1,2))
qed

lemma skeleton_set_key:
  assumes "list_all2 (\<lambda>p q. fst p = fst q \<and> set (fk_targets (snd p)) = set (fk_targets (snd q))) xs ys" "distinct (map fst xs)"
    and "map_of xs n = Some t" "set (fk_targets v) = set (fk_targets t)"
  shows "list_all2 (\<lambda>p q. fst p = fst q \<and> set (fk_targets (snd p)) = set (fk_targets (snd q))) xs (set_key n v ys)"
proof -
  have "map_of xs n = Some t \<longrightarrow> ?thesis" using assms(1,2)
  proof (induction rule: list_all2_induct)
    case (Cons x xs y ys)
    have "set_key n v ys = ys" if "n \<notin> fst ` set ys" for ys using that by (induction ys) (auto simp: set_key_def)
    moreover have "map fst xs = map fst ys" using Cons.hyps(2) by (induction rule: list_all2_induct) auto
    then have "fst ` set ys = fst ` set xs" by (metis set_map)
    ultimately show ?case using Cons assms(4) by (cases x; cases y) (auto simp: set_key_def)
  qed (simp add: set_key_def)
  with assms(3) show ?thesis by simp
qed

lemma undone_skeleton: "same_skeleton init_catalog triggers_undone"
proof -
  let ?R = "\<lambda>p q. fst p = fst q \<and> set (fk_targets (snd p)) = set (fk_targets (snd q))"
  have distinct: "distinct (map fst (new_tables init_upgrade))"
    using catalog_okD(1) [OF init_ok] by (simp add: init_catalog_def)
  have start: "list_all2 ?R xs xs" for xs :: "(string \<times> table_def) list" by (simp add: list_all2_refl)
  have relabels: "list_all2 ?R xs (map (apsnd (relabelled m v \<circ> relabelled m w)) ys)" if "list_all2 ?R xs ys" for xs ys m v w
    using that by (simp add: list_all2_map2 relabelled_def)
  have tables: "map_of (new_tables init_upgrade) ''contracts'' = Some contracts_init"
    "map_of (new_tables init_upgrade) ''contract_price_items'' = Some items_init" "map_of (new_tables init_upgrade) ''orders'' = Some orders_init"
    using init_tables by (simp_all add: init_catalog_def)
  note contracts = skeleton_set_key [OF _ distinct tables(1)] and items = skeleton_set_key [OF _ distinct tables(2)]
    and orders = skeleton_set_key [OF _ distinct tables(3)]
  have tables': "ct_tables triggers_undone = set_key ''contracts'' contracts_back (set_key ''contract_price_items'' items_back
      (set_key ''orders'' orders_back (set_key ''contract_price_items'' items_soft (set_key ''orders'' orders_soft (ct_tables head_catalog)))))"
    by (simp add: triggers_undone_def quotas_undone_def search_undone_def soft_undone_def set_table_def without_indexes_def)
  have "list_all2 ?R (new_tables init_upgrade) (ct_tables triggers_undone)"
    unfolding tables' head_tables
    by (intro contracts items orders relabels start same_targets same_targets_between)
  then show ?thesis
    by (simp add: same_skeleton_def init_catalog_def empty_catalog_def triggers_undone_def undone_rest)
qed

lemma downgrades_are: "downgrades = soft_limits_downgrade @ inventory_indexes_downgrade @ finance_indexes_downgrade
    @ account_types_downgrade @ quotas_downgrade @ triggers_downgrade @ init_downgrade"
  by (simp add: downgrades_def revisions_def)

lemma downgrades_run: "run_ddl downgrades head_catalog = Inr (empty_catalog\<lparr>ct_extensions := [''pg_trgm'']\<rparr>)"
proof -
  have "run_ddl init_downgrade triggers_undone = Inr (empty_catalog\<lparr>ct_extensions := [''pg_trgm'']\<rparr>)"
    using init_down [OF undone_skeleton] by (simp add: triggers_undone_def undone_rest empty_catalog_def)
  then have "run_ddl (soft_limits_downgrade @ (inventory_indexes_downgrade @ finance_indexes_downgrade) @ quotas_downgrade
      @ triggers_downgrade @ init_downgrade) head_catalog = Inr (empty_catalog\<lparr>ct_extensions := [''pg_trgm'']\<rparr>)"
    unfolding run_ddl_append [of soft_limits_downgrade] run_ddl_append [of "inventory_indexes_downgrade @ finance_indexes_downgrade"]
      run_ddl_append [of quotas_downgrade] run_ddl_append [of triggers_downgrade]
    by (simp only: from_head from_search from_quotas from_triggers sum.case)
  then show ?thesis by (simp only: downgrades_are account_types_downgrade_def append_Nil append_assoc)
qed

text \<open>The first revision's downgrade takes back its upgrade from every sound catalog, whatever else is in it.\<close>

lemma init_roundtrip: "catalog_ok c \<Longrightarrow> run_ddl init_upgrade c = Inr c' \<Longrightarrow> run_ddl init_downgrade c' = Inr c"
  by (rule undo_run [OF _ _ init_undone])

lemma chain_roundtrip:
  "run_ddl (upgrades @ downgrades) empty_catalog = Inr (empty_catalog\<lparr>ct_extensions := [''pg_trgm'']\<rparr>)"
  by (simp only: run_ddl_append upgrades_run downgrades_run sum.case)

section \<open>The types stay\<close>

definition init_types :: enum_types where
  "init_types =
     [(''product_type_enum'', [''water'', ''container'', ''equipment'']),
      (''user_role_enum'', [''system'', ''admin'', ''accountant'', ''storekeeper'', ''cashier'', ''courier'', ''client_b2c'', ''client_b2b'']),
      (''account_type_enum'', [''revenue'', ''cash'', ''card'', ''bank'', ''discount'', ''client'', ''courier'']),
      (''contract_status_enum'', [''draft'', ''active'', ''suspended'', ''terminated'', ''expired'']),
      (''auth_provider_enum'', [''local'', ''google'', ''telegram'', ''apple'']),
      (''inventory_type_enum'', [''WAREHOUSE'', ''COURIER'', ''CLIENT'', ''VIRTUAL_LOSS'', ''VIRTUAL_VENDOR'']),
      (''invoice_status_enum'', [''draft'', ''issued'', ''partially_paid'', ''paid'', ''overdue'', ''cancelled'']),
      (''payment_method_enum'', [''cash'', ''card'', ''contract'']),
      (''order_status_enum'', [''new'', ''assigned'', ''in_transit'', ''arrived'', ''delivered'', ''pickup_completed'', ''cancelled'']),
      (''sale_type_enum'', [''delivery'', ''warehouse_pickup'']),
      (''transfer_type_enum'', [''COURIER_LOAD'', ''COURIER_RETURN'', ''CLIENT_DELIVERY'', ''CLIENT_RETURN'', ''LOSS_WRITE_OFF'', ''INVENTORY_FINDING'',
         ''INITIAL_BALANCE'', ''WAREHOUSE_SALE'', ''WAREHOUSE_TARA_RETURN'']),
      (''transfer_status_enum'', [''DRAFT'', ''COMPLETED'', ''CANCELLED'']),
      (''transaction_status_enum'', [''pending'', ''completed'', ''rejected''])]"

definition head_types :: enum_types where
  "head_types = set_key ''account_type_enum''
     [''revenue'', ''cash'', ''card'', ''bank'', ''discount'', ''client'', ''courier'', ''expense'', ''admin''] init_types"

definition type_memo :: "string list" where
  "type_memo = rev (map fst init_types)"

lemma init_types_made: "create_types (concat (map enums_made init_upgrade)) ([], []) = Inr (type_memo, init_types)"
  by code_simp

lemma init_creates: "list_all creates_only init_upgrade"
  by code_simp

lemma init_first: "\<exists>t ds. init_upgrade = Create_Table ''products'' t # ds
    \<and> enums_in t = [(''product_type_enum'', [''water'', ''container'', ''equipment''])]"
  unfolding init_upgrade_def create_products_def by (simp add: enums_in_def base_columns_def col_def col_null_def col_default_def)

lemma later_untyped:
  "list_all untyped (triggers_upgrade @ quotas_upgrade)"
  "list_all untyped (finance_indexes_upgrade @ inventory_indexes_upgrade @ soft_limits_upgrade)"
  "list_all untyped downgrades"
  by code_simp+

lemma init_typed: "run_types init_upgrade ([], ty) = Inr (memo, ty') \<Longrightarrow> ty' = ty @ init_types"
  using create_types_adds [of "concat (map enums_made init_upgrade)" "[]" ty "(memo, ty')"] init_types_made
  by (auto simp: run_types_creates [OF init_creates])

text \<open>At the head every column of an enum type has the labels of its type.\<close>

lemma labels_agree: "list_all (\<lambda>(_, t). list_all (\<lambda>e. e \<in> set head_types) (enums_in t)) (ct_tables head_catalog)"
  unfolding head_tables by code_simp

lemma type_exists:
  assumes "''product_type_enum'' \<in> fst ` set ty"
  shows "run_db (init_upgrade @ ds) (c, ty) = Inl Duplicate_Object"
proof -
  obtain t rest where "init_upgrade @ ds = Create_Table ''products'' t # rest"
      "enums_in t = [(''product_type_enum'', [''water'', ''container'', ''equipment''])]"
    using init_first by (metis append_Cons)
  with assms show ?thesis by (simp add: run_db_def execute_db_def)
qed

lemma labels_added: "run_types account_types_upgrade (memo, init_types) = Inr (memo, head_types)"
  by (simp add: account_types_upgrade_def init_types_def head_types_def set_key_def)

lemma upgraded_types: "run_types upgrades ([], []) = Inr (type_memo, head_types)"
proof -
  let ?last = "finance_indexes_upgrade @ inventory_indexes_upgrade @ soft_limits_upgrade"
  have "run_types init_upgrade ([], []) = Inr (type_memo, init_types)"
    by (simp only: run_types_creates [OF init_creates] init_types_made)
  then have "run_types (init_upgrade @ (triggers_upgrade @ quotas_upgrade) @ account_types_upgrade @ ?last) ([], [])
      = Inr (type_memo, head_types)"
    unfolding run_types_append [of init_upgrade] run_types_append [of "triggers_upgrade @ quotas_upgrade"]
      run_types_append [of account_types_upgrade]
    by (simp only: labels_added untyped_run [OF later_untyped(1)] untyped_run [OF later_untyped(2)] sum.case)
  then show ?thesis by (simp only: upgrades_are append_assoc)
qed

text \<open>
  C20. Downgrading does not take back everything. From any sound catalog, with any enum types in the database, the first
  revision's upgrade, if it succeeds, adds its thirteen enum types, and its downgrade restores every table, index, function and trigger
  but leaves all the types; so upgrading again fails, because the first type exists already. The same holds of the whole chain: an
  empty database upgraded to the head and downgraded to the base keeps the extension \<open>pg_trgm\<close> and the types, with the labels
  that were added on the way, and cannot be upgraded again.
\<close>

theorem downgrade_leaves_enum_types:
  assumes "catalog_ok c" and "run_db init_upgrade (c, ty) = Inr (c', ty')"
  shows "ty' = ty @ init_types \<and> length init_types = 13
    \<and> run_db init_downgrade (c', ty') = Inr (c, ty')
    \<and> run_db init_upgrade (c, ty') = Inl Duplicate_Object
    \<and> run_db upgrades (empty_catalog, []) = Inr (head_catalog, head_types)
    \<and> run_db downgrades (head_catalog, head_types) = Inr (empty_catalog\<lparr>ct_extensions := [''pg_trgm'']\<rparr>, head_types)
    \<and> run_db upgrades (empty_catalog\<lparr>ct_extensions := [''pg_trgm'']\<rparr>, head_types) = Inl Duplicate_Object"
proof -
  obtain memo where "run_ddl init_upgrade c = Inr c'" and types: "run_types init_upgrade ([], ty) = Inr (memo, ty')"
    using assms(2) creates_tables [OF _ init_creates] by (fastforce simp: run_db_iff)
  then have "run_ddl init_downgrade c' = Inr c" by (intro init_roundtrip [OF assms(1)])
  moreover have "run_types init_downgrade st = Inr st" for st
    using later_untyped(3) by (intro untyped_run) (simp add: downgrades_are)
  ultimately have down: "run_db init_downgrade (c', ty') = Inr (c, ty')" by (rule run_db_parts)
  have named: "''product_type_enum'' \<in> fst ` set (ty @ init_types)" "''product_type_enum'' \<in> fst ` set head_types"
    by (simp_all add: init_types_def head_types_def set_key_def)
  note upgraded_types
  then have "run_db upgrades (empty_catalog, []) = Inr (head_catalog, head_types)" by (rule run_db_parts [OF upgrades_run])
  moreover have "run_db downgrades (head_catalog, head_types) = Inr (empty_catalog\<lparr>ct_extensions := [''pg_trgm'']\<rparr>, head_types)"
    by (rule run_db_parts [OF downgrades_run untyped_run [OF later_untyped(3)]])
  moreover have "length init_types = 13" by (simp add: init_types_def)
  ultimately show ?thesis
    using down init_typed [OF types] type_exists [OF named(1), of "[]"] type_exists [OF named(2)] by (simp add: upgrades_are)
qed

theorem downgrade_leaves_enum_types_witness:
  "\<exists>c' ty'. run_db init_upgrade (empty_catalog, []) = Inr (c', ty') \<and> run_db init_downgrade (c', ty') = Inr (empty_catalog, init_types)"
proof -
  have "run_types init_upgrade ([], []) = Inr (type_memo, init_types)"
    by (simp add: run_types_creates [OF init_creates] init_types_made)
  then have run: "run_db init_upgrade (empty_catalog, []) = Inr (init_catalog, init_types)" by (rule run_db_parts [OF init_run])
  from downgrade_leaves_enum_types [OF empty_catalog_ok run] run show ?thesis by auto
qed

end
