(* ===== verification/DataMigrations.thy ===== *)
theory DataMigrations
  imports Finances Search
begin

text \<open>
  What the migrations under \<open>alembic/versions\<close> do to rows rather than to the schema: the
  archiving of the walk-in customer's spare accounts (\<open>e5f6a7b8c9d0\<close>), the check on the old
  credit columns and the flag computed from them (\<open>a1b2c3d4e5f6\<close>), and the cutting of the
  trigger scripts into statements (\<open>014cf8e85d99\<close>). An exception that aborts an upgrade is a
  value of \<open>migration_error\<close>.
\<close>

datatype migration_error = Duplicates_With_Balance nat | Credit_Left nat

section \<open>\<open>e5f6a7b8c9d0_walkin_dedupe_client_accounts\<close>\<close>

definition walkin_client_account :: "account_row \<Rightarrow> bool" where
  "walkin_client_account a \<longleftrightarrow> acc_user_id a = WALKIN_USER_ID \<and> acc_type a = AT_CLIENT \<and> is_active a"

definition walkin_survivor :: "db \<Rightarrow> account_row option" where
  "walkin_survivor s = limit_1 (sort_key (\<lambda>a. (created_at a, row_id a)) (filter walkin_client_account (accounts s)))"

definition bad_duplicates :: "uuid \<Rightarrow> db \<Rightarrow> nat" where
  "bad_duplicates survivor s =
     length (filter (\<lambda>a. walkin_client_account a \<and> row_id a \<noteq> survivor \<and> acc_balance a \<noteq> 0) (accounts s))"

definition archive_duplicates :: "uuid \<Rightarrow> db \<Rightarrow> db" where
  "archive_duplicates survivor s = s\<lparr>accounts := map (\<lambda>a.
     if walkin_client_account a \<and> row_id a \<noteq> survivor then a\<lparr>is_active := False\<rparr> else a) (accounts s)\<rparr>"

definition walkin_dedupe :: "db \<Rightarrow> migration_error + db" where
  "walkin_dedupe s = (case walkin_survivor s of
     None \<Rightarrow> Inr s
   | Some survivor \<Rightarrow>
       let bad_count = bad_duplicates (row_id survivor) s in
       if bad_count > 0 then Inl (Duplicates_With_Balance bad_count)
       else Inr (archive_duplicates (row_id survivor) s))"

section \<open>\<open>a1b2c3d4e5f6_contract_quantity_quotas\<close>\<close>

text \<open>The columns of the first revision that this one drops, and what it looks at beside them.\<close>

record old_contract =
  old_credit_limit :: int
  old_credit_used :: int

record old_order =
  old_status :: order_status
  old_reserved_credit_amount :: "int option"

definition credit_preflight :: "old_contract list \<Rightarrow> migration_error + unit" where
  "credit_preflight cs =
     (let row = length (filter (\<lambda>c. old_credit_used c \<noteq> 0 \<or> old_credit_limit c \<noteq> 0) cs) in
      if row > 0 then Inl (Credit_Left row) else Inr ())"

text \<open>\<open>quantities_reserved\<close> after the statement that fills it; its default is false.\<close>

definition backfilled_reservation :: "old_order \<Rightarrow> bool" where
  "backfilled_reservation ord = (case old_reserved_credit_amount ord of
     None \<Rightarrow> False
   | Some n \<Rightarrow> n > 0 \<and> old_status ord \<notin> {OS_DELIVERED, OS_PICKUP_COMPLETED, OS_CANCELLED})"

section \<open>\<open>014cf8e85d99_triggers\<close>\<close>

text \<open>\<open>str.splitlines\<close>: a line ends at one of these characters, a carriage return takes the line feed after it.\<close>

definition is_linebreak :: "char \<Rightarrow> bool" where
  "is_linebreak c \<longleftrightarrow> of_char c \<in> {10, 11, 12, 13, 28, 29, 30, 133 :: nat}"

fun after_break :: "string \<Rightarrow> string" where
  "after_break [] = []"
| "after_break (c # s) = (if c = CHR 0x0D \<and> s \<noteq> [] \<and> hd s = CHR 0x0A then tl s else s)"

lemma after_break_shorter: "length (after_break s) \<le> length s - 1"
  by (cases s) auto

function splitlines :: "string \<Rightarrow> string list" where
  "splitlines [] = []"
| "splitlines (c # s) =
     takeWhile (Not \<circ> is_linebreak) (c # s) # splitlines (after_break (dropWhile (Not \<circ> is_linebreak) (c # s)))"
  by pat_completeness auto
termination
proof (relation "measure length", simp)
  fix c and s :: string
  have "length (after_break (dropWhile (Not \<circ> is_linebreak) (c # s))) \<le> length (dropWhile (Not \<circ> is_linebreak) (c # s)) - 1"
    by (rule after_break_shorter)
  also have "\<dots> < length (c # s)" using length_dropWhile_le [of "Not \<circ> is_linebreak" "c # s"] by (simp del: dropWhile.simps)
  finally show "(after_break (dropWhile (Not \<circ> is_linebreak) (c # s)), c # s) \<in> measure length" by simp
qed

text \<open>\<open>line.count("$$")\<close>: the occurrences that do not overlap, from the left.\<close>

fun count_dollars :: "string \<Rightarrow> nat" where
  "count_dollars (c # d # s) = (if c = CHR ''$'' \<and> d = CHR ''$'' then Suc (count_dollars s) else count_dollars (d # s))"
| "count_dollars _ = 0"

definition py_rstrip :: "string \<Rightarrow> string" where
  "py_rstrip s = rev (dropWhile py_isspace (rev s))"

definition ends_with_semicolon :: "string \<Rightarrow> bool" where
  "ends_with_semicolon s \<longleftrightarrow> s \<noteq> [] \<and> last s = CHR '';''"

fun join_lines :: "string list \<Rightarrow> string" where
  "join_lines [] = []"
| "join_lines [l] = l"
| "join_lines (l # ls) = l @ CHR 0x0A # join_lines ls"

definition statement_of :: "string list \<Rightarrow> string list" where
  "statement_of buf = (let stmt = py_strip (join_lines buf) in if stmt = [] then [] else [stmt])"

fun split_lines :: "string list \<Rightarrow> bool \<Rightarrow> string list \<Rightarrow> string list" where
  "split_lines buf inside_dollar [] = statement_of buf"
| "split_lines buf inside_dollar (line # lines) =
     (let buf = buf @ [line];
          inside_dollar = (if count_dollars line mod 2 = 1 then \<not> inside_dollar else inside_dollar)
      in if \<not> inside_dollar \<and> ends_with_semicolon (py_rstrip line)
         then statement_of buf @ split_lines [] inside_dollar lines
         else split_lines buf inside_dollar lines)"

definition split_sql :: "string \<Rightarrow> string list" where
  "split_sql raw = split_lines [] False (splitlines raw)"

section \<open>One account is left\<close>

lemma get_walkin_account: "get_client_account WALKIN_USER_ID = walkin_survivor"
  by (simp add: fun_eq_iff get_client_account_def get_user_account_by_type_def walkin_survivor_def tbl_filter_by_def
      walkin_client_account_def conj_comms cong: filter_cong)

lemma filter_same_key: "distinct (map f xs) \<Longrightarrow> x \<in> set xs \<Longrightarrow> filter (\<lambda>y. f y = f x) xs = [x]"
proof (induction xs)
  case (Cons y ys)
  have "filter (\<lambda>z. f z = f x) ys = []" if "f x \<notin> f ` set ys" using that by (intro filter_False) (metis imageI)
  with Cons show ?case by auto
qed simp

lemma survivor_in: "walkin_survivor s = Some a \<Longrightarrow> a \<in> set (accounts s) \<and> walkin_client_account a"
proof -
  assume "walkin_survivor s = Some a"
  then obtain rest where "sort_key (\<lambda>a. (created_at a, row_id a)) (filter walkin_client_account (accounts s)) = a # rest"
    unfolding walkin_survivor_def limit_1_def by (auto split: list.splits)
  then have "a \<in> set (filter walkin_client_account (accounts s))" by (metis list.set_intros(1) set_sort)
  then show ?thesis by simp
qed

lemma no_survivor: "walkin_survivor s = None \<longleftrightarrow> filter walkin_client_account (accounts s) = []"
proof -
  have "limit_1 xs = None \<longleftrightarrow> xs = []" for xs :: "account_row list" by (simp add: limit_1_def split: list.splits)
  moreover have "sort_key k xs = [] \<longleftrightarrow> xs = []" for k :: "account_row \<Rightarrow> timestamp \<times> uuid" and xs by (metis length_0_conv length_sort)
  ultimately show ?thesis by (simp add: walkin_survivor_def)
qed

lemma archived_rest:
  assumes "distinct (map row_id (accounts s))" "walkin_survivor s = Some a"
  shows "filter walkin_client_account (accounts (archive_duplicates (row_id a) s)) = [a]"
proof -
  note a = survivor_in [OF assms(2)]
  let ?f = "\<lambda>b. if walkin_client_account b \<and> row_id b \<noteq> row_id a then b\<lparr>is_active := False\<rparr> else b"
  have keeps: "walkin_client_account (?f b) \<longleftrightarrow> row_id b = row_id a \<and> walkin_client_account b" for b
    by (auto simp: walkin_client_account_def)
  have "filter walkin_client_account (map ?f xs) = filter walkin_client_account (filter (\<lambda>b. row_id b = row_id a) xs)" for xs
    by (induction xs) (auto simp: keeps)
  then have "filter walkin_client_account (map ?f (accounts s)) = filter walkin_client_account [a]"
    by (simp only: filter_same_key [OF assms(1) conjunct1 [OF a]])
  with a show ?thesis by (simp add: archive_duplicates_def)
qed

lemma archived_money: "map (\<lambda>a. (row_id a, acc_user_id a, acc_balance a)) (accounts (archive_duplicates i s))
    = map (\<lambda>a. (row_id a, acc_user_id a, acc_balance a)) (accounts s)"
  by (simp add: archive_duplicates_def)

lemma archived_active_money:
  assumes "bad_duplicates i s = 0"
  shows "sum_list (map acc_balance (filter is_active (accounts (archive_duplicates i s)))) = sum_list (map acc_balance (filter is_active (accounts s)))"
proof -
  let ?f = "\<lambda>b. if walkin_client_account b \<and> row_id b \<noteq> i then b\<lparr>is_active := False\<rparr> else b"
  have "filter (\<lambda>a. walkin_client_account a \<and> row_id a \<noteq> i \<and> acc_balance a \<noteq> 0) xs = []
      \<Longrightarrow> sum_list (map acc_balance (filter is_active (map ?f xs))) = sum_list (map acc_balance (filter is_active xs))" for xs
    by (induction xs) (auto simp: walkin_client_account_def split: if_splits)
  with assms show ?thesis by (simp add: bad_duplicates_def archive_duplicates_def)
qed

text \<open>C21. After the walk-in customer's duplicate accounts were archived, the walk-in customer has one active client
  account, the one that the application was already using; running the migration again changes nothing; no account
  changes its balance and what the active accounts hold together is what they held before.\<close>

theorem walkin_dedupe_leaves_one:
  assumes "distinct (map row_id (accounts s))" and "walkin_dedupe s = Inr s'"
  shows "filter walkin_client_account (accounts s') = (case get_client_account WALKIN_USER_ID s of None \<Rightarrow> [] | Some a \<Rightarrow> [a])
    \<and> get_client_account WALKIN_USER_ID s' = get_client_account WALKIN_USER_ID s
    \<and> walkin_dedupe s' = Inr s'
    \<and> map (\<lambda>a. (row_id a, acc_user_id a, acc_balance a)) (accounts s') = map (\<lambda>a. (row_id a, acc_user_id a, acc_balance a)) (accounts s)
    \<and> sum_list (map acc_balance (filter is_active (accounts s'))) = sum_list (map acc_balance (filter is_active (accounts s)))
    \<and> s' = s\<lparr>accounts := accounts s'\<rparr>"
proof (cases "walkin_survivor s")
  case None
  with assms(2) show ?thesis using no_survivor [of s] by (simp add: walkin_dedupe_def get_walkin_account)
next
  case (Some a)
  with assms(2) have s': "s' = archive_duplicates (row_id a) s" and bad: "bad_duplicates (row_id a) s = 0"
    by (simp_all add: walkin_dedupe_def Let_def split: if_splits)
  have one: "filter walkin_client_account (accounts s') = [a]" using archived_rest [OF assms(1) Some] by (simp add: s')
  then have survivor: "walkin_survivor s' = Some a" by (simp add: walkin_survivor_def limit_1_def)
  have again: "walkin_client_account b \<Longrightarrow> row_id b = row_id a" if "b \<in> set (accounts s')" for b
  proof -
    assume "walkin_client_account b"
    with that have "b \<in> set (filter walkin_client_account (accounts s'))" by simp
    then show "row_id b = row_id a" by (simp add: one)
  qed
  then have none: "bad_duplicates (row_id a) s' = 0" by (simp add: bad_duplicates_def filter_empty_conv)
  have "map (\<lambda>b. if walkin_client_account b \<and> row_id b \<noteq> row_id a then b\<lparr>is_active := False\<rparr> else b) (accounts s') = accounts s'"
    using again by (intro map_idI) auto
  then have "archive_duplicates (row_id a) s' = s'" by (simp add: archive_duplicates_def)
  with none survivor have "walkin_dedupe s' = Inr s'" by (simp add: walkin_dedupe_def)
  then show ?thesis
    using archived_money [of "row_id a" s] archived_active_money [OF bad]
    by (simp add: get_walkin_account Some survivor one s' [symmetric]) (simp add: s' archive_duplicates_def)
qed

definition two_walkin_accounts :: db where
  "two_walkin_accounts = empty_db\<lparr>accounts :=
     [\<lparr>row_id = 31, is_active = True, created_at = 7, updated_at = 7, acc_user_id = WALKIN_USER_ID, acc_type = AT_CLIENT,
        acc_name = [], acc_balance = 0\<rparr>,
      \<lparr>row_id = 30, is_active = True, created_at = 5, updated_at = 5, acc_user_id = WALKIN_USER_ID, acc_type = AT_CLIENT,
        acc_name = [], acc_balance = 12\<rparr>]\<rparr>"

lemma walkin_dedupe_leaves_one_witness:
  "walkin_dedupe two_walkin_accounts = Inr (archive_duplicates 30 two_walkin_accounts)
   \<and> walkin_dedupe (archive_duplicates 30 two_walkin_accounts) = Inr (archive_duplicates 30 two_walkin_accounts)
   \<and> map is_active (accounts (archive_duplicates 30 two_walkin_accounts)) = [False, True]"
proof -
  have "distinct (map row_id (accounts two_walkin_accounts))"
    "walkin_dedupe two_walkin_accounts = Inr (archive_duplicates 30 two_walkin_accounts)"
    "map is_active (accounts (archive_duplicates 30 two_walkin_accounts)) = [False, True]" by code_simp+
  with walkin_dedupe_leaves_one [OF this(1,2)] show ?thesis by simp
qed

text \<open>The migration aborts exactly when a spare account holds money, and says how many do.\<close>

lemma walkin_dedupe_aborts:
  "walkin_dedupe s = Inl e \<longleftrightarrow> (\<exists>a. walkin_survivor s = Some a \<and> bad_duplicates (row_id a) s > 0
     \<and> e = Duplicates_With_Balance (bad_duplicates (row_id a) s))"
  by (auto simp: walkin_dedupe_def Let_def split: option.splits)

section \<open>A script keeps its text\<close>

lemma breaks_are_space: "is_linebreak c \<Longrightarrow> py_isspace c"
  by (auto simp: is_linebreak_def py_isspace_def)

abbreviation no_space :: "string \<Rightarrow> string" where
  "no_space s \<equiv> filter (\<lambda>c. \<not> py_isspace c) s"

lemma no_space_while: "no_space (dropWhile py_isspace s) = no_space s"
  by (induction s) auto

lemma no_space_strip: "no_space (py_strip s) = no_space s"
  by (simp add: py_strip_def rev_filter [symmetric] no_space_while)

lemma no_space_join: "no_space (join_lines ls) = no_space (concat ls)"
  by (induction ls rule: join_lines.induct) (auto simp: py_isspace_def)

lemma no_space_statement: "no_space (concat (statement_of buf)) = no_space (concat buf)"
  by (simp add: statement_of_def Let_def no_space_strip no_space_join split: if_splits)
    (metis no_space_join no_space_strip filter.simps(1))

lemma no_space_break: "no_space (after_break (dropWhile (Not \<circ> is_linebreak) s)) = no_space (dropWhile (Not \<circ> is_linebreak) s)"
proof (cases "dropWhile (Not \<circ> is_linebreak) s")
  case (Cons c t)
  then have "py_isspace c" using hd_dropWhile [of "Not \<circ> is_linebreak" s] by (simp add: breaks_are_space)
  moreover have "py_isspace (CHR 0x0A)" by (simp add: py_isspace_def)
  then have "no_space (after_break (c # t)) = no_space t" by (cases t) auto
  ultimately show ?thesis by (simp add: Cons)
next
  case Nil
  show ?thesis by (simp only: Nil after_break.simps)
qed

lemma no_space_lines: "no_space (concat (splitlines s)) = no_space s"
proof (induction s rule: splitlines.induct)
  case (2 c s)
  have "no_space (concat (splitlines (c # s)))
      = no_space (takeWhile (Not \<circ> is_linebreak) (c # s)) @ no_space (dropWhile (Not \<circ> is_linebreak) (c # s))"
    using 2 no_space_break [of "c # s"] by (simp del: takeWhile.simps dropWhile.simps)
  also have "\<dots> = no_space (c # s)" by (metis filter_append takeWhile_dropWhile_id)
  finally show ?case .
qed simp

lemma no_space_split: "no_space (concat (split_lines buf ins ls)) = no_space (concat (buf @ ls))"
  by (induction ls arbitrary: buf ins) (simp_all add: Let_def no_space_statement)

section \<open>Every statement but the last is whole\<close>

definition whole_statement :: "string \<Rightarrow> bool" where
  "whole_statement s \<longleftrightarrow> even (count_dollars s) \<and> ends_with_semicolon s"

lemma count_dollars_skip: "c \<noteq> CHR ''$'' \<Longrightarrow> count_dollars (c # s) = count_dollars s"
  by (cases s) auto

lemma count_dollars_append: "c \<noteq> CHR ''$'' \<Longrightarrow> count_dollars (s @ c # t) = count_dollars s + count_dollars t"
  by (induction s rule: count_dollars.induct) (auto simp: count_dollars_skip)

lemma count_dollars_snoc: "c \<noteq> CHR ''$'' \<Longrightarrow> count_dollars (s @ [c]) = count_dollars s"
  by (simp add: count_dollars_append)

lemma space_no_dollar: "py_isspace c \<Longrightarrow> c \<noteq> CHR ''$''"
  by (auto simp: py_isspace_def)

lemma count_dollars_strip: "count_dollars (py_strip s) = count_dollars s"
proof -
  have front: "count_dollars (dropWhile py_isspace t) = count_dollars t" for t
    by (induction t) (auto simp: count_dollars_skip space_no_dollar)
  have ends: "count_dollars (rev (dropWhile py_isspace t)) = count_dollars (rev t)" for t
    by (induction t) (auto simp: count_dollars_snoc space_no_dollar)
  show ?thesis by (simp add: py_strip_def ends front)
qed

lemma count_dollars_join: "count_dollars (join_lines (buf @ [l])) = count_dollars (join_lines buf) + count_dollars l"
  by (induction buf rule: join_lines.induct) (simp_all add: count_dollars_append)

definition semicolon_first :: "string \<Rightarrow> bool" where
  "semicolon_first s \<longleftrightarrow> (case dropWhile py_isspace s of [] \<Rightarrow> False | c # _ \<Rightarrow> c = CHR '';'')"

lemma semicolon_first_append: "semicolon_first s \<Longrightarrow> semicolon_first (s @ t)"
  by (induction s) (auto simp: semicolon_first_def)

lemma semicolon_first_space: "semicolon_first (s @ [c]) \<Longrightarrow> py_isspace c \<Longrightarrow> semicolon_first s"
  by (induction s) (auto simp: semicolon_first_def split: if_splits)

lemma semicolon_first_trim: "semicolon_first (rev s) \<Longrightarrow> semicolon_first (rev (dropWhile py_isspace s))"
  by (induction s) (auto dest: semicolon_first_space)

lemma ends_reverse: "ends_with_semicolon (rev (dropWhile py_isspace s)) = semicolon_first s"
  by (cases "dropWhile py_isspace s") (simp_all add: ends_with_semicolon_def semicolon_first_def last_rev del: dropWhile_eq_Nil_conv)

lemma join_ends: "\<exists>p. join_lines (buf @ [l]) = p @ l"
proof (induction buf rule: join_lines.induct)
  case (3 m k ls)
  then obtain p where "join_lines ((k # ls) @ [l]) = p @ l" by blast
  then show ?case by (intro exI [of _ "m @ CHR 0x0A # p"]) simp
qed auto

lemma stripped_ends: "ends_with_semicolon (py_rstrip l) \<Longrightarrow> ends_with_semicolon (py_strip (join_lines (buf @ [l])))"
  using join_ends [of buf l] semicolon_first_append [of "rev l"]
  by (auto simp: py_rstrip_def py_strip_def ends_reverse intro!: semicolon_first_trim)

lemma butlast_append_whole: "list_all whole_statement xs \<Longrightarrow> list_all whole_statement (butlast ys) \<Longrightarrow> list_all whole_statement (butlast (xs @ ys))"
  by (cases "ys = []") (auto simp: butlast_append list_all_iff dest: in_set_butlastD)

lemma whole_split:
  "(ins \<longleftrightarrow> odd (count_dollars (join_lines buf))) \<Longrightarrow> list_all whole_statement (butlast (split_lines buf ins ls))"
proof (induction ls arbitrary: buf ins)
  case Nil
  show ?case by (simp add: statement_of_def Let_def)
next
  case (Cons l ls)
  define ins' where "ins' = (if count_dollars l mod 2 = 1 then \<not> ins else ins)"
  have ins': "ins' \<longleftrightarrow> odd (count_dollars (join_lines (buf @ [l])))"
    using Cons.prems by (auto simp: ins'_def count_dollars_join odd_iff_mod_2_eq_one)
  have step: "split_lines buf ins (l # ls) =
      (if \<not> ins' \<and> ends_with_semicolon (py_rstrip l) then statement_of (buf @ [l]) @ split_lines [] ins' ls
       else split_lines (buf @ [l]) ins' ls)"
    by (simp only: split_lines.simps Let_def ins'_def [symmetric])
  show ?case
  proof (cases "\<not> ins' \<and> ends_with_semicolon (py_rstrip l)")
    case True
    with ins' have "list_all whole_statement (statement_of (buf @ [l]))"
      by (simp add: statement_of_def Let_def whole_statement_def count_dollars_strip stripped_ends)
    moreover have "list_all whole_statement (butlast (split_lines [] False ls))" by (rule Cons.IH) simp
    ultimately show ?thesis using True by (simp only: step if_True simp_thms butlast_append_whole)
  next
    case False
    with Cons.IH [OF ins'] show ?thesis by (simp only: step if_False)
  qed
qed

section \<open>Every statement is cut off where it ends\<close>

text \<open>A statement is over with a line that ends in a semicolon when the dollar quotes opened so far are closed.\<close>

definition statement_over :: "string list \<Rightarrow> bool" where
  "statement_over ls \<longleftrightarrow> even (count_dollars (join_lines ls)) \<and> ends_with_semicolon (py_rstrip (last ls))"

text \<open>No line before the last of these, and no line of these at all, ends a statement.\<close>

definition uncut :: "string list \<Rightarrow> bool" where
  "uncut ls \<longleftrightarrow> list_all (\<lambda>n. \<not> statement_over (take n ls)) [1..<length ls]"

definition unfinished :: "string list \<Rightarrow> bool" where
  "unfinished ls \<longleftrightarrow> list_all (\<lambda>n. \<not> statement_over (take n ls)) [1..<Suc (length ls)]"

lemma unfinished_snoc: "unfinished (ls @ [l]) \<longleftrightarrow> uncut (ls @ [l]) \<and> \<not> statement_over (ls @ [l])"
  by (simp add: unfinished_def uncut_def)

lemma uncut_snoc: "uncut (ls @ [l]) \<longleftrightarrow> unfinished ls"
  unfolding unfinished_def uncut_def list_all_iff by (intro ball_cong) auto

lemma unfinished_uncut: "unfinished ls \<Longrightarrow> uncut ls"
  by (simp add: unfinished_def uncut_def list_all_iff)

lemma split_into_groups:
  "(ins \<longleftrightarrow> odd (count_dollars (join_lines buf))) \<Longrightarrow> unfinished buf \<Longrightarrow>
   \<exists>gs. gs \<noteq> [] \<and> concat gs = buf @ ls \<and> split_lines buf ins ls = concat (map statement_of gs)
     \<and> list_all statement_over (butlast gs) \<and> list_all uncut gs \<and> [] \<notin> set (butlast gs)"
proof (induction ls arbitrary: buf ins)
  case Nil
  then show ?case by (intro exI [of _ "[buf]"]) (simp add: unfinished_uncut)
next
  case (Cons l ls)
  define ins' where "ins' = (if count_dollars l mod 2 = 1 then \<not> ins else ins)"
  have ins': "ins' \<longleftrightarrow> odd (count_dollars (join_lines (buf @ [l])))"
    using Cons.prems by (auto simp: ins'_def count_dollars_join odd_iff_mod_2_eq_one)
  have over: "statement_over (buf @ [l]) \<longleftrightarrow> \<not> ins' \<and> ends_with_semicolon (py_rstrip l)"
    by (simp add: statement_over_def ins')
  have step: "split_lines buf ins (l # ls) =
      (if statement_over (buf @ [l]) then statement_of (buf @ [l]) @ split_lines [] ins' ls else split_lines (buf @ [l]) ins' ls)"
    by (simp only: over split_lines.simps Let_def ins'_def [symmetric])
  show ?case
  proof (cases "statement_over (buf @ [l])")
    case True
    then have "ins' \<longleftrightarrow> odd (count_dollars (join_lines []))" by (simp add: over)
    moreover have "unfinished []" by (simp add: unfinished_def)
    ultimately obtain gs where "gs \<noteq> [] \<and> concat gs = [] @ ls \<and> split_lines [] ins' ls = concat (map statement_of gs)
        \<and> list_all statement_over (butlast gs) \<and> list_all uncut gs \<and> [] \<notin> set (butlast gs)"
      using Cons.IH by blast
    with True Cons.prems(2) show ?thesis
      by (intro exI [of _ "(buf @ [l]) # gs"]) (simp add: step uncut_snoc del: split_lines.simps)
  next
    case False
    with Cons.IH [OF ins'] Cons.prems(2) show ?thesis by (simp add: step unfinished_snoc uncut_snoc del: split_lines.simps)
  qed
qed

text \<open>
  C40. A script is cut into its statements, one at a time: its lines fall into groups, in order and without a loss, one
  statement being the text of one group (a group of white space is dropped); every group but the last ends where a
  statement is over, at a line that ends in a semicolon outside dollar quotes; and no group runs past such a line.
  So no text but white space is lost, and every statement but the last ends in a semicolon and closes every dollar quote that it opens.
\<close>

theorem split_sql_whole_statements:
  "(\<exists>gs. concat gs = splitlines raw \<and> split_sql raw = concat (map statement_of gs) \<and> [] \<notin> set (butlast gs)
      \<and> list_all (\<lambda>g. even (count_dollars (join_lines g)) \<and> ends_with_semicolon (py_rstrip (last g))) (butlast gs)
      \<and> list_all (\<lambda>g. list_all (\<lambda>n. \<not> (even (count_dollars (join_lines (take n g)))
          \<and> ends_with_semicolon (py_rstrip (last (take n g))))) [1..<length g]) gs)
   \<and> filter (\<lambda>c. \<not> py_isspace c) (concat (split_sql raw)) = filter (\<lambda>c. \<not> py_isspace c) raw
   \<and> list_all whole_statement (butlast (split_sql raw))"
  using split_into_groups [of False "[]" "splitlines raw"]
  by (simp add: split_sql_def no_space_split no_space_lines whole_split unfinished_def statement_over_def [abs_def] uncut_def [abs_def])
    blast

section \<open>The old credit columns\<close>

text \<open>Once the check has passed no contract has credit in use.\<close>

lemma preflight_clear: "credit_preflight cs = Inr () \<longleftrightarrow> list_all (\<lambda>c. old_credit_used c = 0 \<and> old_credit_limit c = 0) cs"
  by (auto simp: credit_preflight_def Let_def list_all_iff filter_empty_conv split: if_splits)

lemma backfilled_open: "backfilled_reservation ord \<Longrightarrow> old_status ord \<notin> {OS_DELIVERED, OS_PICKUP_COMPLETED, OS_CANCELLED}"
  by (auto simp: backfilled_reservation_def split: option.splits)

end
