(* ===== verification/Seeder.thy ===== *)
theory Seeder
  imports System Backoffice
begin

text \<open>
  The demonstration data, \<open>Seeder\<close> of \<open>src/core/seeder.py\<close>: products, warehouses, users, stock movements and orders, each step a
  session of its own that commits, with the ids found so far kept by name in the seeder. A step reads its dictionaries back
  after its commit. Names are transliterated.
\<close>

type_synonym 'a dict = "(string \<times> 'a) list"

text \<open>\<open>d[k] = v\<close>.\<close>

fun dict_put :: "string \<Rightarrow> 'a \<Rightarrow> 'a dict \<Rightarrow> 'a dict" where
  "dict_put k v [] = [(k, v)]"
| "dict_put k v ((j, w) # d) = (if j = k then (j, v) # d else (j, w) # dict_put k v d)"

record seeder =
  sd_products :: "uuid dict"
  sd_users :: "uuid dict"
  sd_inventories :: "uuid dict"

definition new_seeder :: seeder where
  "new_seeder = \<lparr>sd_products = [], sd_users = [], sd_inventories = []\<rparr>"

text \<open>A loop that carries a value.\<close>

primrec tx_fold :: "('x \<Rightarrow> 'a \<Rightarrow> ('s, 'e, 'a) tx) \<Rightarrow> 'x list \<Rightarrow> 'a \<Rightarrow> ('s, 'e, 'a) tx" where
  "tx_fold f [] a = tx_ret a"
| "tx_fold f (x # xs) a = tx_bind (f x a) (tx_fold f xs)"

definition scalar_one :: "'r list \<Rightarrow> 'r dbtx" where
  "scalar_one rows = tx_bind (scalar_one_or_none rows) (\<lambda>r. tx_require r (DbErr NoResultFound))"

section \<open>Products\<close>

definition hayot_tara :: string where "hayot_tara = ''[MOCK] Tara Hayot 19L''"
definition munavvar_tara :: string where "munavvar_tara = ''[MOCK] Tara MunavvarA 18.9L''"
definition hayot_water :: string where "hayot_water = ''[MOCK] Voda Hayot 19L''"
definition munavvar_water :: string where "munavvar_water = ''[MOCK] Voda MunavvarA 18.9L''"
definition pump :: string where "pump = ''[MOCK] Pompa mekhanicheskaya''"

definition containers_data :: "int dict" where
  "containers_data = [(hayot_tara, 50000), (munavvar_tara, 50000)]"

definition water_data :: "(string \<times> int \<times> string) list" where
  "water_data = [(hayot_water, 20000, hayot_tara), (munavvar_water, 25000, munavvar_tara)]"

definition equipment_data :: "int dict" where
  "equipment_data = [(pump, 15000)]"

definition seed_product :: "product_type \<Rightarrow> string \<Rightarrow> int \<Rightarrow> uuid option \<Rightarrow> unit dbtx" where
  "seed_product ty nm price returnable =
     tx_bind (tx_get (\<lambda>s. filter (\<lambda>p. prd_name p = nm) (products s))) (\<lambda>existing.
     tx_when (existing = []) (tx_bind (insert_product (product_draft returnable ty nm price [])) (\<lambda>_. tx_ret ())))"

definition ids_by_name :: "product_row list \<Rightarrow> uuid dict \<Rightarrow> uuid dict" where
  "ids_by_name ps m = fold (\<lambda>p. dict_put (prd_name p) (row_id p)) ps m"

definition seed_products_body :: "unit dbtx" where
  "seed_products_body =
     tx_bind (tx_for (\<lambda>(nm, price). seed_product PT_CONTAINER nm price None) containers_data) (\<lambda>_.
     tx_bind (tx_get (\<lambda>s. ids_by_name (products s) [])) (\<lambda>prod_map.
     tx_bind (tx_for (\<lambda>(nm, price, container). seed_product PT_WATER nm price (map_of prod_map container)) water_data) (\<lambda>_.
     tx_for (\<lambda>(nm, price). seed_product PT_EQUIPMENT nm price None) equipment_data)))"

definition seed_products :: "seeder \<Rightarrow> db \<Rightarrow> (app_error + seeder) \<times> db" where
  "seed_products sd = commit_then seed_products_body (\<lambda>_ s. Inr (sd\<lparr>sd_products := ids_by_name (products s) (sd_products sd)\<rparr>))"

section \<open>Warehouses\<close>

definition main_warehouse_name :: string where
  "main_warehouse_name = ''[MOCK] Glavnyy Sklad''"

definition system_user :: "user_row dbtx" where
  "system_user = tx_bind (tx_get (\<lambda>s. filter (\<lambda>u. usr_role u = R_SYSTEM) (users s))) scalar_one"

definition seed_inventory :: "(inventory_row \<Rightarrow> bool) \<Rightarrow> inventory_row \<Rightarrow> unit dbtx" where
  "seed_inventory p draft =
     tx_bind (tx_get (\<lambda>s. filter p (inventories s))) (\<lambda>rows.
     tx_bind (scalar_one_or_none rows) (\<lambda>existing.
     tx_when (existing = None) (tx_bind (insert_inventory draft) (\<lambda>_. tx_ret ()))))"

definition seed_warehouses_body :: "unit dbtx" where
  "seed_warehouses_body =
     tx_bind system_user (\<lambda>u.
     tx_bind (seed_inventory (\<lambda>v. inv_type v = IT_VIRTUAL_VENDOR) (inventory_draft (row_id u) IT_VIRTUAL_VENDOR ''VIRTUAL_VENDOR'')) (\<lambda>_.
     tx_bind (seed_inventory (\<lambda>v. inv_type v = IT_VIRTUAL_LOSS) (inventory_draft (row_id u) IT_VIRTUAL_LOSS ''VIRTUAL_LOSS'')) (\<lambda>_.
     seed_inventory (\<lambda>v. inv_name v = main_warehouse_name) (inventory_draft (row_id u) IT_WAREHOUSE main_warehouse_name))))"

definition note_warehouse :: "inventory_row \<Rightarrow> uuid dict \<Rightarrow> uuid dict" where
  "note_warehouse v m =
     (if inv_type v = IT_VIRTUAL_VENDOR then dict_put ''vendor'' (row_id v) m
      else if inv_name v = main_warehouse_name then dict_put ''main'' (row_id v) m else m)"

definition seed_warehouses :: "seeder \<Rightarrow> db \<Rightarrow> (app_error + seeder) \<times> db" where
  "seed_warehouses sd = commit_then seed_warehouses_body
     (\<lambda>_ s. Inr (sd\<lparr>sd_inventories := fold note_warehouse (inventories s) (sd_inventories sd)\<rparr>))"

section \<open>Users\<close>

definition couriers_data :: "(string \<times> string \<times> string) list" where
  "couriers_data =
     [(''+998000000002'', ''[MOCK] Kurer Aziz'', ''[MOCK] Mashina 01-A''),
      (''+998000000003'', ''[MOCK] Kurer Bobur'', ''[MOCK] Mashina 02-B''),
      (''+998000000004'', ''[MOCK] Kurer Timur'', ''[MOCK] Mashina 03-C'')]"

definition clients_data :: "(string \<times> string \<times> role) list" where
  "clients_data =
     [(''+998000000011'', ''[MOCK] Ivan Ivanov'', R_CLIENT_B2C),
      (''+998000000012'', ''[MOCK] Petr Petrov'', R_CLIENT_B2C),
      (''+998000000013'', ''[MOCK] Ofis IT'', R_CLIENT_B2B),
      (''+998000000014'', ''[MOCK] Anna Smirnova'', R_CLIENT_B2C),
      (''+998000000015'', ''[MOCK] Restoran Chaykhona'', R_CLIENT_B2B)]"

text \<open>The users joined with the identities of a phone.\<close>

definition users_of_phone :: "string \<Rightarrow> db \<Rightarrow> user_row list" where
  "users_of_phone phone s = concat (map (\<lambda>u.
     map (\<lambda>_. u) (filter (\<lambda>r. idn_user_id r = row_id u \<and> idn_provider_identity_id r = phone) (identities s))) (users s))"

definition seed_user :: "string \<Rightarrow> string \<Rightarrow> role \<Rightarrow> string \<Rightarrow> uuid dbtx" where
  "seed_user phone nm r password_hash =
     tx_bind (tx_get (users_of_phone phone)) (\<lambda>rows.
     tx_bind (scalar_one_or_none rows) (\<lambda>user.
     case user of
       Some u \<Rightarrow> tx_ret (row_id u)
     | None \<Rightarrow>
         tx_bind (insert_user (user_draft nm r)) (\<lambda>u.
         tx_bind (insert_identity (identity_draft (row_id u) AP_LOCAL phone (Some password_hash))) (\<lambda>_.
         tx_ret (row_id u)))))"

definition seed_account :: "uuid \<Rightarrow> account_type \<Rightarrow> string \<Rightarrow> unit dbtx" where
  "seed_account u ty nm =
     tx_bind (tx_get (\<lambda>s. filter (\<lambda>a. acc_user_id a = u) (accounts s))) (\<lambda>rows.
     tx_bind (scalar_one_or_none rows) (\<lambda>account.
     tx_when (account = None) (tx_bind (create_account u ty nm) (\<lambda>_. tx_ret ()))))"

definition seed_place :: "uuid \<Rightarrow> inventory_type \<Rightarrow> string \<Rightarrow> unit dbtx" where
  "seed_place u ty nm = seed_inventory (\<lambda>v. inv_user_id v = u \<and> inv_type v = ty) (inventory_draft u ty nm)"

definition seed_courier :: "string \<Rightarrow> string \<times> string \<times> string \<Rightarrow> unit dbtx" where
  "seed_courier password_hash c = (case c of (phone, nm, car) \<Rightarrow>
     tx_bind (seed_user phone nm R_COURIER password_hash) (\<lambda>u.
     tx_bind (seed_account u AT_COURIER (''Kassa '' @ nm)) (\<lambda>_.
     seed_place u IT_COURIER car)))"

definition seed_client :: "string \<Rightarrow> string \<times> string \<times> role \<Rightarrow> unit dbtx" where
  "seed_client password_hash c = (case c of (phone, nm, r) \<Rightarrow>
     tx_bind (seed_user phone nm r password_hash) (\<lambda>u.
     tx_bind (seed_account u AT_CLIENT (''Cchyot klienta '' @ nm)) (\<lambda>_.
     seed_place u IT_CLIENT (''Inventory for '' @ nm))))"

definition seed_users_body :: "(string \<Rightarrow> string) \<Rightarrow> unit dbtx" where
  "seed_users_body hash =
     (let password_hash = hash ''password123'' in
      tx_bind (tx_for (seed_courier password_hash) couriers_data) (\<lambda>_.
      tx_for (seed_client password_hash) clients_data))"

definition phones_of :: "uuid \<Rightarrow> db \<Rightarrow> string list" where
  "phones_of u s = map idn_provider_identity_id (filter (\<lambda>r. idn_user_id r = u) (identities s))"

definition note_users :: "db \<Rightarrow> uuid dict \<Rightarrow> uuid dict" where
  "note_users s m = fold (\<lambda>u. fold (\<lambda>phone. dict_put phone (row_id u)) (phones_of (row_id u) s)) (users s) m"

definition note_inventories :: "db \<Rightarrow> uuid dict \<Rightarrow> uuid dict" where
  "note_inventories s m = fold (\<lambda>v. fold (\<lambda>phone. dict_put phone (row_id v)) (phones_of (inv_user_id v) s)) (inventories s) m"

definition seed_users :: "(string \<Rightarrow> string) \<Rightarrow> seeder \<Rightarrow> db \<Rightarrow> (app_error + seeder) \<times> db" where
  "seed_users hash sd = commit_then (seed_users_body hash)
     (\<lambda>_ s. Inr (sd\<lparr>sd_users := note_users s (sd_users sd), sd_inventories := note_inventories s (sd_inventories sd)\<rparr>))"

section \<open>Stock movements\<close>

text \<open>\<open>self.products.get(product_name)\<close>, with the catalog as the second place to look.\<close>

definition seeded_product :: "string \<Rightarrow> seeder \<Rightarrow> (uuid \<times> seeder) dbtx" where
  "seeded_product nm sd = (case map_of (sd_products sd) nm of
     Some i \<Rightarrow> tx_ret (i, sd)
   | None \<Rightarrow>
       tx_bind (tx_get (\<lambda>s. filter (\<lambda>p. prd_name p = nm) (products s))) (\<lambda>rows.
       case rows of
         [] \<Rightarrow> tx_raise (KeyErr nm)
       | p # _ \<Rightarrow> tx_ret (row_id p, sd\<lparr>sd_products := dict_put nm (row_id p) (sd_products sd)\<rparr>)))"

definition seeded_item :: "string \<times> int \<Rightarrow> item list \<times> seeder \<Rightarrow> (item list \<times> seeder) dbtx" where
  "seeded_item it acc = (case acc of (lines, sd) \<Rightarrow>
     tx_bind (seeded_product (fst it) sd) (\<lambda>(i, sd'). tx_ret (lines @ [(i, snd it)], sd')))"

text \<open>\<open>_create_transfer\<close> with its default status; the lines and the entries of the ledger are flushed together.\<close>

definition seed_transfer :: "uuid \<Rightarrow> uuid \<Rightarrow> int dict \<Rightarrow> seeder \<Rightarrow> seeder dbtx" where
  "seed_transfer from_inv_id to_inv_id its sd =
     tx_bind system_user (\<lambda>u.
     tx_bind (insert_transfer (transfer_draft from_inv_id to_inv_id TT_INITIAL_BALANCE (row_id u) None None None None)) (\<lambda>t.
     tx_bind (tx_fold seeded_item its ([], sd)) (\<lambda>(lines, sd').
     tx_bind (post_items t lines) (\<lambda>_.
     tx_bind (post_stock t lines) (\<lambda>_.
     tx_ret sd')))))"

definition stock_movements :: "(string \<times> string \<times> int dict) list" where
  "stock_movements =
     [(''vendor'', ''main'', [(hayot_water, 500), (hayot_tara, 500), (munavvar_water, 500), (munavvar_tara, 500), (pump, 50)]),
      (''vendor'', ''+998000000011'', [(hayot_tara, 2)]),
      (''vendor'', ''+998000000013'', [(munavvar_tara, 10)]),
      (''vendor'', ''+998000000014'', [(hayot_tara, 1)]),
      (''vendor'', ''+998000000015'', [(munavvar_tara, 15), (hayot_tara, 5)]),
      (''main'', ''+998000000002'', [(hayot_water, 50), (munavvar_water, 20)]),
      (''main'', ''+998000000003'', [(munavvar_water, 40), (hayot_water, 10)])]"

definition seed_movement :: "string \<times> string \<times> int dict \<Rightarrow> seeder \<Rightarrow> seeder dbtx" where
  "seed_movement m sd = (case m of (from_key, to_key, its) \<Rightarrow>
     tx_bind (tx_require (map_of (sd_inventories sd) from_key) (KeyErr from_key)) (\<lambda>f.
     tx_bind (tx_require (map_of (sd_inventories sd) to_key) (KeyErr to_key)) (\<lambda>t.
     seed_transfer f t its sd)))"

definition seed_stock_movements :: "seeder \<Rightarrow> db \<Rightarrow> (app_error + seeder) \<times> db" where
  "seed_stock_movements sd = with_uow (tx_fold seed_movement stock_movements sd)"

section \<open>Orders\<close>

record order_seed =
  os_client_phone :: string
  os_status :: order_status
  os_courier_phone :: string
  os_items :: "int dict"

text \<open>An entry without a courier has the empty phone, which is what the code looks up then.\<close>

definition orders_data :: "order_seed list" where
  "orders_data =
     [\<lparr>os_client_phone = ''+998000000012'', os_status = OS_NEW, os_courier_phone = [], os_items = [(hayot_water, 2), (hayot_tara, 2)]\<rparr>,
      \<lparr>os_client_phone = ''+998000000011'', os_status = OS_IN_TRANSIT, os_courier_phone = ''+998000000002'', os_items = [(hayot_water, 2)]\<rparr>,
      \<lparr>os_client_phone = ''+998000000013'', os_status = OS_DELIVERED, os_courier_phone = ''+998000000003'', os_items = [(munavvar_water, 10)]\<rparr>,
      \<lparr>os_client_phone = ''+998000000014'', os_status = OS_NEW, os_courier_phone = [], os_items = [(hayot_water, 1), (pump, 1)]\<rparr>,
      \<lparr>os_client_phone = ''+998000000015'', os_status = OS_IN_TRANSIT, os_courier_phone = ''+998000000003'', os_items = [(munavvar_water, 15)]\<rparr>]"

definition product_by_id :: "uuid \<Rightarrow> product_row dbtx" where
  "product_by_id i = tx_bind (tx_get (\<lambda>s. filter (\<lambda>p. row_id p = i) (products s))) scalar_one"

definition seed_order_item :: "seeder \<Rightarrow> uuid \<Rightarrow> string \<times> int \<Rightarrow> int \<Rightarrow> int dbtx" where
  "seed_order_item sd order_id it amount = (case map_of (sd_products sd) (fst it) of
     None \<Rightarrow> tx_ret amount
   | Some i \<Rightarrow>
       tx_bind (product_by_id i) (\<lambda>p.
       tx_bind (insert_order_item (order_item_draft order_id (i, snd it) (prd_price p))) (\<lambda>_.
       tx_ret (amount + prd_price p * snd it))))"

definition empty_container :: "seeder \<Rightarrow> string \<times> int \<Rightarrow> int dict \<Rightarrow> int dict dbtx" where
  "empty_container sd it d = (case map_of (sd_products sd) (fst it) of
     None \<Rightarrow> tx_ret d
   | Some i \<Rightarrow>
       tx_bind (product_by_id i) (\<lambda>p.
       case prd_returnable_item_id p of
         None \<Rightarrow> tx_ret d
       | Some j \<Rightarrow>
           if prd_type p = PT_WATER
           then tx_bind (product_by_id j) (\<lambda>ret_p. tx_ret (dict_put (prd_name ret_p) (snd it) d))
           else tx_ret d))"

definition handle_delivered_order :: "order_seed \<Rightarrow> seeder \<Rightarrow> seeder dbtx" where
  "handle_delivered_order o_data sd =
     (case (map_of (sd_inventories sd) (os_courier_phone o_data), map_of (sd_inventories sd) (os_client_phone o_data)) of
        (Some c_inv, Some cl_inv) \<Rightarrow>
          let filled = fold (\<lambda>(nm, qty). dict_put nm qty) (os_items o_data) [] in
          tx_bind (seed_transfer c_inv cl_inv filled sd) (\<lambda>sd.
          tx_bind (tx_fold (empty_container sd) (os_items o_data) []) (\<lambda>empty_items.
          if empty_items = [] then tx_ret sd else seed_transfer cl_inv c_inv empty_items sd))
      | _ \<Rightarrow> tx_ret sd)"

definition seed_order :: "order_seed \<Rightarrow> seeder \<Rightarrow> seeder dbtx" where
  "seed_order o_data sd = (case map_of (sd_users sd) (os_client_phone o_data) of
     None \<Rightarrow> tx_ret sd
   | Some client_id \<Rightarrow>
       let courier_id = map_of (sd_users sd) (os_courier_phone o_data) in
       tx_bind (tx_require (map_of (sd_inventories sd) (os_client_phone o_data)) (DbErr (NotNullViolation ''client_inventory_id''))) (\<lambda>inv.
       tx_bind (insert_order ((order_draft client_id inv PM_CASH (os_status o_data) 0 False SALE_DELIVERY None None False None)
         \<lparr>ord_courier_id := courier_id\<rparr>)) (\<lambda>ord.
       tx_bind (tx_fold (seed_order_item sd (row_id ord)) (os_items o_data) 0) (\<lambda>total.
       tx_bind (tx_when (total \<noteq> 0) (update_order (row_id ord) (\<lambda>r. r\<lparr>ord_total_amount := total\<rparr>))) (\<lambda>_.
       if os_status o_data = OS_DELIVERED \<and> courier_id \<noteq> None then handle_delivered_order o_data sd else tx_ret sd)))))"

definition seed_orders :: "seeder \<Rightarrow> db \<Rightarrow> (app_error + seeder) \<times> db" where
  "seed_orders sd = with_uow (tx_fold seed_order orders_data sd)"

section \<open>The whole run\<close>

definition and_then :: "(app_error + 'a) \<times> db \<Rightarrow> ('a \<Rightarrow> db \<Rightarrow> (app_error + 'b) \<times> db) \<Rightarrow> (app_error + 'b) \<times> db" where
  "and_then r f = (case r of (Inl e, s) \<Rightarrow> (Inl e, s) | (Inr x, s) \<Rightarrow> f x s)"

text \<open>The first three steps make the master data, the last two work with it.\<close>

definition seed_master :: "(string \<Rightarrow> string) \<Rightarrow> seeder \<Rightarrow> db \<Rightarrow> (app_error + seeder) \<times> db" where
  "seed_master hash sd s = and_then (and_then (seed_products sd s) seed_warehouses) (seed_users hash)"

definition seed_all :: "(string \<Rightarrow> string) \<Rightarrow> seeder \<Rightarrow> db \<Rightarrow> (app_error + seeder) \<times> db" where
  "seed_all hash sd s = and_then (and_then (seed_master hash sd s) seed_stock_movements) seed_orders"

text \<open>The route \<open>POST /seed\<close>; the setting \<open>ENVIRONMENT\<close> is an argument. The seeder lives as long as the request.\<close>

definition office_seed_database where
  "office_seed_database hash decode token environment =
     secured (get_current_user decode [USERS_WRITE]) token (\<lambda>_ s.
     if environment = ''prod'' then (Inl (HttpErr (ForbiddenError ''SEEDER_DISABLED_IN_PROD'')), s)
     else seed_all hash new_seeder s)"

section \<open>What the seeder keeps\<close>

lemma keeps_fold [keeps_intro]: "(\<And>x a. x \<in> set xs \<Longrightarrow> keeps P (f x a)) \<Longrightarrow> keeps P (tx_fold f xs a)"
  by (induction xs arbitrary: a) (simp_all add: keeps_intro)

lemma keeps_scalar_one [keeps_intro]: "keeps P (scalar_one rows)"
  unfolding scalar_one_def by (intro keeps_intro)

lemma and_then_kept: "P (snd r) \<Longrightarrow> (\<And>x s. P s \<Longrightarrow> P (snd (f x s))) \<Longrightarrow> P (snd (and_then r f))"
  by (auto simp: and_then_def split: prod.splits sum.splits)

text \<open>A condition on the database that every statement of the seeder keeps.\<close>

locale seed_safe =
  fixes P :: "db \<Rightarrow> bool"
  assumes product: "keeps P (insert_product p)" and inventory: "keeps P (insert_inventory v)"
    and user: "keeps P (insert_user u)" and identity: "keeps P (insert_identity i)" and account: "keeps P (create_account k ty nm)"
    and transfer: "keeps P (insert_transfer tr)" and transfer_item: "keeps P (insert_transfer_item ti)"
    and stock_transaction: "keeps P (insert_stock_transaction st)"
    and order: "phase_ok (order_phase ord) \<Longrightarrow> keeps P (insert_order ord)" and order_item: "keeps P (insert_order_item it)"
    and order_total: "keeps P (update_order j (\<lambda>r. r\<lparr>ord_total_amount := t\<rparr>))"
begin

lemmas statements = product inventory user identity account transfer transfer_item stock_transaction order order_item order_total

lemma products_kept: "keeps P seed_products_body"
  unfolding seed_products_body_def seed_product_def by (intro keeps_intro statements)

lemma warehouses_kept: "keeps P seed_warehouses_body"
  unfolding seed_warehouses_body_def system_user_def seed_inventory_def by (intro keeps_intro statements)

lemma people_kept: "keeps P (seed_users_body hash)"
  unfolding seed_users_body_def seed_courier_def seed_client_def seed_user_def seed_account_def seed_place_def seed_inventory_def Let_def
  by (intro keeps_intro statements)

lemma transfer_kept: "keeps P (seed_transfer f t its sd)"
  unfolding seed_transfer_def system_user_def seeded_item_def seeded_product_def post_items_def post_stock_def
  by (intro keeps_intro statements)

lemma movements_kept: "keeps P (tx_fold seed_movement ms sd)"
  unfolding seed_movement_def by (intro keeps_intro transfer_kept)

lemma delivered_kept: "keeps P (handle_delivered_order d sd)"
  unfolding handle_delivered_order_def empty_container_def product_by_id_def Let_def by (intro keeps_intro transfer_kept)

lemma order_kept: "phase_ok (SALE_DELIVERY, os_status d) \<Longrightarrow> keeps P (seed_order d sd)"
  unfolding seed_order_def seed_order_item_def product_by_id_def Let_def
  by (intro keeps_intro statements delivered_kept) (simp_all add: order_phase_def order_draft_def)

lemma orders_kept: "keeps P (tx_fold seed_order orders_data sd)"
  by (rule keeps_fold, rule order_kept) (auto simp: orders_data_def phase_ok_def)

lemma steps_kept:
  "P s \<Longrightarrow> P (snd (seed_products sd s))" "P s \<Longrightarrow> P (snd (seed_warehouses sd s))" "P s \<Longrightarrow> P (snd (seed_users hash sd s))"
  "P s \<Longrightarrow> P (snd (seed_stock_movements sd s))" "P s \<Longrightarrow> P (snd (seed_orders sd s))"
  unfolding seed_products_def seed_warehouses_def seed_users_def seed_stock_movements_def seed_orders_def
  by (erule commit_then_keeps [OF products_kept] commit_then_keeps [OF warehouses_kept] commit_then_keeps [OF people_kept]
      with_uow_keeps [OF movements_kept] with_uow_keeps [OF orders_kept])+

lemma master_kept: "P s \<Longrightarrow> P (snd (seed_master hash sd s))"
  unfolding seed_master_def
  by (rule and_then_kept [where P = P, OF _ steps_kept(3)], rule and_then_kept [where P = P, OF _ steps_kept(2)]) (rule steps_kept(1))

lemma kept: "P s \<Longrightarrow> P (snd (seed_all hash sd s))"
  unfolding seed_all_def
  by (rule and_then_kept [where P = P, OF _ steps_kept(5)], rule and_then_kept [where P = P, OF _ steps_kept(4)]) (rule master_kept)

end

lemma frame_product [frame_intro]:
  "(\<And>s i. g (s\<lparr>next_id := i\<rparr>) = g s) \<Longrightarrow> (\<And>s f. g (products_update f s) = g s) \<Longrightarrow> frame g (insert_product p)"
  unfolding insert_product_def product_constraints_def by (intro frame_intro; simp)

lemma keeps_seeder_statements:
  "keeps fin_explained (insert_product p)" "keeps stock_explained (insert_product p)" "keeps quotas_ok (insert_product p)"
  "keeps users_ok (insert_product p)" "keeps users_ok (insert_order_item it)" "keeps users_ok (update_order j f)"
  "keeps protected_ok (insert_product p)" "keeps protected_ok (insert_order_item it)" "keeps protected_ok (update_order j f)"
  by ((rule fin_explained_frame stock_explained_frame quotas_ok_frame users_ok_frame protected_ok_frame; intro frame_intro; simp))+

interpretation seeded_money: seed_safe fin_explained
  by (unfold_locales; (intro keeps_intro keeps_seeder_statements)?)

interpretation seeded_goods: seed_safe stock_explained
  by (unfold_locales; (intro keeps_intro keeps_seeder_statements)?)

interpretation seeded_quotas: seed_safe quotas_ok
  by (unfold_locales; (intro keeps_intro keeps_seeder_statements)?)

interpretation seeded_accounts: seed_safe users_ok
  by (unfold_locales; (intro keeps_intro keeps_seeder_statements)?)

interpretation seeded_protected: seed_safe protected_ok
  by (unfold_locales; (intro keeps_intro keeps_seeder_statements)?)

lemma lifecycles_moved: "moves db_evolve m \<Longrightarrow> keeps lifecycles_ok m"
  by (auto simp: keeps_def moves_def intro: lifecycles_evolve)

interpretation seeded_lifecycles: seed_safe lifecycles_ok
proof
  show "keeps lifecycles_ok (insert_product p)" for p
    by (rule lifecycles_moved, rule moves_db_other; intro frame_intro; simp)
qed (rule lifecycles_moved; (intro moves_intro)?; assumption?)+

text \<open>In production the route changes nothing, whoever asks.\<close>

lemma seeding_disabled: "snd (office_seed_database hash decode token ''prod'' s) = s"
  by (auto simp: office_seed_database_def secured_def split: sum.splits)

text \<open>
  Demonstration data on top of a running system: whatever the step at which the seeder stops, the balances of money and of goods are still those
  of the histories, the quotas within their limits, the phones unique, the protected users there and the life cycles sound.
\<close>

lemma seeded_server_sound:
  assumes "reachable hash lower s"
  shows "fin_explained (snd (seed_all hash' sd s)) \<and> stock_explained (snd (seed_all hash' sd s)) \<and> quotas_ok (snd (seed_all hash' sd s))
    \<and> users_ok (snd (seed_all hash' sd s)) \<and> protected_ok (snd (seed_all hash' sd s)) \<and> lifecycles_ok (snd (seed_all hash' sd s))"
  using seeded_money.kept [OF money.everywhere [OF assms]] seeded_goods.kept [OF goods.everywhere [OF assms]]
    seeded_quotas.kept [OF quota_limits.everywhere [OF assms]] seeded_accounts.kept [OF accounts_of_users.everywhere [OF assms]]
    seeded_protected.kept [OF protected_users.everywhere [OF assms]] seeded_lifecycles.kept [OF lifecycles.everywhere [OF assms]]
  by blast

end
