(* ===== verification/Spec2Isabelle.thy ===== *)
theory Spec2Isabelle
  imports Billing ContractLaws Catalog Permissions Inventory Users OrderGuards
    Auth Onboarding Bootstrap Pagination System ApiLaws
    StockReportLaws SalesReportLaws ReportsApi Gateway
    DowngradeLaws DataMigrations Seeder
begin

text \<open>
  \<^bold>\<open>The program.\<close> House of Delivery sells bottled water: clients (private and companies with contracts) order, couriers
  deliver from their vehicles, warehouses sell at the counter, and the back office runs money, stock, contracts and
  users. The backend is a FastAPI application over PostgreSQL. A request is authorised by a token (\<open>src/modules/auth\<close>), its
  body is validated, and a route calls one service method; the method works inside a unit of work, and commits or
  rolls back. Two triggers keep the balances of the financial and of the stock ledger.

  \<^bold>\<open>Style of the model.\<close> The database is one record \<open>db\<close> of tables, each a list of row records in insertion order, with the
  clock and the next fresh id. A service method is a computation \<open>db \<Rightarrow> app_error + (value \<times> db)\<close> (Prelude), every raise of the source
  is an \<open>Inl\<close>; \<open>with_uow\<close> is \<open>async with self.uow\<close>: an error restores the state, and \<open>commit_then\<close> is what runs after an early commit. For each
  operation \<open>f\<close> whose transaction matters on its own, \<open>f_body\<close> is the inside of the unit of work and \<open>f\<close> the whole method.
  \<open>INTEGER\<close> and \<open>BIGINT\<close> columns are integers whose range is checked where a statement writes them.

  \<^bold>\<open>Theories, by layer.\<close>

  \<^item> Prelude, Base, Lifecycle, Ledger, Calendar, Codec: the transaction monad with its rules for invariants
    (\<open>keeps\<close>), frames and transitions (\<open>moves\<close>); tables and \<open>BaseRepository\<close> (\<open>src/common/repository.py\<close>); the locales
    \<open>lifecycle\<close> of a status column and of a double-entry ledger; dates; UTF-8, base64url and JSON.
  \<^item> Schema, Errors, Permissions, Samples: \<open>models.py\<close> and \<open>enums.py\<close> of the modules, the exceptions with their HTTP answers, the
    scopes of the roles, and a sample database for the witnesses.
  \<^item> Finances, Billing, Search: \<open>src/modules/finances\<close> with the trigger \<open>update_account_balances.sql\<close>. Shown: postings, verification and
    the cash desk move exactly their amount between the accounts that they are meant for; the ledger is append-only; statements reconcile; pages partition a listing; a search
    pattern matches literally.
  \<^item> Catalog, Stock, Inventory: \<open>src/modules/catalog\<close> and \<open>src/modules/inventory\<close> with the trigger
    \<open>update_inventory_balances.sql\<close>. Shown: the trigger refines the sum over the history; a transfer moves exactly its items and never
    overdraws its sender; capitalisation adds exactly the containers that a cart lacks; a guard of the catalog never fires.
  \<^item> Users, UserService, UserLaws, Auth, Onboarding, Bootstrap: \<open>src/modules/users\<close>, \<open>src/modules/auth\<close>, \<open>src/core/security\<close>,
    \<open>src/application\<close> and \<open>src/core/init.py\<close>. Shown: phones and identities stay unique, the protected users stay, a
    registration can log in, a token opens exactly the routes of the role, a blocked user is locked out.
  \<^item> OrderTables, Quotas, ContractTables, Contracts, ContractLaws, Fulfilment, Orders, OrderRules, OrderLaws, HandOverLaws,
    OrderGuards: \<open>src/modules/orders\<close> and \<open>src/modules/contracts\<close>. Shown: price snapshots, quotas booked and returned, the goods and the
    money of deliveries and pickups, partial deliveries, closing of contracts, invoices, the two nightly jobs, privacy of orders.
  \<^item> Aggregates, SalesReports, StockReports, StockListings, FleetReports with SalesReportLaws and StockReportLaws: the dashboards
    (\<open>dashboard_queries.py\<close> of orders, finances, inventory and users) and the two filtered listings of the stock ledger, over the grouping and the
    rounding of SQL and Python. Shown: the reports on sales agree with each other; the trend of the stock is the history of the ledger, shifted by what came after
    the period; the integrity check of the virtual accounts tests a sign; the total of the listing of balances is always 0.
  \<^item> Pagination: \<open>src/common/pagination.py\<close> and the cursor listings. Shown: tokens read back; following the cursors ends and
    lists every row once.
  \<^item> Requests, Api, Backoffice, ReportsApi, ApiLaws: the request schemas and the routes of \<open>src/api/v1\<close>; what a client's token opens.
  \<^item> Gateway: \<open>api_v1_router\<close>, every writing route of the API but that of the demonstration data as one call. Shown: the API refines the server below, and nothing
    changes without the password, the role and the token that the route asks for.
  \<^item> Ddl, Migrations, ModelTables, MigrationLaws, DowngradeLaws, DataMigrations: the revisions under \<open>alembic/versions\<close> as lists of DDL
    statements on a catalog of tables, indexes, functions, triggers and extensions with the enum types beside it, the tables that the
    mapped classes declare, what the migrations do to rows, and the cutting of the SQL scripts. Shown: the upgrades run and make the declared
    schema but for the differences written in \<open>deployed\<close>; the downgrades restore the catalog and leave the enum types, so that a
    second upgrade fails; the walk-in customer keeps one account; a script is cut where a statement ends and nowhere else.
  \<^item> Seeder: the demonstration data of \<open>src/core/seeder.py\<close>, written past the services, and its route, which is
    closed in production. Shown: whatever the step at which it stops, the
    invariants of the server still hold.
  \<^item> ServiceLaws, System and this theory: every writing method as an event, \<open>step\<close> and \<open>reachable\<close> as inductive relations from an
    empty database and \<open>init_data\<close>. The locales \<open>served_invariant\<close> and \<open>served_preorder\<close> carry an invariant or a preorder through every step; they are
    interpreted for the two ledgers, the quotas, the accounts, the users and the life cycles, which gives the first properties below.

  \<^bold>\<open>Fuel and termination.\<close> All definitions are total functions. The only fuel is the number of pages that the client of a cursor
  listing asks for (\<open>follow_cursors\<close>); that as many pages as rows, and one more, are enough is part of the property. A batch of
  \<open>expire_stale_orders\<close> takes at most 500 orders, as the code does.

  \<^bold>\<open>Queries.\<close> A query without \<open>ORDER BY\<close> lists rows in insertion order and groups in the order in which they are first met. The time zone of the
  session and of the server is UTC.

  \<^bold>\<open>Parameters.\<close> What is not in the repository is an argument: the password hash and its verification (\<open>pwdlib\<close>), the encoding and
  decoding of claims (\<open>PyJWT\<close>), the collation and the lower case of PostgreSQL, \<open>isoformat\<close> and \<open>fromisoformat\<close> in the codec of cursors. The assumptions on
  them are hypotheses of the properties that need them, with witnesses.

  \<^bold>\<open>Not modelled.\<close> Row locks, isolation levels and concurrent requests: requests run one after another. Texts of messages and the shapes
  of responses (only the status and code of an error are kept); Russian literals that the code compares or stores are
  transliterated. Middlewares, logging, configuration, the server, and the comments of columns in the migrations. The self-registration route builds a schema without its required
  password, so it fails on every request.
\<close>

section \<open>Every reachable state\<close>

text \<open>
  C1. Money is conserved: in every state the server reaches, whatever requests came in whatever order, the
  balances of all accounts add up to nothing and each is the sum of the completed transactions of its account.
\<close>

theorem reachable_money_conserved:
  assumes "reachable hash lower s"
  shows "sum_list (map acc_balance (accounts s)) = 0
    \<and> (\<forall>a\<in>set (accounts s). acc_balance a = ledger_balance (fin_journal s) (row_id a))"
proof -
  have ok: "fin_explained s" by (rule money.everywhere [OF assms])
  have "acct_balance s (row_id a) = acc_balance a" if "a \<in> set (accounts s)" for a
    using tbl_get_key [of "accounts s" a False] that ok
    by (simp add: fin_explained_def fin_ok_def acct_balance_def balance_in_def)
  with ok show ?thesis using fin_explained_closed [OF ok] by (auto simp: fin_explained_def)
qed

theorem reachable_money_conserved_witness:
  "sum_list (map acc_balance (accounts sample_server)) = 0 \<and> (\<exists>a\<in>set (accounts sample_server). acc_balance a = 500)"
proof -
  have "500 \<in> set (map acc_balance (accounts sample_server))" unfolding sample_server_money by simp
  then show ?thesis using reachable_money_conserved [OF sample_server_reachable] by auto
qed

text \<open>
  C2. Goods are conserved and no physical stock is negative: in every reachable state the balance that the trigger keeps
  for an inventory and a product is what \<open>get_balance\<close> sums from the history, and in a warehouse, a
  truck or at a client's address it is never below zero.
\<close>

theorem reachable_stock_covered:
  assumes "reachable hash lower s" and "v \<in> set (inventories s)"
  shows "stock_balance s (row_id v, p) = get_balance (row_id v) p None s
    \<and> (\<not> is_virtual (inv_type v) \<longrightarrow> 0 \<le> stock_balance s (row_id v, p))"
proof -
  have ok: "stock_explained s" by (rule goods.everywhere [OF assms(1)])
  then have "balances_ok (inventories s) (inventory_balances s)" by (simp add: stock_explained_def stock_ok_def)
  then have "0 \<le> stock_balance s (row_id v, p)" if "\<not> is_virtual (inv_type v)"
    using assms(2) that
    by (auto simp: balances_ok_def stock_balance_def stock_of_def bal_key_def dest!: find_Some_in split: option.splits)
  then show ?thesis
    using ok get_balance_ledger [of s "row_id v" p] by (simp add: stock_explained_def stock_ok_def)
qed

theorem reachable_stock_covered_witness:
  "\<exists>v\<in>set (inventories sample_server). inv_type v = IT_WAREHOUSE \<and> 0 \<le> stock_balance sample_server (row_id v, 115)
     \<and> stock_balance sample_server (row_id v, 115) = get_balance (row_id v) 115 None sample_server"
proof -
  have "\<exists>v\<in>set (inventories sample_server). inv_type v = IT_WAREHOUSE" by code_simp
  then obtain v where "v \<in> set (inventories sample_server)" "inv_type v = IT_WAREHOUSE" by blast
  with reachable_stock_covered [OF sample_server_reachable this(1), of 115] show ?thesis by (auto simp: is_virtual_def)
qed

text \<open>
  C3. Quotas are never overdrawn: in every reachable state what a line of a contract counts as used is at least zero and,
  when the line has a limit, at most the limit; and a contract has at most one line per product.
\<close>

theorem reachable_quotas_within_limits:
  assumes "reachable hash lower s" and "pi \<in> set (contract_price_items s)"
  shows "0 \<le> cpi_quantity_used pi \<and> (cpi_quantity pi \<noteq> 0 \<longrightarrow> cpi_quantity_used pi \<le> cpi_quantity pi)
    \<and> (\<forall>pi'\<in>set (contract_price_items s). cpi_contract_id pi' = cpi_contract_id pi
         \<and> cpi_product_id pi' = cpi_product_id pi \<longrightarrow> pi' = pi)"
  using quota_limits.everywhere [OF assms(1)] assms(2)
  by (auto simp: quotas_ok_def quota_ok_def item_key_def dest: distinct_key_eq)

theorem reachable_quotas_within_limits_witness:
  "\<exists>pi\<in>set (contract_price_items sample_server). cpi_quantity pi = 5 \<and> cpi_quantity_used pi = 3
     \<and> cpi_quantity_used pi \<le> cpi_quantity pi"
proof -
  have "(5, 3) \<in> set (map (\<lambda>pi. (cpi_quantity pi, cpi_quantity_used pi)) (contract_price_items sample_server))"
    unfolding sample_server_quota by simp
  then obtain pi where "pi \<in> set (contract_price_items sample_server)" "cpi_quantity pi = 5" "cpi_quantity_used pi = 3" by auto
  with reachable_quotas_within_limits [OF sample_server_reachable this(1)] show ?thesis by auto
qed

text \<open>
  C33. The users' tables are well formed in every reachable state: ids are unique, no two identities of a provider and no
  two additional phones share a number, every identity and phone belongs to a user, nobody has more than
  five additional phones, and the system user and the walk-in customer exist and are active.
\<close>

theorem reachable_users_well_formed:
  assumes "reachable hash lower s"
  shows "keys_distinct (users s) \<and> distinct (map identity_key (identities s)) \<and> distinct (map phn_phone (phone_numbers s))
    \<and> (\<forall>r\<in>set (identities s). tbl_has (idn_user_id r) (users s))
    \<and> (\<forall>r\<in>set (phone_numbers s). tbl_has (phn_user_id r) (users s))
    \<and> (\<forall>u. length (phones_of_user u s) \<le> 5)
    \<and> (\<forall>i\<in>PROTECTED_USER_IDS. \<exists>u. tbl_get i True (users s) = Some u)"
  using accounts_of_users.everywhere [OF assms] protected_users.everywhere [OF assms]
  by (simp add: users_ok_def protected_ok_def count_by_user_def phones_of_user_def MAX_ADDITIONAL_PHONES_def)

theorem reachable_users_well_formed_witness:
  "length (users sample_server) = 4 \<and> keys_distinct (users sample_server)
   \<and> (\<exists>u. tbl_get SYSTEM_USER_ID True (users sample_server) = Some u)
   \<and> (\<exists>u. tbl_get WALKIN_USER_ID True (users sample_server) = Some u)"
proof -
  have "length (users sample_server) = 4" by code_simp
  then show ?thesis using reachable_users_well_formed [OF sample_server_reachable] unfolding PROTECTED_USER_IDS_def by blast
qed

text \<open>
  C4. Life cycles only go forward: whatever happens between a reachable state and a later one, an order keeps its client, its address,
  its payment method and its contract, and its status moves along the transition tables; a contract keeps its
  client, number and legal name; an invoice its contract, number, period, amount and due date. What is delivered,
  picked up, cancelled, terminated, expired or paid stays so. In the later state, too, a client has at most one contract that is ACTIVE and
  not deleted (a suspended one does not count: while it is suspended another one may be activated).
\<close>

theorem life_cycles_go_forward:
  assumes "reachable hash lower s" and "runs hash lower s es s'"
  shows "(tbl_get i False (orders s) = Some r \<longrightarrow> (\<exists>r'. tbl_get i False (orders s') = Some r'
        \<and> ord_client_id r' = ord_client_id r \<and> ord_client_inventory_id r' = ord_client_inventory_id r
        \<and> ord_payment_method r' = ord_payment_method r \<and> ord_contract_id r' = ord_contract_id r
        \<and> order_step\<^sup>*\<^sup>* (order_phase r) (order_phase r')
        \<and> (ord_status r \<in> {OS_DELIVERED, OS_PICKUP_COMPLETED, OS_CANCELLED} \<longrightarrow> ord_status r' = ord_status r)))
    \<and> (tbl_get i False (contracts s) = Some c \<longrightarrow> (\<exists>c'. tbl_get i False (contracts s') = Some c'
        \<and> con_client_id c' = con_client_id c \<and> con_number c' = con_number c \<and> con_legal_name c' = con_legal_name c
        \<and> contract_step\<^sup>*\<^sup>* (con_status c) (con_status c')
        \<and> (con_status c \<in> {CS_TERMINATED, CS_EXPIRED} \<longrightarrow> con_status c' = con_status c)))
    \<and> (tbl_get i False (invoices s) = Some v \<longrightarrow> (\<exists>v'. tbl_get i False (invoices s') = Some v'
        \<and> ivc_contract_id v' = ivc_contract_id v \<and> ivc_number v' = ivc_number v \<and> ivc_amount v' = ivc_amount v
        \<and> ivc_period_from v' = ivc_period_from v \<and> ivc_period_to v' = ivc_period_to v \<and> ivc_due_date v' = ivc_due_date v
        \<and> invoice_step\<^sup>*\<^sup>* (ivc_status v) (ivc_status v')
        \<and> (ivc_status v \<in> {IS_PAID, IS_CANCELLED} \<longrightarrow> ivc_status v' = ivc_status v)))
    \<and> one_live_per_client (contracts s')"
proof -
  have ok: "lifecycles_ok s" "lifecycles_ok s'"
    using lifecycles.everywhere [OF assms(1)] lifecycles.runs_kept [OF assms(2)] by blast+
  note carried = order_carried contract_carried invoice_carried
  note carried = carried [OF evolution.runs_move [OF assms(2)] ok(1)]
  show ?thesis
    using ok(2) carried(1) [of i r] carried(2) [of i c] carried(3) [of i v]
    unfolding lifecycles_ok_def contracts_ok_def order_le_def contract_le_def invoice_le_def by blast
qed

theorem life_cycles_go_forward_witness:
  "\<exists>r'. tbl_get 130 False (orders (play (\<lambda>p. p) (\<lambda>c. c) [Tick 3, Request (Order_Request (Assign_Courier 130 112))]
     (after (\<lambda>p. p) (\<lambda>c. c) (Order_Request (Update_Status 130 OS_CANCELLED [] None None)) sample_server))) = Some r'
     \<and> ord_status r' = OS_CANCELLED"
proof -
  let ?s = "after (\<lambda>p. p) (\<lambda>c. c) (Order_Request (Update_Status 130 OS_CANCELLED [] None None)) sample_server"
  have "reachable (\<lambda>p. p) (\<lambda>c. c) ?s" by (rule reachable.step [OF sample_server_reachable step.request])
  note run = life_cycles_go_forward [OF this]
  have "map_option ord_status (tbl_get 130 False (orders ?s)) = Some OS_CANCELLED" by code_simp
  then obtain r where "tbl_get 130 False (orders ?s) = Some r" "ord_status r = OS_CANCELLED" by auto
  with run [of "[Tick 3, Request (Order_Request (Assign_Courier 130 112))]" _ 130 r] show ?thesis
    unfolding runs_play by force
qed

section \<open>Registration and login\<close>

text \<open>
  C34. Who was registered can log in: after \<open>register_local_user\<close> has returned, from any reachable state, a staff member who gives the phone and the
  password of the registration gets the token of the new user, and a password that does not verify is answered with
  \<open>INVALID_CREDENTIALS\<close>. Of the password library it is assumed that a hash is not empty and verifies its password.
\<close>

theorem register_then_login:
  assumes "reachable hash lower s" and reg: "register_local_user hash dto s = (Inr u, s')"
    and staff: "uac_role dto \<in> set STAFF_ROLES"
    and lib: "hash (uac_password dto) \<noteq> []" "verify (uac_password dto) (hash (uac_password dto)) = Some True"
  shows "local_login verify encode m jti (uac_phone dto) (uac_password dto) s' = Inr (build_token_response encode m jti u s')
    \<and> (verify password (hash (uac_password dto)) \<noteq> Some True
        \<longrightarrow> local_login verify encode m jti (uac_phone dto) password s' = Inl invalid_credentials)
    \<and> usr_role u = uac_role dto \<and> usr_username u = uac_username dto \<and> \<not> tbl_has (row_id u) (users s)"
proof -
  have ok: "users_ok s" by (rule accounts_of_users.everywhere [OF assms(1)])
  obtain r where r: "get_with_identity AP_LOCAL (uac_phone dto) s' = Some (u, r)" "idn_password_hash r = Some (hash (uac_password dto))"
    and u: "usr_role u = uac_role dto" "usr_username u = uac_username dto" "\<not> tbl_has (row_id u) (users s)"
    using registered_identity [OF ok reg] by blast
  have "authenticate_local_user verify (uac_phone dto) p s' =
      (if verify p (hash (uac_password dto)) = Some True then Inr u else Inl invalid_credentials)" for p
    using r lib(1) by (simp add: authenticate_local_user_def get_user_local_identity_def)
  then show ?thesis using staff lib(2) u by (simp add: local_login_def)
qed

theorem register_then_login_witness:
  "\<exists>u s'. register_local_user (\<lambda>p. p) \<lparr>uac_username = ''Cashier'', uac_role = R_CASHIER, uac_phone = ''996'',
       uac_password = ''pw1''\<rparr> sample_boot = (Inr u, s')
     \<and> local_login (\<lambda>p h. Some (p = h)) (\<lambda>c. c) 30 9 ''996'' ''pw1'' s' = Inr (build_token_response (\<lambda>c. c) 30 9 u s')
     \<and> local_login (\<lambda>p h. Some (p = h)) (\<lambda>c. c) 30 9 ''996'' ''pw2'' s' = Inl invalid_credentials"
proof -
  let ?dto = "\<lparr>uac_username = ''Cashier'', uac_role = R_CASHIER, uac_phone = ''996'', uac_password = ''pw1''\<rparr>"
  have "\<not> isl (fst (register_local_user (\<lambda>p. p) ?dto sample_boot))" by code_simp
  then obtain u s' where run: "register_local_user (\<lambda>p. p) ?dto sample_boot = (Inr u, s')" using run_ok by blast
  have "uac_role ?dto \<in> set STAFF_ROLES" by code_simp
  from register_then_login [where verify = "\<lambda>p h. Some (p = h)", OF sample_boot_reachable run this,
      of "\<lambda>c. c" 30 9 "''pw2''"] run
  show ?thesis by simp
qed

text \<open>
  A company registered without a phone is created and then not found: for a client without a phone, which the request schema allows for companies,
  whenever \<open>create_client\<close> commits the new client, its answer is \<open>USER_NOT_FOUND\<close> (404), because the card that is read
  back needs a local identity. The client, its account and its address stay in the database.
\<close>

theorem create_client_without_phone:
  assumes "reachable hash lower s" and "clr_phone dto = None" and "client_request_ok (clr_role dto) (clr_phone dto)"
    and "create_client_body dto s = Inr (i, s')"
  shows "create_client dto s = (Inl (UserErr (UserNotFoundError i)), s')
    \<and> error_response (UserErr (UserNotFoundError i)) = (404, ''USER_NOT_FOUND'')
    \<and> (\<exists>u. get_client_by_id i s' = Some u \<and> usr_username u = clr_username dto) \<and> \<not> tbl_has i (users s)"
proof -
  have ok: "users_ok s" by (rule accounts_of_users.everywhere [OF assms(1)])
  obtain u where u: "get_client_by_id i s' = Some u" "usr_username u = clr_username dto" "\<not> tbl_has i (users s)"
    and none: "filter (\<lambda>r. idn_user_id r = i \<and> idn_provider r = AP_LOCAL) (identities s') = []"
    using created_without_phone [OF ok assms(2-4)] by blast
  then have "get_client_card i s' = Inl (UserErr (UserNotFoundError i))"
    by (simp add: get_client_card_def read_only_def client_card_of_def get_local_by_user_def get_by_user_and_provider_def
      scalar_one_or_none_def one_or_none_def tx_run_defs)
  with u assms(4) show ?thesis by (simp add: create_client_def commit_then_def http_response_def)
qed

theorem create_client_without_phone_witness:
  "\<exists>i s'. create_client \<lparr>clr_username = ''Firm'', clr_phone = None, clr_role = R_CLIENT_B2B, clr_address_name = Some ''Office''\<rparr>
     sample_boot = (Inl (UserErr (UserNotFoundError i)), s') \<and> (\<exists>u. get_client_by_id i s' = Some u \<and> usr_username u = ''Firm'')"
proof -
  let ?dto = "\<lparr>clr_username = ''Firm'', clr_phone = None, clr_role = R_CLIENT_B2B, clr_address_name = Some ''Office''\<rparr>"
  have "\<not> isl (create_client_body ?dto sample_boot)" by code_simp
  then obtain i s' where run: "create_client_body ?dto sample_boot = Inr (i, s')" by (metis sum.collapse(2) surj_pair)
  have "client_request_ok (clr_role ?dto) (clr_phone ?dto)" by code_simp
  from create_client_without_phone [OF sample_boot_reachable _ this run] show ?thesis by auto
qed

end
